(* ===== verification/Prelude.thy ===== *)
theory Prelude
  imports Complex_Main "HOL-Library.AList" "HOL-Library.Char_ord" "HOL-Library.List_Lexorder"
    "HOL-Library.Product_Lexorder" "HOL-Library.Sublist"
    "HOL-Library.Multiset"
begin

text \<open>
  The vocabulary the component theories share.

  \<^item> Python strings are HOL strings: a character is a code point below 256, compared by code
    point, so \<open><\<close> on strings is the list lexicographic order. The string methods the program calls
    (\<open>lower\<close>, \<open>strip\<close>, \<open>split\<close>, \<open>replace\<close>, \<open>removeprefix\<close>, \<open>isdigit\<close>, \<open>in\<close>, \<open>join\<close>) are
    defined on that range as Python defines them.
  \<^item> A Python dictionary is an association list in insertion order: a store of a new key appends,
    a store of a present key replaces in place (\<open>AList.update\<close>), \<open>pop\<close> is \<open>AList.delete\<close>.
  \<^item> A Python float is the rational number its shortest decimal form denotes. That reading is
    strictly monotone, so the comparisons with the literals of the source are exact.
  \<^item> A timestamp is an integer number of microseconds; a clock reading of an operation is an
    argument of its definition.
  \<^item> A raised exception is a value of \<open>py_error\<close> on the left of a sum.
\<close>

section \<open>Automation collections\<close>

named_theorems dict_simps \<open>lookup and key facts of insertion-ordered dictionaries\<close>
named_theorems sort_simps \<open>what the stable sorts keep of a list\<close>

section \<open>Exceptions and results\<close>

datatype py_error =
    KeyError string
  | ValueError string
  | PyTypeError string
  | ValidationError string
  | HTTPException int string
  | RuntimeError string
  | ModelPolicyError string
  | ModelRegistryError string
  | MaskingPolicyViolationError string "string list" "string option"
  | ArtifactAccessError
  | FileNotFoundError
  | OtherException string

type_synonym 'a result = "py_error + 'a"

type_synonym time = int

definition is_ok :: "'a result \<Rightarrow> bool" where
  "is_ok r = (case r of Inl _ \<Rightarrow> False | Inr _ \<Rightarrow> True)"

lemma is_ok_simps [simp]: "is_ok (Inr x)" "\<not> is_ok (Inl e)"
  by (simp_all add: is_ok_def)

section \<open>Dictionaries in insertion order\<close>

type_synonym ('k, 'v) dict = "('k \<times> 'v) list"

abbreviation dget :: "('k, 'v) dict \<Rightarrow> 'k \<Rightarrow> 'v option" where
  "dget \<equiv> map_of"

abbreviation dset :: "'k \<Rightarrow> 'v \<Rightarrow> ('k, 'v) dict \<Rightarrow> ('k, 'v) dict" where
  "dset \<equiv> AList.update"

abbreviation dpop :: "'k \<Rightarrow> ('k, 'v) dict \<Rightarrow> ('k, 'v) dict" where
  "dpop \<equiv> AList.delete"

abbreviation dkeys :: "('k, 'v) dict \<Rightarrow> 'k list" where
  "dkeys \<equiv> map fst"

abbreviation dvals :: "('k, 'v) dict \<Rightarrow> 'v list" where
  "dvals \<equiv> map snd"

definition dhas :: "('k, 'v) dict \<Rightarrow> 'k \<Rightarrow> bool" where
  "dhas d k = (k \<in> set (dkeys d))"

definition dict_ok :: "('k, 'v) dict \<Rightarrow> bool" where
  "dict_ok d = distinct (dkeys d)"

definition dict_of :: "('k \<times> 'v) list \<Rightarrow> ('k, 'v) dict" where
  \<comment> \<open>a dictionary display or comprehension: later pairs overwrite earlier ones in place\<close>
  "dict_of kvs = foldl (\<lambda>d kv. dset (fst kv) (snd kv) d) [] kvs"

lemma dict_ok_Nil [simp]: "dict_ok []"
  by (simp add: dict_ok_def)

lemma dict_ok_dset [simp, intro]: "dict_ok d \<Longrightarrow> dict_ok (dset k v d)"
  by (simp add: dict_ok_def distinct_update)

lemma dict_ok_dpop [simp, intro]: "dict_ok d \<Longrightarrow> dict_ok (dpop k d)"
  by (simp add: dict_ok_def distinct_delete)

lemma dget_dset [simp, dict_simps]: "dget (dset k v d) k' = (if k' = k then Some v else dget d k')"
  by (simp add: update_conv' map_upd_Some_unfold fun_upd_def)

lemma dget_dpop [simp, dict_simps]: "dget (dpop k d) k' = (if k' = k then None else dget d k')"
  by (simp add: delete_conv')

lemma set_dkeys_dset [simp, dict_simps]: "fst ` set (dset k v d) = insert k (fst ` set d)"
  using dom_update [of k v d] by simp

lemma dset_fresh: "k \<notin> set (dkeys d) \<Longrightarrow> dset k v d = d @ [(k, v)]"
  by (induction d) auto

lemma dkeys_dset: "dkeys (dset k v d) = (if k \<in> set (dkeys d) then dkeys d else dkeys d @ [k])"
  by (induction d) auto

lemma length_dset: "length (dset k v d) = (if k \<in> set (dkeys d) then length d else Suc (length d))"
  by (induction d) auto

lemma set_dvals_dset: "set (dvals (dset k v d)) \<subseteq> insert v (set (dvals d))"
  by (induction d) auto

lemma dget_in_vals: "dget d k = Some v \<Longrightarrow> v \<in> set (dvals d)"
  by (force dest: map_of_SomeD)

lemma dget_iff: "dict_ok d \<Longrightarrow> dget d k = Some v \<longleftrightarrow> (k, v) \<in> set d"
  by (simp add: dict_ok_def)

lemma dvals_dget: "dict_ok d \<Longrightarrow> v \<in> set (dvals d) \<longleftrightarrow> (\<exists>k. dget d k = Some v)"
  by (force simp: dget_iff)

lemma dget_None_iff [dict_simps]: "dget d k = None \<longleftrightarrow> k \<notin> set (dkeys d)"
  by (simp add: map_of_eq_None_iff)

lemma dhas_dget: "dhas d k \<longleftrightarrow> dget d k \<noteq> None"
  by (simp add: dhas_def map_of_eq_None_iff)

lemma foldl_dset_ok: "dict_ok d \<Longrightarrow> dict_ok (foldl (\<lambda>d kv. dset (fst kv) (snd kv) d) d kvs)"
  by (induction kvs arbitrary: d) auto

lemma dict_ok_dict_of [simp, intro]: "dict_ok (dict_of kvs)"
  by (simp add: dict_of_def foldl_dset_ok)

lemma foldl_dset_get:
  "dget (foldl (\<lambda>d kv. dset (fst kv) (snd kv) d) d kvs) k =
     (case dget (rev kvs) k of Some v \<Rightarrow> Some v | None \<Rightarrow> dget d k)"
proof (induction kvs arbitrary: d)
  case Nil
  then show ?case by simp
next
  case (Cons kv kvs)
  then show ?case by (auto simp: map_add_def split: option.splits)
qed

lemma dget_dict_of [dict_simps]: "dget (dict_of kvs) k = dget (rev kvs) k"
  by (simp add: dict_of_def foldl_dset_get split: option.splits)

lemma foldl_dset_keys:
  "fst ` set (foldl (\<lambda>d kv. dset (fst kv) (snd kv) d) d kvs) = fst ` set d \<union> fst ` set kvs"
  by (induction kvs arbitrary: d) auto

lemma set_dkeys_dict_of [simp, dict_simps]: "fst ` set (dict_of kvs) = fst ` set kvs"
  by (simp only: dict_of_def foldl_dset_keys) simp

lemma foldl_dset_distinct:
  "distinct (dkeys d @ dkeys kvs) \<Longrightarrow> foldl (\<lambda>d kv. dset (fst kv) (snd kv) d) d kvs = d @ kvs"
proof (induction kvs arbitrary: d)
  case Nil
  then show ?case by simp
next
  case (Cons kv kvs)
  then show ?case
    by (cases kv) (simp add: dset_fresh image_iff)
qed

lemma dict_of_distinct: "distinct (dkeys kvs) \<Longrightarrow> dict_of kvs = kvs"
  by (simp add: dict_of_def foldl_dset_distinct)

lemma in_dset: "kv \<in> set (dset k v d) \<Longrightarrow> kv = (k, v) \<or> kv \<in> set d"
  by (induction d) (auto split: if_splits)

lemma in_dvals_dset: "w \<in> set (dvals (dset k v d)) \<Longrightarrow> w = v \<or> w \<in> set (dvals d)"
  using in_dset [of _ k v d] by fastforce

text \<open>A dictionary whose values stand under the key they carry themselves.\<close>

definition dict_by :: "('v \<Rightarrow> 'k) \<Rightarrow> ('k, 'v) dict \<Rightarrow> bool" where
  "dict_by f d = (dict_ok d \<and> (\<forall>kv\<in>set d. f (snd kv) = fst kv))"

lemma dict_by_Nil [simp]: "dict_by f []"
  by (simp add: dict_by_def)

lemma dict_by_ok: "dict_by f d \<Longrightarrow> dict_ok d"
  by (simp add: dict_by_def)

lemma dict_by_dset [simp, intro]: "dict_by f d \<Longrightarrow> k = f v \<Longrightarrow> dict_by f (dset k v d)"
  by (auto simp: dict_by_def dest!: in_dset)

lemma dict_by_get: "dict_by f d \<Longrightarrow> dget d k = Some v \<Longrightarrow> f v = k"
  by (auto simp: dict_by_def dest!: map_of_SomeD)

lemma dict_by_vals: "dict_by f d \<Longrightarrow> v \<in> set (dvals d) \<longleftrightarrow> dget d (f v) = Some v"
  by (metis dget_in_vals dict_by_get dict_by_ok dvals_dget)

text \<open>Appending to the list a \<open>defaultdict(list)\<close> holds under a key.\<close>

definition dappend :: "'k \<Rightarrow> 'a \<Rightarrow> ('k, 'a list) dict \<Rightarrow> ('k, 'a list) dict" where
  "dappend k x d = dset k ((case dget d k of None \<Rightarrow> [] | Some xs \<Rightarrow> xs) @ [x]) d"

definition dlist :: "('k, 'a list) dict \<Rightarrow> 'k \<Rightarrow> 'a list" where
  \<comment> \<open>reading a \<open>defaultdict(list)\<close>\<close>
  "dlist d k = (case dget d k of None \<Rightarrow> [] | Some xs \<Rightarrow> xs)"

lemma dlist_Nil [simp]: "dlist [] k = []"
  by (simp add: dlist_def)

lemma dlist_dset [simp, dict_simps]: "dlist (dset k v d) k' = (if k' = k then v else dlist d k')"
  by (simp add: dlist_def)

definition group_by :: "('a \<Rightarrow> 'k) \<Rightarrow> 'a list \<Rightarrow> ('k, 'a list) dict" where
  \<comment> \<open>the loop \<open>for x in xs: d[key(x)].append(x)\<close>\<close>
  "group_by f xs = foldl (\<lambda>d x. dappend (f x) x d) [] xs"

lemma foldl_dappend_list:
  "dlist (foldl (\<lambda>d x. dappend (f x) x d) d xs) k = dlist d k @ filter (\<lambda>x. f x = k) xs"
  by (induction xs arbitrary: d) (auto simp: dlist_def dappend_def split: option.splits)

lemma dlist_group_by [simp]: "dlist (group_by f xs) k = filter (\<lambda>x. f x = k) xs"
  by (simp add: group_by_def foldl_dappend_list)

lemma foldl_dappend_keys:
  "fst ` set (foldl (\<lambda>d x. dappend (f x) x d) d xs) = fst ` set d \<union> f ` set xs"
  by (induction xs arbitrary: d) (auto simp: dappend_def)

lemma set_dkeys_group_by [simp]: "fst ` set (group_by f xs) = f ` set xs"
  by (simp only: group_by_def foldl_dappend_keys) simp

lemma foldl_dappend_ok: "dict_ok d \<Longrightarrow> dict_ok (foldl (\<lambda>d x. dappend (f x) x d) d xs)"
  by (induction xs arbitrary: d) (auto simp: dappend_def)

lemma dict_ok_group_by [simp, intro]: "dict_ok (group_by f xs)"
  by (simp add: group_by_def foldl_dappend_ok)

lemma in_group_by:
  assumes "(k, ys) \<in> set (group_by f xs)"
  shows "ys = filter (\<lambda>x. f x = k) xs"
proof -
  from assms have "dget (group_by f xs) k = Some ys" by (simp add: dget_iff)
  then have "ys = dlist (group_by f xs) k" by (simp add: dlist_def)
  then show ?thesis by simp
qed

lemma mset_concat_dset:
  "dict_ok d \<Longrightarrow>
     mset (concat (dvals (dset k v d))) + (case dget d k of None \<Rightarrow> {#} | Some w \<Rightarrow> mset w)
       = mset (concat (dvals d)) + mset v"
  by (induction d) (auto simp: dict_ok_def map_of_eq_None_iff image_iff split: option.splits)

lemma mset_group_by_aux:
  "dict_ok d \<Longrightarrow> (\<forall>k ys. (k, ys) \<in> set d \<longrightarrow> (\<forall>y\<in>set ys. f y = k)) \<Longrightarrow>
     mset (concat (dvals (foldl (\<lambda>d x. dappend (f x) x d) d xs))) = mset (concat (dvals d)) + mset xs"
proof (induction xs arbitrary: d)
  case Nil
  then show ?case by simp
next
  case (Cons x xs)
  have one: "mset (concat (dvals (dappend (f x) x d))) = mset (concat (dvals d)) + {#x#}"
    using mset_concat_dset [OF Cons.prems(1), of "f x" "(case dget d (f x) of None \<Rightarrow> [] | Some xs \<Rightarrow> xs) @ [x]"]
    by (cases "dget d (f x)") (auto simp: dappend_def)
  have "dict_ok (dappend (f x) x d)"
    using Cons.prems(1) by (auto simp: dappend_def)
  moreover have "\<forall>k ys. (k, ys) \<in> set (dappend (f x) x d) \<longrightarrow> (\<forall>y\<in>set ys. f y = k)"
  proof (intro allI impI)
    fix k ys assume "(k, ys) \<in> set (dappend (f x) x d)"
    then have "dget (dappend (f x) x d) k = Some ys"
      using \<open>dict_ok (dappend (f x) x d)\<close> by (simp add: dget_iff)
    then show "\<forall>y\<in>set ys. f y = k"
      using Cons.prems
      by (auto simp: dappend_def dget_iff split: if_splits option.splits)
  qed
  ultimately show ?case
    using Cons.IH [of "dappend (f x) x d"] one by simp
qed

lemma mset_group_by: "mset (concat (dvals (group_by f xs))) = mset xs"
  using mset_group_by_aux [of "[]" f xs] by (simp add: group_by_def)

section \<open>Lists\<close>

text \<open>\<open>list(dict.fromkeys(xs))\<close>: the first occurrence of every element, in order.\<close>

fun fromkeys :: "'a list \<Rightarrow> 'a list" where
  "fromkeys [] = []"
| "fromkeys (x # xs) = x # removeAll x (fromkeys xs)"

lemma set_fromkeys [simp]: "set (fromkeys xs) = set xs"
  by (induction xs) auto

lemma distinct_fromkeys [simp]: "distinct (fromkeys xs)"
  by (induction xs) (auto simp: distinct_removeAll)

lemma fromkeys_distinct: "distinct xs \<Longrightarrow> fromkeys xs = xs"
  by (induction xs) auto

lemma fromkeys_idem [simp]: "fromkeys (fromkeys xs) = fromkeys xs"
  by (simp add: fromkeys_distinct)

lemma fromkeys_Nil_iff [simp]: "fromkeys xs = [] \<longleftrightarrow> xs = []"
  by (cases xs) auto

lemma filter_eq_Cons_head:
  assumes "filter P xs = y # ys"
  shows "y \<in> set xs \<and> P y"
proof -
  have "y \<in> set (filter P xs)" by (simp add: assms)
  then show ?thesis by simp
qed

text \<open>\<open>sorted(xs, key=f)\<close> is \<open>sort_key f xs\<close>; with \<open>reverse=True\<close> equal elements keep their order.\<close>

definition sort_key_rev :: "('a \<Rightarrow> 'k::linorder) \<Rightarrow> 'a list \<Rightarrow> 'a list" where
  "sort_key_rev f xs = rev (sort_key f (rev xs))"

lemma set_sort_key_rev [simp, sort_simps]: "set (sort_key_rev f xs) = set xs"
  by (simp add: sort_key_rev_def)

lemma mset_sort_key_rev [simp, sort_simps]: "mset (sort_key_rev f xs) = mset xs"
  by (simp add: sort_key_rev_def)

lemma length_sort_key_rev [simp, sort_simps]: "length (sort_key_rev f xs) = length xs"
  by (simp add: sort_key_rev_def)

lemma concat_mset_sort:
  "mset (concat (map g (sort_key f xs))) = mset (concat (map g xs))"
proof -
  have "mset (concat (map g ys)) = (\<Sum>x\<in>#mset ys. mset (g x))" for ys
    by (induction ys) auto
  then show ?thesis by simp
qed

lemma sorted_sort_key_rev: "sorted_wrt (\<lambda>x y. f y \<le> f x) (sort_key_rev f xs)"
proof -
  have "sorted (map f (sort_key f (rev xs)))" by simp
  then show ?thesis
    by (simp add: sort_key_rev_def sorted_wrt_rev sorted_wrt_map)
qed

text \<open>\<open>max(xs, key=f)\<close>: the first element with the greatest key.\<close>

fun max_by :: "('a \<Rightarrow> 'k::linorder) \<Rightarrow> 'a \<Rightarrow> 'a list \<Rightarrow> 'a" where
  "max_by f best [] = best"
| "max_by f best (x # xs) = max_by f (if f best < f x then x else best) xs"

lemma max_by_in: "max_by f best xs \<in> insert best (set xs)"
  by (induction xs arbitrary: best) (auto split: if_splits)

lemma max_by_ge_best: "f best \<le> f (max_by f best xs)"
  by (induction xs arbitrary: best) (auto intro: order_trans less_imp_le split: if_splits)

lemma max_by_ge: "x \<in> set xs \<Longrightarrow> f x \<le> f (max_by f best xs)"
proof (induction xs arbitrary: best)
  case Nil
  then show ?case by simp
next
  case (Cons y ys)
  show ?case
  proof (cases "x = y")
    case True
    have "f y \<le> f (if f best < f y then y else best)" by (simp add: not_less)
    also have "\<dots> \<le> f (max_by f (if f best < f y then y else best) ys)" by (rule max_by_ge_best)
    finally show ?thesis using True by simp
  next
    case False
    with Cons show ?thesis by simp
  qed
qed

text \<open>\<open>xs[a:b]\<close> for indices that are not negative.\<close>

definition slice :: "nat \<Rightarrow> nat \<Rightarrow> 'a list \<Rightarrow> 'a list" where
  "slice a b xs = take (b - a) (drop a xs)"

lemma length_slice_le: "length (slice a b xs) \<le> b - a"
  by (simp add: slice_def)

lemma set_slice: "set (slice a b xs) \<subseteq> set xs"
  by (auto simp: slice_def dest!: in_set_takeD in_set_dropD)

definition slice_to :: "int \<Rightarrow> 'a list \<Rightarrow> 'a list" where
  \<comment> \<open>\<open>xs[:n]\<close>\<close>
  "slice_to n xs = (if 0 \<le> n then take (nat n) xs else take (nat (int (length xs) + n)) xs)"

lemma set_slice_to: "set (slice_to n xs) \<subseteq> set xs"
  by (auto simp: slice_to_def dest!: in_set_takeD)

definition clamp :: "int \<Rightarrow> int \<Rightarrow> int \<Rightarrow> int" where
  \<comment> \<open>\<open>min(max(x, lo), hi)\<close>\<close>
  "clamp lo hi x = min (max x lo) hi"

lemma clamp_bounds: "lo \<le> hi \<Longrightarrow> lo \<le> clamp lo hi x \<and> clamp lo hi x \<le> hi"
  by (simp add: clamp_def)

end
