(* ===== verification/PyString.thy ===== *)
theory PyString
  imports Prelude
begin

text \<open>
  The methods of \<open>str\<close> and the conversions \<open>str()\<close>, \<open>repr()\<close> and \<open>int()\<close> that the program
  calls, on strings of code points below 256. \<open>lower\<close>, \<open>isspace\<close>, \<open>isdigit\<close> and the printable
  range follow the Unicode tables on that range (\<open>isdigit\<close> accepts the superscript digits, which
  \<open>int\<close> does not).
\<close>

section \<open>Characters\<close>

definition cp :: "char \<Rightarrow> nat" where
  "cp c = of_char c"

definition lower_char :: "char \<Rightarrow> char" where
  "lower_char c = (let n = cp c in
     if (65 \<le> n \<and> n \<le> 90) \<or> (192 \<le> n \<and> n \<le> 222 \<and> n \<noteq> 215) then char_of (n + 32) else c)"

definition is_space_char :: "char \<Rightarrow> bool" where
  "is_space_char c = (let n = cp c in
     (9 \<le> n \<and> n \<le> 13) \<or> (28 \<le> n \<and> n \<le> 32) \<or> n = 133 \<or> n = 160)"

definition is_ascii_digit :: "char \<Rightarrow> bool" where
  "is_ascii_digit c = (48 \<le> cp c \<and> cp c \<le> 57)"

definition is_digit_char :: "char \<Rightarrow> bool" where
  "is_digit_char c = (is_ascii_digit c \<or> cp c \<in> {178, 179, 185})"

definition is_printable_char :: "char \<Rightarrow> bool" where
  "is_printable_char c = (let n = cp c in
     (32 \<le> n \<and> n \<le> 126) \<or> (161 \<le> n \<and> n \<noteq> 173))"

section \<open>Methods of str\<close>

definition py_lower :: "string \<Rightarrow> string" where
  "py_lower s = map lower_char s"

definition py_casefold :: "string \<Rightarrow> string" where
  \<comment> \<open>the only code point of the range that folds to something else than its lower case is 223, to \<open>ss\<close>\<close>
  "py_casefold s = concat (map (\<lambda>c. if cp c = 223 then ''ss'' else [lower_char c]) s)"

definition py_strip :: "string \<Rightarrow> string" where
  "py_strip s = rev (dropWhile is_space_char (rev (dropWhile is_space_char s)))"

fun py_in :: "string \<Rightarrow> string \<Rightarrow> bool" where
  "py_in p [] = (p = [])"
| "py_in p (c # s) = (prefix p (c # s) \<or> py_in p s)"

definition py_removeprefix :: "string \<Rightarrow> string \<Rightarrow> string" where
  "py_removeprefix p s = (if prefix p s then drop (length p) s else s)"

definition py_replace_char :: "char \<Rightarrow> char \<Rightarrow> string \<Rightarrow> string" where
  "py_replace_char a b s = map (\<lambda>c. if c = a then b else c) s"

fun py_split :: "char \<Rightarrow> string \<Rightarrow> string list" where
  "py_split d [] = [[]]"
| "py_split d (c # s) =
     (if c = d then [] # py_split d s
      else case py_split d s of [] \<Rightarrow> [[c]] | w # ws \<Rightarrow> (c # w) # ws)"

fun py_join :: "string \<Rightarrow> string list \<Rightarrow> string" where
  "py_join sep [] = []"
| "py_join sep [x] = x"
| "py_join sep (x # xs) = x @ sep @ py_join sep xs"

definition py_isdigit :: "string \<Rightarrow> bool" where
  "py_isdigit s = (s \<noteq> [] \<and> list_all is_digit_char s)"

definition str_or :: "string \<Rightarrow> string \<Rightarrow> string" where
  \<comment> \<open>\<open>a or b\<close> on strings\<close>
  "str_or a b = (if a = [] then b else a)"

definition opt_str_or :: "string option \<Rightarrow> string \<Rightarrow> string" where
  \<comment> \<open>\<open>a or b\<close> where \<open>a\<close> may be \<open>None\<close>\<close>
  "opt_str_or a b = (case a of None \<Rightarrow> b | Some s \<Rightarrow> str_or s b)"

lemma py_in_sublist: "py_in p s \<longleftrightarrow> (\<exists>a b. s = a @ p @ b)"
proof (induction s)
  case Nil
  then show ?case by simp
next
  case (Cons c s)
  have "(\<exists>a b. c # s = a @ p @ b) \<longleftrightarrow> prefix p (c # s) \<or> (\<exists>a b. s = a @ p @ b)"
  proof
    assume "\<exists>a b. c # s = a @ p @ b"
    then obtain a b where ab: "c # s = a @ p @ b" by blast
    show "prefix p (c # s) \<or> (\<exists>a b. s = a @ p @ b)"
    proof (cases a)
      case Nil
      with ab show ?thesis by (auto simp: prefix_def)
    next
      case (Cons x a')
      with ab show ?thesis by auto
    qed
  next
    assume "prefix p (c # s) \<or> (\<exists>a b. s = a @ p @ b)"
    then show "\<exists>a b. c # s = a @ p @ b"
    proof
      assume "prefix p (c # s)"
      then obtain b where "c # s = [] @ p @ b" by (auto simp: prefix_def)
      then show ?thesis by blast
    next
      assume "\<exists>a b. s = a @ p @ b"
      then obtain a b where "c # s = (c # a) @ p @ b" by auto
      then show ?thesis by blast
    qed
  qed
  with Cons show ?case by simp
qed

lemma set_dropWhile: "set (dropWhile P xs) \<subseteq> set xs"
  by (induction xs) auto

lemma length_py_strip: "length (py_strip s) \<le> length s"
proof -
  have "length (py_strip s) \<le> length (rev (dropWhile is_space_char s))"
    by (simp add: py_strip_def) (metis length_dropWhile_le length_rev)
  also have "\<dots> \<le> length s" by (simp add: length_dropWhile_le)
  finally show ?thesis .
qed

lemma py_split_ne: "py_split d s \<noteq> []"
  by (induction s) (auto split: list.splits)

lemma py_join_Cons: "ws \<noteq> [] \<Longrightarrow> py_join sep (w # ws) = w @ sep @ py_join sep ws"
  by (cases ws) auto

lemma py_join_split: "py_join [d] (py_split d s) = s"
proof (induction s)
  case Nil
  then show ?case by simp
next
  case (Cons c s)
  obtain w ws where ws: "py_split d s = w # ws"
    using py_split_ne [of d s] by (cases "py_split d s") auto
  show ?case
  proof (cases "c = d")
    case True
    with Cons ws show ?thesis by (simp add: py_join_Cons)
  next
    case False
    with Cons ws show ?thesis by (cases ws) auto
  qed
qed

section \<open>Decimal numerals\<close>

definition digit_char :: "nat \<Rightarrow> char" where
  "digit_char d = char_of (48 + d)"

fun digits10 :: "nat \<Rightarrow> string" where
  "digits10 n = (if n < 10 then [digit_char n] else digits10 (n div 10) @ [digit_char (n mod 10)])"

declare digits10.simps [simp del]

definition str_int :: "int \<Rightarrow> string" where
  "str_int i = (if i < 0 then ''-'' @ digits10 (nat (- i)) else digits10 (nat i))"

definition str_nat :: "nat \<Rightarrow> string" where
  "str_nat n = digits10 n"

definition nat_of_digits :: "string \<Rightarrow> nat" where
  "nat_of_digits s = foldl (\<lambda>n c. 10 * n + (cp c - 48)) 0 s"

definition py_int :: "string \<Rightarrow> int result" where
  \<comment> \<open>\<open>int(s)\<close> for a string that passed \<open>isdigit\<close>; more than 4300 digits are refused\<close>
  "py_int s = (if list_all is_ascii_digit s \<and> s \<noteq> [] \<and> length s \<le> 4300
     then Inr (int (nat_of_digits s)) else Inl (ValueError ''invalid literal for int()''))"

lemma cp_digit_char: "d < 10 \<Longrightarrow> cp (digit_char d) = 48 + d"
  by (simp add: cp_def digit_char_def)

lemma digits10_ne: "digits10 n \<noteq> []"
  by (subst digits10.simps) simp

lemma digits10_ascii: "list_all is_ascii_digit (digits10 n)"
proof (induction n rule: digits10.induct)
  case (1 n)
  show ?case
  proof (cases "n < 10")
    case True
    then show ?thesis by (subst digits10.simps) (simp add: is_ascii_digit_def cp_digit_char)
  next
    case False
    with 1 have "list_all is_ascii_digit (digits10 (n div 10))" by simp
    with False show ?thesis
      by (subst digits10.simps) (simp add: is_ascii_digit_def cp_digit_char)
  qed
qed

lemma nat_of_digits_append: "nat_of_digits (s @ [c]) = 10 * nat_of_digits s + (cp c - 48)"
  by (simp add: nat_of_digits_def)

lemma nat_of_digits10: "nat_of_digits (digits10 n) = n"
proof (induction n rule: digits10.induct)
  case (1 n)
  show ?case
  proof (cases "n < 10")
    case True
    then show ?thesis
      by (subst digits10.simps) (simp add: nat_of_digits_def cp_digit_char)
  next
    case False
    with 1 have "nat_of_digits (digits10 (n div 10)) = n div 10" by simp
    with False show ?thesis
      by (subst digits10.simps) (simp add: nat_of_digits_append cp_digit_char)
  qed
qed

lemma inj_str_nat: "inj str_nat"
  by (metis injI nat_of_digits10 str_nat_def)

lemma str_nat_eq_iff [simp]: "str_nat m = str_nat n \<longleftrightarrow> m = n"
  using inj_str_nat by (auto dest: injD)

lemma str_int_eq_iff [simp]: "str_int i = str_int j \<longleftrightarrow> i = j"
proof
  assume eq: "str_int i = str_int j"
  have no_minus: "digits10 n \<noteq> CHR ''-'' # s" for n s
  proof
    assume "digits10 n = CHR ''-'' # s"
    then have "is_ascii_digit (CHR ''-'')" using digits10_ascii [of n] by simp
    then show False by (simp add: is_ascii_digit_def cp_def)
  qed
  have inj: "digits10 m = digits10 n \<Longrightarrow> m = n" for m n
    by (metis nat_of_digits10)
  show "i = j"
    using eq no_minus no_minus [symmetric] inj [of "nat (- i)" "nat (- j)"] inj [of "nat i" "nat j"]
    by (auto simp: str_int_def split: if_splits)
qed simp

end
