(* ===== verification/JsonHash.thy ===== *)
theory JsonHash
  imports PyString
begin

text \<open>
  JSON values as Python's \<open>json\<close> module has them, and \<open>debug/hash.py\<close>: the canonical
  serialisation (sorted keys, no blanks, no ASCII escaping) and the hash of it. SHA-256, the
  shortest decimal form of a float and the ISO text of a timestamp are primitives of the
  interpreter: they are the fields of a record \<open>host\<close> that the definitions take as an argument,
  so every theorem holds for any of them. A timestamp inside a JSON value is \<open>JTime\<close>, whether it
  stands there as the \<open>datetime\<close> object or as its ISO text.

  A value of a typed contract reaches \<open>canonical_json\<close> through its \<open>model_dump(mode="json")\<close>,
  which the component theories define class by class; dictionary keys are strings already.
\<close>

section \<open>Values and host primitives\<close>

datatype json =
    JNull
  | JBool bool
  | JInt int
  | JFloat rat
  | JStr string
  | JTime time
  | JList "json list"
  | JObj "(string \<times> json) list"

record host =
  sha256_hex :: "string \<Rightarrow> string"
  float_repr :: "rat \<Rightarrow> string"
  dump_time :: "time \<Rightarrow> string"

type_synonym jobj = "(string, json) dict"

definition jopt :: "string option \<Rightarrow> json" where
  "jopt x = (case x of None \<Rightarrow> JNull | Some s \<Rightarrow> JStr s)"

definition jstrs :: "string list \<Rightarrow> json" where
  "jstrs xs = JList (map JStr xs)"

definition truthy :: "json \<Rightarrow> bool" where
  "truthy v = (case v of JNull \<Rightarrow> False | JBool b \<Rightarrow> b | JInt i \<Rightarrow> i \<noteq> 0 | JFloat r \<Rightarrow> r \<noteq> 0
     | JStr s \<Rightarrow> s \<noteq> [] | JTime t \<Rightarrow> True | JList xs \<Rightarrow> xs \<noteq> [] | JObj kvs \<Rightarrow> kvs \<noteq> [])"

definition jget :: "jobj \<Rightarrow> string \<Rightarrow> json" where
  \<comment> \<open>\<open>d.get(k)\<close>, with \<open>JNull\<close> for \<open>None\<close>\<close>
  "jget d k = (case dget d k of None \<Rightarrow> JNull | Some v \<Rightarrow> v)"

definition jget_or :: "jobj \<Rightarrow> string \<Rightarrow> json \<Rightarrow> json" where
  "jget_or d k dflt = (case dget d k of None \<Rightarrow> dflt | Some v \<Rightarrow> v)"

section \<open>Canonical serialisation\<close>

definition hex_char :: "nat \<Rightarrow> char" where
  "hex_char d = (if d < 10 then char_of (48 + d) else char_of (87 + d))"

definition esc_char :: "char \<Rightarrow> string" where
  "esc_char c = (let n = cp c in
     if n = 34 then [CHR 0x5C, CHR 0x22]
     else if n = 92 then [CHR 0x5C, CHR 0x5C]
     else if n = 8 then [CHR 0x5C, CHR ''b'']
     else if n = 9 then [CHR 0x5C, CHR ''t'']
     else if n = 10 then [CHR 0x5C, CHR ''n'']
     else if n = 12 then [CHR 0x5C, CHR ''f'']
     else if n = 13 then [CHR 0x5C, CHR ''r'']
     else if n < 32 then [CHR 0x5C, CHR ''u'', CHR ''0'', CHR ''0'', hex_char (n div 16), hex_char (n mod 16)]
     else [c])"

definition json_string :: "string \<Rightarrow> string" where
  "json_string s = CHR 0x22 # concat (map esc_char s) @ [CHR 0x22]"

definition member_text :: "string \<times> string \<Rightarrow> string" where
  "member_text kt = json_string (fst kt) @ '':'' @ snd kt"

fun canonical_json :: "host \<Rightarrow> json \<Rightarrow> string" where
  "canonical_json h JNull = ''null''"
| "canonical_json h (JBool b) = (if b then ''true'' else ''false'')"
| "canonical_json h (JInt i) = str_int i"
| "canonical_json h (JFloat r) = float_repr h r"
| "canonical_json h (JStr s) = json_string s"
| "canonical_json h (JTime t) = json_string (dump_time h t)"
| "canonical_json h (JList xs) = ''['' @ py_join '','' (map (canonical_json h) xs) @ '']''"
| "canonical_json h (JObj kvs) = ''{'' @ py_join '',''
     (map member_text (sort_key fst (map (\<lambda>kv. (fst kv, canonical_json h (snd kv))) kvs))) @ ''}''"

definition stable_hash :: "host \<Rightarrow> json \<Rightarrow> string" where
  "stable_hash h v = sha256_hex h (canonical_json h v)"

definition hash_prefix :: "host \<Rightarrow> nat \<Rightarrow> json \<Rightarrow> string" where
  \<comment> \<open>\<open>stable_hash(v)[:n]\<close>\<close>
  "hash_prefix h n v = take n (stable_hash h v)"

text \<open>The order in which a dictionary was built does not reach the hash.\<close>

lemma sort_key_fst_perm:
  assumes "distinct (map fst xs)" and "mset xs = mset ys"
  shows "sort_key fst xs = sort_key (fst :: string \<times> 'b \<Rightarrow> string) ys"
proof (rule properties_for_sort_key)
  show "mset (sort_key fst ys) = mset xs" using assms(2) by simp
  show "sorted (map fst (sort_key fst ys))" by simp
  fix k assume "k \<in> set (sort_key fst ys)"
  then have "k \<in> set xs" using assms(2) by (metis set_mset_mset set_sort)
  have "distinct (map fst ys)"
    using assms mset_eq_imp_distinct_iff [of "map fst xs" "map fst ys"] by simp
  then have dy: "inj_on fst (set ys)" "distinct ys" by (simp_all add: distinct_map)
  from assms(1) have dx: "inj_on fst (set xs)" "distinct xs" by (simp_all add: distinct_map)
  have sxy: "set xs = set ys" using assms(2) by (metis set_mset_mset)
  have *: "filter (\<lambda>x. fst k = fst x) zs = filter (\<lambda>x. k = x) zs"
    if "inj_on fst (set zs)" "k \<in> set zs" for zs :: "(string \<times> 'b) list"
    using that by (intro filter_cong) (auto dest: inj_onD)
  have **: "filter (\<lambda>x. k = x) zs = [k]" if "distinct zs" "k \<in> set zs" for zs :: "(string \<times> 'b) list"
    using that by (induction zs) (auto simp: filter_empty_conv)
  have "filter (\<lambda>x. fst k = fst x) (sort_key fst ys) = [k]"
    using dy \<open>k \<in> set xs\<close> sxy by (subst *) (auto intro: **)
  moreover have "filter (\<lambda>x. fst k = fst x) xs = [k]"
    using dx \<open>k \<in> set xs\<close> by (subst *) (auto intro: **)
  ultimately show "filter (\<lambda>x. fst k = fst x) (sort_key fst ys) = filter (\<lambda>x. fst k = fst x) xs"
    by simp
qed

lemma canonical_json_perm:
  assumes "dict_ok kvs" and "mset kvs = mset kvs'"
  shows "canonical_json h (JObj kvs) = canonical_json h (JObj kvs')"
proof -
  let ?f = "\<lambda>kv. (fst kv, canonical_json h (snd kv))"
  have "distinct (map fst (map ?f kvs))" using assms(1) by (simp add: dict_ok_def comp_def)
  moreover have "mset (map ?f kvs) = mset (map ?f kvs')" using assms(2) by simp
  ultimately have "sort_key fst (map ?f kvs) = sort_key fst (map ?f kvs')"
    by (rule sort_key_fst_perm)
  then show ?thesis by (simp only: canonical_json.simps)
qed

lemma stable_hash_perm:
  "dict_ok kvs \<Longrightarrow> mset kvs = mset kvs' \<Longrightarrow> stable_hash h (JObj kvs) = stable_hash h (JObj kvs')"
  by (simp only: stable_hash_def canonical_json_perm)

text \<open>\<open>json.dumps(v, sort_keys=True)\<close> with its defaults: blanks after separators, ASCII only.\<close>

definition ascii_char :: "char \<Rightarrow> string" where
  "ascii_char c = (let n = cp c in
     if 32 \<le> n \<and> n \<le> 126 \<or> n < 32 then esc_char c
     else [CHR 0x5C, CHR ''u'', CHR ''0'', CHR ''0'', hex_char (n div 16), hex_char (n mod 16)])"

definition ascii_string :: "string \<Rightarrow> string" where
  "ascii_string s = CHR 0x22 # concat (map ascii_char s) @ [CHR 0x22]"

fun dumps_sorted :: "host \<Rightarrow> json \<Rightarrow> string" where
  "dumps_sorted h JNull = ''null''"
| "dumps_sorted h (JBool b) = (if b then ''true'' else ''false'')"
| "dumps_sorted h (JInt i) = str_int i"
| "dumps_sorted h (JFloat r) = float_repr h r"
| "dumps_sorted h (JStr s) = ascii_string s"
| "dumps_sorted h (JTime t) = ascii_string (dump_time h t)"
| "dumps_sorted h (JList xs) = ''['' @ py_join '', '' (map (dumps_sorted h) xs) @ '']''"
| "dumps_sorted h (JObj kvs) = ''{'' @ py_join '', ''
     (map (\<lambda>kt. ascii_string (fst kt) @ '': '' @ snd kt)
       (sort_key fst (map (\<lambda>kv. (fst kv, dumps_sorted h (snd kv))) kvs))) @ ''}''"

section \<open>str() and repr() of a value\<close>

definition repr_char :: "char \<Rightarrow> char \<Rightarrow> string" where
  "repr_char q c = (let n = cp c in
     if c = q \<or> n = 92 then [CHR 0x5C, c]
     else if n = 9 then [CHR 0x5C, CHR ''t'']
     else if n = 10 then [CHR 0x5C, CHR ''n'']
     else if n = 13 then [CHR 0x5C, CHR ''r'']
     else if is_printable_char c then [c]
     else [CHR 0x5C, CHR ''x'', hex_char (n div 16), hex_char (n mod 16)])"

definition repr_string :: "string \<Rightarrow> string" where
  "repr_string s = (let q = (if CHR 0x27 \<in> set s \<and> CHR 0x22 \<notin> set s then CHR 0x22 else CHR 0x27)
     in q # concat (map (repr_char q) s) @ [q])"

fun py_repr :: "host \<Rightarrow> json \<Rightarrow> string" where
  "py_repr h JNull = ''None''"
| "py_repr h (JBool b) = (if b then ''True'' else ''False'')"
| "py_repr h (JInt i) = str_int i"
| "py_repr h (JFloat r) = float_repr h r"
| "py_repr h (JStr s) = repr_string s"
| "py_repr h (JTime t) = repr_string (dump_time h t)"
| "py_repr h (JList xs) = ''['' @ py_join '', '' (map (py_repr h) xs) @ '']''"
| "py_repr h (JObj kvs) = ''{'' @ py_join '', ''
     (map (\<lambda>kv. repr_string (fst kv) @ '': '' @ py_repr h (snd kv)) kvs) @ ''}''"

definition py_str :: "host \<Rightarrow> json \<Rightarrow> string" where
  "py_str h v = (case v of JStr s \<Rightarrow> s | JTime t \<Rightarrow> dump_time h t | _ \<Rightarrow> py_repr h v)"

end
