(* ===== verification/Ontology.thy ===== *)
theory Ontology
  imports JsonHash
begin

text \<open>
  \<open>ontology/models.py\<close> and \<open>ontology/id_factory.py\<close>: the contracts of the traceability graph, their
  declared constraints (\<open>_ok\<close>), their \<open>model_dump(mode="json")\<close> (\<open>_dump\<close>) and the stable ids.
  Pydantic itself is not modelled: constructing a contract from values of the declared types checks
  the declared constraints (\<open>mk_\<close> functions), while \<open>model_validate\<close> on a JSON payload, whose
  coercions are Pydantic's, is a parameter; the locale \<open>edge_contract\<close> states what the program relies
  on of it, and a validator without coercions shows that it can be met.
\<close>

section \<open>Enumerations\<close>

datatype source_type = Jira | Confluence | Email | Decision_Archive | Dummy

definition source_type_str :: "source_type \<Rightarrow> string" where
  "source_type_str t = (case t of Jira \<Rightarrow> ''jira'' | Confluence \<Rightarrow> ''confluence'' | Email \<Rightarrow> ''email''
     | Decision_Archive \<Rightarrow> ''decision_archive'' | Dummy \<Rightarrow> ''dummy'')"

datatype data_classification = Public_Internal | Restricted | Confidential | No_External_LLM

definition data_classification_str :: "data_classification \<Rightarrow> string" where
  "data_classification_str c = (case c of Public_Internal \<Rightarrow> ''public_internal''
     | Restricted \<Rightarrow> ''restricted'' | Confidential \<Rightarrow> ''confidential''
     | No_External_LLM \<Rightarrow> ''no_external_llm'')"

datatype node_type = Requirement | Architecture_Block | Design_Spec | Verification | Issue
  | Decision | Component | Risk

definition node_type_str :: "node_type \<Rightarrow> string" where
  "node_type_str t = (case t of Requirement \<Rightarrow> ''Requirement''
     | Architecture_Block \<Rightarrow> ''Architecture_Block'' | Design_Spec \<Rightarrow> ''Design_Spec''
     | Verification \<Rightarrow> ''Verification'' | Issue \<Rightarrow> ''Issue'' | Decision \<Rightarrow> ''Decision''
     | Component \<Rightarrow> ''Component'' | Risk \<Rightarrow> ''Risk'')"

definition node_types :: "node_type list" where
  "node_types = [Requirement, Architecture_Block, Design_Spec, Verification, Issue, Decision,
     Component, Risk]"

definition node_type_of :: "string \<Rightarrow> node_type option" where
  "node_type_of s = find (\<lambda>t. node_type_str t = s) node_types"

datatype lifecycle_state = LS_Draft | LS_Active | LS_Deprecated | LS_Superseded

definition lifecycle_state_str :: "lifecycle_state \<Rightarrow> string" where
  "lifecycle_state_str s = (case s of LS_Draft \<Rightarrow> ''draft'' | LS_Active \<Rightarrow> ''active''
     | LS_Deprecated \<Rightarrow> ''deprecated'' | LS_Superseded \<Rightarrow> ''superseded'')"

datatype created_by = By_Source | By_AI | By_Human

definition created_by_str :: "created_by \<Rightarrow> string" where
  "created_by_str c = (case c of By_Source \<Rightarrow> ''source'' | By_AI \<Rightarrow> ''ai'' | By_Human \<Rightarrow> ''human'')"

datatype edge_relation = Satisfies | Verifies | Derives | Implements | Affects | Blocks
  | Conflicts_With | Supersedes | Decides

definition relation_str :: "edge_relation \<Rightarrow> string" where
  "relation_str r = (case r of Satisfies \<Rightarrow> ''satisfies'' | Verifies \<Rightarrow> ''verifies''
     | Derives \<Rightarrow> ''derives'' | Implements \<Rightarrow> ''implements'' | Affects \<Rightarrow> ''affects''
     | Blocks \<Rightarrow> ''blocks'' | Conflicts_With \<Rightarrow> ''conflicts_with'' | Supersedes \<Rightarrow> ''supersedes''
     | Decides \<Rightarrow> ''decides'')"

definition edge_relations :: "edge_relation list" where
  "edge_relations = [Satisfies, Verifies, Derives, Implements, Affects, Blocks, Conflicts_With,
     Supersedes, Decides]"

definition relation_of :: "string \<Rightarrow> edge_relation option" where
  "relation_of s = find (\<lambda>r. relation_str r = s) edge_relations"

datatype approval_status = AS_Pending | AS_Approved | AS_Rejected | AS_Modified | AS_Expired

definition approval_status_str :: "approval_status \<Rightarrow> string" where
  "approval_status_str s = (case s of AS_Pending \<Rightarrow> ''pending'' | AS_Approved \<Rightarrow> ''approved''
     | AS_Rejected \<Rightarrow> ''rejected'' | AS_Modified \<Rightarrow> ''modified'' | AS_Expired \<Rightarrow> ''expired'')"

definition approval_statuses :: "approval_status list" where
  "approval_statuses = [AS_Pending, AS_Approved, AS_Rejected, AS_Modified, AS_Expired]"

definition approval_status_of :: "string \<Rightarrow> approval_status option" where
  "approval_status_of s = find (\<lambda>r. approval_status_str r = s) approval_statuses"

datatype finding_type = Orphan_Node | Missing_Verification | Missing_Implementation | Conflict
  | Cross_Domain_Hidden | Stale_Trace | Weak_Evidence | Policy_Violation

definition finding_type_str :: "finding_type \<Rightarrow> string" where
  "finding_type_str t = (case t of Orphan_Node \<Rightarrow> ''orphan_node''
     | Missing_Verification \<Rightarrow> ''missing_verification''
     | Missing_Implementation \<Rightarrow> ''missing_implementation'' | Conflict \<Rightarrow> ''conflict''
     | Cross_Domain_Hidden \<Rightarrow> ''cross_domain_hidden'' | Stale_Trace \<Rightarrow> ''stale_trace''
     | Weak_Evidence \<Rightarrow> ''weak_evidence'' | Policy_Violation \<Rightarrow> ''policy_violation'')"

datatype severity = Critical | High | Medium | Low

definition severity_str :: "severity \<Rightarrow> string" where
  "severity_str s = (case s of Critical \<Rightarrow> ''critical'' | High \<Rightarrow> ''high'' | Medium \<Rightarrow> ''medium''
     | Low \<Rightarrow> ''low'')"

datatype detection_method = By_Rule | By_LLM | By_Hybrid

definition detection_method_str :: "detection_method \<Rightarrow> string" where
  "detection_method_str m = (case m of By_Rule \<Rightarrow> ''rule'' | By_LLM \<Rightarrow> ''llm'' | By_Hybrid \<Rightarrow> ''hybrid'')"

datatype finding_status = FS_Open | FS_Acknowledged | FS_Resolved | FS_Dismissed

definition finding_status_str :: "finding_status \<Rightarrow> string" where
  "finding_status_str s = (case s of FS_Open \<Rightarrow> ''open'' | FS_Acknowledged \<Rightarrow> ''acknowledged''
     | FS_Resolved \<Rightarrow> ''resolved'' | FS_Dismissed \<Rightarrow> ''dismissed'')"

lemma node_type_of_str [simp]: "node_type_of (node_type_str t) = Some t"
  by (cases t) (simp_all add: node_type_of_def node_types_def node_type_str_def)

lemma relation_of_str [simp]: "relation_of (relation_str r) = Some r"
  by (cases r) (simp_all add: relation_of_def edge_relations_def relation_str_def)

lemma approval_status_of_str [simp]: "approval_status_of (approval_status_str s) = Some s"
  by (cases s) (simp_all add: approval_status_of_def approval_statuses_def approval_status_str_def)

lemma relation_of_SomeD: "relation_of s = Some r \<Longrightarrow> relation_str r = s"
  by (auto simp: relation_of_def find_Some_iff)

lemma node_type_of_SomeD: "node_type_of s = Some t \<Longrightarrow> node_type_str t = s"
  by (auto simp: node_type_of_def find_Some_iff)

lemma relation_str_eq_iff [simp]: "relation_str r = relation_str r' \<longleftrightarrow> r = r'"
  by (metis option.inject relation_of_str)

lemma node_type_str_eq_iff [simp]: "node_type_str r = node_type_str r' \<longleftrightarrow> r = r'"
  by (metis option.inject node_type_of_str)

text \<open>Severities are ordered by the rank \<open>graph/projection.py\<close> gives them: \<open>low\<close> is the least.\<close>

definition severity_rank :: "severity \<Rightarrow> nat" where
  "severity_rank s = (case s of Low \<Rightarrow> 1 | Medium \<Rightarrow> 2 | High \<Rightarrow> 3 | Critical \<Rightarrow> 4)"

lemma severity_rank_inj: "severity_rank a = severity_rank b \<Longrightarrow> a = b"
  by (cases a; cases b) (simp_all add: severity_rank_def)

instantiation severity :: linorder
begin

definition less_eq_severity :: "severity \<Rightarrow> severity \<Rightarrow> bool" where
  "less_eq_severity a b = (severity_rank a \<le> severity_rank b)"

definition less_severity :: "severity \<Rightarrow> severity \<Rightarrow> bool" where
  "less_severity a b = (severity_rank a < severity_rank b)"

instance
  by standard
    (auto simp: less_eq_severity_def less_severity_def dest: severity_rank_inj)

end

section \<open>Evidence spans\<close>

record evidence_span =
  ev_artifact_id :: string
  ev_source_url :: string
  ev_quote_hash :: string
  ev_preview :: string
  ev_start_offset :: "int option"
  ev_end_offset :: "int option"
  ev_section_path :: "string option"
  ev_table_cell_ref :: "string option"
  ev_schema_version :: string

definition evidence_ok :: "evidence_span \<Rightarrow> bool" where
  "evidence_ok e =
     (1 \<le> length (ev_preview e) \<and> length (ev_preview e) \<le> 500
      \<and> (case ev_start_offset e of None \<Rightarrow> True | Some a \<Rightarrow> 0 \<le> a)
      \<and> (case ev_end_offset e of None \<Rightarrow> True | Some b \<Rightarrow> 0 \<le> b)
      \<and> (case (ev_start_offset e, ev_end_offset e) of (Some a, Some b) \<Rightarrow> \<not> b < a | _ \<Rightarrow> True))"

definition jint_opt :: "int option \<Rightarrow> json" where
  "jint_opt x = (case x of None \<Rightarrow> JNull | Some i \<Rightarrow> JInt i)"

definition jtime_opt :: "time option \<Rightarrow> json" where
  "jtime_opt x = (case x of None \<Rightarrow> JNull | Some t \<Rightarrow> JTime t)"

definition evidence_dump :: "evidence_span \<Rightarrow> jobj" where
  "evidence_dump e = [
     (''artifact_id'', JStr (ev_artifact_id e)),
     (''source_url'', JStr (ev_source_url e)),
     (''quote_hash'', JStr (ev_quote_hash e)),
     (''extracted_text_preview'', JStr (ev_preview e)),
     (''start_offset'', jint_opt (ev_start_offset e)),
     (''end_offset'', jint_opt (ev_end_offset e)),
     (''section_path'', jopt (ev_section_path e)),
     (''table_cell_ref'', jopt (ev_table_cell_ref e)),
     (''schema_version'', JStr (ev_schema_version e))]"

definition mk_evidence :: "evidence_span \<Rightarrow> evidence_span result" where
  "mk_evidence e = (if evidence_ok e then Inr e else Inl (ValidationError ''EvidenceSpan''))"

section \<open>Source artifacts and chunks\<close>

record source_artifact =
  sa_artifact_id :: string
  sa_source_type :: source_type
  sa_source_url :: string
  sa_external_id :: string
  sa_project_key :: string
  sa_title :: string
  sa_body_text_ref :: string
  sa_author_id :: "string option"
  sa_created_at :: time
  sa_updated_at :: time
  sa_ingested_at :: time
  sa_content_hash :: string
  sa_access_scope :: "string list"
  sa_data_classification :: data_classification
  sa_schema_version :: string

definition source_artifact_ok :: "source_artifact \<Rightarrow> bool" where
  "source_artifact_ok a = (1 \<le> length (sa_title a))"

definition mk_source_artifact :: "source_artifact \<Rightarrow> source_artifact result" where
  "mk_source_artifact a =
     (if source_artifact_ok a then Inr a else Inl (ValidationError ''SourceArtifact''))"

definition source_artifact_dump :: "source_artifact \<Rightarrow> jobj" where
  "source_artifact_dump a = [
     (''artifact_id'', JStr (sa_artifact_id a)),
     (''source_type'', JStr (source_type_str (sa_source_type a))),
     (''source_url'', JStr (sa_source_url a)),
     (''external_id'', JStr (sa_external_id a)),
     (''project_key'', JStr (sa_project_key a)),
     (''title'', JStr (sa_title a)),
     (''body_text_ref'', JStr (sa_body_text_ref a)),
     (''author_id'', jopt (sa_author_id a)),
     (''created_at'', JTime (sa_created_at a)),
     (''updated_at'', JTime (sa_updated_at a)),
     (''ingested_at'', JTime (sa_ingested_at a)),
     (''content_hash'', JStr (sa_content_hash a)),
     (''access_scope'', jstrs (sa_access_scope a)),
     (''data_classification'', JStr (data_classification_str (sa_data_classification a))),
     (''schema_version'', JStr (sa_schema_version a))]"

record artifact_chunk =
  ck_chunk_id :: string
  ck_artifact_id :: string
  ck_project_key :: string
  ck_text :: string
  ck_index :: int
  ck_evidence :: evidence_span
  ck_content_hash :: string
  ck_metadata :: "(string, string) dict"
  ck_schema_version :: string

definition artifact_chunk_ok :: "artifact_chunk \<Rightarrow> bool" where
  "artifact_chunk_ok c = (1 \<le> length (ck_text c) \<and> 0 \<le> ck_index c)"

definition mk_artifact_chunk :: "artifact_chunk \<Rightarrow> artifact_chunk result" where
  "mk_artifact_chunk c =
     (if artifact_chunk_ok c then Inr c else Inl (ValidationError ''ArtifactChunk''))"

definition artifact_chunk_dump :: "artifact_chunk \<Rightarrow> jobj" where
  "artifact_chunk_dump c = [
     (''chunk_id'', JStr (ck_chunk_id c)),
     (''artifact_id'', JStr (ck_artifact_id c)),
     (''project_key'', JStr (ck_project_key c)),
     (''text'', JStr (ck_text c)),
     (''index'', JInt (ck_index c)),
     (''evidence'', JObj (evidence_dump (ck_evidence c))),
     (''content_hash'', JStr (ck_content_hash c)),
     (''metadata'', JObj (map (\<lambda>kv. (fst kv, JStr (snd kv))) (ck_metadata c))),
     (''schema_version'', JStr (ck_schema_version c))]"

section \<open>Nodes\<close>

record ontology_node =
  on_node_id :: string
  on_node_type :: node_type
  on_name :: string
  on_description :: string
  on_project_key :: string
  on_domain :: "string option"
  on_lifecycle_state :: lifecycle_state
  on_source_artifact_ids :: "string list"
  on_evidence :: "evidence_span list"
  on_created_by :: created_by
  on_confidence_score :: rat
  on_version :: int
  on_schema_version :: string

definition node_ok :: "ontology_node \<Rightarrow> bool" where
  "node_ok n =
     (1 \<le> length (on_name n) \<and> 1 \<le> length (on_evidence n)
      \<and> 0 \<le> on_confidence_score n \<and> on_confidence_score n \<le> 1 \<and> 1 \<le> on_version n)"

definition mk_node :: "ontology_node \<Rightarrow> ontology_node result" where
  "mk_node n = (if node_ok n then Inr n else Inl (ValidationError ''OntologyNode''))"

definition node_dump :: "ontology_node \<Rightarrow> jobj" where
  "node_dump n = [
     (''node_id'', JStr (on_node_id n)),
     (''node_type'', JStr (node_type_str (on_node_type n))),
     (''name'', JStr (on_name n)),
     (''description'', JStr (on_description n)),
     (''project_key'', JStr (on_project_key n)),
     (''domain'', jopt (on_domain n)),
     (''lifecycle_state'', JStr (lifecycle_state_str (on_lifecycle_state n))),
     (''source_artifact_ids'', jstrs (on_source_artifact_ids n)),
     (''evidence'', JList (map (\<lambda>e. JObj (evidence_dump e)) (on_evidence n))),
     (''created_by'', JStr (created_by_str (on_created_by n))),
     (''confidence_score'', JFloat (on_confidence_score n)),
     (''version'', JInt (on_version n)),
     (''schema_version'', JStr (on_schema_version n))]"

section \<open>Edges\<close>

record traceability_edge =
  te_edge_id :: string
  te_source_node_id :: string
  te_target_node_id :: string
  te_relation :: edge_relation
  te_reasoning :: string
  te_evidence :: "evidence_span list"
  te_is_inferred :: bool
  te_confidence_score :: rat
  te_approval_status :: approval_status
  te_approved_by :: "string option"
  te_approved_at :: "time option"
  te_version :: int
  te_schema_version :: string

definition edge_ok :: "traceability_edge \<Rightarrow> bool" where
  "edge_ok e =
     (1 \<le> length (te_reasoning e) \<and> 1 \<le> length (te_evidence e)
      \<and> 0 \<le> te_confidence_score e \<and> te_confidence_score e \<le> 1 \<and> 1 \<le> te_version e
      \<and> \<not> (te_approval_status e = AS_Approved
            \<and> (te_approved_by e = None \<or> te_approved_by e = Some [])))"

definition mk_edge :: "traceability_edge \<Rightarrow> traceability_edge result" where
  "mk_edge e = (if edge_ok e then Inr e else Inl (ValidationError ''TraceabilityEdge''))"

definition edge_dump :: "traceability_edge \<Rightarrow> jobj" where
  "edge_dump e = [
     (''edge_id'', JStr (te_edge_id e)),
     (''source_node_id'', JStr (te_source_node_id e)),
     (''target_node_id'', JStr (te_target_node_id e)),
     (''relation'', JStr (relation_str (te_relation e))),
     (''reasoning'', JStr (te_reasoning e)),
     (''evidence'', JList (map (\<lambda>s. JObj (evidence_dump s)) (te_evidence e))),
     (''is_inferred'', JBool (te_is_inferred e)),
     (''confidence_score'', JFloat (te_confidence_score e)),
     (''approval_status'', JStr (approval_status_str (te_approval_status e))),
     (''approved_by'', jopt (te_approved_by e)),
     (''approved_at'', jtime_opt (te_approved_at e)),
     (''version'', JInt (te_version e)),
     (''schema_version'', JStr (te_schema_version e))]"

section \<open>Findings\<close>

record finding =
  fd_finding_id :: string
  fd_finding_type :: finding_type
  fd_severity :: severity
  fd_affected_node_ids :: "string list"
  fd_affected_edge_ids :: "string list"
  fd_description :: string
  fd_suggested_action :: string
  fd_evidence :: "evidence_span list"
  fd_detection_method :: detection_method
  fd_approval_status :: finding_status
  fd_rule_id :: "string option"
  fd_schema_version :: string

definition finding_ok :: "finding \<Rightarrow> bool" where
  "finding_ok f =
     (1 \<le> length (fd_description f) \<and> 1 \<le> length (fd_suggested_action f)
      \<and> \<not> (fd_affected_node_ids f = [] \<and> fd_affected_edge_ids f = []))"

definition mk_finding :: "finding \<Rightarrow> finding result" where
  \<comment> \<open>the field validator deduplicates both id lists, then the model validator runs\<close>
  "mk_finding f =
     (let f' = f\<lparr>fd_affected_node_ids := fromkeys (fd_affected_node_ids f),
                 fd_affected_edge_ids := fromkeys (fd_affected_edge_ids f)\<rparr>
      in if finding_ok f' then Inr f' else Inl (ValidationError ''Finding''))"

definition finding_dump :: "finding \<Rightarrow> jobj" where
  "finding_dump f = [
     (''finding_id'', JStr (fd_finding_id f)),
     (''finding_type'', JStr (finding_type_str (fd_finding_type f))),
     (''severity'', JStr (severity_str (fd_severity f))),
     (''affected_node_ids'', jstrs (fd_affected_node_ids f)),
     (''affected_edge_ids'', jstrs (fd_affected_edge_ids f)),
     (''description'', JStr (fd_description f)),
     (''suggested_action'', JStr (fd_suggested_action f)),
     (''evidence'', JList (map (\<lambda>s. JObj (evidence_dump s)) (fd_evidence f))),
     (''detection_method'', JStr (detection_method_str (fd_detection_method f))),
     (''approval_status'', JStr (finding_status_str (fd_approval_status f))),
     (''rule_id'', jopt (fd_rule_id f)),
     (''schema_version'', JStr (fd_schema_version f))]"

lemma mk_finding_ok: "mk_finding f = Inr f' \<Longrightarrow> finding_ok f'"
  by (auto simp: mk_finding_def Let_def split: if_splits)

section \<open>Stable ids\<close>

definition node_id :: "string \<Rightarrow> string \<Rightarrow> string" where
  "node_id project_key external_id =
     ''node_'' @ project_key @ ''_'' @ py_replace_char (CHR ''-'') (CHR ''_'') external_id"

definition edge_id :: "host \<Rightarrow> string \<Rightarrow> string \<Rightarrow> string \<Rightarrow> string" where
  "edge_id h source_node_id relation target_node_id =
     ''edge_'' @ hash_prefix h 16 (JObj [(''s'', JStr source_node_id), (''r'', JStr relation),
       (''t'', JStr target_node_id)])"

definition external_id_from_node :: "ontology_node \<Rightarrow> string" where
  "external_id_from_node n =
     (let pre = ''node_'' @ on_project_key n @ ''_''
      in if prefix pre (on_node_id n)
         then py_replace_char (CHR ''_'') (CHR ''-'') (py_removeprefix pre (on_node_id n))
         else on_node_id n)"

lemma py_replace_back:
  "CHR ''_'' \<notin> set x \<Longrightarrow>
     py_replace_char (CHR ''_'') (CHR ''-'') (py_replace_char (CHR ''-'') (CHR ''_'') x) = x"
  by (induction x) (auto simp: py_replace_char_def)

text \<open>The external id comes back from the node id as long as it has no underscore of its own.\<close>

lemma external_id_roundtrip:
  assumes "CHR ''_'' \<notin> set x" and "on_node_id n = node_id (on_project_key n) x"
  shows "external_id_from_node n = x"
  using assms
  by (simp add: external_id_from_node_def node_id_def py_removeprefix_def Let_def py_replace_back)

lemma node_id_inj:
  assumes "node_id p x = node_id p y" and "CHR ''_'' \<notin> set x" and "CHR ''_'' \<notin> set y"
  shows "x = y"
proof -
  from assms(1) have "py_replace_char (CHR ''-'') (CHR ''_'') x = py_replace_char (CHR ''-'') (CHR ''_'') y"
    by (simp add: node_id_def)
  then show ?thesis using py_replace_back assms(2,3) by metis
qed

end
