(* ===== verification/Feedback.thy ===== *)
theory Feedback
  imports Ontology
begin

text \<open>
  \<open>feedback/models.py\<close> and \<open>feedback/service.py\<close>: the feedback taxonomy with its alias
  normalisation, the feedback event and the improvement candidate contracts, and the grouping of
  feedback into improvement candidates.
\<close>

section \<open>Taxonomy\<close>

datatype feedback_target_type = FT_Node | FT_Edge | FT_Finding | FT_Answer | FT_Run_Step

definition feedback_target_str :: "feedback_target_type \<Rightarrow> string" where
  "feedback_target_str t = (case t of FT_Node \<Rightarrow> ''node'' | FT_Edge \<Rightarrow> ''edge''
     | FT_Finding \<Rightarrow> ''finding'' | FT_Answer \<Rightarrow> ''answer'' | FT_Run_Step \<Rightarrow> ''run_step'')"

datatype feedback_action = FA_Approved | FA_Rejected | FA_Modified | FA_Commented
  | FA_Marked_Low_Quality

definition feedback_action_str :: "feedback_action \<Rightarrow> string" where
  "feedback_action_str a = (case a of FA_Approved \<Rightarrow> ''approved'' | FA_Rejected \<Rightarrow> ''rejected''
     | FA_Modified \<Rightarrow> ''modified'' | FA_Commented \<Rightarrow> ''commented''
     | FA_Marked_Low_Quality \<Rightarrow> ''marked_low_quality'')"

datatype feedback_reason = Wrong_Relation | Weak_Evidence_Reason | Wrong_Node_Type | Duplicate
  | Missing_Context | Wrong_Severity | Security_Concern | Other_Reason

definition reason_str :: "feedback_reason \<Rightarrow> string" where
  "reason_str r = (case r of Wrong_Relation \<Rightarrow> ''wrong_relation''
     | Weak_Evidence_Reason \<Rightarrow> ''weak_evidence'' | Wrong_Node_Type \<Rightarrow> ''wrong_node_type''
     | Duplicate \<Rightarrow> ''duplicate'' | Missing_Context \<Rightarrow> ''missing_context''
     | Wrong_Severity \<Rightarrow> ''wrong_severity'' | Security_Concern \<Rightarrow> ''security_concern''
     | Other_Reason \<Rightarrow> ''other'')"

definition feedback_reasons :: "feedback_reason list" where
  "feedback_reasons = [Wrong_Relation, Weak_Evidence_Reason, Wrong_Node_Type, Duplicate,
     Missing_Context, Wrong_Severity, Security_Concern, Other_Reason]"

definition feedback_actions :: "feedback_action list" where
  "feedback_actions = [FA_Approved, FA_Rejected, FA_Modified, FA_Commented, FA_Marked_Low_Quality]"

definition reason_of :: "string \<Rightarrow> feedback_reason option" where
  \<comment> \<open>the literal type \<open>FeedbackReasonCode\<close>\<close>
  "reason_of s = find (\<lambda>r. reason_str r = s) feedback_reasons"

definition action_of :: "string \<Rightarrow> feedback_action option" where
  \<comment> \<open>the literal type \<open>FeedbackAction\<close>\<close>
  "action_of s = find (\<lambda>a. feedback_action_str a = s) feedback_actions"

definition action_aliases :: "(string, string) dict" where
  "action_aliases = [
     (''approve'', ''approved''), (''approved'', ''approved''),
     (''reject'', ''rejected''), (''rejected'', ''rejected''),
     (''modify'', ''modified''), (''modified'', ''modified''),
     (''comment'', ''commented''), (''commented'', ''commented''),
     (''mark_low_quality'', ''marked_low_quality''),
     (''marked_low_quality'', ''marked_low_quality'')]"

definition reason_aliases :: "(string, string) dict" where
  "reason_aliases = [
     (''wrong_relation'', ''wrong_relation''), (''weak_evidence'', ''weak_evidence''),
     (''wrong_node_type'', ''wrong_node_type''), (''duplicate'', ''duplicate''),
     (''missing_context'', ''missing_context''), (''wrong_severity'', ''wrong_severity''),
     (''security_concern'', ''security_concern''), (''other'', ''other'')]"

definition normalize_taxonomy_value :: "string \<Rightarrow> string" where
  "normalize_taxonomy_value v =
     py_replace_char (CHR '' '') (CHR ''_'')
       (py_replace_char (CHR ''-'') (CHR ''_'') (py_lower (py_strip v)))"

definition normalize_action :: "string \<Rightarrow> string" where
  "normalize_action v =
     (case dget action_aliases (normalize_taxonomy_value v) of Some c \<Rightarrow> c | None \<Rightarrow> v)"

definition normalize_reason_code :: "string \<Rightarrow> string" where
  "normalize_reason_code v =
     (case dget reason_aliases (normalize_taxonomy_value v) of Some c \<Rightarrow> c | None \<Rightarrow> v)"

lemma reason_of_str [simp]: "reason_of (reason_str r) = Some r"
  by (cases r) (simp_all add: reason_of_def feedback_reasons_def reason_str_def)

lemma action_of_str [simp]: "action_of (feedback_action_str a) = Some a"
  by (cases a) (simp_all add: action_of_def feedback_actions_def feedback_action_str_def)

lemma reason_str_eq_iff [simp]: "reason_str r = reason_str r' \<longleftrightarrow> r = r'"
  by (metis option.inject reason_of_str)

lemma normalize_action_canonical [simp]:
  "normalize_action (feedback_action_str a) = feedback_action_str a"
  by (cases a; hypsubst; code_simp)

lemma normalize_reason_canonical [simp]: "normalize_reason_code (reason_str r) = reason_str r"
  by (cases r; hypsubst; code_simp)

section \<open>Contracts\<close>

record feedback_event =
  fb_feedback_id :: string
  fb_target_type :: feedback_target_type
  fb_target_id :: string
  fb_action :: feedback_action
  fb_user_id :: string
  fb_user_role :: string
  fb_reason_code :: "feedback_reason option"
  fb_correction_text :: "string option"
  fb_created_at :: time
  fb_model_profile_id :: "string option"
  fb_prompt_version_id :: "string option"
  fb_schema_version :: string

text \<open>
  Constructing an event: the two \<open>before\<close> validators normalise the action and the reason code, then
  the literal types are checked.
\<close>

definition parse_action :: "string \<Rightarrow> feedback_action result" where
  "parse_action v = (case action_of (normalize_action v) of Some a \<Rightarrow> Inr a
     | None \<Rightarrow> Inl (ValidationError ''action''))"

definition parse_reason :: "string option \<Rightarrow> feedback_reason option result" where
  "parse_reason v = (case v of None \<Rightarrow> Inr None
     | Some s \<Rightarrow> (case reason_of (normalize_reason_code s) of Some r \<Rightarrow> Inr (Some r)
         | None \<Rightarrow> Inl (ValidationError ''reason_code'')))"

definition feedback_dump :: "feedback_event \<Rightarrow> jobj" where
  "feedback_dump f = [
     (''feedback_id'', JStr (fb_feedback_id f)),
     (''target_type'', JStr (feedback_target_str (fb_target_type f))),
     (''target_id'', JStr (fb_target_id f)),
     (''action'', JStr (feedback_action_str (fb_action f))),
     (''user_id'', JStr (fb_user_id f)),
     (''user_role'', JStr (fb_user_role f)),
     (''reason_code'', jopt (map_option reason_str (fb_reason_code f))),
     (''correction_text'', jopt (fb_correction_text f)),
     (''created_at'', JTime (fb_created_at f)),
     (''model_profile_id'', jopt (fb_model_profile_id f)),
     (''prompt_version_id'', jopt (fb_prompt_version_id f)),
     (''schema_version'', JStr (fb_schema_version f))]"

datatype improvement_type = IT_Prompt | IT_Few_Shot_Example | IT_Rule | IT_Retrieval_Policy
  | IT_Scoring_Threshold | IT_Ontology_Normalization | IT_Model_Profile

definition improvement_type_str :: "improvement_type \<Rightarrow> string" where
  "improvement_type_str t = (case t of IT_Prompt \<Rightarrow> ''prompt''
     | IT_Few_Shot_Example \<Rightarrow> ''few_shot_example'' | IT_Rule \<Rightarrow> ''rule''
     | IT_Retrieval_Policy \<Rightarrow> ''retrieval_policy'' | IT_Scoring_Threshold \<Rightarrow> ''scoring_threshold''
     | IT_Ontology_Normalization \<Rightarrow> ''ontology_normalization''
     | IT_Model_Profile \<Rightarrow> ''model_profile'')"

datatype improvement_status = IS_Draft | IS_Eval_Running | IS_Review_Ready | IS_Approved
  | IS_Rejected | IS_Canary | IS_Active | IS_Rolled_Back

definition improvement_status_str :: "improvement_status \<Rightarrow> string" where
  "improvement_status_str s = (case s of IS_Draft \<Rightarrow> ''draft'' | IS_Eval_Running \<Rightarrow> ''eval_running''
     | IS_Review_Ready \<Rightarrow> ''review_ready'' | IS_Approved \<Rightarrow> ''approved''
     | IS_Rejected \<Rightarrow> ''rejected'' | IS_Canary \<Rightarrow> ''canary'' | IS_Active \<Rightarrow> ''active''
     | IS_Rolled_Back \<Rightarrow> ''rolled_back'')"

definition improvement_statuses :: "improvement_status list" where
  "improvement_statuses = [IS_Draft, IS_Eval_Running, IS_Review_Ready, IS_Approved, IS_Rejected,
     IS_Canary, IS_Active, IS_Rolled_Back]"

definition improvement_status_of :: "string \<Rightarrow> improvement_status option" where
  "improvement_status_of s = find (\<lambda>r. improvement_status_str r = s) improvement_statuses"

lemma improvement_status_of_str [simp]: "improvement_status_of (improvement_status_str s) = Some s"
  by (cases s)
    (simp_all add: improvement_status_of_def improvement_statuses_def improvement_status_str_def)

record improvement_candidate =
  ic_candidate_id :: string
  ic_candidate_type :: improvement_type
  ic_source_feedback_ids :: "string list"
  ic_proposed_change_summary :: string
  ic_before_version_id :: string
  ic_after_version_ref :: string
  ic_eval_run_id :: "string option"
  ic_status :: improvement_status
  ic_created_at :: time
  ic_reviewed_by :: "string option"
  ic_schema_version :: string

definition improvement_dump :: "improvement_candidate \<Rightarrow> jobj" where
  "improvement_dump c = [
     (''candidate_id'', JStr (ic_candidate_id c)),
     (''candidate_type'', JStr (improvement_type_str (ic_candidate_type c))),
     (''source_feedback_ids'', jstrs (ic_source_feedback_ids c)),
     (''proposed_change_summary'', JStr (ic_proposed_change_summary c)),
     (''before_version_id'', JStr (ic_before_version_id c)),
     (''after_version_ref'', JStr (ic_after_version_ref c)),
     (''eval_run_id'', jopt (ic_eval_run_id c)),
     (''status'', JStr (improvement_status_str (ic_status c))),
     (''created_at'', JTime (ic_created_at c)),
     (''reviewed_by'', jopt (ic_reviewed_by c)),
     (''schema_version'', JStr (ic_schema_version c))]"

section \<open>Improvement candidates\<close>

definition reason_to_improvement :: "(string, improvement_type) dict" where
  "reason_to_improvement = [
     (''wrong_relation'', IT_Rule), (''weak_evidence'', IT_Retrieval_Policy),
     (''wrong_node_type'', IT_Ontology_Normalization), (''duplicate'', IT_Rule),
     (''missing_context'', IT_Retrieval_Policy), (''wrong_severity'', IT_Scoring_Threshold),
     (''security_concern'', IT_Model_Profile), (''other'', IT_Prompt)]"

definition reason_key :: "feedback_event \<Rightarrow> string" where
  \<comment> \<open>\<open>event.reason_code or "other"\<close>\<close>
  "reason_key f = (case fb_reason_code f of None \<Rightarrow> ''other'' | Some r \<Rightarrow> reason_str r)"

definition improvement_summary :: "string \<Rightarrow> improvement_type \<Rightarrow> nat \<Rightarrow> string" where
  "improvement_summary reason_code candidate_type n_events =
     ''Review '' @ str_nat n_events @ '' feedback events tagged '' @ reason_code
     @ '' and prepare a '' @ improvement_type_str candidate_type @ '' change for eval.''"

definition candidate_type_for :: "string \<Rightarrow> improvement_type" where
  "candidate_type_for reason_code =
     (case dget reason_to_improvement reason_code of Some t \<Rightarrow> t | None \<Rightarrow> IT_Prompt)"

definition improvement_digest :: "host \<Rightarrow> string \<Rightarrow> string list \<Rightarrow> string" where
  "improvement_digest h reason_code feedback_ids = hash_prefix h 16 (JObj [
     (''reason_code'', JStr reason_code),
     (''candidate_type'', JStr (improvement_type_str (candidate_type_for reason_code))),
     (''feedback_ids'', jstrs feedback_ids)])"

definition improvement_for :: "host \<Rightarrow> string \<Rightarrow> time \<Rightarrow> string \<times> feedback_event list \<Rightarrow>
    improvement_candidate" where
  "improvement_for h before_version_id now grp =
     (let reason_code = fst grp; events = snd grp;
          candidate_type = candidate_type_for reason_code;
          feedback_ids = map fb_feedback_id events;
          digest = improvement_digest h reason_code feedback_ids
      in \<lparr>ic_candidate_id = ''imp_'' @ digest,
          ic_candidate_type = candidate_type,
          ic_source_feedback_ids = feedback_ids,
          ic_proposed_change_summary = improvement_summary reason_code candidate_type (length events),
          ic_before_version_id = before_version_id,
          ic_after_version_ref = ''draft://'' @ improvement_type_str candidate_type @ ''/''
            @ reason_code @ ''/'' @ digest,
          ic_eval_run_id = None,
          ic_status = IS_Draft,
          ic_created_at = now,
          ic_reviewed_by = None,
          ic_schema_version = ''v1''\<rparr>)"

definition build_improvement_candidates :: "host \<Rightarrow> feedback_event list \<Rightarrow> string \<Rightarrow> time \<Rightarrow>
    improvement_candidate list" where
  "build_improvement_candidates h feedback before_version_id now =
     map (improvement_for h before_version_id now) (sort_key fst (group_by reason_key feedback))"

text \<open>
  Every event reaches exactly one candidate, and every candidate is a draft: the multiset of source
  feedback ids over all candidates is that of the feedback.
\<close>

lemma candidates_cover_feedback:
  "mset (concat (map ic_source_feedback_ids (build_improvement_candidates h feedback b now)))
     = mset (map fb_feedback_id feedback)"
proof -
  have "map ic_source_feedback_ids (build_improvement_candidates h feedback b now)
      = map (\<lambda>g. map fb_feedback_id (snd g)) (sort_key fst (group_by reason_key feedback))"
    by (simp add: build_improvement_candidates_def improvement_for_def Let_def comp_def)
  then have "mset (concat (map ic_source_feedback_ids (build_improvement_candidates h feedback b now)))
      = mset (concat (map (\<lambda>g. map fb_feedback_id (snd g)) (group_by reason_key feedback)))"
    by (simp only: concat_mset_sort)
  also have "\<dots> = image_mset fb_feedback_id (mset (concat (dvals (group_by reason_key feedback))))"
    by (simp add: map_concat comp_def flip: mset_map)
  finally show ?thesis by (simp add: mset_group_by)
qed

lemma candidates_draft:
  "c \<in> set (build_improvement_candidates h feedback b now) \<Longrightarrow> ic_status c = IS_Draft"
  by (auto simp: build_improvement_candidates_def improvement_for_def Let_def)

end
