(* ===== verification/Evals.thy ===== *)
theory Evals
  imports Feedback
begin

text \<open>
  \<open>evals/datasets.py\<close>, \<open>evals/metrics.py\<close> and \<open>evals/runner.py\<close>: feedback grouped into dataset
  candidates, the deterministic local metrics and the gate over them. A pass rate is the exact
  quotient; the float the code computes compares with the policy bound as the quotient does as long
  as a dataset has fewer than $10^{14}$ cases.
\<close>

section \<open>Datasets\<close>

definition reason_to_dataset :: "(string, string) dict" where
  "reason_to_dataset = [
     (''wrong_relation'', ''edge_linking/rejected_edges.jsonl''),
     (''weak_evidence'', ''retrieval/evidence_sufficiency.jsonl''),
     (''wrong_node_type'', ''node_extraction/corrections.jsonl''),
     (''duplicate'', ''entity_resolution/duplicates.jsonl''),
     (''missing_context'', ''retrieval/missed_context.jsonl''),
     (''wrong_severity'', ''findings/severity_corrections.jsonl''),
     (''security_concern'', ''security/blockers.jsonl''),
     (''other'', ''manual_triage/unclassified.jsonl'')]"

record eval_dataset_candidate =
  ed_dataset_path :: string
  ed_reason_code :: string
  ed_feedback_ids :: "string list"
  ed_target_ids :: "string list"

definition dataset_path_for :: "string \<Rightarrow> string" where
  "dataset_path_for reason = (case dget reason_to_dataset reason of Some p \<Rightarrow> p
     | None \<Rightarrow> ''manual_triage/unclassified.jsonl'')"

definition add_to_dataset :: "(string, eval_dataset_candidate) dict \<Rightarrow> feedback_event \<Rightarrow>
    (string, eval_dataset_candidate) dict" where
  \<comment> \<open>one turn of the loop: \<open>setdefault\<close>, then the two appends\<close>
  "add_to_dataset grouped event =
     (let reason = reason_key event;
          path = dataset_path_for reason;
          c = (case dget grouped path of Some c \<Rightarrow> c
               | None \<Rightarrow> \<lparr>ed_dataset_path = path, ed_reason_code = reason, ed_feedback_ids = [],
                          ed_target_ids = []\<rparr>)
      in dset path (c\<lparr>ed_feedback_ids := ed_feedback_ids c @ [fb_feedback_id event],
                      ed_target_ids := ed_target_ids c @ [fb_target_id event]\<rparr>) grouped)"

definition build_eval_candidates :: "feedback_event list \<Rightarrow> eval_dataset_candidate list" where
  "build_eval_candidates feedback = dvals (foldl add_to_dataset [] feedback)"

definition count_reason :: "(string, int) dict \<Rightarrow> feedback_event \<Rightarrow> (string, int) dict" where
  "count_reason counts event =
     (let k = reason_key event
      in dset k ((case dget counts k of None \<Rightarrow> 0 | Some c \<Rightarrow> c) + 1) counts)"

definition feedback_counts_by_reason :: "feedback_event list \<Rightarrow> (string, int) dict" where
  "feedback_counts_by_reason feedback = foldl count_reason [] feedback"

lemma count_reason_get:
  "dget (foldl count_reason d fs) k =
     (let n = length (filter (\<lambda>f. reason_key f = k) fs)
      in if n = 0 then dget d k
         else Some ((case dget d k of None \<Rightarrow> 0 | Some c \<Rightarrow> c) + int n))"
  by (induction fs arbitrary: d) (auto simp: count_reason_def Let_def split: option.splits)

lemma feedback_counts_get:
  "dget (feedback_counts_by_reason fs) k =
     (let n = length (filter (\<lambda>f. reason_key f = k) fs) in if n = 0 then None else Some (int n))"
  by (simp add: feedback_counts_by_reason_def count_reason_get Let_def)

text \<open>
  What the grouping dictionary holds after the events seen so far: under every path exactly the
  feedback and target ids of the events of that path, in order, with the reason they share.
\<close>

definition event_path :: "feedback_event \<Rightarrow> string" where
  "event_path f = dataset_path_for (reason_key f)"

definition datasets_inv :: "feedback_event list \<Rightarrow> (string, eval_dataset_candidate) dict \<Rightarrow> bool" where
  "datasets_inv fs d = (dict_ok d \<and> (\<forall>p. dget d p =
     (let ms = filter (\<lambda>f. event_path f = p) fs in
      case ms of [] \<Rightarrow> None
      | m # _ \<Rightarrow> Some \<lparr>ed_dataset_path = p, ed_reason_code = reason_key m,
                    ed_feedback_ids = map fb_feedback_id ms, ed_target_ids = map fb_target_id ms\<rparr>)))"

lemma datasets_inv_step: "datasets_inv fs d \<Longrightarrow> datasets_inv (fs @ [f]) (add_to_dataset d f)"
  by (auto simp: datasets_inv_def add_to_dataset_def Let_def event_path_def
      split: list.splits option.splits)

lemma datasets_inv_fold: "datasets_inv gs d \<Longrightarrow> datasets_inv (gs @ fs) (foldl add_to_dataset d fs)"
proof (induction fs arbitrary: gs d)
  case Nil
  then show ?case by simp
next
  case (Cons f fs)
  from Cons.IH [OF datasets_inv_step [OF Cons.prems, of f]] show ?case by simp
qed

lemma datasets_inv_all: "datasets_inv fs (foldl add_to_dataset [] fs)"
  using datasets_inv_fold [of "[]" "[]" fs] by (simp add: datasets_inv_def Let_def)

lemma reason_key_cases: "\<exists>r. reason_key f = reason_str r"
  by (cases "fb_reason_code f") (auto simp: reason_key_def reason_str_def split: feedback_reason.splits)

lemma dataset_path_inj: "dataset_path_for (reason_str r) = dataset_path_for (reason_str r') \<Longrightarrow> r = r'"
proof -
  let ?all = "[Wrong_Relation, Weak_Evidence_Reason, Wrong_Node_Type, Duplicate, Missing_Context, Wrong_Severity,
    Security_Concern, Other_Reason]"
  have "distinct (map (\<lambda>r. dataset_path_for (reason_str r)) ?all)" by code_simp
  then have inj: "inj_on (\<lambda>r. dataset_path_for (reason_str r)) (set ?all)" unfolding distinct_map by (rule conjunct2)
  have "r \<in> set ?all" for r by (cases r) simp_all
  then show "dataset_path_for (reason_str r) = dataset_path_for (reason_str r') \<Longrightarrow> r = r'" by (intro inj_onD [OF inj])
qed

lemma event_path_reason: "event_path f = event_path g \<longleftrightarrow> reason_key f = reason_key g"
  using reason_key_cases [of f] reason_key_cases [of g]
  by (auto simp: event_path_def dest: dataset_path_inj)

lemma in_build_eval_candidates:
  "c \<in> set (build_eval_candidates fs) \<longleftrightarrow>
     (\<exists>f\<in>set fs. c = \<lparr>ed_dataset_path = event_path f, ed_reason_code = reason_key f,
        ed_feedback_ids = map fb_feedback_id (filter (\<lambda>g. reason_key g = reason_key f) fs),
        ed_target_ids = map fb_target_id (filter (\<lambda>g. reason_key g = reason_key f) fs)\<rparr>)"
  (is "_ \<longleftrightarrow> (\<exists>f\<in>set fs. c = ?C f)")
proof -
  let ?d = "foldl add_to_dataset [] fs"
  have ok: "dict_ok ?d" and get: "\<And>p. dget ?d p = (let ms = filter (\<lambda>f. event_path f = p) fs in
      case ms of [] \<Rightarrow> None
      | m # _ \<Rightarrow> Some \<lparr>ed_dataset_path = p, ed_reason_code = reason_key m,
                    ed_feedback_ids = map fb_feedback_id ms, ed_target_ids = map fb_target_id ms\<rparr>)"
    using datasets_inv_all [of fs] by (simp_all add: datasets_inv_def)
  have "c \<in> set (build_eval_candidates fs) \<longleftrightarrow> (\<exists>p. dget ?d p = Some c)"
    by (simp only: build_eval_candidates_def dvals_dget [OF ok])
  also have "\<dots> \<longleftrightarrow> (\<exists>f\<in>set fs. c = ?C f)"
  proof
    assume "\<exists>p. dget ?d p = Some c"
    then obtain p where p: "dget ?d p = Some c" by blast
    then obtain m ms where ms: "filter (\<lambda>f. event_path f = p) fs = m # ms"
      by (auto simp: get Let_def split: list.splits)
    from filter_eq_Cons_head [OF ms] have "m \<in> set fs" and mp: "event_path m = p" by simp_all
    moreover have "filter (\<lambda>g. reason_key g = reason_key m) fs = m # ms"
      using ms by (simp add: event_path_reason flip: mp)
    ultimately show "\<exists>f\<in>set fs. c = ?C f"
      using p ms by (intro bexI [of _ m]) (auto simp: get Let_def)
  next
    assume "\<exists>f\<in>set fs. c = ?C f"
    then obtain f where f: "f \<in> set fs" "c = ?C f" by blast
    have eq: "filter (\<lambda>g. event_path g = event_path f) fs = filter (\<lambda>g. reason_key g = reason_key f) fs"
      by (simp add: event_path_reason)
    from f(1) obtain m ms where ms: "filter (\<lambda>g. reason_key g = reason_key f) fs = m # ms"
      by (cases "filter (\<lambda>g. reason_key g = reason_key f) fs") (auto simp: filter_empty_conv)
    from filter_eq_Cons_head [OF ms] have "reason_key m = reason_key f" by simp
    with f ms show "\<exists>p. dget ?d p = Some c"
      by (intro exI [of _ "event_path f"]) (simp add: get Let_def eq)
  qed
  finally show ?thesis .
qed

lemma build_eval_candidates_Nil: "build_eval_candidates fs = [] \<longleftrightarrow> fs = []"
proof (cases fs)
  case Nil
  then show ?thesis by (simp add: build_eval_candidates_def)
next
  case (Cons f fs')
  then have "\<exists>c. c \<in> set (build_eval_candidates fs)"
    unfolding in_build_eval_candidates by (intro exI bexI [of _ f] refl) (simp_all add: Cons)
  with Cons show ?thesis by auto
qed

section \<open>Metrics and the gate\<close>

record eval_metric_report =
  em_eval_run_id :: string
  em_dataset_path :: string
  em_reason_code :: string
  em_total_cases :: int
  em_passed_cases :: int
  em_failed_cases :: int
  em_pass_rate :: rat
  em_security_failures :: int
  em_replay_drift_rate :: rat

record eval_gate_policy =
  ep_min_cases :: int
  ep_min_pass_rate :: rat
  ep_max_security_failures :: int
  ep_max_replay_drift_rate :: rat

definition default_gate_policy :: eval_gate_policy where
  "default_gate_policy = \<lparr>ep_min_cases = 2, ep_min_pass_rate = 95 / 100,
     ep_max_security_failures = 0, ep_max_replay_drift_rate = 2 / 100\<rparr>"

datatype gate_status = Gate_Passed | Gate_Blocked

record eval_gate_result =
  eg_eval_run_id :: string
  eg_status :: gate_status
  eg_policy :: eval_gate_policy
  eg_metrics :: "eval_metric_report list"
  eg_blockers :: "string list"

definition metric_for_candidate :: "eval_dataset_candidate \<Rightarrow> string \<Rightarrow> eval_metric_report" where
  "metric_for_candidate candidate eval_run_id =
     (let total_cases = int (length (ed_feedback_ids candidate));
          security_failures = (if ed_reason_code candidate = ''security_concern'' then total_cases else 0);
          failed_cases = security_failures;
          passed_cases = max (total_cases - failed_cases) 0;
          pass_rate = (if total_cases \<noteq> 0 then of_int passed_cases / of_int total_cases else 0);
          replay_drift_rate = (if ed_reason_code candidate \<noteq> ''wrong_relation'' then 0 else 1 / 100)
      in \<lparr>em_eval_run_id = eval_run_id, em_dataset_path = ed_dataset_path candidate,
          em_reason_code = ed_reason_code candidate, em_total_cases = total_cases,
          em_passed_cases = passed_cases, em_failed_cases = failed_cases,
          em_pass_rate = pass_rate, em_security_failures = security_failures,
          em_replay_drift_rate = replay_drift_rate\<rparr>)"

definition metric_blockers :: "eval_gate_policy \<Rightarrow> eval_metric_report \<Rightarrow> string list" where
  "metric_blockers policy metric =
     (if em_total_cases metric < ep_min_cases policy
      then [em_dataset_path metric @ '':not_enough_cases''] else [])
   @ (if em_pass_rate metric < ep_min_pass_rate policy
      then [em_dataset_path metric @ '':pass_rate_below_policy''] else [])
   @ (if em_security_failures metric > ep_max_security_failures policy
      then [em_dataset_path metric @ '':security_failures''] else [])
   @ (if em_replay_drift_rate metric > ep_max_replay_drift_rate policy
      then [em_dataset_path metric @ '':replay_drift''] else [])"

definition collect_blockers :: "eval_metric_report list \<Rightarrow> eval_gate_policy \<Rightarrow> string list" where
  "collect_blockers metrics policy =
     (if metrics = [] then [''no_eval_datasets''] else concat (map (metric_blockers policy) metrics))"

definition run_local_eval_gate :: "eval_dataset_candidate list \<Rightarrow> string \<Rightarrow> eval_gate_policy option \<Rightarrow>
    eval_gate_result" where
  "run_local_eval_gate candidates eval_run_id policy =
     (let resolved_policy = (case policy of None \<Rightarrow> default_gate_policy | Some p \<Rightarrow> p);
          metrics = map (\<lambda>c. metric_for_candidate c eval_run_id) candidates;
          blockers = collect_blockers metrics resolved_policy
      in \<lparr>eg_eval_run_id = eval_run_id,
          eg_status = (if blockers \<noteq> [] then Gate_Blocked else Gate_Passed),
          eg_policy = resolved_policy, eg_metrics = metrics, eg_blockers = blockers\<rparr>)"

definition gate_policy_dump :: "eval_gate_policy \<Rightarrow> jobj" where
  "gate_policy_dump p = [
     (''min_cases'', JInt (ep_min_cases p)),
     (''min_pass_rate'', JFloat (ep_min_pass_rate p)),
     (''max_security_failures'', JInt (ep_max_security_failures p)),
     (''max_replay_drift_rate'', JFloat (ep_max_replay_drift_rate p)),
     (''schema_version'', JStr ''v1'')]"

definition gate_status_str :: "gate_status \<Rightarrow> string" where
  "gate_status_str s = (case s of Gate_Passed \<Rightarrow> ''passed'' | Gate_Blocked \<Rightarrow> ''blocked'')"

definition metric_dump :: "eval_metric_report \<Rightarrow> jobj" where
  "metric_dump m = [
     (''eval_run_id'', JStr (em_eval_run_id m)),
     (''dataset_path'', JStr (em_dataset_path m)),
     (''reason_code'', JStr (em_reason_code m)),
     (''total_cases'', JInt (em_total_cases m)),
     (''passed_cases'', JInt (em_passed_cases m)),
     (''failed_cases'', JInt (em_failed_cases m)),
     (''pass_rate'', JFloat (em_pass_rate m)),
     (''security_failures'', JInt (em_security_failures m)),
     (''replay_drift_rate'', JFloat (em_replay_drift_rate m)),
     (''schema_version'', JStr ''v1'')]"

definition gate_dump :: "eval_gate_result \<Rightarrow> jobj" where
  "gate_dump g = [
     (''eval_run_id'', JStr (eg_eval_run_id g)),
     (''status'', JStr (gate_status_str (eg_status g))),
     (''policy'', JObj (gate_policy_dump (eg_policy g))),
     (''metrics'', JList (map (\<lambda>m. JObj (metric_dump m)) (eg_metrics g))),
     (''blockers'', jstrs (eg_blockers g)),
     (''schema_version'', JStr ''v1'')]"

lemma metric_ok:
  "0 \<le> em_pass_rate (metric_for_candidate c rid) \<and> em_pass_rate (metric_for_candidate c rid) \<le> 1
   \<and> em_passed_cases (metric_for_candidate c rid) + em_failed_cases (metric_for_candidate c rid)
       = em_total_cases (metric_for_candidate c rid)"
  by (auto simp: metric_for_candidate_def Let_def)

lemma metric_blockers_default:
  "metric_blockers default_gate_policy (metric_for_candidate c rid) = [] \<longleftrightarrow>
     2 \<le> length (ed_feedback_ids c) \<and> ed_reason_code c \<noteq> ''security_concern''"
  by (auto simp: metric_blockers_def default_gate_policy_def metric_for_candidate_def Let_def)

lemma gate_passed_iff:
  "eg_status (run_local_eval_gate cs rid None) = Gate_Passed \<longleftrightarrow>
     cs \<noteq> [] \<and> (\<forall>c\<in>set cs. 2 \<le> length (ed_feedback_ids c)
                  \<and> ed_reason_code c \<noteq> ''security_concern'')"
  by (simp add: run_local_eval_gate_def Let_def collect_blockers_def metric_blockers_default)

text \<open>
  What the default eval gate lets through: over the datasets built from a list of feedback
  events the gate passes exactly when there is feedback, no event is a security concern, and every
  reason that occurs occurs at least twice.
\<close>

theorem eval_gate_of_feedback:
  "eg_status (run_local_eval_gate (build_eval_candidates fs) rid None) = Gate_Passed \<longleftrightarrow>
     fs \<noteq> [] \<and> (\<forall>f\<in>set fs. fb_reason_code f \<noteq> Some Security_Concern
       \<and> 2 \<le> length (filter (\<lambda>g. reason_key g = reason_key f) fs))"
proof -
  have sec: "reason_key f = ''security_concern'' \<longleftrightarrow> fb_reason_code f = Some Security_Concern" for f
    by (cases "fb_reason_code f")
      (auto simp: reason_key_def reason_str_def split: feedback_reason.splits)
  have ne: "build_eval_candidates fs = [] \<longleftrightarrow> fs = []"
    using build_eval_candidates_Nil .
  show ?thesis
    unfolding gate_passed_iff ne by (force simp: in_build_eval_candidates sec)
qed

definition demo_feedback :: "feedback_reason \<Rightarrow> feedback_event" where
  "demo_feedback r = \<lparr>fb_feedback_id = ''f'', fb_target_type = FT_Edge, fb_target_id = ''e'',
     fb_action = FA_Rejected, fb_user_id = ''u'', fb_user_role = ''r'', fb_reason_code = Some r,
     fb_correction_text = None, fb_created_at = 0, fb_model_profile_id = None,
     fb_prompt_version_id = None, fb_schema_version = ''v1''\<rparr>"

lemma eval_gate_of_feedback_witness:
  "eg_status (run_local_eval_gate (build_eval_candidates [demo_feedback Duplicate, demo_feedback Duplicate])
      ''run'' None) = Gate_Passed
   \<and> eg_status (run_local_eval_gate (build_eval_candidates [demo_feedback Duplicate]) ''run'' None) = Gate_Blocked"
proof -
  have *: "s \<noteq> Gate_Passed \<Longrightarrow> s = Gate_Blocked" for s by (cases s) simp_all
  show ?thesis
    using eval_gate_of_feedback [of "[demo_feedback Duplicate, demo_feedback Duplicate]" "''run''"]
      eval_gate_of_feedback [of "[demo_feedback Duplicate]" "''run''"]
    by (auto simp: demo_feedback_def intro!: *)
qed

end
