(* ===== verification/Graph.thy ===== *)
theory Graph
  imports Ontology "HOL-Library.Monad_Syntax"
begin

text \<open>
  \<open>graph/base.py\<close>, \<open>graph/memory_backend.py\<close> and the graph delta contracts of
  \<open>approvals/models.py\<close>. Validating a payload is Pydantic's work: the record \<open>schema\<close> holds the two
  \<open>model_validate\<close> functions as arguments, the locale \<open>edge_contract\<close> states what the program relies
  on of them, and \<open>edge_of_json\<close> is a validator without coercions that meets it. The locale
  \<open>graph_backend\<close> is the protocol of \<open>graph/base.py\<close>; the memory backend interprets it.
\<close>

section \<open>Graph deltas\<close>

datatype graph_operation = Create_Node | Update_Node | Create_Edge | Update_Edge | Expire_Edge

definition graph_operation_str :: "graph_operation \<Rightarrow> string" where
  "graph_operation_str x = (case x of Create_Node \<Rightarrow> ''create_node'' | Update_Node \<Rightarrow> ''update_node''
     | Create_Edge \<Rightarrow> ''create_edge'' | Update_Edge \<Rightarrow> ''update_edge'' | Expire_Edge \<Rightarrow> ''expire_edge'')"

record graph_delta_operation =
  go_operation :: graph_operation
  go_target_id :: string
  go_payload :: jobj
  go_schema_version :: string

record graph_delta =
  gd_delta_id :: string
  gd_project_key :: string
  gd_operations :: "graph_delta_operation list"
  gd_created_from_run_id :: string
  gd_created_from_step_id :: string
  gd_schema_version :: string

definition delta_operation_dump :: "graph_delta_operation \<Rightarrow> jobj" where
  "delta_operation_dump x = [
     (''operation'', JStr (graph_operation_str (go_operation x))),
     (''target_id'', JStr (go_target_id x)),
     (''payload'', JObj (go_payload x)),
     (''schema_version'', JStr (go_schema_version x))]"

definition delta_dump :: "graph_delta \<Rightarrow> jobj" where
  "delta_dump d = [
     (''delta_id'', JStr (gd_delta_id d)),
     (''project_key'', JStr (gd_project_key d)),
     (''operations'', JList (map (\<lambda>x. JObj (delta_operation_dump x)) (gd_operations d))),
     (''created_from_run_id'', JStr (gd_created_from_run_id d)),
     (''created_from_step_id'', JStr (gd_created_from_step_id d)),
     (''schema_version'', JStr (gd_schema_version d))]"

section \<open>Validated payloads\<close>

record schema =
  val_node :: "jobj \<Rightarrow> ontology_node result"
  val_edge :: "jobj \<Rightarrow> traceability_edge result"

definition edge_full_ok :: "traceability_edge \<Rightarrow> bool" where
  \<comment> \<open>the edge's own constraints and those of the evidence objects it holds\<close>
  "edge_full_ok e = (edge_ok e \<and> list_all evidence_ok (te_evidence e))"

text \<open>What the program relies on of \<open>TraceabilityEdge.model_validate\<close>.\<close>

locale edge_contract =
  fixes validate :: "jobj \<Rightarrow> traceability_edge result"
  assumes validate_dump: "edge_full_ok e \<Longrightarrow> validate (edge_dump e) = Inr e"
    and validate_ok: "validate p = Inr e \<Longrightarrow> edge_full_ok e"
    and validate_status: "validate p = Inr e \<Longrightarrow> dget p ''approval_status'' = Some (JStr s) \<Longrightarrow>
           approval_status_str (te_approval_status e) = s"
    and validate_approver: "validate p = Inr e \<Longrightarrow> dget p ''approved_by'' = Some (JStr s) \<Longrightarrow>
           te_approved_by e = Some s"
begin

lemma validate_approved:
  assumes "validate p = Inr e" and "dget p ''approval_status'' = Some (JStr ''approved'')"
  shows "te_approval_status e = AS_Approved"
  using validate_status [OF assms]
  by (cases "te_approval_status e") (simp_all add: approval_status_str_def)

lemma validate_no_approver:
  assumes "dget p ''approval_status'' = Some (JStr ''approved'')"
    and "dget p ''approved_by'' = Some (JStr [])"
  shows "validate p \<noteq> Inr e"
proof
  assume v: "validate p = Inr e"
  from validate_ok [OF v] validate_approved [OF v assms(1)] validate_approver [OF v assms(2)]
  show False by (simp add: edge_full_ok_def edge_ok_def)
qed

end

text \<open>A validator that accepts exactly the JSON forms the contract's own dump produces.\<close>

definition bad :: "string \<Rightarrow> 'a result" where
  "bad field = Inl (ValidationError field)"

definition rbind :: "'a result \<Rightarrow> ('a \<Rightarrow> 'b result) \<Rightarrow> 'b result" where
  "rbind r f = (case r of Inl e \<Rightarrow> Inl e | Inr x \<Rightarrow> f x)"

lemma rbind_simps [simp]: "rbind (Inl e) f = Inl e" "rbind (Inr x) f = f x"
  by (simp_all add: rbind_def)

lemma rbind_Inr_iff: "rbind r f = Inr y \<longleftrightarrow> (\<exists>x. r = Inr x \<and> f x = Inr y)"
  by (cases r) simp_all

fun rmap :: "('a \<Rightarrow> 'b result) \<Rightarrow> 'a list \<Rightarrow> 'b list result" where
  \<comment> \<open>a list comprehension whose body may raise\<close>
  "rmap f [] = Inr []"
| "rmap f (x # xs) = rbind (f x) (\<lambda>y. rbind (rmap f xs) (\<lambda>ys. Inr (y # ys)))"

lemma rmap_map: "(\<And>x. x \<in> set xs \<Longrightarrow> f (g x) = Inr x) \<Longrightarrow> rmap f (map g xs) = Inr xs"
  by (induction xs) auto

lemma rmap_ok: "rmap f xs = Inr ys \<Longrightarrow> y \<in> set ys \<Longrightarrow> \<exists>x\<in>set xs. f x = Inr y"
  by (induction xs arbitrary: ys) (auto simp: rbind_Inr_iff)

lemma rmap_each: "rmap f xs = Inr ys \<Longrightarrow> x \<in> set xs \<Longrightarrow> \<exists>y. f x = Inr y"
  by (induction xs arbitrary: ys) (auto simp: rbind_Inr_iff)

lemma rmap_set: "rmap f xs = Inr ys \<Longrightarrow> y \<in> set ys \<longleftrightarrow> (\<exists>x\<in>set xs. f x = Inr y)"
  by (induction xs arbitrary: ys) (auto simp: rbind_Inr_iff)

lemma rmap_total: "(\<And>x. x \<in> set xs \<Longrightarrow> \<exists>y. f x = Inr y) \<Longrightarrow> \<exists>ys. rmap f xs = Inr ys"
  by (induction xs) (auto simp: rbind_Inr_iff)

lemma rmap_length: "rmap f xs = Inr ys \<Longrightarrow> length ys = length xs"
  by (induction xs arbitrary: ys) (auto simp: rbind_Inr_iff)

definition as_str :: "json \<Rightarrow> string result" where
  "as_str v = (case v of JStr s \<Rightarrow> Inr s | _ \<Rightarrow> bad ''string_type'')"

definition as_opt_str :: "json \<Rightarrow> string option result" where
  "as_opt_str v = (case v of JNull \<Rightarrow> Inr None | JStr s \<Rightarrow> Inr (Some s) | _ \<Rightarrow> bad ''string_type'')"

definition as_int :: "json \<Rightarrow> int result" where
  "as_int v = (case v of JInt i \<Rightarrow> Inr i | _ \<Rightarrow> bad ''int_type'')"

definition as_opt_int :: "json \<Rightarrow> int option result" where
  "as_opt_int v = (case v of JNull \<Rightarrow> Inr None | JInt i \<Rightarrow> Inr (Some i) | _ \<Rightarrow> bad ''int_type'')"

definition as_bool :: "json \<Rightarrow> bool result" where
  "as_bool v = (case v of JBool b \<Rightarrow> Inr b | _ \<Rightarrow> bad ''bool_type'')"

definition as_float :: "json \<Rightarrow> rat result" where
  "as_float v = (case v of JFloat r \<Rightarrow> Inr r | _ \<Rightarrow> bad ''float_type'')"

definition as_opt_time :: "json \<Rightarrow> time option result" where
  "as_opt_time v = (case v of JNull \<Rightarrow> Inr None | JTime t \<Rightarrow> Inr (Some t) | _ \<Rightarrow> bad ''datetime_type'')"

definition as_list :: "(json \<Rightarrow> 'a result) \<Rightarrow> json \<Rightarrow> 'a list result" where
  "as_list f v = (case v of JList xs \<Rightarrow> rmap f xs | _ \<Rightarrow> bad ''list_type'')"

definition as_literal :: "(string \<Rightarrow> 'a option) \<Rightarrow> json \<Rightarrow> 'a result" where
  "as_literal f v = (case v of JStr s \<Rightarrow> (case f s of Some x \<Rightarrow> Inr x | None \<Rightarrow> bad ''literal_error'')
     | _ \<Rightarrow> bad ''literal_error'')"

definition as_obj :: "(jobj \<Rightarrow> 'a result) \<Rightarrow> json \<Rightarrow> 'a result" where
  "as_obj f v = (case v of JObj d \<Rightarrow> f d | _ \<Rightarrow> bad ''dict_type'')"

definition evidence_of_json :: "jobj \<Rightarrow> evidence_span result" where
  "evidence_of_json d =
     rbind (as_str (jget d ''artifact_id'')) (\<lambda>a.
     rbind (as_str (jget d ''source_url'')) (\<lambda>u.
     rbind (as_str (jget d ''quote_hash'')) (\<lambda>q.
     rbind (as_str (jget d ''extracted_text_preview'')) (\<lambda>p.
     rbind (as_opt_int (jget d ''start_offset'')) (\<lambda>so.
     rbind (as_opt_int (jget d ''end_offset'')) (\<lambda>eo.
     rbind (as_opt_str (jget d ''section_path'')) (\<lambda>sp.
     rbind (as_opt_str (jget d ''table_cell_ref'')) (\<lambda>tc.
     rbind (as_str (jget d ''schema_version'')) (\<lambda>sv.
     mk_evidence \<lparr>ev_artifact_id = a, ev_source_url = u, ev_quote_hash = q, ev_preview = p,
       ev_start_offset = so, ev_end_offset = eo, ev_section_path = sp, ev_table_cell_ref = tc,
       ev_schema_version = sv\<rparr>)))))))))"

definition edge_of_json :: "jobj \<Rightarrow> traceability_edge result" where
  "edge_of_json d =
     rbind (as_str (jget d ''edge_id'')) (\<lambda>i.
     rbind (as_str (jget d ''source_node_id'')) (\<lambda>s.
     rbind (as_str (jget d ''target_node_id'')) (\<lambda>t.
     rbind (as_literal relation_of (jget d ''relation'')) (\<lambda>r.
     rbind (as_str (jget d ''reasoning'')) (\<lambda>rs.
     rbind (as_list (as_obj evidence_of_json) (jget d ''evidence'')) (\<lambda>ev.
     rbind (as_bool (jget d ''is_inferred'')) (\<lambda>inf.
     rbind (as_float (jget d ''confidence_score'')) (\<lambda>c.
     rbind (as_literal approval_status_of (jget d ''approval_status'')) (\<lambda>st.
     rbind (as_opt_str (jget d ''approved_by'')) (\<lambda>ab.
     rbind (as_opt_time (jget d ''approved_at'')) (\<lambda>aa.
     rbind (as_int (jget d ''version'')) (\<lambda>v.
     rbind (as_str (jget d ''schema_version'')) (\<lambda>sv.
     mk_edge \<lparr>te_edge_id = i, te_source_node_id = s, te_target_node_id = t, te_relation = r,
       te_reasoning = rs, te_evidence = ev, te_is_inferred = inf, te_confidence_score = c,
       te_approval_status = st, te_approved_by = ab, te_approved_at = aa, te_version = v,
       te_schema_version = sv\<rparr>)))))))))))))"

lemma as_simps [simp]:
  "as_str (JStr s) = Inr s" "as_int (JInt i) = Inr i" "as_bool (JBool b) = Inr b"
  "as_float (JFloat r) = Inr r" "as_opt_str (jopt x) = Inr x" "as_opt_int (jint_opt y) = Inr y"
  "as_opt_time (jtime_opt t) = Inr t" "as_list f (JList xs) = rmap f xs" "as_obj g (JObj d) = g d"
  "as_opt_str (JStr s) = Inr (Some s)"
  by (cases x; cases y; cases t; simp add: as_str_def as_int_def as_bool_def as_float_def
        as_opt_str_def as_opt_int_def as_opt_time_def as_list_def as_obj_def jopt_def jint_opt_def
        jtime_opt_def)+

lemma evidence_of_json_dump: "evidence_ok e \<Longrightarrow> evidence_of_json (evidence_dump e) = Inr e"
  by (cases e) (simp add: evidence_of_json_def evidence_dump_def jget_def mk_evidence_def)

lemma evidence_of_json_ok: "evidence_of_json d = Inr e \<Longrightarrow> evidence_ok e"
  by (auto simp: evidence_of_json_def rbind_Inr_iff mk_evidence_def split: if_splits)

lemma as_literal_str [simp]: "as_literal f (JStr s) = (case f s of Some x \<Rightarrow> Inr x | None \<Rightarrow> bad ''literal_error'')"
  by (simp add: as_literal_def)

lemma edge_of_json_dump:
  assumes "edge_full_ok e"
  shows "edge_of_json (edge_dump e) = Inr e"
proof -
  have "rmap (as_obj evidence_of_json) (map (\<lambda>s. JObj (evidence_dump s)) (te_evidence e)) = Inr (te_evidence e)"
    using assms by (intro rmap_map) (simp add: edge_full_ok_def list_all_iff evidence_of_json_dump)
  then show ?thesis
    using assms by (cases e) (simp add: edge_of_json_def edge_dump_def jget_def mk_edge_def edge_full_ok_def)
qed

lemma edge_of_json_fields:
  assumes "edge_of_json p = Inr e"
  shows "as_literal approval_status_of (jget p ''approval_status'') = Inr (te_approval_status e)
     \<and> as_opt_str (jget p ''approved_by'') = Inr (te_approved_by e)
     \<and> as_list (as_obj evidence_of_json) (jget p ''evidence'') = Inr (te_evidence e)
     \<and> edge_ok e"
  using assms by (clarsimp simp: edge_of_json_def rbind_Inr_iff mk_edge_def split: if_splits)

lemma as_list_evidence_ok: "as_list (as_obj evidence_of_json) v = Inr xs \<Longrightarrow> list_all evidence_ok xs"
  by (cases v)
    (auto simp: as_list_def bad_def list_all_iff as_obj_def dest!: rmap_ok dest: evidence_of_json_ok
      split: json.splits)

lemma edge_of_json_full_ok: "edge_of_json p = Inr e \<Longrightarrow> edge_full_ok e"
  by (auto simp: edge_full_ok_def dest: edge_of_json_fields as_list_evidence_ok)

lemma approval_status_of_SomeD: "approval_status_of s = Some a \<Longrightarrow> approval_status_str a = s"
  by (auto simp: approval_status_of_def find_Some_iff)

interpretation strict: edge_contract edge_of_json
proof unfold_locales
  show "edge_of_json (edge_dump e) = Inr e" if "edge_full_ok e" for e
    using that by (rule edge_of_json_dump)
  show "edge_full_ok e" if "edge_of_json p = Inr e" for p e
    using that by (rule edge_of_json_full_ok)
  show "approval_status_str (te_approval_status e) = s"
    if "edge_of_json p = Inr e" "dget p ''approval_status'' = Some (JStr s)" for p e s
    using edge_of_json_fields [OF that(1)] that(2)
    by (auto simp: jget_def bad_def dest: approval_status_of_SomeD split: option.splits)
  show "te_approved_by e = Some s"
    if "edge_of_json p = Inr e" "dget p ''approved_by'' = Some (JStr s)" for p e s
    using edge_of_json_fields [OF that(1)] that(2) by (auto simp: jget_def)
qed

section \<open>The memory backend\<close>

record memory_graph =
  gr_nodes :: "(string, ontology_node) dict"
  gr_edges :: "(string, traceability_edge) dict"
  gr_idempotency_keys :: "string set"

definition empty_graph :: memory_graph where
  "empty_graph = \<lparr>gr_nodes = [], gr_edges = [], gr_idempotency_keys = {}\<rparr>"

definition stage_baseline_nodes :: "ontology_node list \<Rightarrow> memory_graph \<Rightarrow> memory_graph" where
  "stage_baseline_nodes nodes g =
     foldl (\<lambda>g n. g\<lparr>gr_nodes := dset (on_node_id n) n (gr_nodes g)\<rparr>) g nodes"

definition apply_operation :: "schema \<Rightarrow> graph_delta_operation \<Rightarrow> memory_graph \<Rightarrow> memory_graph \<times> unit result" where
  "apply_operation sc x g =
     (case go_operation x of
        Create_Node \<Rightarrow>
          (case val_node sc (go_payload x) of
             Inl e \<Rightarrow> (g, Inl e)
           | Inr n \<Rightarrow> (g\<lparr>gr_nodes := dset (on_node_id n) n (gr_nodes g)\<rparr>, Inr ()))
      | Create_Edge \<Rightarrow>
          (case val_edge sc (go_payload x) of
             Inl e \<Rightarrow> (g, Inl e)
           | Inr e \<Rightarrow> (g\<lparr>gr_edges := dset (te_edge_id e) e (gr_edges g)\<rparr>, Inr ()))
      | _ \<Rightarrow> (g, Inr ()))"

fun apply_operations :: "schema \<Rightarrow> graph_delta_operation list \<Rightarrow> memory_graph \<Rightarrow> memory_graph \<times> unit result" where
  "apply_operations sc [] g = (g, Inr ())"
| "apply_operations sc (x # xs) g =
     (case apply_operation sc x g of
        (g', Inl e) \<Rightarrow> (g', Inl e)
      | (g', Inr _) \<Rightarrow> apply_operations sc xs g')"

definition apply_delta :: "schema \<Rightarrow> memory_graph \<Rightarrow> graph_delta \<Rightarrow> string \<Rightarrow> memory_graph \<times> unit result" where
  "apply_delta sc g delta idempotency_key =
     (if idempotency_key \<in> gr_idempotency_keys g then (g, Inr ())
      else case apply_operations sc (gd_operations delta) g of
             (g', Inl e) \<Rightarrow> (g', Inl e)
           | (g', Inr _) \<Rightarrow>
               (g'\<lparr>gr_idempotency_keys := insert idempotency_key (gr_idempotency_keys g')\<rparr>, Inr ()))"

definition approved_edges :: "memory_graph \<Rightarrow> traceability_edge list" where
  "approved_edges g = dvals (gr_edges g)"

definition subgraph :: "memory_graph \<Rightarrow> string \<Rightarrow> jobj" where
  "subgraph g project_key = [
     (''nodes'', JList (map (\<lambda>n. JObj (node_dump n))
        (filter (\<lambda>n. on_project_key n = project_key) (dvals (gr_nodes g))))),
     (''edges'', JList (map (\<lambda>e. JObj (edge_dump e)) (dvals (gr_edges g))))]"

definition graph_wf :: "memory_graph \<Rightarrow> bool" where
  \<comment> \<open>every entry stands under its own id, each id once\<close>
  "graph_wf g =
     (dict_by on_node_id (gr_nodes g) \<and> dict_by te_edge_id (gr_edges g))"

section \<open>The protocol\<close>

definition delta_edges :: "schema \<Rightarrow> graph_delta \<Rightarrow> traceability_edge set" where
  \<comment> \<open>the edges the \<open>create_edge\<close> operations of a delta validate to\<close>
  "delta_edges sc d = {e. \<exists>x\<in>set (gd_operations d).
     go_operation x = Create_Edge \<and> val_edge sc (go_payload x) = Inr e}"

locale graph_backend =
  fixes apply_d :: "'g \<Rightarrow> graph_delta \<Rightarrow> string \<Rightarrow> 'g \<times> unit result"
    and edges_of :: "'g \<Rightarrow> traceability_edge set"
    and sc :: schema
  assumes apply_idem: "apply_d g d k = (g', Inr ()) \<Longrightarrow> apply_d g' d' k = (g', Inr ())"
    and apply_edges: "edges_of (fst (apply_d g d k)) \<subseteq> edges_of g \<union> delta_edges sc d"
begin

lemma apply_twice:
  "snd (apply_d g d k) = Inr () \<Longrightarrow> apply_d (fst (apply_d g d k)) d' k = (fst (apply_d g d k), Inr ())"
  by (rule apply_idem [of g d]) (simp add: prod_eq_iff)

lemma apply_edges_in:
  "e \<in> edges_of (fst (apply_d g d k)) \<Longrightarrow> e \<notin> edges_of g \<Longrightarrow> e \<in> delta_edges sc d"
  using apply_edges by blast

end

lemma apply_operation_edges:
  "set (approved_edges (fst (apply_operation sc x g))) \<subseteq> set (approved_edges g) \<union>
     {e. go_operation x = Create_Edge \<and> val_edge sc (go_payload x) = Inr e}"
proof
  fix e
  assume "e \<in> set (approved_edges (fst (apply_operation sc x g)))"
  then show "e \<in> set (approved_edges g) \<union>
      {e. go_operation x = Create_Edge \<and> val_edge sc (go_payload x) = Inr e}"
    by (cases "go_operation x")
      (auto simp: apply_operation_def approved_edges_def simp del: set_map
        split: sum.splits dest: in_dvals_dset)
qed

lemma apply_operations_edges:
  "set (approved_edges (fst (apply_operations sc xs g))) \<subseteq> set (approved_edges g) \<union>
     {e. \<exists>x\<in>set xs. go_operation x = Create_Edge \<and> val_edge sc (go_payload x) = Inr e}"
proof (induction xs arbitrary: g)
  case Nil
  then show ?case by simp
next
  case (Cons x xs)
  show ?case
    using apply_operation_edges [of sc x g] Cons.IH [of "fst (apply_operation sc x g)"]
    by (auto split: prod.splits sum.splits)
qed

lemma apply_operation_keys:
  "gr_idempotency_keys (fst (apply_operation sc x g)) = gr_idempotency_keys g"
  by (auto simp: apply_operation_def split: graph_operation.splits sum.splits)

lemma apply_operations_keys:
  "gr_idempotency_keys (fst (apply_operations sc xs g)) = gr_idempotency_keys g"
proof (induction xs arbitrary: g)
  case Nil
  then show ?case by simp
next
  case (Cons x xs)
  show ?case
    using apply_operation_keys [of sc x g] Cons.IH [of "fst (apply_operation sc x g)"]
    by (auto split: prod.splits sum.splits)
qed

lemma approved_edges_update [simp]:
  "approved_edges (g\<lparr>gr_idempotency_keys := ks\<rparr>) = approved_edges g"
  "approved_edges (g\<lparr>gr_nodes := ns\<rparr>) = approved_edges g"
  by (simp_all add: approved_edges_def)

interpretation memory: graph_backend "apply_delta sc" "\<lambda>g. set (approved_edges g)" sc
proof unfold_locales
  show "apply_delta sc g' d' k = (g', Inr ())" if "apply_delta sc g d k = (g', Inr ())" for g d k g' d'
    using that by (auto simp: apply_delta_def split: if_splits prod.splits sum.splits)
  show "set (approved_edges (fst (apply_delta sc g d k))) \<subseteq> set (approved_edges g) \<union> delta_edges sc d"
    for g d k
    using apply_operations_edges [of sc "gd_operations d" g]
    by (auto simp: apply_delta_def delta_edges_def split: prod.splits sum.splits)
qed

lemma apply_operation_wf: "graph_wf g \<Longrightarrow> graph_wf (fst (apply_operation sc x g))"
  by (auto simp: graph_wf_def apply_operation_def split: graph_operation.splits sum.splits)

lemma apply_operations_wf: "graph_wf g \<Longrightarrow> graph_wf (fst (apply_operations sc xs g))"
proof (induction xs arbitrary: g)
  case Nil
  then show ?case by simp
next
  case (Cons x xs)
  show ?case
    using apply_operation_wf [OF Cons.prems, of sc x] Cons.IH [of "fst (apply_operation sc x g)"]
    by (auto split: prod.splits sum.splits)
qed

lemma apply_delta_wf: "graph_wf g \<Longrightarrow> graph_wf (fst (apply_delta sc g d k))"
  using apply_operations_wf [of g sc "gd_operations d"]
  by (auto simp: apply_delta_def graph_wf_def split: prod.splits sum.splits)

lemma apply_delta_ok:
  \<comment> \<open>a delta whose one operation creates a valid edge stores that edge under its id\<close>
  assumes "gd_operations d = [x]" and "go_operation x = Create_Edge"
    and "val_edge sc (go_payload x) = Inr e" and "k \<notin> gr_idempotency_keys g"
  shows "apply_delta sc g d k = (g\<lparr>gr_edges := dset (te_edge_id e) e (gr_edges g),
           gr_idempotency_keys := insert k (gr_idempotency_keys g)\<rparr>, Inr ())"
  using assms by (simp add: apply_delta_def apply_operation_def)

lemma stage_baseline_nodes_edges [simp]:
  "gr_edges (stage_baseline_nodes ns g) = gr_edges g"
  "gr_idempotency_keys (stage_baseline_nodes ns g) = gr_idempotency_keys g"
  by (induction ns arbitrary: g) (simp_all add: stage_baseline_nodes_def)

lemma stage_baseline_nodes_wf: "graph_wf g \<Longrightarrow> graph_wf (stage_baseline_nodes ns g)"
  unfolding stage_baseline_nodes_def
  by (induction ns arbitrary: g) (auto simp: graph_wf_def)

end
