(* ===== verification/Samples.thy ===== *)
theory Samples
  imports Graph
begin

text \<open>
  Small concrete values at which the properties are instantiated: a host whose hash and texts are
  constant, the strict validator, an evidence span, nodes and an edge.
\<close>

definition demo_host :: host where
  "demo_host = \<lparr>sha256_hex = (\<lambda>s. ''abc''), float_repr = (\<lambda>r. ''0.8''), dump_time = (\<lambda>t. ''now'')\<rparr>"

definition demo_schema :: schema where
  "demo_schema = \<lparr>val_node = (\<lambda>p. bad ''node''), val_edge = edge_of_json\<rparr>"

definition demo_evidence :: evidence_span where
  "demo_evidence = \<lparr>ev_artifact_id = ''a1'', ev_source_url = ''u'', ev_quote_hash = ''q'',
     ev_preview = ''shall'', ev_start_offset = Some 0, ev_end_offset = Some 5, ev_section_path = None,
     ev_table_cell_ref = None, ev_schema_version = ''v1''\<rparr>"

definition demo_node :: "string \<Rightarrow> node_type \<Rightarrow> ontology_node" where
  "demo_node i t = \<lparr>on_node_id = i, on_node_type = t, on_name = i, on_description = [],
     on_project_key = ''P'', on_domain = None, on_lifecycle_state = LS_Active,
     on_source_artifact_ids = [], on_evidence = [demo_evidence], on_created_by = By_Source,
     on_confidence_score = 95 / 100, on_version = 1, on_schema_version = ''v1''\<rparr>"

definition demo_edge :: "string \<Rightarrow> string \<Rightarrow> string \<Rightarrow> edge_relation \<Rightarrow> traceability_edge" where
  "demo_edge i s t r = \<lparr>te_edge_id = i, te_source_node_id = s, te_target_node_id = t,
     te_relation = r, te_reasoning = ''link'', te_evidence = [demo_evidence], te_is_inferred = False,
     te_confidence_score = 8 / 10, te_approval_status = AS_Pending, te_approved_by = None,
     te_approved_at = None, te_version = 1, te_schema_version = ''v1''\<rparr>"

lemma demo_edge_ok: "edge_full_ok (demo_edge i s t r)"
  by (simp add: demo_edge_def demo_evidence_def edge_full_ok_def edge_ok_def evidence_ok_def)

lemma demo_schema_contract: "edge_contract (val_edge demo_schema)"
  using strict.edge_contract_axioms by (simp add: demo_schema_def)

lemmas demo_defs = demo_host_def demo_schema_def demo_evidence_def demo_node_def demo_edge_def

end
