(* ===== verification/Chain.thy ===== *)
theory Chain
  imports Samples
begin

text \<open>
  \<open>graph/chain.py\<close>: the hop-limited traceability chain around a node, a breadth-first walk over the
  project's edges with a bound on the depth and on the number of nodes. A Python set of ids is a list
  without duplicates; where the source iterates over one in sorted order, so does the definition.
  The loop \<open>bfs\<close> also serves the neighbourhood of \<open>graph/projection.py\<close> (no node bound).
\<close>

section \<open>Adjacency\<close>

type_synonym adjacency = "(string, string list) dict"

definition adj_add :: "string \<Rightarrow> string \<Rightarrow> adjacency \<Rightarrow> adjacency" where
  \<comment> \<open>\<open>adjacency[u].add(v)\<close>\<close>
  "adj_add u v adj = (let vs = dlist adj u in dset u (if v \<in> set vs then vs else vs @ [v]) adj)"

datatype chain_direction = Upstream | Downstream | Both

definition add_chain_edge :: "chain_direction \<Rightarrow> adjacency \<Rightarrow> traceability_edge \<Rightarrow> adjacency" where
  "add_chain_edge direction adj e =
     (let adj1 = (if direction \<in> {Downstream, Both}
                  then adj_add (te_source_node_id e) (te_target_node_id e) adj else adj)
      in if direction \<in> {Upstream, Both}
         then adj_add (te_target_node_id e) (te_source_node_id e) adj1 else adj1)"

definition chain_adjacency :: "traceability_edge list \<Rightarrow> chain_direction \<Rightarrow> adjacency" where
  "chain_adjacency edges direction = foldl (add_chain_edge direction) [] edges"

lemma set_dlist_adj_add [simp]:
  "set (dlist (adj_add u v adj) x) = (if x = u then insert v (set (dlist adj x)) else set (dlist adj x))"
  by (auto simp: adj_add_def Let_def)

definition chain_step :: "chain_direction \<Rightarrow> traceability_edge list \<Rightarrow> (string \<times> string) set" where
  \<comment> \<open>the moves the direction allows\<close>
  "chain_step direction edges = {(u, v). \<exists>e\<in>set edges.
     direction \<in> {Downstream, Both} \<and> u = te_source_node_id e \<and> v = te_target_node_id e
     \<or> direction \<in> {Upstream, Both} \<and> u = te_target_node_id e \<and> v = te_source_node_id e}"

lemma chain_adjacency_step:
  "v \<in> set (dlist (chain_adjacency edges direction) u) \<longleftrightarrow> (u, v) \<in> chain_step direction edges"
proof -
  have "v \<in> set (dlist (foldl (add_chain_edge direction) adj edges) u) \<longleftrightarrow>
      v \<in> set (dlist adj u) \<or> (u, v) \<in> chain_step direction edges" for adj
  proof (induction edges arbitrary: adj)
    case Nil
    then show ?case by (simp add: chain_step_def)
  next
    case (Cons e edges)
    have "(u, v) \<in> chain_step direction (e # edges) \<longleftrightarrow>
        (u, v) \<in> chain_step direction [e] \<or> (u, v) \<in> chain_step direction edges"
      by (auto simp: chain_step_def)
    moreover have "v \<in> set (dlist (add_chain_edge direction adj e) u) \<longleftrightarrow>
        v \<in> set (dlist adj u) \<or> (u, v) \<in> chain_step direction [e]"
      by (auto simp: add_chain_edge_def chain_step_def Let_def)
    ultimately show ?case using Cons.IH [of "add_chain_edge direction adj e"] by simp
  qed
  from this [of "[]"] show ?thesis by (simp add: chain_adjacency_def)
qed

section \<open>The walk\<close>

type_synonym bfs_queue = "(string \<times> nat) list"
type_synonym bfs_selected = "(string, nat) dict"

definition reached :: "nat option \<Rightarrow> bfs_selected \<Rightarrow> bool" where
  "reached limit sel = (case limit of None \<Rightarrow> False | Some l \<Rightarrow> l \<le> length sel)"

fun expand :: "nat option \<Rightarrow> nat \<Rightarrow> string list \<Rightarrow> bfs_queue \<Rightarrow> bfs_selected \<Rightarrow> bfs_queue \<times> bfs_selected" where
  \<comment> \<open>the inner loop over the neighbours, with its \<open>break\<close>\<close>
  "expand limit d [] queue sel = (queue, sel)"
| "expand limit d (v # vs) queue sel =
     (if dhas sel v then expand limit d vs queue sel
      else let sel' = dset v d sel; queue' = queue @ [(v, d)]
           in if reached limit sel' then (queue', sel') else expand limit d vs queue' sel')"

definition adj_vertices :: "adjacency \<Rightarrow> string set" where
  "adj_vertices adj = \<Union> (set ` set (dvals adj))"

lemma dlist_vertices: "set (dlist adj u) \<subseteq> adj_vertices adj"
proof (cases "dget adj u")
  case None
  then show ?thesis by (simp add: dlist_def)
next
  case (Some vs)
  then have "vs \<in> set (dvals adj)" by (rule dget_in_vals)
  with Some show ?thesis unfolding adj_vertices_def dlist_def by auto
qed

lemma expand_measure:
  assumes "finite V" and "set vs \<subseteq> V" and "expand limit d vs queue sel = (queue', sel')"
  shows "2 * card (V - set (dkeys sel')) + length queue' \<le> 2 * card (V - set (dkeys sel)) + length queue"
  using assms(2,3)
proof (induction vs arbitrary: queue sel)
  case Nil
  then show ?case by simp
next
  case (Cons v vs)
  show ?case
  proof (cases "dhas sel v")
    case True
    with Cons show ?thesis by simp
  next
    case False
    let ?sel = "dset v d sel"
    have v: "v \<in> V" "v \<notin> set (dkeys sel)" using Cons.prems(1) False by (auto simp: dhas_def)
    then have "V - set (dkeys ?sel) = (V - set (dkeys sel)) - {v}" by auto
    then have "card (V - set (dkeys ?sel)) = card (V - set (dkeys sel)) - 1"
      using v assms(1) by (simp add: card_Diff_singleton)
    moreover have "0 < card (V - set (dkeys sel))" using v assms(1) by (auto simp: card_gt_0_iff)
    ultimately have less: "2 * card (V - set (dkeys ?sel)) + length (queue @ [(v, d)])
        \<le> 2 * card (V - set (dkeys sel)) + length queue" by simp
    show ?thesis
    proof (cases "reached limit ?sel")
      case True
      with Cons.prems False less show ?thesis by (simp add: Let_def)
    next
      case r: False
      with Cons.prems False have "expand limit d vs (queue @ [(v, d)]) ?sel = (queue', sel')"
        by (simp add: Let_def)
      from Cons.IH [OF _ this] Cons.prems(1) less show ?thesis by simp
    qed
  qed
qed

definition neighbours :: "bool \<Rightarrow> adjacency \<Rightarrow> string \<Rightarrow> string list" where
  \<comment> \<open>the order in which the loop visits the neighbours: sorted, or the set's own order\<close>
  "neighbours srt adj n = (if srt then sort (dlist adj n) else dlist adj n)"

lemma set_neighbours [simp]: "set (neighbours srt adj n) = set (dlist adj n)"
  by (simp add: neighbours_def)

function bfs :: "bool \<Rightarrow> adjacency \<Rightarrow> nat \<Rightarrow> nat option \<Rightarrow> bfs_queue \<Rightarrow> bfs_selected \<Rightarrow> bfs_selected" where
  "bfs srt adj depth limit [] sel = sel"
| "bfs srt adj depth limit ((n, d) # queue) sel =
     (if reached limit sel then sel
      else if depth \<le> d then bfs srt adj depth limit queue sel
      else bfs srt adj depth limit (fst (expand limit (Suc d) (neighbours srt adj n) queue sel))
                               (snd (expand limit (Suc d) (neighbours srt adj n) queue sel)))"
  by pat_completeness auto
termination
proof (relation "measure (\<lambda>(srt, adj, depth, limit, queue, sel).
    2 * card (adj_vertices adj - set (dkeys sel)) + length queue)")
  fix srt adj depth limit n d queue and sel :: bfs_selected
  show "((srt, adj, depth, limit, fst (expand limit (Suc d) (neighbours srt adj n) queue sel),
          snd (expand limit (Suc d) (neighbours srt adj n) queue sel)),
         srt, adj, depth, limit, (n, d) # queue, sel)
        \<in> measure (\<lambda>(srt, adj, depth, limit, queue, sel). 2 * card (adj_vertices adj - set (dkeys sel)) + length queue)"
    using expand_measure [of "adj_vertices adj" "neighbours srt adj n" limit "Suc d" queue sel
        "fst (expand limit (Suc d) (neighbours srt adj n) queue sel)"
        "snd (expand limit (Suc d) (neighbours srt adj n) queue sel)"] dlist_vertices [of adj n]
    by (simp add: adj_vertices_def case_prod_beta)
qed simp_all

definition walk_chain :: "string \<Rightarrow> adjacency \<Rightarrow> nat \<Rightarrow> nat \<Rightarrow> bfs_selected" where
  "walk_chain center adj depth limit_nodes =
     bfs True adj depth (Some limit_nodes) [(center, 0)] [(center, 0)]"

section \<open>Correctness of the walk\<close>

definition adj_rel :: "adjacency \<Rightarrow> (string \<times> string) set" where
  "adj_rel adj = {(u, v). v \<in> set (dlist adj u)}"

definition exact_depth :: "adjacency \<Rightarrow> string \<Rightarrow> string \<Rightarrow> nat \<Rightarrow> bool" where
  \<comment> \<open>\<open>k\<close> is the length of a shortest walk from the centre\<close>
  "exact_depth adj c v k = ((c, v) \<in> adj_rel adj ^^ k \<and> (\<forall>j<k. (c, v) \<notin> adj_rel adj ^^ j))"

text \<open>
  The invariant: every selected node has its exact depth, queued nodes are selected under the depth
  they carry, the depths in the queue are sorted and at most one apart, no selected depth exceeds the
  head's by more than one, and every selected node that is not queued and lies above the depth bound has all its
  neighbours selected.
\<close>

definition selected_ok :: "adjacency \<Rightarrow> string \<Rightarrow> nat \<Rightarrow> bfs_selected \<Rightarrow> bool" where
  "selected_ok adj c depth sel = (dict_ok sel \<and> dget sel c = Some 0
     \<and> (\<forall>v k. dget sel v = Some k \<longrightarrow> exact_depth adj c v k \<and> k \<le> depth))"

definition queued :: "bfs_queue \<Rightarrow> bfs_selected \<Rightarrow> bool" where
  "queued queue sel = (sorted (map snd queue) \<and> (\<forall>(v, k)\<in>set queue. dget sel v = Some k))"

definition below :: "nat \<Rightarrow> bfs_selected \<Rightarrow> bool" where
  "below m sel = (\<forall>v k. dget sel v = Some k \<longrightarrow> k \<le> m)"

definition expanded :: "adjacency \<Rightarrow> nat \<Rightarrow> string set \<Rightarrow> bfs_selected \<Rightarrow> bool" where
  "expanded adj depth skip sel = (\<forall>u k v. dget sel u = Some k \<longrightarrow> k < depth \<longrightarrow> u \<notin> skip \<longrightarrow>
     v \<in> set (dlist adj u) \<longrightarrow> (\<exists>j\<le>Suc k. dget sel v = Some j))"

definition bfs_inv :: "adjacency \<Rightarrow> string \<Rightarrow> nat \<Rightarrow> bfs_queue \<Rightarrow> bfs_selected \<Rightarrow> bool" where
  "bfs_inv adj c depth queue sel =
     (selected_ok adj c depth sel \<and> queued queue sel
      \<and> (queue \<noteq> [] \<longrightarrow> below (Suc (snd (hd queue))) sel)
      \<and> expanded adj depth (fst ` set queue) sel)"

definition near :: "adjacency \<Rightarrow> string \<Rightarrow> nat \<Rightarrow> bfs_selected \<Rightarrow> bool" where
  "near adj c d sel = (\<forall>v j. j \<le> d \<longrightarrow> (c, v) \<in> adj_rel adj ^^ j \<longrightarrow> dget sel v \<noteq> None)"

definition pending_neighbours :: "adjacency \<Rightarrow> string \<Rightarrow> string list \<Rightarrow> bfs_selected \<Rightarrow> bool" where
  "pending_neighbours adj n vs sel = (set vs \<subseteq> set (dlist adj n)
     \<and> (\<forall>v\<in>set (dlist adj n). v \<in> set vs \<or> dget sel v \<noteq> None))"

definition expand_inv :: "adjacency \<Rightarrow> string \<Rightarrow> nat \<Rightarrow> string \<Rightarrow> nat \<Rightarrow> string list \<Rightarrow> bfs_queue \<Rightarrow>
    bfs_selected \<Rightarrow> bool" where
  \<comment> \<open>while the neighbours \<open>vs\<close> of the node \<open>n\<close> at depth \<open>d\<close> remain\<close>
  "expand_inv adj c depth n d vs queue sel =
     (selected_ok adj c depth sel \<and> dget sel n = Some d \<and> d < depth \<and> queued queue sel
      \<and> (\<forall>k\<in>snd ` set queue. d \<le> k) \<and> below (Suc d) sel \<and> near adj c d sel
      \<and> expanded adj depth (insert n (fst ` set queue)) sel \<and> pending_neighbours adj n vs sel)"

lemma bfs_closed:
  \<comment> \<open>a node with a walk no longer than every queued depth is selected\<close>
  assumes "bfs_inv adj c depth queue sel" and "(c, v) \<in> adj_rel adj ^^ j" and "j \<le> depth"
    and "\<forall>k\<in>snd ` set queue. j \<le> k"
  shows "\<exists>i\<le>j. dget sel v = Some i"
  using assms(2-)
proof (induction j arbitrary: v)
  case 0
  with assms(1) show ?case by (auto simp: bfs_inv_def selected_ok_def)
next
  case (Suc j)
  from Suc.prems(1) obtain u where u: "(c, u) \<in> adj_rel adj ^^ j" "v \<in> set (dlist adj u)"
    by (auto simp: adj_rel_def)
  have "\<forall>k\<in>snd ` set queue. j \<le> k" using Suc.prems(3) by force
  with Suc.IH [OF u(1)] Suc.prems(2) obtain i where i: "i \<le> j" "dget sel u = Some i" by auto
  have "u \<notin> fst ` set queue"
  proof
    assume "u \<in> fst ` set queue"
    then obtain k where k: "(u, k) \<in> set queue" by auto
    with assms(1) i(2) have "k = i" by (auto simp: bfs_inv_def queued_def)
    with k Suc.prems(3) i(1) show False by force
  qed
  moreover have "expanded adj depth (fst ` set queue) sel" using assms(1) by (simp add: bfs_inv_def)
  moreover have "i < depth" using i(1) Suc.prems(2) by simp
  ultimately obtain l where "l \<le> Suc i" "dget sel v = Some l"
    using i(2) u(2) unfolding expanded_def by blast
  with i(1) show ?case by (meson Suc_le_mono order_trans)
qed

lemma exact_depth_next:
  assumes "exact_depth adj c n d" and "v \<in> set (dlist adj n)"
    and "\<forall>j\<le>d. (c, v) \<notin> adj_rel adj ^^ j"
  shows "exact_depth adj c v (Suc d)"
  using assms by (auto simp: exact_depth_def adj_rel_def less_Suc_eq_le)

lemma expand_inv_step:
  assumes "expand_inv adj c depth n d (v # vs) queue sel" and "\<not> dhas sel v"
  shows "expand_inv adj c depth n d vs (queue @ [(v, Suc d)]) (dset v (Suc d) sel)"
proof -
  let ?sel = "dset v (Suc d) sel"
  have I: "selected_ok adj c depth sel" "dget sel n = Some d" "d < depth" "queued queue sel"
    "\<forall>k\<in>snd ` set queue. d \<le> k" "below (Suc d) sel" "near adj c d sel"
    "expanded adj depth (insert n (fst ` set queue)) sel" "pending_neighbours adj n (v # vs) sel"
    using assms(1) by (simp_all add: expand_inv_def)
  have new: "dget sel v = None" using assms(2) by (simp add: dhas_dget)
  have "\<forall>j\<le>d. (c, v) \<notin> adj_rel adj ^^ j" using I(7) new unfolding near_def by blast
  moreover have "exact_depth adj c n d" using I(1,2) by (auto simp: selected_ok_def)
  moreover have "v \<in> set (dlist adj n)" using I(9) by (simp add: pending_neighbours_def)
  ultimately have ex: "exact_depth adj c v (Suc d)" by (intro exact_depth_next)
  have ne: "c \<noteq> v" "n \<noteq> v" using I(1,2) new by (auto simp: selected_ok_def)
  have "selected_ok adj c depth ?sel"
    using I(1,3) ex ne by (simp add: selected_ok_def dict_ok_dset)
  moreover have "queued (queue @ [(v, Suc d)]) ?sel"
  proof -
    have le: "k \<le> Suc d" if "(u, k) \<in> set queue" for u k
      using that I(4,6) by (fastforce simp: queued_def below_def)
    have "dget ?sel u = Some k" if "(u, k) \<in> set queue" for u k
      using that I(4) new by (auto simp: queued_def)
    with I(4) le show ?thesis by (auto simp: queued_def sorted_append)
  qed
  moreover have "below (Suc d) ?sel" using I(6) by (simp add: below_def)
  moreover have "near adj c d ?sel" using I(7) by (simp add: near_def)
  moreover have "expanded adj depth (insert n (fst ` set (queue @ [(v, Suc d)]))) ?sel"
    unfolding expanded_def
  proof (intro allI impI)
    fix u k w
    assume u: "dget ?sel u = Some k" "k < depth" "u \<notin> insert n (fst ` set (queue @ [(v, Suc d)]))"
      "w \<in> set (dlist adj u)"
    then have "u \<noteq> v" by simp
    with u have "dget sel u = Some k" "u \<notin> insert n (fst ` set queue)" by simp_all
    with I(8) u obtain j where "j \<le> Suc k" "dget sel w = Some j" unfolding expanded_def by blast
    then show "\<exists>j\<le>Suc k. dget ?sel w = Some j" using new by auto
  qed
  moreover have "pending_neighbours adj n vs ?sel" using I(9) by (auto simp: pending_neighbours_def)
  ultimately show ?thesis using I(2,3,5) ne by (simp add: expand_inv_def)
qed

lemma expand_correct:
  assumes "expand_inv adj c depth n d vs queue sel"
    and "expand limit (Suc d) vs queue sel = (queue', sel')"
  shows "selected_ok adj c depth sel' \<and> (reached limit sel' \<or> expand_inv adj c depth n d [] queue' sel')"
  using assms
proof (induction vs arbitrary: queue sel)
  case Nil
  then show ?case by (simp add: expand_inv_def)
next
  case (Cons v vs)
  show ?case
  proof (cases "dhas sel v")
    case True
    then have "expand_inv adj c depth n d vs queue sel"
      using Cons.prems(1) by (auto simp: expand_inv_def pending_neighbours_def dhas_dget)
    with Cons.IH Cons.prems(2) True show ?thesis by simp
  next
    case False
    note inv = expand_inv_step [OF Cons.prems(1) False]
    show ?thesis
    proof (cases "reached limit (dset v (Suc d) sel)")
      case True
      with Cons.prems(2) False have "sel' = dset v (Suc d) sel" by (simp add: Let_def)
      with True inv show ?thesis by (simp add: expand_inv_def)
    next
      case r: False
      with Cons.prems(2) False have "expand limit (Suc d) vs (queue @ [(v, Suc d)]) (dset v (Suc d) sel) = (queue', sel')"
        by (simp add: Let_def)
      with Cons.IH inv show ?thesis by blast
    qed
  qed
qed

lemma bfs_inv_head:
  assumes "bfs_inv adj c depth ((n, d) # queue) sel" and "d < depth"
  shows "expand_inv adj c depth n d (neighbours srt adj n) queue sel"
proof -
  have I: "selected_ok adj c depth sel" "queued ((n, d) # queue) sel" "below (Suc d) sel"
    "expanded adj depth (insert n (fst ` set queue)) sel"
    using assms(1) by (simp_all add: bfs_inv_def)
  have q: "\<forall>k\<in>snd ` set ((n, d) # queue). d \<le> k" using I(2) by (auto simp: queued_def)
  have "near adj c d sel"
    unfolding near_def
  proof (intro allI impI)
    fix v j assume j: "j \<le> d" "(c, v) \<in> adj_rel adj ^^ j"
    then have "\<forall>k\<in>snd ` set ((n, d) # queue). j \<le> k" using q by fastforce
    with bfs_closed [OF assms(1) j(2)] j(1) assms(2) show "dget sel v \<noteq> None" by auto
  qed
  with I q assms(2) show ?thesis
    by (simp add: expand_inv_def queued_def pending_neighbours_def)
qed

lemma below_mono: "below m sel \<Longrightarrow> m \<le> m' \<Longrightarrow> below m' sel"
  by (meson below_def order_trans)

lemma expand_inv_bfs:
  assumes "expand_inv adj c depth n d [] queue sel"
  shows "bfs_inv adj c depth queue sel"
proof -
  have I: "selected_ok adj c depth sel" "dget sel n = Some d" "queued queue sel"
    "\<forall>k\<in>snd ` set queue. d \<le> k" "below (Suc d) sel"
    "expanded adj depth (insert n (fst ` set queue)) sel" "\<forall>v\<in>set (dlist adj n). dget sel v \<noteq> None"
    using assms by (simp_all add: expand_inv_def pending_neighbours_def)
  have "expanded adj depth (fst ` set queue) sel"
    unfolding expanded_def
  proof (intro allI impI)
    fix u k v
    assume u: "dget sel u = Some k" "k < depth" "u \<notin> fst ` set queue" "v \<in> set (dlist adj u)"
    show "\<exists>j\<le>Suc k. dget sel v = Some j"
    proof (cases "u = n")
      case True
      with I(7) u(4) obtain j where "dget sel v = Some j" by auto
      with I(2,5) True u(1) show ?thesis by (auto simp: below_def)
    next
      case False
      with I(6) u show ?thesis unfolding expanded_def by blast
    qed
  qed
  moreover have "below (Suc (snd (hd queue))) sel" if "queue \<noteq> []"
    using below_mono [OF I(5)] I(4) hd_in_set [OF that] by simp
  ultimately show ?thesis using I by (simp add: bfs_inv_def)
qed

lemma bfs_inv_skip:
  assumes "bfs_inv adj c depth ((n, d) # queue) sel" and "depth \<le> d"
  shows "bfs_inv adj c depth queue sel"
proof -
  have I: "selected_ok adj c depth sel" "queued ((n, d) # queue) sel" "below (Suc d) sel"
    "expanded adj depth (insert n (fst ` set queue)) sel"
    using assms(1) by (simp_all add: bfs_inv_def)
  have n: "dget sel n = Some d" using I(2) by (simp add: queued_def)
  have "expanded adj depth (fst ` set queue) sel"
    unfolding expanded_def
  proof (intro allI impI)
    fix u k v
    assume u: "dget sel u = Some k" "k < depth" "u \<notin> fst ` set queue" "v \<in> set (dlist adj u)"
    then have "u \<noteq> n" using n assms(2) by auto
    with I(4) u show "\<exists>j\<le>Suc k. dget sel v = Some j" unfolding expanded_def by blast
  qed
  moreover have "below (Suc (snd (hd queue))) sel" if "queue \<noteq> []"
    using below_mono [OF I(3)] I(2) hd_in_set [OF that] by (auto simp: queued_def)
  ultimately show ?thesis using I by (simp add: bfs_inv_def queued_def)
qed

lemma bfs_correct:
  assumes "bfs_inv adj c depth queue sel"
  shows "selected_ok adj c depth (bfs srt adj depth limit queue sel)
    \<and> (reached limit (bfs srt adj depth limit queue sel)
       \<or> (\<forall>v j. j \<le> depth \<longrightarrow> (c, v) \<in> adj_rel adj ^^ j \<longrightarrow> (\<exists>i\<le>j. dget (bfs srt adj depth limit queue sel) v = Some i)))"
  using assms
proof (induction srt adj depth limit queue sel rule: bfs.induct)
  case (1 srt adj depth limit sel)
  then show ?case using bfs_closed [of adj c depth "[]" sel] by (auto simp: bfs_inv_def)
next
  case (2 srt adj depth limit n d queue sel)
  have ok: "selected_ok adj c depth sel" using "2.prems" by (simp add: bfs_inv_def)
  show ?case
  proof (cases "reached limit sel")
    case True
    with ok show ?thesis by simp
  next
    case r: False
    show ?thesis
    proof (cases "depth \<le> d")
      case True
      with "2.IH"(1) r bfs_inv_skip [OF "2.prems" True] show ?thesis by simp
    next
      case False
      obtain queue' sel' where e: "expand limit (Suc d) (neighbours srt adj n) queue sel = (queue', sel')"
        by (cases "expand limit (Suc d) (neighbours srt adj n) queue sel") auto
      from expand_correct [OF bfs_inv_head [OF "2.prems"] e] False
      consider "selected_ok adj c depth sel'" "reached limit sel'" | "expand_inv adj c depth n d [] queue' sel'"
        by auto
      then show ?thesis
      proof cases
        case 1
        then have "bfs srt adj depth limit queue' sel' = sel'" by (cases queue') auto
        with 1 r False e show ?thesis by simp
      next
        case 2
        with "2.IH"(2) expand_inv_bfs [OF 2] r False e show ?thesis by simp
      qed
    qed
  qed
qed

lemma expand_length:
  assumes "length sel < l" and "expand (Some l) d vs queue sel = (queue', sel')"
  shows "length sel' \<le> l"
  using assms
proof (induction vs arbitrary: queue sel)
  case Nil
  then show ?case by simp
next
  case (Cons v vs)
  consider (old) "dhas sel v" | (stop) "\<not> dhas sel v" "reached (Some l) (dset v d sel)"
    | (go) "\<not> dhas sel v" "\<not> reached (Some l) (dset v d sel)" by blast
  then show ?case
  proof cases
    case old
    with Cons show ?thesis by simp
  next
    case stop
    with Cons.prems show ?thesis by (auto simp: Let_def length_dset dhas_def)
  next
    case go
    with Cons.prems(2) have "expand (Some l) d vs (queue @ [(v, d)]) (dset v d sel) = (queue', sel')"
      by (simp add: Let_def)
    moreover have "length (dset v d sel) < l" using go(2) by (simp add: reached_def)
    ultimately show ?thesis by (rule Cons.IH [rotated])
  qed
qed

lemma bfs_length:
  "limit = Some l \<Longrightarrow> length sel \<le> l \<Longrightarrow> length (bfs srt adj depth limit queue sel) \<le> l"
proof (induction srt adj depth limit queue sel rule: bfs.induct)
  case (1 srt adj depth limit sel)
  then show ?case by simp
next
  case (2 srt adj depth limit n d queue sel)
  show ?case
  proof (cases "reached limit sel \<or> depth \<le> d")
    case True
    with 2 show ?thesis by auto
  next
    case False
    then have "length sel < l" using "2.prems" by (simp add: reached_def)
    then have "length (snd (expand limit (Suc d) (neighbours srt adj n) queue sel)) \<le> l"
      using expand_length "2.prems"(1) by (metis prod.collapse)
    with 2 False show ?thesis by simp
  qed
qed

lemma bfs_inv_start: "bfs_inv adj c depth [(c, 0)] [(c, 0)]"
  by (auto simp: bfs_inv_def selected_ok_def queued_def below_def expanded_def exact_depth_def dict_ok_def
      split: if_splits)

section \<open>The chain view\<close>

datatype view_status = View_Approved | View_Pending

definition view_status_str :: "view_status \<Rightarrow> string" where
  "view_status_str s = (case s of View_Approved \<Rightarrow> ''approved'' | View_Pending \<Rightarrow> ''pending'')"

record chain_node =
  cn_node_id :: string
  cn_node_type :: node_type
  cn_name :: string
  cn_description :: string
  cn_project_key :: string
  cn_depth :: nat
  cn_is_center :: bool

record chain_edge =
  ce_edge_id :: string
  ce_source_node_id :: string
  ce_source_node_name :: "string option"
  ce_target_node_id :: string
  ce_target_node_name :: "string option"
  ce_relation :: edge_relation
  ce_reasoning :: string
  ce_confidence_score :: rat
  ce_view_status :: view_status
  ce_approval_status :: approval_status
  ce_approval_id :: "string option"

record traceability_chain =
  tc_project_key :: string
  tc_center_node_id :: string
  tc_direction :: chain_direction
  tc_depth :: nat
  tc_include_pending :: bool
  tc_nodes :: "chain_node list"
  tc_edges :: "chain_edge list"
  tc_truncated :: bool

definition edge_in_project :: "traceability_edge \<Rightarrow> (string, ontology_node) dict \<Rightarrow> bool" where
  "edge_in_project e node_map = (dhas node_map (te_source_node_id e) \<and> dhas node_map (te_target_node_id e))"

definition chain_node_view :: "ontology_node \<Rightarrow> nat \<Rightarrow> string \<Rightarrow> chain_node" where
  "chain_node_view n depth center =
     \<lparr>cn_node_id = on_node_id n, cn_node_type = on_node_type n, cn_name = on_name n,
      cn_description = on_description n, cn_project_key = on_project_key n, cn_depth = depth,
      cn_is_center = (on_node_id n = center)\<rparr>"

definition chain_edge_view :: "traceability_edge \<Rightarrow> view_status \<Rightarrow> (string, ontology_node) dict \<Rightarrow>
    (string, string) dict \<Rightarrow> chain_edge" where
  \<comment> \<open>both endpoints are keys of \<open>node_map\<close> wherever it is called, so the names are present\<close>
  "chain_edge_view e status node_map pending_approval_by_edge_id =
     \<lparr>ce_edge_id = te_edge_id e, ce_source_node_id = te_source_node_id e,
      ce_source_node_name = map_option on_name (dget node_map (te_source_node_id e)),
      ce_target_node_id = te_target_node_id e,
      ce_target_node_name = map_option on_name (dget node_map (te_target_node_id e)),
      ce_relation = te_relation e, ce_reasoning = te_reasoning e,
      ce_confidence_score = te_confidence_score e, ce_view_status = status,
      ce_approval_status = (if status = View_Pending then AS_Pending else te_approval_status e),
      ce_approval_id = dget pending_approval_by_edge_id (te_edge_id e)\<rparr>"

definition chain_node_map :: "string \<Rightarrow> ontology_node list \<Rightarrow> (string, ontology_node) dict" where
  "chain_node_map project_key nodes =
     dict_of (map (\<lambda>n. (on_node_id n, n)) (filter (\<lambda>n. on_project_key n = project_key) nodes))"

definition chain_records :: "(string, ontology_node) dict \<Rightarrow> traceability_edge list \<Rightarrow>
    traceability_edge list \<Rightarrow> bool \<Rightarrow> (traceability_edge \<times> view_status) list" where
  "chain_records node_map approved pending include_pending =
     map (\<lambda>e. (e, View_Approved)) (filter (\<lambda>e. edge_in_project e node_map) approved)
     @ (if include_pending
        then map (\<lambda>e. (e, View_Pending)) (filter (\<lambda>e. edge_in_project e node_map) pending)
        else [])"

definition build_traceability_chain :: "string \<Rightarrow> string \<Rightarrow> ontology_node list \<Rightarrow> traceability_edge list \<Rightarrow>
    traceability_edge list \<Rightarrow> (string, string) dict option \<Rightarrow> chain_direction \<Rightarrow> int \<Rightarrow> bool \<Rightarrow> int \<Rightarrow>
    traceability_chain" where
  "build_traceability_chain project_key center nodes approved pending pending_approvals
       direction depth include_pending limit_nodes =
     (let capped_depth = nat (clamp 1 6 depth);
          capped_limit = nat (clamp 1 500 limit_nodes);
          node_map = chain_node_map project_key nodes;
          edge_records = chain_records node_map approved pending include_pending;
          adjacency = chain_adjacency (map fst edge_records) direction;
          selected_depths = walk_chain center adjacency capped_depth capped_limit;
          approvals = (case pending_approvals of None \<Rightarrow> [] | Some d \<Rightarrow> d);
          visible_edges = map (\<lambda>(e, status). chain_edge_view e status node_map approvals)
            (filter (\<lambda>(e, status). dhas selected_depths (te_source_node_id e)
               \<and> dhas selected_depths (te_target_node_id e)) edge_records);
          ordered = map fst (sort_key (\<lambda>(i, k). (k, i)) selected_depths);
          visible_nodes = List.map_filter (\<lambda>i. case (dget node_map i, dget selected_depths i) of
              (Some n, Some k) \<Rightarrow> Some (chain_node_view n k center) | _ \<Rightarrow> None) ordered
      in \<lparr>tc_project_key = project_key, tc_center_node_id = center, tc_direction = direction,
          tc_depth = capped_depth, tc_include_pending = include_pending, tc_nodes = visible_nodes,
          tc_edges = sort_key (\<lambda>e. (relation_str (ce_relation e), ce_edge_id e)) visible_edges,
          tc_truncated = (capped_limit \<le> length selected_depths)\<rparr>)"

section \<open>Properties\<close>

lemma adj_rel_chain: "adj_rel (chain_adjacency edges direction) = chain_step direction edges"
  by (auto simp: adj_rel_def chain_adjacency_step)

lemma walk_chain_correct:
  assumes "1 \<le> limit_nodes"
  shows "selected_ok adj c depth (walk_chain c adj depth limit_nodes)
    \<and> length (walk_chain c adj depth limit_nodes) \<le> limit_nodes
    \<and> (length (walk_chain c adj depth limit_nodes) < limit_nodes \<longrightarrow>
        (\<forall>v j. j \<le> depth \<longrightarrow> (c, v) \<in> adj_rel adj ^^ j \<longrightarrow>
           (\<exists>i\<le>j. dget (walk_chain c adj depth limit_nodes) v = Some i)))"
  using bfs_correct [OF bfs_inv_start, of adj c depth True "Some limit_nodes"]
    bfs_length [of "Some limit_nodes" limit_nodes "[(c, 0)]" True adj depth "[(c, 0)]"] assms
  by (auto simp: walk_chain_def reached_def)

text \<open>
  Property C20. The chain walk computes distances: whatever the edges, the direction and the bounds,
  every selected node carries the length of a shortest walk from the centre along the allowed
  direction, at most \<open>depth\<close>; no more than \<open>limit_nodes\<close> nodes are selected, the centre among them;
  and when fewer are, every node within \<open>depth\<close> steps of the centre is selected.
\<close>

theorem walk_chain_shortest:
  assumes "1 \<le> limit_nodes"
    and "r = walk_chain c (chain_adjacency edges direction) depth limit_nodes"
  shows "dget r c = Some 0 \<and> length r \<le> limit_nodes \<and> distinct (dkeys r)
    \<and> (\<forall>v k. dget r v = Some k \<longrightarrow> k \<le> depth \<and> (c, v) \<in> chain_step direction edges ^^ k
          \<and> (\<forall>j<k. (c, v) \<notin> chain_step direction edges ^^ j))
    \<and> (length r < limit_nodes \<longrightarrow> (\<forall>v j. j \<le> depth \<and> (c, v) \<in> chain_step direction edges ^^ j \<longrightarrow>
          v \<in> set (dkeys r)))"
  using walk_chain_correct [OF assms(1), of "chain_adjacency edges direction" c depth]
  unfolding assms(2) [symmetric] adj_rel_chain selected_ok_def exact_depth_def dict_ok_def
  by (metis dget_None_iff option.distinct(1))

lemma clamp_nat: "lo \<le> hi \<Longrightarrow> 0 \<le> lo \<Longrightarrow> nat lo \<le> nat (clamp lo hi x) \<and> nat (clamp lo hi x) \<le> nat hi"
  using clamp_bounds [of lo hi x] by (simp add: nat_mono)

lemma in_map_filter: "y \<in> set (List.map_filter f xs) \<longleftrightarrow> (\<exists>x\<in>set xs. f x = Some y)"
  by (induction xs) (auto simp: List.map_filter_def)

lemma length_map_filter: "length (List.map_filter f xs) \<le> length xs"
  by (simp add: List.map_filter_def)

text \<open>
  The chain view shows only what it may: at most 500 nodes, all of the requested
  project, each with its shortest distance from the centre over the shown kinds of edges; every edge
  joins two selected nodes and a pending edge is never shown as approved; and a view that is not
  truncated shows every project node within the depth.
\<close>

theorem chain_view_sound:
  assumes "ch = build_traceability_chain p c nodes approved pending approvals direction depth incl limit"
    and "recs = chain_records (chain_node_map p nodes) approved pending incl"
  shows "length (tc_nodes ch) \<le> 500 \<and> tc_depth ch \<le> 6
    \<and> (\<forall>n\<in>set (tc_nodes ch). cn_project_key n = p
         \<and> exact_depth (chain_adjacency (map fst recs) direction) c (cn_node_id n) (cn_depth n)
         \<and> cn_depth n \<le> tc_depth ch)
    \<and> (\<forall>e\<in>set (tc_edges ch). \<exists>e0 status. (e0, status) \<in> set recs \<and> ce_edge_id e = te_edge_id e0
         \<and> ce_view_status e = status \<and> (status = View_Pending \<longrightarrow> ce_approval_status e = AS_Pending))
    \<and> (\<not> tc_truncated ch \<longrightarrow> (\<forall>v j n. j \<le> tc_depth ch \<and> (c, v) \<in> chain_step direction (map fst recs) ^^ j
         \<and> dget (chain_node_map p nodes) v = Some n \<longrightarrow> v \<in> cn_node_id ` set (tc_nodes ch)))"
proof -
  let ?d = "nat (clamp 1 6 depth)" and ?l = "nat (clamp 1 500 limit)"
  let ?adj = "chain_adjacency (map fst recs) direction" and ?m = "chain_node_map p nodes"
  define sel where "sel = walk_chain c ?adj ?d ?l"
  define view where "view = (\<lambda>i. case (dget ?m i, dget sel i) of
      (Some n, Some k) \<Rightarrow> Some (chain_node_view n k c) | _ \<Rightarrow> None)"
  have l: "1 \<le> ?l" "?l \<le> 500" "?d \<le> 6" using clamp_nat [of 1 500 limit] clamp_nat [of 1 6 depth] by simp_all
  note W = walk_chain_correct [OF l(1), of ?adj c ?d, folded sel_def]
  have nodes: "tc_nodes ch = List.map_filter view (map fst (sort_key (\<lambda>(i, k). (k, i)) sel))"
    and trunc: "tc_truncated ch = (?l \<le> length sel)" and depth: "tc_depth ch = ?d"
    and edges: "set (tc_edges ch) = (\<lambda>(e, status). chain_edge_view e status ?m
        (case approvals of None \<Rightarrow> [] | Some d \<Rightarrow> d)) ` {r \<in> set recs. (\<lambda>(e, status).
          dhas sel (te_source_node_id e) \<and> dhas sel (te_target_node_id e)) r}"
    by (simp_all add: assms build_traceability_chain_def Let_def sel_def view_def)
  have m: "on_project_key n = p \<and> on_node_id n = v" if "dget ?m v = Some n" for v n
    using that by (auto simp: chain_node_map_def dget_dict_of dest!: map_of_SomeD)
  have len: "length (tc_nodes ch) \<le> 500"
    using length_map_filter [of view "map fst (sort_key (\<lambda>(i, k). (k, i)) sel)"] W l by (simp add: nodes)
  have in_nodes: "n \<in> set (tc_nodes ch) \<longleftrightarrow> (\<exists>v\<in>fst ` set sel. view v = Some n)" for n
    by (simp add: nodes in_map_filter)
  have F1: "cn_project_key n = p \<and> exact_depth ?adj c (cn_node_id n) (cn_depth n) \<and> cn_depth n \<le> ?d"
    if "n \<in> set (tc_nodes ch)" for n
  proof -
    from that obtain v n0 k where v: "dget ?m v = Some n0" "dget sel v = Some k" "n = chain_node_view n0 k c"
      unfolding in_nodes view_def by (auto split: option.splits)
    with m [OF v(1)] W show ?thesis by (auto simp: chain_node_view_def selected_ok_def)
  qed
  have F2: "\<exists>e0 status. (e0, status) \<in> set recs \<and> ce_edge_id e = te_edge_id e0
         \<and> ce_view_status e = status \<and> (status = View_Pending \<longrightarrow> ce_approval_status e = AS_Pending)"
    if "e \<in> set (tc_edges ch)" for e
    using that by (fastforce simp: edges chain_edge_view_def)
  have F3: "v \<in> cn_node_id ` set (tc_nodes ch)"
    if "\<not> tc_truncated ch" "j \<le> tc_depth ch" "(c, v) \<in> chain_step direction (map fst recs) ^^ j"
      "dget ?m v = Some n" for v j n
  proof -
    have "(c, v) \<in> adj_rel ?adj ^^ j" using that(3) by (simp add: adj_rel_chain)
    with W that(1,2) obtain k where k: "dget sel v = Some k" unfolding trunc depth by (auto simp: not_le)
    then have "view v = Some (chain_node_view n k c)" using that(4) by (simp add: view_def)
    moreover have "v \<in> fst ` set sel" using k by (force dest: map_of_SomeD)
    ultimately have "chain_node_view n k c \<in> set (tc_nodes ch)" unfolding in_nodes by blast
    moreover have "cn_node_id (chain_node_view n k c) = v" using m [OF that(4)] by (simp add: chain_node_view_def)
    ultimately show ?thesis by (metis imageI)
  qed
  show ?thesis
    using len l(3) F1 F2 F3 unfolding depth by (intro conjI ballI allI impI) blast+
qed

section \<open>Instances\<close>

lemma walk_chain_shortest_witness:
  "let r = walk_chain ''a'' (chain_adjacency [demo_edge ''1'' ''a'' ''b'' Satisfies, demo_edge ''2'' ''b'' ''c'' Satisfies] Downstream) 1 10
   in dget r ''a'' = Some 0 \<and> ''b'' \<in> set (dkeys r) \<and> dget r ''c'' \<noteq> Some 2"
proof -
  let ?es = "[demo_edge ''1'' ''a'' ''b'' Satisfies, demo_edge ''2'' ''b'' ''c'' Satisfies]"
  define r where "r = walk_chain ''a'' (chain_adjacency ?es Downstream) 1 10"
  have r: "r = [(''a'', 0), (''b'', 1)]"
    by (simp add: r_def walk_chain_def chain_adjacency_def add_chain_edge_def adj_add_def demo_edge_def
        reached_def dhas_def dlist_def neighbours_def Let_def)
  have "(''a'', ''b'') \<in> chain_step Downstream ?es ^^ 1" by (simp add: chain_step_def demo_edge_def)
  moreover have "length r < 10" "1 \<le> (1::nat)" "1 \<le> (10::nat)" using r by simp_all
  ultimately have "dget r ''a'' = Some 0 \<and> ''b'' \<in> set (dkeys r)"
    using walk_chain_shortest [OF _ r_def] by blast
  moreover have "dget r ''c'' \<noteq> Some 2" by (simp add: r)
  ultimately show ?thesis unfolding Let_def r_def [symmetric] by blast
qed

lemma chain_view_sound_witness:
  "let ch = build_traceability_chain ''P'' ''n'' [demo_node ''n'' Requirement] [] [] None Both 99 True 9999
   in length (tc_nodes ch) \<le> 500 \<and> tc_depth ch \<le> 6"
  using chain_view_sound [OF refl refl, of "''P''" "''n''" "[demo_node ''n'' Requirement]" "[]" "[]" None Both 99 True 9999]
  by (simp add: Let_def)

end
