(* ===== verification/Projection.thy ===== *)
theory Projection
  imports Chain
begin

text \<open>
  \<open>graph/projection.py\<close>: the graph view for the UI, with degrees, finding counts and risk levels per
  node, node selection by mode (a bounded neighbourhood search among them), edge filters, groups and
  counts. A node view holds the dumped node beside its metadata, an edge view the dumped edge with the
  fields the view replaces. The order in which Python iterates over a set of neighbours is
  unspecified: the neighbourhood loop takes any adjacency lists and its theorem mentions no order.
\<close>

section \<open>Views\<close>

record graph_node_view =
  gv_node :: ontology_node
  gv_approved_in_degree :: nat
  gv_approved_out_degree :: nat
  gv_pending_in_degree :: nat
  gv_pending_out_degree :: nat
  gv_finding_count :: nat
  gv_risk_level :: "severity option" \<comment> \<open>\<open>None\<close> for the text \<open>none\<close>\<close>
  gv_is_orphan :: bool
  gv_has_pending_edges :: bool

record graph_edge_view =
  ge_edge :: traceability_edge
  ge_source_node_name :: "string option"
  ge_target_node_name :: "string option"
  ge_view_status :: view_status
  ge_approval_id :: "string option"

record graph_group_view =
  gg_group_id :: string
  gg_label :: string
  gg_node_type :: "string option"
  gg_count :: nat
  gg_orphan_count :: nat
  gg_pending_count :: nat
  gg_finding_count :: nat

record projection_counts =
  pc_total_nodes :: nat
  pc_visible_nodes :: nat
  pc_approved_edges :: nat
  pc_pending_edges :: nat
  pc_visible_approved_edges :: nat
  pc_visible_pending_edges :: nat
  pc_orphan_nodes :: nat
  pc_findings :: nat
  pc_truncated :: bool

datatype view_mode = Overview | Neighborhood | Orphans | Pending_Mode | Full
datatype edge_filter = EF_All | EF_Approved | EF_Pending | EF_Incoming | EF_Outgoing

record graph_projection =
  gp_mode :: view_mode
  gp_center_node_id :: "string option"
  gp_hops :: nat
  gp_limit_nodes :: nat
  gp_search_query :: "string option"
  gp_edge_filter :: edge_filter
  gp_nodes :: "graph_node_view list"
  gp_approved_edges :: "graph_edge_view list"
  gp_pending_edges :: "graph_edge_view list"
  gp_edges :: "graph_edge_view list"
  gp_groups :: "graph_group_view list"
  gp_counts :: projection_counts

section \<open>Degrees, findings and risk\<close>

record node_degree =
  dg_approved_in :: nat
  dg_approved_out :: nat
  dg_pending_in :: nat
  dg_pending_out :: nat

definition zero_degree :: node_degree where
  "zero_degree = \<lparr>dg_approved_in = 0, dg_approved_out = 0, dg_pending_in = 0, dg_pending_out = 0\<rparr>"

definition degree_at :: "(string, node_degree) dict \<Rightarrow> string \<Rightarrow> node_degree" where
  "degree_at d i = (case dget d i of None \<Rightarrow> zero_degree | Some x \<Rightarrow> x)"

definition count_approved :: "(string, node_degree) dict \<Rightarrow> traceability_edge \<Rightarrow> (string, node_degree) dict" where
  "count_approved d e =
     (let s = te_source_node_id e; t = te_target_node_id e;
          d1 = dset s (degree_at d s\<lparr>dg_approved_out := dg_approved_out (degree_at d s) + 1\<rparr>) d
      in dset t (degree_at d1 t\<lparr>dg_approved_in := dg_approved_in (degree_at d1 t) + 1\<rparr>) d1)"

definition count_pending :: "(string, node_degree) dict \<Rightarrow> traceability_edge \<Rightarrow> (string, node_degree) dict" where
  "count_pending d e =
     (let s = te_source_node_id e; t = te_target_node_id e;
          d1 = dset s (degree_at d s\<lparr>dg_pending_out := dg_pending_out (degree_at d s) + 1\<rparr>) d
      in dset t (degree_at d1 t\<lparr>dg_pending_in := dg_pending_in (degree_at d1 t) + 1\<rparr>) d1)"

definition degree_by_node :: "traceability_edge list \<Rightarrow> traceability_edge list \<Rightarrow> (string, node_degree) dict" where
  "degree_by_node approved pending = foldl count_pending (foldl count_approved [] approved) pending"

definition bump :: "(string, nat) dict \<Rightarrow> string \<Rightarrow> (string, nat) dict" where
  "bump d i = dset i (Suc (case dget d i of None \<Rightarrow> 0 | Some n \<Rightarrow> n)) d"

definition finding_by_node :: "finding list \<Rightarrow> (string, nat) dict" where
  "finding_by_node findings = foldl (\<lambda>d f. foldl bump d (fd_affected_node_ids f)) [] findings"

definition raise_risk :: "severity \<Rightarrow> (string, severity) dict \<Rightarrow> string \<Rightarrow> (string, severity) dict" where
  \<comment> \<open>one dictionary stands for the pair \<open>rank_by_node\<close> (0 where there is no key) and \<open>risk\<close>\<close>
  "raise_risk s d i =
     (if severity_rank s > (case dget d i of None \<Rightarrow> 0 | Some t \<Rightarrow> severity_rank t) then dset i s d else d)"

definition risk_by_node :: "finding list \<Rightarrow> (string, severity) dict" where
  "risk_by_node findings = foldl (\<lambda>d f. foldl (raise_risk (fd_severity f)) d (fd_affected_node_ids f)) [] findings"

definition node_view :: "ontology_node \<Rightarrow> node_degree \<Rightarrow> nat \<Rightarrow> severity option \<Rightarrow> graph_node_view" where
  "node_view n degree finding_count risk_level =
     \<lparr>gv_node = n, gv_approved_in_degree = dg_approved_in degree,
      gv_approved_out_degree = dg_approved_out degree, gv_pending_in_degree = dg_pending_in degree,
      gv_pending_out_degree = dg_pending_out degree, gv_finding_count = finding_count,
      gv_risk_level = risk_level,
      gv_is_orphan = (dg_approved_in degree + dg_approved_out degree + dg_pending_in degree
        + dg_pending_out degree = 0),
      gv_has_pending_edges = (dg_pending_in degree + dg_pending_out degree > 0)\<rparr>"

definition edge_view :: "traceability_edge \<Rightarrow> view_status \<Rightarrow> (string, string) dict \<Rightarrow> string option \<Rightarrow>
    graph_edge_view" where
  "edge_view e status node_names approval_id =
     \<lparr>ge_edge = (if status = View_Pending
        then e\<lparr>te_approval_status := AS_Pending, te_approved_by := None, te_approved_at := None\<rparr> else e),
      ge_source_node_name = dget node_names (te_source_node_id e),
      ge_target_node_name = dget node_names (te_target_node_id e),
      ge_view_status = status, ge_approval_id = approval_id\<rparr>"

section \<open>Selection\<close>

definition normalize_search :: "string option \<Rightarrow> string option" where
  "normalize_search q = (case q of None \<Rightarrow> None
     | Some s \<Rightarrow> if py_strip s = [] then None else Some (py_strip s))"

definition node_matches :: "graph_node_view \<Rightarrow> string \<Rightarrow> bool" where
  "node_matches v needle =
     (let n = gv_node v in
      list_ex (\<lambda>t. py_in needle (py_casefold t))
        ([on_node_id n, node_type_str (on_node_type n), on_name n, on_description n, on_project_key n,
          opt_str_or (on_domain n) []] @ on_source_artifact_ids n))"

definition search_nodes :: "graph_node_view list \<Rightarrow> string option \<Rightarrow> graph_node_view list" where
  "search_nodes nodes q = (case normalize_search q of None \<Rightarrow> nodes
     | Some s \<Rightarrow> filter (\<lambda>v. node_matches v (py_casefold s)) nodes)"

definition sort_nodes :: "graph_node_view list \<Rightarrow> graph_node_view list" where
  "sort_nodes nodes = sort_key (\<lambda>v.
     (if gv_is_orphan v then 0 else 1 :: nat,
      if gv_risk_level v \<in> {Some Critical, Some High} then 0 else 1 :: nat,
      if gv_has_pending_edges v then 0 else 1 :: nat,
      node_type_str (on_node_type (gv_node v)), on_node_id (gv_node v))) nodes"

fun nb_visit :: "nat \<Rightarrow> string list \<Rightarrow> bfs_queue \<Rightarrow> string list \<Rightarrow> bfs_queue \<times> string list" where
  "nb_visit d [] queue seen = (queue, seen)"
| "nb_visit d (v # vs) queue seen =
     (if v \<in> set seen then nb_visit d vs queue seen else nb_visit d vs (queue @ [(v, d)]) (seen @ [v]))"

lemma nb_visit_measure:
  assumes "finite V" and "set vs \<subseteq> V"
  shows "2 * card (V - set (snd (nb_visit d vs queue seen))) + length (fst (nb_visit d vs queue seen))
     \<le> 2 * card (V - set seen) + length queue"
  using assms(2)
proof (induction vs arbitrary: queue seen)
  case Nil
  then show ?case by simp
next
  case (Cons v vs)
  show ?case
  proof (cases "v \<in> set seen")
    case True
    with Cons show ?thesis by simp
  next
    case False
    have "V - set (seen @ [v]) = (V - set seen) - {v}" by auto
    then have "card (V - set (seen @ [v])) = card (V - set seen) - 1"
      using False Cons.prems assms(1) by (simp add: card_Diff_singleton)
    moreover have "0 < card (V - set seen)" using False Cons.prems assms(1) by (auto simp: card_gt_0_iff)
    ultimately show ?thesis
      using False Cons.IH [of "queue @ [(v, d)]" "seen @ [v]"] Cons.prems by simp
  qed
qed

function nb_loop :: "adjacency \<Rightarrow> nat \<Rightarrow> bfs_queue \<Rightarrow> string list \<Rightarrow> string list" where
  "nb_loop adj hops [] seen = seen"
| "nb_loop adj hops ((n, d) # queue) seen =
     (if hops \<le> d then nb_loop adj hops queue seen
      else nb_loop adj hops (fst (nb_visit (Suc d) (dlist adj n) queue seen))
                            (snd (nb_visit (Suc d) (dlist adj n) queue seen)))"
  by pat_completeness auto
termination
proof (relation "measure (\<lambda>(adj, hops, queue, seen). 2 * card (adj_vertices adj - set seen) + length queue)")
  fix adj hops n d queue and seen :: "string list"
  show "((adj, hops, fst (nb_visit (Suc d) (dlist adj n) queue seen),
          snd (nb_visit (Suc d) (dlist adj n) queue seen)), adj, hops, (n, d) # queue, seen)
        \<in> measure (\<lambda>(adj, hops, queue, seen). 2 * card (adj_vertices adj - set seen) + length queue)"
    using nb_visit_measure [of "adj_vertices adj" "dlist adj n" "Suc d" queue seen] dlist_vertices [of adj n]
    by (simp add: adj_vertices_def case_prod_beta)
qed simp_all

definition neighborhood_ids :: "string \<Rightarrow> traceability_edge list \<Rightarrow> nat \<Rightarrow> string list" where
  "neighborhood_ids center edges hops = nb_loop (chain_adjacency edges Both) hops [(center, 0)] [center]"

definition select_nodes :: "graph_node_view list \<Rightarrow> traceability_edge list \<Rightarrow> traceability_edge list \<Rightarrow>
    view_mode \<Rightarrow> string option \<Rightarrow> nat \<Rightarrow> nat \<Rightarrow> string option \<Rightarrow> graph_node_view list" where
  "select_nodes nodes approved pending mode center hops limit_nodes search_query =
     (let filtered = search_nodes nodes search_query in
      if mode = Full then take limit_nodes (sort_nodes filtered)
      else if mode = Orphans then take limit_nodes (sort_nodes (filter gv_is_orphan filtered))
      else if mode = Pending_Mode then take limit_nodes (sort_nodes (filter gv_has_pending_edges filtered))
      else (case center of
          Some c \<Rightarrow>
            if mode = Neighborhood \<and> c \<noteq> []
            then (let ids = neighborhood_ids c (approved @ pending) hops
                  in take limit_nodes (sort_nodes (filter (\<lambda>v. on_node_id (gv_node v) \<in> set ids) filtered)))
            else take limit_nodes (sort_nodes filtered)
        | None \<Rightarrow> take limit_nodes (sort_nodes filtered)))"

definition filter_edges :: "traceability_edge list \<Rightarrow> edge_filter \<Rightarrow> string option \<Rightarrow> traceability_edge list" where
  "filter_edges edges f center =
     (if f \<in> {EF_All, EF_Approved, EF_Pending} then edges
      else case center of
        None \<Rightarrow> edges
      | Some c \<Rightarrow> if c = [] then edges
          else if f = EF_Incoming then filter (\<lambda>e. te_target_node_id e = c) edges
          else filter (\<lambda>e. te_source_node_id e = c) edges)"

definition group_view :: "string \<times> graph_node_view list \<Rightarrow> graph_group_view" where
  "group_view g = \<lparr>gg_group_id = ''group_'' @ fst g, gg_label = fst g, gg_node_type = Some (fst g),
     gg_count = length (snd g), gg_orphan_count = length (filter gv_is_orphan (snd g)),
     gg_pending_count = length (filter gv_has_pending_edges (snd g)),
     gg_finding_count = sum_list (map gv_finding_count (snd g))\<rparr>"

definition projection_groups :: "graph_node_view list \<Rightarrow> graph_group_view list" where
  "projection_groups nodes =
     map group_view (sort_key fst (group_by (\<lambda>v. node_type_str (on_node_type (gv_node v))) nodes))"

section \<open>The projection\<close>

definition edge_nodes_exist :: "traceability_edge \<Rightarrow> (string, ontology_node) dict \<Rightarrow> bool" where
  "edge_nodes_exist e node_map = (dhas node_map (te_source_node_id e) \<and> dhas node_map (te_target_node_id e))"

definition both_in :: "string set \<Rightarrow> traceability_edge \<Rightarrow> bool" where
  "both_in ids e = (te_source_node_id e \<in> ids \<and> te_target_node_id e \<in> ids)"

definition node_views :: "ontology_node list \<Rightarrow> traceability_edge list \<Rightarrow> traceability_edge list \<Rightarrow>
    finding list \<Rightarrow> graph_node_view list" where
  "node_views nodes approved pending findings =
     (let fbn = finding_by_node findings; rbn = risk_by_node findings;
          degree = degree_by_node approved pending
      in map (\<lambda>n. node_view n (degree_at degree (on_node_id n))
           (case dget fbn (on_node_id n) of None \<Rightarrow> 0 | Some k \<Rightarrow> k) (dget rbn (on_node_id n))) nodes)"

definition build_graph_projection :: "ontology_node list \<Rightarrow> traceability_edge list \<Rightarrow> traceability_edge list \<Rightarrow>
    finding list \<Rightarrow> view_mode \<Rightarrow> string option \<Rightarrow> int \<Rightarrow> int \<Rightarrow> string option \<Rightarrow> edge_filter \<Rightarrow>
    (string, string) dict option \<Rightarrow> graph_projection" where
  "build_graph_projection nodes approved0 pending0 findings mode center hops limit_nodes
       search_query f pending_approvals =
     (let capped_hops = nat (clamp 1 3 hops);
          capped_limit = nat (clamp 1 500 limit_nodes);
          node_map = dict_of (map (\<lambda>n. (on_node_id n, n)) nodes);
          node_names = dict_of (map (\<lambda>n. (on_node_id n, on_name n)) nodes);
          approved = filter (\<lambda>e. edge_nodes_exist e node_map) approved0;
          pending = filter (\<lambda>e. edge_nodes_exist e node_map) pending0;
          approvals = (case pending_approvals of None \<Rightarrow> [] | Some d \<Rightarrow> d);
          views = node_views nodes approved pending findings;
          selected = select_nodes views approved pending mode center capped_hops capped_limit search_query;
          ids = set (map (\<lambda>v. on_node_id (gv_node v)) selected);
          filtered_approved = (if f = EF_Pending then []
            else filter_edges (filter (both_in ids) approved) f center);
          filtered_pending = (if f = EF_Approved then []
            else filter_edges (filter (both_in ids) pending) f center);
          visible_approved = map (\<lambda>e. edge_view e View_Approved node_names None) filtered_approved;
          visible_pending = map (\<lambda>e. edge_view e View_Pending node_names (dget approvals (te_edge_id e)))
            filtered_pending
      in \<lparr>gp_mode = mode, gp_center_node_id = center, gp_hops = capped_hops,
          gp_limit_nodes = capped_limit, gp_search_query = normalize_search search_query,
          gp_edge_filter = f, gp_nodes = selected, gp_approved_edges = visible_approved,
          gp_pending_edges = visible_pending, gp_edges = visible_approved @ visible_pending,
          gp_groups = projection_groups views,
          gp_counts = \<lparr>pc_total_nodes = length views, pc_visible_nodes = length selected,
            pc_approved_edges = length approved, pc_pending_edges = length pending,
            pc_visible_approved_edges = length visible_approved,
            pc_visible_pending_edges = length visible_pending,
            pc_orphan_nodes = length (filter gv_is_orphan views), pc_findings = length findings,
            pc_truncated = (length selected < length views)\<rparr>\<rparr>)"

section \<open>The neighbourhood is the reachable set\<close>

lemma nb_visit_expand:
  "nb_visit d vs queue (dkeys sel) = (fst (expand None d vs queue sel), dkeys (snd (expand None d vs queue sel)))"
proof (induction vs arbitrary: queue sel)
  case Nil
  then show ?case by simp
next
  case (Cons v vs)
  then show ?case
    using Cons.IH [of "queue @ [(v, d)]" "dset v d sel"]
    by (cases "v \<in> fst ` set sel") (simp_all add: dhas_def reached_def dkeys_dset)
qed

lemma nb_loop_bfs: "nb_loop adj hops queue (dkeys sel) = dkeys (bfs False adj hops None queue sel)"
proof (induction False adj hops "None :: nat option" queue sel rule: bfs.induct)
  case (1 adj depth sel)
  then show ?case by simp
next
  case (2 adj depth n d queue sel)
  then show ?case
    by (simp add: reached_def neighbours_def nb_visit_expand)
qed

text \<open>
  The neighbourhood of the projection is the set of nodes within \<open>hops\<close> undirected
  edges of the centre: the loop ends on every graph, and neither the order of the edges nor the order
  in which neighbours are visited matters.
\<close>

theorem neighborhood_reachable:
  "set (neighborhood_ids c edges hops) = {v. \<exists>j\<le>hops. (c, v) \<in> chain_step Both edges ^^ j}"
proof -
  let ?adj = "chain_adjacency edges Both"
  define sel where "sel = bfs False ?adj hops None [(c, 0)] [(c, 0)]"
  have ids: "neighborhood_ids c edges hops = dkeys sel"
    using nb_loop_bfs [of ?adj hops "[(c, 0)]" "[(c, 0)]"] by (simp add: neighborhood_ids_def sel_def)
  note B = bfs_correct [OF bfs_inv_start, of ?adj c hops False None, folded sel_def, unfolded adj_rel_chain]
  have "v \<in> set (dkeys sel) \<longleftrightarrow> (\<exists>j\<le>hops. (c, v) \<in> chain_step Both edges ^^ j)" for v
  proof
    assume "v \<in> set (dkeys sel)"
    then obtain k where "dget sel v = Some k" using dget_None_iff [of sel v] by fastforce
    with B show "\<exists>j\<le>hops. (c, v) \<in> chain_step Both edges ^^ j"
      by (auto simp: selected_ok_def exact_depth_def adj_rel_chain)
  next
    assume "\<exists>j\<le>hops. (c, v) \<in> chain_step Both edges ^^ j"
    with B obtain i where "dget sel v = Some i" by (auto simp: reached_def)
    then show "v \<in> set (dkeys sel)" by (force dest: map_of_SomeD)
  qed
  then show ?thesis unfolding ids by blast
qed

section \<open>Node metadata\<close>

definition occurrences :: "'a \<Rightarrow> 'a list \<Rightarrow> nat" where
  "occurrences x xs = length (filter (\<lambda>y. y = x) xs)"

lemma occurrences_simps [simp]:
  "occurrences x [] = 0" "occurrences x (y # ys) = (if y = x then 1 else 0) + occurrences x ys"
  "occurrences x (xs @ ys) = occurrences x xs + occurrences x ys"
  by (simp_all add: occurrences_def)

lemma degree_at_dset: "degree_at (dset k v d) i = (if i = k then v else degree_at d i)"
  by (simp add: degree_at_def)

lemma foldl_count_approved:
  "degree_at (foldl count_approved d es) i = degree_at d i\<lparr>
     dg_approved_in := dg_approved_in (degree_at d i) + occurrences i (map te_target_node_id es),
     dg_approved_out := dg_approved_out (degree_at d i) + occurrences i (map te_source_node_id es)\<rparr>"
  by (induction es arbitrary: d) (auto simp: count_approved_def Let_def degree_at_dset)

lemma foldl_count_pending:
  "degree_at (foldl count_pending d es) i = degree_at d i\<lparr>
     dg_pending_in := dg_pending_in (degree_at d i) + occurrences i (map te_target_node_id es),
     dg_pending_out := dg_pending_out (degree_at d i) + occurrences i (map te_source_node_id es)\<rparr>"
  by (induction es arbitrary: d) (auto simp: count_pending_def Let_def degree_at_dset)

lemma degree_by_node_at:
  "degree_at (degree_by_node approved pending) i =
     \<lparr>dg_approved_in = occurrences i (map te_target_node_id approved),
      dg_approved_out = occurrences i (map te_source_node_id approved),
      dg_pending_in = occurrences i (map te_target_node_id pending),
      dg_pending_out = occurrences i (map te_source_node_id pending)\<rparr>"
  by (simp add: degree_by_node_def foldl_count_approved foldl_count_pending)
    (simp add: degree_at_def zero_degree_def)

definition nat_at :: "(string, nat) dict \<Rightarrow> string \<Rightarrow> nat" where
  "nat_at d i = (case dget d i of None \<Rightarrow> 0 | Some n \<Rightarrow> n)"

lemma foldl_bump: "nat_at (foldl bump d is) i = nat_at d i + occurrences i is"
  by (induction "is" arbitrary: d) (auto simp: bump_def nat_at_def split: option.splits)

lemma foldl_finding_by_node:
  "nat_at (foldl (\<lambda>d f. foldl bump d (fd_affected_node_ids f)) d fs) i
     = nat_at d i + occurrences i (concat (map fd_affected_node_ids fs))"
  by (induction fs arbitrary: d) (simp_all add: foldl_bump)

text \<open>The risk of a node is the greatest severity that any finding on it has.\<close>

definition opt_max :: "severity option \<Rightarrow> severity \<Rightarrow> severity option" where
  "opt_max a s = (case a of None \<Rightarrow> Some s | Some t \<Rightarrow> Some (max t s))"

lemma severity_less_iff: "s < t \<longleftrightarrow> severity_rank s < severity_rank t"
  by (simp add: less_severity_def)

lemma severity_rank_pos: "0 < severity_rank s"
  by (cases s) (simp_all add: severity_rank_def)

lemma dget_raise_risk: "dget (raise_risk s d i) j = (if j = i then opt_max (dget d j) s else dget d j)"
  by (auto simp: raise_risk_def opt_max_def max_def severity_rank_pos less_eq_severity_def
      split: option.splits dest: severity_rank_inj)

lemma opt_max_idem: "opt_max (opt_max a s) s = opt_max a s"
  by (cases a) (simp_all add: opt_max_def)

lemma foldl_raise_risk:
  "dget (foldl (raise_risk s) d is) j = (if j \<in> set is then opt_max (dget d j) s else dget d j)"
  by (induction "is" arbitrary: d) (auto simp: dget_raise_risk opt_max_idem)

lemma foldl_opt_max: "foldl opt_max (Some t) ss = Some (foldl max t ss)"
  by (induction ss arbitrary: t) (simp_all add: opt_max_def)

lemma foldl_max_set: "foldl max t ss = Max (insert t (set ss))"
proof (induction ss arbitrary: t)
  case Nil
  then show ?case by simp
next
  case (Cons s ss)
  have "foldl max t (s # ss) = Max (insert (max t s) (set ss))" using Cons by simp
  also have "\<dots> = Max (insert t (set (s # ss)))"
    by (cases "ss = []") (simp_all add: max.assoc)
  finally show ?case .
qed

lemma risk_by_node_get:
  "dget (risk_by_node fs) i =
     (let ss = {fd_severity f | f. f \<in> set fs \<and> i \<in> set (fd_affected_node_ids f)}
      in if ss = {} then None else Some (Max ss))"
proof -
  let ?fs = "filter (\<lambda>f. i \<in> set (fd_affected_node_ids f)) fs"
  have *: "dget (foldl (\<lambda>d f. foldl (raise_risk (fd_severity f)) d (fd_affected_node_ids f)) d fs) i
      = foldl opt_max (dget d i) (map fd_severity (filter (\<lambda>f. i \<in> set (fd_affected_node_ids f)) fs))" for d
    by (induction fs arbitrary: d) (simp_all add: foldl_raise_risk)
  have ss: "{fd_severity f | f. f \<in> set fs \<and> i \<in> set (fd_affected_node_ids f)} = set (map fd_severity ?fs)"
    by auto
  show ?thesis
    unfolding risk_by_node_def * ss
    by (cases "map fd_severity ?fs") (auto simp: opt_max_def foldl_opt_max foldl_max_set Let_def)
qed

text \<open>
  The metadata of a node view is what its name says: the four degrees count the edges
  that leave and reach the node, the finding count its mentions in findings, the risk level is the
  greatest severity among those findings (none without one), and a node is an orphan exactly when no
  approved and no pending edge touches it.
\<close>

theorem node_view_metadata:
  assumes "v \<in> set (node_views nodes approved pending findings)" and "i = on_node_id (gv_node v)"
  shows "gv_node v \<in> set nodes
    \<and> gv_approved_in_degree v = occurrences i (map te_target_node_id approved)
    \<and> gv_approved_out_degree v = occurrences i (map te_source_node_id approved)
    \<and> gv_pending_in_degree v = occurrences i (map te_target_node_id pending)
    \<and> gv_pending_out_degree v = occurrences i (map te_source_node_id pending)
    \<and> gv_finding_count v = occurrences i (concat (map fd_affected_node_ids findings))
    \<and> gv_risk_level v = (let ss = {fd_severity f | f. f \<in> set findings \<and> i \<in> set (fd_affected_node_ids f)}
                          in if ss = {} then None else Some (Max ss))
    \<and> (gv_is_orphan v \<longleftrightarrow> \<not> (\<exists>e\<in>set (approved @ pending). te_source_node_id e = i \<or> te_target_node_id e = i))"
proof -
  have eq: "node_views nodes approved pending findings = map (\<lambda>n. node_view n
      (degree_at (degree_by_node approved pending) (on_node_id n))
      (nat_at (finding_by_node findings) (on_node_id n)) (dget (risk_by_node findings) (on_node_id n))) nodes"
    by (simp add: node_views_def Let_def nat_at_def)
  from assms(1) obtain n where n0: "n \<in> set nodes" "v = node_view n
      (degree_at (degree_by_node approved pending) (on_node_id n))
      (nat_at (finding_by_node findings) (on_node_id n)) (dget (risk_by_node findings) (on_node_id n))"
    unfolding eq set_map by (elim imageE) blast
  then have "gv_node v = n" by (simp add: node_view_def)
  with assms(2) n0 have n: "n \<in> set nodes" "v = node_view n (degree_at (degree_by_node approved pending) i)
      (nat_at (finding_by_node findings) i) (dget (risk_by_node findings) i)" by simp_all
  have "nat_at (finding_by_node findings) i = occurrences i (concat (map fd_affected_node_ids findings))"
    using foldl_finding_by_node [of "[]" findings i] by (simp add: finding_by_node_def nat_at_def)
  moreover have "occurrences i (map g es) = 0 \<longleftrightarrow> \<not> (\<exists>e\<in>set es. g e = i)" for g and es :: "traceability_edge list"
    by (auto simp: occurrences_def filter_empty_conv)
  ultimately show ?thesis
    using n(1) unfolding n(2) node_view_def degree_by_node_at risk_by_node_get by auto
qed

section \<open>What the projection shows\<close>

lemma select_nodes_sub: "set (select_nodes nodes a p mode c hops l q) \<subseteq> set nodes"
  by (auto simp: select_nodes_def sort_nodes_def search_nodes_def Let_def
      dest!: in_set_takeD split: if_splits option.splits)

lemma select_nodes_length: "length (select_nodes nodes a p mode c hops l q) \<le> l"
  by (auto simp: select_nodes_def Let_def split: option.splits)

lemma filter_edges_sub: "set (filter_edges es f c) \<subseteq> set es"
  by (auto simp: filter_edges_def split: if_splits option.splits)

lemma projection_shows:
  assumes "g = build_graph_projection nodes approved pending findings mode c hops limit q f approvals"
  shows "gv_node ` set (gp_nodes g) \<subseteq> set nodes"
    and "v \<in> set (gp_edges g) \<Longrightarrow> te_source_node_id (ge_edge v) \<in> on_node_id ` gv_node ` set (gp_nodes g)
         \<and> te_target_node_id (ge_edge v) \<in> on_node_id ` gv_node ` set (gp_nodes g)
         \<and> (ge_view_status v = View_Pending \<longrightarrow> te_approval_status (ge_edge v) = AS_Pending
              \<and> te_approved_by (ge_edge v) = None \<and> te_approved_at (ge_edge v) = None)"
    and "v \<in> set (gp_edges g) \<Longrightarrow> ge_view_status v = View_Pending \<Longrightarrow> te_edge_id (ge_edge v) \<in> te_edge_id ` set pending"
proof -
  let ?m = "dict_of (map (\<lambda>n. (on_node_id n, n)) nodes)"
  let ?a = "filter (\<lambda>e. edge_nodes_exist e ?m) approved" and ?p = "filter (\<lambda>e. edge_nodes_exist e ?m) pending"
  let ?names = "dict_of (map (\<lambda>n. (on_node_id n, on_name n)) nodes)"
  define sel where "sel = select_nodes (node_views nodes ?a ?p findings) ?a ?p mode c (nat (clamp 1 3 hops))
    (nat (clamp 1 500 limit)) q"
  define ids where "ids = set (map (\<lambda>v. on_node_id (gv_node v)) sel)"
  have g: "gp_nodes g = sel" "gp_edges g = gp_approved_edges g @ gp_pending_edges g"
    by (simp_all add: assms build_graph_projection_def Let_def sel_def)
  have "gv_node ` set (node_views nodes ?a ?p findings) \<subseteq> set nodes"
    by (auto simp: node_views_def node_view_def Let_def)
  then show "gv_node ` set (gp_nodes g) \<subseteq> set nodes"
    using select_nodes_sub [of "node_views nodes ?a ?p findings" ?a ?p mode c "nat (clamp 1 3 hops)" "nat (clamp 1 500 limit)" q]
    unfolding g sel_def by blast
  have av: "gp_approved_edges g = map (\<lambda>e. edge_view e View_Approved ?names None)
      (if f = EF_Pending then [] else filter_edges (filter (both_in ids) ?a) f c)"
    by (simp add: assms build_graph_projection_def Let_def sel_def ids_def)
  have pv: "gp_pending_edges g = map (\<lambda>e. edge_view e View_Pending ?names
        (dget (case approvals of None \<Rightarrow> [] | Some d \<Rightarrow> d) (te_edge_id e)))
      (if f = EF_Approved then [] else filter_edges (filter (both_in ids) ?p) f c)"
    by (simp add: assms build_graph_projection_def Let_def sel_def ids_def)
  have in_f: "e \<in> set (filter_edges (filter (both_in ids) es) f c) \<Longrightarrow> both_in ids e \<and> e \<in> set es" for e es
    using filter_edges_sub [of "filter (both_in ids) es" f c] by auto
  have ea: "\<exists>e. both_in ids e \<and> v = edge_view e View_Approved ?names None" if "v \<in> set (gp_approved_edges g)"
    using that unfolding av set_map by (cases "f = EF_Pending") (auto simp del: filter_filter dest!: in_f)
  have ep: "\<exists>e i. both_in ids e \<and> e \<in> set pending \<and> v = edge_view e View_Pending ?names i" if "v \<in> set (gp_pending_edges g)"
    using that unfolding pv set_map by (cases "f = EF_Approved") (auto simp del: filter_filter dest!: in_f)
  have "ids = on_node_id ` gv_node ` set (gp_nodes g)" by (simp add: ids_def g image_image)
  then show "v \<in> set (gp_edges g) \<Longrightarrow> te_source_node_id (ge_edge v) \<in> on_node_id ` gv_node ` set (gp_nodes g)
         \<and> te_target_node_id (ge_edge v) \<in> on_node_id ` gv_node ` set (gp_nodes g)
         \<and> (ge_view_status v = View_Pending \<longrightarrow> te_approval_status (ge_edge v) = AS_Pending
              \<and> te_approved_by (ge_edge v) = None \<and> te_approved_at (ge_edge v) = None)"
    using ea ep unfolding g(2) by (auto simp: edge_view_def both_in_def)
  show "v \<in> set (gp_edges g) \<Longrightarrow> ge_view_status v = View_Pending \<Longrightarrow> te_edge_id (ge_edge v) \<in> te_edge_id ` set pending"
    using ea ep unfolding g(2) by (auto simp: edge_view_def)
qed

text \<open>
  Property C39. A projection is bounded and closed: it shows at most the capped number of nodes (500),
  all of them views of given nodes; every edge shown joins two shown nodes; an edge shown as pending
  never carries an approval; and the counts match what is shown.
\<close>

theorem projection_closed:
  assumes "g = build_graph_projection nodes approved pending findings mode c hops limit q f approvals"
  shows "length (gp_nodes g) \<le> gp_limit_nodes g \<and> gp_limit_nodes g \<le> 500 \<and> gp_hops g \<le> 3
    \<and> gv_node ` set (gp_nodes g) \<subseteq> set nodes
    \<and> (\<forall>v\<in>set (gp_edges g). te_source_node_id (ge_edge v) \<in> on_node_id ` gv_node ` set (gp_nodes g)
         \<and> te_target_node_id (ge_edge v) \<in> on_node_id ` gv_node ` set (gp_nodes g)
         \<and> (ge_view_status v = View_Pending \<longrightarrow> te_approval_status (ge_edge v) = AS_Pending
              \<and> te_approved_by (ge_edge v) = None \<and> te_approved_at (ge_edge v) = None))
    \<and> pc_visible_nodes (gp_counts g) = length (gp_nodes g)
    \<and> pc_visible_approved_edges (gp_counts g) + pc_visible_pending_edges (gp_counts g) = length (gp_edges g)"
proof -
  have l: "nat (clamp 1 500 limit) \<le> 500" "nat (clamp 1 3 hops) \<le> 3"
    using clamp_nat [of 1 500 limit] clamp_nat [of 1 3 hops] by simp_all
  have g: "gp_limit_nodes g = nat (clamp 1 500 limit)" "gp_hops g = nat (clamp 1 3 hops)"
    "length (gp_nodes g) \<le> nat (clamp 1 500 limit)" "pc_visible_nodes (gp_counts g) = length (gp_nodes g)"
    "pc_visible_approved_edges (gp_counts g) + pc_visible_pending_edges (gp_counts g) = length (gp_edges g)"
    by (simp_all add: assms build_graph_projection_def Let_def select_nodes_length)
  show ?thesis
    using projection_shows(1,2) [OF assms] l g by simp
qed

section \<open>Instances\<close>

lemma neighborhood_reachable_instance:
  "''b'' \<in> set (neighborhood_ids ''a'' [demo_edge ''1'' ''a'' ''b'' Satisfies] 1)"
proof -
  have "(''a'', ''b'') \<in> chain_step Both [demo_edge ''1'' ''a'' ''b'' Satisfies] ^^ 1"
    by (simp add: chain_step_def demo_edge_def)
  then show ?thesis unfolding neighborhood_reachable by blast
qed

lemma node_view_metadata_witness:
  "\<exists>v\<in>set (node_views [demo_node ''a'' Requirement] [demo_edge ''1'' ''a'' ''b'' Satisfies] [] []).
     gv_approved_out_degree v = 1 \<and> gv_risk_level v = None \<and> \<not> gv_is_orphan v"
proof -
  let ?vs = "node_views [demo_node ''a'' Requirement] [demo_edge ''1'' ''a'' ''b'' Satisfies] [] []"
  obtain v where v: "v \<in> set ?vs" "on_node_id (gv_node v) = ''a''"
    by (auto simp: node_views_def Let_def node_view_def demo_node_def)
  with node_view_metadata [OF v(1) refl] show ?thesis by (auto simp: demo_edge_def)
qed

lemma projection_closed_witness:
  "let g = build_graph_projection [demo_node ''a'' Requirement] [] [] [] Full None 1 1000 None EF_All None
   in length (gp_nodes g) \<le> 500 \<and> pc_visible_nodes (gp_counts g) = length (gp_nodes g)"
  using projection_closed [OF refl, of "[demo_node ''a'' Requirement]" "[]" "[]" "[]" Full None 1 1000 None EF_All None]
  by (simp add: Let_def)

end
