(* ===== verification/Audit_Trail.thy ===== *)
theory Audit_Trail
  imports Graph
begin

text \<open>
  \<open>audit/models.py\<close>, \<open>audit/service.py\<close> and the archive writers of \<open>audit/archive.py\<close>: the audit
  registry, its retention candidates, and archiving with pruning. The archive writer is an argument
  with its own state; it may raise.
\<close>

section \<open>Contracts\<close>

datatype audit_action = AA_Run_Started | AA_Run_Completed | AA_Approval_Decided
  | AA_Feedback_Recorded | AA_Finding_Status_Changed | AA_Improvement_Activated
  | AA_Improvement_Rolled_Back | AA_Model_Profile_Activated | AA_Model_Profile_Rolled_Back
  | AA_Prompt_Version_Activated | AA_Prompt_Version_Rolled_Back | AA_Debug_Artifact_Read
  | AA_Schedule_Configured | AA_Schedule_Run_Now | AA_Dashboard_Preferences_Saved
  | AA_Work_Queue_Assignment_Updated | AA_Archive_Pruned

definition audit_action_str :: "audit_action \<Rightarrow> string" where
  "audit_action_str a = (case a of
     AA_Run_Started \<Rightarrow> ''run_started'' | AA_Run_Completed \<Rightarrow> ''run_completed''
   | AA_Approval_Decided \<Rightarrow> ''approval_decided'' | AA_Feedback_Recorded \<Rightarrow> ''feedback_recorded''
   | AA_Finding_Status_Changed \<Rightarrow> ''finding_status_changed''
   | AA_Improvement_Activated \<Rightarrow> ''improvement_activated''
   | AA_Improvement_Rolled_Back \<Rightarrow> ''improvement_rolled_back''
   | AA_Model_Profile_Activated \<Rightarrow> ''model_profile_activated''
   | AA_Model_Profile_Rolled_Back \<Rightarrow> ''model_profile_rolled_back''
   | AA_Prompt_Version_Activated \<Rightarrow> ''prompt_version_activated''
   | AA_Prompt_Version_Rolled_Back \<Rightarrow> ''prompt_version_rolled_back''
   | AA_Debug_Artifact_Read \<Rightarrow> ''debug_artifact_read''
   | AA_Schedule_Configured \<Rightarrow> ''schedule_configured'' | AA_Schedule_Run_Now \<Rightarrow> ''schedule_run_now''
   | AA_Dashboard_Preferences_Saved \<Rightarrow> ''dashboard_preferences_saved''
   | AA_Work_Queue_Assignment_Updated \<Rightarrow> ''dashboard_work_queue_assignment_updated''
   | AA_Archive_Pruned \<Rightarrow> ''audit_archive_pruned'')"

datatype audit_outcome = AO_Succeeded | AO_Failed | AO_Blocked

definition audit_outcome_str :: "audit_outcome \<Rightarrow> string" where
  "audit_outcome_str x = (case x of AO_Succeeded \<Rightarrow> ''succeeded'' | AO_Failed \<Rightarrow> ''failed''
     | AO_Blocked \<Rightarrow> ''blocked'')"

record audit_event =
  au_audit_id :: string
  au_action :: audit_action
  au_actor_id :: string
  au_actor_role :: "string option"
  au_project_key :: "string option"
  au_target_type :: string
  au_target_id :: string
  au_outcome :: audit_outcome
  au_reason_code :: "string option"
  au_metadata :: jobj
  au_created_at :: time
  au_schema_version :: string

record audit_retention_policy =
  rp_retention_days :: int
  rp_max_events :: int
  rp_schema_version :: string

definition retention_policy_ok :: "audit_retention_policy \<Rightarrow> bool" where
  "retention_policy_ok p = (1 \<le> rp_retention_days p \<and> 1 \<le> rp_max_events p)"

definition default_retention_policy :: audit_retention_policy where
  "default_retention_policy = \<lparr>rp_retention_days = 365, rp_max_events = 100000, rp_schema_version = ''v1''\<rparr>"

definition retention_policy_dump :: "audit_retention_policy \<Rightarrow> jobj" where
  "retention_policy_dump p = [(''retention_days'', JInt (rp_retention_days p)),
     (''max_events'', JInt (rp_max_events p)), (''schema_version'', JStr (rp_schema_version p))]"

definition audit_event_dump :: "audit_event \<Rightarrow> jobj" where
  "audit_event_dump e = [
     (''audit_id'', JStr (au_audit_id e)), (''action'', JStr (audit_action_str (au_action e))),
     (''actor_id'', JStr (au_actor_id e)), (''actor_role'', jopt (au_actor_role e)),
     (''project_key'', jopt (au_project_key e)), (''target_type'', JStr (au_target_type e)),
     (''target_id'', JStr (au_target_id e)), (''outcome'', JStr (audit_outcome_str (au_outcome e))),
     (''reason_code'', jopt (au_reason_code e)), (''metadata'', JObj (au_metadata e)),
     (''created_at'', JTime (au_created_at e)), (''schema_version'', JStr (au_schema_version e))]"

section \<open>The registry\<close>

record audit_service =
  as_events :: "(string, audit_event) dict"
  as_policy :: audit_retention_policy

record audit_args =
  \<comment> \<open>the keyword arguments of \<open>record\<close>\<close>
  ag_action :: audit_action
  ag_actor_id :: string
  ag_target_type :: string
  ag_target_id :: string
  ag_project_key :: "string option"
  ag_actor_role :: "string option"
  ag_outcome :: audit_outcome
  ag_reason_code :: "string option"
  ag_metadata :: "jobj option"

definition metadata_or_empty :: "audit_args \<Rightarrow> jobj" where
  "metadata_or_empty a = (case ag_metadata a of None \<Rightarrow> [] | Some m \<Rightarrow> m)"

definition audit_id_for :: "host \<Rightarrow> audit_args \<Rightarrow> nat \<Rightarrow> string" where
  "audit_id_for h a sequence = ''aud_'' @ hash_prefix h 16 (JObj [
     (''action'', JStr (audit_action_str (ag_action a))), (''actor_id'', JStr (ag_actor_id a)),
     (''target_type'', JStr (ag_target_type a)), (''target_id'', JStr (ag_target_id a)),
     (''project_key'', jopt (ag_project_key a)),
     (''outcome'', JStr (audit_outcome_str (ag_outcome a))),
     (''reason_code'', jopt (ag_reason_code a)), (''metadata'', JObj (metadata_or_empty a)),
     (''sequence'', JInt (int sequence))])"

definition audit_record :: "host \<Rightarrow> time \<Rightarrow> audit_args \<Rightarrow> audit_service \<Rightarrow> audit_service \<times> audit_event" where
  "audit_record h now a s =
     (let event = \<lparr>au_audit_id = audit_id_for h a (length (as_events s)), au_action = ag_action a,
            au_actor_id = ag_actor_id a, au_actor_role = ag_actor_role a,
            au_project_key = ag_project_key a, au_target_type = ag_target_type a,
            au_target_id = ag_target_id a, au_outcome = ag_outcome a,
            au_reason_code = ag_reason_code a, au_metadata = metadata_or_empty a,
            au_created_at = now, au_schema_version = ''v1''\<rparr>
      in (s\<lparr>as_events := dset (au_audit_id event) event (as_events s)\<rparr>, event))"

definition list_events :: "string option \<Rightarrow> audit_action option \<Rightarrow> int \<Rightarrow> audit_service \<Rightarrow> audit_event list" where
  "list_events project_key action limit s =
     (let events = dvals (as_events s);
          events = (case project_key of None \<Rightarrow> events
            | Some p \<Rightarrow> filter (\<lambda>e. au_project_key e = Some p) events);
          events = (case action of None \<Rightarrow> events | Some a \<Rightarrow> filter (\<lambda>e. au_action e = a) events)
      in slice_to limit (sort_key_rev au_created_at events))"

definition day :: time where
  "day = 86400 * 1000000"

definition retention_candidates :: "time \<Rightarrow> audit_service \<Rightarrow> time \<times> audit_event list \<times> audit_event list" where
  "retention_candidates reference_time s =
     (let cutoff = reference_time - rp_retention_days (as_policy s) * day;
          events = sort_key au_created_at (dvals (as_events s));
          expired = filter (\<lambda>e. au_created_at e < cutoff) events;
          remaining = filter (\<lambda>e. au_audit_id e \<notin> set (map au_audit_id expired)) events;
          overflow_count = max (int (length remaining) - rp_max_events (as_policy s)) 0
      in (cutoff, expired, take (nat overflow_count) remaining))"

definition retention_report :: "time \<Rightarrow> audit_service \<Rightarrow> jobj" where
  "retention_report reference_time s =
     (case retention_candidates reference_time s of (cutoff, expired, overflow) \<Rightarrow> [
        (''policy'', JObj (retention_policy_dump (as_policy s))),
        (''cutoff_at'', JTime cutoff),
        (''total_events'', JInt (int (length (as_events s)))),
        (''expired_events'', JInt (int (length expired))),
        (''overflow_events'', JInt (int (length overflow))),
        (''expired_audit_ids'', jstrs (map au_audit_id (sort_key au_created_at expired))),
        (''overflow_audit_ids'', jstrs (map au_audit_id (sort_key au_created_at overflow))),
        (''schema_version'', JStr ''v1'')])"

record prune_result =
  pr_archive_ref :: "string option"
  pr_archived_events :: nat
  pr_pruned_events :: nat
  pr_pruned_audit_ids :: "string list"
  pr_remaining_events :: nat

type_synonym 'w archive_writer =
  "'w \<Rightarrow> audit_event list \<Rightarrow> audit_retention_policy \<Rightarrow> 'w \<times> string option result"

definition events_to_archive :: "time \<Rightarrow> audit_service \<Rightarrow> audit_event list" where
  "events_to_archive reference_time s =
     (case retention_candidates reference_time s of (_, expired, overflow) \<Rightarrow>
        sort_key au_created_at (dvals (dict_of (map (\<lambda>e. (au_audit_id e, e)) (expired @ overflow)))))"

definition archive_and_prune :: "'w archive_writer \<Rightarrow> time \<Rightarrow> audit_service \<Rightarrow> 'w \<Rightarrow>
    (audit_service \<times> 'w) \<times> prune_result result" where
  "archive_and_prune writer reference_time s w =
     (let events = events_to_archive reference_time s in
      case writer w events (as_policy s) of
        (w', Inl e) \<Rightarrow> ((s, w'), Inl e)
      | (w', Inr archive_ref) \<Rightarrow>
          (let left = foldl (\<lambda>d e. dpop (au_audit_id e) d) (as_events s) events
           in ((s\<lparr>as_events := left\<rparr>, w'),
               Inr \<lparr>pr_archive_ref = archive_ref, pr_archived_events = length events,
                    pr_pruned_events = length events, pr_pruned_audit_ids = map au_audit_id events,
                    pr_remaining_events = length left\<rparr>)))"

section \<open>The local archive\<close>

text \<open>\<open>LocalAuditArchiveStore\<close>: a file is a path with its text; creating directories is left out.\<close>

type_synonym files = "(string, string) dict"

definition local_archive_path :: "host \<Rightarrow> string \<Rightarrow> time \<Rightarrow> audit_event list \<Rightarrow> audit_retention_policy \<Rightarrow> string" where
  "local_archive_path h root_dir now events policy = root_dir @ ''/audit_archive_'' @ hash_prefix h 16 (JObj [
     (''policy'', JObj (retention_policy_dump policy)),
     (''event_ids'', jstrs (map au_audit_id events)), (''created_at'', JTime now)]) @ ''.jsonl''"

definition local_write_archive :: "host \<Rightarrow> (json \<Rightarrow> string) \<Rightarrow> string \<Rightarrow> time \<Rightarrow> files archive_writer" where
  "local_write_archive h dumps root_dir now fs events policy =
     (if events = [] then (fs, Inr None)
      else let path = local_archive_path h root_dir now events policy;
               header = JObj [(''policy'', JObj (retention_policy_dump policy)),
                 (''event_ids'', jstrs (map au_audit_id events)), (''created_at'', JTime now)];
               lines = map (\<lambda>e. dumps (JObj [(''archive'', header), (''event'', JObj (audit_event_dump e))])) events
           in (dset path (py_join [CHR 0x0A] lines @ [CHR 0x0A]) fs, Inr (Some path)))"

section \<open>Lemmas\<close>

definition audit_ok :: "audit_service \<Rightarrow> bool" where
  "audit_ok s = (dict_by au_audit_id (as_events s) \<and> retention_policy_ok (as_policy s))"

lemma audit_record_ok: "audit_ok s \<Longrightarrow> audit_ok (fst (audit_record h now a s))"
  by (auto simp: audit_ok_def audit_record_def Let_def)

lemma distinct_audit_ids: "audit_ok s \<Longrightarrow> distinct (map au_audit_id (dvals (as_events s)))"
proof -
  assume "audit_ok s"
  then have "map (au_audit_id \<circ> snd) (as_events s) = dkeys (as_events s)" and "distinct (dkeys (as_events s))"
    by (auto simp: audit_ok_def dict_by_def dict_ok_def)
  then show ?thesis by (simp only: map_map)
qed

lemma foldl_dpop: "foldl (\<lambda>d e. dpop (g e) d) d es = filter (\<lambda>kv. fst kv \<notin> g ` set es) d"
proof (induction es arbitrary: d)
  case Nil
  then show ?case by simp
next
  case (Cons e es)
  have "dpop (g e) d = filter (\<lambda>kv. fst kv \<noteq> g e) d"
    by (induction d) auto
  with Cons show ?case by (auto simp: filter_filter intro: filter_cong)
qed

lemma expired_split:
  assumes "distinct (map f xs)"
  shows "filter (\<lambda>x. f x \<notin> set (map f (filter P xs))) xs = filter (\<lambda>x. \<not> P x) xs"
  using assms by (intro filter_cong) (auto simp: distinct_map inj_on_def)

text \<open>What is kept: the newest \<open>max_events\<close> of the events that are not expired.\<close>

definition kept_events :: "time \<Rightarrow> audit_service \<Rightarrow> audit_event list" where
  "kept_events reference_time s =
     (let cutoff = reference_time - rp_retention_days (as_policy s) * day;
          fresh = filter (\<lambda>e. \<not> au_created_at e < cutoff) (sort_key au_created_at (dvals (as_events s)))
      in drop (nat (max (int (length fresh) - rp_max_events (as_policy s)) 0)) fresh)"

lemma candidates_partition:
  assumes "audit_ok s" and "retention_candidates t s = (c, expired, overflow)"
  shows "mset (expired @ overflow) + mset (kept_events t s) = mset (dvals (as_events s))"
    and "c = t - rp_retention_days (as_policy s) * day"
    and "\<forall>e\<in>set (kept_events t s). c \<le> au_created_at e"
    and "\<forall>e\<in>set (kept_events t s). \<forall>e'\<in>set (expired @ overflow). au_created_at e' \<le> au_created_at e"
    and "int (length (kept_events t s)) \<le> rp_max_events (as_policy s)"
proof -
  let ?events = "sort_key au_created_at (dvals (as_events s))"
  let ?c = "t - rp_retention_days (as_policy s) * day"
  let ?fresh = "filter (\<lambda>e. \<not> au_created_at e < ?c) ?events"
  let ?n = "nat (max (int (length ?fresh) - rp_max_events (as_policy s)) 0)"
  have "mset (map au_audit_id ?events) = mset (map au_audit_id (dvals (as_events s)))"
    by (simp only: mset_map mset_sort)
  then have "distinct (map au_audit_id ?events)"
    using distinct_audit_ids [OF assms(1)] mset_eq_imp_distinct_iff by metis
  from expired_split [OF this] have eq: "c = ?c" "expired = filter (\<lambda>e. au_created_at e < ?c) ?events"
    "overflow = take ?n ?fresh"
    using assms(2) by (auto simp: retention_candidates_def Let_def)
  have kept: "kept_events t s = drop ?n ?fresh" by (simp add: kept_events_def Let_def)
  have fd: "mset (take ?n ?fresh) + mset (drop ?n ?fresh) = mset ?fresh"
    by (metis append_take_drop_id mset_append)
  have ev: "mset ?events = mset expired + mset ?fresh"
    unfolding eq(2) by (metis mset_filter multiset_partition)
  have "mset (expired @ overflow) + mset (kept_events t s)
      = mset expired + (mset (take ?n ?fresh) + mset (drop ?n ?fresh))"
    unfolding kept eq(3) by (simp only: mset_append add.assoc)
  also have "\<dots> = mset ?events" by (simp only: fd ev)
  also have "\<dots> = mset (dvals (as_events s))" by (simp only: mset_sort)
  finally show "mset (expired @ overflow) + mset (kept_events t s) = mset (dvals (as_events s))" .
  show "c = ?c" by (rule eq(1))
  show fresh: "\<forall>e\<in>set (kept_events t s). c \<le> au_created_at e"
    by (auto simp: kept eq(1) dest!: in_set_dropD)
  have "sorted (map au_created_at ?fresh)"
    by (metis sorted_filter sorted_sort_key)
  then have "sorted_wrt (\<lambda>x y. au_created_at x \<le> au_created_at y) ?fresh" by (simp add: sorted_wrt_map)
  then have "sorted_wrt (\<lambda>x y. au_created_at x \<le> au_created_at y) (take ?n ?fresh @ drop ?n ?fresh)" by simp
  then have "\<forall>e\<in>set (drop ?n ?fresh). \<forall>e'\<in>set (take ?n ?fresh). au_created_at e' \<le> au_created_at e"
    by (simp only: sorted_wrt_append) blast
  with fresh show "\<forall>e\<in>set (kept_events t s). \<forall>e'\<in>set (expired @ overflow). au_created_at e' \<le> au_created_at e"
    unfolding eq kept by fastforce
  show "int (length (kept_events t s)) \<le> rp_max_events (as_policy s)"
  proof -
    have "int (length (drop ?n xs)) \<le> m" if "?n = nat (max (int (length xs) - m) 0)" "1 \<le> m"
      for m and xs :: "audit_event list"
      using that by (simp add: max_def split: if_splits)
    from this [of ?fresh "rp_max_events (as_policy s)"] assms(1) show ?thesis
      by (simp only: kept audit_ok_def retention_policy_ok_def)
  qed
qed

lemma events_to_archive_mset:
  assumes "audit_ok s" and "retention_candidates t s = (c, expired, overflow)"
  shows "mset (events_to_archive t s) = mset (expired @ overflow)"
proof -
  have "distinct (map au_audit_id (expired @ overflow @ kept_events t s))"
  proof -
    have "mset (map au_audit_id (expired @ overflow @ kept_events t s)) = mset (map au_audit_id (dvals (as_events s)))"
    proof -
      have "mset (map au_audit_id (expired @ overflow @ kept_events t s))
          = image_mset au_audit_id (mset (expired @ overflow) + mset (kept_events t s))" by simp
      also have "\<dots> = mset (map au_audit_id (dvals (as_events s)))"
        unfolding candidates_partition(1) [OF assms] by (simp only: mset_map)
      finally show ?thesis .
    qed
    with distinct_audit_ids [OF assms(1)] show ?thesis using mset_eq_imp_distinct_iff by metis
  qed
  then have "distinct (dkeys (map (\<lambda>e. (au_audit_id e, e)) (expired @ overflow)))"
    by (auto simp: comp_def)
  then have "dict_of (map (\<lambda>e. (au_audit_id e, e)) (expired @ overflow)) = map (\<lambda>e. (au_audit_id e, e)) (expired @ overflow)"
    by (rule dict_of_distinct)
  then show ?thesis by (simp add: events_to_archive_def assms(2) comp_def)
qed

text \<open>What the pops leave: the kept events, as a registry that is again well-formed.\<close>

lemma archived_left:
  assumes "audit_ok s" and "retention_candidates t s = (c, expired, overflow)"
    and "left = foldl (\<lambda>d e. dpop (au_audit_id e) d) (as_events s) (events_to_archive t s)"
  shows "mset (events_to_archive t s) + mset (dvals left) = mset (dvals (as_events s))"
    and "set (dvals left) = set (kept_events t s)" and "length left = length (kept_events t s)"
    and "set (events_to_archive t s) = set (expired @ overflow)" and "audit_ok (s\<lparr>as_events := left\<rparr>)"
proof -
  let ?arch = "events_to_archive t s" and ?d = "as_events s"
  note P = candidates_partition [OF assms(1,2)] and A = events_to_archive_mset [OF assms(1,2)]
  have left: "left = filter (\<lambda>kv. fst kv \<notin> au_audit_id ` set ?arch) ?d" unfolding assms(3) by (rule foldl_dpop)
  have by_id: "dict_by au_audit_id ?d" using assms(1) by (simp add: audit_ok_def)
  have left_eq: "dvals left = filter (\<lambda>e. au_audit_id e \<notin> au_audit_id ` set ?arch) (dvals ?d)"
  proof -
    have "left = filter (\<lambda>kv. au_audit_id (snd kv) \<notin> au_audit_id ` set ?arch) ?d"
      unfolding left using by_id by (intro filter_cong refl) (simp add: dict_by_def)
    then show ?thesis by (simp add: filter_map comp_def)
  qed
  have inj: "inj_on au_audit_id (set (dvals ?d))"
    using distinct_audit_ids [OF assms(1)] unfolding distinct_map by simp
  have all: "mset ?arch + mset (kept_events t s) = mset (dvals ?d)" using P(1) A by simp
  have arch_sub: "set ?arch \<subseteq> set (dvals ?d)"
    using all by (metis mset_subset_eq_add_left set_mset_mono set_mset_mset)
  have "filter_mset (\<lambda>e. e \<in> set ?arch) (mset (dvals ?d)) = mset ?arch"
  proof -
    have "distinct (dvals ?d)" using distinct_audit_ids [OF assms(1)] by (simp only: distinct_map)
    moreover have "distinct ?arch" using calculation all
      by (metis distinct_append mset_append mset_eq_imp_distinct_iff)
    moreover have "set (filter (\<lambda>e. e \<in> set ?arch) (dvals ?d)) = set ?arch" using arch_sub by auto
    ultimately have "mset (filter (\<lambda>e. e \<in> set ?arch) (dvals ?d)) = mset ?arch"
      by (metis distinct_filter set_eq_iff_mset_eq_distinct)
    then show ?thesis by (simp only: mset_filter)
  qed
  moreover have "mset (dvals left) = filter_mset (\<lambda>e. e \<notin> set ?arch) (mset (dvals ?d))"
  proof -
    have "dvals left = filter (\<lambda>e. e \<notin> set ?arch) (dvals ?d)"
      unfolding left_eq
      by (rule filter_cong [OF refl]) (simp only: inj_on_image_mem_iff [OF inj _ arch_sub])
    then show ?thesis by (simp only: mset_filter)
  qed
  ultimately show parts: "mset ?arch + mset (dvals left) = mset (dvals ?d)"
    by (metis multiset_partition)
  with all have kept: "mset (dvals left) = mset (kept_events t s)" by (metis add_left_cancel)
  then show "set (dvals left) = set (kept_events t s)" by (metis set_mset_mset)
  show "length left = length (kept_events t s)" using kept by (metis length_map size_mset)
  show "set ?arch = set (expired @ overflow)" using A by (metis set_mset_mset)
  show "audit_ok (s\<lparr>as_events := left\<rparr>)"
    unfolding left using assms(1) by (auto simp: audit_ok_def dict_by_def dict_ok_def distinct_map_filter)
qed

text \<open>
  Property C37. Archiving and pruning lose nothing and keep what the policy says: when the archive
  writer accepts, the events handed to it and the events left are together exactly the events there
  were, those left are no older than the retention period and at most \<open>max_events\<close> in number, none of
  those pruned is newer than one left, and the result counts them; when the writer raises, the
  registry is unchanged.
\<close>

theorem archive_and_prune_exact:
  assumes "audit_ok s" and "archive_and_prune writer t s w = ((s', w'), r)"
  shows "case r of
      Inl e \<Rightarrow> s' = s
    | Inr p \<Rightarrow> mset (events_to_archive t s) + mset (dvals (as_events s')) = mset (dvals (as_events s))
        \<and> writer w (events_to_archive t s) (as_policy s) = (w', Inr (pr_archive_ref p))
        \<and> (\<forall>e\<in>set (dvals (as_events s')). t - rp_retention_days (as_policy s) * day \<le> au_created_at e)
        \<and> (\<forall>e\<in>set (dvals (as_events s')). \<forall>e'\<in>set (events_to_archive t s). au_created_at e' \<le> au_created_at e)
        \<and> int (length (as_events s')) \<le> rp_max_events (as_policy s)
        \<and> pr_pruned_audit_ids p = map au_audit_id (events_to_archive t s)
        \<and> pr_remaining_events p = length (as_events s') \<and> audit_ok s'"
proof (cases r)
  case (Inl e)
  with assms(2) show ?thesis by (auto simp: archive_and_prune_def Let_def split: prod.splits sum.splits)
next
  case (Inr p)
  let ?arch = "events_to_archive t s"
  obtain c expired overflow where rc: "retention_candidates t s = (c, expired, overflow)"
    by (cases "retention_candidates t s") auto
  define left where "left = foldl (\<lambda>d e. dpop (au_audit_id e) d) (as_events s) ?arch"
  note P = candidates_partition [OF assms(1) rc] and L = archived_left [OF assms(1) rc left_def]
  have eq: "s' = s\<lparr>as_events := left\<rparr>" "writer w ?arch (as_policy s) = (w', Inr (pr_archive_ref p))"
    "pr_pruned_audit_ids p = map au_audit_id ?arch" "pr_remaining_events p = length left"
    using assms(2) Inr
    by (auto simp: archive_and_prune_def left_def Let_def split: prod.splits sum.splits)
  have "\<forall>e\<in>set (dvals left). t - rp_retention_days (as_policy s) * day \<le> au_created_at e"
    unfolding L(2) using P(2,3) by simp
  moreover have "\<forall>e\<in>set (dvals left). \<forall>e'\<in>set ?arch. au_created_at e' \<le> au_created_at e"
    unfolding L(2) L(4) by (rule P(4))
  moreover have "int (length left) \<le> rp_max_events (as_policy s)" unfolding L(3) by (rule P(5))
  moreover have "as_events s' = left" by (simp add: eq(1))
  ultimately show ?thesis
    unfolding Inr sum.case using L(1,5) eq by metis
qed

text \<open>
  The id of an audit event depends on the number of events present, not on a counter: an
  event recorded when the registry has as many events as it had when an equal event was recorded
  replaces that event, and the registry does not grow. (After a pruning the number repeats.)
\<close>

theorem audit_record_collision:
  assumes "audit_record h t0 a s0 = (s1, e0)" and "dget (as_events s) (au_audit_id e0) = Some e0"
    and "length (as_events s) = length (as_events s0)"
  shows "\<exists>e. audit_record h t1 a s = (s\<lparr>as_events := dset (au_audit_id e0) e (as_events s)\<rparr>, e)
     \<and> au_audit_id e = au_audit_id e0 \<and> au_created_at e = t1
     \<and> length (as_events (fst (audit_record h t1 a s))) = length (as_events s)"
proof -
  have "au_audit_id e0 = audit_id_for h a (length (as_events s))"
    using assms(1,3) by (auto simp: audit_record_def Let_def)
  moreover have "au_audit_id e0 \<in> fst ` set (as_events s)"
    using assms(2) by (force dest: map_of_SomeD)
  ultimately show ?thesis by (auto simp: audit_record_def Let_def length_dset)
qed

section \<open>Instances\<close>

definition demo_audit_args :: audit_args where
  "demo_audit_args = \<lparr>ag_action = AA_Run_Started, ag_actor_id = ''u'', ag_target_type = ''run'',
     ag_target_id = ''r'', ag_project_key = None, ag_actor_role = None, ag_outcome = AO_Succeeded,
     ag_reason_code = None, ag_metadata = None\<rparr>"

definition demo_audit_host :: host where
  "demo_audit_host = \<lparr>sha256_hex = (\<lambda>s. s), float_repr = (\<lambda>r. ''0''), dump_time = (\<lambda>t. ''t'')\<rparr>"

definition demo_audit :: audit_service where
  "demo_audit = \<lparr>as_events = [], as_policy = default_retention_policy\<rparr>"

lemma demo_audit_ok: "audit_ok demo_audit"
  by (simp add: audit_ok_def demo_audit_def retention_policy_ok_def default_retention_policy_def)

lemma archive_and_prune_exact_witness:
  "\<exists>s' p. archive_and_prune (\<lambda>w es p. (w + length es, Inr None)) (1000 * day)
      (fst (audit_record demo_audit_host 0 demo_audit_args demo_audit)) 0 = ((s', 1), Inr p)
     \<and> as_events s' = []"
proof -
  let ?s = "fst (audit_record demo_audit_host 0 demo_audit_args demo_audit)"
  let ?e = "snd (audit_record demo_audit_host 0 demo_audit_args demo_audit)"
  let ?writer = "\<lambda>w es p. (w + length es, Inr None)"
  have s: "as_events ?s = [(au_audit_id ?e, ?e)]" "as_policy ?s = default_retention_policy" "au_created_at ?e = 0"
    by (simp_all add: audit_record_def demo_audit_def Let_def)
  have arch: "events_to_archive (1000 * day) ?s = [?e]"
    by (simp add: events_to_archive_def retention_candidates_def s Let_def default_retention_policy_def
        day_def dict_of_def)
  obtain s' w' r where ap: "archive_and_prune ?writer (1000 * day) ?s 0 = ((s', w'), r)"
    by (metis surj_pair)
  then obtain p where r: "r = Inr p" "w' = 1" by (auto simp: archive_and_prune_def arch Let_def)
  from archive_and_prune_exact [OF audit_record_ok [OF demo_audit_ok] ap] r(1)
  have "mset [?e] + mset (dvals (as_events s')) = mset [?e]" by (simp add: arch s)
  then have "as_events s' = []" by simp
  with ap r show ?thesis by blast
qed

definition demo_s0 :: audit_service where
  "demo_s0 = demo_audit\<lparr>as_events := [(''x'', snd (audit_record demo_audit_host 0 demo_audit_args demo_audit))]\<rparr>"

definition demo_e0 :: audit_event where
  "demo_e0 = snd (audit_record demo_audit_host 5 demo_audit_args demo_s0)"

lemma audit_record_collision_witness:
  "length (as_events (fst (audit_record demo_audit_host 9 demo_audit_args
     (demo_audit\<lparr>as_events := [(au_audit_id demo_e0, demo_e0)]\<rparr>)))) = 1"
proof -
  have "audit_record demo_audit_host 5 demo_audit_args demo_s0
      = (fst (audit_record demo_audit_host 5 demo_audit_args demo_s0), demo_e0)"
    by (simp add: demo_e0_def)
  from audit_record_collision [OF this, of "demo_audit\<lparr>as_events := [(au_audit_id demo_e0, demo_e0)]\<rparr>" 9]
  show ?thesis by (auto simp: demo_s0_def)
qed

end
