(* ===== verification/Scheduler.thy ===== *)
theory Scheduler
  imports Graph
begin

text \<open>
  \<open>scheduler/models.py\<close>, \<open>scheduler/service.py\<close> and the lease operations of
  \<open>storage/postgres_store.py\<close>. The asyncio task of the loop is a flag: \<open>running\<close> holds while a task
  exists that is not done, and stopping waits until it is; one iteration of the loop is
  \<open>loop_tick\<close>. The lease manager, the run callback and the id factory are arguments that act on an
  environment of their own; the lease table with its SQL statements is modelled and instantiates the
  lease manager.
\<close>

section \<open>Contracts\<close>

record schedule_config =
  cf_enabled :: bool
  cf_interval_seconds :: int
  cf_project_key :: string
  cf_scenario :: string
  cf_run_id_prefix :: string
  cf_lease_name :: string
  cf_lease_ttl_seconds :: int

definition schedule_config_ok :: "schedule_config \<Rightarrow> bool" where
  "schedule_config_ok c = (1 \<le> cf_interval_seconds c \<and> 30 \<le> cf_lease_ttl_seconds c)"

definition default_schedule_config :: schedule_config where
  "default_schedule_config = \<lparr>cf_enabled = False, cf_interval_seconds = 3600,
     cf_project_key = ''RUNE_CAM_ALPHA'', cf_scenario = ''RUNE_MULTI_SOURCE'',
     cf_run_id_prefix = ''sched'', cf_lease_name = ''rune-periodic-analysis'',
     cf_lease_ttl_seconds = 300\<rparr>"

record scheduled_run_result =
  sr_run_id :: string
  sr_started_at :: time
  sr_completed_at :: "time option"
  sr_error :: "string option"

record schedule_status =
  ss_enabled :: bool
  ss_running :: bool
  ss_interval_seconds :: int
  ss_project_key :: string
  ss_scenario :: string
  ss_last_run_id :: "string option"
  ss_last_started_at :: "time option"
  ss_last_completed_at :: "time option"
  ss_last_error :: "string option"
  ss_next_run_at :: "time option"
  ss_runs_started :: nat
  ss_lease_name :: string
  ss_lease_owner_id :: string
  ss_lease_enabled :: bool
  ss_lease_skips :: nat

section \<open>The scheduler\<close>

record scheduler =
  sd_config :: schedule_config
  sd_has_lease_manager :: bool
  sd_owner_id :: string
  sd_last_run :: "scheduled_run_result option"
  sd_next_run_at :: "time option"
  sd_runs_started :: nat
  sd_lease_skips :: nat
  sd_last_error :: "string option"
  sd_running :: bool

definition new_scheduler :: "schedule_config option \<Rightarrow> bool \<Rightarrow> string option \<Rightarrow> string \<Rightarrow> scheduler" where
  \<comment> \<open>\<open>fresh\<close> is the random owner id used where none is given\<close>
  "new_scheduler config has_manager owner_id fresh =
     \<lparr>sd_config = (case config of None \<Rightarrow> default_schedule_config | Some c \<Rightarrow> c),
      sd_has_lease_manager = has_manager, sd_owner_id = opt_str_or owner_id fresh,
      sd_last_run = None, sd_next_run_at = None, sd_runs_started = 0, sd_lease_skips = 0,
      sd_last_error = None, sd_running = False\<rparr>"

definition scheduler_status :: "scheduler \<Rightarrow> schedule_status" where
  "scheduler_status s =
     \<lparr>ss_enabled = cf_enabled (sd_config s), ss_running = sd_running s,
      ss_interval_seconds = cf_interval_seconds (sd_config s),
      ss_project_key = cf_project_key (sd_config s), ss_scenario = cf_scenario (sd_config s),
      ss_last_run_id = map_option sr_run_id (sd_last_run s),
      ss_last_started_at = map_option sr_started_at (sd_last_run s),
      ss_last_completed_at = Option.bind (sd_last_run s) sr_completed_at,
      ss_last_error = sd_last_error s, ss_next_run_at = sd_next_run_at s,
      ss_runs_started = sd_runs_started s, ss_lease_name = cf_lease_name (sd_config s),
      ss_lease_owner_id = sd_owner_id s, ss_lease_enabled = sd_has_lease_manager s,
      ss_lease_skips = sd_lease_skips s\<rparr>"

definition second :: time where
  "second = 1000000"

definition scheduler_start :: "time \<Rightarrow> scheduler \<Rightarrow> scheduler" where
  "scheduler_start now s =
     (if sd_running s then s
      else s\<lparr>sd_config := sd_config s\<lparr>cf_enabled := True\<rparr>,
             sd_next_run_at := Some (now + cf_interval_seconds (sd_config s) * second),
             sd_running := True\<rparr>)"

definition scheduler_stop :: "scheduler \<Rightarrow> scheduler" where
  "scheduler_stop s = s\<lparr>sd_config := sd_config s\<lparr>cf_enabled := False\<rparr>, sd_running := False,
     sd_next_run_at := None\<rparr>"

definition scheduler_configure :: "time \<Rightarrow> schedule_config \<Rightarrow> scheduler \<Rightarrow> scheduler" where
  "scheduler_configure now config s =
     (let s' = scheduler_stop s\<lparr>sd_config := config\<rparr>
      in if cf_enabled config then scheduler_start now s' else s')"

text \<open>The environment a run acts on: the lease manager, the runner and the id factory.\<close>

record 'e run_env =
  en_acquire :: "string \<Rightarrow> string \<Rightarrow> int \<Rightarrow> 'e \<Rightarrow> 'e \<times> bool"
  en_release :: "string \<Rightarrow> string \<Rightarrow> 'e \<Rightarrow> 'e"
  en_runner :: "string \<Rightarrow> string \<Rightarrow> string \<Rightarrow> 'e \<Rightarrow> 'e \<times> string option" \<comment> \<open>the text of the exception raised\<close>
  en_new_id :: "string \<Rightarrow> 'e \<Rightarrow> 'e \<times> string"

definition acquire_lease :: "'e run_env \<Rightarrow> scheduler \<Rightarrow> 'e \<Rightarrow> 'e \<times> bool" where
  "acquire_lease E s e =
     (if \<not> sd_has_lease_manager s then (e, True)
      else en_acquire E (cf_lease_name (sd_config s)) (sd_owner_id s) (cf_lease_ttl_seconds (sd_config s)) e)"

definition release_lease :: "'e run_env \<Rightarrow> scheduler \<Rightarrow> 'e \<Rightarrow> 'e" where
  "release_lease E s e =
     (if \<not> sd_has_lease_manager s then e else en_release E (cf_lease_name (sd_config s)) (sd_owner_id s) e)"

definition skipped_run :: "'e run_env \<Rightarrow> time \<Rightarrow> time \<Rightarrow> scheduler \<Rightarrow> 'e \<Rightarrow> (scheduler \<times> 'e) \<times> scheduled_run_result" where
  "skipped_run E started completed s e =
     (case en_new_id E (cf_run_id_prefix (sd_config s)) e of (e1, run_id) \<Rightarrow>
       (let result = \<lparr>sr_run_id = run_id, sr_started_at = started, sr_completed_at = Some completed,
              sr_error = Some ''scheduler lease held by another worker''\<rparr>
        in ((s\<lparr>sd_lease_skips := sd_lease_skips s + 1, sd_last_run := Some result,
              sd_last_error := sr_error result\<rparr>, e1), result)))"

definition performed_run :: "'e run_env \<Rightarrow> time \<Rightarrow> time \<Rightarrow> bool \<Rightarrow> scheduler \<Rightarrow> 'e \<Rightarrow>
    (scheduler \<times> 'e) \<times> scheduled_run_result" where
  "performed_run E started completed require_lease s e =
     (case en_new_id E (cf_run_id_prefix (sd_config s)) e of (e1, run_id) \<Rightarrow>
       (case en_runner E run_id (cf_project_key (sd_config s)) (cf_scenario (sd_config s)) e1 of (e2, exn) \<Rightarrow>
         (let result = \<lparr>sr_run_id = run_id, sr_started_at = started, sr_completed_at = Some completed,
                sr_error = exn\<rparr>;
              e3 = (if require_lease then release_lease E s e2 else e2)
          in ((s\<lparr>sd_runs_started := sd_runs_started s + 1, sd_last_error := exn,
                sd_last_run := Some result\<rparr>, e3), result))))"

definition run_now_with :: "'e run_env \<Rightarrow> time \<Rightarrow> time \<Rightarrow> bool \<Rightarrow> scheduler \<Rightarrow> 'e \<Rightarrow>
    (scheduler \<times> 'e) \<times> scheduled_run_result" where
  "run_now_with E started completed require_lease s e =
     (if require_lease
      then (case acquire_lease E s e of (e1, ok) \<Rightarrow>
              if \<not> ok then skipped_run E started completed s e1
              else performed_run E started completed require_lease s e1)
      else performed_run E started completed require_lease s e)"

definition run_now :: "'e run_env \<Rightarrow> time \<Rightarrow> time \<Rightarrow> scheduler \<Rightarrow> 'e \<Rightarrow> (scheduler \<times> 'e) \<times> scheduled_run_result" where
  "run_now E started completed s e = run_now_with E started completed False s e"

definition loop_tick :: "'e run_env \<Rightarrow> time \<Rightarrow> time \<Rightarrow> scheduler \<Rightarrow> 'e \<Rightarrow> scheduler \<times> 'e" where
  \<comment> \<open>one timeout of the loop: a run under the lease, then the next run time\<close>
  "loop_tick E started completed s e =
     (case run_now_with E started completed True s e of ((s', e'), _) \<Rightarrow>
       (s'\<lparr>sd_next_run_at := Some (completed + cf_interval_seconds (sd_config s') * second)\<rparr>, e'))"

section \<open>The lease table\<close>

record lease =
  ls_owner_id :: string
  ls_acquired_at :: time
  ls_heartbeat_at :: time
  ls_expires_at :: time

type_synonym lease_table = "(string, lease) dict"

definition acquire_scheduler_lease :: "time \<Rightarrow> string \<Rightarrow> string \<Rightarrow> int \<Rightarrow> lease_table \<Rightarrow> lease_table \<times> bool" where
  \<comment> \<open>the insert with its conflict clause; no row is returned where the \<open>WHERE\<close> clause fails\<close>
  "acquire_scheduler_lease now lease_name owner_id ttl_seconds table =
     (let expires_at = now + ttl_seconds * second in
      case dget table lease_name of
        None \<Rightarrow> (dset lease_name \<lparr>ls_owner_id = owner_id, ls_acquired_at = now, ls_heartbeat_at = now,
                   ls_expires_at = expires_at\<rparr> table, True)
      | Some l \<Rightarrow>
          if ls_expires_at l \<le> now \<or> ls_owner_id l = owner_id
          then (dset lease_name (l\<lparr>ls_owner_id := owner_id, ls_heartbeat_at := now,
                   ls_expires_at := expires_at\<rparr>) table, True)
          else (table, False))"

definition release_scheduler_lease :: "string \<Rightarrow> string \<Rightarrow> lease_table \<Rightarrow> lease_table" where
  "release_scheduler_lease lease_name owner_id table =
     filter (\<lambda>kv. \<not> (fst kv = lease_name \<and> ls_owner_id (snd kv) = owner_id)) table"

datatype lease_op = Acquire time string string int | Release string string

fun lease_op_owner :: "lease_op \<Rightarrow> string" where
  "lease_op_owner (Acquire now n owner ttl) = owner"
| "lease_op_owner (Release n owner) = owner"

fun lease_step :: "lease_op \<Rightarrow> lease_table \<Rightarrow> lease_table \<times> bool" where
  "lease_step (Acquire now n owner ttl) table = acquire_scheduler_lease now n owner ttl table"
| "lease_step (Release n owner) table = (release_scheduler_lease n owner table, True)"

fun lease_run :: "lease_op list \<Rightarrow> lease_table \<Rightarrow> lease_table \<times> bool list" where
  "lease_run [] table = (table, [])"
| "lease_run (x # xs) table =
     (case lease_step x table of (table', ok) \<Rightarrow>
       (case lease_run xs table' of (table'', oks) \<Rightarrow> (table'', ok # oks)))"

definition holds_until :: "lease_table \<Rightarrow> string \<Rightarrow> string \<Rightarrow> time \<Rightarrow> bool" where
  "holds_until table n owner t =
     (dict_ok table \<and> (\<exists>l. dget table n = Some l \<and> ls_owner_id l = owner \<and> t \<le> ls_expires_at l))"

definition other_before :: "string \<Rightarrow> time \<Rightarrow> lease_op \<Rightarrow> bool" where
  \<comment> \<open>an operation of another owner before the time\<close>
  "other_before owner t x = (lease_op_owner x \<noteq> owner \<and>
     (case x of Acquire now _ _ _ \<Rightarrow> now < t | Release _ _ \<Rightarrow> True))"

lemma dict_ok_filter: "dict_ok d \<Longrightarrow> dict_ok (filter P d)"
  by (auto simp: dict_ok_def distinct_map_filter)

lemma holds_acquire:
  assumes "dict_ok table" and "acquire_scheduler_lease now n owner ttl table = (table', True)"
  shows "holds_until table' n owner (now + ttl * second)"
  using assms
  by (auto simp: acquire_scheduler_lease_def holds_until_def Let_def dict_ok_dset
      split: option.splits if_splits)

lemma holds_step:
  assumes "holds_until table n owner t" and "other_before owner t x"
  shows "holds_until (fst (lease_step x table)) n owner t
    \<and> (\<forall>now owner' ttl. x = Acquire now n owner' ttl \<longrightarrow> \<not> snd (lease_step x table))"
proof -
  from assms(1) obtain l where l: "dget table n = Some l" "ls_owner_id l = owner" "t \<le> ls_expires_at l"
    and ok: "dict_ok table" by (auto simp: holds_until_def)
  show ?thesis
  proof (cases x)
    case (Acquire now m owner' ttl)
    with assms(2) l ok show ?thesis
      by (cases "m = n") (auto simp: other_before_def acquire_scheduler_lease_def holds_until_def Let_def
          dict_ok_dset split: option.splits)
  next
    case (Release m owner')
    have "(n, l) \<in> set table" using l(1) by (rule map_of_SomeD)
    moreover have "owner' \<noteq> owner" using assms(2) Release by (simp add: other_before_def)
    ultimately have "(n, l) \<in> set (release_scheduler_lease m owner' table)"
      using l(2) by (auto simp: release_scheduler_lease_def)
    then have "dget (release_scheduler_lease m owner' table) n = Some l"
      using ok by (simp add: dget_iff release_scheduler_lease_def dict_ok_filter)
    with Release l ok show ?thesis
      by (auto simp: holds_until_def release_scheduler_lease_def dict_ok_filter)
  qed
qed

text \<open>
  Property C19. The lease excludes other workers: once a worker has acquired a lease, then in every
  sequence of acquisitions and releases by other workers before its expiry, every acquisition of that
  lease is refused and the worker still holds it at the end.
\<close>

theorem lease_mutual_exclusion:
  assumes "dict_ok table" and "acquire_scheduler_lease now n owner ttl table = (table', True)"
    and "\<forall>x\<in>set ops. other_before owner (now + ttl * second) x"
  shows "holds_until (fst (lease_run ops table')) n owner (now + ttl * second)
    \<and> (\<forall>i<length ops. \<forall>now' owner' ttl'. ops ! i = Acquire now' n owner' ttl' \<longrightarrow>
         \<not> snd (lease_run ops table') ! i)"
proof -
  have "holds_until tb n owner t \<Longrightarrow> \<forall>x\<in>set xs. other_before owner t x \<Longrightarrow>
      holds_until (fst (lease_run xs tb)) n owner t
      \<and> (\<forall>i<length xs. \<forall>now' owner' ttl'. xs ! i = Acquire now' n owner' ttl' \<longrightarrow> \<not> snd (lease_run xs tb) ! i)"
    for xs tb t
  proof (induction xs arbitrary: tb)
    case Nil
    then show ?case by simp
  next
    case (Cons x xs)
    obtain tb' ok where st: "lease_step x tb = (tb', ok)" by (cases "lease_step x tb") auto
    from holds_step [OF Cons.prems(1), of x] Cons.prems(2) st
    have h: "holds_until tb' n owner t" "\<forall>now owner' ttl. x = Acquire now n owner' ttl \<longrightarrow> \<not> ok" by auto
    from Cons.IH [OF h(1)] Cons.prems(2) h(2) st show ?case
      by (auto simp: nth_Cons split: prod.splits nat.splits)
  qed
  from this [OF holds_acquire [OF assms(1,2)] assms(3)] show ?thesis .
qed

definition calls_of :: "'e run_env \<Rightarrow> ('e \<times> string list) run_env" where
  \<comment> \<open>the environment with a log of the calls made on it\<close>
  "calls_of E = \<lparr>
     en_acquire = (\<lambda>n w ttl (e, calls). case en_acquire E n w ttl e of (e', ok) \<Rightarrow>
        ((e', calls @ [if ok then ''granted'' else ''refused'']), ok)),
     en_release = (\<lambda>n w (e, calls). (en_release E n w e, calls @ [''release''])),
     en_runner = (\<lambda>r p sc (e, calls). case en_runner E r p sc e of (e', x) \<Rightarrow> ((e', calls @ [''run'']), x)),
     en_new_id = (\<lambda>p (e, calls). case en_new_id E p e of (e', i) \<Rightarrow> ((e', calls), i))\<rparr>"

text \<open>
  A scheduled run is safe in every environment: the runner is called only after the lease
  was granted, the lease is released afterwards whether or not the runner raised, a refused lease is
  counted as a skip and starts nothing, and the last run is recorded.
\<close>

theorem loop_tick_lease_discipline:
  assumes "loop_tick (calls_of E) t1 t2 s (e, []) = (s', (e', calls))"
  shows "calls = (if sd_has_lease_manager s
       then (if sd_lease_skips s' = sd_lease_skips s then [''granted'', ''run'', ''release''] else [''refused''])
       else [''run''])
    \<and> sd_runs_started s' + sd_lease_skips s' = sd_runs_started s + sd_lease_skips s + 1
    \<and> (sd_lease_skips s' = sd_lease_skips s \<longleftrightarrow> sd_runs_started s' = sd_runs_started s + 1)
    \<and> map_option sr_error (sd_last_run s') = Some (sd_last_error s')
    \<and> sd_next_run_at s' = Some (t2 + cf_interval_seconds (sd_config s) * second)"
  using assms
  by (auto simp: loop_tick_def run_now_with_def acquire_lease_def release_lease_def skipped_run_def
      performed_run_def calls_of_def Let_def split: prod.splits if_splits)

section \<open>Instances\<close>

lemma lease_mutual_exclusion_witness:
  "snd (lease_run [Acquire 5 ''n'' ''B'' 30, Release ''n'' ''B'', Acquire 6 ''n'' ''B'' 30]
     (fst (acquire_scheduler_lease 0 ''n'' ''A'' 30 []))) ! 2 = False"
proof -
  let ?t = "fst (acquire_scheduler_lease 0 ''n'' ''A'' 30 [])"
  have a: "acquire_scheduler_lease 0 ''n'' ''A'' 30 [] = (?t, True)"
    by (simp add: acquire_scheduler_lease_def Let_def)
  have "\<forall>x\<in>set [Acquire 5 ''n'' ''B'' 30, Release ''n'' ''B'', Acquire 6 ''n'' ''B'' 30].
      other_before ''A'' (0 + 30 * second) x"
    by (simp add: other_before_def second_def)
  from lease_mutual_exclusion [OF _ a this] show ?thesis by (auto dest!: spec [of _ 2])
qed

definition demo_env :: "nat run_env" where
  "demo_env = \<lparr>en_acquire = (\<lambda>n w ttl e. (e, True)), en_release = (\<lambda>n w e. e),
     en_runner = (\<lambda>r p sc e. (Suc e, Some ''ValueError: x'')), en_new_id = (\<lambda>p e. (e, p))\<rparr>"

lemma loop_tick_lease_discipline_witness:
  "\<exists>s' e' calls. loop_tick (calls_of demo_env) 0 1 (new_scheduler None True None ''w'') (0, []) = (s', (e', calls))
     \<and> calls = [''granted'', ''run'', ''release'']"
proof -
  obtain s' e' calls where r: "loop_tick (calls_of demo_env) 0 1 (new_scheduler None True None ''w'') (0, []) = (s', (e', calls))"
    by (metis surj_pair)
  moreover have "sd_lease_skips s' = 0"
    using r by (auto simp: loop_tick_def run_now_with_def acquire_lease_def performed_run_def calls_of_def
        demo_env_def new_scheduler_def release_lease_def Let_def)
  ultimately show ?thesis
    using loop_tick_lease_discipline [OF r] by (auto simp: new_scheduler_def)
qed

end
