(* ===== verification/Security.thy ===== *)
theory Security
  imports Samples
begin

text \<open>
  \<open>api/security.py\<close> and \<open>api/idempotency.py\<close>: who a request is, what it may do, and the replay of
  commands under an idempotency key. A request is its headers by lower-case name. Where the source
  would raise something else than an \<open>HTTPException\<close>, the definitions raise it too: an unknown role
  in local mode is a \<open>KeyError\<close>, a secret with characters beyond ASCII a \<open>TypeError\<close>.
\<close>

section \<open>Settings and headers\<close>

record auth_settings =
  st_auth_mode :: string
  st_api_key :: string
  st_trusted_proxy_secret :: string
  st_trusted_default_role :: string
  st_trusted_group_role_map :: "(string, string) dict"

type_synonym headers = "(string, string) dict"

definition role_order :: "(string, nat) dict" where
  "role_order = [(''viewer'', 10), (''developer'', 20), (''operator'', 30), (''admin'', 40)]"

record user_context =
  us_user_id :: string
  us_role :: string
  us_project_keys :: "string list"

definition parse_header_values :: "string option \<Rightarrow> string list" where
  "parse_header_values header = (case header of None \<Rightarrow> []
     | Some s \<Rightarrow> if s = [] then [] else filter (\<lambda>x. x \<noteq> []) (map py_strip (py_split (CHR '','') s)))"

definition parse_project_keys :: "string option \<Rightarrow> string list" where
  "parse_project_keys header = (let ks = parse_header_values header in if ks = [] then [''*''] else ks)"

section \<open>The current user\<close>

definition is_ascii :: "string \<Rightarrow> bool" where
  "is_ascii s = list_all (\<lambda>c. cp c < 128) s"

definition compare_digest :: "string \<Rightarrow> string \<Rightarrow> bool result" where
  "compare_digest a b =
     (if is_ascii a \<and> is_ascii b then Inr (a = b) else Inl (PyTypeError ''comparing strings with non-ASCII characters''))"

definition role_rank :: "string \<Rightarrow> int" where
  \<comment> \<open>\<open>ROLE_ORDER.get(role, -1)\<close>\<close>
  "role_rank r = (case dget role_order r of None \<Rightarrow> -1 | Some n \<Rightarrow> int n)"

definition trusted_role_from_headers :: "string option \<Rightarrow> string option \<Rightarrow> (string, string) dict \<Rightarrow> string \<Rightarrow>
    string result" where
  "trusted_role_from_headers role_header group_header group_role_map default_role =
     (let groups = parse_header_values group_header;
          mapped_roles = List.map_filter (dget group_role_map) groups;
          role = (case mapped_roles of [] \<Rightarrow> opt_str_or role_header default_role
                  | r # rs \<Rightarrow> max_by role_rank r rs)
      in if \<not> dhas role_order role then Inl (HTTPException 403 ''unknown role'') else Inr role)"

definition trusted_proxy_user :: "auth_settings \<Rightarrow> headers \<Rightarrow> string option \<Rightarrow> string option \<Rightarrow> string list \<Rightarrow>
    user_context result" where
  "trusted_proxy_user st hs user_id role_header project_keys =
     (if st_trusted_proxy_secret st = []
      then Inl (HTTPException 500 ''TRUSTED_PROXY_SECRET is required for AUTH_MODE=trusted_proxy'')
      else rbind (case dget hs ''x-rune-trusted-secret'' of
                    None \<Rightarrow> Inr False
                  | Some p \<Rightarrow> if p = [] then Inr False else compare_digest p (st_trusted_proxy_secret st))
        (\<lambda>ok. if \<not> ok then Inl (HTTPException 401 ''invalid trusted proxy secret'')
          else case user_id of
            None \<Rightarrow> Inl (HTTPException 401 ''trusted proxy user header is required'')
          | Some u \<Rightarrow>
              if u = [] then Inl (HTTPException 401 ''trusted proxy user header is required'')
              else rbind (trusted_role_from_headers role_header (dget hs ''x-rune-groups'')
                            (st_trusted_group_role_map st) (st_trusted_default_role st))
                (\<lambda>role. Inr \<lparr>us_user_id = u, us_role = role, us_project_keys = project_keys\<rparr>)))"

definition current_user :: "auth_settings \<Rightarrow> headers \<Rightarrow> user_context result" where
  "current_user st hs =
     (let user_id = dget hs ''x-rune-user''; role_header = dget hs ''x-rune-role'';
          project_keys = parse_project_keys (dget hs ''x-rune-projects'')
      in if st_auth_mode st = ''local'' then
           Inr \<lparr>us_user_id = opt_str_or user_id ''local'', us_role = opt_str_or role_header ''admin'',
                us_project_keys = project_keys\<rparr>
         else if st_auth_mode st = ''trusted_proxy'' then
           trusted_proxy_user st hs user_id role_header project_keys
         else if st_auth_mode st \<noteq> ''api_key'' then
           Inl (HTTPException 500 (''unsupported AUTH_MODE: '' @ st_auth_mode st))
         else if st_api_key st = [] then
           Inl (HTTPException 500 ''API_KEY is required for AUTH_MODE=api_key'')
         else if dget hs ''x-rune-api-key'' \<noteq> Some (st_api_key st) then
           Inl (HTTPException 401 ''invalid api key'')
         else let role = opt_str_or role_header ''viewer''
           in if \<not> dhas role_order role then Inl (HTTPException 403 ''unknown role'')
              else Inr \<lparr>us_user_id = opt_str_or user_id ''api_key_user'', us_role = role,
                        us_project_keys = project_keys\<rparr>)"

section \<open>Role and project checks\<close>

definition role_level :: "string \<Rightarrow> nat result" where
  \<comment> \<open>\<open>ROLE_ORDER[role]\<close>\<close>
  "role_level r = (case dget role_order r of None \<Rightarrow> Inl (KeyError r) | Some n \<Rightarrow> Inr n)"

definition require_role :: "auth_settings \<Rightarrow> headers \<Rightarrow> string \<Rightarrow> user_context result" where
  "require_role st hs minimum_role =
     rbind (current_user st hs) (\<lambda>user.
     rbind (role_level (us_role user)) (\<lambda>have_level.
     rbind (role_level minimum_role) (\<lambda>need.
       if have_level < need then Inl (HTTPException 403 ''insufficient role'') else Inr user)))"

definition require_project :: "auth_settings \<Rightarrow> headers \<Rightarrow> string option \<Rightarrow> string \<Rightarrow> user_context result" where
  "require_project st hs project_key minimum_role =
     rbind (require_role st hs minimum_role) (\<lambda>user.
       case project_key of
         None \<Rightarrow> Inr user
       | Some p \<Rightarrow>
           if ''*'' \<notin> set (us_project_keys user) \<and> p \<notin> set (us_project_keys user)
           then Inl (HTTPException 403 ''project access denied'') else Inr user)"

subsection \<open>What a passed check means\<close>

definition authenticated :: "auth_settings \<Rightarrow> headers \<Rightarrow> bool" where
  "authenticated st hs =
     (st_auth_mode st = ''local''
      \<or> st_auth_mode st = ''api_key'' \<and> st_api_key st \<noteq> [] \<and> dget hs ''x-rune-api-key'' = Some (st_api_key st)
      \<or> st_auth_mode st = ''trusted_proxy'' \<and> st_trusted_proxy_secret st \<noteq> []
          \<and> dget hs ''x-rune-trusted-secret'' = Some (st_trusted_proxy_secret st)
          \<and> dget hs ''x-rune-user'' \<notin> {None, Some []})"

lemma trusted_role_known: "trusted_role_from_headers r g m d = Inr role \<Longrightarrow> dhas role_order role"
  by (auto simp: trusted_role_from_headers_def Let_def split: if_splits)

lemma current_user_authenticated:
  assumes "current_user st hs = Inr u"
  shows "authenticated st hs \<and> us_project_keys u = parse_project_keys (dget hs ''x-rune-projects'')
    \<and> us_user_id u \<noteq> []"
proof -
  consider (loc) "st_auth_mode st = ''local''" | (px) "st_auth_mode st = ''trusted_proxy''"
    | (other) "st_auth_mode st \<notin> {''local'', ''trusted_proxy''}" by auto
  then show ?thesis
  proof cases
    case loc
    with assms show ?thesis
      by (auto simp: current_user_def authenticated_def Let_def opt_str_or_def str_or_def
          split: option.splits if_splits)
  next
    case px
    with assms show ?thesis
      by (auto simp: current_user_def trusted_proxy_user_def authenticated_def compare_digest_def
          Let_def rbind_Inr_iff split: option.splits if_splits)
  next
    case other
    with assms show ?thesis
      by (auto simp: current_user_def authenticated_def Let_def opt_str_or_def str_or_def
          split: option.splits if_splits)
  qed
qed

text \<open>
  Property C24. A request that passes \<open>require_project\<close> is authenticated in the configured mode (the
  API key or the proxy secret matched), has a known role at least as high as the one required, and
  the project is among the request's projects unless these are unrestricted. Everything else is
  refused: in particular no mode but the three grants anything.
\<close>

theorem require_project_sound:
  assumes "require_project st hs (Some p) m = Inr u"
  shows "authenticated st hs
    \<and> (\<exists>have_level need. dget role_order (us_role u) = Some have_level \<and> dget role_order m = Some need \<and> need \<le> have_level)
    \<and> (''*'' \<in> set (parse_project_keys (dget hs ''x-rune-projects''))
       \<or> p \<in> set (parse_project_keys (dget hs ''x-rune-projects'')))"
proof -
  from assms have cu: "current_user st hs = Inr u"
    and lv: "\<exists>a b. role_level (us_role u) = Inr a \<and> role_level m = Inr b \<and> b \<le> a"
    and pr: "''*'' \<in> set (us_project_keys u) \<or> p \<in> set (us_project_keys u)"
    by (auto simp: require_project_def require_role_def rbind_Inr_iff not_less split: if_splits)
  from lv have "\<exists>a b. dget role_order (us_role u) = Some a \<and> dget role_order m = Some b \<and> b \<le> a"
    by (auto simp: role_level_def split: option.splits)
  with current_user_authenticated [OF cu] pr show ?thesis by auto
qed

text \<open>
  Roles are monotone: a request allowed an operation at some minimum role is allowed every
  operation whose minimum role is known and not higher, with the same user.
\<close>

theorem require_role_mono:
  assumes "require_role st hs m = Inr u" and "dget role_order m = Some a" and "dget role_order m' = Some b"
    and "b \<le> a"
  shows "require_role st hs m' = Inr u"
proof -
  from assms obtain k where "current_user st hs = Inr u" "dget role_order (us_role u) = Some k" "a \<le> k"
    by (auto simp: require_role_def rbind_Inr_iff role_level_def not_less split: if_splits option.splits)
  with assms(3,4) show ?thesis by (simp add: require_role_def role_level_def)
qed

text \<open>
  In local mode the role header is not checked against the known roles: every request with
  an unknown role fails with a \<open>KeyError\<close>, not with the answer 403 the other modes give.
\<close>

theorem local_mode_unknown_role:
  assumes "st_auth_mode st = ''local''" and "dget hs ''x-rune-role'' = Some r" and "r \<noteq> []"
    and "dget role_order r = None"
  shows "require_project st hs p m = Inl (KeyError r)"
  using assms by (simp add: require_project_def require_role_def current_user_def Let_def opt_str_or_def
      str_or_def role_level_def)

section \<open>Idempotent commands\<close>

record idempotency_record =
  ir_record_id :: string
  ir_idempotency_key :: string
  ir_command :: string
  ir_project_key :: "string option"
  ir_request_hash :: string
  ir_response :: json

record idempotency_context =
  ix_key :: "string option"
  ix_record_id :: "string option"
  ix_request_hash :: string
  ix_cached_response :: "jobj option"

type_synonym idempotency_results = "(string, idempotency_record) dict"

definition idempotency_key :: "headers \<Rightarrow> string option" where
  "idempotency_key hs =
     (let key = (case dget hs ''idempotency-key'' of
          None \<Rightarrow> dget hs ''x-idempotency-key''
        | Some k \<Rightarrow> if k = [] then dget hs ''x-idempotency-key'' else Some k)
      in case key of None \<Rightarrow> None | Some k \<Rightarrow> if py_strip k = [] then None else Some (py_strip k))"

definition idempotency_record_id :: "string \<Rightarrow> string \<Rightarrow> string" where
  "idempotency_record_id command key = command @ '':'' @ key"

definition prepare_idempotency :: "host \<Rightarrow> headers \<Rightarrow> idempotency_results \<Rightarrow> string \<Rightarrow> json \<Rightarrow>
    idempotency_context result" where
  "prepare_idempotency h hs results command payload =
     (let request_hash = stable_hash h payload in
      case idempotency_key hs of
        None \<Rightarrow> Inr \<lparr>ix_key = None, ix_record_id = None, ix_request_hash = request_hash, ix_cached_response = None\<rparr>
      | Some key \<Rightarrow>
          (let record_id = idempotency_record_id command key in
           case dget results record_id of
             None \<Rightarrow> Inr \<lparr>ix_key = Some key, ix_record_id = Some record_id, ix_request_hash = request_hash,
                          ix_cached_response = None\<rparr>
           | Some existing \<Rightarrow>
               if ir_request_hash existing \<noteq> request_hash
               then Inl (HTTPException 409 ''idempotency key reused with different request'')
               else (case ir_response existing of
                   JObj response \<Rightarrow> Inr \<lparr>ix_key = Some key, ix_record_id = Some record_id,
                      ix_request_hash = request_hash, ix_cached_response = Some response\<rparr>
                 | _ \<Rightarrow> Inl (HTTPException 500 ''invalid idempotency record''))))"

definition record_idempotency_response :: "idempotency_context \<Rightarrow> string \<Rightarrow> string option \<Rightarrow> jobj \<Rightarrow>
    idempotency_results \<Rightarrow> idempotency_results" where
  "record_idempotency_response ctx command project_key response results =
     (case (ix_key ctx, ix_record_id ctx) of
        (Some key, Some record_id) \<Rightarrow> dset record_id
          \<lparr>ir_record_id = record_id, ir_idempotency_key = key, ir_command = command,
           ir_project_key = project_key, ir_request_hash = ix_request_hash ctx,
           ir_response = JObj response\<rparr> results
      | _ \<Rightarrow> results)"

definition run_command :: "host \<Rightarrow> headers \<Rightarrow> string \<Rightarrow> json \<Rightarrow> string option \<Rightarrow> ('s \<Rightarrow> 's \<times> jobj result) \<Rightarrow>
    's \<times> idempotency_results \<Rightarrow> ('s \<times> idempotency_results) \<times> jobj result" where
  \<comment> \<open>the pattern of the command routes: the cached response, or the effect and its recorded response\<close>
  "run_command h hs command payload project_key act st =
     (case prepare_idempotency h hs (snd st) command payload of
        Inl e \<Rightarrow> (st, Inl e)
      | Inr ctx \<Rightarrow>
          (case ix_cached_response ctx of
             Some response \<Rightarrow> (st, Inr response)
           | None \<Rightarrow>
               (case act (fst st) of
                  (s', Inl e) \<Rightarrow> ((s', snd st), Inl e)
                | (s', Inr response) \<Rightarrow>
                    ((s', record_idempotency_response ctx command project_key response (snd st)), Inr response))))"


section \<open>Instances\<close>

definition demo_auth :: "string \<Rightarrow> auth_settings" where
  "demo_auth mode = \<lparr>st_auth_mode = mode, st_api_key = ''k'', st_trusted_proxy_secret = ''s'',
     st_trusted_default_role = ''viewer'', st_trusted_group_role_map = []\<rparr>"

definition demo_headers :: headers where
  "demo_headers = [(''x-rune-api-key'', ''k''), (''x-rune-role'', ''operator''), (''x-rune-projects'', ''P''),
     (''idempotency-key'', ''i1'')]"

lemma demo_keys: "parse_project_keys (Some ''P'') = [''P'']"
  by (simp add: parse_project_keys_def parse_header_values_def py_strip_def is_space_char_def cp_def Let_def)

lemma demo_user: "current_user (demo_auth ''api_key'') demo_headers
    = Inr \<lparr>us_user_id = ''api_key_user'', us_role = ''operator'', us_project_keys = [''P'']\<rparr>"
  by (simp add: current_user_def demo_auth_def demo_headers_def opt_str_or_def str_or_def Let_def
      dhas_def role_order_def demo_keys)

lemma require_project_sound_witness:
  "\<exists>u. require_project (demo_auth ''api_key'') demo_headers (Some ''P'') ''developer'' = Inr u
     \<and> authenticated (demo_auth ''api_key'') demo_headers"
proof -
  have r: "require_project (demo_auth ''api_key'') demo_headers (Some ''P'') ''developer''
      = Inr \<lparr>us_user_id = ''api_key_user'', us_role = ''operator'', us_project_keys = [''P'']\<rparr>"
    by (simp add: require_project_def require_role_def demo_user role_level_def role_order_def)
  from require_project_sound [OF r] r show ?thesis by blast
qed

lemma require_role_mono_witness:
  "\<exists>u. require_role (demo_auth ''api_key'') demo_headers ''viewer'' = Inr u"
proof -
  have "require_role (demo_auth ''api_key'') demo_headers ''developer''
      = Inr \<lparr>us_user_id = ''api_key_user'', us_role = ''operator'', us_project_keys = [''P'']\<rparr>"
    by (simp add: require_role_def demo_user role_level_def role_order_def)
  from require_role_mono [OF this, of 20 "''viewer''" 10] show ?thesis by (auto simp: role_order_def)
qed

lemma local_mode_unknown_role_witness:
  "require_project (demo_auth ''local'') [(''x-rune-role'', ''root'')] None ''viewer'' = Inl (KeyError ''root'')"
  using local_mode_unknown_role [of "demo_auth ''local''" "[(''x-rune-role'', ''root'')]" "''root''" None "''viewer''"]
  by (simp add: demo_auth_def role_order_def)

lemma demo_key: "idempotency_key demo_headers = Some ''i1''"
  by (simp add: idempotency_key_def demo_headers_def py_strip_def is_space_char_def cp_def Let_def)


end
