(* ===== verification/Actions.thy ===== *)
theory Actions
  imports Prelude
begin

text \<open>
  Sequencing for methods that thread a state through many calls: an action takes the state and gives
  the new state with a value or an exception, or does not return (\<open>None\<close>). The state an exception
  leaves behind is part of the outcome. The locale \<open>framed\<close> proves a relation between the states
  before and after from the parts of an action; each relation a client needs is an interpretation.
\<close>

type_synonym ('s, 'a) act = "'s \<Rightarrow> ('s \<times> 'a result) option"

definition act_return :: "'a \<Rightarrow> ('s, 'a) act" where
  "act_return x = (\<lambda>s. Some (s, Inr x))"

definition act_raise :: "py_error \<Rightarrow> ('s, 'a) act" where
  "act_raise e = (\<lambda>s. Some (s, Inl e))"

definition act_of :: "'a result \<Rightarrow> ('s, 'a) act" where
  "act_of r = (\<lambda>s. Some (s, r))"

definition act_bind :: "('s, 'a) act \<Rightarrow> ('a \<Rightarrow> ('s, 'b) act) \<Rightarrow> ('s, 'b) act" where
  "act_bind m f = (\<lambda>s. case m s of
       None \<Rightarrow> None
     | Some (s', r) \<Rightarrow> (case r of Inl e \<Rightarrow> Some (s', Inl e) | Inr x \<Rightarrow> f x s'))"

definition act_on :: "('s \<Rightarrow> 'p) \<Rightarrow> ('p \<Rightarrow> 's \<Rightarrow> 's) \<Rightarrow> ('p \<Rightarrow> 'p \<times> 'a result) \<Rightarrow> ('s, 'a) act" where
  \<comment> \<open>an operation of one part of the state\<close>
  "act_on get put m = (\<lambda>s. case m (get s) of (p, r) \<Rightarrow> Some (put p s, r))"

fun act_each :: "('a \<Rightarrow> ('s, 'b) act) \<Rightarrow> 'a list \<Rightarrow> ('s, 'b list) act" where
  \<comment> \<open>a loop that collects what its body yields\<close>
  "act_each f [] = act_return []"
| "act_each f (x # xs) = act_bind (f x) (\<lambda>y. act_bind (act_each f xs) (\<lambda>ys. act_return (y # ys)))"

section \<open>Laws\<close>

lemma act_bind_return [simp]: "act_bind (act_return x) f = f x"
  by (simp add: act_bind_def act_return_def)

lemma act_bind_raise [simp]: "act_bind (act_raise e) f = act_raise e"
  by (simp add: act_bind_def act_raise_def)

lemma act_bind_of_Inr [simp]: "act_bind (act_of (Inr x)) f = f x"
  by (simp add: act_bind_def act_of_def)

lemma act_return_right [simp]: "act_bind m act_return = m"
  by (rule ext) (auto simp: act_bind_def act_return_def split: option.splits sum.splits)

lemma act_bind_assoc: "act_bind (act_bind m f) g = act_bind m (\<lambda>x. act_bind (f x) g)"
  by (rule ext) (auto simp: act_bind_def split: option.splits sum.splits)

named_theorems act_outcome

lemma act_return_Some [act_outcome]: "act_return x s = Some (s', r) \<longleftrightarrow> s' = s \<and> r = Inr x"
  by (auto simp: act_return_def)

lemma act_raise_Some [act_outcome]: "act_raise e s = Some (s', r) \<longleftrightarrow> s' = s \<and> r = Inl e"
  by (auto simp: act_raise_def)

lemma act_of_Some [act_outcome]: "act_of x s = Some (s', r) \<longleftrightarrow> s' = s \<and> x = r"
  by (auto simp: act_of_def)

lemma act_bind_Inr [act_outcome]:
  "act_bind m f s = Some (s', Inr y) \<longleftrightarrow> (\<exists>s1 x. m s = Some (s1, Inr x) \<and> f x s1 = Some (s', Inr y))"
  by (auto simp: act_bind_def split: option.splits sum.splits)

lemma act_bind_Inl [act_outcome]:
  "act_bind m f s = Some (s', Inl e) \<longleftrightarrow> m s = Some (s', Inl e) \<or>
     (\<exists>s1 x. m s = Some (s1, Inr x) \<and> f x s1 = Some (s', Inl e))"
  by (auto simp: act_bind_def split: option.splits sum.splits)

lemma act_on_Some [act_outcome]:
  "act_on get put m s = Some (s', r) \<longleftrightarrow> (\<exists>p. m (get s) = (p, r) \<and> s' = put p s)"
  by (auto simp: act_on_def split: prod.splits)

definition act_run :: "('s \<times> 'a result) option \<Rightarrow> ('a \<Rightarrow> ('s, 'b) act) \<Rightarrow> ('s \<times> 'b result) option" where
  \<comment> \<open>what follows an outcome, for running an action step by step\<close>
  "act_run x f = (case x of
       None \<Rightarrow> None
     | Some (s', r) \<Rightarrow> (case r of Inl e \<Rightarrow> Some (s', Inl e) | Inr y \<Rightarrow> f y s'))"

lemma act_bind_run: "act_bind m f s = act_run (m s) f"
  by (simp add: act_bind_def act_run_def)

lemma act_run_simps [simp]:
  "act_run None f = None" "act_run (Some (s, Inl e)) f = Some (s, Inl e)" "act_run (Some (s, Inr y)) f = f y s"
  by (simp_all add: act_run_def)

lemma act_bind_cases [consumes 1, case_names raised returned]:
  assumes "act_bind m f s = Some (s', r)"
  obtains (raised) e where "m s = Some (s', Inl e)" and "r = Inl e"
    | (returned) s1 x where "m s = Some (s1, Inr x)" and "f x s1 = Some (s', r)"
  using assms by (auto simp: act_bind_def split: option.splits sum.splits)

section \<open>Frames\<close>

definition act_keeps :: "('s \<Rightarrow> 's \<Rightarrow> bool) \<Rightarrow> ('s, 'a) act \<Rightarrow> bool" where
  \<comment> \<open>whenever the action returns or raises, the states before and after are related\<close>
  "act_keeps R m = (\<forall>s s' r. m s = Some (s', r) \<longrightarrow> R s s')"

lemma act_keepsD: "act_keeps R m \<Longrightarrow> m s = Some (s', r) \<Longrightarrow> R s s'"
  by (auto simp: act_keeps_def)

locale framed =
  fixes R :: "'s \<Rightarrow> 's \<Rightarrow> bool"
  assumes refl: "R s s" and trans: "R s t \<Longrightarrow> R t u \<Longrightarrow> R s u"
begin

lemma keeps_return: "act_keeps R (act_return x)"
  by (simp add: act_keeps_def act_outcome refl)

lemma keeps_raise: "act_keeps R (act_raise e)"
  by (simp add: act_keeps_def act_outcome refl)

lemma keeps_of: "act_keeps R (act_of r)"
  by (simp add: act_keeps_def act_outcome refl)

lemma keeps_bind:
  assumes "act_keeps R m" and "\<And>x. act_keeps R (f x)"
  shows "act_keeps R (act_bind m f)"
  unfolding act_keeps_def
proof (intro allI impI)
  fix s s' r assume "act_bind m f s = Some (s', r)"
  then show "R s s'"
    by (cases rule: act_bind_cases) (use assms trans in \<open>blast dest: act_keepsD\<close>)+
qed

lemma keeps_bind_result:
  \<comment> \<open>the continuation needs the relation only on values the first part returns\<close>
  assumes "act_keeps R m" and "\<And>s s1 x. m s = Some (s1, Inr x) \<Longrightarrow> act_keeps R (f x)"
  shows "act_keeps R (act_bind m f)"
  unfolding act_keeps_def
proof (intro allI impI)
  fix s s' r assume "act_bind m f s = Some (s', r)"
  then show "R s s'"
    by (cases rule: act_bind_cases) (use assms trans in \<open>blast dest: act_keepsD\<close>)+
qed

lemma keeps_case_prod: "(\<And>a b. act_keeps R (f a b)) \<Longrightarrow> act_keeps R (case x of (a, b) \<Rightarrow> f a b)"
  by (cases x) simp

lemma keeps_case_option: "act_keeps R m \<Longrightarrow> (\<And>a. act_keeps R (f a)) \<Longrightarrow> act_keeps R (case x of None \<Rightarrow> m | Some a \<Rightarrow> f a)"
  by (cases x) simp_all

lemma keeps_on: "(\<And>s p r. m (get s) = (p, r) \<Longrightarrow> R s (put p s)) \<Longrightarrow> act_keeps R (act_on get put m)"
  by (auto simp: act_keeps_def act_outcome)

lemma keeps_each: "(\<And>x. act_keeps R (f x)) \<Longrightarrow> act_keeps R (act_each f xs)"
  by (induction xs) (simp_all add: keeps_return keeps_bind)

lemmas keeps_rules = keeps_return keeps_raise keeps_of keeps_bind keeps_each keeps_case_prod keeps_case_option

end

end
