(* ===== verification/Approvals.thy ===== *)
theory Approvals
  imports Samples Feedback
begin

text \<open>
  \<open>approvals/models.py\<close>, \<open>approvals/service.py\<close> and \<open>reasoning/scoring.py\<close>: staging candidate
  edges as approval items with their graph deltas, and deciding them. The graph is reached through
  the protocol of \<open>graph/base.py\<close>: \<open>decide\<close> takes the backend's \<open>apply_delta\<close> as an argument, the
  lemmas about it are proved in the locale \<open>graph_backend\<close>, and the properties are those of the memory
  backend. An operation that raises after it changed something returns the changed state
  beside the exception.
\<close>

section \<open>Contracts\<close>

datatype proposal_type = PT_Node | PT_Edge | PT_Finding | PT_Graph_Delta

definition proposal_type_str :: "proposal_type \<Rightarrow> string" where
  "proposal_type_str t = (case t of PT_Node \<Rightarrow> ''node'' | PT_Edge \<Rightarrow> ''edge''
     | PT_Finding \<Rightarrow> ''finding'' | PT_Graph_Delta \<Rightarrow> ''graph_delta'')"

datatype item_status = IT_Pending | IT_Approved | IT_Rejected | IT_Modified_Approved | IT_Held | IT_Stale

definition item_status_str :: "item_status \<Rightarrow> string" where
  "item_status_str s = (case s of IT_Pending \<Rightarrow> ''pending'' | IT_Approved \<Rightarrow> ''approved''
     | IT_Rejected \<Rightarrow> ''rejected'' | IT_Modified_Approved \<Rightarrow> ''modified_approved''
     | IT_Held \<Rightarrow> ''held'' | IT_Stale \<Rightarrow> ''stale'')"

datatype decision_action = DA_Approve | DA_Reject | DA_Modify | DA_Hold

definition decision_action_str :: "decision_action \<Rightarrow> string" where
  "decision_action_str a = (case a of DA_Approve \<Rightarrow> ''approve'' | DA_Reject \<Rightarrow> ''reject''
     | DA_Modify \<Rightarrow> ''modify'' | DA_Hold \<Rightarrow> ''hold'')"

record approval_item =
  ap_approval_id :: string
  ap_project_key :: string
  ap_proposal_type :: proposal_type
  ap_proposal_ref :: string
  ap_graph_delta_ref :: "string option"
  ap_status :: item_status
  ap_risk_level :: severity
  ap_owner_role :: string
  ap_created_from_run_id :: string
  ap_created_from_step_id :: string
  ap_proposal_hash :: string
  ap_version :: int
  ap_created_at :: time
  ap_updated_at :: time
  ap_schema_version :: string

record approval_decision =
  ad_approval_id :: string
  ad_action :: decision_action
  ad_decided_by :: string
  ad_expected_version :: "int option"
  ad_expected_proposal_hash :: "string option"
  ad_decided_at :: time
  ad_correction_payload :: "jobj option"
  ad_reason_code :: "string option"
  ad_schema_version :: string

definition approval_dump :: "approval_item \<Rightarrow> jobj" where
  "approval_dump a = [
     (''approval_id'', JStr (ap_approval_id a)),
     (''project_key'', JStr (ap_project_key a)),
     (''proposal_type'', JStr (proposal_type_str (ap_proposal_type a))),
     (''proposal_ref'', JStr (ap_proposal_ref a)),
     (''graph_delta_ref'', jopt (ap_graph_delta_ref a)),
     (''status'', JStr (item_status_str (ap_status a))),
     (''risk_level'', JStr (severity_str (ap_risk_level a))),
     (''owner_role'', JStr (ap_owner_role a)),
     (''created_from_run_id'', JStr (ap_created_from_run_id a)),
     (''created_from_step_id'', JStr (ap_created_from_step_id a)),
     (''proposal_hash'', JStr (ap_proposal_hash a)),
     (''version'', JInt (ap_version a)),
     (''created_at'', JTime (ap_created_at a)),
     (''updated_at'', JTime (ap_updated_at a)),
     (''schema_version'', JStr (ap_schema_version a))]"

definition decision_dump :: "approval_decision \<Rightarrow> jobj" where
  "decision_dump d = [
     (''approval_id'', JStr (ad_approval_id d)),
     (''action'', JStr (decision_action_str (ad_action d))),
     (''decided_by'', JStr (ad_decided_by d)),
     (''expected_version'', jint_opt (ad_expected_version d)),
     (''expected_proposal_hash'', jopt (ad_expected_proposal_hash d)),
     (''decided_at'', JTime (ad_decided_at d)),
     (''correction_payload'', (case ad_correction_payload d of None \<Rightarrow> JNull | Some p \<Rightarrow> JObj p)),
     (''reason_code'', jopt (ad_reason_code d)),
     (''schema_version'', JStr (ad_schema_version d))]"

section \<open>Scoring\<close>

definition approval_risk_for_edge :: "traceability_edge \<Rightarrow> severity" where
  "approval_risk_for_edge e =
     (if te_confidence_score e < 1 / 2 then High
      else if te_relation e \<in> {Conflicts_With, Supersedes} then High
      else if te_is_inferred e \<or> te_confidence_score e < 85 / 100 then Medium
      else Low)"

section \<open>The service\<close>

record approval_service =
  sv_items :: "(string, approval_item) dict"
  sv_deltas :: "(string, graph_delta) dict"
  sv_feedback :: "feedback_event list"

definition empty_service :: approval_service where
  "empty_service = \<lparr>sv_items = [], sv_deltas = [], sv_feedback = []\<rparr>"

definition system_approved :: "traceability_edge \<Rightarrow> traceability_edge" where
  \<comment> \<open>\<open>edge.model_copy(update=...)\<close>, which does not validate\<close>
  "system_approved e = e\<lparr>te_approval_status := AS_Approved, te_approved_by := Some ''system''\<rparr>"

definition edge_delta :: "string \<Rightarrow> string \<Rightarrow> string \<Rightarrow> traceability_edge \<Rightarrow> graph_delta" where
  "edge_delta project_key run_id step_id e =
     \<lparr>gd_delta_id = ''delta_'' @ te_edge_id e, gd_project_key = project_key,
      gd_operations = [\<lparr>go_operation = Create_Edge, go_target_id = te_edge_id e,
        go_payload = edge_dump (system_approved e), go_schema_version = ''v1''\<rparr>],
      gd_created_from_run_id = run_id, gd_created_from_step_id = step_id, gd_schema_version = ''v1''\<rparr>"

definition edge_approval :: "host \<Rightarrow> time \<Rightarrow> string \<Rightarrow> string \<Rightarrow> string \<Rightarrow> traceability_edge \<Rightarrow> approval_item" where
  "edge_approval h now project_key run_id step_id e =
     (let proposal_hash = stable_hash h (JObj (edge_dump e)) in
      \<lparr>ap_approval_id = ''apv_'' @ take 16 proposal_hash, ap_project_key = project_key,
       ap_proposal_type = PT_Edge, ap_proposal_ref = te_edge_id e,
       ap_graph_delta_ref = Some (''delta_'' @ te_edge_id e), ap_status = IT_Pending,
       ap_risk_level = approval_risk_for_edge e, ap_owner_role = ''System Architect'',
       ap_created_from_run_id = run_id, ap_created_from_step_id = step_id,
       ap_proposal_hash = proposal_hash, ap_version = 1, ap_created_at = now, ap_updated_at = now,
       ap_schema_version = ''v1''\<rparr>)"

definition stage_edge :: "host \<Rightarrow> time \<Rightarrow> string \<Rightarrow> string \<Rightarrow> string \<Rightarrow> traceability_edge \<Rightarrow>
    approval_service \<times> approval_item list \<Rightarrow> approval_service \<times> approval_item list" where
  "stage_edge h now project_key run_id step_id e st =
     (let delta = edge_delta project_key run_id step_id e;
          approval = edge_approval h now project_key run_id step_id e;
          s = fst st
      in (s\<lparr>sv_items := dset (ap_approval_id approval) approval (sv_items s),
            sv_deltas := dset (gd_delta_id delta) delta (sv_deltas s)\<rparr>,
          snd st @ [approval]))"

definition stage_edges :: "host \<Rightarrow> time \<Rightarrow> string \<Rightarrow> string \<Rightarrow> string \<Rightarrow> traceability_edge list \<Rightarrow>
    approval_service \<Rightarrow> approval_service \<times> approval_item list" where
  "stage_edges h now project_key run_id step_id edges s =
     foldl (\<lambda>st e. stage_edge h now project_key run_id step_id e st) (s, []) edges"

definition is_stale_decision :: "approval_item \<Rightarrow> approval_decision \<Rightarrow> bool" where
  "is_stale_decision item d =
     (if (case ad_expected_version d of None \<Rightarrow> False | Some v \<Rightarrow> v \<noteq> ap_version item) then True
      else case ad_expected_proposal_hash d of None \<Rightarrow> False | Some ph \<Rightarrow> ph \<noteq> ap_proposal_hash item)"

definition feedback_action_for :: "item_status \<Rightarrow> string" where
  "feedback_action_for status =
     (if status = IT_Approved then ''approved''
      else if status = IT_Modified_Approved then ''modified''
      else if status = IT_Held then ''commented''
      else ''rejected'')"

definition has_ref :: "string option \<Rightarrow> bool" where
  \<comment> \<open>truth of an optional string\<close>
  "has_ref r = (r \<noteq> None \<and> r \<noteq> Some [])"

definition has_correction :: "approval_decision \<Rightarrow> bool" where
  "has_correction d = (case ad_correction_payload d of None \<Rightarrow> False | Some p \<Rightarrow> p \<noteq> [])"

definition correction_text :: "host \<Rightarrow> approval_decision \<Rightarrow> string option" where
  "correction_text h d = (if \<not> has_correction d then None
     else map_option (\<lambda>p. dumps_sorted h (JObj p)) (ad_correction_payload d))"

definition dupdate :: "jobj \<Rightarrow> jobj \<Rightarrow> jobj" where
  \<comment> \<open>\<open>d.update(p)\<close>\<close>
  "dupdate d p = foldl (\<lambda>d kv. dset (fst kv) (snd kv) d) d p"

definition modified_operation :: "schema \<Rightarrow> approval_decision \<Rightarrow> graph_delta_operation \<Rightarrow>
    graph_delta_operation result" where
  "modified_operation sc d x =
     (let payload = dupdate (go_payload x) (case ad_correction_payload d of None \<Rightarrow> [] | Some p \<Rightarrow> p)
      in if go_operation x = Create_Edge
         then (let payload = dset ''approved_at'' (JTime (ad_decided_at d))
                     (dset ''approved_by'' (JStr (ad_decided_by d))
                       (dset ''approval_status'' (JStr ''approved'') payload))
               in rbind (val_edge sc payload)
                    (\<lambda>e. Inr (x\<lparr>go_payload := edge_dump e, go_schema_version := ''v1''\<rparr>)))
         else Inr (x\<lparr>go_payload := payload, go_schema_version := ''v1''\<rparr>))"

definition modified_delta :: "schema \<Rightarrow> approval_service \<Rightarrow> approval_item \<Rightarrow> approval_decision \<Rightarrow>
    graph_delta result" where
  "modified_delta sc s item d =
     (let ref = opt_str_or (ap_graph_delta_ref item) [] in
      case dget (sv_deltas s) ref of
        None \<Rightarrow> Inl (KeyError ref)
      | Some original \<Rightarrow>
          rbind (rmap (modified_operation sc d) (gd_operations original))
            (\<lambda>operations. Inr (original\<lparr>
               gd_delta_id := gd_delta_id original @ ''_modified_v'' @ str_int (ap_version item),
               gd_operations := operations, gd_schema_version := ''v1''\<rparr>)))"

text \<open>
  The body of \<open>decide\<close> after the guards: first the branch that chooses the status and commits to the
  graph, then the update of the item and the feedback event.
\<close>

definition commit_decision :: "('g \<Rightarrow> graph_delta \<Rightarrow> string \<Rightarrow> 'g \<times> unit result) \<Rightarrow> schema \<Rightarrow>
    approval_item \<Rightarrow> approval_decision \<Rightarrow> approval_service \<Rightarrow> 'g \<Rightarrow>
    (approval_service \<times> 'g) \<times> item_status result" where
  "commit_decision apply_d sc item d s g =
     (if ad_action d = DA_Approve \<and> has_ref (ap_graph_delta_ref item) then
        (let ref = opt_str_or (ap_graph_delta_ref item) [] in
         case dget (sv_deltas s) ref of
           None \<Rightarrow> ((s, g), Inl (KeyError ref))
         | Some delta \<Rightarrow>
             (case apply_d g delta (ad_approval_id d @ '':'' @ str_int (ap_version item)) of
                (g', Inl e) \<Rightarrow> ((s, g'), Inl e)
              | (g', Inr _) \<Rightarrow> ((s, g'), Inr IT_Approved)))
      else if ad_action d = DA_Reject then ((s, g), Inr IT_Rejected)
      else if ad_action d = DA_Hold then ((s, g), Inr IT_Held)
      else if has_ref (ap_graph_delta_ref item) \<and> has_correction d then
        (case modified_delta sc s item d of
           Inl e \<Rightarrow> ((s, g), Inl e)
         | Inr delta \<Rightarrow>
             (let s' = s\<lparr>sv_deltas := dset (gd_delta_id delta) delta (sv_deltas s)\<rparr> in
              case apply_d g delta (ad_approval_id d @ '':'' @ str_int (ap_version item) @ '':modify'') of
                (g', Inl e) \<Rightarrow> ((s', g'), Inl e)
              | (g', Inr _) \<Rightarrow> ((s', g'), Inr IT_Modified_Approved)))
      else ((s, g), Inr IT_Modified_Approved))"

definition decision_feedback :: "host \<Rightarrow> time \<Rightarrow> approval_item \<Rightarrow> approval_decision \<Rightarrow> item_status \<Rightarrow>
    feedback_event result" where
  "decision_feedback h now item d status =
     rbind (parse_action (feedback_action_for status)) (\<lambda>a.
     rbind (parse_reason (ad_reason_code d)) (\<lambda>r.
     Inr \<lparr>fb_feedback_id = ''fb_'' @ hash_prefix h 16 (JObj (decision_dump d)),
          fb_target_type = FT_Edge, fb_target_id = ap_proposal_ref item, fb_action = a,
          fb_user_id = ad_decided_by d, fb_user_role = ap_owner_role item, fb_reason_code = r,
          fb_correction_text = correction_text h d, fb_created_at = now,
          fb_model_profile_id = None, fb_prompt_version_id = None, fb_schema_version = ''v1''\<rparr>))"

definition decide :: "('g \<Rightarrow> graph_delta \<Rightarrow> string \<Rightarrow> 'g \<times> unit result) \<Rightarrow> schema \<Rightarrow> host \<Rightarrow> time \<Rightarrow>
    approval_decision \<Rightarrow> approval_service \<Rightarrow> 'g \<Rightarrow> (approval_service \<times> 'g) \<times> approval_item result" where
  "decide apply_d sc h now d s g =
     (case dget (sv_items s) (ad_approval_id d) of
        None \<Rightarrow> ((s, g), Inl (KeyError (ad_approval_id d)))
      | Some item \<Rightarrow>
          if ap_status item \<noteq> IT_Pending then ((s, g), Inr item)
          else if is_stale_decision item d then
            (let updated = item\<lparr>ap_status := IT_Stale, ap_version := ap_version item + 1,
                                ap_updated_at := now\<rparr>
             in ((s\<lparr>sv_items := dset (ap_approval_id item) updated (sv_items s)\<rparr>, g), Inr updated))
          else
            (case commit_decision apply_d sc item d s g of
               ((s', g'), Inl e) \<Rightarrow> ((s', g'), Inl e)
             | ((s', g'), Inr status) \<Rightarrow>
                 (let updated = item\<lparr>ap_status := status, ap_version := ap_version item + 1,
                                     ap_updated_at := now\<rparr>;
                      s'' = s'\<lparr>sv_items := dset (ap_approval_id item) updated (sv_items s')\<rparr>
                  in case decision_feedback h now item d status of
                       Inl e \<Rightarrow> ((s'', g'), Inl e)
                     | Inr f \<Rightarrow> ((s''\<lparr>sv_feedback := sv_feedback s'' @ [f]\<rparr>, g'), Inr updated))))"


section \<open>What a decision changes\<close>

definition accepts :: "approval_item \<Rightarrow> approval_decision \<Rightarrow> bool" where
  \<comment> \<open>the decision reaches the commit branch\<close>
  "accepts item d = (ap_status item = IT_Pending \<and> \<not> is_stale_decision item d)"

definition commits :: "approval_item \<Rightarrow> approval_decision \<Rightarrow> bool" where
  \<comment> \<open>the branches of \<open>decide\<close> that call the backend\<close>
  "commits item d = (has_ref (ap_graph_delta_ref item) \<and>
     (ad_action d = DA_Approve \<or> ad_action d = DA_Modify \<and> has_correction d))"

definition commit_delta :: "schema \<Rightarrow> approval_service \<Rightarrow> approval_item \<Rightarrow> approval_decision \<Rightarrow>
    graph_delta \<Rightarrow> bool" where
  \<comment> \<open>the delta a committing decision hands to the backend\<close>
  "commit_delta sc s item d delta = (commits item d \<and>
     (ad_action d = DA_Approve \<and> delta \<in> set (dvals (sv_deltas s))
      \<or> ad_action d = DA_Modify \<and> modified_delta sc s item d = Inr delta))"

lemma commit_decision_graph:
  "snd (fst (commit_decision ap sc item d s g)) = g
   \<or> (\<exists>delta k. commit_delta sc s item d delta \<and> snd (fst (commit_decision ap sc item d s g)) = fst (ap g delta k))"
proof (cases "commits item d")
  case False
  then show ?thesis
    by (cases "ad_action d"; cases "has_ref (ap_graph_delta_ref item)")
      (simp_all add: commit_decision_def commits_def)
next
  case True
  show ?thesis
  proof (cases "ad_action d = DA_Approve")
    case approve: True
    let ?ref = "opt_str_or (ap_graph_delta_ref item) []"
    show ?thesis
    proof (cases "dget (sv_deltas s) ?ref")
      case None
      with True approve show ?thesis by (simp add: commit_decision_def commits_def)
    next
      case (Some delta)
      then have "commit_delta sc s item d delta"
        using True approve by (auto simp: commit_delta_def simp del: set_map dest: dget_in_vals)
      moreover have "snd (fst (commit_decision ap sc item d s g))
          = fst (ap g delta (ad_approval_id d @ '':'' @ str_int (ap_version item)))"
        using True approve Some
        by (simp add: commit_decision_def commits_def split: prod.splits sum.splits)
      ultimately show ?thesis by blast
    qed
  next
    case modify: False
    with True have m: "ad_action d = DA_Modify" "has_correction d" "has_ref (ap_graph_delta_ref item)"
      by (auto simp: commits_def)
    show ?thesis
    proof (cases "modified_delta sc s item d")
      case (Inl e)
      with m show ?thesis by (simp add: commit_decision_def)
    next
      case (Inr delta)
      then have "commit_delta sc s item d delta" using True m by (simp add: commit_delta_def)
      moreover have "snd (fst (commit_decision ap sc item d s g))
          = fst (ap g delta (ad_approval_id d @ '':'' @ str_int (ap_version item) @ '':modify''))"
        using m Inr by (simp add: commit_decision_def Let_def split: prod.splits sum.splits)
      ultimately show ?thesis by blast
    qed
  qed
qed

lemma commit_decision_deltas:
  assumes "delta \<in> set (dvals (sv_deltas (fst (fst (commit_decision ap sc item d s g)))))"
  shows "delta \<in> set (dvals (sv_deltas s)) \<or> (ad_action d = DA_Modify \<and> modified_delta sc s item d = Inr delta)"
  using assms
  by (cases "ad_action d")
    (auto simp: commit_decision_def Let_def simp del: set_map
      split: if_splits option.splits prod.splits sum.splits dest: in_dvals_dset)

context graph_backend
begin

lemma commit_decision_edges:
  assumes "e \<in> edges_of (snd (fst (commit_decision apply_d sc' item d s g)))" and "e \<notin> edges_of g"
  shows "\<exists>delta. commit_delta sc' s item d delta \<and> e \<in> delta_edges sc delta"
  using commit_decision_graph [of apply_d sc' item d s g] assms apply_edges_in by metis

lemma decide_edges:
  assumes "e \<in> edges_of (snd (fst (decide apply_d sc' h now d s g)))" and "e \<notin> edges_of g"
  obtains item where "dget (sv_items s) (ad_approval_id d) = Some item"
    and "accepts item d" and "e \<in> edges_of (snd (fst (commit_decision apply_d sc' item d s g)))"
  using assms
  by (auto simp: decide_def accepts_def Let_def split: option.splits if_splits prod.splits sum.splits)

lemma decide_not_accepted:
  assumes "dget (sv_items s) (ad_approval_id d) = Some item" and "\<not> accepts item d"
  shows "snd (fst (decide apply_d sc' h now d s g)) = g
     \<and> sv_deltas (fst (fst (decide apply_d sc' h now d s g))) = sv_deltas s
     \<and> sv_feedback (fst (fst (decide apply_d sc' h now d s g))) = sv_feedback s"
  using assms by (auto simp: decide_def accepts_def Let_def)

lemma decide_result:
  \<comment> \<open>a decision that returns leaves an item that is no longer pending\<close>
  assumes "dict_by ap_approval_id (sv_items s)"
    and "decide apply_d sc' h now d s g = ((s', g'), Inr r)"
  shows "dget (sv_items s') (ad_approval_id d) = Some r \<and> ap_status r \<noteq> IT_Pending"
proof -
  from assms(2) obtain item where item: "dget (sv_items s) (ad_approval_id d) = Some item"
    by (auto simp: decide_def split: option.splits)
  with assms(1) have id: "ap_approval_id item = ad_approval_id d" by (blast dest: dict_by_get)
  have st: "commit_decision apply_d sc' item d s g = ((s1, g1), Inr st) \<Longrightarrow> st \<noteq> IT_Pending" for s1 g1 st
    by (auto simp: commit_decision_def Let_def split: if_splits option.splits prod.splits sum.splits)
  from assms(2) item id st show ?thesis
    by (auto simp: decide_def Let_def split: if_splits prod.splits sum.splits)
qed

lemma decide_once:
  assumes "dict_by ap_approval_id (sv_items s)"
    and "decide apply_d sc' h now d s g = ((s', g'), Inr r)" and "ad_approval_id d' = ad_approval_id d"
  shows "decide apply_d sc' h now' d' s' g' = ((s', g'), Inr r)"
  using decide_result [OF assms(1,2)] assms(3) by (simp add: decide_def)

end

lemma commit_decision_items [simp]:
  "sv_items (fst (fst (commit_decision ap sc item d s g))) = sv_items s"
  "sv_feedback (fst (fst (commit_decision ap sc item d s g))) = sv_feedback s"
  by (auto simp: commit_decision_def Let_def split: if_splits option.splits prod.splits sum.splits)

lemma commit_decision_itemsD:
  assumes "commit_decision ap sc item d s g = ((a, b), r)"
  shows "sv_items a = sv_items s \<and> sv_feedback a = sv_feedback s"
  using commit_decision_items [of ap sc item d s g] by (simp add: assms)

lemma decide_items_wf:
  assumes "dict_by ap_approval_id (sv_items s)"
  shows "dict_by ap_approval_id (sv_items (fst (fst (decide ap sc h now d s g))))"
proof (cases "dget (sv_items s) (ad_approval_id d)")
  case None
  with assms show ?thesis by (simp add: decide_def)
next
  case (Some item)
  with assms show ?thesis
    by (auto simp: decide_def Let_def split: if_splits prod.splits sum.splits
        dest: commit_decision_itemsD)
qed

lemma stage_edges_wf:
  assumes "dict_by ap_approval_id (sv_items s)"
  shows "dict_by ap_approval_id (sv_items (fst (stage_edges h now p run st es s)))"
proof -
  have "dict_by ap_approval_id (sv_items (fst (foldl (\<lambda>st e. stage_edge h now p run step e st) a es)))"
    if "dict_by ap_approval_id (sv_items (fst a))" for a step
    using that by (induction es arbitrary: a) (simp_all add: stage_edge_def Let_def dict_by_dset)
  with assms show ?thesis by (simp add: stage_edges_def)
qed

lemma stage_edges_deltas:
  "delta \<in> set (dvals (sv_deltas (fst (stage_edges h now p run st es s)))) \<Longrightarrow>
     delta \<in> set (dvals (sv_deltas s)) \<or> (\<exists>e\<in>set es. delta = edge_delta p run st e)"
proof -
  have "delta \<in> set (dvals (sv_deltas (fst (foldl (\<lambda>st e. stage_edge h now p run step e st) a es)))) \<Longrightarrow>
     delta \<in> set (dvals (sv_deltas (fst a))) \<or> (\<exists>e\<in>set es. delta = edge_delta p run step e)" for a step
  proof (induction es arbitrary: a)
    case Nil
    then show ?case by simp
  next
    case (Cons e es)
    from Cons.IH [of "stage_edge h now p run step e a"] Cons.prems show ?case
      by (auto simp: stage_edge_def Let_def simp del: set_map dest: in_dvals_dset)
  qed
  from this [of st "(s, [])"] show "delta \<in> set (dvals (sv_deltas (fst (stage_edges h now p run st es s)))) \<Longrightarrow> ?thesis"
    unfolding stage_edges_def fst_conv .
qed

lemma stage_edges_approvals:
  "length (snd (stage_edges h now p run st es s)) = length es"
  "snd (stage_edges h now p run st es s) = map (edge_approval h now p run st) es"
proof -
  have *: "snd (foldl (\<lambda>st e. stage_edge h now p run step e st) a es)
      = snd a @ map (edge_approval h now p run step) es" for a step
    by (induction es arbitrary: a) (simp_all add: stage_edge_def Let_def)
  then show "snd (stage_edges h now p run st es s) = map (edge_approval h now p run st) es"
    by (simp add: stage_edges_def)
  with * show "length (snd (stage_edges h now p run st es s)) = length es" by simp
qed

section \<open>Runs of the service\<close>

datatype approval_event =
    Staged "traceability_edge list"
  | Decided approval_item approval_decision
  | Baseline "ontology_node list"

type_synonym approval_state = "approval_service \<times> memory_graph"

inductive approval_run :: "schema \<Rightarrow> host \<Rightarrow> approval_event list \<Rightarrow> approval_state \<Rightarrow> bool"
  for sc :: schema and h :: host where
    run_empty: "approval_run sc h [] (empty_service, empty_graph)"
  | run_stage: "approval_run sc h tr (s, g) \<Longrightarrow> \<forall>e\<in>set es. edge_full_ok e \<Longrightarrow>
      approval_run sc h (Staged es # tr) (fst (stage_edges h now p run st es s), g)"
  | run_nodes: "approval_run sc h tr (s, g) \<Longrightarrow>
      approval_run sc h (Baseline ns # tr) (s, stage_baseline_nodes ns g)"
  | run_decide: "approval_run sc h tr (s, g) \<Longrightarrow> dget (sv_items s) (ad_approval_id d) = Some item \<Longrightarrow>
      approval_run sc h (Decided item d # tr) (fst (decide (apply_delta sc) sc h now d s g))"

definition staged_edges :: "approval_event list \<Rightarrow> traceability_edge set" where
  "staged_edges tr = {e. \<exists>es. Staged es \<in> set tr \<and> e \<in> set es}"

definition accountable :: "approval_event list \<Rightarrow> traceability_edge \<Rightarrow> bool" where
  \<comment> \<open>a staged edge with the system's approval, or the corrected edge of an accepted modification\<close>
  "accountable tr e =
     (te_approval_status e = AS_Approved \<and> edge_full_ok e \<and>
      ((\<exists>e0\<in>staged_edges tr. e = system_approved e0)
       \<or> (\<exists>item d. Decided item d \<in> set tr \<and> accepts item d \<and> ad_action d = DA_Modify
            \<and> te_approved_by e = Some (ad_decided_by d))))"

definition deltas_accountable :: "schema \<Rightarrow> approval_event list \<Rightarrow> approval_service \<Rightarrow> bool" where
  "deltas_accountable sc tr s =
     (\<forall>delta\<in>set (dvals (sv_deltas s)). \<forall>x\<in>set (gd_operations delta).
        \<exists>e. go_operation x = Create_Edge \<and> go_payload x = edge_dump e \<and> accountable tr e)"

lemma accountable_mono: "accountable tr e \<Longrightarrow> accountable (ev # tr) e"
  by (auto simp: accountable_def staged_edges_def)

lemma deltas_accountable_mono: "deltas_accountable sc tr s \<Longrightarrow> deltas_accountable sc (ev # tr) s"
  by (meson accountable_mono deltas_accountable_def)

lemma system_approved_ok: "edge_full_ok e \<Longrightarrow> edge_full_ok (system_approved e)"
  by (simp add: edge_full_ok_def edge_ok_def system_approved_def)

lemma edge_delta_accountable:
  assumes "e \<in> set es" and "edge_full_ok e"
  shows "\<forall>x\<in>set (gd_operations (edge_delta p run st e)).
     \<exists>e'. go_operation x = Create_Edge \<and> go_payload x = edge_dump e' \<and> accountable (Staged es # tr) e'"
proof -
  have "accountable (Staged es # tr) (system_approved e)"
    using assms system_approved_ok [OF assms(2)]
    by (auto simp: accountable_def staged_edges_def system_approved_def)
  then show ?thesis by (auto simp: edge_delta_def)
qed

lemma delta_edges_accountable:
  assumes "edge_contract (val_edge sc)" and "deltas_accountable sc tr s"
    and "delta \<in> set (dvals (sv_deltas s))" and "e \<in> delta_edges sc delta"
  shows "accountable tr e"
proof -
  from assms(4) obtain x where x: "x \<in> set (gd_operations delta)" "val_edge sc (go_payload x) = Inr e"
    by (auto simp: delta_edges_def)
  with assms(2,3) obtain e' where e': "go_payload x = edge_dump e'" "accountable tr e'"
    unfolding deltas_accountable_def by blast
  then have "val_edge sc (go_payload x) = Inr e'"
    using edge_contract.validate_dump [OF assms(1)] by (simp add: accountable_def)
  with x e' show ?thesis by simp
qed

lemma dget_dupdate_other: "dget (dset k v d) k = Some v"
  by simp

lemma modified_operation_edge:
  assumes "edge_contract (val_edge sc)" and "modified_operation sc d x = Inr y"
    and "go_operation x = Create_Edge"
  obtains e where "go_operation y = Create_Edge" and "go_payload y = edge_dump e"
    and "edge_full_ok e" and "te_approval_status e = AS_Approved"
    and "te_approved_by e = Some (ad_decided_by d)"
proof -
  let ?p = "dset ''approved_at'' (JTime (ad_decided_at d))
     (dset ''approved_by'' (JStr (ad_decided_by d)) (dset ''approval_status'' (JStr ''approved'')
       (dupdate (go_payload x) (case ad_correction_payload d of None \<Rightarrow> [] | Some p \<Rightarrow> p))))"
  from assms(2,3) obtain e where e: "val_edge sc ?p = Inr e"
    "y = x\<lparr>go_payload := edge_dump e, go_schema_version := ''v1''\<rparr>"
    by (auto simp: modified_operation_def Let_def rbind_Inr_iff)
  have "te_approval_status e = AS_Approved"
    using edge_contract.validate_approved [OF assms(1) e(1)] by simp
  moreover have "te_approved_by e = Some (ad_decided_by d)"
    using edge_contract.validate_approver [OF assms(1) e(1)] by simp
  ultimately show ?thesis
    using that [of e] e assms(3) edge_contract.validate_ok [OF assms(1) e(1)] by simp
qed

lemma modified_delta_edges:
  assumes "edge_contract (val_edge sc)" and "deltas_accountable sc tr s"
    and "modified_delta sc s item d = Inr delta" and "accepts item d" and "ad_action d = DA_Modify"
  shows "\<forall>x\<in>set (gd_operations delta). \<exists>e. go_operation x = Create_Edge \<and> go_payload x = edge_dump e
           \<and> accountable (Decided item d # tr) e"
proof
  fix y assume y: "y \<in> set (gd_operations delta)"
  from assms(3) obtain original ops where o: "original \<in> set (dvals (sv_deltas s))"
    "rmap (modified_operation sc d) (gd_operations original) = Inr ops" "gd_operations delta = ops"
    by (auto simp: modified_delta_def Let_def rbind_Inr_iff simp del: set_map
        split: option.splits dest: dget_in_vals)
  with y obtain x where x: "x \<in> set (gd_operations original)" "modified_operation sc d x = Inr y"
    using rmap_ok by metis
  with assms(2) o have "go_operation x = Create_Edge" unfolding deltas_accountable_def by blast
  from modified_operation_edge [OF assms(1) x(2) this] obtain e
    where "go_operation y = Create_Edge" "go_payload y = edge_dump e" "edge_full_ok e"
      "te_approval_status e = AS_Approved" "te_approved_by e = Some (ad_decided_by d)" .
  moreover from this assms(4,5) have "accountable (Decided item d # tr) e"
    by (auto simp: accountable_def)
  ultimately show "\<exists>e. go_operation y = Create_Edge \<and> go_payload y = edge_dump e
       \<and> accountable (Decided item d # tr) e" by blast
qed

lemma decide_deltas:
  assumes "dget (sv_items s) (ad_approval_id d) = Some item"
    and "delta \<in> set (dvals (sv_deltas (fst (fst (decide ap sc h now d s g)))))"
  shows "delta \<in> set (dvals (sv_deltas s))
    \<or> accepts item d \<and> ad_action d = DA_Modify \<and> modified_delta sc s item d = Inr delta"
proof (cases "accepts item d")
  case False
  with assms show ?thesis by (auto simp: decide_def accepts_def Let_def split: if_splits)
next
  case True
  with assms have "sv_deltas (fst (fst (decide ap sc h now d s g)))
      = sv_deltas (fst (fst (commit_decision ap sc item d s g)))"
    by (auto simp: decide_def accepts_def Let_def split: prod.splits sum.splits)
  with assms True commit_decision_deltas [of delta ap sc item d s g] show ?thesis by metis
qed

lemma run_invariant:
  assumes "approval_run sc h tr st" and "edge_contract (val_edge sc)"
  shows "dict_by ap_approval_id (sv_items (fst st)) \<and> deltas_accountable sc tr (fst st) \<and>
    (\<forall>e\<in>set (approved_edges (snd st)). accountable tr e \<and>
       (\<exists>item d. Decided item d \<in> set tr \<and> accepts item d \<and> commits item d))"
  using assms(1)
proof (induction rule: approval_run.induct)
  case run_empty
  then show ?case
    by (simp add: empty_service_def empty_graph_def deltas_accountable_def approved_edges_def)
next
  case (run_stage tr s g es now p run st)
  have "deltas_accountable sc (Staged es # tr) (fst (stage_edges h now p run st es s))"
    unfolding deltas_accountable_def
  proof
    fix delta assume "delta \<in> set (dvals (sv_deltas (fst (stage_edges h now p run st es s))))"
    from stage_edges_deltas [OF this]
    show "\<forall>x\<in>set (gd_operations delta). \<exists>e. go_operation x = Create_Edge
        \<and> go_payload x = edge_dump e \<and> accountable (Staged es # tr) e"
      using deltas_accountable_mono [of sc tr s "Staged es"] run_stage
        edge_delta_accountable [of _ es p run st tr]
      by (auto simp: deltas_accountable_def simp del: set_map)
  qed
  with run_stage show ?case by (auto intro: accountable_mono stage_edges_wf simp del: set_map)
next
  case (run_nodes tr s g ns)
  then show ?case
    by (auto simp: approved_edges_def simp del: set_map intro: accountable_mono deltas_accountable_mono)
next
  case (run_decide tr s g d item now)
  let ?r = "fst (decide (apply_delta sc) sc h now d s g)"
  have IH: "dict_by ap_approval_id (sv_items s)" "deltas_accountable sc tr s"
    and edges: "\<And>e. e \<in> set (approved_edges g) \<Longrightarrow> accountable tr e \<and>
       (\<exists>item d. Decided item d \<in> set tr \<and> accepts item d \<and> commits item d)"
    using run_decide.IH by auto
  have ds: "deltas_accountable sc (Decided item d # tr) (fst ?r)"
    unfolding deltas_accountable_def
    using decide_deltas [OF run_decide.hyps(2), of _ "apply_delta sc" sc h now g]
      modified_delta_edges [OF assms(2) IH(2)]
      deltas_accountable_mono [OF IH(2), of "Decided item d", unfolded deltas_accountable_def]
    by blast
  have edges': "accountable (Decided item d # tr) e \<and> (\<exists>item' d'. Decided item' d' \<in> set (Decided item d # tr)
      \<and> accepts item' d' \<and> commits item' d')" if e: "e \<in> set (approved_edges (snd ?r))" for e
  proof (cases "e \<in> set (approved_edges g)")
    case True
    from edges [OF this] show ?thesis using accountable_mono by (metis list.set_intros(2))
  next
    case False
    from memory.decide_edges [OF e this] run_decide.hyps(2)
    have acc: "accepts item d"
      and "e \<in> set (approved_edges (snd (fst (commit_decision (apply_delta sc) sc item d s g))))"
      by auto
    with False obtain delta where delta: "commit_delta sc s item d delta" "e \<in> delta_edges sc delta"
      using memory.commit_decision_edges by blast
    have "accountable (Decided item d # tr) e"
    proof -
      consider "delta \<in> set (dvals (sv_deltas s))"
        | "ad_action d = DA_Modify" "modified_delta sc s item d = Inr delta"
        using delta(1) by (auto simp: commit_delta_def)
      then show ?thesis
      proof cases
        case 1
        then show ?thesis
          using delta_edges_accountable [OF assms(2) IH(2) _ delta(2)] by (blast intro: accountable_mono)
      next
        case 2
        from delta(2) obtain x where x: "x \<in> set (gd_operations delta)" "val_edge sc (go_payload x) = Inr e"
          by (auto simp: delta_edges_def)
        with modified_delta_edges [OF assms(2) IH(2) 2(2) acc 2(1)] obtain e'
          where "go_payload x = edge_dump e'" "accountable (Decided item d # tr) e'" by blast
        with x(2) edge_contract.validate_dump [OF assms(2)] show ?thesis
          by (auto simp: accountable_def)
      qed
    qed
    with acc delta(1) show ?thesis by (auto simp: commit_delta_def)
  qed
  show ?case
    by (intro conjI ballI) (rule decide_items_wf [OF IH(1)], rule ds, (drule edges', blast)+)
qed

section \<open>Properties\<close>



text \<open>The status and version an item has after a decision that returns.\<close>

definition decided_status :: "bool \<Rightarrow> decision_action \<Rightarrow> item_status" where
  "decided_status has_delta a = (case a of DA_Approve \<Rightarrow> if has_delta then IT_Approved else IT_Modified_Approved
     | DA_Reject \<Rightarrow> IT_Rejected | DA_Hold \<Rightarrow> IT_Held | DA_Modify \<Rightarrow> IT_Modified_Approved)"

definition approval_spec :: "approval_decision \<Rightarrow> approval_item \<Rightarrow> item_status \<times> int" where
  "approval_spec d item =
     (if ap_status item \<noteq> IT_Pending then (ap_status item, ap_version item)
      else if is_stale_decision item d then (IT_Stale, ap_version item + 1)
      else (decided_status (has_ref (ap_graph_delta_ref item)) (ad_action d), ap_version item + 1))"

lemma commit_decision_status:
  "snd (commit_decision ap sc item d s g) = Inr status \<Longrightarrow>
     status = decided_status (has_ref (ap_graph_delta_ref item)) (ad_action d)"
  by (cases "ad_action d")
    (auto simp: commit_decision_def decided_status_def Let_def
      split: if_splits option.splits prod.splits sum.splits)

lemma commit_decision_statusD:
  "commit_decision ap sc item d s g = ((a, b), Inr status) \<Longrightarrow>
     status = decided_status (has_ref (ap_graph_delta_ref item)) (ad_action d)"
  by (rule commit_decision_status [of ap sc item d s g]) simp

lemma parse_action_for: "\<exists>a. parse_action (feedback_action_for status) = Inr a"
proof -
  have "\<exists>a. feedback_action_for status = feedback_action_str a"
    by (cases status)
      (auto simp: feedback_action_for_def feedback_action_str_def intro: exI [of _ FA_Approved]
        exI [of _ FA_Modified] exI [of _ FA_Commented] exI [of _ FA_Rejected])
  then show ?thesis by (auto simp: parse_action_def)
qed

text \<open>
  Property C5. \<open>decide\<close> implements the status automaton of an approval item: when it returns, the
  item's status and version are those of \<open>approval_spec\<close>, the version moves by at most one, and
  every other item of the queue is untouched.
\<close>

theorem decide_refines_spec:
  assumes "dget (sv_items s) (ad_approval_id d) = Some item" and "ap_approval_id item = ad_approval_id d"
    and "decide (apply_delta sc) sc h now d s g = ((s', g'), Inr r)"
  shows "(ap_status r, ap_version r) = approval_spec d item
    \<and> dget (sv_items s') (ad_approval_id d) = Some r
    \<and> (\<forall>k. k \<noteq> ad_approval_id d \<longrightarrow> dget (sv_items s') k = dget (sv_items s) k)"
  using assms
  by (auto simp: decide_def approval_spec_def Let_def
      split: if_splits prod.splits sum.splits
      dest: commit_decision_itemsD commit_decision_statusD)

text \<open>
  A decision that is stale, or that comes for an item that is no longer pending, reaches
  neither the graph nor the stored deltas nor the feedback, on every backend state.
\<close>

theorem refused_decision_no_effect:
  assumes "dget (sv_items s) (ad_approval_id d) = Some item" and "\<not> accepts item d"
  shows "\<exists>s' r. decide (apply_delta sc) sc h now d s g = ((s', g), Inr r)
     \<and> sv_deltas s' = sv_deltas s \<and> sv_feedback s' = sv_feedback s
     \<and> ap_status r \<notin> {IT_Pending, IT_Approved, IT_Modified_Approved} - {ap_status item}"
  using assms by (auto simp: decide_def accepts_def Let_def)

lemma approve_staged:
  assumes "edge_contract (val_edge sc)" and "edge_full_ok e"
    and "stage_edges h t0 p run st [e] empty_service = (s, [item])"
    and "ad_approval_id d = ap_approval_id item" and "ad_action d = DA_Approve"
    and "ad_expected_version d = None" and "ad_expected_proposal_hash d = None"
    and "ad_reason_code d = None" and "gr_idempotency_keys g = {}"
  shows "\<exists>s' f. decide (apply_delta sc) sc h now d s g =
      ((s', g\<lparr>gr_edges := dset (te_edge_id e) (system_approved e) (gr_edges g),
              gr_idempotency_keys := {ad_approval_id d @ '':1''}\<rparr>),
       Inr (item\<lparr>ap_status := IT_Approved, ap_version := 2, ap_updated_at := now\<rparr>))
    \<and> sv_feedback s' = [f] \<and> fb_action f = FA_Approved \<and> fb_target_id f = te_edge_id e
    \<and> fb_user_id f = ad_decided_by d"
proof -
  have item: "item = edge_approval h t0 p run st e"
    and s: "s = \<lparr>sv_items = [(ap_approval_id item, item)],
                 sv_deltas = [(''delta_'' @ te_edge_id e, edge_delta p run st e)], sv_feedback = []\<rparr>"
    using assms(3) by (auto simp: stage_edges_def stage_edge_def Let_def empty_service_def edge_delta_def)
  have val: "val_edge sc (edge_dump (system_approved e)) = Inr (system_approved e)"
    using edge_contract.validate_dump [OF assms(1) system_approved_ok [OF assms(2)]] .
  have one: "str_int 1 = ''1''" by code_simp
  have key: "apply_delta sc g (edge_delta p run st e) (ad_approval_id d @ '':1'')
      = (g\<lparr>gr_edges := dset (te_edge_id e) (system_approved e) (gr_edges g),
           gr_idempotency_keys := {ad_approval_id d @ '':1''}\<rparr>, Inr ())"
    using apply_delta_ok [of "edge_delta p run st e" _ sc "system_approved e" "ad_approval_id d @ '':1''" g]
      val assms(9) by (simp add: edge_delta_def system_approved_def)
  have act: "parse_action ''approved'' = Inr FA_Approved" by code_simp
  show ?thesis
    using assms(4-8) key act one
    by (simp add: decide_def s item edge_approval_def Let_def is_stale_decision_def commit_decision_def
        has_ref_def opt_str_or_def str_or_def decision_feedback_def feedback_action_for_def
        parse_reason_def)
qed

text \<open>
  Approving a freshly staged edge brings exactly that edge into the graph, under its own
  id and with the system's approval, sets the item to \<open>approved\<close> at version 2, and records one
  feedback event in the reviewer's name.
\<close>

theorem approve_staged_edge:
  assumes "edge_contract (val_edge sc)" and "edge_full_ok e"
    and "stage_edges h t0 p run st [e] empty_service = (s, [item])"
    and "ad_approval_id d = ap_approval_id item" and "ad_action d = DA_Approve"
    and "ad_expected_version d = None" and "ad_expected_proposal_hash d = None"
    and "ad_reason_code d = None" and "gr_idempotency_keys g = {}"
  shows "\<exists>s' f. decide (apply_delta sc) sc h now d s g =
      ((s', g\<lparr>gr_edges := dset (te_edge_id e) (system_approved e) (gr_edges g),
              gr_idempotency_keys := {ad_approval_id d @ '':1''}\<rparr>),
       Inr (item\<lparr>ap_status := IT_Approved, ap_version := 2, ap_updated_at := now\<rparr>))
    \<and> sv_feedback s' = [f] \<and> fb_action f = FA_Approved \<and> fb_target_id f = te_edge_id e
    \<and> fb_user_id f = ad_decided_by d"
  using assms by (rule approve_staged)

text \<open>
  A decision whose reason code is not in the taxonomy is answered with a validation
  error after its effects: the item is already approved and the edge already in the graph, and no
  feedback event is recorded.
\<close>

theorem invalid_reason_after_commit:
  assumes "dget (sv_items s) (ad_approval_id d) = Some item" and "ap_approval_id item = ad_approval_id d"
    and "accepts item d" and "commit_decision (apply_delta sc) sc item d s g = ((s1, g1), Inr status)"
    and "ad_reason_code d = Some c" and "reason_of (normalize_reason_code c) = None"
  shows "\<exists>s'. decide (apply_delta sc) sc h now d s g = ((s', g1), Inl (ValidationError ''reason_code''))
     \<and> sv_feedback s' = sv_feedback s
     \<and> dget (sv_items s') (ad_approval_id d)
         = Some (item\<lparr>ap_status := status, ap_version := ap_version item + 1, ap_updated_at := now\<rparr>)"
proof -
  have "decision_feedback h now item d status = Inl (ValidationError ''reason_code'')"
    using assms(5,6) parse_action_for [of status] by (auto simp: decision_feedback_def parse_reason_def)
  with assms(1-4) commit_decision_itemsD [OF assms(4)] show ?thesis
    by (simp add: decide_def accepts_def Let_def)
qed

section \<open>Instances\<close>

definition demo_decision :: "decision_action \<Rightarrow> string option \<Rightarrow> approval_decision" where
  "demo_decision a c = \<lparr>ad_approval_id = ''apv_abc'', ad_action = a, ad_decided_by = ''rev'',
     ad_expected_version = None, ad_expected_proposal_hash = None, ad_decided_at = 5,
     ad_correction_payload = None, ad_reason_code = c, ad_schema_version = ''v1''\<rparr>"

definition demo_e :: traceability_edge where
  "demo_e = demo_edge ''e1'' ''n1'' ''n2'' Satisfies"

definition demo_item :: approval_item where
  "demo_item = edge_approval demo_host 0 ''P'' ''run'' ''step'' demo_e"

definition demo_service :: approval_service where
  "demo_service = fst (stage_edges demo_host 0 ''P'' ''run'' ''step'' [demo_e] empty_service)"

lemma demo_stage:
  "stage_edges demo_host 0 ''P'' ''run'' ''step'' [demo_e] empty_service = (demo_service, [demo_item])"
  by (simp add: demo_service_def demo_item_def prod_eq_iff stage_edges_approvals)

lemma demo_get: "dget (sv_items demo_service) ''apv_abc'' = Some demo_item"
  by (simp add: demo_service_def demo_item_def stage_edges_def stage_edge_def Let_def empty_service_def
      edge_approval_def stable_hash_def demo_host_def)

lemma demo_e_ok: "edge_full_ok demo_e"
  by (simp add: demo_e_def demo_edge_ok)

lemma demo_item_simps:
  "ap_approval_id demo_item = ''apv_abc''" "ap_status demo_item = IT_Pending" "ap_version demo_item = 1"
  by (simp_all add: demo_item_def edge_approval_def stable_hash_def demo_host_def Let_def)

lemma demo_accepts: "accepts demo_item (demo_decision a c)"
  by (simp add: accepts_def is_stale_decision_def demo_item_simps demo_decision_def)

lemma demo_decision_simps [simp]:
  "ad_approval_id (demo_decision a c) = ''apv_abc''" "ad_action (demo_decision a c) = a"
  "ad_reason_code (demo_decision a c) = c" "ad_expected_version (demo_decision a c) = None"
  "ad_expected_proposal_hash (demo_decision a c) = None" "ad_decided_by (demo_decision a c) = ''rev''"
  by (simp_all add: demo_decision_def)

lemma demo_approve:
  "\<exists>s' f. decide (apply_delta demo_schema) demo_schema demo_host 7 (demo_decision DA_Approve None)
      demo_service empty_graph =
      ((s', empty_graph\<lparr>gr_edges := dset (te_edge_id demo_e) (system_approved demo_e) [],
              gr_idempotency_keys := {''apv_abc:1''}\<rparr>),
       Inr (demo_item\<lparr>ap_status := IT_Approved, ap_version := 2, ap_updated_at := 7\<rparr>))
    \<and> sv_feedback s' = [f]"
  using approve_staged [OF demo_schema_contract demo_e_ok demo_stage, of "demo_decision DA_Approve None"
      empty_graph 7]
  by (simp add: demo_item_simps empty_graph_def) blast

lemma demo_run:
  "\<exists>s g. approval_run demo_schema demo_host
      [Decided demo_item (demo_decision DA_Approve None), Staged [demo_e]] (s, g)
    \<and> system_approved demo_e \<in> set (approved_edges g)"
proof -
  have "approval_run demo_schema demo_host [Staged [demo_e]]
      (fst (stage_edges demo_host 0 ''P'' ''run'' ''step'' [demo_e] empty_service), empty_graph)"
    by (rule run_stage [OF run_empty]) (simp add: demo_e_ok)
  then have "approval_run demo_schema demo_host [Staged [demo_e]] (demo_service, empty_graph)"
    by (simp add: demo_stage)
  from run_decide [OF this, of "demo_decision DA_Approve None" demo_item 7] demo_approve demo_get
  show ?thesis by (fastforce simp: approved_edges_def)
qed



lemma decide_refines_spec_witness:
  "approval_spec (demo_decision DA_Approve None) demo_item = (IT_Approved, 2)"
proof -
  obtain s' g' where *: "decide (apply_delta demo_schema) demo_schema demo_host 7
      (demo_decision DA_Approve None) demo_service empty_graph
     = ((s', g'), Inr (demo_item\<lparr>ap_status := IT_Approved, ap_version := 2, ap_updated_at := 7\<rparr>))"
    using demo_approve by blast
  show ?thesis
    using decide_refines_spec [OF _ _ *, of demo_item] demo_get by (simp add: demo_item_simps)
qed

lemma refused_decision_no_effect_witness:
  "\<exists>s' r. decide (apply_delta demo_schema) demo_schema demo_host 7
      (demo_decision DA_Approve None\<lparr>ad_expected_version := Some 2\<rparr>) demo_service empty_graph
     = ((s', empty_graph), Inr r)"
proof -
  have "\<not> accepts demo_item (demo_decision DA_Approve None\<lparr>ad_expected_version := Some 2\<rparr>)"
    by (simp add: accepts_def is_stale_decision_def demo_item_simps)
  with refused_decision_no_effect [of demo_service "demo_decision DA_Approve None\<lparr>ad_expected_version := Some 2\<rparr>"
      demo_item] demo_get
  show ?thesis by fastforce
qed

lemma approve_staged_edge_witness:
  "\<exists>(s'::approval_service) f. sv_feedback s' = [f] \<and> fb_action f = FA_Approved \<and> fb_target_id f = te_edge_id demo_e"
  using approve_staged_edge [OF demo_schema_contract demo_e_ok demo_stage, of "demo_decision DA_Approve None"
      empty_graph 7]
  by (simp add: demo_item_simps empty_graph_def) (elim exE conjE, intro exI conjI, assumption+)

lemma bad_reason: "reason_of (normalize_reason_code ''no reason'') = None"
  by code_simp

lemma invalid_reason_after_commit_witness:
  "\<exists>s'. decide (apply_delta demo_schema) demo_schema demo_host 7 (demo_decision DA_Hold (Some ''no reason''))
      demo_service empty_graph = ((s', empty_graph), Inl (ValidationError ''reason_code''))"
proof -
  have "commit_decision (apply_delta demo_schema) demo_schema demo_item
      (demo_decision DA_Hold (Some ''no reason'')) demo_service empty_graph
     = ((demo_service, empty_graph), Inr IT_Held)"
    by (simp add: commit_decision_def)
  from invalid_reason_after_commit [OF _ _ demo_accepts this _ bad_reason] demo_get
  show ?thesis by (fastforce simp: demo_item_simps)
qed

end
