(* ===== verification/Sources.thy ===== *)
theory Sources
  imports Ontology
begin

text \<open>
  \<open>adapters/base.py\<close>, \<open>adapters/retry.py\<close> and the paging and filtering of
  \<open>adapters/export_file.py\<close>: the source contracts, the bounded retry loop around a transport, and
  the page computation of the export adapters. The transport and the loaded export file are
  arguments.
\<close>

section \<open>Contracts\<close>

record source_scope =
  sc_project_key :: string
  sc_scenario :: string
  sc_limit :: int

record sync_cursor =
  cu_offset :: int
  cu_content_hash :: "string option"

definition cursor_dump :: "sync_cursor \<Rightarrow> jobj" where
  "cursor_dump c = [(''offset'', JInt (cu_offset c)), (''content_hash'', jopt (cu_content_hash c))]"

definition cursor_opt_json :: "sync_cursor option \<Rightarrow> json" where
  "cursor_opt_json c = (case c of None \<Rightarrow> JNull | Some c' \<Rightarrow> JObj (cursor_dump c'))"

record source_sync_cursor_state =
  cs_cursor_id :: string
  cs_source_type :: source_type
  cs_project_key :: string
  cs_scenario :: string
  cs_run_id :: string
  cs_stage_name :: string
  cs_initial_cursor :: "sync_cursor option"
  cs_completed_cursor :: "sync_cursor option"
  cs_next_cursor :: "sync_cursor option"
  cs_artifact_count :: int
  cs_page_count :: int
  cs_content_hash :: string
  cs_source_warnings :: "string list"
  cs_partial_failure :: bool
  cs_updated_at :: time
  cs_schema_version :: string

definition source_sync_cursor_id :: "source_type \<Rightarrow> string \<Rightarrow> string \<Rightarrow> string" where
  "source_sync_cursor_id source_type project_key scenario =
     ''src_cursor_'' @ source_type_str source_type @ ''_'' @ project_key @ ''_'' @ scenario"

record raw_source_artifact =
  ra_external_id :: string
  ra_source_type :: source_type
  ra_source_url :: string
  ra_project_key :: string
  ra_title :: string
  ra_body_text :: string
  ra_author_id :: "string option"
  ra_created_at :: string
  ra_updated_at :: string
  ra_labels :: "string list"
  ra_links :: "string list"
  ra_parent_id :: "string option"
  ra_child_ids :: "string list"
  ra_metadata :: jobj
  ra_access_scope :: "string list"
  ra_data_classification :: data_classification

definition raw_dump :: "raw_source_artifact \<Rightarrow> jobj" where
  "raw_dump r = [
     (''external_id'', JStr (ra_external_id r)),
     (''source_type'', JStr (source_type_str (ra_source_type r))),
     (''source_url'', JStr (ra_source_url r)),
     (''project_key'', JStr (ra_project_key r)),
     (''title'', JStr (ra_title r)),
     (''body_text'', JStr (ra_body_text r)),
     (''author_id'', jopt (ra_author_id r)),
     (''created_at'', JStr (ra_created_at r)),
     (''updated_at'', JStr (ra_updated_at r)),
     (''labels'', jstrs (ra_labels r)),
     (''links'', jstrs (ra_links r)),
     (''parent_id'', jopt (ra_parent_id r)),
     (''child_ids'', jstrs (ra_child_ids r)),
     (''metadata'', JObj (ra_metadata r)),
     (''access_scope'', jstrs (ra_access_scope r)),
     (''data_classification'', JStr (data_classification_str (ra_data_classification r)))]"

record source_fetch_result =
  fr_artifacts :: "raw_source_artifact list"
  fr_next_cursor :: "sync_cursor option"
  fr_initial_cursor :: "sync_cursor option"
  fr_completed_cursor :: "sync_cursor option"
  fr_page_count :: int
  fr_source_warnings :: "string list"
  fr_partial_failure :: bool

definition fetch_dump :: "source_fetch_result \<Rightarrow> jobj" where
  "fetch_dump f = [
     (''artifacts'', JList (map (\<lambda>r. JObj (raw_dump r)) (fr_artifacts f))),
     (''next_cursor'', cursor_opt_json (fr_next_cursor f)),
     (''initial_cursor'', cursor_opt_json (fr_initial_cursor f)),
     (''completed_cursor'', cursor_opt_json (fr_completed_cursor f)),
     (''page_count'', JInt (fr_page_count f)),
     (''source_warnings'', jstrs (fr_source_warnings f)),
     (''partial_failure'', JBool (fr_partial_failure f))]"

definition raws_hash :: "host \<Rightarrow> raw_source_artifact list \<Rightarrow> string" where
  \<comment> \<open>\<open>stable_hash\<close> of a list of raw artifacts\<close>
  "raws_hash h rs = stable_hash h (JList (map (\<lambda>r. JObj (raw_dump r)) rs))"

section \<open>Request errors\<close>

record source_request_error =
  re_status_code :: "int option"
  re_retry_after_seconds :: "rat option"
  re_code :: string

definition status_label :: "source_request_error \<Rightarrow> string" where
  "status_label e = (case re_status_code e of Some c \<Rightarrow> str_int c | None \<Rightarrow> re_code e)"

definition is_permission_denied :: "source_request_error \<Rightarrow> bool" where
  "is_permission_denied e = (re_status_code e \<in> {Some 401, Some 403})"

definition is_retryable :: "source_request_error \<Rightarrow> bool" where
  "is_retryable e =
     (if re_status_code e \<in> {Some 408, Some 409, Some 425, Some 429} then True
      else if (case re_status_code e of None \<Rightarrow> False | Some c \<Rightarrow> 500 \<le> c \<and> c \<le> 599) then True
      else re_code e \<in> {''network_error'', ''timeout''})"

section \<open>The retry loop\<close>

text \<open>
  One call of the transport returns a response, raises \<open>OSError\<close>, raises a
  \<open>SourceAdapterRequestError\<close>, or raises something else, which the loop does not catch. The
  transport is a function of the number of calls made before, so that it may answer differently each
  time. The result carries the delays that were slept, in order, and the number of calls made.
\<close>

datatype 'r request_outcome = Response 'r | OSErr | ReqErr source_request_error | OtherErr py_error

definition os_request_error :: source_request_error where
  "os_request_error = \<lparr>re_status_code = None, re_retry_after_seconds = None,
     re_code = ''network_error''\<rparr>"

definition backoff_delay :: "int \<Rightarrow> rat option \<Rightarrow> rat" where
  "backoff_delay retry_count retry_after =
     (case retry_after of Some d \<Rightarrow> d
      | None \<Rightarrow> min ((1 / 4) * 2 ^ nat (max (retry_count - 1) 0)) 2)"

record 'r retry_result =
  rr_response :: "'r option"
  rr_warnings :: "string list"
  rr_calls :: nat
  rr_delays :: "rat list"

definition sleep_before_retry :: "bool \<Rightarrow> int \<Rightarrow> rat option \<Rightarrow> rat list \<Rightarrow> rat list" where
  \<comment> \<open>\<open>_sleep_before_retry\<close>: the delay is appended to the trace of sleeps, unless no sleep
     function was given\<close>
  "sleep_before_retry has_sleep retry_count retry_after delays =
     (if \<not> has_sleep then delays else delays @ [backoff_delay retry_count retry_after])"

definition retry_warning :: "string \<Rightarrow> source_request_error \<Rightarrow> int \<Rightarrow> string" where
  "retry_warning src e n =
     src @ ''_request_retry:'' @ status_label e @ '':attempt_'' @ str_int n"

definition exhausted_warning :: "string \<Rightarrow> source_request_error \<Rightarrow> string" where
  "exhausted_warning src e = src @ ''_request_failed_after_retries:'' @ status_label e"

function retry_loop :: "string \<Rightarrow> int \<Rightarrow> bool \<Rightarrow> (nat \<Rightarrow> 'r request_outcome) \<Rightarrow> int \<Rightarrow> nat \<Rightarrow>
    string list \<Rightarrow> rat list \<Rightarrow> 'r retry_result result" where
  "retry_loop src max_retries has_sleep transport retry_count calls warnings delays =
     (case transport calls of
        Response r \<Rightarrow> Inr \<lparr>rr_response = Some r, rr_warnings = warnings, rr_calls = Suc calls,
                         rr_delays = delays\<rparr>
      | OtherErr e \<Rightarrow> Inl e
      | OSErr \<Rightarrow>
          (if retry_count \<ge> max_retries
           then Inr \<lparr>rr_response = None,
                     rr_warnings = warnings @ [exhausted_warning src os_request_error],
                     rr_calls = Suc calls, rr_delays = delays\<rparr>
           else retry_loop src max_retries has_sleep transport (retry_count + 1) (Suc calls)
                  (warnings @ [retry_warning src os_request_error (retry_count + 1)])
                  (sleep_before_retry has_sleep (retry_count + 1)
                     (re_retry_after_seconds os_request_error) delays))
      | ReqErr e \<Rightarrow>
          (if is_permission_denied e
           then Inr \<lparr>rr_response = None,
                     rr_warnings = [src @ ''_permission_denied:'' @ status_label e],
                     rr_calls = Suc calls, rr_delays = delays\<rparr>
           else if \<not> is_retryable e
           then Inr \<lparr>rr_response = None,
                     rr_warnings = [src @ ''_request_failed:'' @ status_label e],
                     rr_calls = Suc calls, rr_delays = delays\<rparr>
           else if retry_count \<ge> max_retries
           then Inr \<lparr>rr_response = None,
                     rr_warnings = warnings @ [exhausted_warning src e],
                     rr_calls = Suc calls, rr_delays = delays\<rparr>
           else retry_loop src max_retries has_sleep transport (retry_count + 1) (Suc calls)
                  (warnings @ [retry_warning src e (retry_count + 1)])
                  (sleep_before_retry has_sleep (retry_count + 1) (re_retry_after_seconds e) delays)))"
  by pat_completeness auto
termination
  by (relation "measure (\<lambda>(src, max_retries, has_sleep, transport, retry_count, calls, warnings, delays).
        nat (max_retries - retry_count))") auto

declare retry_loop.simps [simp del]

definition request_with_retry :: "string \<Rightarrow> int \<Rightarrow> bool \<Rightarrow> (nat \<Rightarrow> 'r request_outcome) \<Rightarrow>
    'r retry_result result" where
  "request_with_retry src max_retries has_sleep transport =
     retry_loop src max_retries has_sleep transport 0 0 [] []"

text \<open>Every warning of a successful run was a retry: one per call that failed before it.\<close>

lemma retry_loop_bounds:
  assumes "retry_loop src m sl tr rc calls ws ds = Inr res" and "int calls = rc"
    and "length ws = calls" and "length ds \<le> calls"
  shows "calls < rr_calls res \<and> int (rr_calls res) \<le> max m rc + 1
    \<and> length (rr_delays res) < rr_calls res
    \<and> (rr_response res \<noteq> None \<longrightarrow> Suc (length (rr_warnings res)) = rr_calls res
         \<and> tr (rr_calls res - 1) = Response (the (rr_response res)))"
  using assms
proof (induction src m sl tr rc calls ws ds rule: retry_loop.induct)
  case (1 src m sl tr rc calls ws ds)
  note unfold = retry_loop.simps [of src m sl tr rc calls]
  have len: "length (sleep_before_retry sl n a ds) \<le> Suc calls" for n a
    using "1.prems"(4) by (simp add: sleep_before_retry_def)
  show ?case
  proof (cases "tr calls")
    case (Response r)
    with "1.prems" show ?thesis by (auto simp: unfold)
  next
    case (OtherErr e)
    with "1.prems" show ?thesis by (auto simp: unfold)
  next
    case OSErr
    show ?thesis
    proof (cases "rc \<ge> m")
      case True
      with OSErr "1.prems" show ?thesis by (auto simp: unfold)
    next
      case False
      with OSErr "1.prems" "1.IH"(1) [OF OSErr False] len show ?thesis
        by (auto simp: unfold)
    qed
  next
    case (ReqErr e)
    show ?thesis
    proof (cases "is_permission_denied e \<or> \<not> is_retryable e \<or> rc \<ge> m")
      case True
      with ReqErr "1.prems" show ?thesis by (auto simp: unfold split: if_splits)
    next
      case False
      then have c: "\<not> is_permission_denied e" "\<not> \<not> is_retryable e" "\<not> rc \<ge> m" by simp_all
      with ReqErr "1.prems" "1.IH"(2) [OF ReqErr c] len show ?thesis
        by (auto simp: unfold)
    qed
  qed
qed

lemma backoff_delay_le: "backoff_delay n None \<le> 2"
  by (simp add: backoff_delay_def)

lemma backoff_delay_pos: "0 < backoff_delay n None"
  by (simp add: backoff_delay_def min_def)

lemma retry_loop_delays:
  assumes "\<And>n e d. tr n = ReqErr e \<Longrightarrow> re_retry_after_seconds e = Some d \<Longrightarrow> 0 \<le> d \<and> d \<le> b"
    and "retry_loop src m sl tr rc calls ws ds = Inr res" and "2 \<le> b"
    and "\<forall>d\<in>set ds. 0 \<le> d \<and> d \<le> b"
  shows "\<forall>d\<in>set (rr_delays res). 0 \<le> d \<and> d \<le> b"
  using assms
proof (induction src m sl tr rc calls ws ds rule: retry_loop.induct)
  case (1 src m sl tr rc calls ws ds)
  note unfold = retry_loop.simps [of src m sl tr rc calls]
  have bd: "0 \<le> backoff_delay n None \<and> backoff_delay n None \<le> b" for n
    using backoff_delay_le [of n] backoff_delay_pos [of n] \<open>2 \<le> b\<close> by linarith
  have sleep: "\<forall>d\<in>set (sleep_before_retry sl n a ds). 0 \<le> d \<and> d \<le> b"
    if "\<And>d. a = Some d \<Longrightarrow> 0 \<le> d \<and> d \<le> b" for n a
    using that "1.prems"(4) bd [of n]
    by (cases a) (auto simp: sleep_before_retry_def backoff_delay_def)
  show ?case
  proof (cases "tr calls")
    case (Response r)
    with "1.prems" show ?thesis by (auto simp: unfold)
  next
    case (OtherErr e)
    with "1.prems" show ?thesis by (auto simp: unfold)
  next
    case OSErr
    show ?thesis
    proof (cases "rc \<ge> m")
      case True
      with OSErr "1.prems" show ?thesis by (auto simp: unfold)
    next
      case False
      with "1.prems"(2) OSErr show ?thesis
        by (intro "1.IH"(1) [OF OSErr False "1.prems"(1) _ "1.prems"(3) sleep])
          (auto simp: unfold os_request_error_def)
    qed
  next
    case (ReqErr e)
    show ?thesis
    proof (cases "is_permission_denied e \<or> \<not> is_retryable e \<or> rc \<ge> m")
      case True
      with ReqErr "1.prems" show ?thesis by (auto simp: unfold split: if_splits)
    next
      case False
      then have c: "\<not> is_permission_denied e" "\<not> \<not> is_retryable e" "\<not> rc \<ge> m" by simp_all
      with "1.prems"(1,2) ReqErr show ?thesis
        by (intro "1.IH"(2) [OF ReqErr c "1.prems"(1) _ "1.prems"(3) sleep]) (auto simp: unfold)
    qed
  qed
qed

end
