(* ===== verification/Ingestion.thy ===== *)
theory Ingestion
  imports Samples Sources
begin

text \<open>
  \<open>ingestion/normalization.py\<close>, \<open>evidence/spans.py\<close> and \<open>ingestion/chunking.py\<close>: a raw artifact
  becomes a source artifact, an evidence span and a list of chunks. \<open>datetime.fromisoformat\<close> is an
  argument (\<open>parse_iso\<close>).
\<close>

section \<open>Normalisation and evidence\<close>

definition raw_content_hash :: "host \<Rightarrow> raw_source_artifact \<Rightarrow> string" where
  "raw_content_hash h raw = stable_hash h (JObj [
     (''external_id'', JStr (ra_external_id raw)), (''title'', JStr (ra_title raw)),
     (''body_text'', JStr (ra_body_text raw)), (''updated_at'', JStr (ra_updated_at raw))])"

definition normalize_raw_artifact :: "host \<Rightarrow> (string \<Rightarrow> time result) \<Rightarrow> time \<Rightarrow> raw_source_artifact \<Rightarrow>
    source_artifact result" where
  "normalize_raw_artifact h parse_iso now raw =
     rbind (parse_iso (ra_created_at raw)) (\<lambda>created.
     rbind (parse_iso (ra_updated_at raw)) (\<lambda>updated.
     mk_source_artifact
       \<lparr>sa_artifact_id = ''src_'' @ source_type_str (ra_source_type raw) @ ''_''
          @ hash_prefix h 12 (JStr (ra_external_id raw)),
        sa_source_type = ra_source_type raw, sa_source_url = ra_source_url raw,
        sa_external_id = ra_external_id raw, sa_project_key = ra_project_key raw,
        sa_title = ra_title raw,
        sa_body_text_ref = ''artifact://source/'' @ ra_external_id raw @ ''/body'',
        sa_author_id = ra_author_id raw, sa_created_at = created, sa_updated_at = updated,
        sa_ingested_at = now, sa_content_hash = raw_content_hash h raw,
        sa_access_scope = ra_access_scope raw,
        sa_data_classification = ra_data_classification raw, sa_schema_version = ''v1''\<rparr>))"

definition build_artifact_evidence :: "host \<Rightarrow> string \<Rightarrow> raw_source_artifact \<Rightarrow> evidence_span result" where
  "build_artifact_evidence h artifact_id raw =
     (let preview = str_or (take 500 (ra_body_text raw)) (ra_title raw)
      in mk_evidence
        \<lparr>ev_artifact_id = artifact_id, ev_source_url = ra_source_url raw,
         ev_quote_hash = stable_hash h (JObj [(''external_id'', JStr (ra_external_id raw)),
           (''preview'', JStr preview)]),
         ev_preview = preview, ev_start_offset = Some 0,
         ev_end_offset = Some (int (length preview)), ev_section_path = None,
         ev_table_cell_ref = None, ev_schema_version = ''v1''\<rparr>)"

lemma build_artifact_evidence_ok: "build_artifact_evidence h i raw = Inr e \<Longrightarrow> evidence_ok e"
  by (auto simp: build_artifact_evidence_def mk_evidence_def Let_def split: if_splits)

lemma build_artifact_evidence_body:
  \<comment> \<open>a raw artifact with a body always has evidence, and its preview is the head of the body\<close>
  assumes "ra_body_text raw \<noteq> []"
  shows "\<exists>e. build_artifact_evidence h i raw = Inr e \<and> ev_preview e = take 500 (ra_body_text raw)
           \<and> ev_end_offset e = Some (int (min 500 (length (ra_body_text raw))))"
  using assms
  by (cases "ra_body_text raw")
    (auto simp: build_artifact_evidence_def mk_evidence_def evidence_ok_def str_or_def Let_def)

section \<open>Chunking\<close>

fun windows :: "nat \<Rightarrow> nat \<Rightarrow> string \<Rightarrow> (nat \<times> nat \<times> string) list" where
  \<comment> \<open>the loop \<open>for index, start in enumerate(range(0, len(body), m))\<close> with \<open>body[start:start + m]\<close>,
    for a positive \<open>m\<close>: index, start and slice\<close>
  "windows m i body =
     (if body = [] \<or> m = 0 then []
      else (i, i * m, take m body) # windows m (Suc i) (drop m body))"

declare windows.simps [simp del]

definition chunk_of :: "host \<Rightarrow> source_artifact \<Rightarrow> evidence_span \<Rightarrow> nat \<times> nat \<times> string \<Rightarrow> artifact_chunk" where
  "chunk_of h artifact evidence w =
     (case w of (index, start, piece) \<Rightarrow>
       (let chunk_text = py_strip piece;
            chunk_evidence = evidence\<lparr>
              ev_preview := take 500 chunk_text,
              ev_start_offset := Some (int start),
              ev_end_offset := Some (int (start + length chunk_text)),
              ev_quote_hash := stable_hash h (JObj [
                (''artifact_id'', JStr (sa_artifact_id artifact)), (''text'', JStr chunk_text)])\<rparr>
        in \<lparr>ck_chunk_id = ''chk_'' @ sa_artifact_id artifact @ ''_'' @ str_nat index,
            ck_artifact_id = sa_artifact_id artifact, ck_project_key = sa_project_key artifact,
            ck_text = chunk_text, ck_index = int index, ck_evidence = chunk_evidence,
            ck_content_hash = stable_hash h (JStr chunk_text), ck_metadata = [],
            ck_schema_version = ''v1''\<rparr>))"

definition chunk_artifact :: "host \<Rightarrow> source_artifact \<Rightarrow> string \<Rightarrow> evidence_span \<Rightarrow> nat \<Rightarrow>
    artifact_chunk list result" where
  "chunk_artifact h artifact body evidence max_chars =
     (if max_chars = 0 then Inl (ValueError ''range() arg 3 must not be zero'')
      else rmap mk_artifact_chunk (map (chunk_of h artifact evidence)
             (filter (\<lambda>w. py_strip (snd (snd w)) \<noteq> []) (windows max_chars 0 body))))"

subsection \<open>Windows\<close>

lemma windows_concat: "0 < m \<Longrightarrow> concat (map (\<lambda>w. snd (snd w)) (windows m i body)) = body"
proof (induction m i body rule: windows.induct)
  case (1 m i body)
  then show ?case by (subst windows.simps) simp
qed

lemma in_windows:
  "w \<in> set (windows m i body) \<Longrightarrow> body \<noteq> [] \<and> m \<noteq> 0 \<and>
     (w = (i, i * m, take m body) \<or> w \<in> set (windows m (Suc i) (drop m body)))"
  by (subst (asm) windows.simps) (auto split: if_splits)

lemma windows_length: "w \<in> set (windows m i body) \<Longrightarrow> length (snd (snd w)) \<le> m"
proof (induction m i body rule: windows.induct)
  case (1 m i body)
  from in_windows [OF "1.prems"] "1.IH" show ?case by auto
qed

lemma windows_index: "w \<in> set (windows m i body) \<Longrightarrow> i \<le> fst w \<and> fst (snd w) = fst w * m"
proof (induction m i body rule: windows.induct)
  case (1 m i body)
  from in_windows [OF "1.prems"] "1.IH" show ?case by auto
qed

lemma windows_sorted: "sorted_wrt (<) (map fst (windows m i body))"
proof (induction m i body rule: windows.induct)
  case (1 m i body)
  show ?case
    by (subst windows.simps) (auto simp: 1 Suc_le_eq dest!: windows_index)
qed

lemma windows_slice:
  "w \<in> set (windows m i body) \<Longrightarrow>
     snd (snd w) = slice (fst w * m - i * m) (fst w * m - i * m + m) body"
proof (induction m i body rule: windows.induct)
  case (1 m i body)
  show ?case
  proof (cases "body = [] \<or> m = 0")
    case True
    with "1.prems" show ?thesis by (subst (asm) windows.simps) auto
  next
    case False
    with "1.prems" consider "w = (i, i * m, take m body)" | "w \<in> set (windows m (Suc i) (drop m body))"
      by (subst (asm) windows.simps) auto
    then show ?thesis
    proof cases
      case 1
      then show ?thesis by (simp add: slice_def)
    next
      case 2
      have "m + (fst w * m - Suc i * m) = fst w * m - i * m"
      proof -
        have "Suc i * m \<le> fst w * m" using windows_index [OF 2] by (intro mult_le_mono) auto
        then show ?thesis by simp
      qed
      with "1.IH" [OF False 2] show ?thesis by (simp add: slice_def add.commute)
    qed
  qed
qed

subsection \<open>Chunks\<close>

definition solid :: "string \<Rightarrow> string" where
  \<comment> \<open>the characters of a text that are no white space\<close>
  "solid s = filter (\<lambda>c. \<not> is_space_char c) s"

lemma solid_append [simp]: "solid (a @ b) = solid a @ solid b"
  by (simp add: solid_def)

lemma solid_rev: "solid (rev s) = rev (solid s)"
  by (simp add: solid_def rev_filter)

lemma solid_dropWhile: "solid (dropWhile is_space_char s) = solid s"
  by (induction s) (auto simp: solid_def)

lemma solid_strip: "solid (py_strip s) = solid s"
  by (simp add: py_strip_def solid_rev solid_dropWhile)

lemma mk_chunk_all:
  assumes "\<forall>w\<in>set ws. py_strip (snd (snd w)) \<noteq> []"
  shows "rmap mk_artifact_chunk (map (chunk_of h a e) ws) = Inr (map (chunk_of h a e) ws)"
proof -
  have "mk_artifact_chunk (chunk_of h a e w) = Inr (chunk_of h a e w)" if "w \<in> set ws" for w
    using assms that
    by (cases w) (auto simp: mk_artifact_chunk_def artifact_chunk_ok_def chunk_of_def Let_def Suc_le_eq)
  then have "rmap mk_artifact_chunk (map (\<lambda>x. x) (map (chunk_of h a e) ws)) = Inr (map (chunk_of h a e) ws)"
    by (intro rmap_map) auto
  then show ?thesis by simp
qed

lemma chunk_artifact_eq:
  assumes "0 < m"
  shows "chunk_artifact h a body e m = Inr (map (chunk_of h a e)
           (filter (\<lambda>w. py_strip (snd (snd w)) \<noteq> []) (windows m 0 body)))"
  using assms by (simp add: chunk_artifact_def mk_chunk_all)

lemma chunk_of_simps [simp]:
  "ck_text (chunk_of h a e w) = py_strip (snd (snd w))"
  "ck_index (chunk_of h a e w) = int (fst w)"
  "ck_chunk_id (chunk_of h a e w) = ''chk_'' @ sa_artifact_id a @ ''_'' @ str_nat (fst w)"
  by (simp_all add: chunk_of_def Let_def split: prod.splits)

lemma sublist_py_strip: "sublist (py_strip s) s"
proof -
  have "suffix (dropWhile P xs) xs" for P and xs :: string by (rule suffix_dropWhile)
  then have "suffix (rev (dropWhile is_space_char (rev (dropWhile is_space_char s)))) (rev (rev (dropWhile is_space_char s)))
      \<or> sublist (py_strip s) (dropWhile is_space_char s)"
    unfolding py_strip_def by (metis sublist_rev suffix_imp_sublist rev_rev_ident)
  then have "sublist (py_strip s) (dropWhile is_space_char s)"
    unfolding py_strip_def by (auto intro: suffix_imp_sublist)
  then show ?thesis
    using suffix_imp_sublist [OF suffix_dropWhile] sublist_order.order_trans by blast
qed

lemma windows_sublist: "w \<in> set (windows m i body) \<Longrightarrow> sublist (snd (snd w)) body"
proof (induction m i body rule: windows.induct)
  case (1 m i body)
  from in_windows [OF "1.prems"] consider "w = (i, i * m, take m body)"
    | "w \<in> set (windows m (Suc i) (drop m body))" "body \<noteq> []" "m \<noteq> 0" by auto
  then show ?case
  proof cases
    case 2
    then have "sublist (snd (snd w)) (drop m body)" using "1.IH" by auto
    then show ?thesis using sublist_drop sublist_order.order_trans by blast
  qed simp
qed

lemma chunk_text_sublist:
  assumes "chunk_artifact h a body e m = Inr cs" and "c \<in> set cs"
  shows "sublist (ck_text c) body"
proof -
  have "0 < m" using assms(1) by (cases "m = 0") (simp_all add: chunk_artifact_def)
  with assms obtain w where "w \<in> set (windows m 0 body)" "ck_text c = py_strip (snd (snd w))"
    by (auto simp: chunk_artifact_eq)
  then show ?thesis using sublist_py_strip windows_sublist sublist_order.order_trans by metis
qed

lemma chunks_cover_aux:
  "solid (concat (map (\<lambda>w. py_strip (snd (snd w))) (filter (\<lambda>w. py_strip (snd (snd w)) \<noteq> []) ws)))
     = solid (concat (map (\<lambda>w. snd (snd w)) ws))"
proof (induction ws)
  case Nil
  then show ?case by simp
next
  case (Cons w ws)
  have "solid (snd (snd w)) = []" if "py_strip (snd (snd w)) = []"
    using solid_strip [of "snd (snd w)"] that by (simp add: solid_def)
  with Cons show ?case by (simp add: solid_strip)
qed

text \<open>
  Chunking loses no text: for every chunk size that is not zero the call succeeds, the
  chunks, read in order, contain exactly the characters of the text that are no white space, no chunk
  is empty or longer than the size, their indices increase, and so their ids are distinct.
\<close>

theorem chunk_artifact_covers:
  assumes "0 < m"
  shows "\<exists>cs. chunk_artifact h a body e m = Inr cs
     \<and> solid (concat (map ck_text cs)) = solid body
     \<and> (\<forall>c\<in>set cs. ck_text c \<noteq> [] \<and> length (ck_text c) \<le> m)
     \<and> sorted_wrt (<) (map ck_index cs) \<and> distinct (map ck_chunk_id cs)"
proof -
  let ?ws = "filter (\<lambda>w. py_strip (snd (snd w)) \<noteq> []) (windows m 0 body)"
  let ?cs = "map (chunk_of h a e) ?ws"
  have "solid (concat (map ck_text ?cs)) = solid body"
    using chunks_cover_aux [of "windows m 0 body"] windows_concat [OF assms, of 0 body]
    by (simp add: comp_def)
  moreover have "length (py_strip (snd (snd w))) \<le> m" if "w \<in> set ?ws" for w
    using windows_length [of w m 0 body] length_py_strip [of "snd (snd w)"] that by simp
  moreover have srt: "sorted_wrt (<) (map fst ?ws)"
    using windows_sorted [of m 0 body] by (simp add: sorted_wrt_map sorted_wrt_filter)
  then have "sorted_wrt (<) (map ck_index ?cs)"
    by (simp add: sorted_wrt_map comp_def)
  moreover have "distinct (map ck_chunk_id ?cs)"
  proof -
    have "distinct (map fst ?ws)" using srt by (simp only: strict_sorted_iff)
    then show ?thesis by (auto simp: comp_def distinct_map inj_on_def)
  qed
  ultimately show ?thesis using chunk_artifact_eq [OF assms, of h a body e] by (intro exI [of _ ?cs]) auto
qed

lemma py_strip_take: "\<exists>k. py_strip s = take k (dropWhile is_space_char s)"
  by (metis dropWhile_eq_drop py_strip_def rev_drop rev_rev_ident)

lemma hd_py_strip: "py_strip s \<noteq> [] \<Longrightarrow> \<not> is_space_char (hd (py_strip s))"
proof -
  assume ne: "py_strip s \<noteq> []"
  obtain k where k: "py_strip s = take k (dropWhile is_space_char s)" using py_strip_take by blast
  with ne have "dropWhile is_space_char s \<noteq> []" and "0 < k" by (cases k; auto)+
  with k show ?thesis by (simp add: hd_dropWhile)
qed

lemma take_py_strip:
  assumes "py_strip p \<noteq> []"
  shows "take (length (py_strip p)) p = py_strip p \<longleftrightarrow> \<not> is_space_char (hd p)"
proof
  assume eq: "take (length (py_strip p)) p = py_strip p"
  with assms have "hd p = hd (py_strip p)" by (metis hd_take length_greater_0_conv)
  with hd_py_strip [OF assms] show "\<not> is_space_char (hd p)" by simp
next
  assume "\<not> is_space_char (hd p)"
  then have "dropWhile is_space_char p = p" by (cases p) auto
  then obtain k where "py_strip p = take k p" using py_strip_take [of p] by auto
  then show "take (length (py_strip p)) p = py_strip p"
    by (metis append_eq_conv_conj append_take_drop_id)
qed

text \<open>
  The offsets of a chunk's evidence cut the chunk's text out of the source text exactly
  when the window it came from does not begin with white space: the start offset is the start of
  the window, while the text was stripped on both sides.
\<close>

theorem chunk_offsets:
  assumes "0 < m" and "chunk_artifact h a body e m = Inr cs" and "c \<in> set cs"
  shows "\<exists>start. ev_start_offset (ck_evidence c) = Some (int start)
     \<and> ev_end_offset (ck_evidence c) = Some (int (start + length (ck_text c)))
     \<and> ck_text c = py_strip (slice start (start + m) body)
     \<and> (slice start (start + length (ck_text c)) body = ck_text c
          \<longleftrightarrow> \<not> is_space_char (hd (slice start (start + m) body)))"
proof -
  from assms obtain w where w: "w \<in> set (windows m 0 body)" "c = chunk_of h a e w"
      "py_strip (snd (snd w)) \<noteq> []"
    by (auto simp: chunk_artifact_eq)
  obtain i st p where w3: "w = (i, st, p)" by (cases w) auto
  have st: "st = i * m" using windows_index [OF w(1)] w3 by simp
  have p: "p = slice st (st + m) body" using windows_slice [OF w(1)] w3 st by simp
  have "length (py_strip p) \<le> m" using length_py_strip [of p] length_slice_le [of st "st + m" body] p by simp
  then have "slice st (st + length (py_strip p)) body = take (length (py_strip p)) p"
    by (simp add: p slice_def)
  with take_py_strip [of p] w(3) w3
  have "slice st (st + length (py_strip p)) body = py_strip p \<longleftrightarrow> \<not> is_space_char (hd p)" by simp
  with p w w3 show ?thesis by (intro exI [of _ st]) (simp add: chunk_of_def Let_def)
qed

section \<open>Instances\<close>

definition demo_artifact :: source_artifact where
  "demo_artifact = \<lparr>sa_artifact_id = ''a1'', sa_source_type = Jira, sa_source_url = ''u'',
     sa_external_id = ''X-1'', sa_project_key = ''P'', sa_title = ''t'', sa_body_text_ref = ''r'',
     sa_author_id = None, sa_created_at = 0, sa_updated_at = 0, sa_ingested_at = 0,
     sa_content_hash = ''c'', sa_access_scope = [], sa_data_classification = Restricted,
     sa_schema_version = ''v1''\<rparr>"

lemma chunk_artifact_covers_witness:
  "\<exists>cs. chunk_artifact demo_host demo_artifact ''ab c'' demo_evidence 2 = Inr cs
     \<and> solid (concat (map ck_text cs)) = ''abc''"
  using chunk_artifact_covers [of 2 demo_host demo_artifact "''ab c''" demo_evidence]
  by (auto simp: solid_def is_space_char_def cp_def Let_def)

lemma chunk_offsets_witness:
  "let c = chunk_of demo_host demo_artifact demo_evidence (1, 2, '' c'') in
     chunk_artifact demo_host demo_artifact ''ab c'' demo_evidence 2
       = Inr [chunk_of demo_host demo_artifact demo_evidence (0, 0, ''ab''), c]
     \<and> ck_text c = ''c'' \<and> (\<exists>start. ev_start_offset (ck_evidence c) = Some (int start)
         \<and> slice start (start + 1) ''ab c'' \<noteq> ''c'')"
proof -
  let ?c = "chunk_of demo_host demo_artifact demo_evidence (1, 2, '' c'')"
  have strip: "py_strip '' c'' = ''c''" "py_strip ''ab'' = ''ab''"
    by (simp_all add: py_strip_def is_space_char_def cp_def)
  have win: "windows 2 0 ''ab c'' = [(0, 0, ''ab''), (1, 2, '' c'')]"
    by (simp add: windows.simps)
  have eq: "chunk_artifact demo_host demo_artifact ''ab c'' demo_evidence 2
       = Inr [chunk_of demo_host demo_artifact demo_evidence (0, 0, ''ab''), ?c]"
    by (simp add: chunk_artifact_eq win strip)
  then obtain st where "ev_start_offset (ck_evidence ?c) = Some (int st)"
      and "slice st (st + 1) ''ab c'' = ''c'' \<longleftrightarrow> \<not> is_space_char (hd (slice st (st + 2) ''ab c''))"
    using chunk_offsets [OF _ eq, of ?c] by (auto simp: strip)
  moreover have "st = 2" using calculation(1) by (simp add: chunk_of_def Let_def)
  ultimately have "slice st (st + 1) ''ab c'' \<noteq> ''c''" by (simp add: slice_def is_space_char_def cp_def)
  with eq \<open>ev_start_offset (ck_evidence ?c) = Some (int st)\<close> show ?thesis
    by (auto simp: Let_def strip)
qed

end
