(* ===== verification/Debug.thy ===== *)
theory Debug
  imports Approvals Ingestion
begin

text \<open>
  \<open>debug/models.py\<close>, \<open>debug/traces.py\<close>, \<open>debug/diff.py\<close> and the metadata of \<open>debug/replay.py\<close>: the
  contracts of runs and steps, the trace repository, and the object-level diff of two analyses.
\<close>

section \<open>Contracts\<close>

datatype run_type = RT_Ingestion | RT_Analysis | RT_Approval_Commit | RT_Eval | RT_Replay | RT_Improvement
datatype trigger_source = TS_Manual | TS_Schedule | TS_Api | TS_System
datatype run_status = RS_Queued | RS_Running | RS_Succeeded | RS_Failed | RS_Cancelled | RS_Partial
datatype step_status = SS_Running | SS_Succeeded | SS_Failed | SS_Skipped
datatype validation_status = VS_Not_Applicable | VS_Passed | VS_Failed | VS_Repaired

definition run_type_str :: "run_type \<Rightarrow> string" where
  "run_type_str t = (case t of RT_Ingestion \<Rightarrow> ''ingestion'' | RT_Analysis \<Rightarrow> ''analysis''
     | RT_Approval_Commit \<Rightarrow> ''approval_commit'' | RT_Eval \<Rightarrow> ''eval'' | RT_Replay \<Rightarrow> ''replay''
     | RT_Improvement \<Rightarrow> ''improvement'')"

definition run_status_str :: "run_status \<Rightarrow> string" where
  "run_status_str s = (case s of RS_Queued \<Rightarrow> ''queued'' | RS_Running \<Rightarrow> ''running''
     | RS_Succeeded \<Rightarrow> ''succeeded'' | RS_Failed \<Rightarrow> ''failed'' | RS_Cancelled \<Rightarrow> ''cancelled''
     | RS_Partial \<Rightarrow> ''partial'')"

record agent_run =
  rn_run_id :: string
  rn_run_type :: run_type
  rn_project_key :: string
  rn_triggered_by :: string
  rn_trigger_source :: trigger_source
  rn_status :: run_status
  rn_model_profile_id :: "string option"
  rn_prompt_version_ids :: "string list"
  rn_input_snapshot_ids :: "string list"
  rn_started_at :: time
  rn_completed_at :: "time option"
  rn_failure_code :: "string option"
  rn_failure_message :: "string option"

record agent_step_trace =
  sp_step_id :: string
  sp_run_id :: string
  sp_stage_name :: string
  sp_status :: step_status
  sp_input_hash :: string
  sp_output_hash :: "string option"
  sp_output_ref :: "string option"
  sp_retrieval_context_ref :: "string option"
  sp_validation_status :: validation_status
  sp_validation_result :: jobj
  sp_started_at :: time
  sp_completed_at :: "time option"
  sp_retry_count :: int
  sp_error_class :: "string option"
  sp_error_message :: "string option"

record llm_call_trace =
  lt_llm_call_id :: string
  lt_run_id :: string
  lt_step_id :: string
  lt_model_profile_id :: string
  lt_prompt_version_id :: string
  lt_request_hash :: string
  lt_response_hash :: "string option"
  lt_masked_payload_ref :: string
  lt_raw_response_ref :: "string option"
  lt_parsed_output_ref :: "string option"
  lt_input_tokens :: "int option"
  lt_output_tokens :: "int option"
  lt_cost_usd :: "rat option"
  lt_latency_ms :: int
  lt_validation_status :: validation_status
  lt_retry_count :: int
  lt_error_message :: "string option"

definition nonneg_opt :: "int option \<Rightarrow> bool" where
  "nonneg_opt x = (case x of None \<Rightarrow> True | Some i \<Rightarrow> 0 \<le> i)"

definition llm_call_trace_ok :: "llm_call_trace \<Rightarrow> bool" where
  "llm_call_trace_ok t = (nonneg_opt (lt_input_tokens t) \<and> nonneg_opt (lt_output_tokens t)
     \<and> (case lt_cost_usd t of None \<Rightarrow> True | Some c \<Rightarrow> 0 \<le> c) \<and> 0 \<le> lt_latency_ms t \<and> 0 \<le> lt_retry_count t)"

section \<open>The trace repository\<close>

record trace_repository =
  tr_runs :: "(string, agent_run) dict"
  tr_steps :: "(string, agent_step_trace) dict"
  tr_llm_calls :: "(string, llm_call_trace) dict"

definition empty_traces :: trace_repository where
  "empty_traces = \<lparr>tr_runs = [], tr_steps = [], tr_llm_calls = []\<rparr>"

definition create_run :: "time \<Rightarrow> string \<Rightarrow> run_type \<Rightarrow> string \<Rightarrow> string \<Rightarrow> trigger_source \<Rightarrow>
    trace_repository \<Rightarrow> trace_repository \<times> agent_run" where
  "create_run now run_id rt project_key triggered_by src tr =
     (let run = \<lparr>rn_run_id = run_id, rn_run_type = rt, rn_project_key = project_key,
            rn_triggered_by = triggered_by, rn_trigger_source = src, rn_status = RS_Queued,
            rn_model_profile_id = None, rn_prompt_version_ids = [], rn_input_snapshot_ids = [],
            rn_started_at = now, rn_completed_at = None, rn_failure_code = None,
            rn_failure_message = None\<rparr>
      in (tr\<lparr>tr_runs := dset run_id run (tr_runs tr)\<rparr>, run))"

definition mark_run_running :: "string \<Rightarrow> trace_repository \<Rightarrow> trace_repository \<times> agent_run result" where
  "mark_run_running run_id tr =
     (case dget (tr_runs tr) run_id of
        None \<Rightarrow> (tr, Inl (KeyError run_id))
      | Some r \<Rightarrow> (let run = r\<lparr>rn_status := RS_Running\<rparr>
                  in (tr\<lparr>tr_runs := dset run_id run (tr_runs tr)\<rparr>, Inr run)))"

definition complete_run :: "time \<Rightarrow> string \<Rightarrow> run_status \<Rightarrow> string option \<Rightarrow> string option \<Rightarrow>
    trace_repository \<Rightarrow> trace_repository \<times> agent_run result" where
  "complete_run now run_id status failure_code failure_message tr =
     (case dget (tr_runs tr) run_id of
        None \<Rightarrow> (tr, Inl (KeyError run_id))
      | Some r \<Rightarrow> (let run = r\<lparr>rn_status := status, rn_completed_at := Some now,
                        rn_failure_code := failure_code, rn_failure_message := failure_message\<rparr>
                  in (tr\<lparr>tr_runs := dset run_id run (tr_runs tr)\<rparr>, Inr run)))"

definition start_step :: "host \<Rightarrow> time \<Rightarrow> string \<Rightarrow> string \<Rightarrow> string \<Rightarrow> json \<Rightarrow> string option \<Rightarrow> int \<Rightarrow>
    trace_repository \<Rightarrow> trace_repository \<times> agent_step_trace result" where
  "start_step h now step_id run_id stage_name input_payload retrieval_context_ref retry_count tr =
     (if retry_count < 0 then (tr, Inl (ValidationError ''retry_count''))
      else let step = \<lparr>sp_step_id = step_id, sp_run_id = run_id, sp_stage_name = stage_name,
            sp_status = SS_Running, sp_input_hash = stable_hash h input_payload, sp_output_hash = None,
            sp_output_ref = None, sp_retrieval_context_ref = retrieval_context_ref,
            sp_validation_status = VS_Not_Applicable, sp_validation_result = [], sp_started_at = now,
            sp_completed_at = None, sp_retry_count = retry_count, sp_error_class = None,
            sp_error_message = None\<rparr>
      in (tr\<lparr>tr_steps := dset step_id step (tr_steps tr)\<rparr>, Inr step))"

definition finish_step :: "host \<Rightarrow> time \<Rightarrow> string \<Rightarrow> json \<Rightarrow> string option \<Rightarrow> string option \<Rightarrow>
    validation_status \<Rightarrow> jobj option \<Rightarrow> trace_repository \<Rightarrow> trace_repository \<times> agent_step_trace result" where
  "finish_step h now step_id output_payload output_ref retrieval_context_ref vstatus vresult tr =
     (case dget (tr_steps tr) step_id of
        None \<Rightarrow> (tr, Inl (KeyError step_id))
      | Some current \<Rightarrow>
          (let updated = current\<lparr>sp_status := SS_Succeeded,
                 sp_output_hash := Some (stable_hash h output_payload), sp_output_ref := output_ref,
                 sp_retrieval_context_ref := (if retrieval_context_ref \<noteq> None then retrieval_context_ref
                   else sp_retrieval_context_ref current),
                 sp_validation_status := vstatus,
                 sp_validation_result := (case vresult of None \<Rightarrow> [] | Some v \<Rightarrow> v),
                 sp_completed_at := Some now\<rparr>
           in (tr\<lparr>tr_steps := dset step_id updated (tr_steps tr)\<rparr>, Inr updated)))"

definition fail_step :: "host \<Rightarrow> time \<Rightarrow> string \<Rightarrow> string \<Rightarrow> string \<Rightarrow> json option \<Rightarrow> string option \<Rightarrow>
    validation_status \<Rightarrow> jobj option \<Rightarrow> trace_repository \<Rightarrow> trace_repository \<times> agent_step_trace result" where
  "fail_step h now step_id error_class error_message output_payload output_ref vstatus vresult tr =
     (case dget (tr_steps tr) step_id of
        None \<Rightarrow> (tr, Inl (KeyError step_id))
      | Some current \<Rightarrow>
          (let failed = current\<lparr>sp_status := SS_Failed, sp_output_ref := output_ref,
                 sp_validation_status := vstatus,
                 sp_validation_result := (case vresult of None \<Rightarrow> [] | Some v \<Rightarrow> v),
                 sp_error_class := Some error_class, sp_error_message := Some error_message,
                 sp_completed_at := Some now\<rparr>;
               updated = (case output_payload of None \<Rightarrow> failed
                 | Some p \<Rightarrow> failed\<lparr>sp_output_hash := Some (stable_hash h p)\<rparr>)
           in (tr\<lparr>tr_steps := dset step_id updated (tr_steps tr)\<rparr>, Inr updated)))"

definition record_llm_call :: "llm_call_trace \<Rightarrow> trace_repository \<Rightarrow> trace_repository" where
  "record_llm_call t tr = tr\<lparr>tr_llm_calls := dset (lt_llm_call_id t) t (tr_llm_calls tr)\<rparr>"

definition list_steps :: "string \<Rightarrow> trace_repository \<Rightarrow> agent_step_trace list" where
  "list_steps run_id tr = filter (\<lambda>s. sp_run_id s = run_id) (dvals (tr_steps tr))"

definition step_wf :: "agent_step_trace \<Rightarrow> bool" where
  \<comment> \<open>a step is running exactly while it has no completion time, and a succeeded step has a hash\<close>
  "step_wf s = ((sp_status s = SS_Running \<longleftrightarrow> sp_completed_at s = None)
     \<and> (sp_status s = SS_Succeeded \<longrightarrow> sp_output_hash s \<noteq> None)
     \<and> (sp_status s = SS_Failed \<longrightarrow> sp_error_class s \<noteq> None) \<and> sp_status s \<noteq> SS_Skipped
     \<and> 0 \<le> sp_retry_count s)"

definition traces_wf :: "trace_repository \<Rightarrow> bool" where
  "traces_wf tr = (dict_by rn_run_id (tr_runs tr) \<and> dict_by sp_step_id (tr_steps tr)
     \<and> dict_by lt_llm_call_id (tr_llm_calls tr) \<and> (\<forall>s\<in>set (dvals (tr_steps tr)). step_wf s))"

datatype trace_op =
    Op_Create time string run_type string string trigger_source
  | Op_Running string
  | Op_Complete time string run_status "string option" "string option"
  | Op_Start time string string string json "string option" int
  | Op_Finish time string json "string option" "string option" validation_status "jobj option"
  | Op_Fail time string string string "json option" "string option" validation_status "jobj option"
  | Op_LLM llm_call_trace

fun trace_step :: "host \<Rightarrow> trace_op \<Rightarrow> trace_repository \<Rightarrow> trace_repository" where
  "trace_step h (Op_Create now i rt p b s) tr = fst (create_run now i rt p b s tr)"
| "trace_step h (Op_Running i) tr = fst (mark_run_running i tr)"
| "trace_step h (Op_Complete now i st c m) tr = fst (complete_run now i st c m tr)"
| "trace_step h (Op_Start now i r n p c k) tr = fst (start_step h now i r n p c k tr)"
| "trace_step h (Op_Finish now i p oref c vs vr) tr = fst (finish_step h now i p oref c vs vr tr)"
| "trace_step h (Op_Fail now i ec em p oref vs vr) tr = fst (fail_step h now i ec em p oref vs vr tr)"
| "trace_step h (Op_LLM t) tr = record_llm_call t tr"

lemma traces_wf_put_run:
  "traces_wf tr \<Longrightarrow> i = rn_run_id r \<Longrightarrow> traces_wf (tr\<lparr>tr_runs := dset i r (tr_runs tr)\<rparr>)"
  by (simp add: traces_wf_def dict_by_dset del: set_map)

lemma traces_wf_put_step:
  assumes "traces_wf tr" and "i = sp_step_id s" and "step_wf s"
  shows "traces_wf (tr\<lparr>tr_steps := dset i s (tr_steps tr)\<rparr>)"
proof -
  have "\<forall>x\<in>set (dvals (dset i s (tr_steps tr))). step_wf x"
    using assms in_dvals_dset unfolding traces_wf_def by fastforce
  with assms show ?thesis by (simp add: traces_wf_def dict_by_dset del: set_map)
qed

lemma traces_wf_put_call:
  "traces_wf tr \<Longrightarrow> i = lt_llm_call_id c \<Longrightarrow> traces_wf (tr\<lparr>tr_llm_calls := dset i c (tr_llm_calls tr)\<rparr>)"
  by (simp add: traces_wf_def dict_by_dset del: set_map)

lemma traces_wf_run: "traces_wf tr \<Longrightarrow> dget (tr_runs tr) i = Some r \<Longrightarrow> rn_run_id r = i"
  unfolding traces_wf_def using dict_by_get by metis

lemma traces_wf_get_step:
  assumes "traces_wf tr" and "dget (tr_steps tr) i = Some s"
  shows "sp_step_id s = i" and "0 \<le> sp_retry_count s"
proof -
  show "sp_step_id s = i" using assms dict_by_get unfolding traces_wf_def by metis
  have "step_wf s" using assms dget_in_vals unfolding traces_wf_def by metis
  then show "0 \<le> sp_retry_count s" by (simp add: step_wf_def)
qed

lemma traces_wf_step:
  assumes "traces_wf tr"
  shows "traces_wf (trace_step h x tr)"
proof (cases x)
  case (Op_Finish now i p oref c vs vr)
  then show ?thesis
    using assms traces_wf_get_step [OF assms]
    by (cases "dget (tr_steps tr) i")
      (simp_all add: finish_step_def Let_def traces_wf_put_step step_wf_def)
next
  case (Op_Fail now i ec em p oref vs vr)
  then show ?thesis
    using assms traces_wf_get_step [OF assms]
    by (cases "dget (tr_steps tr) i"; cases p)
      (simp_all add: fail_step_def Let_def traces_wf_put_step step_wf_def)
next
  case (Op_Running i)
  then show ?thesis
    using assms traces_wf_run [OF assms]
    by (cases "dget (tr_runs tr) i") (simp_all add: mark_run_running_def Let_def traces_wf_put_run)
next
  case (Op_Complete now i st c m)
  then show ?thesis
    using assms traces_wf_run [OF assms]
    by (cases "dget (tr_runs tr) i") (simp_all add: complete_run_def Let_def traces_wf_put_run)
qed (use assms in \<open>simp_all add: create_run_def start_step_def record_llm_call_def Let_def
      traces_wf_put_run traces_wf_put_step traces_wf_put_call step_wf_def\<close>)

text \<open>
  The trace repository stays well-formed under every sequence of its operations, whether
  they succeed or raise: entries stand under their own ids, a step is running exactly while it has no
  completion time, a succeeded step has an output hash, a failed one an error class.
\<close>

theorem traces_well_formed: "traces_wf (fold (trace_step h) ops empty_traces)"
proof -
  have "traces_wf tr \<Longrightarrow> traces_wf (fold (trace_step h) ops tr)" for tr
    by (induction ops arbitrary: tr) (simp_all add: traces_wf_step)
  moreover have "traces_wf empty_traces" by (simp add: traces_wf_def empty_traces_def)
  ultimately show ?thesis by blast
qed

section \<open>Diffs\<close>

record object_diff =
  od_added :: "string list"
  od_removed :: "string list"
  od_changed :: "string list"

text \<open>
  Two JSON dumps are equal as Python compares them: numbers by value (\<open>True == 1 == 1.0\<close>), and
  dictionaries whatever the order of their keys.
\<close>

fun norm_json :: "json \<Rightarrow> json" where
  "norm_json (JBool b) = JFloat (if b then 1 else 0)"
| "norm_json (JInt i) = JFloat (of_int i)"
| "norm_json (JList xs) = JList (map norm_json xs)"
| "norm_json (JObj kvs) = JObj (sort_key fst (map (\<lambda>kv. (fst kv, norm_json (snd kv))) kvs))"
| "norm_json v = v"

definition py_eq :: "jobj \<Rightarrow> jobj \<Rightarrow> bool" where
  "py_eq a b = (norm_json (JObj a) = norm_json (JObj b))"

lemma py_eq_perm:
  assumes "dict_ok a" and "mset a = mset b"
  shows "py_eq a b"
proof -
  let ?f = "\<lambda>kv. (fst kv, norm_json (snd kv))"
  have "distinct (map fst (map ?f a))" using assms(1) by (simp add: dict_ok_def comp_def)
  moreover have "mset (map ?f a) = mset (map ?f b)" using assms(2) by simp
  ultimately show ?thesis by (simp add: py_eq_def sort_key_fst_perm)
qed

definition changed_between :: "(string, jobj) dict \<Rightarrow> (string, jobj) dict \<Rightarrow> string \<Rightarrow> bool" where
  "changed_between before after i = (case (dget before i, dget after i) of
     (Some x, Some y) \<Rightarrow> \<not> py_eq x y | _ \<Rightarrow> False)"

definition diff_objects :: "(string, jobj) dict \<Rightarrow> (string, jobj) dict \<Rightarrow> object_diff" where
  "diff_objects before after =
     \<lparr>od_added = sort (filter (\<lambda>i. \<not> dhas before i) (dkeys after)),
      od_removed = sort (filter (\<lambda>i. \<not> dhas after i) (dkeys before)),
      od_changed = sort (filter (changed_between before after) (dkeys before))\<rparr>"

definition same_objects :: "(string, jobj) dict \<Rightarrow> (string, jobj) dict \<Rightarrow> bool" where
  "same_objects before after = list_all
     (\<lambda>i. case (dget before i, dget after i) of (Some x, Some y) \<Rightarrow> py_eq x y | _ \<Rightarrow> False)
     (dkeys before @ dkeys after)"

lemma in_dkeys: "j \<in> set (dkeys d) \<longleftrightarrow> dget d j \<noteq> None"
  by (metis dget_None_iff)

lemma in_diff_objects:
  "j \<in> set (od_added (diff_objects before after)) \<longleftrightarrow> dget before j = None \<and> dget after j \<noteq> None"
  "j \<in> set (od_removed (diff_objects before after)) \<longleftrightarrow> dget before j \<noteq> None \<and> dget after j = None"
  "j \<in> set (od_changed (diff_objects before after)) \<longleftrightarrow> changed_between before after j"
  unfolding diff_objects_def object_diff.simps set_sort set_filter mem_Collect_eq in_dkeys dhas_dget
  by (auto simp: changed_between_def split: option.splits)

lemma split_three:
  "((\<forall>x. (A x \<and> \<not> B x) = False) \<and> (\<forall>x. (\<not> A x \<and> B x) = False) \<and> (\<forall>x. C x = False))
     = (\<forall>x. A x = B x \<and> \<not> C x)"
  by blast

lemma diff_objects_empty_iff:
  "diff_objects before after = \<lparr>od_added = [], od_removed = [], od_changed = []\<rparr> \<longleftrightarrow> same_objects before after"
proof -
  have "diff_objects before after = \<lparr>od_added = [], od_removed = [], od_changed = []\<rparr> \<longleftrightarrow>
      set (od_added (diff_objects before after)) = {} \<and> set (od_removed (diff_objects before after)) = {}
      \<and> set (od_changed (diff_objects before after)) = {}"
    by (cases "diff_objects before after") simp
  also have "\<dots> \<longleftrightarrow> (\<forall>j. (dget before j = None \<longleftrightarrow> dget after j = None) \<and> \<not> changed_between before after j)"
    unfolding set_eq_iff in_diff_objects empty_iff by (intro split_three)
  also have "\<dots> \<longleftrightarrow> (\<forall>j. j \<in> set (dkeys before @ dkeys after) \<longrightarrow>
      (case (dget before j, dget after j) of (Some x, Some y) \<Rightarrow> py_eq x y | _ \<Rightarrow> False))"
    unfolding set_append Un_iff in_dkeys changed_between_def
    by (intro all_cong1) (auto split: option.splits)
  finally show ?thesis by (simp add: same_objects_def list_all_iff Ball_def)
qed

text \<open>
  A diff is exact: an id is added, removed or changed precisely when it is only after,
  only before, or in both with another content; each list is sorted and without duplicates, and all
  three are empty exactly when both sides have the same ids with equal contents.
\<close>

theorem diff_objects_exact:
  assumes "dict_ok before" and "dict_ok after"
  shows "(i \<in> set (od_added (diff_objects before after)) \<longleftrightarrow> dget before i = None \<and> dget after i \<noteq> None)
    \<and> (i \<in> set (od_removed (diff_objects before after)) \<longleftrightarrow> dget before i \<noteq> None \<and> dget after i = None)
    \<and> (i \<in> set (od_changed (diff_objects before after)) \<longleftrightarrow>
         (\<exists>x y. dget before i = Some x \<and> dget after i = Some y \<and> \<not> py_eq x y))
    \<and> sorted (od_added (diff_objects before after)) \<and> distinct (od_added (diff_objects before after))
    \<and> sorted (od_removed (diff_objects before after)) \<and> distinct (od_removed (diff_objects before after))
    \<and> sorted (od_changed (diff_objects before after)) \<and> distinct (od_changed (diff_objects before after))
    \<and> (diff_objects before after = \<lparr>od_added = [], od_removed = [], od_changed = []\<rparr> \<longleftrightarrow> same_objects before after)"
proof -
  have "changed_between before after i \<longleftrightarrow>
      (\<exists>x y. dget before i = Some x \<and> dget after i = Some y \<and> \<not> py_eq x y)"
    by (auto simp: changed_between_def split: option.splits)
  moreover have "sorted (od_added (diff_objects before after)) \<and> distinct (od_added (diff_objects before after))
    \<and> sorted (od_removed (diff_objects before after)) \<and> distinct (od_removed (diff_objects before after))
    \<and> sorted (od_changed (diff_objects before after)) \<and> distinct (od_changed (diff_objects before after))"
    using assms by (simp add: diff_objects_def dict_ok_def)
  ultimately show ?thesis
    unfolding in_diff_objects diff_objects_empty_iff by blast
qed

record replay_diff_report =
  rd_source_run_id :: string
  rd_replay_run_id :: string
  rd_node_diff :: object_diff
  rd_edge_diff :: object_diff
  rd_finding_diff :: object_diff
  rd_approval_diff :: object_diff

text \<open>The result of one analysis (\<open>AnalysisResult\<close> of \<open>workflows/analysis_graph.py\<close>).\<close>

record analysis_result =
  ar_run :: agent_run
  ar_steps :: "agent_step_trace list"
  ar_artifacts :: "source_artifact list"
  ar_chunks :: "artifact_chunk list"
  ar_nodes :: "ontology_node list"
  ar_candidate_edges :: "traceability_edge list"
  ar_findings :: "finding list"
  ar_approvals :: "approval_item list"
  ar_source_cursor :: source_sync_cursor_state

definition dumps_by :: "('a \<Rightarrow> string) \<Rightarrow> ('a \<Rightarrow> jobj) \<Rightarrow> 'a list \<Rightarrow> (string, jobj) dict" where
  "dumps_by key dump xs = dict_of (map (\<lambda>x. (key x, dump x)) xs)"

definition diff_analysis_results :: "string \<Rightarrow> string \<Rightarrow> analysis_result \<Rightarrow> analysis_result \<Rightarrow>
    replay_diff_report" where
  "diff_analysis_results source_run_id replay_run_id before after =
     \<lparr>rd_source_run_id = source_run_id, rd_replay_run_id = replay_run_id,
      rd_node_diff = diff_objects (dumps_by on_node_id node_dump (ar_nodes before))
        (dumps_by on_node_id node_dump (ar_nodes after)),
      rd_edge_diff = diff_objects (dumps_by te_edge_id edge_dump (ar_candidate_edges before))
        (dumps_by te_edge_id edge_dump (ar_candidate_edges after)),
      rd_finding_diff = diff_objects (dumps_by fd_finding_id finding_dump (ar_findings before))
        (dumps_by fd_finding_id finding_dump (ar_findings after)),
      rd_approval_diff = diff_objects (dumps_by ap_approval_id approval_dump (ar_approvals before))
        (dumps_by ap_approval_id approval_dump (ar_approvals after))\<rparr>"

section \<open>Replay\<close>

record replay_result =
  rr_source_run_id :: string
  rr_replay_run_id :: string
  rr_replay_mode :: string
  rr_compared_model_profile_ids :: "string list"
  rr_compared_prompt_version_ids :: "string list"
  rr_diff :: replay_diff_report

definition non_empty :: "string option \<Rightarrow> string option" where
  "non_empty v = (case v of None \<Rightarrow> None | Some s \<Rightarrow> if s = [] then None else Some s)"

definition unique_non_empty :: "string option list \<Rightarrow> string list" where
  "unique_non_empty values = fromkeys (List.map_filter non_empty values)"

lemma set_unique_non_empty: "set (unique_non_empty vs) = {s. Some s \<in> set vs \<and> s \<noteq> []}"
proof -
  have "set (List.map_filter non_empty xs) = {s. Some s \<in> set xs \<and> s \<noteq> []}" for xs
    by (induction xs) (auto simp: non_empty_def split: option.splits if_splits)
  then show ?thesis by (simp add: unique_non_empty_def)
qed

text \<open>
  The workflow run is an argument: it takes the state of the application and the run id, project
  and scenario of the replay. The stored analyses are a dictionary by run id.
\<close>

definition replay :: "('w \<Rightarrow> string \<Rightarrow> string \<Rightarrow> string \<Rightarrow> 'w \<times> analysis_result result) \<Rightarrow>
    'w \<times> (string, analysis_result) dict \<Rightarrow> string \<Rightarrow> string \<Rightarrow> string \<Rightarrow> string \<Rightarrow> string \<Rightarrow>
    ('w \<times> (string, analysis_result) dict) \<times> replay_result result" where
  "replay run st source_run_id replay_run_id project_key scenario replay_mode =
     (case dget (snd st) source_run_id of
        None \<Rightarrow> (st, Inl (KeyError source_run_id))
      | Some before \<Rightarrow>
          (case run (fst st) replay_run_id project_key scenario of
             (w, Inl e) \<Rightarrow> ((w, snd st), Inl e)
           | (w, Inr after) \<Rightarrow> ((w, dset replay_run_id after (snd st)),
               Inr \<lparr>rr_source_run_id = source_run_id, rr_replay_run_id = replay_run_id,
                 rr_replay_mode = replay_mode,
                 rr_compared_model_profile_ids =
                   unique_non_empty [rn_model_profile_id (ar_run before), rn_model_profile_id (ar_run after)],
                 rr_compared_prompt_version_ids =
                   unique_non_empty (map Some (rn_prompt_version_ids (ar_run before) @ rn_prompt_version_ids (ar_run after))),
                 rr_diff = diff_analysis_results source_run_id replay_run_id before after\<rparr>)))"

definition empty_diff :: object_diff where
  "empty_diff = \<lparr>od_added = [], od_removed = [], od_changed = []\<rparr>"

lemma diff_objects_refl: "diff_objects d d = empty_diff"
  unfolding empty_diff_def diff_objects_empty_iff same_objects_def
  by (auto simp: list_all_iff py_eq_def dict_simps split: option.splits)

text \<open>
  A replay whose workflow run reproduces the nodes, candidate edges, findings and
  approvals of the source run reports no difference at all; it stores the new analysis under the
  replay id and leaves every other stored analysis alone.
\<close>

theorem replay_reproduced:
  assumes "dget stored source_run_id = Some before"
    and "run w replay_run_id project_key scenario = (w', Inr after)"
    and "ar_nodes after = ar_nodes before" and "ar_candidate_edges after = ar_candidate_edges before"
    and "ar_findings after = ar_findings before" and "ar_approvals after = ar_approvals before"
  shows "\<exists>r. replay run (w, stored) source_run_id replay_run_id project_key scenario mode
       = ((w', dset replay_run_id after stored), Inr r)
    \<and> rd_node_diff (rr_diff r) = empty_diff \<and> rd_edge_diff (rr_diff r) = empty_diff
    \<and> rd_finding_diff (rr_diff r) = empty_diff \<and> rd_approval_diff (rr_diff r) = empty_diff
    \<and> set (rr_compared_prompt_version_ids r) =
        {p. p \<noteq> [] \<and> p \<in> set (rn_prompt_version_ids (ar_run before) @ rn_prompt_version_ids (ar_run after))}"
  using assms by (auto simp: replay_def diff_analysis_results_def diff_objects_refl set_unique_non_empty)

section \<open>Instances\<close>

lemma diff_objects_exact_witness:
  "''b'' \<in> set (od_added (diff_objects [(''a'', [])] [(''a'', [(''k'', JNull)]), (''b'', [])]))
   \<and> ''a'' \<in> set (od_changed (diff_objects [(''a'', [])] [(''a'', [(''k'', JNull)]), (''b'', [])]))"
  using diff_objects_exact [of "[(''a'', [])]" "[(''a'', [(''k'', JNull)]), (''b'', [])]" "''b''"]
    diff_objects_exact [of "[(''a'', [])]" "[(''a'', [(''k'', JNull)]), (''b'', [])]" "''a''"]
  by (simp add: dict_ok_def py_eq_def)

definition demo_analysis :: analysis_result where
  "demo_analysis = \<lparr>ar_run = snd (create_run 0 ''r1'' RT_Analysis ''P'' ''u'' TS_Manual empty_traces),
     ar_steps = [], ar_artifacts = [], ar_chunks = [], ar_nodes = [demo_node ''REQ-1'' Requirement],
     ar_candidate_edges = [], ar_findings = [], ar_approvals = [],
     ar_source_cursor = \<lparr>cs_cursor_id = ''c'', cs_source_type = Dummy, cs_project_key = ''P'',
       cs_scenario = ''s'', cs_run_id = ''r1'', cs_stage_name = ''fetch_sources'', cs_initial_cursor = None,
       cs_completed_cursor = None, cs_next_cursor = None, cs_artifact_count = 0, cs_page_count = 0,
       cs_content_hash = ''h'', cs_source_warnings = [], cs_partial_failure = False, cs_updated_at = 0, cs_schema_version = ''v1''\<rparr>\<rparr>"

lemma replay_reproduced_witness:
  "\<exists>r. replay (\<lambda>w i p s. (w, Inr demo_analysis)) ((), [(''r1'', demo_analysis)]) ''r1'' ''r2'' ''P'' ''s'' ''m''
       = (((), dset ''r2'' demo_analysis [(''r1'', demo_analysis)]), Inr r)
    \<and> rd_node_diff (rr_diff r) = empty_diff"
  using replay_reproduced [of "[(''r1'', demo_analysis)]" "''r1''" demo_analysis
      "\<lambda>w i p s. (w, Inr demo_analysis)" "()" "''r2''" "''P''" "''s''" "()" demo_analysis "''m''"]
  by auto

end
