(* ===== verification/Artifacts.thy ===== *)
theory Artifacts
  imports Debug
begin

text \<open>
  \<open>debug/artifacts.py\<close>: the store of stage artifacts, JSON files below a root directory.

  A path of \<open>pathlib\<close> is a flag (absolute) and its components; \<open>resolve\<close> is taken on a file system
  without symbolic links, from the working directory \<open>cwd\<close>. The store maps the resolved location of a
  file to the JSON value its text denotes; creating directories and a full disk are left out.
\<close>

section \<open>Paths\<close>

type_synonym path = "bool \<times> string list"

definition path_parts :: "string \<Rightarrow> string list" where
  "path_parts s = filter (\<lambda>p. p \<noteq> [] \<and> p \<noteq> ''.'') (py_split (CHR ''/'') s)"

definition parse_path :: "string \<Rightarrow> path" where
  "parse_path s = (prefix ''/'' s, path_parts s)"

definition path_join :: "path \<Rightarrow> string \<Rightarrow> path" where
  \<comment> \<open>\<open>p / s\<close>: an absolute right operand replaces the left one\<close>
  "path_join p s = (if prefix ''/'' s then parse_path s else (fst p, snd p @ path_parts s))"

definition path_text :: "path \<Rightarrow> string" where
  "path_text p = (if fst p then ''/'' @ py_join ''/'' (snd p)
     else if snd p = [] then ''.'' else py_join ''/'' (snd p))"

fun collapse :: "string list \<Rightarrow> string list \<Rightarrow> string list" where
  \<comment> \<open>the components reached from a directory; the parent of the root is the root\<close>
  "collapse dir [] = dir"
| "collapse dir (p # ps) = (if p = ''..'' then collapse (butlast dir) ps else collapse (dir @ [p]) ps)"

definition resolve :: "string list \<Rightarrow> path \<Rightarrow> string list" where
  "resolve cwd p = collapse (if fst p then [] else cwd) (snd p)"

definition plain_name :: "string \<Rightarrow> bool" where
  "plain_name s = (s \<noteq> [] \<and> s \<noteq> ''.'' \<and> s \<noteq> ''..'' \<and> CHR ''/'' \<notin> set s)"

section \<open>The store\<close>

record stage_artifact_ref =
  rf_artifact_ref :: string
  rf_content_hash :: string
  rf_media_type :: string
  rf_schema_version :: string

record artifact_store =
  st_root :: string
  st_files :: "(string list, json) dict"

fun sorted_json :: "json \<Rightarrow> json" where
  \<comment> \<open>the value of a text written with \<open>sort_keys=True\<close>\<close>
  "sorted_json (JList xs) = JList (map sorted_json xs)"
| "sorted_json (JObj kvs) = JObj (sort_key fst (map (\<lambda>kv. (fst kv, sorted_json (snd kv))) kvs))"
| "sorted_json v = v"

definition artifact_path :: "artifact_store \<Rightarrow> string \<Rightarrow> string \<Rightarrow> path" where
  "artifact_path st run_id name =
     path_join (path_join (path_join (parse_path (st_root st)) ''runs'') run_id) (name @ ''.json'')"

definition write_json :: "string list \<Rightarrow> host \<Rightarrow> string \<Rightarrow> string \<Rightarrow> json \<Rightarrow> artifact_store \<Rightarrow>
    artifact_store \<times> stage_artifact_ref" where
  "write_json cwd h run_id name payload st =
     (let path = artifact_path st run_id name
      in (st\<lparr>st_files := dset (resolve cwd path) (sorted_json payload) (st_files st)\<rparr>,
          \<lparr>rf_artifact_ref = path_text path, rf_content_hash = stable_hash h payload,
           rf_media_type = ''application/json'', rf_schema_version = ''v1''\<rparr>))"

definition resolve_ref :: "string list \<Rightarrow> artifact_store \<Rightarrow> string \<Rightarrow> string list result" where
  "resolve_ref cwd st ref =
     (let dir = resolve cwd (parse_path (st_root st)); path = resolve cwd (parse_path ref)
      in if prefix dir path then Inr path else Inl ArtifactAccessError)"

definition read_json :: "string list \<Rightarrow> artifact_store \<Rightarrow> string \<Rightarrow> json result" where
  "read_json cwd st ref = rbind (resolve_ref cwd st ref) (\<lambda>path.
     case dget (st_files st) path of None \<Rightarrow> Inl FileNotFoundError | Some v \<Rightarrow> Inr v)"

section \<open>Lemmas on paths\<close>

definition parts_ok :: "string list \<Rightarrow> bool" where
  "parts_ok ps = list_all (\<lambda>p. p \<noteq> [] \<and> p \<noteq> ''.'' \<and> CHR ''/'' \<notin> set p) ps"

lemma py_split_no_sep: "p \<in> set (py_split d s) \<Longrightarrow> d \<notin> set p"
proof (induction s arbitrary: p)
  case Nil
  then show ?case by simp
next
  case (Cons c s)
  then show ?case by (cases "py_split d s") (auto split: if_splits)
qed

lemma parts_ok_path_parts [simp]: "parts_ok (path_parts s)"
  using py_split_no_sep by (fastforce simp: parts_ok_def path_parts_def list_all_iff)

lemma py_split_word: "d \<notin> set w \<Longrightarrow> py_split d w = [w]"
  by (induction w) auto

lemma py_split_append: "d \<notin> set w \<Longrightarrow> py_split d (w @ d # s) = w # py_split d s"
  by (induction w) (auto split: list.splits)

lemma py_split_join:
  "ws \<noteq> [] \<Longrightarrow> list_all (\<lambda>w. d \<notin> set w) ws \<Longrightarrow> py_split d (py_join [d] ws) = ws"
proof (induction ws)
  case Nil
  then show ?case by simp
next
  case (Cons w ws)
  then show ?case
    by (cases "ws = []") (simp_all add: py_split_word py_join_Cons py_split_append)
qed

lemma path_parts_join:
  assumes "parts_ok ps"
  shows "path_parts (py_join ''/'' ps) = ps"
proof (cases "ps = []")
  case False
  have "list_all (\<lambda>w. CHR ''/'' \<notin> set w) ps" using assms by (simp add: parts_ok_def list_all_iff)
  with False have "py_split (CHR ''/'') (py_join ''/'' ps) = ps" by (rule py_split_join)
  then show ?thesis using assms by (simp add: path_parts_def parts_ok_def list_all_iff filter_id_conv)
qed (simp add: path_parts_def)

lemma join_relative:
  assumes "parts_ok ps"
  shows "\<not> prefix ''/'' (py_join ''/'' ps)"
proof (cases ps)
  case (Cons p qs)
  with assms obtain c p' where "p = c # p'" "c \<noteq> CHR ''/''" by (cases p) (auto simp: parts_ok_def)
  with Cons show ?thesis by (cases qs) auto
qed simp

lemma parse_path_text:
  assumes "parts_ok (snd p)"
  shows "parse_path (path_text p) = p"
proof (cases "fst p")
  case True
  have "path_parts (CHR ''/'' # s) = path_parts s" for s
    using py_split_append [of "CHR ''/''" "[]" s] by (simp add: path_parts_def)
  with True assms show ?thesis
    by (simp add: path_text_def parse_path_def path_parts_join prod_eq_iff)
next
  case False
  have "parse_path ''.'' = (False, [])" by (simp add: parse_path_def path_parts_def)
  with False assms show ?thesis
    by (simp add: path_text_def parse_path_def path_parts_join join_relative prod_eq_iff)
qed

lemma collapse_append: "collapse dir (ps @ qs) = collapse (collapse dir ps) qs"
  by (induction ps arbitrary: dir) auto

lemma collapse_plain: "list_all (\<lambda>p. p \<noteq> ''..'') ps \<Longrightarrow> collapse dir ps = dir @ ps"
  by (induction ps arbitrary: dir) auto

lemma path_parts_plain: "plain_name s \<Longrightarrow> path_parts s = [s]"
  by (simp add: plain_name_def path_parts_def py_split_word)

lemma plain_relative: "plain_name s \<Longrightarrow> \<not> prefix ''/'' s"
  by (cases s) (auto simp: plain_name_def)

lemma plain_json: "CHR ''/'' \<notin> set name \<Longrightarrow> plain_name (name @ ''.json'')"
proof -
  assume "CHR ''/'' \<notin> set name"
  moreover have "length (name @ ''.json'') \<ge> 5" by simp
  ultimately show ?thesis unfolding plain_name_def by fastforce
qed

lemma artifact_path_plain:
  assumes "plain_name run_id" and "CHR ''/'' \<notin> set name"
  shows "artifact_path st run_id name =
     (fst (parse_path (st_root st)), snd (parse_path (st_root st)) @ [''runs'', run_id, name @ ''.json''])"
proof -
  have "plain_name ''runs''" by (simp add: plain_name_def)
  then show ?thesis
    using assms plain_json [of name]
    by (simp add: artifact_path_def path_join_def plain_relative path_parts_plain)
qed

lemma artifact_parts_ok: "parts_ok (snd (artifact_path st run_id name))"
proof -
  have join: "parts_ok (snd p) \<Longrightarrow> parts_ok (snd (path_join p s))" for p s
    using parts_ok_path_parts [of s]
    unfolding path_join_def parse_path_def parts_ok_def by simp
  show ?thesis unfolding artifact_path_def by (intro join) (simp add: parse_path_def)
qed

lemma norm_sorted_json: "norm_json (sorted_json v) = norm_json v"
proof (induction v)
  case (JObj kvs)
  let ?n = "\<lambda>kv. (fst kv, norm_json (snd kv))" and ?s = "\<lambda>kv. (fst kv, sorted_json (snd kv))"
  have "map ?n (sort_key fst (map ?s kvs)) = sort_key fst (map ?n (map ?s kvs))"
  proof (rule sym, rule properties_for_sort_key)
    show "sorted (map fst (map ?n (sort_key fst (map ?s kvs))))" by (simp add: comp_def)
    show "mset (map ?n (sort_key fst (map ?s kvs))) = mset (map ?n (map ?s kvs))" by (simp only: mset_map mset_sort)
    fix k assume "k \<in> set (map ?n (sort_key fst (map ?s kvs)))"
    have "filter (\<lambda>x. fst k = fst x) (map ?n zs) = map ?n (filter (\<lambda>x. fst k = fst x) zs)"
      for zs :: "(string \<times> json) list" by (simp add: filter_map comp_def)
    moreover have "filter (\<lambda>x. fst k = fst x) (sort_key fst (map ?s kvs))
        = filter (\<lambda>x. fst k = fst x) (map ?s kvs)"
      unfolding eq_commute [of "fst k"] by (rule sort_key_stable)
    ultimately show "filter (\<lambda>x. fst k = fst x) (map ?n (sort_key fst (map ?s kvs)))
        = filter (\<lambda>x. fst k = fst x) (map ?n (map ?s kvs))" by metis
  qed
  moreover have "map ?n (map ?s kvs) = map ?n kvs"
    using JObj by (auto simp: comp_def)
  ultimately have "map ?n (sort_key fst (map ?s kvs)) = sort_key fst (map ?n kvs)" by metis
  then show ?case
    unfolding sorted_json.simps norm_json.simps json.inject by (simp add: sort_key_id_if_sorted)
qed (auto simp: comp_def)

section \<open>Properties\<close>

text \<open>
  Reading never leaves the store: a reference is read only when its resolved location lies
  below the resolved root, whatever dots the reference holds, and it is refused otherwise; what is
  read is the file stored at that location.
\<close>

theorem read_json_confined:
  "case read_json cwd st ref of
     Inr v \<Rightarrow> prefix (resolve cwd (parse_path (st_root st))) (resolve cwd (parse_path ref))
       \<and> dget (st_files st) (resolve cwd (parse_path ref)) = Some v
   | Inl e \<Rightarrow> (if prefix (resolve cwd (parse_path (st_root st))) (resolve cwd (parse_path ref))
       then e = FileNotFoundError \<and> dget (st_files st) (resolve cwd (parse_path ref)) = None
       else e = ArtifactAccessError)"
  by (auto simp: read_json_def resolve_ref_def Let_def split: option.splits)

text \<open>
  What a stage writes can be read back: for a run id that is one path component and a
  name without a slash, the reference returned by \<open>write_json\<close> reads as the value written with its
  keys sorted, which is equal to it as Python compares values; files at other locations stay.
\<close>

theorem write_read_roundtrip:
  assumes "plain_name run_id" and "CHR ''/'' \<notin> set name" and "write_json cwd h run_id name v st = (st', ref)"
  shows "read_json cwd st' (rf_artifact_ref ref) = Inr (sorted_json v) \<and> norm_json (sorted_json v) = norm_json v
    \<and> (\<forall>loc. loc \<noteq> resolve cwd (artifact_path st run_id name) \<longrightarrow> dget (st_files st') loc = dget (st_files st) loc)"
proof -
  have p: "parse_path (rf_artifact_ref ref) = artifact_path st run_id name"
    using assms(3) parse_path_text [OF artifact_parts_ok [of st run_id name]]
    by (auto simp: write_json_def Let_def)
  have "collapse dir [''runs'', run_id, name @ ''.json''] = dir @ [''runs'', run_id, name @ ''.json'']" for dir
    using assms(1) plain_json [OF assms(2)] by (intro collapse_plain) (simp add: plain_name_def)
  then have "prefix (resolve cwd (parse_path (st_root st))) (resolve cwd (artifact_path st run_id name))"
    by (simp add: artifact_path_plain [OF assms(1,2)] resolve_def collapse_append)
  then show ?thesis
    using assms(3) p norm_sorted_json
    by (auto simp: write_json_def read_json_def resolve_ref_def Let_def)
qed

text \<open>
  Writing is not confined as reading is: a run id that climbs two directories and then
  names a sibling of the root makes \<open>write_json\<close> store the file there, outside the root, and the
  reference it returns is refused by \<open>read_json\<close>.
\<close>

theorem write_json_outside:
  assumes "plain_name r" and "CHR ''/'' \<notin> set name"
    and "resolve cwd (parse_path (st_root st)) = dir @ [base]" and "r \<noteq> base"
    and "write_json cwd h (''../../'' @ r) name v st = (st', ref)"
  shows "dget (st_files st') (dir @ [r, name @ ''.json'']) = Some (sorted_json v)
    \<and> \<not> prefix (resolve cwd (parse_path (st_root st))) (dir @ [r, name @ ''.json''])
    \<and> read_json cwd st' (rf_artifact_ref ref) = Inl ArtifactAccessError"
proof -
  define rid where "rid = ''../../'' @ r"
  have parts: "path_parts rid = [''..'', ''..'', r]" and rel: "\<not> prefix ''/'' rid"
    using assms(1) py_split_append [of "CHR ''/''" "''..''"]
    by (simp_all add: rid_def path_parts_def plain_name_def py_split_word)
  have runs: "path_parts ''runs'' = [''runs'']" by (simp add: path_parts_def)
  have ap: "artifact_path st rid name = (fst (parse_path (st_root st)),
      snd (parse_path (st_root st)) @ [''runs'', ''..'', ''..'', r, name @ ''.json''])"
    using plain_json [OF assms(2)] parts rel
    by (simp add: artifact_path_def path_join_def runs plain_relative path_parts_plain)
  have loc: "resolve cwd (artifact_path st rid name) = dir @ [r, name @ ''.json'']"
    using assms(1,3) plain_json [OF assms(2)]
    by (simp add: ap resolve_def collapse_append plain_name_def butlast_append)
  have "parse_path (path_text (artifact_path st rid name)) = artifact_path st rid name"
    by (rule parse_path_text [OF artifact_parts_ok])
  moreover have "\<not> prefix (dir @ [base]) (dir @ [r, name @ ''.json''])" using assms(4) by simp
  ultimately show ?thesis
    using assms(3,5) loc unfolding rid_def [symmetric]
    by (auto simp: write_json_def read_json_def resolve_ref_def Let_def)
qed

section \<open>Instances\<close>

lemma write_read_roundtrip_witness:
  "read_json [''srv''] (fst (write_json [''srv''] demo_host ''run_1'' ''chunks'' (JList []) \<lparr>st_root = ''data'', st_files = []\<rparr>))
     (rf_artifact_ref (snd (write_json [''srv''] demo_host ''run_1'' ''chunks'' (JList []) \<lparr>st_root = ''data'', st_files = []\<rparr>)))
   = Inr (JList [])"
  using write_read_roundtrip [of "''run_1''" "''chunks''" "[''srv'']" demo_host "JList []"
      "\<lparr>st_root = ''data'', st_files = []\<rparr>" "fst (write_json [''srv''] demo_host ''run_1'' ''chunks'' (JList []) \<lparr>st_root = ''data'', st_files = []\<rparr>)"
      "snd (write_json [''srv''] demo_host ''run_1'' ''chunks'' (JList []) \<lparr>st_root = ''data'', st_files = []\<rparr>)"]
  by (simp add: plain_name_def)

lemma write_json_outside_witness:
  "read_json [''srv''] (fst (write_json [''srv''] demo_host ''../../x'' ''n'' JNull \<lparr>st_root = ''data'', st_files = []\<rparr>))
     (rf_artifact_ref (snd (write_json [''srv''] demo_host ''../../x'' ''n'' JNull \<lparr>st_root = ''data'', st_files = []\<rparr>)))
   = Inl ArtifactAccessError"
proof -
  have "resolve [''srv''] (parse_path ''data'') = [''srv''] @ [''data'']"
    by (simp add: resolve_def parse_path_def path_parts_def)
  then show ?thesis
    using write_json_outside [of "''x''" "''n''" "[''srv'']" "\<lparr>st_root = ''data'', st_files = []\<rparr>" "[''srv'']" "''data''"
        demo_host JNull "fst (write_json [''srv''] demo_host ''../../x'' ''n'' JNull \<lparr>st_root = ''data'', st_files = []\<rparr>)"
        "snd (write_json [''srv''] demo_host ''../../x'' ''n'' JNull \<lparr>st_root = ''data'', st_files = []\<rparr>)"]
    by (simp add: plain_name_def)
qed

end
