(* ===== verification/Gateway.thy ===== *)
theory Gateway
  imports Artifacts
begin

text \<open>
  \<open>model_gateway/\<close>: the contracts of profiles, prompts, requests and responses, the policy, the
  registry, structured-output validation, the client with its retries, fallback and traces, the
  dummy provider, and the comparison of candidates.

  A provider is a function of the request, the profile, the prompt and a state of its own (\<open>'w\<close>);
  a Pydantic response model is its validation function and its dump. The trace repository and the
  artifact store of a client are options, as in the code.
\<close>

section \<open>Contracts\<close>

datatype model_provider_kind = MP_Internal | MP_OpenAI | MP_Anthropic | MP_Azure | MP_Local | MP_Dummy

definition provider_str :: "model_provider_kind \<Rightarrow> string" where
  "provider_str p = (case p of MP_Internal \<Rightarrow> ''internal'' | MP_OpenAI \<Rightarrow> ''openai''
     | MP_Anthropic \<Rightarrow> ''anthropic'' | MP_Azure \<Rightarrow> ''azure'' | MP_Local \<Rightarrow> ''local'' | MP_Dummy \<Rightarrow> ''dummy'')"

datatype prompt_task = PK_Node_Extraction | PK_Edge_Linking | PK_Finding_Reasoning
  | PK_Impact_Analysis | PK_Answer_Generation

definition prompt_task_str :: "prompt_task \<Rightarrow> string" where
  "prompt_task_str t = (case t of PK_Node_Extraction \<Rightarrow> ''node_extraction''
     | PK_Edge_Linking \<Rightarrow> ''edge_linking'' | PK_Finding_Reasoning \<Rightarrow> ''finding_reasoning''
     | PK_Impact_Analysis \<Rightarrow> ''impact_analysis'' | PK_Answer_Generation \<Rightarrow> ''answer_generation'')"

datatype prompt_status = PS_Draft | PS_Eval_Ready | PS_Canary | PS_Active | PS_Retired

record model_profile =
  mp_model_profile_id :: string
  mp_provider :: model_provider_kind
  mp_model_name :: string
  mp_endpoint_alias :: string
  mp_allowed_data_classes :: "string list"
  mp_supports_json_schema :: bool
  mp_supports_tool_calling :: bool
  mp_max_context_tokens :: int
  mp_default_temperature :: rat
  mp_timeout_seconds :: int
  mp_is_active :: bool
  mp_schema_version :: string

definition model_profile_ok :: "model_profile \<Rightarrow> bool" where
  "model_profile_ok p = (0 < mp_max_context_tokens p \<and> 0 \<le> mp_default_temperature p
     \<and> mp_default_temperature p \<le> 2 \<and> 0 < mp_timeout_seconds p)"

record prompt_version =
  pv_prompt_version_id :: string
  pv_task_name :: prompt_task
  pv_template :: string
  pv_schema_version_ref :: string
  pv_retrieval_policy_id :: string
  pv_created_by :: string
  pv_created_at :: time
  pv_status :: prompt_status
  pv_schema_version :: string

record model_request =
  mr_model_profile_id :: string
  mr_prompt_version_id :: string
  mr_payload :: jobj
  mr_data_classification :: string
  mr_masking_applied :: bool
  mr_access_checked :: bool
  mr_schema_version :: string

definition model_request_dump :: "model_request \<Rightarrow> jobj" where
  "model_request_dump r = [
     (''model_profile_id'', JStr (mr_model_profile_id r)),
     (''prompt_version_id'', JStr (mr_prompt_version_id r)),
     (''payload'', JObj (mr_payload r)),
     (''data_classification'', JStr (mr_data_classification r)),
     (''masking_applied'', JBool (mr_masking_applied r)),
     (''access_checked'', JBool (mr_access_checked r)),
     (''schema_version'', JStr (mr_schema_version r))]"

record model_response =
  ms_model_profile_id :: string
  ms_prompt_version_id :: string
  ms_raw_response_ref :: "string option"
  ms_parsed_output_ref :: "string option"
  ms_output :: jobj
  ms_input_tokens :: "int option"
  ms_output_tokens :: "int option"
  ms_cost_usd :: "rat option"
  ms_latency_ms :: int
  ms_schema_version :: string

definition model_response_ok :: "model_response \<Rightarrow> bool" where
  "model_response_ok r = (nonneg_opt (ms_input_tokens r) \<and> nonneg_opt (ms_output_tokens r)
     \<and> (case ms_cost_usd r of None \<Rightarrow> True | Some c \<Rightarrow> 0 \<le> c) \<and> 0 \<le> ms_latency_ms r)"

datatype structured_status = SV_Passed | SV_Failed | SV_Repaired

definition structured_status_str :: "structured_status \<Rightarrow> string" where
  "structured_status_str s = (case s of SV_Passed \<Rightarrow> ''passed'' | SV_Failed \<Rightarrow> ''failed''
     | SV_Repaired \<Rightarrow> ''repaired'')"

definition trace_status :: "structured_status \<Rightarrow> validation_status" where
  "trace_status s = (case s of SV_Passed \<Rightarrow> VS_Passed | SV_Failed \<Rightarrow> VS_Failed | SV_Repaired \<Rightarrow> VS_Repaired)"

record structured_validation =
  sv_status :: structured_status
  sv_error_message :: "string option"
  sv_repaired_output :: "jobj option"

definition validation_of :: "structured_status \<Rightarrow> string option \<Rightarrow> structured_validation" where
  "validation_of s e = \<lparr>sv_status = s, sv_error_message = e, sv_repaired_output = None\<rparr>"

definition exc_text :: "py_error \<Rightarrow> string" where
  \<comment> \<open>\<open>str(exc)\<close>; the text of an error of the operating system is left out\<close>
  "exc_text e = (case e of KeyError k \<Rightarrow> repr_string k | ValueError m \<Rightarrow> m | PyTypeError m \<Rightarrow> m
     | ValidationError m \<Rightarrow> m | HTTPException c d \<Rightarrow> str_int c @ '': '' @ d | RuntimeError m \<Rightarrow> m
     | ModelPolicyError m \<Rightarrow> m | ModelRegistryError m \<Rightarrow> m
     | MaskingPolicyViolationError a ls ref \<Rightarrow> ''MASKING_POLICY_VIOLATION: '' @ a
         @ '' routed to security review'' @ (if opt_str_or ref [] = [] then [] else '' ref='' @ opt_str_or ref [])
         @ ''; violations='' @ py_join '','' ls
     | ArtifactAccessError \<Rightarrow> ''artifact ref is outside artifact store root''
     | FileNotFoundError \<Rightarrow> [] | OtherException m \<Rightarrow> m)"

section \<open>Policy\<close>

definition quoted :: "string \<Rightarrow> string" where
  "quoted s = CHR 0x27 # s @ [CHR 0x27]"

definition assert_allowed :: "model_request \<Rightarrow> model_profile \<Rightarrow> unit result" where
  "assert_allowed r p =
     (if mr_model_profile_id r \<noteq> mp_model_profile_id p
      then Inl (ModelPolicyError ''request model_profile_id does not match active profile'')
      else if mr_data_classification r \<notin> set (mp_allowed_data_classes p)
      then Inl (ModelPolicyError (''data classification '' @ quoted (mr_data_classification r)
        @ '' is not allowed for model profile '' @ quoted (mp_model_profile_id p)))
      else if mr_data_classification r \<in> {''restricted'', ''confidential''} \<and> \<not> mr_masking_applied r
      then Inl (ModelPolicyError (''data classification '' @ quoted (mr_data_classification r) @ '' requires masking''))
      else if mr_data_classification r \<in> {''restricted'', ''confidential''} \<and> \<not> mr_access_checked r
      then Inl (ModelPolicyError (''data classification '' @ quoted (mr_data_classification r) @ '' requires access check''))
      else Inr ())"

definition policy_allows :: "model_request \<Rightarrow> model_profile \<Rightarrow> bool" where
  "policy_allows r p = (mr_model_profile_id r = mp_model_profile_id p
     \<and> mr_data_classification r \<in> set (mp_allowed_data_classes p)
     \<and> (mr_data_classification r = ''restricted'' \<or> mr_data_classification r = ''confidential'' \<longrightarrow>
          mr_masking_applied r \<and> mr_access_checked r))"

lemma assert_allowed_iff: "assert_allowed r p = Inr () \<longleftrightarrow> policy_allows r p"
  by (auto simp: assert_allowed_def policy_allows_def)

lemma assert_allowed_Inl: "assert_allowed r p = Inl e \<Longrightarrow> \<exists>m. e = ModelPolicyError m"
  by (auto simp: assert_allowed_def split: if_splits)

section \<open>Structured output\<close>

record 'm response_schema =
  rs_validate :: "jobj \<Rightarrow> string + 'm"
  rs_dump :: "'m \<Rightarrow> jobj"

definition validate_structured_output :: "'m response_schema \<Rightarrow> jobj \<Rightarrow> 'm option \<times> structured_validation" where
  "validate_structured_output s output =
     (case rs_validate s output of
        Inl e \<Rightarrow> (None, validation_of SV_Failed (Some e))
      | Inr m \<Rightarrow> (Some m, validation_of SV_Passed None))"

section \<open>The client\<close>

type_synonym 'w provider = "model_request \<Rightarrow> model_profile \<Rightarrow> prompt_version \<Rightarrow> 'w \<Rightarrow> 'w \<times> model_response result"

record 'w gateway_client =
  gc_provider :: "'w provider"
  gc_profile :: model_profile
  gc_prompt :: prompt_version
  gc_max_validation_retries :: int
  gc_fallback_provider :: "'w provider option"
  gc_fallback_profile :: "model_profile option"
  gc_fallback_prompt :: "prompt_version option"

record 'w gateway_state =
  gs_world :: 'w
  gs_traces :: "trace_repository option"
  gs_store :: "artifact_store option"

record 'w attempt =
  at_provider :: "'w provider"
  at_profile :: model_profile
  at_prompt :: prompt_version
  at_request :: model_request
  at_retry_count :: nat

definition attempts :: "'w gateway_client \<Rightarrow> model_request \<Rightarrow> 'w attempt list" where
  "attempts c request =
     (let own = map (\<lambda>i. \<lparr>at_provider = gc_provider c, at_profile = gc_profile c, at_prompt = gc_prompt c,
            at_request = request, at_retry_count = i\<rparr>) [0..<nat (gc_max_validation_retries c + 1)]
      in case (gc_fallback_provider c, gc_fallback_profile c) of
           (Some provider, Some profile) \<Rightarrow>
             (let prompt = (case gc_fallback_prompt c of None \<Rightarrow> gc_prompt c | Some p \<Rightarrow> p)
              in own @ [\<lparr>at_provider = provider, at_profile = profile, at_prompt = prompt,
                   at_request = request\<lparr>mr_model_profile_id := mp_model_profile_id profile,
                     mr_prompt_version_id := pv_prompt_version_id prompt\<rparr>,
                   at_retry_count = length own\<rparr>])
         | _ \<Rightarrow> own)"

definition write_stage :: "string list \<Rightarrow> host \<Rightarrow> string \<Rightarrow> string \<Rightarrow> jobj \<Rightarrow> 'w gateway_state \<Rightarrow>
    'w gateway_state \<times> string" where
  \<comment> \<open>\<open>_write_artifact\<close>\<close>
  "write_stage cwd h run_id name payload st =
     (case gs_store st of
        None \<Rightarrow> (st, ''memory://'' @ run_id @ ''/'' @ name @ ''/'' @ hash_prefix h 12 (JObj payload))
      | Some store \<Rightarrow>
          (case write_json cwd h run_id name (JObj payload) store of
             (store', ref) \<Rightarrow> (st\<lparr>gs_store := Some store'\<rparr>, rf_artifact_ref ref)))"

definition build_trace :: "host \<Rightarrow> string \<Rightarrow> string \<Rightarrow> model_request \<Rightarrow> string \<Rightarrow> model_response option \<Rightarrow>
    structured_validation \<Rightarrow> string option \<Rightarrow> nat \<Rightarrow> llm_call_trace" where
  "build_trace h run_id step_id request masked_payload_ref response validation error_message retry_count =
     \<lparr>lt_llm_call_id = ''llm_'' @ hash_prefix h 16 (JObj [(''run_id'', JStr run_id), (''step_id'', JStr step_id),
        (''request'', JObj (model_request_dump request)), (''retry_count'', JInt (int retry_count))]),
      lt_run_id = run_id, lt_step_id = step_id, lt_model_profile_id = mr_model_profile_id request,
      lt_prompt_version_id = mr_prompt_version_id request,
      lt_request_hash = stable_hash h (JObj (model_request_dump request)),
      lt_response_hash = map_option (\<lambda>r. stable_hash h (JObj (ms_output r))) response,
      lt_masked_payload_ref = masked_payload_ref,
      lt_raw_response_ref = Option.bind response ms_raw_response_ref,
      lt_parsed_output_ref = Option.bind response ms_parsed_output_ref,
      lt_input_tokens = Option.bind response ms_input_tokens,
      lt_output_tokens = Option.bind response ms_output_tokens,
      lt_cost_usd = Option.bind response ms_cost_usd,
      lt_latency_ms = (case response of None \<Rightarrow> 0 | Some r \<Rightarrow> ms_latency_ms r),
      lt_validation_status = trace_status (sv_status validation),
      lt_retry_count = int retry_count, lt_error_message = error_message\<rparr>"

definition record_trace :: "llm_call_trace \<Rightarrow> 'w gateway_state \<Rightarrow> 'w gateway_state" where
  "record_trace t st = st\<lparr>gs_traces := map_option (record_llm_call t) (gs_traces st)\<rparr>"

datatype 'm attempt_result =
    Refused py_error
  | Failed py_error
  | Answered model_response "'m option" structured_validation

definition judge :: "string list \<Rightarrow> host \<Rightarrow> string \<Rightarrow> string \<Rightarrow> 'm response_schema option \<Rightarrow> nat \<Rightarrow> model_response \<Rightarrow>
    string \<Rightarrow> 'w gateway_state \<Rightarrow> 'w gateway_state \<times> 'm option \<times> structured_validation \<times> string" where
  \<comment> \<open>the validation of an answer and the artifact of the parsed output\<close>
  "judge cwd h run_id step_id rm i response raw_ref st =
     (case rm of
        None \<Rightarrow> (st, None, validation_of SV_Passed None, raw_ref)
      | Some s \<Rightarrow>
          (case validate_structured_output s (ms_output response) of
             (parsed, validation) \<Rightarrow>
               (case write_stage cwd h run_id (step_id @ ''_parsed_output_'' @ str_nat i)
                   (case parsed of Some m \<Rightarrow> rs_dump s m
                    | None \<Rightarrow> [(''error'', jopt (sv_error_message validation))]) st of
                  (st', ref) \<Rightarrow> (st', parsed, validation, ref))))"

definition run_attempt :: "string list \<Rightarrow> host \<Rightarrow> string \<Rightarrow> string \<Rightarrow> 'm response_schema option \<Rightarrow> 'w attempt \<Rightarrow>
    'w gateway_state \<Rightarrow> 'w gateway_state \<times> 'm attempt_result" where
  "run_attempt cwd h run_id step_id rm a st =
     (case assert_allowed (at_request a) (at_profile a) of
        Inl e \<Rightarrow> (st, Refused e)
      | Inr _ \<Rightarrow>
          (case write_stage cwd h run_id (step_id @ ''_masked_payload_'' @ str_nat (at_retry_count a))
              (mr_payload (at_request a)) st of
             (st1, masked_ref) \<Rightarrow>
               (case at_provider a (at_request a) (at_profile a) (at_prompt a) (gs_world st1) of
                  (w, Inl e) \<Rightarrow>
                    (record_trace (build_trace h run_id step_id (at_request a) masked_ref None
                       (validation_of SV_Failed (Some (exc_text e))) (Some (exc_text e)) (at_retry_count a))
                       (st1\<lparr>gs_world := w\<rparr>), Failed e)
                | (w, Inr response) \<Rightarrow>
                    (case write_stage cwd h run_id (step_id @ ''_raw_response_'' @ str_nat (at_retry_count a))
                        (ms_output response) (st1\<lparr>gs_world := w\<rparr>) of
                       (st2, raw_ref) \<Rightarrow>
                         (case judge cwd h run_id step_id rm (at_retry_count a) response raw_ref st2 of
                            (st3, parsed, validation, parsed_ref) \<Rightarrow>
                              (let response' = response\<lparr>ms_raw_response_ref := Some raw_ref,
                                     ms_parsed_output_ref := Some parsed_ref\<rparr>
                               in (record_trace (build_trace h run_id step_id (at_request a) masked_ref
                                     (Some response') validation (sv_error_message validation) (at_retry_count a)) st3,
                                   Answered response' parsed validation)))))))"

type_synonym 'm answer = "model_response \<times> 'm option \<times> structured_validation"

fun gateway_loop :: "string list \<Rightarrow> host \<Rightarrow> string \<Rightarrow> string \<Rightarrow> 'm response_schema option \<Rightarrow> 'w attempt list \<Rightarrow>
    py_error option \<Rightarrow> 'm answer option \<Rightarrow> 'w gateway_state \<Rightarrow> 'w gateway_state \<times> 'm answer result" where
  "gateway_loop cwd h run_id step_id rm [] last_exc last_answer st =
     (st, case last_answer of Some x \<Rightarrow> Inr x
          | None \<Rightarrow> (case last_exc of Some e \<Rightarrow> Inl e
              | None \<Rightarrow> Inl (RuntimeError ''model gateway attempts exhausted'')))"
| "gateway_loop cwd h run_id step_id rm (a # as) last_exc last_answer st =
     (case run_attempt cwd h run_id step_id rm a st of
        (st', Refused e) \<Rightarrow> (st', Inl e)
      | (st', Failed e) \<Rightarrow> gateway_loop cwd h run_id step_id rm as (Some e) last_answer st'
      | (st', Answered r p v) \<Rightarrow>
          (if sv_status v = SV_Passed then (st', Inr (r, p, v))
           else gateway_loop cwd h run_id step_id rm as last_exc (Some (r, p, v)) st'))"

definition complete :: "string list \<Rightarrow> host \<Rightarrow> 'w gateway_client \<Rightarrow> string \<Rightarrow> string \<Rightarrow> model_request \<Rightarrow>
    'm response_schema option \<Rightarrow> 'w gateway_state \<Rightarrow> 'w gateway_state \<times> 'm answer result" where
  "complete cwd h c run_id step_id request rm st =
     gateway_loop cwd h run_id step_id rm (attempts c request) None None st"

section \<open>The registry\<close>

record model_registry =
  mg_profiles :: "(string, model_profile) dict"
  mg_prompts :: "(string, prompt_version) dict"

definition new_registry :: "model_profile list \<Rightarrow> prompt_version list \<Rightarrow> model_registry" where
  "new_registry profiles prompts = \<lparr>mg_profiles = dict_of (map (\<lambda>p. (mp_model_profile_id p, p)) profiles),
     mg_prompts = dict_of (map (\<lambda>p. (pv_prompt_version_id p, p)) prompts)\<rparr>"

definition get_profile :: "model_registry \<Rightarrow> string \<Rightarrow> model_profile result" where
  "get_profile g i = (case dget (mg_profiles g) i of
     None \<Rightarrow> Inl (ModelRegistryError (''model profile not found: '' @ i))
   | Some p \<Rightarrow> if \<not> mp_is_active p then Inl (ModelRegistryError (''model profile is not active: '' @ i)) else Inr p)"

definition get_prompt :: "model_registry \<Rightarrow> string \<Rightarrow> prompt_version result" where
  "get_prompt g i = (case dget (mg_prompts g) i of
     None \<Rightarrow> Inl (ModelRegistryError (''prompt version not found: '' @ i)) | Some p \<Rightarrow> Inr p)"

definition active_prompt_for_task :: "model_registry \<Rightarrow> prompt_task \<Rightarrow> prompt_version result" where
  "active_prompt_for_task g task =
     (case filter (\<lambda>p. pv_task_name p = task \<and> pv_status p = PS_Active) (dvals (mg_prompts g)) of
        [p] \<Rightarrow> Inr p
      | matches \<Rightarrow> Inl (ModelRegistryError (''expected exactly one active prompt for task '' @ quoted (prompt_task_str task)
          @ '', found '' @ str_nat (length matches))))"

section \<open>The dummy provider\<close>

definition dummy_complete :: "host \<Rightarrow> (string, jobj) dict \<Rightarrow> 'w provider" where
  "dummy_complete h fixtures request profile prompt w =
     (let fixture_name = py_str h (jget_or (mr_payload request) ''fixture_name'' (JStr ''default''))
      in if fixture_name = ''timeout'' then (w, Inl (OtherException ''dummy model timeout''))
         else (w, Inr \<lparr>ms_model_profile_id = mp_model_profile_id profile,
           ms_prompt_version_id = pv_prompt_version_id prompt, ms_raw_response_ref = None,
           ms_parsed_output_ref = None,
           ms_output = (case dget fixtures fixture_name of Some output \<Rightarrow> output
             | None \<Rightarrow> [(''provider'', JStr (provider_str (mp_provider profile))),
                 (''model_name'', JStr (mp_model_name profile)),
                 (''task_name'', JStr (prompt_task_str (pv_task_name prompt))),
                 (''echo'', JObj (mr_payload request))]),
           ms_input_tokens = None, ms_output_tokens = None, ms_cost_usd = None, ms_latency_ms = 0,
           ms_schema_version = ''v1''\<rparr>))"

definition provider_for_profile :: "host \<Rightarrow> (string \<Rightarrow> string \<Rightarrow> 'w provider) \<Rightarrow> model_profile \<Rightarrow> string \<Rightarrow> string \<Rightarrow>
    'w provider result" where
  \<comment> \<open>\<open>model_gateway/factory.py\<close>; the HTTP provider is an argument\<close>
  "provider_for_profile h http profile endpoint_url api_key =
     (if mp_provider profile = MP_Dummy then Inr (dummy_complete h [])
      else if endpoint_url = [] then Inl (ValueError ''endpoint_url is required for non-dummy model profiles'')
      else Inr (http endpoint_url api_key))"

section \<open>What one attempt does\<close>

lemma write_stage_frame:
  "gs_world (fst (write_stage cwd h run_id name payload st)) = gs_world st"
  "gs_traces (fst (write_stage cwd h run_id name payload st)) = gs_traces st"
  by (simp_all add: write_stage_def split: option.splits prod.splits)

lemma write_stage_frameD:
  "write_stage cwd h run_id name payload st = (st', ref) \<Longrightarrow> gs_world st' = gs_world st \<and> gs_traces st' = gs_traces st"
  using write_stage_frame [of cwd h run_id name payload st] by simp

definition answer_ok :: "'m response_schema option \<Rightarrow> 'm answer \<Rightarrow> bool" where
  \<comment> \<open>parsed value and verdict are those of the response model on the output that is returned\<close>
  "answer_ok rm x = (case x of (r, p, v) \<Rightarrow> (case rm of
       None \<Rightarrow> p = None \<and> v = validation_of SV_Passed None
     | Some s \<Rightarrow> (p, v) = validate_structured_output s (ms_output r)))"

lemma judge_frame:
  assumes "judge cwd h run_id step_id rm i response raw_ref st = (st', p, v, ref)"
  shows "gs_world st' = gs_world st \<and> gs_traces st' = gs_traces st \<and> answer_ok rm (response, p, v)"
  using assms
  by (auto simp: judge_def answer_ok_def split: option.splits prod.splits dest!: write_stage_frameD)

lemma answer_passed_iff:
  "answer_ok rm (r, p, v) \<Longrightarrow> sv_status v = SV_Passed \<longleftrightarrow>
     (case rm of None \<Rightarrow> True | Some s \<Rightarrow> \<exists>m. rs_validate s (ms_output r) = Inr m \<and> p = Some m)"
  by (auto simp: answer_ok_def validate_structured_output_def validation_of_def split: option.splits sum.splits)

lemma answer_not_repaired: "answer_ok rm (r, p, v) \<Longrightarrow> sv_status v \<noteq> SV_Repaired"
  by (auto simp: answer_ok_def validate_structured_output_def validation_of_def split: option.splits sum.splits)

text \<open>A client whose providers keep a log of the calls they receive.\<close>

type_synonym call_log = "(model_request \<times> model_profile) list"

fun logged :: "'w provider \<Rightarrow> ('w \<times> call_log) provider" where
  "logged p r prof prompt (w, calls) =
     (case p r prof prompt w of (w', x) \<Rightarrow> ((w', calls @ [(r, prof)]), x))"

definition logged_client :: "'w gateway_client \<Rightarrow> ('w \<times> call_log) gateway_client" where
  "logged_client c = \<lparr>gc_provider = logged (gc_provider c), gc_profile = gc_profile c, gc_prompt = gc_prompt c,
     gc_max_validation_retries = gc_max_validation_retries c,
     gc_fallback_provider = map_option logged (gc_fallback_provider c),
     gc_fallback_profile = gc_fallback_profile c, gc_fallback_prompt = gc_fallback_prompt c\<rparr>"

definition trace_of :: "string \<Rightarrow> string \<Rightarrow> 'w attempt \<Rightarrow> llm_call_trace \<Rightarrow> bool" where
  "trace_of run_id step_id a t = (lt_run_id t = run_id \<and> lt_step_id t = step_id
     \<and> lt_retry_count t = int (at_retry_count a)
     \<and> lt_model_profile_id t = mr_model_profile_id (at_request a))"

definition called :: "string \<Rightarrow> string \<Rightarrow> ('w \<times> call_log) attempt \<Rightarrow> ('w \<times> call_log) gateway_state \<Rightarrow>
    ('w \<times> call_log) gateway_state \<Rightarrow> llm_call_trace \<Rightarrow> bool" where
  \<comment> \<open>one allowed call was made, and one trace recorded\<close>
  "called run_id step_id a st st' t = (policy_allows (at_request a) (at_profile a) \<and> trace_of run_id step_id a t
     \<and> snd (gs_world st') = snd (gs_world st) @ [(at_request a, at_profile a)]
     \<and> gs_traces st' = map_option (record_llm_call t) (gs_traces st))"

lemma build_trace_facts:
  "trace_of run_id step_id a (build_trace h run_id step_id (at_request a) m r v e (at_retry_count a))"
  "lt_validation_status (build_trace h run_id step_id q m r v e i) = trace_status (sv_status v)"
  by (simp_all add: build_trace_def trace_of_def)

lemma run_attempt_logged:
  assumes "at_provider a = logged p" and "run_attempt cwd h run_id step_id rm a st = (st', res)"
  shows "case res of
      Refused e \<Rightarrow> st' = st \<and> \<not> policy_allows (at_request a) (at_profile a) \<and> (\<exists>m. e = ModelPolicyError m)
    | Failed e \<Rightarrow> \<exists>t. called run_id step_id a st st' t \<and> lt_validation_status t = VS_Failed
    | Answered r pm v \<Rightarrow> answer_ok rm (r, pm, v) \<and>
        (\<exists>t. called run_id step_id a st st' t \<and> lt_validation_status t = trace_status (sv_status v))"
proof (cases "assert_allowed (at_request a) (at_profile a)")
  case (Inl e)
  then have "\<not> policy_allows (at_request a) (at_profile a)" by (simp add: assert_allowed_iff [symmetric])
  with Inl assms(2) assert_allowed_Inl show ?thesis by (auto simp: run_attempt_def)
next
  case (Inr u)
  then have ok: "policy_allows (at_request a) (at_profile a)" by (simp add: assert_allowed_iff [symmetric])
  obtain st1 mref where w1: "write_stage cwd h run_id (step_id @ ''_masked_payload_'' @ str_nat (at_retry_count a))
      (mr_payload (at_request a)) st = (st1, mref)" by fastforce
  note f1 = write_stage_frameD [OF w1]
  obtain w calls where wc: "gs_world st = (w, calls)" by fastforce
  obtain w' x where px: "p (at_request a) (at_profile a) (at_prompt a) w = (w', x)" by fastforce
  show ?thesis
  proof (cases x)
    case (Inl e)
    with assms Inr w1 f1 px ok wc show ?thesis
      by (auto simp: run_attempt_def called_def record_trace_def build_trace_facts validation_of_def trace_status_def
          intro!: exI [of _ "build_trace h run_id step_id (at_request a) mref None
            (validation_of SV_Failed (Some (exc_text e))) (Some (exc_text e)) (at_retry_count a)"])
  next
    case x: (Inr response)
    obtain st2 rref where w2: "write_stage cwd h run_id (step_id @ ''_raw_response_'' @ str_nat (at_retry_count a))
        (ms_output response) (st1\<lparr>gs_world := (w', calls @ [(at_request a, at_profile a)])\<rparr>) = (st2, rref)" by fastforce
    obtain st3 pm v pref where j: "judge cwd h run_id step_id rm (at_retry_count a) response rref st2 = (st3, pm, v, pref)"
      by (metis prod_cases4)
    have ao: "answer_ok rm (r\<lparr>ms_raw_response_ref := a, ms_parsed_output_ref := b\<rparr>, q, v') = answer_ok rm (r, q, v')"
      for r :: model_response and a b q v' by (simp add: answer_ok_def split: option.splits)
    from assms Inr w1 f1 px x w2 j ok wc write_stage_frameD [OF w2] judge_frame [OF j] show ?thesis
      by (auto simp: run_attempt_def called_def record_trace_def build_trace_facts ao Let_def
          intro!: exI [of _ "build_trace h run_id step_id (at_request a) mref
            (Some (response\<lparr>ms_raw_response_ref := Some rref, ms_parsed_output_ref := Some pref\<rparr>))
            v (sv_error_message v) (at_retry_count a)"])
  qed
qed

section \<open>What a completion does\<close>

definition passed_answer :: "'m answer result \<Rightarrow> bool" where
  "passed_answer r = (case r of Inl e \<Rightarrow> False | Inr x \<Rightarrow> sv_status (snd (snd x)) = SV_Passed)"

definition passed_trace :: "llm_call_trace \<Rightarrow> bool" where
  "passed_trace t = (lt_validation_status t = VS_Passed)"

definition loop_outcome :: "string \<Rightarrow> string \<Rightarrow> 'm response_schema option \<Rightarrow> ('w \<times> call_log) attempt list \<Rightarrow>
    ('w \<times> call_log) gateway_state \<Rightarrow> ('w \<times> call_log) gateway_state \<Rightarrow> 'm answer result \<Rightarrow> nat \<Rightarrow>
    llm_call_trace list \<Rightarrow> bool" where
  \<comment> \<open>the first \<open>n\<close> attempts were made, with the traces \<open>ts\<close>\<close>
  "loop_outcome run_id step_id rm as st st' r n ts = (n \<le> length as
     \<and> snd (gs_world st') = snd (gs_world st) @ map (\<lambda>a. (at_request a, at_profile a)) (take n as)
     \<and> list_all (\<lambda>a. policy_allows (at_request a) (at_profile a)) (take n as)
     \<and> list_all2 (trace_of run_id step_id) (take n as) ts
     \<and> gs_traces st' = map_option (fold record_llm_call ts) (gs_traces st)
     \<and> (\<forall>x. r = Inr x \<longrightarrow> answer_ok rm x)
     \<and> (passed_answer r \<longleftrightarrow> list_ex passed_trace ts)
     \<and> (passed_answer r \<or> n = length as
        \<or> n < length as \<and> (\<exists>m. r = Inl (ModelPolicyError m)) \<and> \<not> policy_allows (at_request (as ! n)) (at_profile (as ! n))))"

lemma loop_outcome_Cons:
  assumes "loop_outcome run_id step_id rm as st' st'' r n ts" and "called run_id step_id a st st' t"
    and "\<not> passed_trace t"
  shows "loop_outcome run_id step_id rm (a # as) st st'' r (Suc n) (t # ts)"
  using assms by (auto simp: loop_outcome_def called_def option.map_comp comp_def)

lemma gateway_loop_logged:
  assumes "\<forall>a\<in>set as. \<exists>p. at_provider a = logged p"
    and "gateway_loop cwd h run_id step_id rm as exc answer st = (st', r)"
    and "\<forall>x. answer = Some x \<longrightarrow> answer_ok rm x \<and> sv_status (snd (snd x)) \<noteq> SV_Passed"
  shows "\<exists>n ts. loop_outcome run_id step_id rm as st st' r n ts"
  using assms
proof (induction as arbitrary: exc answer st)
  case Nil
  then have "loop_outcome run_id step_id rm [] st st' r 0 []"
    by (auto simp: loop_outcome_def passed_answer_def option.map_id0 split: option.splits sum.splits)
  then show ?case by blast
next
  case (Cons a as)
  from Cons.prems(1) obtain p where p: "at_provider a = logged p" by auto
  obtain st1 res where ra: "run_attempt cwd h run_id step_id rm a st = (st1, res)" by fastforce
  note step = run_attempt_logged [OF p ra]
  have rest: "\<forall>a\<in>set as. \<exists>p. at_provider a = logged p" using Cons.prems(1) by simp
  show ?case
  proof (cases res)
    case (Refused e)
    with Cons.prems(2) ra step have "loop_outcome run_id step_id rm (a # as) st st' r 0 []"
      by (auto simp: loop_outcome_def passed_answer_def option.map_id0)
    then show ?thesis by blast
  next
    case (Failed e)
    with step obtain t where t: "called run_id step_id a st st1 t" "\<not> passed_trace t"
      by (auto simp: passed_trace_def)
    from Cons.IH [OF rest, of "Some e" answer st1] Cons.prems(2,3) ra Failed
    show ?thesis using loop_outcome_Cons [OF _ t] by fastforce
  next
    case (Answered resp pm v)
    with step obtain t where t: "called run_id step_id a st st1 t" "lt_validation_status t = trace_status (sv_status v)"
      and ok: "answer_ok rm (resp, pm, v)" by auto
    show ?thesis
    proof (cases "sv_status v = SV_Passed")
      case True
      with Cons.prems(2) ra Answered have "st' = st1" "r = Inr (resp, pm, v)" by auto
      with True t ok have "loop_outcome run_id step_id rm (a # as) st st' r (Suc 0) [t]"
        by (auto simp: loop_outcome_def called_def passed_answer_def passed_trace_def trace_status_def comp_def)
      then show ?thesis by blast
    next
      case False
      then have "\<not> passed_trace t" using t(2) by (cases "sv_status v") (auto simp: passed_trace_def trace_status_def)
      with False Cons.IH [OF rest, of exc "Some (resp, pm, v)" st1] Cons.prems(2) ra Answered ok
      show ?thesis using loop_outcome_Cons [OF _ t(1)] by fastforce
    qed
  qed
qed

lemma attempts_logged: "a \<in> set (attempts (logged_client c) request) \<Longrightarrow> \<exists>p. at_provider a = logged p"
  by (auto simp: attempts_def logged_client_def Let_def split: option.splits)

lemma attempts_client:
  "map (\<lambda>a. (at_request a, at_profile a)) (attempts (logged_client c) request) =
     map (\<lambda>a. (at_request a, at_profile a)) (attempts c request)"
  by (simp add: attempts_def logged_client_def Let_def comp_def split: option.splits)

lemma attempts_retry: "i < length (attempts c request) \<Longrightarrow> at_retry_count (attempts c request ! i) = i"
  by (auto simp: attempts_def Let_def nth_append split: option.splits if_splits)

lemma length_attempts:
  "length (attempts c request) = nat (gc_max_validation_retries c + 1)
     + (if gc_fallback_provider c = None \<or> gc_fallback_profile c = None then 0 else 1)"
  by (auto simp: attempts_def Let_def split: option.splits)

lemma gateway_outcome:
  assumes "complete cwd h (logged_client c) run_id step_id request rm st = (st', r)"
  shows "\<exists>n ts. loop_outcome run_id step_id rm (attempts (logged_client c) request) st st' r n ts"
  using gateway_loop_logged [of "attempts (logged_client c) request"] attempts_logged assms
  unfolding complete_def by blast

text \<open>
  Property C12. The policy stands before every call: whatever the providers do, each request they
  receive carries the id of the profile it is sent under, has a classification the profile allows,
  and, when it is restricted or confidential, is marked masked and access-checked; and there are at
  most as many calls as configured attempts.
\<close>

theorem gateway_policy_enforced:
  assumes "complete cwd h (logged_client c) run_id step_id request rm st = (st', r)"
    and "gs_world st = (w, [])" and "gs_world st' = (w', calls)"
  shows "list_all (\<lambda>(q, profile). policy_allows q profile) calls
    \<and> length calls \<le> nat (gc_max_validation_retries c + 1)
        + (if gc_fallback_provider c = None \<or> gc_fallback_profile c = None then 0 else 1)
    \<and> prefix calls (map (\<lambda>a. (at_request a, at_profile a)) (attempts c request))"
proof -
  let ?as = "attempts (logged_client c) request"
  from gateway_outcome [OF assms(1)] obtain n ts where o: "loop_outcome run_id step_id rm ?as st st' r n ts" by auto
  then have calls: "calls = map (\<lambda>a. (at_request a, at_profile a)) (take n ?as)"
    and ok: "list_all (\<lambda>a. policy_allows (at_request a) (at_profile a)) (take n ?as)"
    using assms(2,3) by (auto simp: loop_outcome_def)
  have calls': "calls = take n (map (\<lambda>a. (at_request a, at_profile a)) (attempts c request))"
    unfolding calls take_map [symmetric] attempts_client ..
  have "list_all (\<lambda>(q, profile). policy_allows q profile) calls"
    using ok by (simp add: calls list_all_iff)
  moreover have "length calls \<le> length (attempts c request)" by (simp add: calls')
  ultimately show ?thesis by (simp add: length_attempts calls' take_is_prefix)
qed

text \<open>
  What the client answers is what the response model says of the output it returns: the
  verdict is passed exactly when the model accepts that output (or there is none), the parsed value
  is then the model's, and a failed verdict is returned only after every configured attempt was made.
\<close>

theorem gateway_answer_validated:
  assumes "complete cwd h (logged_client c) run_id step_id request rm st = (st', Inr (resp, parsed, v))"
    and "gs_world st = (w, [])" and "gs_world st' = (w', calls)"
  shows "(sv_status v = SV_Passed \<longleftrightarrow>
       (case rm of None \<Rightarrow> True | Some s \<Rightarrow> \<exists>m. rs_validate s (ms_output resp) = Inr m \<and> parsed = Some m))
    \<and> (sv_status v = SV_Passed \<or> sv_status v = SV_Failed \<and> length calls = length (attempts c request))"
proof -
  from gateway_outcome [OF assms(1)] obtain n ts where
    o: "loop_outcome run_id step_id rm (attempts (logged_client c) request) st st' (Inr (resp, parsed, v)) n ts" by auto
  then have ok: "answer_ok rm (resp, parsed, v)" by (simp add: loop_outcome_def)
  have len: "length (attempts (logged_client c) request) = length (attempts c request)"
    using arg_cong [OF attempts_client [of c request], of length] by simp
  from o assms(2,3) len have "sv_status v = SV_Passed \<or> length calls = length (attempts c request)"
    by (auto simp: loop_outcome_def passed_answer_def)
  with answer_passed_iff [OF ok] answer_not_repaired [OF ok] show ?thesis
    by (cases "sv_status v") auto
qed

text \<open>
  Every call leaves its trace: the trace repository receives one record per call of a
  provider, in order, numbered from zero, under the run and the step; a record says passed exactly
  when the answer passed; and an error is returned only when the policy refused the next attempt or
  every attempt was made.
\<close>

theorem gateway_traces_calls:
  assumes "complete cwd h (logged_client c) run_id step_id request rm st = (st', r)"
    and "gs_world st = (w, [])" and "gs_world st' = (w', calls)" and "gs_traces st = Some tr"
  shows "\<exists>ts. gs_traces st' = Some (fold record_llm_call ts tr)
    \<and> map lt_retry_count ts = map int [0..<length calls]
    \<and> list_all (\<lambda>t. lt_run_id t = run_id \<and> lt_step_id t = step_id) ts
    \<and> (list_ex passed_trace ts \<longleftrightarrow> passed_answer r)
    \<and> (passed_answer r \<or> length calls = length (attempts c request) \<or> (\<exists>m. r = Inl (ModelPolicyError m)))"
proof -
  let ?as = "attempts (logged_client c) request"
  from gateway_outcome [OF assms(1)] obtain n ts where o: "loop_outcome run_id step_id rm ?as st st' r n ts" by auto
  have len: "length ?as = length (attempts c request)"
    using arg_cong [OF attempts_client [of c request], of length] by simp
  from o have n: "n \<le> length ?as" "length calls = n"
    and all2: "list_all2 (trace_of run_id step_id) (take n ?as) ts"
    using assms(2,3) by (auto simp: loop_outcome_def)
  have "map lt_retry_count ts = map int [0..<length calls]"
  proof (rule nth_equalityI)
    show "length (map lt_retry_count ts) = length (map int [0..<length calls])"
      using list_all2_lengthD [OF all2] n by simp
    fix i assume "i < length (map lt_retry_count ts)"
    then show "map lt_retry_count ts ! i = map int [0..<length calls] ! i"
      using list_all2_lengthD [OF all2] list_all2_nthD2 [OF all2, of i] n attempts_retry [of i "logged_client c" request]
      by (simp add: trace_of_def)
  qed
  moreover have "list_all (\<lambda>t. lt_run_id t = run_id \<and> lt_step_id t = step_id) ts"
    using list_all2_nthD2 [OF all2] by (auto simp: list_all_length trace_of_def)
  ultimately show ?thesis
    using o n len assms(4) by (auto simp: loop_outcome_def)
qed

section \<open>Registry\<close>

text \<open>
  A registry hands out only what may be used: a profile it returns is active and is the
  last one given under that id; the prompt it returns for a task is active, is for that task, and no
  other prompt id it holds is active for it.
\<close>

theorem registry_sound:
  "(get_profile (new_registry profiles prompts) i = Inr p \<longleftrightarrow>
      mp_is_active p \<and> map_of (rev (map (\<lambda>p. (mp_model_profile_id p, p)) profiles)) i = Some p)
   \<and> (active_prompt_for_task (new_registry profiles prompts) task = Inr q \<longrightarrow>
      q \<in> set prompts \<and> pv_task_name q = task \<and> pv_status q = PS_Active
      \<and> (\<forall>q'. dget (mg_prompts (new_registry profiles prompts)) (pv_prompt_version_id q') = Some q'
            \<and> pv_task_name q' = task \<and> pv_status q' = PS_Active \<longrightarrow> q' = q))"
proof -
  let ?g = "new_registry profiles prompts"
  have prof: "get_profile ?g i = Inr p \<longleftrightarrow>
      mp_is_active p \<and> map_of (rev (map (\<lambda>p. (mp_model_profile_id p, p)) profiles)) i = Some p"
    by (auto simp: get_profile_def new_registry_def dget_dict_of split: option.splits)
  have "q \<in> set prompts \<and> pv_task_name q = task \<and> pv_status q = PS_Active
      \<and> (\<forall>q'. dget (mg_prompts ?g) (pv_prompt_version_id q') = Some q'
            \<and> pv_task_name q' = task \<and> pv_status q' = PS_Active \<longrightarrow> q' = q)"
    if "active_prompt_for_task ?g task = Inr q"
  proof -
    from that have f: "filter (\<lambda>p. pv_task_name p = task \<and> pv_status p = PS_Active) (dvals (mg_prompts ?g)) = [q]"
      by (auto simp: active_prompt_for_task_def split: list.splits)
    then have q: "q \<in> set (dvals (mg_prompts ?g)) \<and> pv_task_name q = task \<and> pv_status q = PS_Active"
      by (rule filter_eq_Cons_head)
    then obtain k where "dget (mg_prompts ?g) k = Some q"
      by (auto simp: new_registry_def dget_iff)
    then have "q \<in> set prompts"
      by (auto simp: new_registry_def dget_dict_of dest!: map_of_SomeD)
    moreover have "q' = q" if "dget (mg_prompts ?g) (pv_prompt_version_id q') = Some q'"
      "pv_task_name q' = task" "pv_status q' = PS_Active" for q'
    proof -
      have "q' \<in> set (filter (\<lambda>p. pv_task_name p = task \<and> pv_status p = PS_Active) (dvals (mg_prompts ?g)))"
        using dget_in_vals [OF that(1)] that(2,3) by simp
      then show ?thesis unfolding f by simp
    qed
    ultimately show ?thesis using q by blast
  qed
  with prof show ?thesis by blast
qed

section \<open>Comparing candidates\<close>

record 'w gateway_candidate =
  ca_provider :: "'w provider"
  ca_profile :: model_profile
  ca_prompt :: prompt_version
  ca_label :: "string option"

record comparison_result =
  cr_label :: string
  cr_model_profile_id :: string
  cr_prompt_version_id :: string
  cr_validation_status :: string
  cr_validation_error :: "string option"
  cr_output_hash :: "string option"
  cr_output :: jobj
  cr_latency_ms :: "int option"
  cr_input_tokens :: "int option"
  cr_output_tokens :: "int option"
  cr_cost_usd :: "rat option"

record output_diff =
  df_added :: jobj
  df_removed :: jobj
  df_changed :: "(string, json \<times> json) dict"

record comparison_report =
  cp_run_id :: string
  cp_step_id :: string
  cp_input_payload_hash :: string
  cp_compared_model_profile_ids :: "string list"
  cp_compared_prompt_version_ids :: "string list"
  cp_validation_statuses :: "(string, string) dict"
  cp_results :: "comparison_result list"
  cp_output_changed :: bool
  cp_output_diff :: output_diff

definition json_eq :: "json \<Rightarrow> json \<Rightarrow> bool" where
  "json_eq a b = (norm_json a = norm_json b)"

definition diff_outputs :: "jobj \<Rightarrow> jobj \<Rightarrow> output_diff" where
  "diff_outputs left right =
     \<lparr>df_added = map (\<lambda>k. (k, jget right k)) (sort (filter (\<lambda>k. \<not> dhas left k) (dkeys right))),
      df_removed = map (\<lambda>k. (k, jget left k)) (sort (filter (\<lambda>k. \<not> dhas right k) (dkeys left))),
      df_changed = map (\<lambda>k. (k, (jget left k, jget right k)))
        (sort (filter (\<lambda>k. dhas right k \<and> \<not> json_eq (jget left k) (jget right k)) (dkeys left)))\<rparr>"

definition candidate_client :: "'w gateway_candidate \<Rightarrow> 'w gateway_client" where
  "candidate_client c = \<lparr>gc_provider = ca_provider c, gc_profile = ca_profile c, gc_prompt = ca_prompt c,
     gc_max_validation_retries = 0, gc_fallback_provider = None, gc_fallback_profile = None,
     gc_fallback_prompt = None\<rparr>"

definition compare_candidate :: "string list \<Rightarrow> host \<Rightarrow> string \<Rightarrow> string \<Rightarrow> model_request \<Rightarrow> 'm response_schema option \<Rightarrow>
    nat \<Rightarrow> 'w gateway_candidate \<Rightarrow> 'w gateway_state \<Rightarrow> 'w gateway_state \<times> comparison_result" where
  "compare_candidate cwd h run_id step_id request rm index c st =
     (let label = opt_str_or (ca_label c) (mp_model_profile_id (ca_profile c));
          request' = request\<lparr>mr_model_profile_id := mp_model_profile_id (ca_profile c),
            mr_prompt_version_id := pv_prompt_version_id (ca_prompt c)\<rparr>
      in case complete cwd h (candidate_client c) run_id (step_id @ ''_'' @ str_nat index) request' rm st of
           (st', Inr (response, parsed, validation)) \<Rightarrow>
             (st', \<lparr>cr_label = label, cr_model_profile_id = mp_model_profile_id (ca_profile c),
               cr_prompt_version_id = pv_prompt_version_id (ca_prompt c),
               cr_validation_status = structured_status_str (sv_status validation),
               cr_validation_error = sv_error_message validation,
               cr_output_hash = Some (stable_hash h (JObj (ms_output response))),
               cr_output = ms_output response, cr_latency_ms = Some (ms_latency_ms response),
               cr_input_tokens = ms_input_tokens response, cr_output_tokens = ms_output_tokens response,
               cr_cost_usd = ms_cost_usd response\<rparr>)
         | (st', Inl e) \<Rightarrow>
             (st', \<lparr>cr_label = label, cr_model_profile_id = mp_model_profile_id (ca_profile c),
               cr_prompt_version_id = pv_prompt_version_id (ca_prompt c), cr_validation_status = ''failed'',
               cr_validation_error = Some (exc_text e), cr_output_hash = None, cr_output = [],
               cr_latency_ms = None, cr_input_tokens = None, cr_output_tokens = None, cr_cost_usd = None\<rparr>))"

fun compare_loop :: "string list \<Rightarrow> host \<Rightarrow> string \<Rightarrow> string \<Rightarrow> model_request \<Rightarrow> 'm response_schema option \<Rightarrow>
    nat \<Rightarrow> 'w gateway_candidate list \<Rightarrow> 'w gateway_state \<Rightarrow> 'w gateway_state \<times> comparison_result list" where
  "compare_loop cwd h run_id step_id request rm i [] st = (st, [])"
| "compare_loop cwd h run_id step_id request rm i (c # cs) st =
     (case compare_candidate cwd h run_id step_id request rm i c st of
        (st', r) \<Rightarrow> (case compare_loop cwd h run_id step_id request rm (Suc i) cs st' of
           (st'', rs) \<Rightarrow> (st'', r # rs)))"

definition compare_candidates :: "string list \<Rightarrow> host \<Rightarrow> string \<Rightarrow> string \<Rightarrow> model_request \<Rightarrow>
    'w gateway_candidate list \<Rightarrow> 'm response_schema option \<Rightarrow> 'w gateway_state \<Rightarrow>
    'w gateway_state \<times> comparison_report result" where
  \<comment> \<open>\<open>compare_model_gateway_candidates\<close>\<close>
  "compare_candidates cwd h run_id step_id request candidates rm st =
     (if length candidates < 2
      then (st, Inl (ValueError ''at least two candidates are required for comparison''))
      else case compare_loop cwd h run_id step_id request rm 0 candidates st of
        (st', results) \<Rightarrow>
          (let diff = diff_outputs (cr_output (results ! 0)) (cr_output (results ! 1))
           in (st', Inr \<lparr>cp_run_id = run_id, cp_step_id = step_id,
             cp_input_payload_hash = stable_hash h (JObj (mr_payload request)),
             cp_compared_model_profile_ids = unique_non_empty (map (\<lambda>r. Some (cr_model_profile_id r)) results),
             cp_compared_prompt_version_ids = unique_non_empty (map (\<lambda>r. Some (cr_prompt_version_id r)) results),
             cp_validation_statuses = dict_of (map (\<lambda>r. (cr_model_profile_id r, cr_validation_status r)) results),
             cp_results = results,
             cp_output_changed = (df_added diff \<noteq> [] \<or> df_removed diff \<noteq> [] \<or> df_changed diff \<noteq> []),
             cp_output_diff = diff\<rparr>)))"

lemma sort_eq_Nil: "sort xs = [] \<longleftrightarrow> xs = []"
  by (metis length_0_conv length_sort)

lemma compare_candidate_ids:
  assumes "compare_candidate cwd h run_id step_id request rm i c st = (st', r)"
  shows "cr_model_profile_id r = mp_model_profile_id (ca_profile c)
    \<and> cr_prompt_version_id r = pv_prompt_version_id (ca_prompt c)
    \<and> cr_label r = opt_str_or (ca_label c) (mp_model_profile_id (ca_profile c))
    \<and> (cr_output_hash r = None \<longrightarrow> cr_validation_status r = ''failed'')"
  using assms by (auto simp: compare_candidate_def Let_def split: prod.splits sum.splits)

lemma compare_loop_ids:
  "compare_loop cwd h run_id step_id request rm i cs st = (st', rs) \<Longrightarrow>
     map cr_model_profile_id rs = map (\<lambda>c. mp_model_profile_id (ca_profile c)) cs
     \<and> map cr_prompt_version_id rs = map (\<lambda>c. pv_prompt_version_id (ca_prompt c)) cs
     \<and> list_all (\<lambda>r. cr_output_hash r = None \<longrightarrow> cr_validation_status r = ''failed'') rs"
proof (induction cs arbitrary: i st rs)
  case Nil
  then show ?case by simp
next
  case (Cons c cs)
  obtain st1 r where r: "compare_candidate cwd h run_id step_id request rm i c st = (st1, r)" by fastforce
  obtain st2 rs' where rs': "compare_loop cwd h run_id step_id request rm (Suc i) cs st1 = (st2, rs')" by fastforce
  from Cons.prems r rs' have "rs = r # rs'" by simp
  with compare_candidate_ids [OF r] Cons.IH [of "Suc i" st1 rs'] rs' Cons.prems r show ?case by simp
qed

definition outputs_differ :: "jobj \<Rightarrow> jobj \<Rightarrow> bool" where
  \<comment> \<open>some key is on one side only, or on both with values Python tells apart\<close>
  "outputs_differ left right = list_ex (\<lambda>k. case (dget left k, dget right k) of
     (Some a, Some b) \<Rightarrow> \<not> json_eq a b | _ \<Rightarrow> True) (dkeys left @ dkeys right)"

lemma diff_outputs_iff:
  "df_added (diff_outputs a b) \<noteq> [] \<or> df_removed (diff_outputs a b) \<noteq> [] \<or> df_changed (diff_outputs a b) \<noteq> []
     \<longleftrightarrow> outputs_differ a b"
proof -
  have "outputs_differ a b \<longleftrightarrow> (\<exists>k. (dget a k = None \<and> dget b k \<noteq> None) \<or> (dget a k \<noteq> None \<and> dget b k = None)
      \<or> (\<exists>x y. dget a k = Some x \<and> dget b k = Some y \<and> \<not> json_eq x y))"
    unfolding outputs_differ_def list_ex_iff set_append Bex_def Un_iff in_dkeys
    by (intro ex_cong1) (auto split: option.splits)
  moreover have ne: "filter P ks \<noteq> [] \<longleftrightarrow> (\<exists>k. k \<in> set ks \<and> P k)" for P and ks :: "string list"
    by (auto simp: filter_empty_conv)
  have "df_changed (diff_outputs a b) \<noteq> [] \<longleftrightarrow> (\<exists>k x y. dget a k = Some x \<and> dget b k = Some y \<and> \<not> json_eq x y)"
    unfolding diff_outputs_def output_diff.simps list.map_disc_iff
    by (simp only: sort_eq_Nil ne in_dkeys dhas_dget) (force simp: jget_def)
  moreover have "df_added (diff_outputs a b) \<noteq> [] \<longleftrightarrow> (\<exists>k. dget b k \<noteq> None \<and> dget a k = None)"
    unfolding diff_outputs_def output_diff.simps list.map_disc_iff
    by (simp only: sort_eq_Nil ne in_dkeys dhas_dget not_not)
  moreover have "df_removed (diff_outputs a b) \<noteq> [] \<longleftrightarrow> (\<exists>k. dget a k \<noteq> None \<and> dget b k = None)"
    unfolding diff_outputs_def output_diff.simps list.map_disc_iff
    by (simp only: sort_eq_Nil ne in_dkeys dhas_dget not_not)
  ultimately show ?thesis by blast
qed

lemma distinct_keys_card: "dict_ok d \<Longrightarrow> length d = card (fst ` set d)"
  by (metis dict_ok_def distinct_card length_map set_map)

text \<open>
  A comparison of at least two candidates always reports, whatever the providers and the
  policy do: one result per candidate in the given order, a candidate that raised as failed, and the
  outputs of the first two marked changed exactly when they differ as Python compares them.
\<close>

theorem comparison_reports:
  assumes "2 \<le> length candidates"
  shows "\<exists>st' report. compare_candidates cwd h run_id step_id request candidates rm st = (st', Inr report)
    \<and> map cr_model_profile_id (cp_results report) = map (\<lambda>c. mp_model_profile_id (ca_profile c)) candidates
    \<and> map cr_prompt_version_id (cp_results report) = map (\<lambda>c. pv_prompt_version_id (ca_prompt c)) candidates
    \<and> list_all (\<lambda>r. cr_output_hash r = None \<longrightarrow> cr_validation_status r = ''failed'') (cp_results report)
    \<and> (cp_output_changed report \<longleftrightarrow>
         outputs_differ (cr_output (cp_results report ! 0)) (cr_output (cp_results report ! 1)))"
proof -
  obtain st' rs where l: "compare_loop cwd h run_id step_id request rm 0 candidates st = (st', rs)" by fastforce
  with assms show ?thesis
    using compare_loop_ids [OF l] diff_outputs_iff [of "cr_output (rs ! 0)" "cr_output (rs ! 1)"]
    by (auto simp: compare_candidates_def Let_def)
qed

text \<open>
  The verdicts of a report are kept per model profile, not per candidate: there are as
  many as different profiles, so candidates that differ in the prompt only share one, and it is the
  verdict of the last of them.
\<close>

theorem comparison_statuses_collapse:
  assumes "compare_candidates cwd h run_id step_id request (cs @ [c]) rm st = (st', Inr report)"
  shows "length (cp_validation_statuses report) = card ((\<lambda>c. mp_model_profile_id (ca_profile c)) ` set (cs @ [c]))
    \<and> dget (cp_validation_statuses report) (mp_model_profile_id (ca_profile c))
        = Some (cr_validation_status (last (cp_results report)))"
proof -
  obtain st1 rs where l: "compare_loop cwd h run_id step_id request rm 0 (cs @ [c]) st = (st1, rs)" by fastforce
  with assms have rs: "cp_results report = rs"
    and vs: "cp_validation_statuses report = dict_of (map (\<lambda>r. (cr_model_profile_id r, cr_validation_status r)) rs)"
    by (auto simp: compare_candidates_def Let_def split: if_splits)
  have ids: "map cr_model_profile_id rs = map (\<lambda>c. mp_model_profile_id (ca_profile c)) (cs @ [c])"
    using compare_loop_ids [OF l] by blast
  then obtain rs' r where r: "rs = rs' @ [r]" "cr_model_profile_id r = mp_model_profile_id (ca_profile c)"
    by (cases rs rule: rev_cases) auto
  have "cr_model_profile_id ` set rs = (\<lambda>c. mp_model_profile_id (ca_profile c)) ` set (cs @ [c])"
    using arg_cong [OF ids, of set] by simp
  then have "length (cp_validation_statuses report) = card ((\<lambda>c. mp_model_profile_id (ca_profile c)) ` set (cs @ [c]))"
    unfolding vs distinct_keys_card [OF dict_ok_dict_of] set_dkeys_dict_of by (simp add: image_image)
  then show ?thesis using r by (simp add: rs vs dget_dict_of)
qed

section \<open>Instances\<close>

definition demo_profile :: model_profile where
  "demo_profile = \<lparr>mp_model_profile_id = ''m'', mp_provider = MP_Dummy, mp_model_name = ''d'',
     mp_endpoint_alias = ''l'', mp_allowed_data_classes = [''restricted''], mp_supports_json_schema = True,
     mp_supports_tool_calling = False, mp_max_context_tokens = 8192, mp_default_temperature = 0,
     mp_timeout_seconds = 30, mp_is_active = True, mp_schema_version = ''v1''\<rparr>"

definition demo_prompt :: "string \<Rightarrow> prompt_version" where
  "demo_prompt i = \<lparr>pv_prompt_version_id = i, pv_task_name = PK_Edge_Linking, pv_template = ''t'',
     pv_schema_version_ref = ''s'', pv_retrieval_policy_id = ''r'', pv_created_by = ''system'',
     pv_created_at = 0, pv_status = PS_Active, pv_schema_version = ''v1''\<rparr>"

definition demo_request :: model_request where
  "demo_request = \<lparr>mr_model_profile_id = ''m'', mr_prompt_version_id = ''p'',
     mr_payload = [(''fixture_name'', JStr ''f'')], mr_data_classification = ''restricted'',
     mr_masking_applied = True, mr_access_checked = True, mr_schema_version = ''v1''\<rparr>"

definition demo_client :: "unit gateway_client" where
  "demo_client = \<lparr>gc_provider = dummy_complete demo_host [(''f'', [])], gc_profile = demo_profile,
     gc_prompt = demo_prompt ''p'', gc_max_validation_retries = 1, gc_fallback_provider = None,
     gc_fallback_profile = None, gc_fallback_prompt = None\<rparr>"

definition demo_gateway :: "(unit \<times> call_log) gateway_state" where
  "demo_gateway = \<lparr>gs_world = ((), []), gs_traces = Some empty_traces, gs_store = None\<rparr>"

definition demo_candidate :: "string \<Rightarrow> (unit \<times> call_log) gateway_candidate" where
  "demo_candidate i = \<lparr>ca_provider = logged (dummy_complete demo_host [(''f'', [])]), ca_profile = demo_profile,
     ca_prompt = demo_prompt i, ca_label = None\<rparr>"

definition reject_all :: "unit response_schema" where
  "reject_all = \<lparr>rs_validate = (\<lambda>o'. Inl ''no''), rs_dump = (\<lambda>m. [])\<rparr>"

lemma demo_complete:
  "\<exists>st' resp v. complete [] demo_host (logged_client demo_client) ''r'' ''s'' demo_request (Some reject_all) demo_gateway
     = (st', Inr (resp, None, v)) \<and> sv_status v = SV_Failed"
  by (simp add: complete_def attempts_def logged_client_def demo_client_def demo_request_def demo_profile_def
      demo_prompt_def demo_gateway_def run_attempt_def assert_allowed_def write_stage_def dummy_complete_def
      jget_or_def py_str_def judge_def reject_all_def validate_structured_output_def validation_of_def
      record_trace_def upt_rec Let_def)

lemma gateway_policy_enforced_witness:
  "\<exists>st' calls r. complete [] demo_host (logged_client demo_client) ''r'' ''s'' demo_request (Some reject_all) demo_gateway
     = (st', r) \<and> gs_world st' = ((), calls) \<and> list_all (\<lambda>(q, profile). policy_allows q profile) calls"
proof -
  obtain st' r where c: "complete [] demo_host (logged_client demo_client) ''r'' ''s'' demo_request (Some reject_all)
      demo_gateway = (st', r)" by fastforce
  have "gs_world demo_gateway = ((), [])" by (simp add: demo_gateway_def)
  moreover have "gs_world st' = ((), snd (gs_world st'))" by (simp add: prod_eq_iff)
  ultimately show ?thesis using c gateway_policy_enforced [OF c] by blast
qed

lemma gateway_answer_validated_witness:
  "\<exists>st' resp v calls. complete [] demo_host (logged_client demo_client) ''r'' ''s'' demo_request (Some reject_all)
     demo_gateway = (st', Inr (resp, None, v)) \<and> gs_world st' = ((), calls)
     \<and> length calls = length (attempts demo_client demo_request)"
proof -
  obtain st' resp v where c: "complete [] demo_host (logged_client demo_client) ''r'' ''s'' demo_request
      (Some reject_all) demo_gateway = (st', Inr (resp, None, v))" and v: "sv_status v = SV_Failed"
    using demo_complete by blast
  have w: "gs_world demo_gateway = ((), [])" "gs_world st' = ((), snd (gs_world st'))"
    by (simp_all add: demo_gateway_def prod_eq_iff)
  from gateway_answer_validated [OF c w] v have "length (snd (gs_world st')) = length (attempts demo_client demo_request)"
    by simp
  with c w(2) show ?thesis by blast
qed

lemma gateway_traces_calls_witness:
  "\<exists>st' r ts. complete [] demo_host (logged_client demo_client) ''r'' ''s'' demo_request (Some reject_all) demo_gateway
     = (st', r) \<and> gs_traces st' = Some (fold record_llm_call ts empty_traces)"
proof -
  obtain st' r where c: "complete [] demo_host (logged_client demo_client) ''r'' ''s'' demo_request (Some reject_all)
      demo_gateway = (st', r)" by fastforce
  have "gs_world demo_gateway = ((), [])" "gs_world st' = ((), snd (gs_world st'))"
    "gs_traces demo_gateway = Some empty_traces"
    by (simp_all add: demo_gateway_def prod_eq_iff)
  from gateway_traces_calls [OF c this] c show ?thesis by blast
qed

lemma registry_sound_witness:
  "demo_prompt ''p'' \<in> set [demo_prompt ''p'']"
  using registry_sound [of "[demo_profile]" "[demo_prompt ''p'']" "''m''" demo_profile PK_Edge_Linking "demo_prompt ''p''"]
  by (simp add: active_prompt_for_task_def new_registry_def dict_of_def demo_prompt_def)

lemma comparison_reports_witness:
  "\<exists>st' report. compare_candidates [] demo_host ''r'' ''s'' demo_request [demo_candidate ''p'', demo_candidate ''q'']
     (Some reject_all) demo_gateway = (st', Inr report)"
  using comparison_reports [of "[demo_candidate ''p'', demo_candidate ''q'']" "[]" demo_host "''r''" "''s''"
      demo_request "Some reject_all" demo_gateway] by auto

lemma comparison_statuses_collapse_witness:
  "\<exists>st' report. compare_candidates [] demo_host ''r'' ''s'' demo_request [demo_candidate ''p'', demo_candidate ''q'']
     (Some reject_all) demo_gateway = (st', Inr report) \<and> length (cp_validation_statuses report) = 1"
proof -
  obtain st' rs where "compare_loop [] demo_host ''r'' ''s'' demo_request (Some reject_all) 0
      ([demo_candidate ''p''] @ [demo_candidate ''q'']) demo_gateway = (st', rs)" by fastforce
  then obtain report where c: "compare_candidates [] demo_host ''r'' ''s'' demo_request
      ([demo_candidate ''p''] @ [demo_candidate ''q'']) (Some reject_all) demo_gateway = (st', Inr report)"
    by (simp add: compare_candidates_def Let_def)
  from comparison_statuses_collapse [OF c] have "length (cp_validation_statuses report) = 1"
    by (simp add: demo_candidate_def)
  with c show ?thesis by auto
qed

end
