(* ===== verification/Masking.thy ===== *)
theory Masking
  imports Gateway
begin

text \<open>
  \<open>ingestion/masking.py\<close>: the three masking patterns, \<open>re.subn\<close> over them, and the search for what
  remains. The patterns are terms of a small language of regular expressions with the backtracking
  order of Python's \<open>re\<close>: \<open>matches r s\<close> lists the rests of \<open>s\<close> after a match at its start, the
  preferred one first. The patterns a source brings along itself are searched by an argument, which
  answers \<open>None\<close> where \<open>re\<close> rejects the pattern.
\<close>

section \<open>Regular expressions\<close>

datatype rex =
    Eps
  | Lit "char \<Rightarrow> bool"
  | Many1 "char \<Rightarrow> bool"
  | Cat rex rex
  | Alt rex rex
  | Not_Ahead string

fun matches :: "rex \<Rightarrow> string \<Rightarrow> string list" where
  "matches Eps s = [s]"
| "matches (Lit P) s = (case s of [] \<Rightarrow> [] | c # t \<Rightarrow> if P c then [t] else [])"
| "matches (Many1 P) s = map (\<lambda>n. drop n s) (rev [1..<Suc (length (takeWhile P s))])"
| "matches (Cat r q) s = concat (map (matches q) (matches r s))"
| "matches (Alt r q) s = matches r s @ matches q s"
| "matches (Not_Ahead w) s = (if prefix w s then [] else [s])"

fun rex_search :: "rex \<Rightarrow> string \<Rightarrow> bool" where
  \<comment> \<open>\<open>re.search(r, s) is not None\<close>\<close>
  "rex_search r [] = (matches r [] \<noteq> [])"
| "rex_search r (c # s) = (matches r (c # s) \<noteq> [] \<or> rex_search r s)"

function subn :: "rex \<Rightarrow> (string \<Rightarrow> string) \<Rightarrow> string \<Rightarrow> string \<times> nat" where
  \<comment> \<open>\<open>re.subn\<close> for a pattern that matches no empty text\<close>
  "subn r f [] = ([], 0)"
| "subn r f (c # s) =
     (case matches r (c # s) of
        rest # _ \<Rightarrow>
          if length rest \<le> length s
          then (case subn r f rest of (t, n) \<Rightarrow> (f (take (Suc (length s) - length rest) (c # s)) @ t, Suc n))
          else (case subn r f s of (t, n) \<Rightarrow> (c # t, n))
      | [] \<Rightarrow> (case subn r f s of (t, n) \<Rightarrow> (c # t, n)))"
  by pat_completeness auto
termination
  by (relation "measure (\<lambda>(r, f, s). length s)") auto

section \<open>The patterns\<close>

definition is_alpha :: "char \<Rightarrow> bool" where
  "is_alpha c = (65 \<le> cp c \<and> cp c \<le> 90 \<or> 97 \<le> cp c \<and> cp c \<le> 122)"

definition is_alnum :: "char \<Rightarrow> bool" where
  "is_alnum c = (is_alpha c \<or> is_ascii_digit c)"

definition is_word_or :: "string \<Rightarrow> char \<Rightarrow> bool" where
  \<comment> \<open>\<open>[A-Za-z0-9...]\<close> with the given further characters\<close>
  "is_word_or extra c = (is_alnum c \<or> c \<in> set extra)"

fun rex_word :: "(char \<Rightarrow> char) \<Rightarrow> string \<Rightarrow> rex" where
  "rex_word fc [] = Eps"
| "rex_word fc (c # cs) = Cat (Lit (\<lambda>x. fc x = c)) (rex_word fc cs)"

definition email_rex :: rex where
  "email_rex = Cat (Many1 (is_word_or ''._%+-'')) (Cat (Lit (\<lambda>c. c = CHR ''@''))
     (Cat (Many1 (is_word_or ''.-'')) (Cat (Lit (\<lambda>c. c = CHR ''.'')) (Cat (Lit is_alpha) (Many1 is_alpha)))))"

definition serial_rex :: rex where
  "serial_rex = Cat (rex_word (\<lambda>c. c) ''SN-'') (Many1 (is_word_or ''-''))"

definition secret_key_rex :: rex where
  "secret_key_rex = Cat (Alt (rex_word lower_char ''token'') (Alt (rex_word lower_char ''api_key'')
     (rex_word lower_char ''password''))) (Lit (\<lambda>c. c = CHR ''=''))"

definition secret_rex :: rex where
  "secret_rex = Cat secret_key_rex (Many1 (\<lambda>c. \<not> is_space_char c))"

definition visible_secret_rex :: rex where
  "visible_secret_rex = Cat secret_key_rex (Cat (Not_Ahead ''[SECRET]'') (Many1 (\<lambda>c. \<not> is_space_char c)))"

definition mask_secret :: "string \<Rightarrow> string" where
  \<comment> \<open>the replacement \<open>\1=[SECRET]\<close>: the first group is the text before the equals sign\<close>
  "mask_secret m = takeWhile (\<lambda>c. c \<noteq> CHR ''='') m @ ''=[SECRET]''"

definition mask_patterns :: "(rex \<times> (string \<Rightarrow> string) \<times> string) list" where
  "mask_patterns = [(email_rex, \<lambda>m. ''[EMAIL]'', ''email''),
     (serial_rex, \<lambda>m. ''[DEVICE_SERIAL]'', ''device_serial''),
     (secret_rex, mask_secret, ''secret'')]"

definition default_forbidden :: "(rex \<times> string) list" where
  "default_forbidden = [(email_rex, ''email''), (serial_rex, ''device_serial''), (visible_secret_rex, ''secret'')]"

record masking_result =
  mk_text :: string
  mk_redaction_count :: nat
  mk_labels :: "string list"

definition mask_step :: "rex \<times> (string \<Rightarrow> string) \<times> string \<Rightarrow> masking_result \<Rightarrow> masking_result" where
  "mask_step p m = (case p of (pattern, replacement, label) \<Rightarrow>
     (case subn pattern replacement (mk_text m) of (masked, n) \<Rightarrow>
        if n = 0 then m\<lparr>mk_text := masked\<rparr>
        else \<lparr>mk_text = masked, mk_redaction_count = mk_redaction_count m + n,
          mk_labels = mk_labels m @ [label]\<rparr>))"

definition mask_text :: "string \<Rightarrow> masking_result" where
  "mask_text t = fold mask_step mask_patterns \<lparr>mk_text = t, mk_redaction_count = 0, mk_labels = []\<rparr>"

definition forbidden_label :: "(string \<Rightarrow> string \<Rightarrow> bool option) \<Rightarrow> string \<Rightarrow> nat \<times> json \<Rightarrow> string list" where
  "forbidden_label re_search text ip =
     (let invalid = [''invalid_forbidden_pattern:'' @ str_nat (fst ip)]
      in case snd ip of
           JStr p \<Rightarrow> if p = [] then invalid
             else (case re_search p text of None \<Rightarrow> invalid
               | Some found \<Rightarrow> if found then [''forbidden_pattern:'' @ str_nat (fst ip)] else [])
         | _ \<Rightarrow> invalid)"

definition find_masking_violations :: "(string \<Rightarrow> string \<Rightarrow> bool option) \<Rightarrow> string \<Rightarrow> json \<Rightarrow> string list" where
  "find_masking_violations re_search text forbidden_patterns =
     (let defaults = map snd (filter (\<lambda>p. rex_search (fst p) text) default_forbidden);
          own = (case forbidden_patterns of
            JList ps \<Rightarrow> concat (map (forbidden_label re_search text) (enumerate 0 ps)) | _ \<Rightarrow> [])
      in fromkeys (defaults @ own))"

section \<open>What a pattern matches\<close>

fun lang :: "rex \<Rightarrow> string set" where
  "lang Eps = {[]}"
| "lang (Lit P) = {w. \<exists>c. w = [c] \<and> P c}"
| "lang (Many1 P) = {w. w \<noteq> [] \<and> list_all P w}"
| "lang (Cat r q) = {w. \<exists>u v. w = u @ v \<and> u \<in> lang r \<and> v \<in> lang q}"
| "lang (Alt r q) = lang r \<union> lang q"
| "lang (Not_Ahead w) = {[]}"

fun ahead_free :: "rex \<Rightarrow> bool" where
  "ahead_free (Cat r q) = (ahead_free r \<and> ahead_free q)"
| "ahead_free (Alt r q) = (ahead_free r \<and> ahead_free q)"
| "ahead_free (Not_Ahead w) = False"
| "ahead_free r = True"

lemma matches_Many1:
  "rest \<in> set (matches (Many1 P) s) \<longleftrightarrow> (\<exists>w. w \<noteq> [] \<and> list_all P w \<and> s = w @ rest)"
proof
  assume "rest \<in> set (matches (Many1 P) s)"
  then obtain n where n: "1 \<le> n" "n \<le> length (takeWhile P s)" "rest = drop n s" by auto
  have "take n s = take n (takeWhile P s)" using n(2) by (metis append_take_drop_id takeWhile_dropWhile_id take_append
        diff_is_0_eq' take0 append_Nil2)
  then have "list_all P (take n s)" by (metis in_set_takeD list_all_iff set_takeWhileD)
  moreover have "take n s \<noteq> []" using n(1,2) length_takeWhile_le [of P s] by auto
  ultimately show "\<exists>w. w \<noteq> [] \<and> list_all P w \<and> s = w @ rest" using n(3) by (metis append_take_drop_id)
next
  assume "\<exists>w. w \<noteq> [] \<and> list_all P w \<and> s = w @ rest"
  then obtain w where w: "w \<noteq> []" "list_all P w" "s = w @ rest" by blast
  then have "length w \<le> length (takeWhile P s)" by (simp add: list_all_iff takeWhile_append2)
  moreover have "1 \<le> length w" using w(1) by (cases w) auto
  ultimately have "length w \<in> set (rev [1..<Suc (length (takeWhile P s))])" by auto
  moreover have "rest = drop (length w) s" using w(3) by simp
  ultimately show "rest \<in> set (matches (Many1 P) s)" unfolding matches.simps set_map by (rule rev_image_eqI)
qed

lemma matches_lang:
  "ahead_free r \<Longrightarrow> rest \<in> set (matches r s) \<longleftrightarrow> (\<exists>w\<in>lang r. s = w @ rest)"
proof (induction r arbitrary: s rest)
  case (Lit P)
  then show ?case by (auto split: list.splits)
next
  case (Many1 P)
  show ?case unfolding matches_Many1 by auto
next
  case (Cat r q)
  then show ?case by (fastforce simp: Bex_def)
next
  case (Alt r q)
  then show ?case by (auto simp: Bex_def)
qed auto

lemma matches_ne_lang: "ahead_free r \<Longrightarrow> matches r s \<noteq> [] \<longleftrightarrow> (\<exists>w\<in>lang r. prefix w s)"
  using matches_lang [of r _ s] by (metis list.set_intros(1) list.set_sel(1) empty_iff empty_set prefix_def)

lemma rex_search_suffix: "rex_search r s \<longleftrightarrow> (\<exists>u. suffix u s \<and> matches r u \<noteq> [])"
  by (induction s) (auto simp: suffix_Cons)

section \<open>What a substitution leaves\<close>

definition bracket_free :: "string \<Rightarrow> bool" where
  "bracket_free w = (CHR ''['' \<notin> set w \<and> CHR '']'' \<notin> set w)"

definition clean :: "rex \<Rightarrow> string \<Rightarrow> bool" where
  "clean r s = (\<forall>w\<in>lang r. \<not> sublist w s)"

lemma clean_search:
  assumes "ahead_free r"
  shows "clean r s \<longleftrightarrow> \<not> rex_search r s"
proof -
  have "sublist w s \<longleftrightarrow> (\<exists>u. suffix u s \<and> prefix w u)" for w
    by (auto simp: sublist_def suffix_def prefix_def)
  then show ?thesis
    unfolding clean_def rex_search_suffix matches_ne_lang [OF assms] by blast
qed

lemma sublist_split:
  assumes "c \<notin> set w" and "sublist w (xs @ c # ys)"
  shows "sublist w xs \<or> sublist w ys"
proof -
  from assms(2) consider "sublist w xs" | "sublist w (c # ys)"
    | w1 w2 where "w = w1 @ w2" "suffix w1 xs" "prefix w2 (c # ys)"
    unfolding sublist_append by blast
  then show ?thesis
  proof cases
    case 2
    then show ?thesis using assms(1) by (auto simp: sublist_Cons_right prefix_Cons)
  next
    case 3
    then have "w2 = []" using assms(1) by (auto simp: prefix_Cons)
    with 3 show ?thesis by (auto intro: suffix_imp_sublist)
  qed simp
qed

lemma prefix_split: "c \<notin> set w \<Longrightarrow> prefix w (xs @ c # ys) \<Longrightarrow> prefix w xs"
  by (induction xs arbitrary: w) (auto simp: prefix_Cons)

text \<open>
  A masking rule: a pattern and a replacement that keeps a prefix of the matched text and ends in a
  label between brackets.
\<close>

locale masking_rule =
  fixes r :: rex and f :: "string \<Rightarrow> string" and kept :: "string \<Rightarrow> string" and lab :: string
  assumes ahead: "ahead_free r"
    and nonempty: "[] \<notin> lang r"
    and replacement: "m \<in> lang r \<Longrightarrow> f m = kept m @ CHR ''['' # lab @ [CHR '']'']"
    and kept_prefix: "m \<in> lang r \<Longrightarrow> prefix (kept m) m"
begin

definition masked :: "string \<Rightarrow> string" where
  "masked s = fst (subn r f s)"

lemma masked_Nil: "masked [] = []"
  by (simp add: masked_def)

lemma masked_skip: "matches r (c # t) = [] \<Longrightarrow> masked (c # t) = c # masked t"
  by (simp add: masked_def split: prod.splits)

lemma masked_hit:
  assumes "matches r (c # t) = rest # others"
  shows "\<exists>m\<in>lang r. c # t = m @ rest \<and> length rest \<le> length t
    \<and> masked (c # t) = kept m @ CHR ''['' # lab @ CHR '']'' # masked rest"
proof -
  have "rest \<in> set (matches r (c # t))" using assms by simp
  then obtain m where m: "m \<in> lang r" "c # t = m @ rest" using matches_lang [OF ahead] by blast
  then have len: "length rest \<le> length t" using nonempty by (cases m) auto
  have tk: "take (Suc (length t) - length rest) (c # t) = m"
  proof -
    have "Suc (length t) = length m + length rest" using arg_cong [OF m(2), of length] by simp
    then show ?thesis unfolding m(2) by simp
  qed
  have "masked (c # t) = f (take (Suc (length t) - length rest) (c # t)) @ masked rest"
    using assms len by (simp add: masked_def split: prod.splits)
  then have "masked (c # t) = kept m @ CHR ''['' # lab @ CHR '']'' # masked rest"
    unfolding tk replacement [OF m(1)] by simp
  with m len show ?thesis by blast
qed

lemma masked_induct [case_names Nil skip hit]:
  assumes "P []"
    and "\<And>c t. matches r (c # t) = [] \<Longrightarrow> P t \<Longrightarrow> P (c # t)"
    and "\<And>m rest. m \<in> lang r \<Longrightarrow> masked (m @ rest) = kept m @ CHR ''['' # lab @ CHR '']'' # masked rest \<Longrightarrow>
           P rest \<Longrightarrow> P (m @ rest)"
  shows "P s"
proof (induction s rule: length_induct)
  case (1 s)
  show ?case
  proof (cases s)
    case Nil
    then show ?thesis using assms(1) by simp
  next
    case (Cons c t)
    show ?thesis
    proof (cases "matches r (c # t)")
      case Nil
      then show ?thesis using assms(2) 1 Cons by simp
    next
      case (Cons rest others)
      from masked_hit [OF this] obtain m where m: "m \<in> lang r" "c # t = m @ rest" "length rest \<le> length t"
        "masked (c # t) = kept m @ CHR ''['' # lab @ CHR '']'' # masked rest" by blast
      have "length rest < length s" using m(3) \<open>s = c # t\<close> by simp
      with 1 have "P rest" by blast
      with assms(3) [of m rest] m \<open>s = c # t\<close> show ?thesis by simp
    qed
  qed
qed

lemma masked_prefix:
  assumes "CHR ''['' \<notin> set w" and "prefix w (masked s)"
  shows "prefix w s"
  using assms
proof (induction s arbitrary: w rule: masked_induct)
  case Nil
  then show ?case by (simp add: masked_Nil)
next
  case (skip c t)
  then show ?case by (auto simp: masked_skip prefix_Cons)
next
  case (hit m rest)
  then have "prefix w (kept m)" using prefix_split [of "CHR ''[''" w "kept m"] by simp
  then show ?case using kept_prefix [OF hit(1)] by (metis prefix_order.trans prefix_prefix)
qed

lemma masked_sublist:
  assumes "bracket_free w" and "sublist w (masked s)"
  shows "sublist w s \<or> sublist w lab"
  using assms(2)
proof (induction s rule: masked_induct)
  case Nil
  then show ?case by (simp add: masked_Nil)
next
  case (skip c t)
  from skip(3) have "prefix w (masked (c # t)) \<or> sublist w (masked t)"
    by (simp add: masked_skip [OF skip(1)] sublist_Cons_right)
  then show ?case
    using masked_prefix [of w "c # t"] skip(2) assms(1)
    by (auto simp: bracket_free_def sublist_Cons_right)
next
  case (hit m rest)
  have b: "CHR ''['' \<notin> set w" "CHR '']'' \<notin> set w" using assms(1) by (simp_all add: bracket_free_def)
  from hit(4) have "sublist w (kept m) \<or> sublist w lab \<or> sublist w (masked rest)"
    unfolding hit(2) using sublist_split [OF b(1)] sublist_split [OF b(2)] by metis
  moreover have "sublist (kept m) (m @ rest)"
    using kept_prefix [OF hit(1)] by (metis prefix_imp_sublist prefix_prefix)
  moreover have "sublist rest (m @ rest)" by simp
  ultimately show ?case using hit(3) by (metis sublist_order.order_trans)
qed

lemma masked_keeps_clean:
  assumes "clean q s" and "\<And>w. w \<in> lang q \<Longrightarrow> bracket_free w \<and> \<not> sublist w lab"
  shows "clean q (masked s)"
  using assms masked_sublist unfolding clean_def by blast

lemma masked_clean:
  assumes "\<And>m. m \<in> lang r \<Longrightarrow> kept m = []" and "\<And>w. w \<in> lang r \<Longrightarrow> bracket_free w \<and> \<not> sublist w lab"
  shows "clean r (masked s)"
proof (induction s rule: masked_induct)
  case Nil
  then show ?case using nonempty by (auto simp: clean_def masked_Nil)
next
  case (skip c t)
  have "\<not> sublist w (c # masked t)" if w: "w \<in> lang r" for w
  proof
    assume "sublist w (c # masked t)"
    then have "prefix w (masked (c # t))"
      using skip(2) w by (auto simp: clean_def sublist_Cons_right masked_skip [OF skip(1)])
    then have "prefix w (c # t)" using masked_prefix assms(2) [OF w] by (simp add: bracket_free_def)
    with w skip(1) show False using matches_ne_lang [OF ahead] by blast
  qed
  then show ?case by (simp add: clean_def masked_skip [OF skip(1)])
next
  case (hit m rest)
  have "\<not> sublist w (CHR ''['' # lab @ CHR '']'' # masked rest)" if w: "w \<in> lang r" for w
    using sublist_split [of "CHR ''[''" w "[]" "lab @ CHR '']'' # masked rest"]
      sublist_split [of "CHR '']''" w lab "masked rest"] assms(2) [OF w] hit(3) w nonempty
    by (auto simp: clean_def bracket_free_def)
  then show ?case using assms(1) [OF hit(1)] hit(2) by (simp add: clean_def)
qed

end

section \<open>The three rules\<close>

lemma lang_Cat_Lit: "w \<in> lang (Cat (Lit P) q) \<longleftrightarrow> (\<exists>c v. w = c # v \<and> P c \<and> v \<in> lang q)"
proof
  assume "w \<in> lang (Cat (Lit P) q)"
  then show "\<exists>c v. w = c # v \<and> P c \<and> v \<in> lang q" by auto
next
  assume "\<exists>c v. w = c # v \<and> P c \<and> v \<in> lang q"
  then obtain c v where "w = [c] @ v" "P c" "v \<in> lang q" by auto
  then show "w \<in> lang (Cat (Lit P) q)" unfolding lang.simps mem_Collect_eq by blast
qed

lemma lang_rex_word: "lang (rex_word fc w) = {v. map fc v = w}"
proof (induction w)
  case (Cons c w)
  show ?case
    unfolding set_eq_iff rex_word.simps lang_Cat_Lit Cons.IH mem_Collect_eq map_eq_Cons_conv by blast
qed simp

definition secret_keys :: "string set" where
  "secret_keys = {k. map lower_char k \<in> {''token'', ''api_key'', ''password''}}"

lemma lang_secret_key: "lang secret_key_rex = {w. \<exists>k\<in>secret_keys. w = k @ ''=''}"
proof -
  have "w \<in> lang secret_key_rex \<longleftrightarrow> (\<exists>k v. w = k @ v \<and> k \<in> secret_keys \<and> v = ''='')" for w
    unfolding secret_key_rex_def lang.simps lang_rex_word secret_keys_def by auto
  then show ?thesis by auto
qed

lemma lang_secret: "lang secret_rex = {w. \<exists>k\<in>secret_keys. \<exists>v. w = k @ CHR ''='' # v \<and> v \<noteq> [] \<and> list_all (\<lambda>c. \<not> is_space_char c) v}"
proof -
  have "w \<in> lang secret_rex \<longleftrightarrow> (\<exists>k\<in>secret_keys. \<exists>v. w = (k @ ''='') @ v \<and> v \<noteq> [] \<and> list_all (\<lambda>c. \<not> is_space_char c) v)" for w
    unfolding secret_rex_def lang.simps lang_secret_key mem_Collect_eq by blast
  then show ?thesis by auto
qed

lemma lower_char_special:
  "lower_char CHR ''['' = CHR ''[''" "lower_char CHR '']'' = CHR '']''" "lower_char CHR ''='' = CHR ''=''"
  by (simp_all add: lower_char_def cp_def)

lemma lower_char_space: "is_space_char c \<Longrightarrow> lower_char c = c"
  by (auto simp: is_space_char_def lower_char_def Let_def)

lemma secret_key_chars:
  assumes "k \<in> secret_keys" and "lower_char c = c" and "c \<notin> set ''tokenapi_keypassword''"
  shows "c \<notin> set k"
proof
  assume "c \<in> set k"
  then have "lower_char c \<in> set (map lower_char k)" by simp
  with assms show False by (auto simp: secret_keys_def)
qed

lemma secret_key_plain:
  assumes "k \<in> secret_keys"
  shows "CHR ''['' \<notin> set k" and "CHR '']'' \<notin> set k" and "CHR ''='' \<notin> set k"
    and "is_space_char c \<Longrightarrow> c \<notin> set k" and "k \<noteq> []"
proof -
  show "CHR ''['' \<notin> set k" "CHR '']'' \<notin> set k" "CHR ''='' \<notin> set k"
    by (rule secret_key_chars [OF assms]; simp add: lower_char_special)+
  show "c \<notin> set k" if "is_space_char c"
    using that by (intro secret_key_chars [OF assms] lower_char_space) (auto simp: is_space_char_def cp_def Let_def)
  show "k \<noteq> []" using assms by (auto simp: secret_keys_def)
qed

lemma word_or_bracket:
  "is_word_or ''-'' c \<Longrightarrow> c \<noteq> CHR ''['' \<and> c \<noteq> CHR '']''" "is_word_or ''.-'' c \<Longrightarrow> c \<noteq> CHR ''['' \<and> c \<noteq> CHR '']''"
  "is_word_or ''._%+-'' c \<Longrightarrow> c \<noteq> CHR ''['' \<and> c \<noteq> CHR '']''" "is_alpha c \<Longrightarrow> c \<noteq> CHR ''['' \<and> c \<noteq> CHR '']''"
  by (auto simp: is_word_or_def is_alnum_def is_alpha_def is_ascii_digit_def cp_def)

lemma list_all_bracket_free:
  "list_all P w \<Longrightarrow> (\<And>c. P c \<Longrightarrow> c \<noteq> CHR ''['' \<and> c \<noteq> CHR '']'') \<Longrightarrow> bracket_free w"
  by (auto simp: list_all_iff bracket_free_def)

lemma bracket_free_append [simp]: "bracket_free (u @ v) \<longleftrightarrow> bracket_free u \<and> bracket_free v"
  by (auto simp: bracket_free_def)

lemma bracket_free_Cons [simp]: "bracket_free (c # v) \<longleftrightarrow> c \<noteq> CHR ''['' \<and> c \<noteq> CHR '']'' \<and> bracket_free v"
  by (auto simp: bracket_free_def)

lemma email_words: "w \<in> lang email_rex \<Longrightarrow> bracket_free w \<and> CHR ''@'' \<in> set w"
proof -
  assume "w \<in> lang email_rex"
  then obtain a b c d where w: "w = a @ CHR ''@'' # b @ CHR ''.'' # c # d" "list_all (is_word_or ''._%+-'') a"
    "list_all (is_word_or ''.-'') b" "is_alpha c" "list_all is_alpha d"
    by (auto simp: email_rex_def)
  then show ?thesis
    using list_all_bracket_free [OF w(2) word_or_bracket(3)] list_all_bracket_free [OF w(3) word_or_bracket(2)]
      list_all_bracket_free [OF w(5) word_or_bracket(4)] word_or_bracket(4) [OF w(4)] by simp
qed

lemma serial_words: "w \<in> lang serial_rex \<Longrightarrow> bracket_free w \<and> CHR ''-'' \<in> set w"
proof -
  assume "w \<in> lang serial_rex"
  then obtain v where w: "w = ''SN-'' @ v" "list_all (is_word_or ''-'') v"
    by (auto simp: serial_rex_def lang_rex_word simp del: rex_word.simps)
  then show ?thesis
    using list_all_bracket_free [OF w(2) word_or_bracket(1)] by (simp add: bracket_free_def)
qed

lemma not_sublist: "c \<in> set w \<Longrightarrow> c \<notin> set l \<Longrightarrow> \<not> sublist w l"
  by (meson set_mono_sublist subsetD)

interpretation email: masking_rule email_rex "\<lambda>m. ''[EMAIL]''" "\<lambda>m. []" "''EMAIL''"
  by unfold_locales (auto simp: email_rex_def)

interpretation serial: masking_rule serial_rex "\<lambda>m. ''[DEVICE_SERIAL]''" "\<lambda>m. []" "''DEVICE_SERIAL''"
  by unfold_locales (auto simp: serial_rex_def lang_rex_word)

lemma takeWhile_key: "k \<in> secret_keys \<Longrightarrow> takeWhile (\<lambda>c. c \<noteq> CHR ''='') (k @ CHR ''='' # v) = k"
proof -
  assume "k \<in> secret_keys"
  then have "\<forall>c\<in>set k. c \<noteq> CHR ''=''" using secret_key_plain(3) by blast
  then show ?thesis by (simp add: takeWhile_append2)
qed

interpretation secret: masking_rule secret_rex mask_secret "\<lambda>m. takeWhile (\<lambda>c. c \<noteq> CHR ''='') m @ ''=''" "''SECRET''"
proof unfold_locales
  show "ahead_free secret_rex" by (simp add: secret_rex_def secret_key_rex_def)
  show "[] \<notin> lang secret_rex" by (simp add: lang_secret)
  show "mask_secret m = (takeWhile (\<lambda>c. c \<noteq> CHR ''='') m @ ''='') @ CHR ''['' # ''SECRET'' @ [CHR '']'']" for m
    by (simp add: mask_secret_def)
  show "prefix (takeWhile (\<lambda>c. c \<noteq> CHR ''='') m @ ''='') m" if "m \<in> lang secret_rex" for m
    using that takeWhile_key by (auto simp: lang_secret)
qed

lemma email_clean: "clean email_rex (email.masked s)"
  using email_words not_sublist [of "CHR ''@''"] by (intro email.masked_clean) auto

lemma serial_clean: "clean serial_rex (serial.masked s)"
  using serial_words not_sublist [of "CHR ''-''"] by (intro serial.masked_clean) auto

lemma serial_keeps_email: "clean email_rex s \<Longrightarrow> clean email_rex (serial.masked s)"
  using email_words not_sublist [of "CHR ''@''"] by (intro serial.masked_keeps_clean) auto

lemma secret_keeps_email: "clean email_rex s \<Longrightarrow> clean email_rex (secret.masked s)"
  using email_words not_sublist [of "CHR ''@''"] by (intro secret.masked_keeps_clean) auto

lemma secret_keeps_serial: "clean serial_rex s \<Longrightarrow> clean serial_rex (secret.masked s)"
  using serial_words not_sublist [of "CHR ''-''"] by (intro secret.masked_keeps_clean) auto

section \<open>No secret stays visible\<close>

definition visible :: "string \<Rightarrow> bool" where
  \<comment> \<open>a key, an equals sign and a text that is not the mask\<close>
  "visible u = (matches visible_secret_rex u \<noteq> [])"

lemma map_in_set_Nil: "(\<exists>x\<in>set xs. g x \<noteq> []) \<longleftrightarrow> concat (map g xs) \<noteq> []"
  by (induction xs) auto

lemma visible_iff: "visible u \<longleftrightarrow>
    (\<exists>k\<in>secret_keys. \<exists>d x. u = k @ CHR ''='' # d # x \<and> \<not> is_space_char d \<and> \<not> prefix ''[SECRET]'' (d # x))"
proof -
  have key: "set (matches secret_key_rex u) = {v. \<exists>k\<in>secret_keys. u = k @ CHR ''='' # v}"
  proof -
    have "ahead_free secret_key_rex" by (simp add: secret_key_rex_def)
    from matches_lang [OF this, of _ u] show ?thesis unfolding lang_secret_key by auto
  qed
  have tail: "matches (Cat (Not_Ahead ''[SECRET]'') (Many1 (\<lambda>c. \<not> is_space_char c))) v \<noteq> [] \<longleftrightarrow>
      \<not> prefix ''[SECRET]'' v \<and> (\<exists>d x. v = d # x \<and> \<not> is_space_char d)" for v
    by (cases v) auto
  have "visible u \<longleftrightarrow> (\<exists>v\<in>set (matches secret_key_rex u).
      matches (Cat (Not_Ahead ''[SECRET]'') (Many1 (\<lambda>c. \<not> is_space_char c))) v \<noteq> [])"
    unfolding visible_def visible_secret_rex_def matches.simps(4) [of secret_key_rex] by (rule map_in_set_Nil [symmetric])
  then show ?thesis unfolding key tail by blast
qed

lemma secret_hit_iff: "matches secret_rex u \<noteq> [] \<longleftrightarrow>
    (\<exists>k\<in>secret_keys. \<exists>d x. u = k @ CHR ''='' # d # x \<and> \<not> is_space_char d)"
proof -
  have "ahead_free secret_rex" by (rule secret.ahead)
  from matches_ne_lang [OF this, of u] have "matches secret_rex u \<noteq> [] \<longleftrightarrow> (\<exists>w\<in>lang secret_rex. prefix w u)" .
  also have "\<dots> \<longleftrightarrow> (\<exists>k\<in>secret_keys. \<exists>d x. u = k @ CHR ''='' # d # x \<and> \<not> is_space_char d)"
  proof
    assume "\<exists>w\<in>lang secret_rex. prefix w u"
    then obtain k v y where kv: "k \<in> secret_keys" "u = k @ CHR ''='' # v @ y" "v \<noteq> []"
      "list_all (\<lambda>c. \<not> is_space_char c) v"
      by (auto simp: lang_secret prefix_def)
    then obtain d v' where "v = d # v'" by (cases v) auto
    with kv show "\<exists>k\<in>secret_keys. \<exists>d x. u = k @ CHR ''='' # d # x \<and> \<not> is_space_char d" by auto
  next
    assume "\<exists>k\<in>secret_keys. \<exists>d x. u = k @ CHR ''='' # d # x \<and> \<not> is_space_char d"
    then obtain k d x where k: "k \<in> secret_keys" "u = (k @ CHR ''='' # [d]) @ x" "\<not> is_space_char d" by auto
    have "[d] \<noteq> [] \<and> list_all (\<lambda>c. \<not> is_space_char c) [d]" using k(3) by simp
    with k(1) have "k @ CHR ''='' # [d] \<in> lang secret_rex" unfolding lang_secret mem_Collect_eq by blast
    moreover have "prefix (k @ CHR ''='' # [d]) u" unfolding k(2) by (rule prefixI) simp
    ultimately show "\<exists>w\<in>lang secret_rex. prefix w u" by blast
  qed
  finally show ?thesis .
qed

lemma key_unique:
  assumes "CHR ''='' \<notin> set k" and "CHR ''='' \<notin> set k'" and "k @ CHR ''='' # v = k' @ CHR ''='' # v'"
  shows "k = k' \<and> v = v'"
  using assms
proof (induction k arbitrary: k')
  case Nil
  then show ?case by (cases k') auto
next
  case (Cons c k)
  then show ?case by (cases k') auto
qed

lemma secret_copies:
  assumes "CHR ''='' \<notin> set k" and "y = [] \<or> is_space_char (hd y)"
  shows "secret.masked (k @ CHR ''='' # y) = k @ CHR ''='' # secret.masked y"
  using assms(1)
proof (induction k)
  case Nil
  have "matches secret_rex (CHR ''='' # y) = []"
  proof (rule ccontr)
    assume "matches secret_rex (CHR ''='' # y) \<noteq> []"
    then obtain k d x where "k \<in> secret_keys" "CHR ''='' # y = k @ CHR ''='' # d # x"
      unfolding secret_hit_iff by blast
    then show False using secret_key_plain(3,5) [of k] by (cases k) auto
  qed
  then show ?case by (simp add: secret.masked_skip)
next
  case (Cons c k)
  have "matches secret_rex (c # k @ CHR ''='' # y) = []"
  proof (rule ccontr)
    assume "matches secret_rex (c # k @ CHR ''='' # y) \<noteq> []"
    then obtain k' d x where "k' \<in> secret_keys" "(c # k) @ CHR ''='' # y = k' @ CHR ''='' # d # x" "\<not> is_space_char d"
      unfolding secret_hit_iff by auto
    then show False using key_unique [of "c # k" k' y "d # x"] Cons.prems secret_key_plain(3) [of k'] assms(2) by auto
  qed
  with Cons show ?case by (simp add: secret.masked_skip)
qed

lemma space_first:
  assumes "y = [] \<or> is_space_char (hd y)" and "secret.masked y = d # x"
  shows "is_space_char d"
proof (cases y)
  case Nil
  then show ?thesis using assms(2) by (simp add: secret.masked_Nil)
next
  case (Cons c z)
  then have c: "is_space_char c" using assms(1) by simp
  have "matches secret_rex (c # z) = []"
  proof (rule ccontr)
    assume "matches secret_rex (c # z) \<noteq> []"
    then obtain k d x where "k \<in> secret_keys" "c # z = k @ CHR ''='' # d # x" unfolding secret_hit_iff by blast
    then show False using secret_key_plain(4) [of k c] secret_key_plain(5) [of k] c by (cases k) auto
  qed
  then show ?thesis using assms(2) Cons c by (simp add: secret.masked_skip)
qed

lemma not_visible_in_mask:
  assumes "p \<noteq> []" and "suffix p (k @ ''=[SECRET]'')" and "CHR ''='' \<notin> set k"
  shows "\<not> visible (p @ rest)"
proof
  assume "visible (p @ rest)"
  then obtain k' d x where v: "k' \<in> secret_keys" "p @ rest = k' @ CHR ''='' # d # x" "\<not> prefix ''[SECRET]'' (d # x)"
    unfolding visible_iff by blast
  from assms(2) consider k1 where "p = k1 @ ''=[SECRET]''" "suffix k1 k" | "suffix p ''[SECRET]''"
    using suffix_Cons [of p "CHR ''=''" "''[SECRET]''"] suffix_append [of p k "''=[SECRET]''"]
    by (metis append_Nil suffix_bot.bot_least)
  then show False
  proof cases
    case 1
    then have "CHR ''='' \<notin> set k1" using assms(3) by (meson set_mono_suffix subsetD)
    with 1 v key_unique [of k1 k' "''[SECRET]'' @ rest" "d # x"] secret_key_plain(3) [OF v(1)]
    show False by auto
  next
    case 2
    then obtain q where q: "p = q @ '']''" "CHR ''='' \<notin> set p"
      using assms(1) by (auto simp: suffix_Cons)
    have "q @ CHR '']'' # rest = k' @ CHR ''='' # d # x" using v(2) q(1) by simp
    then have "CHR '']'' \<in> set k'"
    proof -
      have "take (length p) (p @ rest) = p" by simp
      moreover have "length p \<le> length k'"
      proof (rule ccontr)
        assume "\<not> length p \<le> length k'"
        then have "(p @ rest) ! length k' \<in> set p" by (simp add: nth_append)
        moreover have "(p @ rest) ! length k' = CHR ''=''" unfolding v(2) by simp
        ultimately show False using q(2) by simp
      qed
      moreover have "take (length p) (k' @ CHR ''='' # d # x) = take (length p) k'" using calculation(2) by simp
      ultimately have "p = take (length p) k'" unfolding v(2) by metis
      then show ?thesis using q(1) by (metis in_set_conv_decomp in_set_takeD)
    qed
    then show False using secret_key_plain(2) [OF v(1)] by simp
  qed
qed

lemma secret_not_visible: "suffix u (secret.masked s) \<Longrightarrow> \<not> visible u"
proof (induction s arbitrary: u rule: secret.masked_induct)
  case Nil
  then have "u = []" by (simp add: secret.masked_Nil)
  then show ?case using secret_key_plain(5) by (auto simp: visible_iff)
next
  case (skip c t)
  show ?case
  proof (cases "u = c # secret.masked t")
    case False
    with skip show ?thesis by (auto simp: secret.masked_skip suffix_Cons)
  next
    case True
    show ?thesis
    proof
      assume "visible u"
      then obtain k d x where v: "k \<in> secret_keys" "u = k @ CHR ''='' # d # x" "\<not> is_space_char d"
        unfolding visible_iff by blast
      have m: "secret.masked (c # t) = k @ CHR ''='' # d # x" using True v(2) secret.masked_skip [OF skip(1)] by metis
      have "prefix (k @ ''='') (secret.masked (c # t))" unfolding m by simp
      moreover have "CHR ''['' \<notin> set (k @ ''='')" using secret_key_plain(1) [OF v(1)] by simp
      ultimately have "prefix (k @ ''='') (c # t)" using secret.masked_prefix by blast
      then obtain y where y: "c # t = k @ CHR ''='' # y" by (auto simp: prefix_def)
      then have sp: "y = [] \<or> is_space_char (hd y)"
        using skip(1) v(1) secret_hit_iff [of "c # t"] by (metis list.exhaust_sel)
      from secret_copies [OF secret_key_plain(3) [OF v(1)] sp] m y have "secret.masked y = d # x" by simp
      from space_first [OF sp this] v(3) show False by simp
    qed
  qed
next
  case (hit m rest)
  let ?k = "takeWhile (\<lambda>c. c \<noteq> CHR ''='') m"
  have eq: "secret.masked (m @ rest) = (?k @ ''=[SECRET]'') @ secret.masked rest" using hit(2) by simp
  from hit(4) have "suffix u (secret.masked rest) \<or> (\<exists>p. u = p @ secret.masked rest \<and> suffix p (?k @ ''=[SECRET]''))"
    unfolding eq suffix_append .
  then consider "suffix u (secret.masked rest)"
    | p where "u = p @ secret.masked rest" "suffix p (?k @ ''=[SECRET]'')" "p \<noteq> []"
    by (metis append_Nil suffix_order.order_refl)
  then show ?case
  proof cases
    case 1
    then show ?thesis by (rule hit(3))
  next
    case 2
    then show ?thesis using not_visible_in_mask [of p ?k] by (auto dest: set_takeWhileD)
  qed
qed

section \<open>Properties\<close>

lemma mask_text_masked: "mk_text (mask_text t) = secret.masked (serial.masked (email.masked t))"
  by (simp add: mask_text_def mask_patterns_def mask_step_def secret.masked_def serial.masked_def email.masked_def
      split: prod.splits)

lemma mask_text_clean: "clean email_rex (mk_text (mask_text t)) \<and> clean serial_rex (mk_text (mask_text t))"
  unfolding mask_text_masked
  by (intro conjI secret_keeps_email serial_keeps_email email_clean secret_keeps_serial serial_clean)

lemma clean_sublist: "clean r s \<Longrightarrow> sublist u s \<Longrightarrow> clean r u"
  using sublist_order.order_trans unfolding clean_def by blast

lemma mask_text_no_default: "filter (\<lambda>p. rex_search (fst p) (mk_text (mask_text t))) default_forbidden = []"
proof -
  let ?m = "mk_text (mask_text t)"
  have e: "\<not> rex_search email_rex ?m" using mask_text_clean [of t] clean_search [OF email.ahead] by simp
  have s: "\<not> rex_search serial_rex ?m" using mask_text_clean [of t] clean_search [OF serial.ahead] by simp
  have "\<not> rex_search visible_secret_rex ?m"
    unfolding mask_text_masked rex_search_suffix using secret_not_visible by (auto simp: visible_def)
  with e s show ?thesis by (simp add: default_forbidden_def)
qed

text \<open>
  Property C15. Masking leaves nothing that the default policy forbids: after \<open>mask_text\<close>, whatever the
  text, no mail address, no serial number and no unmasked secret is found, so the only violations
  reported are those of the patterns the source itself forbids.
\<close>

theorem mask_text_complete:
  "find_masking_violations re_search (mk_text (mask_text t)) forbidden =
     (case forbidden of
        JList ps \<Rightarrow> fromkeys (concat (map (forbidden_label re_search (mk_text (mask_text t))) (enumerate 0 ps)))
      | _ \<Rightarrow> [])"
  by (simp add: find_masking_violations_def mask_text_no_default split: json.splits)

end
