(* ===== verification/Reasoning.thy ===== *)
theory Reasoning
  imports Ingestion
begin

text \<open>
  \<open>reasoning/extraction.py\<close> and \<open>reasoning/linking.py\<close>: one node from one source artifact by keywords,
  and the candidate edges from source links and relation metadata.
\<close>

section \<open>Node extraction\<close>

definition type_keywords :: "(string \<times> node_type) list" where
  "type_keywords = [(''shall'', Requirement), (''must'', Requirement),
     (''architecture'', Architecture_Block), (''design'', Design_Spec),
     (''verification'', Verification), (''test'', Verification), (''issue'', Issue), (''risk'', Risk)]"

definition infer_type :: "raw_source_artifact \<Rightarrow> node_type" where
  "infer_type raw =
     (let text = py_lower (ra_title raw @ '' '' @ ra_body_text raw @ '' '' @ py_join '' '' (ra_labels raw))
      in case find (\<lambda>kt. py_in (fst kt) text) type_keywords of
           Some kt \<Rightarrow> snd kt
         | None \<Rightarrow> Design_Spec)"

definition explicit_type :: "raw_source_artifact \<Rightarrow> node_type result" where
  \<comment> \<open>\<open>explicit if isinstance(explicit, str) else _infer_type(raw)\<close>, with the check of the literal type\<close>
  "explicit_type raw = (case jget (ra_metadata raw) ''mbse_type'' of
       JStr s \<Rightarrow> (case node_type_of s of Some t \<Rightarrow> Inr t | None \<Rightarrow> Inl (ValidationError ''node_type''))
     | _ \<Rightarrow> Inr (infer_type raw))"

definition extract_node :: "raw_source_artifact \<Rightarrow> source_artifact \<Rightarrow> evidence_span \<Rightarrow> ontology_node result" where
  "extract_node raw artifact evidence =
     rbind (explicit_type raw) (\<lambda>t. mk_node
       \<lparr>on_node_id = node_id (sa_project_key artifact) (ra_external_id raw),
        on_node_type = t, on_name = ra_title raw, on_description = ra_body_text raw,
        on_project_key = sa_project_key artifact, on_domain = None,
        on_lifecycle_state = LS_Active, on_source_artifact_ids = [sa_artifact_id artifact],
        on_evidence = [evidence], on_created_by = By_Source,
        on_confidence_score = (if truthy (jget (ra_metadata raw) ''mbse_type'') then 95 / 100 else 65 / 100),
        on_version = 1, on_schema_version = ''v1''\<rparr>)"

lemma extract_node_ok: "extract_node raw a ev = Inr n \<Longrightarrow> node_ok n \<and> on_evidence n = [ev]
    \<and> on_node_id n = node_id (sa_project_key a) (ra_external_id raw) \<and> on_project_key n = sa_project_key a"
  by (auto simp: extract_node_def mk_node_def rbind_Inr_iff split: if_splits)

lemma infer_type_requirement:
  assumes "py_in ''shall'' (py_lower (ra_title raw @ '' '' @ ra_body_text raw @ '' '' @ py_join '' '' (ra_labels raw)))"
  shows "infer_type raw = Requirement"
  using assms by (simp add: infer_type_def type_keywords_def Let_def)

section \<open>Linking\<close>

definition default_relation :: "ontology_node \<Rightarrow> ontology_node \<Rightarrow> edge_relation" where
  "default_relation source target =
     (if on_node_type source = Verification then Verifies
      else if on_node_type source \<in> {Design_Spec, Architecture_Block}
           then (if on_node_type target \<noteq> Requirement then Implements else Satisfies)
      else if on_node_type source \<in> {Issue, Risk} then Affects
      else Derives)"

definition node_by_external :: "ontology_node list \<Rightarrow> (string, ontology_node) dict" where
  "node_by_external nodes = dict_of (map (\<lambda>n. (external_id_from_node n, n)) nodes)"

definition raw_relations :: "raw_source_artifact \<Rightarrow> jobj" where
  \<comment> \<open>\<open>raw.metadata.get("relations", {})\<close>, or no entries where it is no dictionary\<close>
  "raw_relations raw = (case dget (ra_metadata raw) ''relations'' of Some (JObj d) \<Rightarrow> d | _ \<Rightarrow> [])"

definition in_valid_relations :: "json \<Rightarrow> edge_relation option result" where
  \<comment> \<open>membership in the set \<open>_VALID_RELATIONS\<close>: a list or a dictionary cannot be hashed\<close>
  "in_valid_relations v = (case v of
       JStr s \<Rightarrow> Inr (relation_of s)
     | JList _ \<Rightarrow> Inl (PyTypeError ''unhashable type'')
     | JObj _ \<Rightarrow> Inl (PyTypeError ''unhashable type'')
     | _ \<Rightarrow> Inr None)"

definition candidate_edge :: "host \<Rightarrow> raw_source_artifact \<Rightarrow> string \<Rightarrow> ontology_node \<Rightarrow> ontology_node \<Rightarrow>
    edge_relation \<Rightarrow> evidence_span \<Rightarrow> traceability_edge" where
  "candidate_edge h raw target_external_id source_node target_node relation evidence =
     \<lparr>te_edge_id = edge_id h (on_node_id source_node) (relation_str relation) (on_node_id target_node),
      te_source_node_id = on_node_id source_node, te_target_node_id = on_node_id target_node,
      te_relation = relation,
      te_reasoning = ''Source link from '' @ ra_external_id raw @ '' to '' @ target_external_id @ ''.'',
      te_evidence = [evidence], te_is_inferred = (relation \<in> {Affects, Conflicts_With}),
      te_confidence_score = 8 / 10, te_approval_status = AS_Pending, te_approved_by = None,
      te_approved_at = None, te_version = 1, te_schema_version = ''v1''\<rparr>"

definition link_target :: "host \<Rightarrow> (string, ontology_node) dict \<Rightarrow> (string, evidence_span) dict \<Rightarrow>
    raw_source_artifact \<Rightarrow> ontology_node \<Rightarrow> string \<Rightarrow> traceability_edge option result" where
  \<comment> \<open>the body of the inner loop: \<open>None\<close> is \<open>continue\<close>\<close>
  "link_target h nodes evidence_by_external_id raw source_node target_external_id =
     (case dget nodes target_external_id of
        None \<Rightarrow> Inr None
      | Some target_node \<Rightarrow>
          rbind (in_valid_relations (jget_or (raw_relations raw) target_external_id
                   (JStr (relation_str (default_relation source_node target_node)))))
            (\<lambda>r. case r of
               None \<Rightarrow> Inr None
             | Some relation \<Rightarrow>
                 (case dget evidence_by_external_id (ra_external_id raw) of
                    None \<Rightarrow> Inr None
                  | Some evidence \<Rightarrow>
                      rbind (mk_edge (candidate_edge h raw target_external_id source_node target_node
                               relation evidence)) (\<lambda>e. Inr (Some e)))))"

fun link_targets :: "host \<Rightarrow> (string, ontology_node) dict \<Rightarrow> (string, evidence_span) dict \<Rightarrow>
    raw_source_artifact \<Rightarrow> ontology_node \<Rightarrow> string list \<Rightarrow> (string, traceability_edge) dict \<Rightarrow>
    (string, traceability_edge) dict result" where
  "link_targets h nodes ev raw source_node [] edges = Inr edges"
| "link_targets h nodes ev raw source_node (t # ts) edges =
     rbind (link_target h nodes ev raw source_node t) (\<lambda>r.
       link_targets h nodes ev raw source_node ts
         (case r of None \<Rightarrow> edges | Some e \<Rightarrow> dset (te_edge_id e) e edges))"

fun link_raws :: "host \<Rightarrow> (string, ontology_node) dict \<Rightarrow> (string, evidence_span) dict \<Rightarrow>
    raw_source_artifact list \<Rightarrow> (string, traceability_edge) dict \<Rightarrow> (string, traceability_edge) dict result" where
  "link_raws h nodes ev [] edges = Inr edges"
| "link_raws h nodes ev (raw # raws) edges =
     (case dget nodes (ra_external_id raw) of
        None \<Rightarrow> link_raws h nodes ev raws edges
      | Some source_node \<Rightarrow>
          rbind (link_targets h nodes ev raw source_node (ra_links raw) edges)
            (link_raws h nodes ev raws))"

definition link_edges :: "host \<Rightarrow> raw_source_artifact list \<Rightarrow> ontology_node list \<Rightarrow>
    (string, evidence_span) dict \<Rightarrow> traceability_edge list result" where
  "link_edges h raws nodes evidence_by_external_id =
     rbind (link_raws h (node_by_external nodes) evidence_by_external_id raws [])
       (\<lambda>edges. Inr (dvals edges))"

subsection \<open>What the candidates are\<close>

definition linked :: "host \<Rightarrow> (string, ontology_node) dict \<Rightarrow> (string, evidence_span) dict \<Rightarrow>
    raw_source_artifact \<Rightarrow> string \<Rightarrow> traceability_edge \<Rightarrow> bool" where
  \<comment> \<open>the edge the link of a raw artifact to an external id stands for\<close>
  "linked h nodes ev raw t e = (\<exists>s tn r v. dget nodes (ra_external_id raw) = Some s \<and> dget nodes t = Some tn
     \<and> in_valid_relations (jget_or (raw_relations raw) t (JStr (relation_str (default_relation s tn)))) = Inr (Some r)
     \<and> dget ev (ra_external_id raw) = Some v \<and> e = candidate_edge h raw t s tn r v)"

lemma candidate_edge_ok: "mk_edge (candidate_edge h raw t s tn r v) = Inr (candidate_edge h raw t s tn r v)"
  by (simp add: mk_edge_def edge_ok_def candidate_edge_def)

lemma link_target_Some:
  assumes "dget nodes (ra_external_id raw) = Some s"
  shows "link_target h nodes ev raw s t = Inr (Some e) \<longleftrightarrow> linked h nodes ev raw t e"
proof (cases "dget nodes t")
  case None
  then show ?thesis by (simp add: link_target_def linked_def)
next
  case (Some tn)
  define m where "m = in_valid_relations
    (jget_or (raw_relations raw) t (JStr (relation_str (default_relation s tn))))"
  show ?thesis
  proof (cases "\<exists>r v. m = Inr (Some r) \<and> dget ev (ra_external_id raw) = Some v")
    case True
    with assms Some show ?thesis
      by (auto simp: link_target_def linked_def candidate_edge_ok simp flip: m_def)
  next
    case False
    have "link_target h nodes ev raw s t = (case m of Inl e \<Rightarrow> Inl e | Inr x \<Rightarrow> Inr None)"
      using assms Some False by (auto simp: link_target_def rbind_def m_def [symmetric] split: sum.splits option.splits)
    with assms Some False show ?thesis
      by (auto simp: linked_def simp flip: m_def split: sum.splits)
  qed
qed

lemma link_targets_spec:
  assumes "dget nodes (ra_external_id raw) = Some s"
    and "link_targets h nodes ev raw s ts edges = Inr edges'" and "dict_by te_edge_id edges"
  shows "dict_by te_edge_id edges'
    \<and> (\<forall>e\<in>set (dvals edges'). e \<in> set (dvals edges) \<or> (\<exists>t\<in>set ts. linked h nodes ev raw t e))
    \<and> fst ` set edges' = fst ` set edges \<union> te_edge_id ` {e. \<exists>t\<in>set ts. linked h nodes ev raw t e}"
  using assms(2,3)
proof (induction ts arbitrary: edges)
  case Nil
  then show ?case by simp
next
  case (Cons t ts)
  from Cons.prems obtain r where r: "link_target h nodes ev raw s t = Inr r"
    "link_targets h nodes ev raw s ts (case r of None \<Rightarrow> edges | Some e \<Rightarrow> dset (te_edge_id e) e edges) = Inr edges'"
    by (auto simp: rbind_Inr_iff)
  note linkS = link_target_Some [OF assms(1), of h ev t]
  show ?case
  proof (cases r)
    case None
    then have "\<not> linked h nodes ev raw t e" for e using r(1) linkS [of e] by simp
    with Cons.IH [of edges] Cons.prems r None show ?thesis by auto
  next
    case (Some e)
    then have l: "linked h nodes ev raw t e'  \<longleftrightarrow> e' = e" for e' using r(1) linkS [of e'] by auto
    from Cons.IH [of "dset (te_edge_id e) e edges"] Cons.prems(2) r Some
    have IH: "dict_by te_edge_id edges'"
      "\<forall>e'\<in>set (dvals edges'). e' \<in> set (dvals (dset (te_edge_id e) e edges)) \<or> (\<exists>t\<in>set ts. linked h nodes ev raw t e')"
      "fst ` set edges' = insert (te_edge_id e) (fst ` set edges) \<union> te_edge_id ` {e'. \<exists>t\<in>set ts. linked h nodes ev raw t e'}"
      by (auto simp del: set_map)
    have "\<forall>e'\<in>set (dvals edges'). e' \<in> set (dvals edges) \<or> (\<exists>t'\<in>set (t # ts). linked h nodes ev raw t' e')"
      using IH(2) l by (auto simp del: set_map dest!: in_dvals_dset)
    moreover have "{e'. \<exists>t'\<in>set (t # ts). linked h nodes ev raw t' e'}
        = insert e {e'. \<exists>t'\<in>set ts. linked h nodes ev raw t' e'}"
      using l by auto
    ultimately show ?thesis using IH(1,3) by (simp del: set_map)
  qed
qed

lemma link_raws_spec:
  assumes "link_raws h nodes ev raws edges = Inr edges'" and "dict_by te_edge_id edges"
  shows "dict_by te_edge_id edges'
    \<and> (\<forall>e\<in>set (dvals edges'). e \<in> set (dvals edges)
         \<or> (\<exists>raw\<in>set raws. \<exists>t\<in>set (ra_links raw). linked h nodes ev raw t e))
    \<and> fst ` set edges' = fst ` set edges
        \<union> te_edge_id ` {e. \<exists>raw\<in>set raws. \<exists>t\<in>set (ra_links raw). linked h nodes ev raw t e}"
  using assms
proof (induction raws arbitrary: edges)
  case Nil
  then show ?case by simp
next
  case (Cons raw raws)
  show ?case
  proof (cases "dget nodes (ra_external_id raw)")
    case None
    then have "\<not> linked h nodes ev raw t e" for t e by (simp add: linked_def)
    with Cons None show ?thesis by auto
  next
    case (Some s)
    with Cons.prems obtain edges1 where e1: "link_targets h nodes ev raw s (ra_links raw) edges = Inr edges1"
      "link_raws h nodes ev raws edges1 = Inr edges'"
      by (auto simp: rbind_Inr_iff)
    note L = link_targets_spec [OF Some e1(1) Cons.prems(2)]
    note R = Cons.IH [OF e1(2) conjunct1 [OF L]]
    have "fst ` set edges' = fst ` set edges
        \<union> te_edge_id ` {e. \<exists>raw'\<in>set (raw # raws). \<exists>t\<in>set (ra_links raw'). linked h nodes ev raw' t e}"
    proof -
      have "{e. \<exists>raw'\<in>set (raw # raws). \<exists>t\<in>set (ra_links raw'). linked h nodes ev raw' t e}
          = {e. \<exists>t\<in>set (ra_links raw). linked h nodes ev raw t e}
            \<union> {e. \<exists>raw'\<in>set raws. \<exists>t\<in>set (ra_links raw'). linked h nodes ev raw' t e}"
        by auto
      with L R show ?thesis by (simp only: image_Un Un_assoc)
    qed
    moreover have "\<forall>e\<in>set (dvals edges'). e \<in> set (dvals edges)
         \<or> (\<exists>raw'\<in>set (raw # raws). \<exists>t\<in>set (ra_links raw'). linked h nodes ev raw' t e)"
    proof
      fix e assume "e \<in> set (dvals edges')"
      then consider "e \<in> set (dvals edges1)"
        | "\<exists>raw\<in>set raws. \<exists>t\<in>set (ra_links raw). linked h nodes ev raw t e"
        using R by blast
      then show "e \<in> set (dvals edges)
         \<or> (\<exists>raw'\<in>set (raw # raws). \<exists>t\<in>set (ra_links raw'). linked h nodes ev raw' t e)"
      proof cases
        case 1
        with L have "e \<in> set (dvals edges) \<or> (\<exists>t\<in>set (ra_links raw). linked h nodes ev raw t e)" by blast
        then show ?thesis by auto
      next
        case 2
        then show ?thesis by auto
      qed
    qed
    ultimately show ?thesis using R by blast
  qed
qed

lemma node_by_external_in: "dget (node_by_external nodes) k = Some n \<Longrightarrow> on_node_id n \<in> on_node_id ` set nodes"
  by (auto simp: node_by_external_def dget_dict_of dest!: map_of_SomeD)

lemma linked_edge_ok:
  assumes "linked h (node_by_external nodes) ev raw t e" and "\<forall>v\<in>set (dvals ev). evidence_ok v"
  shows "edge_full_ok e \<and> te_approval_status e = AS_Pending
     \<and> te_edge_id e = edge_id h (te_source_node_id e) (relation_str (te_relation e)) (te_target_node_id e)
     \<and> te_source_node_id e \<in> on_node_id ` set nodes \<and> te_target_node_id e \<in> on_node_id ` set nodes"
proof -
  from assms(1) obtain s tn r v where sub: "dget (node_by_external nodes) (ra_external_id raw) = Some s"
    "dget (node_by_external nodes) t = Some tn" "dget ev (ra_external_id raw) = Some v"
    "e = candidate_edge h raw t s tn r v"
    by (auto simp: linked_def)
  have "evidence_ok v" using assms(2) dget_in_vals [OF sub(3)] by blast
  then show ?thesis
    using sub node_by_external_in [OF sub(1)] node_by_external_in [OF sub(2)]
    by (simp add: edge_full_ok_def edge_ok_def candidate_edge_def)
qed

lemma link_edges_linked:
  "link_edges h raws nodes ev = Inr es \<Longrightarrow> e \<in> set es \<Longrightarrow>
     \<exists>raw\<in>set raws. \<exists>t\<in>set (ra_links raw). linked h (node_by_external nodes) ev raw t e"
  using link_raws_spec [OF _ dict_by_Nil] by (fastforce simp: link_edges_def rbind_Inr_iff)

text \<open>
  Property C18. The candidate edges are exactly those the source links stand for: every candidate
  comes from a link of a raw artifact whose own node, target node, relation and evidence are known,
  is a valid pending edge between two of the given nodes, and stands once under its id; and every such
  link has a candidate with its id, which is the hash of source, relation and target.
\<close>

theorem link_edges_exact:
  assumes "link_edges h raws nodes ev = Inr es" and "\<forall>v\<in>set (dvals ev). evidence_ok v"
  shows "distinct (map te_edge_id es)
    \<and> (\<forall>e\<in>set es. edge_full_ok e \<and> te_approval_status e = AS_Pending
         \<and> te_edge_id e = edge_id h (te_source_node_id e) (relation_str (te_relation e)) (te_target_node_id e)
         \<and> te_source_node_id e \<in> on_node_id ` set nodes \<and> te_target_node_id e \<in> on_node_id ` set nodes
         \<and> (\<exists>raw\<in>set raws. \<exists>t\<in>set (ra_links raw). linked h (node_by_external nodes) ev raw t e))
    \<and> (\<forall>raw\<in>set raws. \<forall>t\<in>set (ra_links raw). \<forall>e. linked h (node_by_external nodes) ev raw t e \<longrightarrow>
         te_edge_id e \<in> te_edge_id ` set es)"
proof -
  let ?nodes = "node_by_external nodes"
  from assms(1) obtain d where d: "link_raws h ?nodes ev raws [] = Inr d" "es = dvals d"
    by (auto simp: link_edges_def rbind_Inr_iff)
  note S = link_raws_spec [OF d(1) dict_by_Nil]
  have keys: "map te_edge_id es = dkeys d"
    using S d(2) by (auto simp: dict_by_def)
  have "distinct (map te_edge_id es)"
    using S keys by (simp add: dict_by_def dict_ok_def)
  moreover have "te_edge_id e \<in> te_edge_id ` set es"
    if "raw \<in> set raws" "t \<in> set (ra_links raw)" "linked h ?nodes ev raw t e" for raw t e
  proof -
    have "te_edge_id e \<in> set (dkeys d)" using S that by auto
    then show ?thesis by (simp flip: keys)
  qed
  ultimately show ?thesis
    using link_edges_linked [OF assms(1)] linked_edge_ok [OF _ assms(2)] by blast
qed

section \<open>Instances\<close>

definition demo_raw :: "string \<Rightarrow> string \<Rightarrow> string list \<Rightarrow> raw_source_artifact" where
  "demo_raw i body links = \<lparr>ra_external_id = i, ra_source_type = Jira, ra_source_url = ''u'',
     ra_project_key = ''P'', ra_title = ''t'', ra_body_text = body, ra_author_id = None,
     ra_created_at = ''c'', ra_updated_at = ''c'', ra_labels = [], ra_links = links,
     ra_parent_id = None, ra_child_ids = [], ra_metadata = [], ra_access_scope = [],
     ra_data_classification = Restricted\<rparr>"

definition demo_nodes :: "ontology_node list" where
  "demo_nodes = [demo_node ''node_P_A_1'' Design_Spec, demo_node ''node_P_B_1'' Requirement]"

lemma demo_link:
  "link_edges demo_host [demo_raw ''A-1'' [] [''B-1'']] demo_nodes [(''A-1'', demo_evidence)]
     = Inr [candidate_edge demo_host (demo_raw ''A-1'' [] [''B-1'']) ''B-1''
         (demo_node ''node_P_A_1'' Design_Spec) (demo_node ''node_P_B_1'' Requirement) Satisfies demo_evidence]"
proof -
  have ext: "external_id_from_node (demo_node ''node_P_A_1'' x) = ''A-1''"
    "external_id_from_node (demo_node ''node_P_B_1'' x) = ''B-1''" for x
    by (simp_all add: external_id_from_node_def demo_node_def py_removeprefix_def py_replace_char_def Let_def)
  have nodes: "node_by_external demo_nodes = [(''A-1'', demo_node ''node_P_A_1'' Design_Spec),
      (''B-1'', demo_node ''node_P_B_1'' Requirement)]"
    by (simp add: node_by_external_def demo_nodes_def ext dict_of_def)
  have rel: "default_relation (demo_node ''node_P_A_1'' Design_Spec) (demo_node ''node_P_B_1'' Requirement) = Satisfies"
    by (simp add: default_relation_def demo_node_def)
  show ?thesis
    by (simp add: link_edges_def nodes link_target_def demo_raw_def raw_relations_def jget_or_def rel
        in_valid_relations_def candidate_edge_ok)
qed

lemma link_edges_exact_witness:
  "\<exists>e. link_edges demo_host [demo_raw ''A-1'' [] [''B-1'']] demo_nodes [(''A-1'', demo_evidence)] = Inr [e]
     \<and> edge_full_ok e \<and> te_approval_status e = AS_Pending \<and> te_relation e = Satisfies"
proof -
  have "evidence_ok demo_evidence" by (simp add: demo_evidence_def evidence_ok_def)
  with link_edges_exact [OF demo_link] have "edge_full_ok (candidate_edge demo_host
      (demo_raw ''A-1'' [] [''B-1'']) ''B-1'' (demo_node ''node_P_A_1'' Design_Spec)
      (demo_node ''node_P_B_1'' Requirement) Satisfies demo_evidence)" by simp
  then show ?thesis using demo_link by (auto simp: candidate_edge_def)
qed

end
