(* ===== verification/Export.thy ===== *)
theory Export
  imports Masking Reasoning
begin

text \<open>
  \<open>adapters/export_file.py\<close>, the paging of \<open>adapters/dummy/adapter.py\<close>, and \<open>_fetch_all\<close> of
  \<open>workflows/analysis_graph.py\<close>: the artifacts of an export file, its pages, the restricted decision
  mails, and the loop that collects all pages of a source. The file is an option (\<open>None\<close>: it does not
  exist) holding the raw artifacts \<open>_load\<close> reads from it; reading JSON text is left out.

  The loop over the pages need not end for every source, so it is a partial function: \<open>None\<close> means that
  it does not return.
\<close>

section \<open>Pages\<close>

definition py_slice :: "int \<Rightarrow> int \<Rightarrow> 'a list \<Rightarrow> 'a list" where
  \<comment> \<open>\<open>xs[a:b]\<close>\<close>
  "py_slice a b xs =
     (let n = int (length xs);
          norm = (\<lambda>i. nat (min n (if i < 0 then max 0 (n + i) else i)))
      in slice (norm a) (norm b) xs)"

definition page_fetch_result :: "host \<Rightarrow> raw_source_artifact list \<Rightarrow> sync_cursor option \<Rightarrow> int \<Rightarrow> string list \<Rightarrow> bool \<Rightarrow>
    source_fetch_result" where
  "page_fetch_result h artifacts cursor limit source_warnings partial_failure =
     (let offset = (case cursor of None \<Rightarrow> 0 | Some c \<Rightarrow> cu_offset c);
          page = py_slice offset (offset + limit) artifacts;
          next_offset = offset + int (length page)
      in \<lparr>fr_artifacts = page,
          fr_next_cursor = (if next_offset < int (length artifacts)
            then Some \<lparr>cu_offset = next_offset, cu_content_hash = Some (raws_hash h page)\<rparr> else None),
          fr_initial_cursor = None, fr_completed_cursor = None, fr_page_count = 1,
          fr_source_warnings = source_warnings, fr_partial_failure = partial_failure\<rparr>)"

section \<open>Export adapters\<close>

definition export_fetch :: "host \<Rightarrow> raw_source_artifact list option \<Rightarrow> source_scope \<Rightarrow> sync_cursor option \<Rightarrow>
    source_fetch_result" where
  "export_fetch h file scope cursor =
     page_fetch_result h (filter (\<lambda>a. ra_project_key a = sc_project_key scope) (case file of None \<Rightarrow> [] | Some as \<Rightarrow> as))
       cursor (sc_limit scope) (if file = None then [''export_file_missing''] else []) (file = None)"

definition dummy_fetch :: "host \<Rightarrow> (string \<Rightarrow> raw_source_artifact list) \<Rightarrow> source_scope \<Rightarrow> sync_cursor option \<Rightarrow>
    source_fetch_result" where
  \<comment> \<open>the fixtures are an argument\<close>
  "dummy_fetch h fixture_by_name scope cursor =
     page_fetch_result h (fixture_by_name (sc_scenario scope)) cursor (sc_limit scope) [] False"

definition artifact_is_decision :: "host \<Rightarrow> raw_source_artifact \<Rightarrow> bool" where
  "artifact_is_decision h a =
     (py_lower (py_str h (jget_or (ra_metadata a) ''mbse_type'' (JStr []))) = ''decision''
      \<or> list_ex (\<lambda>l. py_lower l \<in> {''decision'', ''decision_archive''}) (ra_labels a))"

definition requires_email_manual_review :: "raw_source_artifact \<Rightarrow> bool" where
  "requires_email_manual_review a =
     (ra_source_type a = Email \<and>
        (truthy (jget (ra_metadata a) ''manual_review_required'') \<or> truthy (jget (ra_metadata a) ''sensitive_thread'')))"

definition is_allowed_decision_artifact :: "host \<Rightarrow> raw_source_artifact \<Rightarrow> bool" where
  "is_allowed_decision_artifact h a =
     (if ra_source_type a = Decision_Archive then artifact_is_decision h a
      else if ra_source_type a \<noteq> Email then False
      else truthy (jget (ra_metadata a) ''decision_source_approved'') \<and> artifact_is_decision h a)"

fun mask_metadata_value :: "json \<Rightarrow> json \<times> nat" where
  "mask_metadata_value (JStr s) = (JStr (mk_text (mask_text s)), mk_redaction_count (mask_text s))"
| "mask_metadata_value (JList xs) =
     (let rs = map mask_metadata_value xs in (JList (map fst rs), sum_list (map snd rs)))"
| "mask_metadata_value (JObj kvs) =
     (let rs = map (\<lambda>kv. (fst kv, mask_metadata_value (snd kv))) kvs
      in (JObj (map (\<lambda>kr. (fst kr, fst (snd kr))) rs), sum_list (map (\<lambda>kr. snd (snd kr)) rs)))"
| "mask_metadata_value v = (v, 0)"

definition mask_email_decision_metadata :: "raw_source_artifact \<Rightarrow> raw_source_artifact" where
  "mask_email_decision_metadata a =
     (if ra_source_type a \<noteq> Email then a
      else case mask_metadata_value (JObj (ra_metadata a)) of
        (masked, redactions) \<Rightarrow>
          a\<lparr>ra_metadata := dset ''thread_metadata_redaction_count'' (JInt (int redactions))
             (dset ''thread_metadata_masked'' (JBool (0 < redactions))
               (case masked of JObj kvs \<Rightarrow> kvs | _ \<Rightarrow> []))\<rparr>)"

definition decision_step :: "host \<Rightarrow> source_scope \<Rightarrow> raw_source_artifact \<Rightarrow>
    raw_source_artifact list \<times> string list \<Rightarrow> raw_source_artifact list \<times> string list" where
  "decision_step h scope a acc =
     (case acc of (artifacts, warnings) \<Rightarrow>
        if ra_project_key a \<noteq> sc_project_key scope then acc
        else if requires_email_manual_review a
        then (artifacts, warnings @ [''decision_email_manual_review_required:'' @ ra_external_id a])
        else if is_allowed_decision_artifact h a
        then (artifacts @ [mask_email_decision_metadata a], warnings)
        else (artifacts, warnings @ [''decision_email_artifact_skipped:'' @ ra_external_id a]))"

definition decision_email_fetch :: "host \<Rightarrow> raw_source_artifact list option \<Rightarrow> source_scope \<Rightarrow> sync_cursor option \<Rightarrow>
    source_fetch_result" where
  "decision_email_fetch h file scope cursor =
     (case fold (decision_step h scope) (case file of None \<Rightarrow> [] | Some as \<Rightarrow> as)
         ([], if file = None then [''export_file_missing''] else []) of
        (artifacts, warnings) \<Rightarrow>
          page_fetch_result h artifacts cursor (sc_limit scope) warnings (warnings \<noteq> []))"

section \<open>All pages of a source\<close>

type_synonym 'w fetcher = "source_scope \<Rightarrow> sync_cursor option \<Rightarrow> 'w \<Rightarrow> 'w \<times> source_fetch_result result"

definition add_page :: "source_fetch_result \<Rightarrow> source_fetch_result \<Rightarrow> source_fetch_result" where
  \<comment> \<open>\<open>extend\<close>, \<open>or\<close> and \<open>+= 1\<close> of the loop body\<close>
  "add_page page acc = acc\<lparr>fr_artifacts := fr_artifacts acc @ fr_artifacts page,
     fr_source_warnings := fr_source_warnings acc @ fr_source_warnings page,
     fr_partial_failure := (fr_partial_failure acc \<or> fr_partial_failure page),
     fr_page_count := fr_page_count acc + 1\<rparr>"

partial_function (option) fetch_pages :: "'w fetcher \<Rightarrow> source_scope \<Rightarrow> sync_cursor option \<Rightarrow> source_fetch_result \<Rightarrow>
    'w \<Rightarrow> ('w \<times> source_fetch_result result) option" where
  "fetch_pages fetch scope cursor acc w =
     (case cursor of
        None \<Rightarrow> Some (w, Inr acc)
      | Some c \<Rightarrow>
          (case fetch scope (Some c) w of (w', r) \<Rightarrow>
             (case r of
                Inl e \<Rightarrow> Some (w', Inl e)
              | Inr page \<Rightarrow> fetch_pages fetch scope (fr_next_cursor page) (add_page page acc) w')))"

definition complete_fetch :: "host \<Rightarrow> source_fetch_result \<Rightarrow> source_fetch_result" where
  "complete_fetch h acc = acc\<lparr>fr_next_cursor := None, fr_initial_cursor := None,
     fr_completed_cursor := Some \<lparr>cu_offset = int (length (fr_artifacts acc)),
       cu_content_hash = Some (raws_hash h (fr_artifacts acc))\<rparr>\<rparr>"

definition fetch_all :: "host \<Rightarrow> 'w fetcher \<Rightarrow> source_scope \<Rightarrow> 'w \<Rightarrow> ('w \<times> source_fetch_result result) option" where
  "fetch_all h fetch scope w =
     (case fetch scope None w of
        (w', Inl e) \<Rightarrow> Some (w', Inl e)
      | (w', Inr first) \<Rightarrow>
          (case fetch_pages fetch scope (fr_next_cursor first) (first\<lparr>fr_page_count := 1\<rparr>) w' of
             None \<Rightarrow> None
           | Some (w'', Inl e) \<Rightarrow> Some (w'', Inl e)
           | Some (w'', Inr acc) \<Rightarrow> Some (w'', Inr (complete_fetch h acc))))"

section \<open>The loop ends on paged sources\<close>

definition paged :: "host \<Rightarrow> raw_source_artifact list \<Rightarrow> string list \<Rightarrow> bool \<Rightarrow> 'w fetcher" where
  \<comment> \<open>a source whose pages are those of a fixed list\<close>
  "paged h xs ws failing scope cursor w = (w, Inr (page_fetch_result h xs cursor (sc_limit scope) ws failing))"

definition pages_from :: "nat \<Rightarrow> nat \<Rightarrow> nat \<Rightarrow> nat" where
  \<comment> \<open>the pages of size \<open>m\<close> that are left of \<open>n\<close> artifacts at the offset \<open>k\<close>\<close>
  "pages_from m n k = (n - k + m - 1) div m"

lemma pages_from_step:
  assumes "0 < m" and "k < n"
  shows "pages_from m n k = Suc (pages_from m n (k + min m (n - k)))"
proof -
  have "n - k + m - 1 = (n - k - 1) + m" using assms by arith
  then have l: "pages_from m n k = Suc ((n - k - 1) div m)" using assms(1) by (simp only: pages_from_def div_add_self2)
  show ?thesis
  proof (cases "m \<le> n - k")
    case True
    then have "n - (k + m) + m - 1 = n - k - 1" by arith
    with True l show ?thesis by (simp only: pages_from_def min_absorb1)
  next
    case False
    then have "k + min m (n - k) = n" "n - k - 1 < m" using assms(2) by arith+
    with l assms(1) show ?thesis by (simp add: pages_from_def)
  qed
qed

lemma page_at:
  assumes "k \<le> length xs" and "0 < limit"
  shows "fr_artifacts (page_fetch_result h xs (Some \<lparr>cu_offset = int k, cu_content_hash = c\<rparr>) limit ws b)
      = take (nat limit) (drop k xs)"
    and "fr_artifacts (page_fetch_result h xs None limit ws b) = take (nat limit) xs"
proof -
  have "slice a (a + n) ys = take n (drop a ys)" for a n and ys :: "raw_source_artifact list"
    by (simp add: slice_def)
  moreover have "slice a (min n (length ys)) ys = slice a n ys" for a n and ys :: "raw_source_artifact list"
    by (simp add: slice_def min_def)
  moreover have "nat (min (int (length xs)) (int k + limit)) = min (k + nat limit) (length xs)"
    using assms by arith
  ultimately show "fr_artifacts (page_fetch_result h xs (Some \<lparr>cu_offset = int k, cu_content_hash = c\<rparr>) limit ws b)
      = take (nat limit) (drop k xs)"
    using assms by (simp add: page_fetch_result_def py_slice_def Let_def min_absorb2)
  show "fr_artifacts (page_fetch_result h xs None limit ws b) = take (nat limit) xs"
    using assms by (simp add: page_fetch_result_def py_slice_def slice_def Let_def min_def)
qed

lemma page_next:
  assumes "offset = (case cursor of None \<Rightarrow> 0 | Some c \<Rightarrow> cu_offset c)"
  shows "fr_next_cursor (page_fetch_result h xs cursor limit ws b) =
     (if offset + int (length (fr_artifacts (page_fetch_result h xs cursor limit ws b))) < int (length xs)
      then Some \<lparr>cu_offset = offset + int (length (fr_artifacts (page_fetch_result h xs cursor limit ws b))),
        cu_content_hash = Some (raws_hash h (fr_artifacts (page_fetch_result h xs cursor limit ws b)))\<rparr> else None)"
    "fr_source_warnings (page_fetch_result h xs cursor limit ws b) = ws"
    "fr_partial_failure (page_fetch_result h xs cursor limit ws b) = b"
  using assms by (simp_all add: page_fetch_result_def Let_def)

definition acc_at :: "raw_source_artifact list \<Rightarrow> string list \<Rightarrow> bool \<Rightarrow> nat \<Rightarrow> nat \<Rightarrow> source_fetch_result \<Rightarrow> bool" where
  \<comment> \<open>the accumulated result after \<open>p\<close> pages that end at the offset \<open>k\<close>\<close>
  "acc_at xs ws failing k p acc = (fr_artifacts acc = take k xs \<and> fr_page_count acc = int p
     \<and> fr_source_warnings acc = concat (replicate p ws) \<and> fr_partial_failure acc = failing)"

lemma concat_replicate_snoc: "concat (replicate p ws) @ ws = concat (replicate (Suc p) ws)"
  by (induction p) simp_all

lemma fetch_pages_complete:
  assumes "0 < sc_limit scope" and "k \<le> length xs" and "acc_at xs ws failing k p acc"
    and "cursor = (if k < length xs then Some \<lparr>cu_offset = int k, cu_content_hash = c\<rparr> else None)"
  shows "\<exists>acc'. fetch_pages (paged h xs ws failing) scope cursor acc w = Some (w, Inr acc')
    \<and> acc_at xs ws failing (length xs) (p + pages_from (nat (sc_limit scope)) (length xs) k) acc'"
  using assms(2-4)
proof (induction "length xs - k" arbitrary: k p acc cursor c rule: less_induct)
  case less
  let ?m = "nat (sc_limit scope)"
  show ?case
  proof (cases "k < length xs")
    case False
    then have "pages_from ?m (length xs) k = 0" "k = length xs" using less.prems(1) assms(1) by (simp_all add: pages_from_def)
    with False less.prems show ?thesis by (auto simp: fetch_pages.simps)
  next
    case True
    let ?page = "page_fetch_result h xs cursor (sc_limit scope) ws failing"
    have cur: "cursor = Some \<lparr>cu_offset = int k, cu_content_hash = c\<rparr>" using True less.prems(3) by simp
    have art: "fr_artifacts ?page = take ?m (drop k xs)"
      unfolding cur by (rule page_at(1) [OF less.prems(1) assms(1)])
    let ?k = "k + min ?m (length xs - k)"
    have len: "length (fr_artifacts ?page) = min ?m (length xs - k)" by (simp add: art min.commute)
    have next_c: "fr_next_cursor ?page = (if ?k < length xs
        then Some \<lparr>cu_offset = int ?k, cu_content_hash = Some (raws_hash h (fr_artifacts ?page))\<rparr> else None)"
      using page_next(1) [of "int k" cursor h xs "sc_limit scope" ws failing] unfolding len of_nat_add [symmetric] of_nat_less_iff by (simp only: cur option.case sync_cursor.simps)
    have acc: "acc_at xs ws failing ?k (Suc p) (add_page ?page acc)"
      using less.prems(2) art concat_replicate_snoc [of p ws]
      by (auto simp: acc_at_def add_page_def page_next [OF refl] take_add min_def)
    have "length xs - ?k < length xs - k" using True assms(1) by auto
    note smaller = this
    have "?k \<le> length xs" using less.prems(1) by arith
    from less.hyps [OF smaller this acc next_c] obtain acc' where
      "fetch_pages (paged h xs ws failing) scope (fr_next_cursor ?page) (add_page ?page acc) w = Some (w, Inr acc')"
      "acc_at xs ws failing (length xs) (Suc p + pages_from ?m (length xs) ?k) acc'" by blast
    moreover have "fetch_pages (paged h xs ws failing) scope cursor acc w =
        fetch_pages (paged h xs ws failing) scope (fr_next_cursor ?page) (add_page ?page acc) w"
      by (subst fetch_pages.simps) (simp add: cur paged_def)
    moreover have "Suc p + pages_from ?m (length xs) ?k = p + pages_from ?m (length xs) k"
      using pages_from_step [of ?m k "length xs"] True assms(1) by simp
    ultimately show ?thesis by metis
  qed
qed

text \<open>
  Property C30. Collecting the pages of a source ends and loses nothing: over a source that serves a list
  in pages, for every positive page size, the loop returns with exactly the artifacts of the list in
  order, the number of pages there are (one for an empty list), no open cursor, and a completed cursor
  at the end; the warnings of the source are repeated once per page.
\<close>

theorem fetch_all_complete:
  assumes "0 < sc_limit scope"
  shows "\<exists>r. fetch_all h (paged h xs ws failing) scope w = Some (w, Inr r)
    \<and> fr_artifacts r = xs \<and> fr_next_cursor r = None
    \<and> map_option cu_offset (fr_completed_cursor r) = Some (int (length xs))
    \<and> fr_page_count r = int (max 1 (pages_from (nat (sc_limit scope)) (length xs) 0))
    \<and> fr_source_warnings r = concat (replicate (nat (fr_page_count r)) ws) \<and> fr_partial_failure r = failing"
proof -
  let ?m = "nat (sc_limit scope)" and ?first = "page_fetch_result h xs None (sc_limit scope) ws failing"
  let ?k = "min ?m (length xs)"
  have m: "0 < ?m" using assms by simp
  have art: "fr_artifacts ?first = take ?m xs" by (rule page_at(2) [OF _ assms, of 0]) simp
  have acc: "acc_at xs ws failing ?k 1 (?first\<lparr>fr_page_count := 1\<rparr>)"
    by (simp add: acc_at_def art page_next [OF refl] min_def)
  have next_c: "fr_next_cursor ?first = (if ?k < length xs
      then Some \<lparr>cu_offset = int ?k, cu_content_hash = Some (raws_hash h (fr_artifacts ?first))\<rparr> else None)"
    using page_next(1) [of 0 None h xs "sc_limit scope" ws failing] by (simp add: art min.commute)
  from fetch_pages_complete [OF assms _ acc next_c, of h w] obtain acc' where
    run: "fetch_pages (paged h xs ws failing) scope (fr_next_cursor ?first) (?first\<lparr>fr_page_count := 1\<rparr>) w = Some (w, Inr acc')"
    and acc': "acc_at xs ws failing (length xs) (1 + pages_from ?m (length xs) ?k) acc'" by auto
  have pages: "1 + pages_from ?m (length xs) ?k = max 1 (pages_from ?m (length xs) 0)"
  proof (cases "xs = []")
    case True
    then show ?thesis using m by (simp add: pages_from_def)
  next
    case False
    then show ?thesis using pages_from_step [OF m, of 0 "length xs"] by simp
  qed
  have "fetch_all h (paged h xs ws failing) scope w = Some (w, Inr (complete_fetch h acc'))"
    using run by (simp add: fetch_all_def paged_def)
  then show ?thesis
    using acc' unfolding pages by (simp add: complete_fetch_def acc_at_def)
qed

section \<open>Decision mails\<close>

fun strings_of :: "json \<Rightarrow> string set" where
  \<comment> \<open>the string values inside a JSON value; keys are not values\<close>
  "strings_of (JStr s) = {s}"
| "strings_of (JList xs) = \<Union> (strings_of ` set xs)"
| "strings_of (JObj kvs) = \<Union> ((\<lambda>kv. strings_of (snd kv)) ` set kvs)"
| "strings_of v = {}"

definition policy_clean :: "string \<Rightarrow> bool" where
  "policy_clean s = (filter (\<lambda>p. rex_search (fst p) s) default_forbidden = [])"

lemma policy_clean_mask: "policy_clean (mk_text (mask_text t))"
  by (simp add: policy_clean_def mask_text_no_default)

lemma mask_metadata_clean: "s \<in> strings_of (fst (mask_metadata_value v)) \<Longrightarrow> policy_clean s"
proof (induction v)
  case (JObj kvs)
  then show ?case by (fastforce simp: Let_def)
qed (auto simp: Let_def policy_clean_mask)

lemma mask_metadata_obj: "\<exists>kvs'. fst (mask_metadata_value (JObj kvs)) = JObj kvs'"
  by (simp add: Let_def)

definition deliverable :: "host \<Rightarrow> string \<Rightarrow> raw_source_artifact \<Rightarrow> bool" where
  "deliverable h p a = (ra_project_key a = p \<and> \<not> requires_email_manual_review a \<and> is_allowed_decision_artifact h a)"

lemma decision_fold:
  "fold (decision_step h scope) as (xs, ws) =
     (xs @ map mask_email_decision_metadata (filter (deliverable h (sc_project_key scope)) as),
      ws @ List.map_filter (\<lambda>a.
        if ra_project_key a \<noteq> sc_project_key scope \<or> deliverable h (sc_project_key scope) a then None
        else Some ((if requires_email_manual_review a then ''decision_email_manual_review_required:''
          else ''decision_email_artifact_skipped:'') @ ra_external_id a)) as)"
  by (induction as arbitrary: xs ws) (auto simp: decision_step_def deliverable_def map_filter_simps)

lemma mask_email_strings:
  assumes "ra_source_type a = Email" and "kv \<in> set (ra_metadata (mask_email_decision_metadata a))"
    and "s \<in> strings_of (snd kv)"
  shows "policy_clean s"
proof -
  obtain kvs where k: "fst (mask_metadata_value (JObj (ra_metadata a))) = JObj kvs"
    using mask_metadata_obj by blast
  have "kv \<in> set kvs \<or> (\<exists>b i. snd kv = JBool b \<or> snd kv = JInt i)"
    using assms(1,2) k by (auto simp: mask_email_decision_metadata_def split: prod.splits dest!: in_dset)
  then show ?thesis
  proof
    assume "kv \<in> set kvs"
    then have "s \<in> strings_of (JObj kvs)" using assms(3) by auto
    then have "s \<in> strings_of (fst (mask_metadata_value (JObj (ra_metadata a))))" by (simp only: k)
    then show ?thesis by (rule mask_metadata_clean)
  qed (use assms(3) in auto)
qed

text \<open>
  The restricted mail export delivers only decisions: whatever the file holds, every
  artifact of a page is, up to its metadata, one of the file that belongs to the project, needs no
  manual review, and is an approved decision; the string values in the metadata of a mail hold no
  address, serial number or secret; and the result is marked partial exactly when it has warnings.
\<close>

theorem decision_email_restricted:
  "(\<forall>a\<in>set (fr_artifacts (decision_email_fetch h (Some file) scope cursor)).
      \<exists>b\<in>set file. a = mask_email_decision_metadata b \<and> ra_project_key b = sc_project_key scope
        \<and> \<not> requires_email_manual_review b \<and> is_allowed_decision_artifact h b
        \<and> (ra_source_type a = Email \<longrightarrow> (\<forall>kv\<in>set (ra_metadata a). \<forall>s\<in>strings_of (snd kv). policy_clean s)))
   \<and> (fr_partial_failure (decision_email_fetch h (Some file) scope cursor) \<longleftrightarrow>
        fr_source_warnings (decision_email_fetch h (Some file) scope cursor) \<noteq> [])"
proof -
  have sub: "set (py_slice i j xs) \<subseteq> set xs" for i j and xs :: "raw_source_artifact list"
    using set_slice unfolding py_slice_def Let_def by fastforce
  have same_type: "ra_source_type (mask_email_decision_metadata b) = ra_source_type b" for b
    by (simp add: mask_email_decision_metadata_def split: prod.splits)
  let ?f = "decision_email_fetch h (Some file) scope cursor"
  have "fr_artifacts ?f = py_slice (case cursor of None \<Rightarrow> 0 | Some c \<Rightarrow> cu_offset c)
      ((case cursor of None \<Rightarrow> 0 | Some c \<Rightarrow> cu_offset c) + sc_limit scope)
      (map mask_email_decision_metadata (filter (deliverable h (sc_project_key scope)) file))"
    by (simp add: decision_email_fetch_def decision_fold page_fetch_result_def Let_def)
  with sub have "set (fr_artifacts ?f) \<subseteq> mask_email_decision_metadata ` set (filter (deliverable h (sc_project_key scope)) file)"
    by (metis set_map)
  then have "\<forall>a\<in>set (fr_artifacts ?f). \<exists>b\<in>set file. a = mask_email_decision_metadata b \<and> deliverable h (sc_project_key scope) b"
    by auto
  moreover have "fr_partial_failure ?f \<longleftrightarrow> fr_source_warnings ?f \<noteq> []"
    by (simp add: decision_email_fetch_def page_next [OF refl] split: prod.splits)
  ultimately show ?thesis
    unfolding deliverable_def using mask_email_strings same_type by metis
qed

section \<open>Instances\<close>

lemma fetch_all_complete_witness:
  "\<exists>r. fetch_all demo_host (paged demo_host [demo_raw ''A'' ''a'' [], demo_raw ''B'' ''b'' []] [''w''] True)
      \<lparr>sc_project_key = ''P'', sc_scenario = ''s'', sc_limit = 1\<rparr> () = Some ((), Inr r) \<and> length (fr_artifacts r) = 2"
  using fetch_all_complete [of "\<lparr>sc_project_key = ''P'', sc_scenario = ''s'', sc_limit = 1\<rparr>" demo_host
      "[demo_raw ''A'' ''a'' [], demo_raw ''B'' ''b'' []]" "[''w'']" True "()"] by auto

lemma decision_email_restricted_witness:
  "fr_partial_failure (decision_email_fetch demo_host (Some []) \<lparr>sc_project_key = ''P'', sc_scenario = ''s'', sc_limit = 1\<rparr> None)
     \<longleftrightarrow> fr_source_warnings (decision_email_fetch demo_host (Some []) \<lparr>sc_project_key = ''P'', sc_scenario = ''s'', sc_limit = 1\<rparr> None) \<noteq> []"
  using decision_email_restricted [of demo_host "[]" "\<lparr>sc_project_key = ''P'', sc_scenario = ''s'', sc_limit = 1\<rparr>" None] by blast

end
