(* ===== verification/Vector.thy ===== *)
theory Vector
  imports Samples
begin

text \<open>
  \<open>vector/base.py\<close> and \<open>vector/memory_backend.py\<close>: the retrieval interface as a locale, and the
  lexical backend of the local workflow. \<open>Counter\<close> is a multiset; \<open>re.findall("[a-z0-9]+", ...)\<close> is
  the list of maximal runs of these characters.
\<close>

section \<open>The interface\<close>

locale vector_backend =
  fixes upsert :: "artifact_chunk list \<Rightarrow> 'v \<Rightarrow> 'v"
    and search :: "string \<Rightarrow> string \<Rightarrow> int \<Rightarrow> 'v \<Rightarrow> artifact_chunk list"
    and stored :: "'v \<Rightarrow> artifact_chunk set"
  assumes upsert_stored: "stored (upsert cs v) \<subseteq> stored v \<union> set cs"
    and search_sound: "c \<in> set (search q p n v) \<Longrightarrow> c \<in> stored v \<and> ck_project_key c = p"
    and search_limit: "0 \<le> n \<Longrightarrow> int (length (search q p n v)) \<le> n"
begin

lemma stored_upserts: "stored (fold upsert css v) \<subseteq> stored v \<union> \<Union> (set ` set css)"
proof (induction css arbitrary: v)
  case (Cons cs css)
  then show ?case using upsert_stored [of cs v] by fastforce
qed simp

lemma retrieved_upserted:
  "c \<in> set (search q p n (fold upsert css v)) \<Longrightarrow> stored v = {} \<Longrightarrow> \<exists>cs\<in>set css. c \<in> set cs \<and> ck_project_key c = p"
  using search_sound stored_upserts by fastforce

end

section \<open>The lexical backend\<close>

definition is_term_char :: "char \<Rightarrow> bool" where
  "is_term_char c = (97 \<le> cp c \<and> cp c \<le> 122 \<or> is_ascii_digit c)"

function runs :: "(char \<Rightarrow> bool) \<Rightarrow> string \<Rightarrow> string list" where
  \<comment> \<open>\<open>re.findall\<close> of one or more characters of a class\<close>
  "runs P [] = []"
| "runs P (c # s) = (if P c then (c # takeWhile P s) # runs P (dropWhile P s) else runs P s)"
  by pat_completeness auto
termination
  by (relation "measure (\<lambda>(P, s). length s)") (auto simp: le_imp_less_Suc length_dropWhile_le)

definition terms :: "string \<Rightarrow> string multiset" where
  "terms text = mset (runs is_term_char (py_lower text))"

type_synonym vector_store = "(string, artifact_chunk) dict"

definition vector_upsert :: "artifact_chunk list \<Rightarrow> vector_store \<Rightarrow> vector_store" where
  "vector_upsert chunks d = foldl (\<lambda>d c. dset (ck_chunk_id c) c d) d chunks"

definition overlap :: "string \<Rightarrow> artifact_chunk \<Rightarrow> nat" where
  "overlap query c = size (terms (ck_text c) \<inter># terms query)"

definition ranked :: "string \<Rightarrow> string \<Rightarrow> vector_store \<Rightarrow> (nat \<times> artifact_chunk) list" where
  "ranked query project_key d = filter (\<lambda>sc. fst sc \<noteq> 0)
     (map (\<lambda>c. (overlap query c, c)) (filter (\<lambda>c. ck_project_key c = project_key) (dvals d)))"

definition rank_key :: "nat \<times> artifact_chunk \<Rightarrow> int \<times> string" where
  "rank_key sc = (- int (fst sc), ck_chunk_id (snd sc))"

definition vector_search :: "string \<Rightarrow> string \<Rightarrow> int \<Rightarrow> vector_store \<Rightarrow> artifact_chunk list" where
  "vector_search query project_key limit d = map snd (slice_to limit (sort_key rank_key (ranked query project_key d)))"

lemma in_scored:
  "sc \<in> set (filter (\<lambda>sc. fst sc \<noteq> 0) (map (\<lambda>c. (g c, c)) (filter P xs))) \<longleftrightarrow>
     snd sc \<in> set xs \<and> P (snd sc) \<and> fst sc = g (snd sc) \<and> fst sc \<noteq> (0 :: nat)"
  by (cases sc) auto

lemma in_ranked: "sc \<in> set (ranked q p d) \<longleftrightarrow>
    snd sc \<in> set (dvals d) \<and> ck_project_key (snd sc) = p \<and> fst sc = overlap q (snd sc) \<and> fst sc \<noteq> 0"
  unfolding ranked_def in_scored ..

lemma vector_search_stored:
  assumes "c \<in> set (vector_search q p n d)"
  shows "c \<in> set (dvals d) \<and> ck_project_key c = p \<and> overlap q c \<noteq> 0"
proof -
  from assms obtain sc where "sc \<in> set (ranked q p d)" "c = snd sc"
    unfolding vector_search_def using set_slice_to [of n "sort_key rank_key (ranked q p d)"] by auto
  then show ?thesis using in_ranked by metis
qed

lemma vector_upsert_vals: "set (dvals (vector_upsert cs d)) \<subseteq> set (dvals d) \<union> set cs"
proof (induction cs arbitrary: d)
  case (Cons c cs)
  have eq: "vector_upsert (c # cs) d = vector_upsert cs (dset (ck_chunk_id c) c d)" by (simp add: vector_upsert_def)
  have "set (dvals (dset (ck_chunk_id c) c d)) \<subseteq> insert c (set (dvals d))" by (rule set_dvals_dset)
  then have "set (dvals (vector_upsert (c # cs) d)) \<subseteq> insert c (set (dvals d)) \<union> set cs"
    unfolding eq using Cons.IH [of "dset (ck_chunk_id c) c d"] by blast
  then show ?case by (simp only: list.set(2) Un_insert_left Un_insert_right)
qed (simp add: vector_upsert_def)

lemma vector_upsert_by: "dict_by ck_chunk_id d \<Longrightarrow> dict_by ck_chunk_id (vector_upsert cs d)"
  by (induction cs arbitrary: d) (auto simp: vector_upsert_def)

interpretation lexical: vector_backend vector_upsert vector_search "\<lambda>d. set (dvals d)"
proof unfold_locales
  show "set (dvals (vector_upsert cs d)) \<subseteq> set (dvals d) \<union> set cs" for cs d by (rule vector_upsert_vals)
  show "c \<in> set (dvals d) \<and> ck_project_key c = p" if "c \<in> set (vector_search q p n d)" for c q p n d
    using vector_search_stored [OF that] by blast
  show "int (length (vector_search q p n d)) \<le> n" if "0 \<le> n" for q p n d
    using that by (simp add: vector_search_def slice_to_def)
qed

lemma take_sorted_best:
  assumes "x \<in> set xs" and "x \<notin> set (take n (sort_key f xs))" and "y \<in> set (take n (sort_key f xs))"
  shows "length (take n (sort_key f xs)) = n \<and> f y \<le> f x"
proof -
  let ?ys = "sort_key f xs"
  have x: "x \<in> set (drop n ?ys)"
    using assms(1,2) by (metis Un_iff append_take_drop_id set_append set_sort)
  have "sorted (map f (take n ?ys @ drop n ?ys))" by simp
  then have "\<forall>a\<in>set (take n ?ys). \<forall>b\<in>set (drop n ?ys). f a \<le> f b"
    unfolding map_append sorted_append by auto
  moreover have "n \<le> length ?ys" using x by (metis drop_all empty_iff empty_set linear)
  ultimately show ?thesis using x assms(3) by simp
qed

text \<open>
  Retrieval answers the best chunks: every chunk it returns was stored, is of the project
  and shares a term with the query; the list is ordered by falling overlap and then by id, holds at
  most \<open>limit\<close> chunks, and a matching chunk that is left out is no better than any returned one, and is
  left out only when the list is full.
\<close>

theorem vector_search_best:
  assumes "0 \<le> limit"
  shows "(\<forall>c\<in>set (vector_search q p limit d). c \<in> set (dvals d) \<and> ck_project_key c = p \<and> overlap q c \<noteq> 0)
    \<and> sorted (map (\<lambda>c. (- int (overlap q c), ck_chunk_id c)) (vector_search q p limit d))
    \<and> int (length (vector_search q p limit d)) \<le> limit
    \<and> (\<forall>c\<in>set (dvals d) - set (vector_search q p limit d). ck_project_key c = p \<and> overlap q c \<noteq> 0 \<longrightarrow>
         int (length (vector_search q p limit d)) = limit
         \<and> (\<forall>c'\<in>set (vector_search q p limit d).
              (- int (overlap q c'), ck_chunk_id c') \<le> (- int (overlap q c), ck_chunk_id c)))"
proof -
  let ?r = "take (nat limit) (sort_key rank_key (ranked q p d))"
  have vs: "vector_search q p limit d = map snd ?r" using assms by (simp add: vector_search_def slice_to_def)
  have key: "rank_key sc = (- int (overlap q (snd sc)), ck_chunk_id (snd sc))" if "sc \<in> set ?r" for sc
    using that in_ranked [of sc q p d] by (auto simp: rank_key_def dest!: in_set_takeD)
  have "sorted (map rank_key ?r)" by (metis sorted_sort_key sorted_wrt_take take_map)
  moreover have "map rank_key ?r = map (\<lambda>c. (- int (overlap q c), ck_chunk_id c)) (map snd ?r)"
    using key by simp
  ultimately have srt: "sorted (map (\<lambda>c. (- int (overlap q c), ck_chunk_id c)) (vector_search q p limit d))"
    unfolding vs by metis
  have best: "int (length (map snd ?r)) = limit \<and>
      (\<forall>c'\<in>set (map snd ?r). (- int (overlap q c'), ck_chunk_id c') \<le> (- int (overlap q c), ck_chunk_id c))"
    if c: "c \<in> set (dvals d)" "c \<notin> set (map snd ?r)" "ck_project_key c = p" "overlap q c \<noteq> 0" for c
  proof -
    have m: "(overlap q c, c) \<in> set (ranked q p d)" "(overlap q c, c) \<notin> set ?r"
      using c in_ranked by force+
    show ?thesis
    proof (cases "?r = []")
      case True
      have "sort_key rank_key (ranked q p d) \<noteq> []" using m(1) by (metis empty_iff empty_set set_sort)
      with True have "nat limit = 0" by simp
      with True assms show ?thesis by simp
    next
      case False
      from take_sorted_best [OF m last_in_set [OF this]] have "length ?r = nat limit" by blast
      moreover have "rank_key sc \<le> (- int (overlap q c), ck_chunk_id c)" if "sc \<in> set ?r" for sc
        using take_sorted_best [OF m that] by (simp add: rank_key_def)
      ultimately show ?thesis using assms key by auto
    qed
  qed
  show ?thesis
    using lexical.search_limit [OF assms, of q p d] srt best vector_search_stored [of _ q p limit d]
    unfolding vs by blast
qed

lemma vector_search_best_witness:
  "int (length (vector_search ''camera'' ''P'' 5 [])) \<le> 5"
  using vector_search_best [of 5 "''camera''" "''P''" "[]"] by simp

end
