(* ===== verification/Findings.thy ===== *)
theory Findings
  imports Reasoning
begin

text \<open>
  \<open>findings/rules.py\<close>: the deterministic finding rules over a graph of nodes and edges. The
  \<open>defaultdict\<close> indices by source and target are \<open>group_by\<close>; reading a missing key of such an index
  inserts an empty list into it, which no rule observes.
\<close>

section \<open>Building findings\<close>

definition rule_finding :: "host \<Rightarrow> string \<Rightarrow> ontology_node \<Rightarrow> finding_type \<Rightarrow> finding result" where
  "rule_finding h rule_id n t = mk_finding
     \<lparr>fd_finding_id = ''fdg_'' @ hash_prefix h 16 (JObj [(''rule'', JStr rule_id), (''node'', JStr (on_node_id n))]),
      fd_finding_type = t, fd_severity = (if t = Missing_Implementation then High else Medium),
      fd_affected_node_ids = [on_node_id n], fd_affected_edge_ids = [],
      fd_description = on_node_id n @ '' triggered '' @ rule_id @ ''.'',
      fd_suggested_action = ''Review traceability links and add missing relation or verification.'',
      fd_evidence = on_evidence n, fd_detection_method = By_Rule, fd_approval_status = FS_Open,
      fd_rule_id = Some rule_id, fd_schema_version = ''v1''\<rparr>"

definition incoming :: "traceability_edge list \<Rightarrow> (string, traceability_edge list) dict" where
  "incoming edges = group_by te_target_node_id edges"

definition outgoing :: "traceability_edge list \<Rightarrow> (string, traceability_edge list) dict" where
  "outgoing edges = group_by te_source_node_id edges"

section \<open>Missing links\<close>

definition has_implementation :: "traceability_edge list \<Rightarrow> ontology_node \<Rightarrow> bool" where
  "has_implementation edges n =
     list_ex (\<lambda>e. te_relation e \<in> {Satisfies, Implements}) (dlist (incoming edges) (on_node_id n))"

definition has_verification :: "traceability_edge list \<Rightarrow> ontology_node \<Rightarrow> bool" where
  "has_verification edges n =
     list_ex (\<lambda>e. te_relation e = Verifies) (dlist (incoming edges) (on_node_id n))"

definition has_parent :: "traceability_edge list \<Rightarrow> ontology_node \<Rightarrow> bool" where
  "has_parent edges n =
     list_ex (\<lambda>e. te_relation e \<in> {Implements, Satisfies, Derives}) (dlist (outgoing edges) (on_node_id n))"

definition missing_rules :: "traceability_edge list \<Rightarrow> ontology_node \<Rightarrow> (string \<times> finding_type) list" where
  "missing_rules edges n =
     (if on_node_type n = Requirement then
        (if \<not> has_implementation edges n then [(''REQ_WITHOUT_IMPLEMENTATION'', Missing_Implementation)] else [])
        @ (if \<not> has_verification edges n then [(''REQ_WITHOUT_VERIFICATION'', Missing_Verification)] else [])
      else [])
     @ (if on_node_type n = Design_Spec \<and> \<not> has_parent edges n
        then [(''DESIGN_WITHOUT_PARENT'', Orphan_Node)] else [])"

definition missing_findings :: "host \<Rightarrow> ontology_node list \<Rightarrow> traceability_edge list \<Rightarrow> finding list result" where
  "missing_findings h nodes edges =
     rmap (\<lambda>(n, r). rule_finding h (fst r) n (snd r))
       (concat (map (\<lambda>n. map (Pair n) (missing_rules edges n)) nodes))"

section \<open>Conflicting alternatives\<close>

definition implementers :: "traceability_edge list \<Rightarrow> (string, traceability_edge list) dict" where
  "implementers edges = group_by te_target_node_id (filter (\<lambda>e. te_relation e = Implements) edges)"

definition conflict_finding :: "host \<Rightarrow> string \<times> traceability_edge list \<Rightarrow> finding result" where
  "conflict_finding h te =
     (let target_id = fst te; impl_edges = snd te;
          affected = target_id # map te_source_node_id impl_edges;
          digest = hash_prefix h 16 (JObj [(''rule'', JStr ''CONFLICTING_ALTERNATIVES''), (''ids'', jstrs affected)])
      in mk_finding
        \<lparr>fd_finding_id = ''fdg_'' @ digest, fd_finding_type = Conflict, fd_severity = High,
         fd_affected_node_ids = affected, fd_affected_edge_ids = map te_edge_id impl_edges,
         fd_description = ''Multiple implementation alternatives target the same architecture.'',
         fd_suggested_action = ''Select one implementation or mark alternatives as superseded.'',
         fd_evidence = (case impl_edges of [] \<Rightarrow> [] | e # _ \<Rightarrow> te_evidence e),
         fd_detection_method = By_Rule, fd_approval_status = FS_Open,
         fd_rule_id = Some ''CONFLICTING_ALTERNATIVES'', fd_schema_version = ''v1''\<rparr>)"

definition conflict_findings :: "host \<Rightarrow> traceability_edge list \<Rightarrow> finding list result" where
  "conflict_findings h edges =
     rmap (conflict_finding h) (filter (\<lambda>te. 1 < length (snd te)) (implementers edges))"

section \<open>Stale traces\<close>

definition metadata_int :: "json \<Rightarrow> int option result" where
  "metadata_int v = (case v of
       JBool _ \<Rightarrow> Inr None
     | JInt i \<Rightarrow> Inr (Some i)
     | JStr s \<Rightarrow> if py_isdigit s then rbind (py_int s) (\<lambda>i. Inr (Some i)) else Inr None
     | _ \<Rightarrow> Inr None)"

definition stale_finding :: "host \<Rightarrow> raw_source_artifact \<Rightarrow> ontology_node \<Rightarrow> evidence_span \<Rightarrow> int \<Rightarrow> int \<Rightarrow>
    finding result" where
  "stale_finding h artifact n evidence previous_version current_version = mk_finding
     \<lparr>fd_finding_id = ''fdg_'' @ hash_prefix h 16 (JObj [
        (''rule'', JStr ''CONFLUENCE_PAGE_VERSION_CHANGED''), (''node'', JStr (on_node_id n)),
        (''previous_version'', JInt previous_version), (''current_version'', JInt current_version)]),
      fd_finding_type = Stale_Trace, fd_severity = Medium, fd_affected_node_ids = [on_node_id n],
      fd_affected_edge_ids = [],
      fd_description = ra_external_id artifact @ '' changed from Confluence version ''
        @ str_int previous_version @ '' to '' @ str_int current_version @ ''.'',
      fd_suggested_action = ''Review linked requirements, design, verification, and findings for stale ''
        @ ''traceability after the document change.'',
      fd_evidence = [evidence], fd_detection_method = By_Rule, fd_approval_status = FS_Open,
      fd_rule_id = Some ''CONFLUENCE_PAGE_VERSION_CHANGED'', fd_schema_version = ''v1''\<rparr>"

definition stale_for_artifact :: "host \<Rightarrow> (string, ontology_node) dict \<Rightarrow> (string, evidence_span) dict \<Rightarrow>
    raw_source_artifact \<Rightarrow> finding option result" where
  "stale_for_artifact h nodes evidence_by_external_id artifact =
     (if ra_source_type artifact \<noteq> Confluence then Inr None
      else rbind (metadata_int (jget (ra_metadata artifact) ''previous_version_number'')) (\<lambda>previous.
           rbind (metadata_int (jget (ra_metadata artifact) ''version_number'')) (\<lambda>current.
             case (previous, current) of
               (Some p, Some c) \<Rightarrow>
                 if c \<le> p then Inr None
                 else (case (dget nodes (ra_external_id artifact),
                             dget evidence_by_external_id (ra_external_id artifact)) of
                         (Some n, Some ev) \<Rightarrow> rbind (stale_finding h artifact n ev p c) (\<lambda>f. Inr (Some f))
                       | _ \<Rightarrow> Inr None)
             | _ \<Rightarrow> Inr None)))"

definition confluence_stale_trace_findings :: "host \<Rightarrow> ontology_node list \<Rightarrow> raw_source_artifact list \<Rightarrow>
    (string, evidence_span) dict \<Rightarrow> finding list result" where
  "confluence_stale_trace_findings h nodes source_artifacts evidence_by_external_id =
     rbind (rmap (stale_for_artifact h (node_by_external nodes) evidence_by_external_id) source_artifacts)
       (\<lambda>fs. Inr (List.map_filter (\<lambda>x. x) fs))"

section \<open>Issues on critical requirements\<close>

definition critical_words :: "string list" where
  "critical_words = [''p0'', ''critical'', ''blocker'']"

definition is_critical_requirement :: "host \<Rightarrow> raw_source_artifact \<Rightarrow> bool" where
  "is_critical_requirement h artifact =
     (py_lower (py_strip (py_str h (jget_or (ra_metadata artifact) ''priority'' (JStr [])))) \<in> set critical_words
      \<or> list_ex (\<lambda>l. py_lower (py_strip l) \<in> set critical_words) (ra_labels artifact))"

definition issue_finding :: "host \<Rightarrow> traceability_edge \<Rightarrow> ontology_node \<Rightarrow> ontology_node \<Rightarrow> finding result" where
  "issue_finding h e source target = mk_finding
     \<lparr>fd_finding_id = ''fdg_'' @ hash_prefix h 16 (JObj [
        (''rule'', JStr ''ISSUE_AFFECTS_CRITICAL_REQUIREMENT''), (''edge'', JStr (te_edge_id e)),
        (''source'', JStr (on_node_id source)), (''target'', JStr (on_node_id target))]),
      fd_finding_type = Cross_Domain_Hidden, fd_severity = Critical,
      fd_affected_node_ids = [on_node_id source, on_node_id target],
      fd_affected_edge_ids = [te_edge_id e],
      fd_description = on_node_id source @ '' affects critical requirement '' @ on_node_id target @ ''.'',
      fd_suggested_action = ''Escalate the affected critical requirement and review release risk, ''
        @ ''verification coverage, and mitigation owner.'',
      fd_evidence = te_evidence e, fd_detection_method = By_Rule, fd_approval_status = FS_Open,
      fd_rule_id = Some ''ISSUE_AFFECTS_CRITICAL_REQUIREMENT'', fd_schema_version = ''v1''\<rparr>"

definition issue_for_edge :: "host \<Rightarrow> (string, ontology_node) dict \<Rightarrow> (string, raw_source_artifact) dict \<Rightarrow>
    traceability_edge \<Rightarrow> (ontology_node \<times> ontology_node) option" where
  \<comment> \<open>the guards of the loop: source and target of an edge that raises a finding\<close>
  "issue_for_edge h nodes_by_id artifacts_by_external_id e =
     (if te_relation e \<noteq> Affects then None
      else case (dget nodes_by_id (te_source_node_id e), dget nodes_by_id (te_target_node_id e)) of
        (Some source, Some target) \<Rightarrow>
          if on_node_type source \<notin> {Issue, Risk} \<or> on_node_type target \<noteq> Requirement then None
          else (case dget artifacts_by_external_id (external_id_from_node target) of
                  None \<Rightarrow> None
                | Some a \<Rightarrow> if is_critical_requirement h a then Some (source, target) else None)
      | _ \<Rightarrow> None)"

definition issue_affects_critical_requirement_findings :: "host \<Rightarrow> ontology_node list \<Rightarrow>
    traceability_edge list \<Rightarrow> raw_source_artifact list \<Rightarrow> finding list result" where
  "issue_affects_critical_requirement_findings h nodes edges source_artifacts =
     (let nodes_by_id = dict_of (map (\<lambda>n. (on_node_id n, n)) nodes);
          artifacts_by_external_id = dict_of (map (\<lambda>a. (ra_external_id a, a)) source_artifacts)
      in rmap (\<lambda>(e, s, t). issue_finding h e s t)
           (List.map_filter (\<lambda>e. map_option (Pair e) (issue_for_edge h nodes_by_id artifacts_by_external_id e)) edges))"

section \<open>Architecture without a verification path\<close>

definition trace_edges_of :: "traceability_edge list \<Rightarrow> ontology_node \<Rightarrow> traceability_edge list" where
  "trace_edges_of edges n =
     filter (\<lambda>e. te_relation e \<in> {Satisfies, Implements, Derives}) (dlist (outgoing edges) (on_node_id n))"

definition verification_path :: "traceability_edge list \<Rightarrow> ontology_node \<Rightarrow> bool" where
  "verification_path edges n =
     (let direct = filter (\<lambda>e. te_relation e = Verifies) (dlist (incoming edges) (on_node_id n));
          indirect = concat (map (\<lambda>t. filter (\<lambda>e. te_relation e = Verifies)
                       (dlist (incoming edges) (te_target_node_id t))) (trace_edges_of edges n))
      in direct \<noteq> [] \<or> indirect \<noteq> [])"

definition architecture_finding :: "host \<Rightarrow> string list \<Rightarrow> traceability_edge list \<Rightarrow> ontology_node \<Rightarrow>
    finding result" where
  "architecture_finding h node_ids edges n =
     (let trace_edges = trace_edges_of edges n;
          affected_target_ids = filter (\<lambda>i. i \<in> set node_ids) (map te_target_node_id trace_edges);
          affected_edge_ids = map te_edge_id trace_edges;
          digest = hash_prefix h 16 (JObj [
            (''rule'', JStr ''ARCHITECTURE_WITHOUT_VERIFICATION_PATH''),
            (''architecture'', JStr (on_node_id n)), (''targets'', jstrs affected_target_ids),
            (''edges'', jstrs affected_edge_ids)])
      in mk_finding
        \<lparr>fd_finding_id = ''fdg_'' @ digest, fd_finding_type = Missing_Verification, fd_severity = High,
         fd_affected_node_ids = on_node_id n # affected_target_ids,
         fd_affected_edge_ids = affected_edge_ids,
         fd_description = on_node_id n @ '' has no direct or linked verification path.'',
         fd_suggested_action = ''Add a verification relation to the architecture block or to a linked ''
           @ ''requirement/design target that validates this architecture.'',
         fd_evidence = (case trace_edges of [] \<Rightarrow> on_evidence n | e # _ \<Rightarrow> te_evidence e),
         fd_detection_method = By_Rule, fd_approval_status = FS_Open,
         fd_rule_id = Some ''ARCHITECTURE_WITHOUT_VERIFICATION_PATH'', fd_schema_version = ''v1''\<rparr>)"

definition architecture_without_verification_path_findings :: "host \<Rightarrow> ontology_node list \<Rightarrow>
    traceability_edge list \<Rightarrow> finding list result" where
  "architecture_without_verification_path_findings h nodes edges =
     rmap (architecture_finding h (map on_node_id nodes) edges)
       (filter (\<lambda>n. on_node_type n = Architecture_Block \<and> \<not> verification_path edges n) nodes)"

section \<open>All rules\<close>

definition analyze_findings :: "host \<Rightarrow> ontology_node list \<Rightarrow> traceability_edge list \<Rightarrow>
    raw_source_artifact list option \<Rightarrow> (string, evidence_span) dict option \<Rightarrow> finding list result" where
  "analyze_findings h nodes edges source_artifacts evidence_by_external_id =
     (let raws = (case source_artifacts of None \<Rightarrow> [] | Some rs \<Rightarrow> rs);
          evidence = (case evidence_by_external_id of None \<Rightarrow> [] | Some d \<Rightarrow> d) in
      rbind (missing_findings h nodes edges) (\<lambda>f1.
      rbind (conflict_findings h edges) (\<lambda>f2.
      rbind (confluence_stale_trace_findings h nodes raws evidence) (\<lambda>f3.
      rbind (issue_affects_critical_requirement_findings h nodes edges raws) (\<lambda>f4.
      rbind (architecture_without_verification_path_findings h nodes edges) (\<lambda>f5.
      Inr (f1 @ f2 @ f3 @ f4 @ f5)))))))"

section \<open>Lemmas\<close>

lemma mk_finding_Inr:
  assumes "fd_description f \<noteq> []" and "fd_suggested_action f \<noteq> []" and "fd_affected_node_ids f \<noteq> []"
  shows "mk_finding f = Inr (f\<lparr>fd_affected_node_ids := fromkeys (fd_affected_node_ids f),
                 fd_affected_edge_ids := fromkeys (fd_affected_edge_ids f)\<rparr>)"
  using assms by (simp add: mk_finding_def finding_ok_def Let_def Suc_le_eq)

lemma rule_finding_Inr:
  "\<exists>f. rule_finding h r n t = Inr f \<and> fd_rule_id f = Some r \<and> fd_affected_node_ids f = [on_node_id n]
     \<and> fd_finding_type f = t"
  unfolding rule_finding_def by (subst mk_finding_Inr) auto

lemma conflict_finding_Inr:
  "\<exists>f. conflict_finding h te = Inr f \<and> fd_rule_id f = Some ''CONFLICTING_ALTERNATIVES''
     \<and> set (fd_affected_node_ids f) = insert (fst te) (te_source_node_id ` set (snd te))
     \<and> set (fd_affected_edge_ids f) = te_edge_id ` set (snd te)
     \<and> hd (fd_affected_node_ids f) = fst te"
  unfolding conflict_finding_def Let_def by (subst mk_finding_Inr) auto

lemma stale_finding_Inr:
  "\<exists>f. stale_finding h a n ev p c = Inr f \<and> fd_rule_id f = Some ''CONFLUENCE_PAGE_VERSION_CHANGED''
     \<and> fd_affected_node_ids f = [on_node_id n]"
  unfolding stale_finding_def by (subst mk_finding_Inr) auto

lemma issue_finding_Inr:
  "\<exists>f. issue_finding h e s t = Inr f \<and> fd_rule_id f = Some ''ISSUE_AFFECTS_CRITICAL_REQUIREMENT''
     \<and> fd_affected_edge_ids f = [te_edge_id e]
     \<and> set (fd_affected_node_ids f) = {on_node_id s, on_node_id t}"
  unfolding issue_finding_def by (subst mk_finding_Inr) auto

lemma architecture_finding_Inr:
  "\<exists>f. architecture_finding h ids edges n = Inr f \<and> fd_rule_id f = Some ''ARCHITECTURE_WITHOUT_VERIFICATION_PATH''
     \<and> hd (fd_affected_node_ids f) = on_node_id n \<and> fd_affected_node_ids f \<noteq> []
     \<and> fd_affected_edge_ids f = fromkeys (map te_edge_id (trace_edges_of edges n))"
  unfolding architecture_finding_def Let_def by (subst mk_finding_Inr) auto

lemma in_index [simp]:
  "e \<in> set (dlist (incoming edges) i) \<longleftrightarrow> e \<in> set edges \<and> te_target_node_id e = i"
  "e \<in> set (dlist (outgoing edges) i) \<longleftrightarrow> e \<in> set edges \<and> te_source_node_id e = i"
  by (auto simp: incoming_def outgoing_def)

lemma missing_rules_iff:
  "(\<exists>t. (''REQ_WITHOUT_IMPLEMENTATION'', t) \<in> set (missing_rules edges n)) \<longleftrightarrow> on_node_type n = Requirement
     \<and> \<not> (\<exists>e\<in>set edges. te_target_node_id e = on_node_id n \<and> te_relation e \<in> {Satisfies, Implements})"
  "(\<exists>t. (''REQ_WITHOUT_VERIFICATION'', t) \<in> set (missing_rules edges n)) \<longleftrightarrow> on_node_type n = Requirement
     \<and> \<not> (\<exists>e\<in>set edges. te_target_node_id e = on_node_id n \<and> te_relation e = Verifies)"
  "(\<exists>t. (''DESIGN_WITHOUT_PARENT'', t) \<in> set (missing_rules edges n)) \<longleftrightarrow> on_node_type n = Design_Spec
     \<and> \<not> (\<exists>e\<in>set edges. te_source_node_id e = on_node_id n \<and> te_relation e \<in> {Implements, Satisfies, Derives})"
  by (auto simp: missing_rules_def has_implementation_def has_verification_def has_parent_def list_ex_iff)

lemma missing_findings_rule:
  assumes "missing_findings h nodes edges = Inr fs"
  shows "(\<exists>f\<in>set fs. fd_rule_id f = Some r \<and> fd_affected_node_ids f = [i]) \<longleftrightarrow>
     (\<exists>n\<in>set nodes. on_node_id n = i \<and> (\<exists>t. (r, t) \<in> set (missing_rules edges n)))"
proof
  assume "\<exists>f\<in>set fs. fd_rule_id f = Some r \<and> fd_affected_node_ids f = [i]"
  then obtain f where f: "f \<in> set fs" "fd_rule_id f = Some r" "fd_affected_node_ids f = [i]" by blast
  then obtain n r' t where "n \<in> set nodes" "(r', t) \<in> set (missing_rules edges n)"
      "rule_finding h r' n t = Inr f"
    using rmap_set [OF assms [unfolded missing_findings_def], of f] by auto
  with rule_finding_Inr [of h r' n t] f
  show "\<exists>n\<in>set nodes. on_node_id n = i \<and> (\<exists>t. (r, t) \<in> set (missing_rules edges n))" by auto
next
  assume "\<exists>n\<in>set nodes. on_node_id n = i \<and> (\<exists>t. (r, t) \<in> set (missing_rules edges n))"
  then obtain n t where n: "n \<in> set nodes" "on_node_id n = i" "(r, t) \<in> set (missing_rules edges n)" by blast
  from rule_finding_Inr [of h r n t] obtain f where "rule_finding h r n t = Inr f"
    "fd_rule_id f = Some r" "fd_affected_node_ids f = [i]" using n(2) by auto
  with n show "\<exists>f\<in>set fs. fd_rule_id f = Some r \<and> fd_affected_node_ids f = [i]"
    using rmap_set [OF assms [unfolded missing_findings_def], of f] by force
qed

definition other_rules :: "string list" where
  "other_rules = [''CONFLICTING_ALTERNATIVES'', ''CONFLUENCE_PAGE_VERSION_CHANGED'',
     ''ISSUE_AFFECTS_CRITICAL_REQUIREMENT'', ''ARCHITECTURE_WITHOUT_VERIFICATION_PATH'']"

lemma conflict_findings_rule:
  assumes "conflict_findings h edges = Inr fs" and "f \<in> set fs"
  shows "fd_rule_id f = Some ''CONFLICTING_ALTERNATIVES''"
proof -
  from rmap_set [OF assms(1) [unfolded conflict_findings_def]] assms(2)
  obtain te where "conflict_finding h te = Inr f" by force
  with conflict_finding_Inr [of h te] show ?thesis by auto
qed

lemma stale_for_artifact_Some:
  "stale_for_artifact h nodes ev a = Inr (Some f) \<longleftrightarrow>
     (\<exists>p c n e. ra_source_type a = Confluence
        \<and> metadata_int (jget (ra_metadata a) ''previous_version_number'') = Inr (Some p)
        \<and> metadata_int (jget (ra_metadata a) ''version_number'') = Inr (Some c) \<and> p < c
        \<and> dget nodes (ra_external_id a) = Some n \<and> dget ev (ra_external_id a) = Some e
        \<and> stale_finding h a n e p c = Inr f)"
proof (cases "dget nodes (ra_external_id a)"; cases "dget ev (ra_external_id a)")
qed (auto simp: stale_for_artifact_def rbind_def split: sum.splits option.splits if_splits)

lemma stale_findings_rule:
  assumes "confluence_stale_trace_findings h nodes raws ev = Inr fs" and "f \<in> set fs"
  shows "fd_rule_id f = Some ''CONFLUENCE_PAGE_VERSION_CHANGED''"
proof -
  from assms obtain os where os: "rmap (stale_for_artifact h (node_by_external nodes) ev) raws = Inr os"
    "Some f \<in> set os"
    by (auto simp: confluence_stale_trace_findings_def rbind_Inr_iff List.map_filter_def)
  then obtain a where "stale_for_artifact h (node_by_external nodes) ev a = Inr (Some f)"
    using rmap_set [OF os(1)] by auto
  then obtain n e p c where "stale_finding h a n e p c = Inr f"
    by (auto simp: stale_for_artifact_Some)
  with stale_finding_Inr [of h a n e p c] show ?thesis by auto
qed

lemma issue_findings_rule:
  assumes "issue_affects_critical_requirement_findings h nodes edges raws = Inr fs" and "f \<in> set fs"
  shows "fd_rule_id f = Some ''ISSUE_AFFECTS_CRITICAL_REQUIREMENT''"
proof -
  from rmap_set [OF assms(1) [unfolded issue_affects_critical_requirement_findings_def Let_def]] assms(2)
  obtain e s t where "issue_finding h e s t = Inr f" by force
  with issue_finding_Inr [of h e s t] show ?thesis by auto
qed

lemma architecture_findings_rule:
  assumes "architecture_without_verification_path_findings h nodes edges = Inr fs" and "f \<in> set fs"
  shows "fd_rule_id f = Some ''ARCHITECTURE_WITHOUT_VERIFICATION_PATH''"
proof -
  from rmap_set [OF assms(1) [unfolded architecture_without_verification_path_findings_def]] assms(2)
  obtain n where "architecture_finding h (map on_node_id nodes) edges n = Inr f" by force
  with architecture_finding_Inr [of h "map on_node_id nodes" edges n] show ?thesis by auto
qed

lemma missing_findings_rules:
  assumes "missing_findings h nodes edges = Inr fs" and "f \<in> set fs"
  shows "fd_rule_id f \<in> {Some ''REQ_WITHOUT_IMPLEMENTATION'', Some ''REQ_WITHOUT_VERIFICATION'',
           Some ''DESIGN_WITHOUT_PARENT''}"
proof -
  from rmap_set [OF assms(1) [unfolded missing_findings_def]] assms(2)
  obtain n r t where "(r, t) \<in> set (missing_rules edges n)" "rule_finding h r n t = Inr f" by force
  with rule_finding_Inr [of h r n t] show ?thesis by (auto simp: missing_rules_def split: if_splits)
qed

lemma analyze_parts:
  assumes "analyze_findings h nodes edges raws ev = Inr fs"
  obtains f1 f2 f3 f4 f5 where "fs = f1 @ f2 @ f3 @ f4 @ f5" and "missing_findings h nodes edges = Inr f1"
    and "conflict_findings h edges = Inr f2"
    and "confluence_stale_trace_findings h nodes (case raws of None \<Rightarrow> [] | Some rs \<Rightarrow> rs)
           (case ev of None \<Rightarrow> [] | Some d \<Rightarrow> d) = Inr f3"
    and "issue_affects_critical_requirement_findings h nodes edges (case raws of None \<Rightarrow> [] | Some rs \<Rightarrow> rs) = Inr f4"
    and "architecture_without_verification_path_findings h nodes edges = Inr f5"
  using assms by (auto simp: analyze_findings_def rbind_Inr_iff Let_def)

text \<open>
  Property C23. The missing-link rules are exact: the analysis reports a requirement as
  unimplemented, a requirement as unverified, or a design specification as orphaned exactly when no
  edge of the required relations reaches (or, for a design, leaves) that node.
\<close>

theorem missing_link_rules_exact:
  assumes "analyze_findings h nodes edges raws ev = Inr fs"
  shows "((\<exists>f\<in>set fs. fd_rule_id f = Some ''REQ_WITHOUT_IMPLEMENTATION'' \<and> fd_affected_node_ids f = [i]) \<longleftrightarrow>
      (\<exists>n\<in>set nodes. on_node_id n = i \<and> on_node_type n = Requirement
         \<and> \<not> (\<exists>e\<in>set edges. te_target_node_id e = i \<and> te_relation e \<in> {Satisfies, Implements})))
    \<and> ((\<exists>f\<in>set fs. fd_rule_id f = Some ''REQ_WITHOUT_VERIFICATION'' \<and> fd_affected_node_ids f = [i]) \<longleftrightarrow>
      (\<exists>n\<in>set nodes. on_node_id n = i \<and> on_node_type n = Requirement
         \<and> \<not> (\<exists>e\<in>set edges. te_target_node_id e = i \<and> te_relation e = Verifies)))
    \<and> ((\<exists>f\<in>set fs. fd_rule_id f = Some ''DESIGN_WITHOUT_PARENT'' \<and> fd_affected_node_ids f = [i]) \<longleftrightarrow>
      (\<exists>n\<in>set nodes. on_node_id n = i \<and> on_node_type n = Design_Spec
         \<and> \<not> (\<exists>e\<in>set edges. te_source_node_id e = i \<and> te_relation e \<in> {Implements, Satisfies, Derives})))"
proof -
  from assms obtain f1 f2 f3 f4 f5 where p: "fs = f1 @ f2 @ f3 @ f4 @ f5"
    "missing_findings h nodes edges = Inr f1" and o: "conflict_findings h edges = Inr f2"
    "confluence_stale_trace_findings h nodes (case raws of None \<Rightarrow> [] | Some rs \<Rightarrow> rs)
           (case ev of None \<Rightarrow> [] | Some d \<Rightarrow> d) = Inr f3"
    "issue_affects_critical_requirement_findings h nodes edges (case raws of None \<Rightarrow> [] | Some rs \<Rightarrow> rs) = Inr f4"
    "architecture_without_verification_path_findings h nodes edges = Inr f5"
    by (rule analyze_parts)
  have part: "(\<exists>f\<in>set fs. fd_rule_id f = Some r \<and> fd_affected_node_ids f = [i]) \<longleftrightarrow>
     (\<exists>f\<in>set f1. fd_rule_id f = Some r \<and> fd_affected_node_ids f = [i])" if "r \<notin> set other_rules" for r
    using that conflict_findings_rule [OF o(1)] stale_findings_rule [OF o(2)]
      issue_findings_rule [OF o(3)] architecture_findings_rule [OF o(4)]
    unfolding p(1) other_rules_def by fastforce
  have eq: "(\<exists>f\<in>set fs. fd_rule_id f = Some r \<and> fd_affected_node_ids f = [i]) \<longleftrightarrow>
     (\<exists>n\<in>set nodes. on_node_id n = i \<and> (\<exists>t. (r, t) \<in> set (missing_rules edges n)))"
    if "r \<notin> set other_rules" for r
    using part [OF that] missing_findings_rule [OF p(2)] by simp
  have no: "''REQ_WITHOUT_IMPLEMENTATION'' \<notin> set other_rules" "''REQ_WITHOUT_VERIFICATION'' \<notin> set other_rules"
    "''DESIGN_WITHOUT_PARENT'' \<notin> set other_rules" by (simp_all add: other_rules_def)
  show ?thesis
    unfolding eq [OF no(1)] eq [OF no(2)] eq [OF no(3)] missing_rules_iff
    by (intro conjI bex_cong [OF refl] conj_cong refl) simp_all
qed

lemma conflict_findings_target:
  assumes "conflict_findings h edges = Inr fs"
  shows "(\<exists>f\<in>set fs. hd (fd_affected_node_ids f) = t) \<longleftrightarrow>
     1 < length (filter (\<lambda>e. te_relation e = Implements \<and> te_target_node_id e = t) edges)"
proof -
  have "(\<exists>f\<in>set fs. hd (fd_affected_node_ids f) = t) \<longleftrightarrow>
     (\<exists>te\<in>set (implementers edges). 1 < length (snd te) \<and> fst te = t)"
  proof
    assume "\<exists>f\<in>set fs. hd (fd_affected_node_ids f) = t"
    then obtain f te where "te \<in> set (implementers edges)" "1 < length (snd te)"
        "conflict_finding h te = Inr f" "hd (fd_affected_node_ids f) = t"
      using rmap_set [OF assms [unfolded conflict_findings_def]] by auto
    with conflict_finding_Inr [of h te] show "\<exists>te\<in>set (implementers edges). 1 < length (snd te) \<and> fst te = t"
      by auto
  next
    assume "\<exists>te\<in>set (implementers edges). 1 < length (snd te) \<and> fst te = t"
    then obtain te where te: "te \<in> set (implementers edges)" "1 < length (snd te)" "fst te = t" by blast
    from conflict_finding_Inr [of h te] te obtain f where "conflict_finding h te = Inr f"
      "hd (fd_affected_node_ids f) = t" by auto
    with te rmap_set [OF assms [unfolded conflict_findings_def], of f]
    show "\<exists>f\<in>set fs. hd (fd_affected_node_ids f) = t" by (cases te) auto
  qed
  also have "\<dots> \<longleftrightarrow> 1 < length (dlist (implementers edges) t)"
  proof
    assume "\<exists>te\<in>set (implementers edges). 1 < length (snd te) \<and> fst te = t"
    then obtain es where es: "(t, es) \<in> set (implementers edges)" "1 < length es" by auto
    then show "1 < length (dlist (implementers edges) t)"
      by (auto simp: implementers_def dest!: in_group_by)
  next
    assume len: "1 < length (dlist (implementers edges) t)"
    then obtain es where "dget (implementers edges) t = Some es" "1 < length es"
      by (auto simp: dlist_def split: option.splits)
    then show "\<exists>te\<in>set (implementers edges). 1 < length (snd te) \<and> fst te = t"
      by (intro bexI [of _ "(t, es)"]) (auto dest: map_of_SomeD)
  qed
  also have "dlist (implementers edges) t
      = filter (\<lambda>e. te_relation e = Implements \<and> te_target_node_id e = t) edges"
    by (simp add: implementers_def conj_commute)
  finally show ?thesis .
qed

lemma verification_path_iff:
  "verification_path edges n \<longleftrightarrow> (\<exists>e\<in>set edges. te_relation e = Verifies \<and>
     (te_target_node_id e = on_node_id n
      \<or> (\<exists>t\<in>set edges. te_source_node_id t = on_node_id n \<and> te_relation t \<in> {Satisfies, Implements, Derives}
            \<and> te_target_node_id e = te_target_node_id t)))"
proof -
  have "verification_path edges n \<longleftrightarrow>
     (\<exists>e\<in>set (dlist (incoming edges) (on_node_id n)). te_relation e = Verifies)
     \<or> (\<exists>t\<in>set (trace_edges_of edges n). \<exists>e\<in>set (dlist (incoming edges) (te_target_node_id t)).
          te_relation e = Verifies)"
    unfolding verification_path_def Let_def concat_eq_Nil_conv by (auto simp: filter_empty_conv)
  then show ?thesis unfolding trace_edges_of_def Bex_def set_filter mem_Collect_eq in_index by blast
qed

lemma architecture_findings_node:
  assumes "architecture_without_verification_path_findings h nodes edges = Inr fs"
  shows "(\<exists>f\<in>set fs. hd (fd_affected_node_ids f) = i) \<longleftrightarrow>
     (\<exists>n\<in>set nodes. on_node_id n = i \<and> on_node_type n = Architecture_Block \<and> \<not> verification_path edges n)"
proof
  assume "\<exists>f\<in>set fs. hd (fd_affected_node_ids f) = i"
  then obtain f n where "n \<in> set nodes" "on_node_type n = Architecture_Block" "\<not> verification_path edges n"
      "architecture_finding h (map on_node_id nodes) edges n = Inr f" "hd (fd_affected_node_ids f) = i"
    using rmap_set [OF assms [unfolded architecture_without_verification_path_findings_def]] by auto
  with architecture_finding_Inr [of h "map on_node_id nodes" edges n]
  show "\<exists>n\<in>set nodes. on_node_id n = i \<and> on_node_type n = Architecture_Block \<and> \<not> verification_path edges n"
    by auto
next
  assume "\<exists>n\<in>set nodes. on_node_id n = i \<and> on_node_type n = Architecture_Block \<and> \<not> verification_path edges n"
  then obtain n where n: "n \<in> set nodes" "on_node_id n = i" "on_node_type n = Architecture_Block"
    "\<not> verification_path edges n" by blast
  from architecture_finding_Inr [of h "map on_node_id nodes" edges n] n(2) obtain f
    where "architecture_finding h (map on_node_id nodes) edges n = Inr f" "hd (fd_affected_node_ids f) = i"
    by auto
  with n rmap_set [OF assms [unfolded architecture_without_verification_path_findings_def], of f]
  show "\<exists>f\<in>set fs. hd (fd_affected_node_ids f) = i" by auto
qed

text \<open>
  The two structural rules are exact: a conflict is reported on a target exactly when at
  least two \<open>implements\<close> edges reach it, and an architecture block is reported as unverifiable exactly
  when no \<open>verifies\<close> edge reaches it or a target of its own trace edges.
\<close>

theorem structural_rules_exact:
  assumes "analyze_findings h nodes edges raws ev = Inr fs"
  shows "((\<exists>f\<in>set fs. fd_rule_id f = Some ''CONFLICTING_ALTERNATIVES'' \<and> hd (fd_affected_node_ids f) = i) \<longleftrightarrow>
      1 < length (filter (\<lambda>e. te_relation e = Implements \<and> te_target_node_id e = i) edges))
    \<and> ((\<exists>f\<in>set fs. fd_rule_id f = Some ''ARCHITECTURE_WITHOUT_VERIFICATION_PATH''
           \<and> hd (fd_affected_node_ids f) = i) \<longleftrightarrow>
      (\<exists>n\<in>set nodes. on_node_id n = i \<and> on_node_type n = Architecture_Block
         \<and> \<not> (\<exists>e\<in>set edges. te_relation e = Verifies \<and>
             (te_target_node_id e = i
              \<or> (\<exists>t\<in>set edges. te_source_node_id t = i \<and> te_relation t \<in> {Satisfies, Implements, Derives}
                    \<and> te_target_node_id e = te_target_node_id t)))))"
proof -
  from assms obtain f1 f2 f3 f4 f5 where p: "fs = f1 @ f2 @ f3 @ f4 @ f5"
    and o: "missing_findings h nodes edges = Inr f1" "conflict_findings h edges = Inr f2"
    "confluence_stale_trace_findings h nodes (case raws of None \<Rightarrow> [] | Some rs \<Rightarrow> rs)
           (case ev of None \<Rightarrow> [] | Some d \<Rightarrow> d) = Inr f3"
    "issue_affects_critical_requirement_findings h nodes edges (case raws of None \<Rightarrow> [] | Some rs \<Rightarrow> rs) = Inr f4"
    "architecture_without_verification_path_findings h nodes edges = Inr f5"
    by (rule analyze_parts)
  note rules = missing_findings_rules [OF o(1)] conflict_findings_rule [OF o(2)] stale_findings_rule [OF o(3)]
      issue_findings_rule [OF o(4)] architecture_findings_rule [OF o(5)]
  have "(\<exists>f\<in>set fs. fd_rule_id f = Some ''CONFLICTING_ALTERNATIVES'' \<and> hd (fd_affected_node_ids f) = i)
      \<longleftrightarrow> (\<exists>f\<in>set f2. hd (fd_affected_node_ids f) = i)"
    using rules unfolding p by fastforce
  moreover have "(\<exists>f\<in>set fs. fd_rule_id f = Some ''ARCHITECTURE_WITHOUT_VERIFICATION_PATH''
      \<and> hd (fd_affected_node_ids f) = i) \<longleftrightarrow> (\<exists>f\<in>set f5. hd (fd_affected_node_ids f) = i)"
    using rules unfolding p by fastforce
  ultimately show ?thesis
    unfolding conflict_findings_target [OF o(2)] architecture_findings_node [OF o(5)] verification_path_iff
    by (intro conjI) (simp, simp cong: conj_cong)
qed

subsection \<open>When the analysis raises\<close>

definition unreadable_version :: "json \<Rightarrow> bool" where
  \<comment> \<open>a text that \<open>isdigit\<close> accepts and \<open>int\<close> refuses\<close>
  "unreadable_version v = (case v of
       JStr s \<Rightarrow> py_isdigit s \<and> \<not> (list_all is_ascii_digit s \<and> length s \<le> 4300)
     | _ \<Rightarrow> False)"

lemma metadata_int_Inl: "(\<exists>e. metadata_int v = Inl e) \<longleftrightarrow> unreadable_version v"
  by (auto simp: metadata_int_def unreadable_version_def py_int_def py_isdigit_def rbind_def
      split: json.splits sum.splits)

lemma metadata_int_Inr: "(\<exists>x. metadata_int v = Inr x) \<longleftrightarrow> \<not> unreadable_version v"
  using metadata_int_Inl [of v] by (cases "metadata_int v") auto

lemma stale_for_artifact_total:
  "(\<exists>x. stale_for_artifact h nodes ev a = Inr x) \<longleftrightarrow>
     \<not> (ra_source_type a = Confluence \<and> (unreadable_version (jget (ra_metadata a) ''previous_version_number'')
          \<or> unreadable_version (jget (ra_metadata a) ''version_number'')))"
proof -
  have ok: "\<exists>f. stale_finding h a n e p c = Inr f" for n e p c
    using stale_finding_Inr [of h a n e p c] by blast
  let ?m = "metadata_int (jget (ra_metadata a) ''previous_version_number'')"
  let ?n = "metadata_int (jget (ra_metadata a) ''version_number'')"
  have "(\<exists>x. stale_for_artifact h nodes ev a = Inr x) \<longleftrightarrow>
      (ra_source_type a = Confluence \<longrightarrow> (\<exists>x. ?m = Inr x) \<and> (\<exists>x. ?n = Inr x))"
  proof (cases ?m; cases ?n)
    fix x y assume mn: "?m = Inr x" "?n = Inr y"
    have "\<exists>z. (case (x, y) of
               (Some p, Some c) \<Rightarrow>
                 if c \<le> p then Inr None
                 else (case (dget nodes (ra_external_id a), dget ev (ra_external_id a)) of
                         (Some n, Some ev) \<Rightarrow> rbind (stale_finding h a n ev p c) (\<lambda>f. Inr (Some f))
                       | _ \<Rightarrow> Inr None)
             | _ \<Rightarrow> Inr None) = Inr z"
      using ok by (auto simp: rbind_Inr_iff split: option.splits)
    with mn show ?thesis by (simp add: stale_for_artifact_def)
  qed (auto simp: stale_for_artifact_def)
  then show ?thesis unfolding metadata_int_Inr by blast
qed

lemma rmap_Inr_iff: "(\<exists>ys. rmap f xs = Inr ys) \<longleftrightarrow> (\<forall>x\<in>set xs. \<exists>y. f x = Inr y)"
  by (induction xs) (auto simp: rbind_Inr_iff)

text \<open>
  The analysis raises exactly when a Confluence artifact carries a version text that
  \<open>str.isdigit\<close> accepts and \<open>int\<close> refuses (a superscript digit, or more than 4300 digits);
  otherwise it returns, for every graph and every other metadata.
\<close>

theorem analyze_findings_raises_iff:
  "(\<exists>fs. analyze_findings h nodes edges (Some raws) ev = Inr fs) \<longleftrightarrow>
     \<not> (\<exists>a\<in>set raws. ra_source_type a = Confluence
          \<and> (unreadable_version (jget (ra_metadata a) ''previous_version_number'')
             \<or> unreadable_version (jget (ra_metadata a) ''version_number'')))"
proof -
  have "\<exists>fs. missing_findings h nodes edges = Inr fs"
    unfolding missing_findings_def rmap_Inr_iff using rule_finding_Inr by fastforce
  moreover have "\<exists>fs. conflict_findings h edges = Inr fs"
    unfolding conflict_findings_def rmap_Inr_iff using conflict_finding_Inr by fast
  moreover have "\<exists>fs. issue_affects_critical_requirement_findings h nodes edges raws = Inr fs"
    unfolding issue_affects_critical_requirement_findings_def Let_def rmap_Inr_iff
    using issue_finding_Inr by fastforce
  moreover have "\<exists>fs. architecture_without_verification_path_findings h nodes edges = Inr fs"
    unfolding architecture_without_verification_path_findings_def rmap_Inr_iff
    using architecture_finding_Inr by fast
  moreover have "(\<exists>fs. confluence_stale_trace_findings h nodes raws e = Inr fs) \<longleftrightarrow>
      (\<forall>a\<in>set raws. \<exists>x. stale_for_artifact h (node_by_external nodes) e a = Inr x)" for e
    by (simp add: confluence_stale_trace_findings_def rbind_Inr_iff rmap_Inr_iff)
  ultimately show ?thesis
    unfolding stale_for_artifact_total
    by (auto simp: analyze_findings_def rbind_Inr_iff Let_def)
qed

section \<open>Instances\<close>

lemma analyze_demo: "\<exists>fs. analyze_findings demo_host demo_nodes edges (Some []) None = Inr fs"
  using analyze_findings_raises_iff [of demo_host demo_nodes edges "[]" None] by simp

lemma missing_link_rules_exact_witness:
  "\<exists>fs. analyze_findings demo_host demo_nodes [] (Some []) None = Inr fs
     \<and> (\<exists>f\<in>set fs. fd_rule_id f = Some ''REQ_WITHOUT_VERIFICATION'' \<and> fd_affected_node_ids f = [''node_P_B_1''])"
proof -
  obtain fs where fs: "analyze_findings demo_host demo_nodes [] (Some []) None = Inr fs"
    using analyze_demo by blast
  with missing_link_rules_exact [OF fs, of "''node_P_B_1''"] show ?thesis
    by (auto simp: demo_nodes_def demo_node_def)
qed

lemma structural_rules_exact_witness:
  "\<exists>fs. analyze_findings demo_host demo_nodes
       [demo_edge ''e1'' ''x'' ''t'' Implements, demo_edge ''e2'' ''y'' ''t'' Implements] (Some []) None = Inr fs
     \<and> (\<exists>f\<in>set fs. fd_rule_id f = Some ''CONFLICTING_ALTERNATIVES'' \<and> hd (fd_affected_node_ids f) = ''t'')"
proof -
  obtain fs where fs: "analyze_findings demo_host demo_nodes
       [demo_edge ''e1'' ''x'' ''t'' Implements, demo_edge ''e2'' ''y'' ''t'' Implements] (Some []) None = Inr fs"
    using analyze_demo by blast
  with structural_rules_exact [OF fs, of "''t''"] show ?thesis by (auto simp: demo_edge_def)
qed

end
