(* ===== verification/Workflow.thy ===== *)
theory Workflow
  imports Actions Export Vector Findings
begin

text \<open>
  \<open>workflows/analysis_graph.py\<close>: ingestion and analysis runs, from the source fetch to the staging of
  approvals, composed of the models of the parts they call.

  The state of a workflow object is the state of its backends: the source adapter (\<open>'a\<close>), the trace
  repository, the artifact store, the graph (\<open>'g\<close>), the vector store (\<open>'v\<close>) and the approval service.
  The environment holds what the workflow is given or takes from the library: the backends' operations,
  the clock (by the name of the program point that reads it), date parsing and regular-expression
  search. The clocks of prompts and cursors play no part in what follows.
\<close>

section \<open>State and environment\<close>

record ('a, 'g, 'v) wf_state =
  wf_adapter :: 'a
  wf_traces :: trace_repository
  wf_store :: artifact_store
  wf_graph :: 'g
  wf_vector :: 'v
  wf_approvals :: approval_service

record ('a, 'g, 'v) wf_env =
  we_cwd :: "string list"
  we_host :: host
  we_now :: "string \<Rightarrow> time"
  we_parse_iso :: "string \<Rightarrow> time result"
  we_re_search :: "string \<Rightarrow> string \<Rightarrow> bool option"
  we_source_type :: source_type
  we_fetch :: "'a fetcher"
  we_stage_nodes :: "ontology_node list \<Rightarrow> 'g \<Rightarrow> 'g \<times> unit result"
  we_upsert :: "artifact_chunk list \<Rightarrow> 'v \<Rightarrow> 'v \<times> unit result"
  we_search :: "string \<Rightarrow> string \<Rightarrow> int \<Rightarrow> 'v \<Rightarrow> artifact_chunk list result"

type_synonym ('a, 'g, 'v, 'r) wf = "(('a, 'g, 'v) wf_state, 'r) act"

record ingestion_result =
  ig_run :: agent_run
  ig_steps :: "agent_step_trace list"
  ig_artifacts :: "source_artifact list"
  ig_chunks :: "artifact_chunk list"
  ig_source_cursor :: source_sync_cursor_state
  ig_source_warnings :: "string list"

section \<open>Operations of the backends\<close>

definition on_traces :: "(trace_repository \<Rightarrow> trace_repository \<times> 'r result) \<Rightarrow> ('a, 'g, 'v, 'r) wf" where
  "on_traces = act_on wf_traces (\<lambda>p s. s\<lparr>wf_traces := p\<rparr>)"

definition begin_run :: "('a, 'g, 'v) wf_env \<Rightarrow> string \<Rightarrow> run_type \<Rightarrow> string \<Rightarrow> string \<Rightarrow> trigger_source \<Rightarrow>
    ('a, 'g, 'v, agent_run) wf" where
  \<comment> \<open>\<open>create_run\<close> and \<open>mark_run_running\<close>\<close>
  "begin_run env run_id rt project_key triggered_by src =
     act_bind (on_traces (\<lambda>tr. map_prod id Inr
        (create_run (we_now env ''create_run'') run_id rt project_key triggered_by src tr)))
       (\<lambda>_. on_traces (mark_run_running run_id))"

definition end_run :: "('a, 'g, 'v) wf_env \<Rightarrow> string \<Rightarrow> run_status \<Rightarrow> string option \<Rightarrow> string option \<Rightarrow>
    ('a, 'g, 'v, agent_run) wf" where
  "end_run env run_id status code message =
     on_traces (complete_run (we_now env ''complete_run'') run_id status code message)"

definition step_id_of :: "string \<Rightarrow> string \<Rightarrow> string" where
  "step_id_of run_id name = ''step_'' @ run_id @ ''_'' @ name"

definition begin_step :: "('a, 'g, 'v) wf_env \<Rightarrow> string \<Rightarrow> string \<Rightarrow> string \<Rightarrow> json \<Rightarrow> string option \<Rightarrow>
    ('a, 'g, 'v, agent_step_trace) wf" where
  "begin_step env run_id name stage payload ref =
     on_traces (start_step (we_host env) (we_now env (''start_'' @ name)) (step_id_of run_id name) run_id stage
       payload ref 0)"

definition end_step :: "('a, 'g, 'v) wf_env \<Rightarrow> string \<Rightarrow> string \<Rightarrow> json \<Rightarrow> string option \<Rightarrow> string option \<Rightarrow>
    validation_status \<Rightarrow> jobj \<Rightarrow> ('a, 'g, 'v, agent_step_trace) wf" where
  "end_step env run_id name payload output_ref context_ref vstatus vresult =
     on_traces (finish_step (we_host env) (we_now env (''finish_'' @ name)) (step_id_of run_id name) payload
       output_ref context_ref vstatus (Some vresult))"

definition save_json :: "('a, 'g, 'v) wf_env \<Rightarrow> string \<Rightarrow> string \<Rightarrow> json \<Rightarrow> ('a, 'g, 'v, stage_artifact_ref) wf" where
  "save_json env run_id name payload =
     act_on wf_store (\<lambda>p s. s\<lparr>wf_store := p\<rparr>)
       (\<lambda>st. map_prod id Inr (write_json (we_cwd env) (we_host env) run_id name payload st))"

definition json_list :: "('x \<Rightarrow> jobj) \<Rightarrow> 'x list \<Rightarrow> json" where
  "json_list dump xs = JList (map (\<lambda>x. JObj (dump x)) xs)"

definition jstr_of :: "('x \<Rightarrow> string) \<Rightarrow> 'x list \<Rightarrow> json" where
  "jstr_of f xs = jstrs (map f xs)"

section \<open>Ingestion\<close>

definition record_input_snapshots :: "string \<Rightarrow> string list \<Rightarrow> trace_repository \<Rightarrow> trace_repository \<times> unit result" where
  "record_input_snapshots run_id ids tr =
     (case dget (tr_runs tr) run_id of
        None \<Rightarrow> (tr, Inl (KeyError run_id))
      | Some r \<Rightarrow> (tr\<lparr>tr_runs := dset run_id (r\<lparr>rn_input_snapshot_ids := fromkeys ids\<rparr>) (tr_runs tr)\<rparr>, Inr ()))"

definition sync_cursor_state :: "('a, 'g, 'v) wf_env \<Rightarrow> string \<Rightarrow> string \<Rightarrow> string \<Rightarrow> source_fetch_result \<Rightarrow>
    source_sync_cursor_state" where
  "sync_cursor_state env run_id project_key scenario fetch =
     \<lparr>cs_cursor_id = source_sync_cursor_id (we_source_type env) project_key scenario,
      cs_source_type = we_source_type env, cs_project_key = project_key, cs_scenario = scenario,
      cs_run_id = run_id, cs_stage_name = ''source_fetch'', cs_initial_cursor = fr_initial_cursor fetch,
      cs_completed_cursor = fr_completed_cursor fetch, cs_next_cursor = fr_next_cursor fetch,
      cs_artifact_count = int (length (fr_artifacts fetch)), cs_page_count = fr_page_count fetch,
      cs_content_hash = raws_hash (we_host env) (fr_artifacts fetch),
      cs_source_warnings = fr_source_warnings fetch, cs_partial_failure = fr_partial_failure fetch,
      cs_updated_at = we_now env ''source_cursor'', cs_schema_version = ''v1''\<rparr>"

definition evidence_map :: "host \<Rightarrow> (raw_source_artifact \<times> source_artifact) list \<Rightarrow>
    (string, evidence_span) dict result" where
  \<comment> \<open>the dictionary comprehension over \<open>zip(fetch.artifacts, artifacts)\<close>\<close>
  "evidence_map h pairs =
     rbind (rmap (\<lambda>ra. build_artifact_evidence h (sa_artifact_id (snd ra)) (fst ra)) pairs)
       (\<lambda>es. Inr (dict_of (zip (map (\<lambda>ra. ra_external_id (fst ra)) pairs) es)))"

definition evidence_for :: "(string, evidence_span) dict \<Rightarrow> raw_source_artifact \<Rightarrow> evidence_span result" where
  "evidence_for d raw = (case dget d (ra_external_id raw) of
     None \<Rightarrow> Inl (KeyError (ra_external_id raw)) | Some e \<Rightarrow> Inr e)"

definition fetch_stage :: "('a, 'g, 'v) wf_env \<Rightarrow> string \<Rightarrow> string \<Rightarrow> string \<Rightarrow>
    ('a, 'g, 'v, source_fetch_result \<times> stage_artifact_ref) wf" where
  "fetch_stage env run_id project_key scenario =
     act_bind (begin_step env run_id ''source_fetch'' ''source_fetch''
        (JObj [(''scenario'', JStr scenario)]) None) (\<lambda>_.
     act_bind (\<lambda>s. map_option (map_prod (\<lambda>a. s\<lparr>wf_adapter := a\<rparr>) id)
        (fetch_all (we_host env) (we_fetch env)
           \<lparr>sc_project_key = project_key, sc_scenario = scenario, sc_limit = 100\<rparr> (wf_adapter s))) (\<lambda>fetch.
     act_bind (save_json env run_id ''source_fetch'' (JObj (fetch_dump fetch))) (\<lambda>ref.
     act_bind (end_step env run_id ''source_fetch'' (JObj (fetch_dump fetch)) (Some (rf_artifact_ref ref)) None
        (if \<not> fr_partial_failure fetch then VS_Passed else VS_Failed)
        [(''artifact_count'', JInt (int (length (fr_artifacts fetch)))),
         (''page_count'', JInt (fr_page_count fetch)),
         (''source_sync_cursor_id'', JStr (source_sync_cursor_id (we_source_type env) project_key scenario)),
         (''completed_cursor'', cursor_opt_json (fr_completed_cursor fetch)),
         (''next_cursor'', cursor_opt_json (fr_next_cursor fetch)),
         (''source_warnings'', jstrs (fr_source_warnings fetch)),
         (''partial_failure'', JBool (fr_partial_failure fetch))]) (\<lambda>_.
     act_return (fetch, ref)))))"

definition normalize_stage :: "('a, 'g, 'v) wf_env \<Rightarrow> string \<Rightarrow> source_fetch_result \<Rightarrow> stage_artifact_ref \<Rightarrow>
    ('a, 'g, 'v, source_artifact list \<times> (string, evidence_span) dict \<times> stage_artifact_ref) wf" where
  "normalize_stage env run_id fetch fetch_ref =
     act_bind (begin_step env run_id ''normalize'' ''normalize'' (JObj (fetch_dump fetch)) None) (\<lambda>_.
     act_bind (act_of (rmap (normalize_raw_artifact (we_host env) (we_parse_iso env) (we_now env ''ingested''))
        (fr_artifacts fetch))) (\<lambda>artifacts.
     act_bind (on_traces (record_input_snapshots run_id (map sa_artifact_id artifacts))) (\<lambda>_.
     act_bind (act_of (evidence_map (we_host env) (zip (fr_artifacts fetch) artifacts))) (\<lambda>evidence.
     act_bind (save_json env run_id ''normalize'' (json_list source_artifact_dump artifacts)) (\<lambda>ref.
     act_bind (end_step env run_id ''normalize'' (json_list source_artifact_dump artifacts)
        (Some (rf_artifact_ref ref)) (Some (rf_artifact_ref fetch_ref)) VS_Passed
        [(''artifact_count'', JInt (int (length artifacts))),
         (''input_snapshot_ids'', jstr_of sa_artifact_id artifacts)]) (\<lambda>_.
     act_return (artifacts, evidence, ref)))))))"

definition violation_payload :: "source_artifact \<Rightarrow> raw_source_artifact \<Rightarrow> string list \<Rightarrow> jobj" where
  "violation_payload artifact raw violations =
     [(''artifact_id'', JStr (sa_artifact_id artifact)), (''external_id'', JStr (ra_external_id raw)),
      (''violation_labels'', jstrs violations), (''security_review_required'', JBool True)]"

definition masking_violation :: "('a, 'g, 'v) wf_env \<Rightarrow> string \<Rightarrow> source_artifact \<Rightarrow> raw_source_artifact \<Rightarrow>
    string list \<Rightarrow> ('a, 'g, 'v, 'r) wf" where
  \<comment> \<open>the body of \<open>if violations:\<close>\<close>
  "masking_violation env run_id artifact raw violations =
     (let payload = violation_payload artifact raw violations in
      act_bind (save_json env run_id ''masking_policy_violation'' (JObj payload)) (\<lambda>ref.
      let e = MaskingPolicyViolationError (sa_artifact_id artifact) violations (Some (rf_artifact_ref ref)) in
      act_bind (on_traces (fail_step (we_host env) (we_now env ''fail_mask_chunk'')
         (step_id_of run_id ''mask_chunk'') ''MASKING_POLICY_VIOLATION'' (exc_text e) (Some (JObj payload))
         (Some (rf_artifact_ref ref)) VS_Failed (Some payload))) (\<lambda>_.
      act_bind (end_run env run_id RS_Failed (Some ''MASKING_POLICY_VIOLATION'') (Some (exc_text e))) (\<lambda>_.
      act_raise e))))"

definition mask_and_chunk :: "('a, 'g, 'v) wf_env \<Rightarrow> string \<Rightarrow> (string, evidence_span) dict \<Rightarrow>
    raw_source_artifact \<times> source_artifact \<Rightarrow> ('a, 'g, 'v, artifact_chunk list) wf" where
  \<comment> \<open>the body of the loop over the artifacts\<close>
  "mask_and_chunk env run_id evidence ra =
     (case ra of (raw, artifact) \<Rightarrow>
       (let masked = mk_text (mask_text (ra_body_text raw));
            violations = find_masking_violations (we_re_search env) masked
              (jget (ra_metadata raw) ''forbidden_patterns'')
        in if violations \<noteq> [] then masking_violation env run_id artifact raw violations
           else act_of (rbind (evidence_for evidence raw)
             (\<lambda>e. chunk_artifact (we_host env) artifact masked e 700))))"

definition mask_stage :: "('a, 'g, 'v) wf_env \<Rightarrow> string \<Rightarrow> (raw_source_artifact \<times> source_artifact) list \<Rightarrow>
    (string, evidence_span) dict \<Rightarrow> stage_artifact_ref \<Rightarrow> ('a, 'g, 'v, artifact_chunk list) wf" where
  "mask_stage env run_id pairs evidence norm_ref =
     act_bind (begin_step env run_id ''mask_chunk'' ''mask_chunk'' (jstr_of (\<lambda>ra. sa_artifact_id (snd ra)) pairs) None) (\<lambda>_.
     act_bind (act_each (mask_and_chunk env run_id evidence) pairs) (\<lambda>css.
     let chunks = concat css in
     act_bind (act_on wf_vector (\<lambda>p s. s\<lparr>wf_vector := p\<rparr>) (we_upsert env chunks)) (\<lambda>_.
     act_bind (save_json env run_id ''chunks'' (json_list artifact_chunk_dump chunks)) (\<lambda>ref.
     act_bind (end_step env run_id ''mask_chunk'' (json_list artifact_chunk_dump chunks)
        (Some (rf_artifact_ref ref)) (Some (rf_artifact_ref norm_ref)) VS_Passed
        [(''chunk_count'', JInt (int (length chunks))), (''masking_applied'', JBool True),
         (''vector_upserted'', JBool True)]) (\<lambda>_.
     act_return chunks)))))"

record ingested =
  ix_fetch :: source_fetch_result
  ix_artifacts :: "source_artifact list"
  ix_chunks :: "artifact_chunk list"
  ix_cursor :: source_sync_cursor_state

definition run_ingestion_stages :: "('a, 'g, 'v) wf_env \<Rightarrow> string \<Rightarrow> string \<Rightarrow> string \<Rightarrow> ('a, 'g, 'v, ingested) wf" where
  "run_ingestion_stages env run_id project_key scenario =
     act_bind (fetch_stage env run_id project_key scenario) (\<lambda>(fetch, fetch_ref).
     act_bind (normalize_stage env run_id fetch fetch_ref) (\<lambda>(artifacts, evidence, norm_ref).
     act_bind (mask_stage env run_id (zip (fr_artifacts fetch) artifacts) evidence norm_ref) (\<lambda>chunks.
     act_return \<lparr>ix_fetch = fetch, ix_artifacts = artifacts, ix_chunks = chunks,
       ix_cursor = sync_cursor_state env run_id project_key scenario fetch\<rparr>)))"

definition ingest :: "('a, 'g, 'v) wf_env \<Rightarrow> string \<Rightarrow> string \<Rightarrow> string \<Rightarrow> string \<Rightarrow> trigger_source \<Rightarrow>
    ('a, 'g, 'v, ingestion_result) wf" where
  "ingest env run_id project_key scenario triggered_by src =
     act_bind (begin_run env run_id RT_Ingestion project_key triggered_by src) (\<lambda>_.
     act_bind (run_ingestion_stages env run_id project_key scenario) (\<lambda>x.
     act_bind (end_run env run_id RS_Succeeded None None) (\<lambda>completed.
     act_bind (on_traces (\<lambda>tr. (tr, Inr (list_steps run_id tr)))) (\<lambda>steps.
     act_return \<lparr>ig_run = completed, ig_steps = steps, ig_artifacts = ix_artifacts x, ig_chunks = ix_chunks x,
       ig_source_cursor = ix_cursor x, ig_source_warnings = fr_source_warnings (ix_fetch x)\<rparr>))))"

section \<open>Reviews by the dummy model\<close>

text \<open>
  The three output models have the same shape up to the name of their count. The validation covers the
  declared types; the coercions of Pydantic between types do not arise, since the outputs are the
  fixtures built here, and are answered as errors.
\<close>

record reasoning_output =
  ro_count :: int
  ro_confidence_score :: rat
  ro_rationale :: string
  ro_counter_evidence_refs :: "string list"

definition json_number :: "json \<Rightarrow> rat option" where
  "json_number v = (case v of JInt i \<Rightarrow> Some (of_int i) | JFloat q \<Rightarrow> Some q | _ \<Rightarrow> None)"

fun json_strings :: "json list \<Rightarrow> string list option" where
  "json_strings [] = Some []"
| "json_strings (JStr s # vs) = map_option (Cons s) (json_strings vs)"
| "json_strings (_ # vs) = None"

definition reasoning_of_json :: "string \<Rightarrow> jobj \<Rightarrow> string + reasoning_output" where
  "reasoning_of_json count_field obj =
     (if \<not> set (dkeys obj) \<subseteq> {count_field, ''confidence_score'', ''rationale'', ''counter_evidence_refs''}
      then Inl ''extra_forbidden''
      else case (jget obj count_field, json_number (jget obj ''confidence_score''), jget obj ''rationale'',
          (case jget_or obj ''counter_evidence_refs'' (JList []) of JList vs \<Rightarrow> json_strings vs | _ \<Rightarrow> None)) of
        (JInt n, Some q, JStr rationale, Some refs) \<Rightarrow>
          (if n < 0 then Inl ''greater_than_equal''
           else if q < 0 \<or> 1 < q then Inl ''confidence_score''
           else Inr \<lparr>ro_count = n, ro_confidence_score = q, ro_rationale = rationale,
             ro_counter_evidence_refs = refs\<rparr>)
      | _ \<Rightarrow> Inl ''type_error'')"

definition reasoning_dump :: "string \<Rightarrow> reasoning_output \<Rightarrow> jobj" where
  "reasoning_dump count_field r = [(count_field, JInt (ro_count r)),
     (''confidence_score'', JFloat (ro_confidence_score r)), (''rationale'', JStr (ro_rationale r)),
     (''counter_evidence_refs'', jstrs (ro_counter_evidence_refs r))]"

definition reasoning_schema :: "string \<Rightarrow> reasoning_output response_schema" where
  "reasoning_schema count_field =
     \<lparr>rs_validate = reasoning_of_json count_field, rs_dump = reasoning_dump count_field\<rparr>"

definition structured_validation_dump :: "structured_validation \<Rightarrow> jobj" where
  "structured_validation_dump v = [(''status'', JStr (structured_status_str (sv_status v))),
     (''error_message'', jopt (sv_error_message v)),
     (''repaired_output'', (case sv_repaired_output v of None \<Rightarrow> JNull | Some x \<Rightarrow> JObj x))]"

definition dummy_model_profile :: model_profile where
  "dummy_model_profile =
     \<lparr>mp_model_profile_id = ''dummy-local'', mp_provider = MP_Dummy, mp_model_name = ''deterministic-dummy'',
      mp_endpoint_alias = ''local-fixture'',
      mp_allowed_data_classes = [''public_internal'', ''restricted'', ''confidential'', ''no_external_llm''],
      mp_supports_json_schema = True, mp_supports_tool_calling = False, mp_max_context_tokens = 8192,
      mp_default_temperature = 0, mp_timeout_seconds = 30, mp_is_active = True, mp_schema_version = ''v1''\<rparr>"

definition record_model_metadata :: "string \<Rightarrow> string \<Rightarrow> string \<Rightarrow> trace_repository \<Rightarrow> trace_repository \<times> unit result" where
  "record_model_metadata run_id model_profile_id prompt_version_id tr =
     (case dget (tr_runs tr) run_id of
        None \<Rightarrow> (tr, Inl (KeyError run_id))
      | Some r \<Rightarrow> (tr\<lparr>tr_runs := dset run_id (r\<lparr>rn_model_profile_id := Some model_profile_id,
           rn_prompt_version_ids := fromkeys (rn_prompt_version_ids r @ [prompt_version_id])\<rparr>) (tr_runs tr)\<rparr>, Inr ()))"

definition review_prompt :: "('a, 'g, 'v) wf_env \<Rightarrow> string \<Rightarrow> prompt_task \<Rightarrow> string \<Rightarrow> prompt_version" where
  "review_prompt env prompt_id task template =
     \<lparr>pv_prompt_version_id = prompt_id, pv_task_name = task, pv_template = template,
      pv_schema_version_ref = ''ontology.v1.'' @ prompt_task_str task, pv_retrieval_policy_id = ''ret_dummy_v1'',
      pv_created_by = ''system'', pv_created_at = we_now env prompt_id, pv_status = PS_Active,
      pv_schema_version = ''v1''\<rparr>"

definition review_request :: "string \<Rightarrow> jobj \<Rightarrow> model_request" where
  "review_request prompt_id payload =
     \<lparr>mr_model_profile_id = ''dummy-local'', mr_prompt_version_id = prompt_id, mr_payload = payload,
      mr_data_classification = ''restricted'', mr_masking_applied = True, mr_access_checked = True,
      mr_schema_version = ''v1''\<rparr>"

definition review_client :: "host \<Rightarrow> prompt_version \<Rightarrow> string \<Rightarrow> jobj \<Rightarrow> unit gateway_client" where
  "review_client h prompt fixture output =
     \<lparr>gc_provider = dummy_complete h [(fixture, output)], gc_profile = dummy_model_profile, gc_prompt = prompt,
      gc_max_validation_retries = 0, gc_fallback_provider = None, gc_fallback_profile = None,
      gc_fallback_prompt = None\<rparr>"

definition call_gateway :: "('a, 'g, 'v) wf_env \<Rightarrow> unit gateway_client \<Rightarrow> string \<Rightarrow> string \<Rightarrow> model_request \<Rightarrow>
    'm response_schema \<Rightarrow> ('a, 'g, 'v, 'm answer) wf" where
  \<comment> \<open>\<open>client.complete\<close> on the trace repository and the artifact store of the workflow\<close>
  "call_gateway env client run_id step_id request schema s =
     (case complete (we_cwd env) (we_host env) client run_id step_id request (Some schema)
        \<lparr>gs_world = (), gs_traces = Some (wf_traces s), gs_store = Some (wf_store s)\<rparr> of
        (gs, r) \<Rightarrow> Some (s\<lparr>wf_traces := (case gs_traces gs of None \<Rightarrow> wf_traces s | Some tr \<Rightarrow> tr),
            wf_store := (case gs_store gs of None \<Rightarrow> wf_store s | Some st \<Rightarrow> st)\<rparr>, r))"

definition run_review :: "('a, 'g, 'v) wf_env \<Rightarrow> string \<Rightarrow> string \<Rightarrow> prompt_version \<Rightarrow> string \<Rightarrow> string \<Rightarrow>
    jobj \<Rightarrow> jobj \<Rightarrow> string \<Rightarrow> ('a, 'g, 'v, reasoning_output \<times> structured_validation) wf" where
  \<comment> \<open>the part the three reviews have in common: client, request, call, metadata, check of the answer\<close>
  "run_review env run_id step_id prompt fixture count_field output payload failure =
     act_bind (call_gateway env (review_client (we_host env) prompt fixture output) run_id step_id
        (review_request (pv_prompt_version_id prompt) payload) (reasoning_schema count_field)) (\<lambda>(response, parsed, validation).
     act_bind (on_traces (record_model_metadata run_id ''dummy-local'' (pv_prompt_version_id prompt))) (\<lambda>_.
     case parsed of None \<Rightarrow> act_raise (RuntimeError failure) | Some x \<Rightarrow> act_return (x, validation)))"

definition review_fixture :: "string \<Rightarrow> nat \<Rightarrow> rat \<Rightarrow> string \<Rightarrow> jobj" where
  "review_fixture count_field n confidence rationale = [(count_field, JInt (int n)),
     (''confidence_score'', JFloat (if n \<noteq> 0 then confidence else 0)), (''rationale'', JStr rationale),
     (''counter_evidence_refs'', JList [])]"

definition node_extraction_review :: "('a, 'g, 'v) wf_env \<Rightarrow> string \<Rightarrow> string \<Rightarrow> ontology_node list \<Rightarrow>
    artifact_chunk list \<Rightarrow> ('a, 'g, 'v, reasoning_output \<times> structured_validation) wf" where
  "node_extraction_review env run_id step_id nodes chunks =
     run_review env run_id step_id
       (review_prompt env ''pv_node_extraction_v1'' PK_Node_Extraction
          ''Extract MBSE ontology nodes from masked source evidence.'')
       ''node_extraction'' ''extracted_node_count''
       (review_fixture ''extracted_node_count'' (length nodes) (90 / 100)
          ''Deterministic dummy LLM reviewed extracted ontology nodes behind the model gateway.'')
       [(''fixture_name'', JStr ''node_extraction''), (''chunk_ids'', jstr_of ck_chunk_id chunks),
        (''node_ids'', jstr_of on_node_id nodes)]
       ''dummy LLM node extraction failed validation''"

definition edge_reasoning_review :: "('a, 'g, 'v) wf_env \<Rightarrow> string \<Rightarrow> string \<Rightarrow> ontology_node list \<Rightarrow>
    traceability_edge list \<Rightarrow> jobj \<Rightarrow> ('a, 'g, 'v, reasoning_output \<times> structured_validation) wf" where
  "edge_reasoning_review env run_id step_id nodes edges retrieval_context =
     run_review env run_id step_id
       (review_prompt env ''pv_edge_linking_v1'' PK_Edge_Linking
          ''Propose MBSE traceability edges from approved source evidence.'')
       ''edge_reasoning'' ''candidate_edge_count''
       (review_fixture ''candidate_edge_count'' (length edges) (82 / 100)
          ''Deterministic dummy LLM reviewed candidate edges behind the model gateway.'')
       [(''fixture_name'', JStr ''edge_reasoning''), (''node_ids'', jstr_of on_node_id nodes),
        (''candidate_edge_ids'', jstr_of te_edge_id edges), (''retrieval_context'', JObj retrieval_context)]
       ''dummy LLM edge reasoning failed validation''"

definition finding_reasoning_review :: "('a, 'g, 'v) wf_env \<Rightarrow> string \<Rightarrow> string \<Rightarrow> finding list \<Rightarrow>
    ontology_node list \<Rightarrow> traceability_edge list \<Rightarrow> ('a, 'g, 'v, reasoning_output \<times> structured_validation) wf" where
  "finding_reasoning_review env run_id step_id findings nodes edges =
     run_review env run_id step_id
       (review_prompt env ''pv_finding_reasoning_v1'' PK_Finding_Reasoning
          ''Explain deterministic findings using supplied graph evidence.'')
       ''finding_reasoning'' ''finding_count''
       (review_fixture ''finding_count'' (length findings) (87 / 100)
          ''Deterministic dummy LLM reviewed findings behind the model gateway for debug trace completeness.'')
       [(''fixture_name'', JStr ''finding_reasoning''), (''finding_ids'', jstr_of fd_finding_id findings),
        (''node_ids'', jstr_of on_node_id nodes), (''candidate_edge_ids'', jstr_of te_edge_id edges)]
       ''dummy LLM finding reasoning failed validation''"

section \<open>Analysis\<close>

definition query_terms :: "ontology_node list \<Rightarrow> traceability_edge list \<Rightarrow> string list" where
  \<comment> \<open>the names of the nodes of the first five edges\<close>
  "query_terms nodes edges =
     (let node_by_id = dict_of (map (\<lambda>n. (on_node_id n, n)) nodes)
      in List.map_filter (\<lambda>i. map_option on_name (dget node_by_id i))
           (concat (map (\<lambda>e. [te_source_node_id e, te_target_node_id e]) (take 5 edges))))"

definition edge_retrieval_context :: "('a, 'g, 'v) wf_env \<Rightarrow> string \<Rightarrow> ontology_node list \<Rightarrow>
    traceability_edge list \<Rightarrow> ('a, 'g, 'v, jobj \<times> artifact_chunk list) wf" where
  \<comment> \<open>the context, and the retrieved chunks beside it\<close>
  "edge_retrieval_context env project_key nodes edges =
     (let query = str_or (py_join '' '' (query_terms nodes edges)) ''traceability evidence''
      in act_bind (act_on wf_vector (\<lambda>p s. s\<lparr>wf_vector := p\<rparr>) (\<lambda>v. (v, we_search env query project_key 5 v)))
        (\<lambda>retrieved. act_return
          ([(''query'', JStr query), (''retrieval_policy_id'', JStr ''ret_dummy_v1''),
            (''retrieved_chunk_ids'', jstr_of ck_chunk_id retrieved),
            (''retrieved_artifact_ids'', jstrs (fromkeys (map ck_artifact_id retrieved))),
            (''candidate_edge_ids'', jstr_of te_edge_id edges)], retrieved)))"

definition extract_stage :: "('a, 'g, 'v) wf_env \<Rightarrow> string \<Rightarrow> ingested \<Rightarrow> (string, evidence_span) dict \<Rightarrow>
    ('a, 'g, 'v, ontology_node list) wf" where
  "extract_stage env run_id x evidence =
     act_bind (begin_step env run_id ''extract_nodes'' ''extract_nodes'' (jstr_of ck_chunk_id (ix_chunks x)) None) (\<lambda>_.
     act_bind (act_of (rmap (\<lambda>(raw, artifact). rbind (evidence_for evidence raw) (extract_node raw artifact))
        (zip (fr_artifacts (ix_fetch x)) (ix_artifacts x)))) (\<lambda>nodes.
     act_bind (act_on wf_graph (\<lambda>p s. s\<lparr>wf_graph := p\<rparr>) (we_stage_nodes env nodes)) (\<lambda>_.
     act_bind (node_extraction_review env run_id (step_id_of run_id ''extract_nodes'') nodes (ix_chunks x)) (\<lambda>(review, validation).
     act_bind (end_step env run_id ''extract_nodes'' (json_list node_dump nodes) None (Some ''chunks'') VS_Passed
        [(''node_count'', JInt (int (length nodes))), (''evidence_required'', JBool True),
         (''evidence_attached'', JBool (list_all (\<lambda>n. on_evidence n \<noteq> []) nodes)),
         (''llm_review'', JObj (reasoning_dump ''extracted_node_count'' review)),
         (''llm_validation_status'', JStr (structured_status_str (sv_status validation)))]) (\<lambda>_.
     act_return nodes)))))"

definition link_stage :: "('a, 'g, 'v) wf_env \<Rightarrow> string \<Rightarrow> raw_source_artifact list \<Rightarrow> ontology_node list \<Rightarrow>
    (string, evidence_span) dict \<Rightarrow> ('a, 'g, 'v, traceability_edge list) wf" where
  "link_stage env run_id raws nodes evidence =
     act_bind (begin_step env run_id ''link_edges'' ''link_edges'' (jstr_of on_node_id nodes) None) (\<lambda>_.
     act_bind (act_of (link_edges (we_host env) raws nodes evidence)) (\<lambda>edges.
     act_bind (end_step env run_id ''link_edges'' (json_list edge_dump edges) None (Some ''evidence_by_external'') VS_Passed
        [(''edge_count'', JInt (int (length edges))),
         (''evidence_attached'', JBool (list_all (\<lambda>e. te_evidence e \<noteq> []) edges))]) (\<lambda>_.
     act_return edges)))"

definition reason_stage :: "('a, 'g, 'v) wf_env \<Rightarrow> string \<Rightarrow> string \<Rightarrow> ontology_node list \<Rightarrow>
    traceability_edge list \<Rightarrow> ('a, 'g, 'v, unit) wf" where
  "reason_stage env run_id project_key nodes edges =
     act_bind (edge_retrieval_context env project_key nodes edges) (\<lambda>(context, retrieved).
     act_bind (save_json env run_id ''edge_retrieval_context'' (JObj context)) (\<lambda>ref.
     act_bind (begin_step env run_id ''llm_reason_edges'' ''llm_assisted_reasoning''
        (JObj [(''candidate_edge_ids'', jstr_of te_edge_id edges), (''model_profile_id'', JStr ''dummy-local''),
          (''prompt_version_id'', JStr ''pv_edge_linking_v1''),
          (''retrieved_chunk_ids'', jstr_of ck_chunk_id retrieved)]) (Some (rf_artifact_ref ref))) (\<lambda>_.
     act_bind (edge_reasoning_review env run_id (step_id_of run_id ''llm_reason_edges'') nodes edges context) (\<lambda>(review, validation).
     act_bind (end_step env run_id ''llm_reason_edges'' (JObj (reasoning_dump ''candidate_edge_count'' review)) None None
        (trace_status (sv_status validation)) (structured_validation_dump validation)) (\<lambda>_.
     act_return ())))))"

definition finding_stage :: "('a, 'g, 'v) wf_env \<Rightarrow> string \<Rightarrow> raw_source_artifact list \<Rightarrow> ontology_node list \<Rightarrow>
    traceability_edge list \<Rightarrow> (string, evidence_span) dict \<Rightarrow> ('a, 'g, 'v, finding list) wf" where
  "finding_stage env run_id raws nodes edges evidence =
     act_bind (begin_step env run_id ''detect_findings'' ''detect_findings''
        (JObj [(''nodes'', JInt (int (length nodes))), (''edges'', JInt (int (length edges)))]) None) (\<lambda>_.
     act_bind (act_of (analyze_findings (we_host env) nodes edges (Some raws) (Some evidence))) (\<lambda>findings.
     act_bind (finding_reasoning_review env run_id (step_id_of run_id ''detect_findings'') findings nodes edges) (\<lambda>(review, validation).
     act_bind (end_step env run_id ''detect_findings'' (json_list finding_dump findings) None None VS_Passed
        [(''finding_count'', JInt (int (length findings))),
         (''llm_review'', JObj (reasoning_dump ''finding_count'' review)),
         (''llm_validation_status'', JStr (structured_status_str (sv_status validation)))]) (\<lambda>_.
     act_return findings))))"

definition approval_stage :: "('a, 'g, 'v) wf_env \<Rightarrow> string \<Rightarrow> string \<Rightarrow> traceability_edge list \<Rightarrow>
    ('a, 'g, 'v, approval_item list) wf" where
  "approval_stage env run_id project_key edges =
     act_bind (begin_step env run_id ''stage_approval'' ''stage_approval'' (jstr_of te_edge_id edges) None) (\<lambda>_.
     act_bind (act_on wf_approvals (\<lambda>p s. s\<lparr>wf_approvals := p\<rparr>) (\<lambda>sv. map_prod id Inr
        (stage_edges (we_host env) (we_now env ''stage_approval'') project_key run_id
          (step_id_of run_id ''stage_approval'') edges sv))) (\<lambda>approvals.
     act_bind (end_step env run_id ''stage_approval'' (json_list approval_dump approvals) None
        (Some ''candidate_edges'') VS_Passed
        [(''approval_count'', JInt (int (length approvals))),
         (''graph_delta_preview_created'', JBool (approvals \<noteq> []))]) (\<lambda>_.
     act_return approvals)))"

definition run_analysis :: "('a, 'g, 'v) wf_env \<Rightarrow> run_type \<Rightarrow> string \<Rightarrow> string \<Rightarrow> string \<Rightarrow> string \<Rightarrow>
    trigger_source \<Rightarrow> ('a, 'g, 'v, analysis_result) wf" where
  "run_analysis env rt run_id project_key scenario triggered_by src =
     act_bind (begin_run env run_id rt project_key triggered_by src) (\<lambda>_.
     act_bind (run_ingestion_stages env run_id project_key scenario) (\<lambda>x.
     let raws = fr_artifacts (ix_fetch x) in
     act_bind (act_of (evidence_map (we_host env) (zip raws (ix_artifacts x)))) (\<lambda>evidence.
     act_bind (extract_stage env run_id x evidence) (\<lambda>nodes.
     act_bind (link_stage env run_id raws nodes evidence) (\<lambda>edges.
     act_bind (reason_stage env run_id project_key nodes edges) (\<lambda>_.
     act_bind (finding_stage env run_id raws nodes edges evidence) (\<lambda>findings.
     act_bind (approval_stage env run_id project_key edges) (\<lambda>approvals.
     act_bind (end_run env run_id RS_Succeeded None None) (\<lambda>completed.
     act_bind (on_traces (\<lambda>tr. (tr, Inr (list_steps run_id tr)))) (\<lambda>steps.
     act_return \<lparr>ar_run = completed, ar_steps = steps, ar_artifacts = ix_artifacts x,
       ar_chunks = ix_chunks x, ar_nodes = nodes, ar_candidate_edges = edges, ar_findings = findings,
       ar_approvals = approvals, ar_source_cursor = ix_cursor x\<rparr>))))))))))"

end
