(* ===== verification/Runs.thy ===== *)
theory Runs
  imports Workflow
begin

text \<open>
  What a run of the workflow does to the rest of the system: frames of its operations, the stages in
  order, and the properties of whole runs.
\<close>

section \<open>Frames\<close>

definition outside_same :: "('a, 'g, 'v) wf_state \<Rightarrow> ('a, 'g, 'v) wf_state \<Rightarrow> bool" where
  \<comment> \<open>graph, vector store and approvals are untouched\<close>
  "outside_same s s' = (wf_graph s' = wf_graph s \<and> wf_vector s' = wf_vector s \<and> wf_approvals s' = wf_approvals s)"

interpretation quiet: framed outside_same
  by unfold_locales (auto simp: outside_same_def)

lemma quiet_traces: "act_keeps outside_same (on_traces m)"
  unfolding on_traces_def by (rule quiet.keeps_on) (simp add: outside_same_def)

lemma quiet_save: "act_keeps outside_same (save_json env run_id name payload)"
  unfolding save_json_def by (rule quiet.keeps_on) (simp add: outside_same_def)

lemma quiet_gateway: "act_keeps outside_same (call_gateway env c run_id step_id request schema)"
  by (auto simp: act_keeps_def call_gateway_def outside_same_def split: prod.splits)

lemma quiet_fetch:
  "act_keeps outside_same (\<lambda>s. map_option (map_prod (\<lambda>a. s\<lparr>wf_adapter := a\<rparr>) id) (m (wf_adapter s)))"
  by (auto simp: act_keeps_def outside_same_def)

lemma quiet_search: "act_keeps outside_same (act_on wf_vector (\<lambda>p s. s\<lparr>wf_vector := p\<rparr>) (\<lambda>v. (v, r v)))"
  by (rule quiet.keeps_on) (simp add: outside_same_def)

lemmas quiet_rules = quiet.keeps_rules quiet_traces quiet_save quiet_gateway quiet_fetch quiet_search

lemma quiet_steps:
  "act_keeps outside_same (begin_run env run_id rt p b src)"
  "act_keeps outside_same (end_run env run_id st c m)"
  "act_keeps outside_same (begin_step env run_id name stage payload ref)"
  "act_keeps outside_same (end_step env run_id name payload oref cref vs vr)"
  by (auto simp: begin_run_def end_run_def begin_step_def end_step_def intro!: quiet_rules)

lemma quiet_violation: "act_keeps outside_same (masking_violation env run_id artifact raw violations)"
  by (auto simp: masking_violation_def Let_def intro!: quiet_rules quiet_steps)

lemma quiet_mask: "act_keeps outside_same (mask_and_chunk env run_id evidence ra)"
  by (cases ra) (auto simp: mask_and_chunk_def Let_def intro!: quiet_rules quiet_violation)

lemma quiet_review: "act_keeps outside_same (run_review env run_id step_id prompt fixture cf output payload failure)"
  by (auto simp: run_review_def intro!: quiet_rules)

lemma quiet_stages:
  "act_keeps outside_same (fetch_stage env run_id p sc)"
  "act_keeps outside_same (normalize_stage env run_id fetch ref)"
  "act_keeps outside_same (node_extraction_review env run_id step_id nodes chunks)"
  "act_keeps outside_same (edge_reasoning_review env run_id step_id nodes edges context)"
  "act_keeps outside_same (finding_reasoning_review env run_id step_id findings nodes edges)"
  "act_keeps outside_same (link_stage env run_id raws nodes evidence)"
  "act_keeps outside_same (finding_stage env run_id raws nodes edges evidence)"
  "act_keeps outside_same (reason_stage env run_id p nodes edges)"
  by (auto simp: fetch_stage_def normalize_stage_def node_extraction_review_def edge_reasoning_review_def
      finding_reasoning_review_def link_stage_def finding_stage_def reason_stage_def edge_retrieval_context_def
      Let_def intro!: quiet_rules quiet_steps quiet_review)

section \<open>A run as events of the approval service\<close>

definition extends_run :: "schema \<Rightarrow> host \<Rightarrow> ('a, memory_graph, 'v) wf_state \<Rightarrow> ('a, memory_graph, 'v) wf_state \<Rightarrow> bool" where
  \<comment> \<open>from a reachable state of service and graph, only staging and baseline events were added\<close>
  "extends_run sc h s s' = ((\<forall>tr. approval_run sc h tr (wf_approvals s, wf_graph s) \<longrightarrow>
      (\<exists>evs. approval_run sc h (evs @ tr) (wf_approvals s', wf_graph s')
        \<and> (\<forall>ev\<in>set evs. \<forall>item d. ev \<noteq> Decided item d)))
     \<and> gr_edges (wf_graph s') = gr_edges (wf_graph s) \<and> sv_feedback (wf_approvals s') = sv_feedback (wf_approvals s))"

lemma extends_refl: "extends_run sc h s s"
  by (auto simp: extends_run_def intro: exI [of _ "[]"])

lemma extends_trans:
  assumes "extends_run sc h s t" and "extends_run sc h t u"
  shows "extends_run sc h s u"
proof -
  have "\<exists>evs. approval_run sc h (evs @ tr) (wf_approvals u, wf_graph u)
      \<and> (\<forall>ev\<in>set evs. \<forall>item d. ev \<noteq> Decided item d)"
    if "approval_run sc h tr (wf_approvals s, wf_graph s)" for tr
  proof -
    from assms(1) that obtain e1 where e1: "approval_run sc h (e1 @ tr) (wf_approvals t, wf_graph t)"
      "\<forall>ev\<in>set e1. \<forall>item d. ev \<noteq> Decided item d" unfolding extends_run_def by blast
    with assms(2) obtain e2 where "approval_run sc h (e2 @ e1 @ tr) (wf_approvals u, wf_graph u)"
      "\<forall>ev\<in>set e2. \<forall>item d. ev \<noteq> Decided item d" unfolding extends_run_def by blast
    with e1(2) show ?thesis by (intro exI [of _ "e2 @ e1"]) auto
  qed
  with assms show ?thesis by (simp add: extends_run_def)
qed

interpretation extending: framed "extends_run sc h" for sc h
  by unfold_locales (rule extends_refl, erule extends_trans)

lemma extends_quiet: "act_keeps outside_same m \<Longrightarrow> act_keeps (extends_run sc h) m"
  using extends_refl by (fastforce simp: act_keeps_def outside_same_def extends_run_def intro: exI [of _ "[]"])

lemma stage_edges_feedback: "sv_feedback (fst (stage_edges h now p run st es s)) = sv_feedback s"
proof -
  have "sv_feedback (fst (foldl (\<lambda>st e. stage_edge h now p run step e st) a es)) = sv_feedback (fst a)" for a step
    by (induction es arbitrary: a) (simp_all add: stage_edge_def Let_def)
  then show ?thesis by (simp add: stage_edges_def)
qed

lemma extends_stage_edges:
  assumes "\<forall>e\<in>set es. edge_full_ok e"
  shows "act_keeps (extends_run sc h) (act_on wf_approvals (\<lambda>p s. s\<lparr>wf_approvals := p\<rparr>)
     (\<lambda>sv. map_prod id Inr (stage_edges h now p run st es sv)))"
proof (rule extending.keeps_on)
  fix s :: "('a, memory_graph, 'v) wf_state" and q r
  assume "map_prod id Inr (stage_edges h now p run st es (wf_approvals s)) = (q, r)"
  then have q: "q = fst (stage_edges h now p run st es (wf_approvals s))" by (auto simp: map_prod_def split: prod.splits)
  have "\<exists>evs. approval_run sc h (evs @ tr) (q, wf_graph s) \<and> (\<forall>ev\<in>set evs. \<forall>item d. ev \<noteq> Decided item d)"
    if "approval_run sc h tr (wf_approvals s, wf_graph s)" for tr
    using run_stage [OF that assms] unfolding q by (intro exI [of _ "[Staged es]"]) simp
  then show "extends_run sc h s (s\<lparr>wf_approvals := q\<rparr>)"
    by (simp add: extends_run_def q stage_edges_feedback)
qed

lemma extends_stage_nodes:
  "act_keeps (extends_run sc h) (act_on wf_graph (\<lambda>p s. s\<lparr>wf_graph := p\<rparr>) (\<lambda>g. (stage_baseline_nodes ns g, Inr ())))"
proof (rule extending.keeps_on)
  fix s :: "('a, memory_graph, 'v) wf_state" and q and r :: "unit result"
  assume "(stage_baseline_nodes ns (wf_graph s), Inr ()) = (q, r)"
  then have q: "q = stage_baseline_nodes ns (wf_graph s)" by simp
  have "\<exists>evs. approval_run sc h (evs @ tr) (wf_approvals s, q) \<and> (\<forall>ev\<in>set evs. \<forall>item d. ev \<noteq> Decided item d)"
    if "approval_run sc h tr (wf_approvals s, wf_graph s)" for tr
    using run_nodes [OF that] unfolding q by (intro exI [of _ "[Baseline ns]"]) simp
  then show "extends_run sc h s (s\<lparr>wf_graph := q\<rparr>)" by (simp add: extends_run_def q)
qed

lemma evidence_map_ok:
  assumes "evidence_map h pairs = Inr ev"
  shows "\<forall>v\<in>set (dvals ev). evidence_ok v"
proof
  fix v assume "v \<in> set (dvals ev)"
  from assms obtain es where es: "rmap (\<lambda>ra. build_artifact_evidence h (sa_artifact_id (snd ra)) (fst ra)) pairs = Inr es"
    and ev: "ev = dict_of (zip (map (\<lambda>ra. ra_external_id (fst ra)) pairs) es)"
    by (auto simp: evidence_map_def rbind_Inr_iff)
  have "dict_ok ev" unfolding ev by (rule dict_ok_dict_of)
  with \<open>v \<in> set (dvals ev)\<close> obtain k where "dget ev k = Some v" by (auto simp: dget_iff)
  then have "v \<in> set es"
    unfolding ev dget_dict_of by (auto dest!: map_of_SomeD simp: set_zip)
  then show "evidence_ok v" using rmap_ok [OF es] build_artifact_evidence_ok by blast
qed

lemma extends_steps:
  "act_keeps (extends_run sc h) (begin_step env run_id name stage payload ref)"
  "act_keeps (extends_run sc h) (end_step env run_id name payload oref cref vs vr)"
  "act_keeps (extends_run sc h) (on_traces m)"
  "act_keeps (extends_run sc h) (begin_run env run_id rt p b src)"
  "act_keeps (extends_run sc h) (end_run env run_id st c m2)"
  by (intro extends_quiet quiet_steps quiet_traces)+

lemma keeps_vector:
  \<comment> \<open>an operation of the vector store alone\<close>
  "act_keeps (extends_run sc h) (act_on wf_vector (\<lambda>p s. s\<lparr>wf_vector := p\<rparr>) m)"
  by (rule extending.keeps_on) (auto simp: extends_run_def intro: exI [of _ "[]"])

lemma extends_stages:
  assumes "we_stage_nodes env = (\<lambda>ns g. (stage_baseline_nodes ns g, Inr ()))" and "h = we_host env"
  shows "act_keeps (extends_run sc h) (run_ingestion_stages env run_id p scn)"
    and "act_keeps (extends_run sc h) (extract_stage env run_id x evidence)"
    and "\<forall>e\<in>set es. edge_full_ok e \<Longrightarrow> act_keeps (extends_run sc h) (approval_stage env run_id p es)"
proof -
  have mask: "act_keeps (extends_run sc h) (mask_stage env run_id pairs evidence ref)" for pairs evidence ref
    by (auto simp: mask_stage_def Let_def
        intro!: extending.keeps_rules extends_steps keeps_vector extends_quiet [OF quiet_mask] extends_quiet [OF quiet_save])
  then show "act_keeps (extends_run sc h) (run_ingestion_stages env run_id p scn)"
    by (auto simp: run_ingestion_stages_def intro!: extending.keeps_rules extends_quiet [OF quiet_stages(1)]
        extends_quiet [OF quiet_stages(2)])
  show "act_keeps (extends_run sc h) (extract_stage env run_id x evidence)"
    by (auto simp: extract_stage_def assms(1) intro!: extending.keeps_rules extends_steps extends_stage_nodes
        extends_quiet [OF quiet_stages(3)])
  show "act_keeps (extends_run sc h) (approval_stage env run_id p es)" if "\<forall>e\<in>set es. edge_full_ok e"
    unfolding approval_stage_def assms(2)
    by (intro extending.keeps_rules extends_steps extends_stage_edges [OF that])
qed

lemma link_stage_edges:
  "link_stage env run_id raws nodes ev s = Some (s', Inr es) \<Longrightarrow> link_edges (we_host env) raws nodes ev = Inr es"
  by (auto simp: link_stage_def act_outcome)

text \<open>
  Property C2. A run of the workflow only proposes: whatever the sources hold and wherever the run fails,
  its effect on the approval service and the graph is that of staging and baseline events, so every
  state a system of runs and decisions reaches is one of \<open>approval_run\<close>; it adds no decision, leaves the
  edges of the graph and the recorded feedback as they are.
\<close>

theorem analysis_only_proposes:
  assumes "run_analysis env rt run_id p scn by_user src s = Some (s', r)"
    and "we_stage_nodes env = (\<lambda>ns g. (stage_baseline_nodes ns g, Inr ()))"
    and "approval_run sc (we_host env) tr (wf_approvals s, wf_graph s)"
  shows "(\<exists>evs. approval_run sc (we_host env) (evs @ tr) (wf_approvals s', wf_graph s')
       \<and> (\<forall>ev\<in>set evs. \<forall>item d. ev \<noteq> Decided item d))
    \<and> approved_edges (wf_graph s') = approved_edges (wf_graph s)
    \<and> sv_feedback (wf_approvals s') = sv_feedback (wf_approvals s)"
proof -
  have tail: "act_keeps (extends_run sc (we_host env))
      (act_bind (link_stage env run_id raws nodes ev) (\<lambda>es. act_bind (m1 es) (\<lambda>u. act_bind (m2 es) (\<lambda>fs.
         act_bind (approval_stage env run_id p es) (k es fs)))))"
    if "evidence_map h pairs = Inr ev" "\<And>es. act_keeps outside_same (m1 es)" "\<And>es. act_keeps outside_same (m2 es)"
      "\<And>es fs y. act_keeps outside_same (k es fs y)"
    for h pairs ev raws nodes m1 m2 k
  proof (rule extending.keeps_bind_result [OF extends_quiet [OF quiet_stages(6)]])
    fix s s1 es assume "link_stage env run_id raws nodes ev s = Some (s1, Inr es)"
    then have "\<forall>e\<in>set es. edge_full_ok e"
      using linked_edge_ok [OF _ evidence_map_ok [OF that(1)]] link_edges_linked [OF link_stage_edges] by blast
    then show "act_keeps (extends_run sc (we_host env)) (act_bind (m1 es) (\<lambda>u. act_bind (m2 es) (\<lambda>fs.
         act_bind (approval_stage env run_id p es) (k es fs))))"
      by (intro extending.keeps_bind extends_quiet [OF that(2)] extends_quiet [OF that(3)]
          extends_stages(3) [OF assms(2) HOL.refl] extends_quiet [OF that(4)])
  qed
  have "act_keeps (extends_run sc (we_host env)) (run_analysis env rt run_id p scn by_user src)"
    unfolding run_analysis_def Let_def
    by (intro extending.keeps_bind extends_steps extends_stages(1,2) [OF assms(2) HOL.refl]
        extending.keeps_bind_result [OF extending.keeps_of] tail quiet.keeps_rules quiet_stages quiet_steps quiet_traces)
      (auto simp: act_outcome)
  from act_keepsD [OF this assms(1)] assms(3) show ?thesis
    by (auto simp: extends_run_def approved_edges_def)
qed

section \<open>What reaches the vector store\<close>

definition masked_chunk :: "artifact_chunk \<Rightarrow> bool" where
  \<comment> \<open>a part of a masked text, without mail address and serial number\<close>
  "masked_chunk c = ((\<exists>t. sublist (ck_text c) (mk_text (mask_text t)))
     \<and> \<not> rex_search email_rex (ck_text c) \<and> \<not> rex_search serial_rex (ck_text c))"

definition store_masked :: "('a, 'g, vector_store) wf_state \<Rightarrow> ('a, 'g, vector_store) wf_state \<Rightarrow> bool" where
  "store_masked s s' = (\<forall>c\<in>set (dvals (wf_vector s')). c \<in> set (dvals (wf_vector s)) \<or> masked_chunk c)"

interpretation masking: framed store_masked
  by unfold_locales (auto simp: store_masked_def simp del: set_map)

lemma masking_quiet: "act_keeps outside_same m \<Longrightarrow> act_keeps store_masked m"
  by (auto simp: act_keeps_def outside_same_def store_masked_def)

lemma sublist_masked_chunk: "sublist (ck_text c) (mk_text (mask_text t)) \<Longrightarrow> masked_chunk c"
  unfolding masked_chunk_def clean_search [OF email.ahead, symmetric] clean_search [OF serial.ahead, symmetric]
  using mask_text_clean clean_sublist by blast

lemma masking_violation_raises:
  "masking_violation env run_id artifact raw vs s = Some (s', r) \<Longrightarrow> \<exists>e. r = Inl e"
  by (cases r) (auto simp: masking_violation_def Let_def act_outcome)

lemma mask_and_chunk_masked:
  assumes "mask_and_chunk env run_id ev ra s = Some (s', Inr cs)" and "c \<in> set cs"
  shows "masked_chunk c"
proof -
  obtain raw a where ra: "ra = (raw, a)" by fastforce
  have "\<exists>e. chunk_artifact (we_host env) a (mk_text (mask_text (ra_body_text raw))) e 700 = Inr cs"
    using assms(1) unfolding ra
    by (auto simp: mask_and_chunk_def Let_def act_outcome rbind_Inr_iff split: if_splits
        dest: masking_violation_raises)
  then show ?thesis using chunk_text_sublist [OF _ assms(2)] sublist_masked_chunk by blast
qed

lemma each_masked:
  "act_each (mask_and_chunk env run_id ev) pairs s = Some (s', Inr css) \<Longrightarrow> c \<in> set (concat css) \<Longrightarrow> masked_chunk c"
proof (induction pairs arbitrary: s css)
  case (Cons p ps)
  from Cons.prems(1) obtain s1 cs css' where p: "mask_and_chunk env run_id ev p s = Some (s1, Inr cs)"
    "act_each (mask_and_chunk env run_id ev) ps s1 = Some (s', Inr css')" "css = cs # css'"
    by (auto simp: act_outcome)
  with Cons.prems(2) consider "c \<in> set cs" | "c \<in> set (concat css')" by auto
  then show ?case
    by cases (use mask_and_chunk_masked [OF p(1)] Cons.IH [OF p(2)] in blast)+
qed (simp add: act_outcome)

lemma masking_upsert:
  assumes "\<forall>c\<in>set cs. masked_chunk c"
  shows "act_keeps store_masked (act_on wf_vector (\<lambda>p s. s\<lparr>wf_vector := p\<rparr>) (\<lambda>v. (vector_upsert cs v, Inr ())))"
proof (rule masking.keeps_on)
  fix s :: "('a, 'g, vector_store) wf_state" and q and r :: "unit result"
  assume "(vector_upsert cs (wf_vector s), Inr ()) = (q, r)"
  then have "q = vector_upsert cs (wf_vector s)" by simp
  then show "store_masked s (s\<lparr>wf_vector := q\<rparr>)"
    using lexical.upsert_stored [of cs "wf_vector s"] assms by (auto simp: store_masked_def simp del: set_map)
qed

lemma masking_stages:
  assumes "we_upsert env = (\<lambda>cs v. (vector_upsert cs v, Inr ()))"
  shows "act_keeps store_masked (mask_stage env run_id pairs ev ref)"
    and "act_keeps store_masked (extract_stage env run_id x evidence)"
    and "act_keeps store_masked (approval_stage env run_id p es)"
proof -
  have "act_keeps store_masked (act_on wf_graph (\<lambda>p s. s\<lparr>wf_graph := p\<rparr>) m)" for m :: "'g \<Rightarrow> 'g \<times> unit result"
    by (rule masking.keeps_on) (simp add: store_masked_def)
  then show "act_keeps store_masked (extract_stage env run_id x evidence)"
    by (auto simp: extract_stage_def intro!: masking.keeps_rules masking_quiet [OF quiet_steps(3)]
        masking_quiet [OF quiet_steps(4)] masking_quiet [OF quiet_stages(3)])
  have "act_keeps store_masked (act_on wf_approvals (\<lambda>p s. s\<lparr>wf_approvals := p\<rparr>) m)"
    for m :: "approval_service \<Rightarrow> approval_service \<times> approval_item list result"
    by (rule masking.keeps_on) (simp add: store_masked_def)
  then show "act_keeps store_masked (approval_stage env run_id p es)"
    by (auto simp: approval_stage_def intro!: masking.keeps_rules masking_quiet [OF quiet_steps(3)]
        masking_quiet [OF quiet_steps(4)])
  show "act_keeps store_masked (mask_stage env run_id pairs ev ref)"
    unfolding mask_stage_def Let_def assms
    by (intro masking.keeps_bind masking.keeps_rules masking_quiet [OF quiet_steps(3)]
        masking.keeps_bind_result [OF masking.keeps_each [OF masking_quiet [OF quiet_mask]]] masking_upsert
        masking_quiet [OF quiet_steps(4)] masking_quiet [OF quiet_save]) (blast dest: each_masked)
qed

text \<open>
  Property C13. Only masked text is indexed: whatever a run fetches and however it ends, every chunk in
  the vector store afterwards was there before or is a contiguous part of the masked text of an
  artifact, and holds no mail address and no serial number.
\<close>

theorem only_masked_text_indexed:
  assumes "run_analysis env rt run_id p scn by_user src s = Some (s', r)"
    and "we_upsert env = (\<lambda>cs v. (vector_upsert cs v, Inr ()))"
    and "c \<in> set (dvals (wf_vector s'))" and "c \<notin> set (dvals (wf_vector s))"
  shows "(\<exists>t. sublist (ck_text c) (mk_text (mask_text t)))
    \<and> \<not> rex_search email_rex (ck_text c) \<and> \<not> rex_search serial_rex (ck_text c)"
proof -
  have "act_keeps store_masked (run_ingestion_stages env run_id p scn)"
    by (auto simp: run_ingestion_stages_def intro!: masking.keeps_rules masking_stages [OF assms(2)]
        masking_quiet [OF quiet_stages(1)] masking_quiet [OF quiet_stages(2)])
  then have "act_keeps store_masked (run_analysis env rt run_id p scn by_user src)"
    unfolding run_analysis_def Let_def
    by (intro masking.keeps_rules masking_stages [OF assms(2)] masking_quiet [OF quiet_stages(6)]
        masking_quiet [OF quiet_stages(7)] masking_quiet [OF quiet_stages(8)] masking_quiet [OF quiet_steps(1)]
        masking_quiet [OF quiet_steps(2)] masking_quiet [OF quiet_traces])
  from act_keepsD [OF this assms(1)] assms(3,4) show ?thesis
    by (auto simp: store_masked_def masked_chunk_def simp del: set_map)
qed

end
