(* ===== verification/Completion.thy ===== *)
theory Completion
  imports Runs
begin

text \<open>
  Runs of the workflow that end well: each stage of \<open>workflows/analysis_graph.py\<close> runs to its end when
  its pure part succeeds, and a whole run gives what the pure pipeline says. The dummy model's reviews
  always pass.
\<close>

section \<open>The stages run to their end\<close>

definition run_of :: "string \<Rightarrow> ('a, 'g, 'v) wf_state \<Rightarrow> agent_run option" where
  "run_of run_id s = dget (tr_runs (wf_traces s)) run_id"

definition steps_of :: "('a, 'g, 'v) wf_state \<Rightarrow> (string, agent_step_trace) dict" where
  "steps_of s = tr_steps (wf_traces s)"

definition calm :: "string \<Rightarrow> ('a, 'g, 'v) wf_state \<Rightarrow> ('a, 'g, 'v) wf_state \<Rightarrow> bool" where
  \<comment> \<open>the steps and the run are untouched, and so is everything outside the trace and the artifact store\<close>
  "calm run_id s s' = (steps_of s' = steps_of s \<and> run_of run_id s' = run_of run_id s \<and> outside_same s s')"

lemma save_json_calm: "\<exists>s1 ref. save_json env run_id name payload s = Some (s1, Inr ref) \<and> calm run_id s s1"
  by (simp add: save_json_def act_on_def write_json_def Let_def calm_def steps_of_def run_of_def outside_same_def)

lemma reasoning_of_fixture:
  assumes "cf \<notin> {''confidence_score'', ''rationale'', ''counter_evidence_refs''}" and "0 \<le> q" and "q \<le> 1"
  shows "reasoning_of_json cf (review_fixture cf n q why) = Inr \<lparr>ro_count = int n,
     ro_confidence_score = (if n \<noteq> 0 then q else 0), ro_rationale = why, ro_counter_evidence_refs = []\<rparr>"
  using assms by (auto simp: reasoning_of_json_def review_fixture_def jget_def jget_or_def json_number_def)

lemma review_allowed: "assert_allowed (review_request prompt_id payload) dummy_model_profile = Inr ()"
  by (simp add: assert_allowed_def review_request_def dummy_model_profile_def)

lemma review_attempts:
  "attempts (review_client h prompt fixture out) request =
     [\<lparr>at_provider = dummy_complete h [(fixture, out)], at_profile = dummy_model_profile, at_prompt = prompt,
       at_request = request, at_retry_count = 0\<rparr>]"
  by (simp add: attempts_def review_client_def Let_def)

lemma review_provider:
  assumes "dget payload ''fixture_name'' = Some (JStr fixture)" and "fixture \<noteq> ''timeout''"
  shows "\<exists>response. dummy_complete h [(fixture, out)] (review_request pid payload) dummy_model_profile prompt w
     = (w, Inr response) \<and> ms_output response = out"
  using assms by (simp add: dummy_complete_def review_request_def jget_or_def py_str_def Let_def)

lemma review_judged:
  assumes "rs_validate schema (ms_output response) = Inr m"
    and "judge cwd h run_id step_id (Some schema) i response ref st = (st', p, v, ref')"
  shows "p = Some m \<and> v = validation_of SV_Passed None \<and> gs_traces st' = gs_traces st"
  using assms by (auto simp: judge_def validate_structured_output_def split: prod.splits dest!: write_stage_frameD)

lemma call_review:
  assumes "dget payload ''fixture_name'' = Some (JStr fixture)" and "fixture \<noteq> ''timeout''"
    and "rs_validate schema out = Inr m"
  shows "\<exists>s1 response. call_gateway env (review_client (we_host env) prompt fixture out) run_id step_id
       (review_request pid payload) schema s = Some (s1, Inr (response, Some m, validation_of SV_Passed None))
     \<and> calm run_id' s s1"
proof -
  let ?gs = "\<lparr>gs_world = (), gs_traces = Some (wf_traces s), gs_store = Some (wf_store s)\<rparr>"
  let ?q = "review_request pid payload" and ?h = "we_host env" and ?cwd = "we_cwd env"
  obtain response where resp: "dummy_complete ?h [(fixture, out)] ?q dummy_model_profile prompt w = (w, Inr response)"
    "ms_output response = out" for w :: unit
    using review_provider [OF assms(1,2), where h = ?h and out = out and pid = pid and prompt = prompt]
    by (metis (full_types) old.unit.exhaust)
  obtain st1 r1 where w1: "write_stage ?cwd ?h run_id (step_id @ ''_masked_payload_'' @ str_nat 0) (mr_payload ?q) ?gs = (st1, r1)"
    by fastforce
  obtain st2 r2 where w2: "write_stage ?cwd ?h run_id (step_id @ ''_raw_response_'' @ str_nat 0) out (st1\<lparr>gs_world := ()\<rparr>) = (st2, r2)"
    by fastforce
  obtain st3 p v r3 where j: "judge ?cwd ?h run_id step_id (Some schema) 0 response r2 st2 = (st3, p, v, r3)"
    by (metis prod_cases4)
  note v = review_judged [OF _ j, of m]
  have tr: "gs_traces st3 = Some (wf_traces s)"
    using v resp assms(3) write_stage_frameD [OF w1] write_stage_frameD [OF w2] by simp
  have "\<exists>t response'. run_attempt ?cwd ?h run_id step_id (Some schema)
       \<lparr>at_provider = dummy_complete ?h [(fixture, out)], at_profile = dummy_model_profile, at_prompt = prompt,
         at_request = ?q, at_retry_count = 0\<rparr> ?gs = (record_trace t st3, Answered response' (Some m) (validation_of SV_Passed None))"
    using v resp assms(3) w1 w2 j by (auto simp: run_attempt_def review_allowed Let_def)
  then obtain t response' where "complete ?cwd ?h (review_client ?h prompt fixture out) run_id step_id ?q (Some schema) ?gs
      = (record_trace t st3, Inr (response', Some m, validation_of SV_Passed None))"
    by (auto simp: complete_def review_attempts validation_of_def)
  with tr show ?thesis
    by (auto simp: call_gateway_def record_trace_def record_llm_call_def calm_def steps_of_def run_of_def outside_same_def)
qed

definition reviewed :: "string \<Rightarrow> string \<Rightarrow> agent_run \<Rightarrow> agent_run" where
  "reviewed model prompt_id r = r\<lparr>rn_model_profile_id := Some model,
     rn_prompt_version_ids := fromkeys (rn_prompt_version_ids r @ [prompt_id])\<rparr>"

definition run_becomes :: "string \<Rightarrow> (agent_run \<Rightarrow> agent_run) \<Rightarrow> ('a, 'g, 'v) wf_state \<Rightarrow> ('a, 'g, 'v) wf_state \<Rightarrow> bool" where
  "run_becomes run_id f s s' = (steps_of s' = steps_of s \<and> run_of run_id s' = map_option f (run_of run_id s) \<and> outside_same s s')"

lemma run_review_passes:
  assumes "dget payload ''fixture_name'' = Some (JStr fixture)" and "fixture \<noteq> ''timeout''"
    and "cf \<notin> {''confidence_score'', ''rationale'', ''counter_evidence_refs''}" and "0 \<le> q" and "q \<le> 1"
    and "run_of run_id s = Some r" and "pv_prompt_version_id prompt = pid"
  shows "\<exists>s1 x. run_review env run_id step_id prompt fixture cf (review_fixture cf n q why) payload failure s
       = Some (s1, Inr (x, validation_of SV_Passed None))
     \<and> ro_count x = int n \<and> run_becomes run_id (reviewed ''dummy-local'' pid) s s1"
proof -
  have "rs_validate (reasoning_schema cf) (review_fixture cf n q why) = Inr \<lparr>ro_count = int n,
      ro_confidence_score = (if n \<noteq> 0 then q else 0), ro_rationale = why, ro_counter_evidence_refs = []\<rparr>"
    by (simp only: reasoning_schema_def response_schema.simps reasoning_of_fixture [OF assms(3-5)])
  from call_review [OF assms(1,2) this] obtain s1 response where
    call: "call_gateway env (review_client (we_host env) prompt fixture (review_fixture cf n q why)) run_id step_id
       (review_request (pv_prompt_version_id prompt) payload) (reasoning_schema cf) s
      = Some (s1, Inr (response, Some \<lparr>ro_count = int n, ro_confidence_score = (if n \<noteq> 0 then q else 0),
          ro_rationale = why, ro_counter_evidence_refs = []\<rparr>, validation_of SV_Passed None))"
    and calm: "calm run_id s s1" by blast
  have "run_of run_id s1 = Some r" using calm assms(6) by (simp add: calm_def)
  with calm assms(6,7) show ?thesis
    by (auto simp: run_review_def call act_bind_def act_return_def on_traces_def act_on_def record_model_metadata_def run_of_def
        run_becomes_def calm_def steps_of_def outside_same_def reviewed_def)
qed

lemma reviews_pass:
  assumes "run_of run_id s = Some r"
  shows "\<exists>s1 y. node_extraction_review env run_id step_id nodes chunks s = Some (s1, Inr (y, validation_of SV_Passed None))
      \<and> ro_count y = int (length nodes) \<and> run_becomes run_id (reviewed ''dummy-local'' ''pv_node_extraction_v1'') s s1"
    and "\<exists>s1 y. edge_reasoning_review env run_id step_id nodes edges ctx s = Some (s1, Inr (y, validation_of SV_Passed None))
      \<and> ro_count y = int (length edges) \<and> run_becomes run_id (reviewed ''dummy-local'' ''pv_edge_linking_v1'') s s1"
    and "\<exists>s1 y. finding_reasoning_review env run_id step_id findings nodes edges s = Some (s1, Inr (y, validation_of SV_Passed None))
      \<and> ro_count y = int (length findings) \<and> run_becomes run_id (reviewed ''dummy-local'' ''pv_finding_reasoning_v1'') s s1"
  unfolding node_extraction_review_def edge_reasoning_review_def finding_reasoning_review_def
  by (rule run_review_passes [OF _ _ _ _ _ assms]; simp add: review_prompt_def)+

text \<open>A stage opens its step, does its work and closes the step.\<close>

definition stage_done :: "string \<Rightarrow> string \<Rightarrow> string \<Rightarrow> (agent_run \<Rightarrow> agent_run) \<Rightarrow> ('a, 'g, 'v) wf_state \<Rightarrow>
    ('a, 'g, 'v) wf_state \<Rightarrow> bool" where
  \<comment> \<open>one succeeded step was appended, and the record of the run changed by \<open>f\<close>\<close>
  "stage_done run_id name stage f s s' = ((\<exists>st. steps_of s' = steps_of s @ [(step_id_of run_id name, st)]
       \<and> sp_run_id st = run_id \<and> sp_stage_name st = stage \<and> sp_status st = SS_Succeeded)
     \<and> run_of run_id s' = map_option f (run_of run_id s))"

definition opened :: "string \<Rightarrow> string \<Rightarrow> string \<Rightarrow> ('a, 'g, 'v) wf_state \<Rightarrow> ('a, 'g, 'v) wf_state \<Rightarrow> bool" where
  "opened run_id name stage s s' = (\<exists>st. steps_of s' = steps_of s @ [(step_id_of run_id name, st)]
     \<and> sp_run_id st = run_id \<and> sp_stage_name st = stage)"

definition fresh_step :: "string \<Rightarrow> string \<Rightarrow> ('a, 'g, 'v) wf_state \<Rightarrow> bool" where
  "fresh_step run_id name s = (step_id_of run_id name \<notin> set (dkeys (steps_of s)))"

lemma begin_step_opens:
  assumes "fresh_step run_id name s"
  shows "\<exists>s1 st. begin_step env run_id name stage payload ref s = Some (s1, Inr st)
     \<and> opened run_id name stage s s1 \<and> run_of run_id s1 = run_of run_id s
     \<and> outside_same s s1 \<and> wf_adapter s1 = wf_adapter s"
  using assms
  by (auto simp: begin_step_def on_traces_def act_on_def start_step_def Let_def opened_def steps_of_def run_of_def
      fresh_step_def dset_fresh outside_same_def simp del: set_map)

lemma dset_last: "k \<notin> set (dkeys d) \<Longrightarrow> dset k v (d @ [(k, u)]) = d @ [(k, v)]"
  by (induction d) auto

lemma dget_last: "k \<notin> set (dkeys d) \<Longrightarrow> dget (d @ [(k, u)]) k = Some u"
  by (induction d) auto

lemma end_step_closes:
  assumes "opened run_id name stage s s1" and "fresh_step run_id name s" and "steps_of s2 = steps_of s1"
  shows "\<exists>s3 st. end_step env run_id name payload oref cref vs vr s2 = Some (s3, Inr st)
     \<and> (\<exists>st. steps_of s3 = steps_of s @ [(step_id_of run_id name, st)]
          \<and> sp_run_id st = run_id \<and> sp_stage_name st = stage \<and> sp_status st = SS_Succeeded)
     \<and> run_of run_id s3 = run_of run_id s2 \<and> outside_same s2 s3 \<and> wf_adapter s3 = wf_adapter s2"
proof -
  let ?i = "step_id_of run_id name"
  from assms(1,3) obtain st where st: "tr_steps (wf_traces s2) = steps_of s @ [(?i, st)]"
    "sp_run_id st = run_id" "sp_stage_name st = stage"
    by (auto simp: opened_def steps_of_def)
  have "dget (tr_steps (wf_traces s2)) ?i = Some st"
    using assms(2) unfolding st(1) fresh_step_def by (rule dget_last)
  then show ?thesis
    using assms(2) st
    by (auto simp: end_step_def on_traces_def act_on_def finish_step_def Let_def steps_of_def run_of_def
        fresh_step_def dset_last outside_same_def simp del: set_map)
qed

lemma stage_closes:
  assumes "opened run_id name stage s s1" and "fresh_step run_id name s" and "steps_of s2 = steps_of s1"
    and "run_of run_id s2 = map_option f (run_of run_id s)"
  shows "\<exists>s3. act_run (end_step env run_id name payload oref cref vs vr s2) (\<lambda>_. act_return x) = Some (s3, Inr x)
     \<and> stage_done run_id name stage f s s3 \<and> outside_same s2 s3"
  using end_step_closes [OF assms(1-3), of env payload oref cref vs vr] assms(4)
  by (force simp: act_return_def stage_done_def)

lemma fetch_stage_runs:
  assumes "fresh_step run_id ''source_fetch'' s"
    and "fetch_all (we_host env) (we_fetch env) \<lparr>sc_project_key = p, sc_scenario = scn, sc_limit = 100\<rparr> (wf_adapter s)
      = Some (a, Inr fetch)"
  shows "\<exists>s1 ref. fetch_stage env run_id p scn s = Some (s1, Inr (fetch, ref))
     \<and> stage_done run_id ''source_fetch'' ''source_fetch'' id s s1"
proof -
  obtain s1 st where s1: "begin_step env run_id ''source_fetch'' ''source_fetch'' (JObj [(''scenario'', JStr scn)]) None s
      = Some (s1, Inr st)" and op: "opened run_id ''source_fetch'' ''source_fetch'' s s1"
    "run_of run_id s1 = run_of run_id s" "wf_adapter s1 = wf_adapter s"
    using begin_step_opens [OF assms(1)] by blast
  obtain s3 ref where s3: "save_json env run_id ''source_fetch'' (JObj (fetch_dump fetch)) (s1\<lparr>wf_adapter := a\<rparr>) = Some (s3, Inr ref)"
    and c3: "calm run_id (s1\<lparr>wf_adapter := a\<rparr>) s3"
    using save_json_calm by blast
  have st3: "steps_of s3 = steps_of s1" and r3: "run_of run_id s3 = run_of run_id s"
    using c3 op(2) by (simp_all add: calm_def steps_of_def run_of_def)
  have "\<exists>s4. fetch_stage env run_id p scn s = Some (s4, Inr (fetch, ref))
      \<and> stage_done run_id ''source_fetch'' ''source_fetch'' id s s4 \<and> outside_same s3 s4"
    by (simp add: fetch_stage_def act_bind_run s1 op(3) assms(2) s3 split del: if_split)
      (rule stage_closes [OF op(1) assms(1) st3], simp add: r3 option.map_id)
  then show ?thesis by blast
qed

lemma normalize_stage_runs:
  assumes "fresh_step run_id ''normalize'' s" and "run_of run_id s = Some r"
    and "rmap (normalize_raw_artifact (we_host env) (we_parse_iso env) (we_now env ''ingested'')) (fr_artifacts fetch)
      = Inr artifacts"
    and "evidence_map (we_host env) (zip (fr_artifacts fetch) artifacts) = Inr ev"
  shows "\<exists>s1 ref. normalize_stage env run_id fetch fetch_ref s = Some (s1, Inr (artifacts, ev, ref))
     \<and> stage_done run_id ''normalize'' ''normalize''
         (\<lambda>r. r\<lparr>rn_input_snapshot_ids := fromkeys (map sa_artifact_id artifacts)\<rparr>) s s1"
proof -
  obtain s1 st where s1: "begin_step env run_id ''normalize'' ''normalize'' (JObj (fetch_dump fetch)) None s
      = Some (s1, Inr st)" and op: "opened run_id ''normalize'' ''normalize'' s s1" "run_of run_id s1 = run_of run_id s"
    using begin_step_opens [OF assms(1)] by blast
  define f where "f = (\<lambda>r :: agent_run. r\<lparr>rn_input_snapshot_ids := fromkeys (map sa_artifact_id artifacts)\<rparr>)"
  obtain s2 where s2: "on_traces (record_input_snapshots run_id (map sa_artifact_id artifacts)) s1 = Some (s2, Inr ())"
    and c2: "steps_of s2 = steps_of s1" "run_of run_id s2 = map_option f (run_of run_id s)"
    using assms(2) op(2)
    by (auto simp: on_traces_def act_on_def record_input_snapshots_def run_of_def steps_of_def f_def)
  obtain s3 ref where s3: "save_json env run_id ''normalize'' (json_list source_artifact_dump artifacts) s2 = Some (s3, Inr ref)"
    and c3: "calm run_id s2 s3"
    using save_json_calm by blast
  have st3: "steps_of s3 = steps_of s1" and r3: "run_of run_id s3 = map_option f (run_of run_id s)"
    using c2 c3 by (simp_all add: calm_def)
  have "\<exists>s4. normalize_stage env run_id fetch fetch_ref s = Some (s4, Inr (artifacts, ev, ref))
      \<and> stage_done run_id ''normalize'' ''normalize'' f s s4 \<and> outside_same s3 s4"
    by (simp add: normalize_stage_def act_bind_run s1 act_of_def assms(3,4) s2 s3)
      (rule stage_closes [OF op(1) assms(1) st3 r3])
  then show ?thesis unfolding f_def by blast
qed

definition no_violations :: "('a, 'g, 'v) wf_env \<Rightarrow> raw_source_artifact \<Rightarrow> bool" where
  "no_violations env raw = (find_masking_violations (we_re_search env) (mk_text (mask_text (ra_body_text raw)))
     (jget (ra_metadata raw) ''forbidden_patterns'') = [])"

definition chunks_of :: "host \<Rightarrow> (string, evidence_span) dict \<Rightarrow> raw_source_artifact \<times> source_artifact \<Rightarrow>
    artifact_chunk list result" where
  "chunks_of h ev ra = rbind (evidence_for ev (fst ra))
     (\<lambda>e. chunk_artifact h (snd ra) (mk_text (mask_text (ra_body_text (fst ra)))) e 700)"

lemma mask_each_runs:
  assumes "\<forall>ra\<in>set pairs. no_violations env (fst ra)" and "rmap (chunks_of (we_host env) ev) pairs = Inr css"
  shows "act_each (mask_and_chunk env run_id ev) pairs s = Some (s, Inr css)"
  using assms
proof (induction pairs arbitrary: css)
  case (Cons ra pairs)
  obtain raw a where ra: "ra = (raw, a)" by fastforce
  with Cons.prems(1) have "find_masking_violations (we_re_search env) (mk_text (mask_text (ra_body_text raw)))
      (jget (ra_metadata raw) ''forbidden_patterns'') = []" by (simp add: no_violations_def)
  then have "mask_and_chunk env run_id ev ra = act_of (chunks_of (we_host env) ev ra)"
    by (simp add: mask_and_chunk_def ra chunks_of_def Let_def)
  with Cons show ?case by (auto simp: rbind_Inr_iff act_outcome act_of_def act_bind_def act_return_def)
qed (simp add: act_return_def)

lemma mask_stage_runs:
  assumes "fresh_step run_id ''mask_chunk'' s" and "\<forall>ra\<in>set pairs. no_violations env (fst ra)"
    and "rmap (chunks_of (we_host env) ev) pairs = Inr css"
    and "we_upsert env (concat css) (wf_vector s) = (v, Inr ())"
  shows "\<exists>s1. mask_stage env run_id pairs ev norm_ref s = Some (s1, Inr (concat css))
     \<and> stage_done run_id ''mask_chunk'' ''mask_chunk'' id s s1 \<and> wf_vector s1 = v
     \<and> wf_graph s1 = wf_graph s \<and> wf_approvals s1 = wf_approvals s"
proof -
  obtain s1 st where s1: "begin_step env run_id ''mask_chunk'' ''mask_chunk'' (jstr_of (\<lambda>ra. sa_artifact_id (snd ra)) pairs) None s
      = Some (s1, Inr st)" and op: "opened run_id ''mask_chunk'' ''mask_chunk'' s s1"
    "run_of run_id s1 = run_of run_id s" "outside_same s s1"
    using begin_step_opens [OF assms(1)] by blast
  obtain s3 ref where s3: "save_json env run_id ''chunks'' (json_list artifact_chunk_dump (concat css)) (s1\<lparr>wf_vector := v\<rparr>)
      = Some (s3, Inr ref)" and c3: "calm run_id (s1\<lparr>wf_vector := v\<rparr>) s3"
    using save_json_calm by blast
  have st3: "steps_of s3 = steps_of s1" and r3: "run_of run_id s3 = run_of run_id s"
    using c3 op(2) by (simp_all add: calm_def steps_of_def run_of_def)
  have "wf_vector s1 = wf_vector s" using op(3) by (simp add: outside_same_def)
  then have "\<exists>s4. mask_stage env run_id pairs ev norm_ref s = Some (s4, Inr (concat css))
      \<and> stage_done run_id ''mask_chunk'' ''mask_chunk'' id s s4 \<and> outside_same s3 s4"
    by (simp add: mask_stage_def act_bind_run s1 mask_each_runs [OF assms(2,3)] s3 act_on_def assms(4) Let_def)
      (rule stage_closes [OF op(1) assms(1) st3], simp add: r3 option.map_id)
  then show ?thesis using c3 op(3) by (auto simp: calm_def outside_same_def)
qed

lemma extract_stage_runs:
  assumes "fresh_step run_id ''extract_nodes'' s" and "run_of run_id s = Some r"
    and "rmap (\<lambda>(raw, artifact). rbind (evidence_for ev raw) (extract_node raw artifact))
      (zip (fr_artifacts (ix_fetch x)) (ix_artifacts x)) = Inr nodes"
    and "we_stage_nodes env nodes (wf_graph s) = (g, Inr ())"
  shows "\<exists>s1. extract_stage env run_id x ev s = Some (s1, Inr nodes)
     \<and> stage_done run_id ''extract_nodes'' ''extract_nodes'' (reviewed ''dummy-local'' ''pv_node_extraction_v1'') s s1
     \<and> wf_graph s1 = g \<and> wf_vector s1 = wf_vector s \<and> wf_approvals s1 = wf_approvals s"
proof -
  let ?f = "reviewed ''dummy-local'' ''pv_node_extraction_v1''"
  obtain s1 st where s1: "begin_step env run_id ''extract_nodes'' ''extract_nodes'' (jstr_of ck_chunk_id (ix_chunks x)) None s
      = Some (s1, Inr st)" and op: "opened run_id ''extract_nodes'' ''extract_nodes'' s s1"
    "run_of run_id s1 = run_of run_id s" "outside_same s s1"
    using begin_step_opens [OF assms(1)] by blast
  have "run_of run_id (s1\<lparr>wf_graph := g\<rparr>) = Some r" using op(2) assms(2) by (simp add: run_of_def)
  then obtain s3 y where s3: "node_extraction_review env run_id (step_id_of run_id ''extract_nodes'') nodes (ix_chunks x)
      (s1\<lparr>wf_graph := g\<rparr>) = Some (s3, Inr (y, validation_of SV_Passed None))" and b3: "run_becomes run_id ?f (s1\<lparr>wf_graph := g\<rparr>) s3"
    using reviews_pass(1) by blast
  have st3: "steps_of s3 = steps_of s1" and r3: "run_of run_id s3 = map_option ?f (run_of run_id s)"
    using b3 op(2) by (simp_all add: run_becomes_def steps_of_def run_of_def)
  have "wf_graph s1 = wf_graph s" using op(3) by (simp add: outside_same_def)
  then have "\<exists>s4. extract_stage env run_id x ev s = Some (s4, Inr nodes)
      \<and> stage_done run_id ''extract_nodes'' ''extract_nodes'' ?f s s4 \<and> outside_same s3 s4"
    by (simp add: extract_stage_def act_bind_run s1 act_of_def act_on_def assms(3,4) s3)
      (rule stage_closes [OF op(1) assms(1) st3 r3])
  then show ?thesis using b3 op(3) by (auto simp: run_becomes_def outside_same_def)
qed

lemma link_stage_runs:
  assumes "fresh_step run_id ''link_edges'' s" and "link_edges (we_host env) raws nodes ev = Inr edges"
  shows "\<exists>s1. link_stage env run_id raws nodes ev s = Some (s1, Inr edges)
     \<and> stage_done run_id ''link_edges'' ''link_edges'' id s s1"
proof -
  obtain s1 st where s1: "begin_step env run_id ''link_edges'' ''link_edges'' (jstr_of on_node_id nodes) None s
      = Some (s1, Inr st)" and op: "opened run_id ''link_edges'' ''link_edges'' s s1" "run_of run_id s1 = run_of run_id s"
    using begin_step_opens [OF assms(1)] by blast
  have "\<exists>s4. link_stage env run_id raws nodes ev s = Some (s4, Inr edges)
      \<and> stage_done run_id ''link_edges'' ''link_edges'' id s s4 \<and> outside_same s1 s4"
    by (simp add: link_stage_def act_bind_run s1 act_of_def assms(2))
      (rule stage_closes [OF op(1) assms(1) refl], simp add: op(2) option.map_id)
  then show ?thesis by blast
qed

lemma reason_stage_runs:
  assumes "fresh_step run_id ''llm_reason_edges'' s" and "run_of run_id s = Some r"
    and "\<And>q. \<exists>cs. we_search env q p 5 (wf_vector s) = Inr cs"
  shows "\<exists>s1. reason_stage env run_id p nodes edges s = Some (s1, Inr ())
     \<and> stage_done run_id ''llm_reason_edges'' ''llm_assisted_reasoning'' (reviewed ''dummy-local'' ''pv_edge_linking_v1'') s s1"
proof -
  let ?f = "reviewed ''dummy-local'' ''pv_edge_linking_v1''"
  obtain ctx cs where s0: "edge_retrieval_context env p nodes edges s = Some (s, Inr (ctx, cs))"
    using assms(3) [of "str_or (py_join '' '' (query_terms nodes edges)) ''traceability evidence''"]
    by (auto simp: edge_retrieval_context_def Let_def act_bind_def act_on_def act_return_def)
  obtain s1 ref where s1: "save_json env run_id ''edge_retrieval_context'' (JObj ctx) s = Some (s1, Inr ref)"
    and c1: "calm run_id s s1" using save_json_calm by blast
  have f1: "fresh_step run_id ''llm_reason_edges'' s1" and e1: "steps_of s1 = steps_of s"
    using assms(1) c1 by (simp_all add: fresh_step_def calm_def)
  obtain s2 st where s2: "begin_step env run_id ''llm_reason_edges'' ''llm_assisted_reasoning''
        (JObj [(''candidate_edge_ids'', jstr_of te_edge_id edges), (''model_profile_id'', JStr ''dummy-local''),
          (''prompt_version_id'', JStr ''pv_edge_linking_v1''),
          (''retrieved_chunk_ids'', jstr_of ck_chunk_id cs)]) (Some (rf_artifact_ref ref)) s1 = Some (s2, Inr st)"
    and op: "opened run_id ''llm_reason_edges'' ''llm_assisted_reasoning'' s1 s2" "run_of run_id s2 = run_of run_id s1"
    using begin_step_opens [OF f1] by blast
  have r2: "run_of run_id s2 = Some r" using op(2) c1 assms(2) by (simp add: calm_def)
  then obtain s3 y where s3: "edge_reasoning_review env run_id (step_id_of run_id ''llm_reason_edges'') nodes edges ctx s2
      = Some (s3, Inr (y, validation_of SV_Passed None))" and b3: "run_becomes run_id ?f s2 s3"
    using reviews_pass(2) by blast
  have st3: "steps_of s3 = steps_of s2" and r3: "run_of run_id s3 = map_option ?f (run_of run_id s1)"
    using b3 op(2) by (simp_all add: run_becomes_def)
  have "\<exists>s4. reason_stage env run_id p nodes edges s = Some (s4, Inr ())
      \<and> stage_done run_id ''llm_reason_edges'' ''llm_assisted_reasoning'' ?f s1 s4 \<and> outside_same s3 s4"
    by (simp add: reason_stage_def act_bind_run s0 s1 s2 s3) (rule stage_closes [OF op(1) f1 st3 r3])
  then show ?thesis using c1 by (auto simp: stage_done_def calm_def)
qed

lemma finding_stage_runs:
  assumes "fresh_step run_id ''detect_findings'' s" and "run_of run_id s = Some r"
    and "analyze_findings (we_host env) nodes edges (Some raws) (Some ev) = Inr findings"
  shows "\<exists>s1. finding_stage env run_id raws nodes edges ev s = Some (s1, Inr findings)
     \<and> stage_done run_id ''detect_findings'' ''detect_findings'' (reviewed ''dummy-local'' ''pv_finding_reasoning_v1'') s s1"
proof -
  let ?f = "reviewed ''dummy-local'' ''pv_finding_reasoning_v1''"
  obtain s1 st where s1: "begin_step env run_id ''detect_findings'' ''detect_findings''
        (JObj [(''nodes'', JInt (int (length nodes))), (''edges'', JInt (int (length edges)))]) None s
      = Some (s1, Inr st)" and op: "opened run_id ''detect_findings'' ''detect_findings'' s s1"
    "run_of run_id s1 = run_of run_id s"
    using begin_step_opens [OF assms(1)] by blast
  have "run_of run_id s1 = Some r" using op(2) assms(2) by simp
  then obtain s3 y where s3: "finding_reasoning_review env run_id (step_id_of run_id ''detect_findings'') findings nodes edges s1
      = Some (s3, Inr (y, validation_of SV_Passed None))" and b3: "run_becomes run_id ?f s1 s3"
    using reviews_pass(3) by blast
  have st3: "steps_of s3 = steps_of s1" and r3: "run_of run_id s3 = map_option ?f (run_of run_id s)"
    using b3 op(2) by (simp_all add: run_becomes_def)
  have "\<exists>s4. finding_stage env run_id raws nodes edges ev s = Some (s4, Inr findings)
      \<and> stage_done run_id ''detect_findings'' ''detect_findings'' ?f s s4 \<and> outside_same s3 s4"
    by (simp add: finding_stage_def act_bind_run s1 act_of_def assms(3) s3)
      (rule stage_closes [OF op(1) assms(1) st3 r3])
  then show ?thesis by blast
qed

lemma approval_stage_runs:
  assumes "fresh_step run_id ''stage_approval'' s"
    and "stage_edges (we_host env) (we_now env ''stage_approval'') p run_id (step_id_of run_id ''stage_approval'') edges
      (wf_approvals s) = (sv, approvals)"
  shows "\<exists>s1. approval_stage env run_id p edges s = Some (s1, Inr approvals)
     \<and> stage_done run_id ''stage_approval'' ''stage_approval'' id s s1
     \<and> wf_approvals s1 = sv \<and> wf_graph s1 = wf_graph s \<and> wf_vector s1 = wf_vector s"
proof -
  obtain s1 st where s1: "begin_step env run_id ''stage_approval'' ''stage_approval'' (jstr_of te_edge_id edges) None s
      = Some (s1, Inr st)" and op: "opened run_id ''stage_approval'' ''stage_approval'' s s1"
    "run_of run_id s1 = run_of run_id s" "outside_same s s1"
    using begin_step_opens [OF assms(1)] by blast
  have st3: "steps_of (s1\<lparr>wf_approvals := sv\<rparr>) = steps_of s1"
    and r3: "run_of run_id (s1\<lparr>wf_approvals := sv\<rparr>) = map_option id (run_of run_id s)"
    using op(2) by (simp_all add: steps_of_def run_of_def option.map_id)
  have "wf_approvals s1 = wf_approvals s" using op(3) by (simp add: outside_same_def)
  then have "\<exists>s4. approval_stage env run_id p edges s = Some (s4, Inr approvals)
      \<and> stage_done run_id ''stage_approval'' ''stage_approval'' id s s4 \<and> outside_same (s1\<lparr>wf_approvals := sv\<rparr>) s4"
    by (simp add: approval_stage_def act_bind_run s1 act_on_def assms(2))
      (rule stage_closes [OF op(1) assms(1) st3 r3])
  then show ?thesis using op(3) by (auto simp: outside_same_def)
qed

section \<open>Whole runs\<close>

text \<open>
  The outputs of an analysis as a pure function of what the source serves, without traces, artifacts
  and backends: the reference a run is compared with.
\<close>

record analysis_parts =
  an_fetch :: source_fetch_result
  an_artifacts :: "source_artifact list"
  an_chunks :: "artifact_chunk list"
  an_nodes :: "ontology_node list"
  an_edges :: "traceability_edge list"
  an_findings :: "finding list"

definition analysis_parts_of :: "('a, 'g, 'v) wf_env \<Rightarrow> source_fetch_result \<Rightarrow> analysis_parts result" where
  "analysis_parts_of env fetch =
     (let h = we_host env; raws = fr_artifacts fetch in
      rbind (rmap (normalize_raw_artifact h (we_parse_iso env) (we_now env ''ingested'')) raws) (\<lambda>artifacts.
      rbind (evidence_map h (zip raws artifacts)) (\<lambda>ev.
      rbind (rmap (chunks_of h ev) (zip raws artifacts)) (\<lambda>css.
      rbind (rmap (\<lambda>(raw, artifact). rbind (evidence_for ev raw) (extract_node raw artifact)) (zip raws artifacts)) (\<lambda>nodes.
      rbind (link_edges h raws nodes ev) (\<lambda>edges.
      rbind (analyze_findings h nodes edges (Some raws) (Some ev)) (\<lambda>findings.
      Inr \<lparr>an_fetch = fetch, an_artifacts = artifacts, an_chunks = concat css, an_nodes = nodes,
        an_edges = edges, an_findings = findings\<rparr>)))))))"

definition backends_total :: "('a, 'g, 'v) wf_env \<Rightarrow> bool" where
  \<comment> \<open>no backend raises\<close>
  "backends_total env = ((\<forall>ns g. snd (we_stage_nodes env ns g) = Inr ()) \<and> (\<forall>cs v. snd (we_upsert env cs v) = Inr ())
     \<and> (\<forall>q p n v. is_ok (we_search env q p n v)))"

definition fresh_run :: "string \<Rightarrow> ('a, 'g, 'v) wf_state \<Rightarrow> bool" where
  "fresh_run run_id s = (list_all (\<lambda>k. \<not> prefix (''step_'' @ run_id @ ''_'') k) (dkeys (steps_of s))
     \<and> list_all (\<lambda>st. sp_run_id st \<noteq> run_id) (dvals (steps_of s)))"

definition stage_log :: "string \<Rightarrow> ('a, 'g, 'v) wf_state \<Rightarrow> (string \<times> step_status) list" where
  "stage_log run_id s = map (\<lambda>st. (sp_stage_name st, sp_status st)) (list_steps run_id (wf_traces s))"

lemma fresh_run_step: "fresh_run run_id s \<Longrightarrow> fresh_step run_id name s"
  by (auto simp: fresh_run_def fresh_step_def step_id_of_def list_all_iff simp del: set_map)

lemma fresh_run_log: "fresh_run run_id s \<Longrightarrow> stage_log run_id s = []"
  by (auto simp: fresh_run_def stage_log_def list_steps_def steps_of_def list_all_iff filter_empty_conv simp del: set_map)

lemma stage_done_next:
  assumes "stage_done run_id name stage f s s'"
  shows "fresh_step run_id n s' \<longleftrightarrow> fresh_step run_id n s \<and> n \<noteq> name"
    and "stage_log run_id s' = stage_log run_id s @ [(stage, SS_Succeeded)]"
    and "run_of run_id s' = map_option f (run_of run_id s)"
  using assms
  by (auto simp: stage_done_def fresh_step_def stage_log_def list_steps_def steps_of_def step_id_of_def)

lemma begin_run_runs:
  "\<exists>s1 r. begin_run env run_id rt p by_user src s = Some (s1, Inr r) \<and> run_of run_id s1 = Some r
     \<and> rn_status r = RS_Running \<and> rn_prompt_version_ids r = [] \<and> steps_of s1 = steps_of s
     \<and> outside_same s s1 \<and> wf_adapter s1 = wf_adapter s"
  by (simp add: begin_run_def act_bind_run on_traces_def act_on_def create_run_def mark_run_running_def Let_def
      run_of_def steps_of_def outside_same_def)

lemma end_run_runs:
  assumes "run_of run_id s = Some r"
  shows "\<exists>s1 r'. end_run env run_id status c m s = Some (s1, Inr r') \<and> rn_status r' = status
     \<and> rn_failure_code r' = c \<and> rn_failure_message r' = m \<and> rn_prompt_version_ids r' = rn_prompt_version_ids r
     \<and> rn_input_snapshot_ids r' = rn_input_snapshot_ids r \<and> run_of run_id s1 = Some r'
     \<and> steps_of s1 = steps_of s \<and> outside_same s s1"
  using assms
  by (simp add: end_run_def on_traces_def act_on_def complete_run_def Let_def run_of_def steps_of_def outside_same_def)

lemma list_steps_log: "map (\<lambda>st. (sp_stage_name st, sp_status st)) (list_steps run_id (wf_traces s)) = stage_log run_id s"
  by (simp add: stage_log_def)

lemma log_of_steps: "steps_of s' = steps_of s \<Longrightarrow> stage_log run_id s' = stage_log run_id s"
  by (simp add: stage_log_def list_steps_def steps_of_def)

lemma ingestion_runs:
  assumes "fresh_step run_id ''source_fetch'' s" and "fresh_step run_id ''normalize'' s" and "fresh_step run_id ''mask_chunk'' s"
    and "run_of run_id s = Some r"
    and "fetch_all (we_host env) (we_fetch env) \<lparr>sc_project_key = p, sc_scenario = scn, sc_limit = 100\<rparr> (wf_adapter s)
      = Some (a, Inr fetch)"
    and "rmap (normalize_raw_artifact (we_host env) (we_parse_iso env) (we_now env ''ingested'')) (fr_artifacts fetch) = Inr artifacts"
    and "evidence_map (we_host env) (zip (fr_artifacts fetch) artifacts) = Inr ev"
    and "\<forall>raw\<in>set (fr_artifacts fetch). no_violations env raw"
    and "rmap (chunks_of (we_host env) ev) (zip (fr_artifacts fetch) artifacts) = Inr css"
    and "we_upsert env (concat css) (wf_vector s) = (v, Inr ())"
  shows "\<exists>s1. run_ingestion_stages env run_id p scn s = Some (s1, Inr \<lparr>ix_fetch = fetch, ix_artifacts = artifacts,
        ix_chunks = concat css, ix_cursor = sync_cursor_state env run_id p scn fetch\<rparr>)
     \<and> stage_log run_id s1 = stage_log run_id s @ [(''source_fetch'', SS_Succeeded), (''normalize'', SS_Succeeded), (''mask_chunk'', SS_Succeeded)]
     \<and> (\<forall>n. fresh_step run_id n s1 \<longleftrightarrow> fresh_step run_id n s \<and> n \<notin> {''source_fetch'', ''normalize'', ''mask_chunk''})
     \<and> run_of run_id s1 = Some (r\<lparr>rn_input_snapshot_ids := fromkeys (map sa_artifact_id artifacts)\<rparr>)
     \<and> wf_vector s1 = v \<and> wf_graph s1 = wf_graph s \<and> wf_approvals s1 = wf_approvals s"
proof -
  obtain s1 ref where s1: "fetch_stage env run_id p scn s = Some (s1, Inr (fetch, ref))"
    and d1: "stage_done run_id ''source_fetch'' ''source_fetch'' id s s1"
    using fetch_stage_runs [OF assms(1,5)] by blast
  note n1 = stage_done_next [OF d1] and q1 = act_keepsD [OF quiet_stages(1) s1]
  have f2: "fresh_step run_id ''normalize'' s1" and r1: "run_of run_id s1 = Some r"
    using n1 assms(2,4) by (simp_all add: option.map_id)
  obtain s2 ref2 where s2: "normalize_stage env run_id fetch ref s1 = Some (s2, Inr (artifacts, ev, ref2))"
    and d2: "stage_done run_id ''normalize'' ''normalize'' (\<lambda>r. r\<lparr>rn_input_snapshot_ids := fromkeys (map sa_artifact_id artifacts)\<rparr>) s1 s2"
    using normalize_stage_runs [OF f2 r1 assms(6,7)] by blast
  note n2 = stage_done_next [OF d2] and q2 = act_keepsD [OF quiet_stages(2) s2]
  have f3: "fresh_step run_id ''mask_chunk'' s2" using n1 n2 assms(3) by simp
  have nv: "\<forall>ra\<in>set (zip (fr_artifacts fetch) artifacts). no_violations env (fst ra)"
    using assms(8) by (auto dest: set_zip_leftD)
  have "we_upsert env (concat css) (wf_vector s2) = (v, Inr ())" using assms(10) q1 q2 by (simp add: outside_same_def)
  from mask_stage_runs [OF f3 nv assms(9) this]
  obtain s3 where s3: "mask_stage env run_id (zip (fr_artifacts fetch) artifacts) ev ref2 s2 = Some (s3, Inr (concat css))"
    and d3: "stage_done run_id ''mask_chunk'' ''mask_chunk'' id s2 s3"
    and o3: "wf_vector s3 = v" "wf_graph s3 = wf_graph s2" "wf_approvals s3 = wf_approvals s2" by blast
  note n3 = stage_done_next [OF d3]
  have "run_ingestion_stages env run_id p scn s = Some (s3, Inr \<lparr>ix_fetch = fetch, ix_artifacts = artifacts,
        ix_chunks = concat css, ix_cursor = sync_cursor_state env run_id p scn fetch\<rparr>)"
    by (simp add: run_ingestion_stages_def act_bind_run s1 s2 s3 act_return_def)
  moreover have "run_of run_id s3 = Some (r\<lparr>rn_input_snapshot_ids := fromkeys (map sa_artifact_id artifacts)\<rparr>)"
    using n2(3) n3(3) r1 by simp
  ultimately show ?thesis using n1(1,2) n2(1,2) n3(1,2) o3 q1 q2 by (auto simp: outside_same_def)
qed

lemma analysis_after_ingestion:
  \<comment> \<open>the stages after the ingestion, from any state in which they can begin\<close>
  assumes "\<forall>n\<in>{''extract_nodes'', ''link_edges'', ''llm_reason_edges'', ''detect_findings'', ''stage_approval''}. fresh_step run_id n s"
    and "run_of run_id s = Some r" and "rn_prompt_version_ids r = []" and "backends_total env"
    and "rmap (\<lambda>(raw, artifact). rbind (evidence_for ev raw) (extract_node raw artifact))
      (zip (fr_artifacts (ix_fetch x)) (ix_artifacts x)) = Inr nodes"
    and "link_edges (we_host env) raws nodes ev = Inr edges"
    and "analyze_findings (we_host env) nodes edges (Some raws) (Some ev) = Inr findings"
    and "stage_edges (we_host env) (we_now env ''stage_approval'') p run_id (step_id_of run_id ''stage_approval'') edges
      (wf_approvals s) = (sv, approvals)"
  shows "\<exists>s1 s2 s3 s4 s5 r'. extract_stage env run_id x ev s = Some (s1, Inr nodes)
     \<and> link_stage env run_id raws nodes ev s1 = Some (s2, Inr edges)
     \<and> reason_stage env run_id p nodes edges s2 = Some (s3, Inr ())
     \<and> finding_stage env run_id raws nodes edges ev s3 = Some (s4, Inr findings)
     \<and> approval_stage env run_id p edges s4 = Some (s5, Inr approvals)
     \<and> stage_log run_id s5 = stage_log run_id s @ map (\<lambda>n. (n, SS_Succeeded))
          [''extract_nodes'', ''link_edges'', ''llm_assisted_reasoning'', ''detect_findings'', ''stage_approval'']
     \<and> run_of run_id s5 = Some r' \<and> rn_input_snapshot_ids r' = rn_input_snapshot_ids r
     \<and> rn_prompt_version_ids r' = [''pv_node_extraction_v1'', ''pv_edge_linking_v1'', ''pv_finding_reasoning_v1'']
     \<and> wf_graph s5 = fst (we_stage_nodes env nodes (wf_graph s)) \<and> wf_approvals s5 = sv \<and> wf_vector s5 = wf_vector s"
proof -
  have g: "we_stage_nodes env nodes (wf_graph s) = (fst (we_stage_nodes env nodes (wf_graph s)), Inr ())"
    using assms(4) by (simp add: backends_total_def prod_eq_iff)
  obtain s1 where s1: "extract_stage env run_id x ev s = Some (s1, Inr nodes)"
    and d1: "stage_done run_id ''extract_nodes'' ''extract_nodes'' (reviewed ''dummy-local'' ''pv_node_extraction_v1'') s s1"
    and o1: "wf_graph s1 = fst (we_stage_nodes env nodes (wf_graph s))" "wf_vector s1 = wf_vector s" "wf_approvals s1 = wf_approvals s"
    using extract_stage_runs [OF _ assms(2,5) g] assms(1) by blast
  note n1 = stage_done_next [OF d1]
  obtain s2 where s2: "link_stage env run_id raws nodes ev s1 = Some (s2, Inr edges)"
    and d2: "stage_done run_id ''link_edges'' ''link_edges'' id s1 s2"
    using link_stage_runs [OF _ assms(6), of run_id s1] n1(1) assms(1) by auto
  note n2 = stage_done_next [OF d2] and q2 = act_keepsD [OF quiet_stages(6) s2]
  have f3: "fresh_step run_id ''llm_reason_edges'' s2" using n1(1) n2(1) assms(1) by simp
  have r2: "run_of run_id s2 = Some (reviewed ''dummy-local'' ''pv_node_extraction_v1'' r)"
    using n1(3) n2(3) assms(2) by simp
  have search: "\<exists>cs. we_search env q p 5 (wf_vector s2) = Inr cs" for q
    using assms(4) by (auto simp: backends_total_def is_ok_def split: sum.splits) (meson obj_sumE)
  obtain s3 where s3: "reason_stage env run_id p nodes edges s2 = Some (s3, Inr ())"
    and d3: "stage_done run_id ''llm_reason_edges'' ''llm_assisted_reasoning'' (reviewed ''dummy-local'' ''pv_edge_linking_v1'') s2 s3"
    using reason_stage_runs [OF f3 r2 search] by blast
  note n3 = stage_done_next [OF d3] and q3 = act_keepsD [OF quiet_stages(8) s3]
  have f4: "fresh_step run_id ''detect_findings'' s3" using n1(1) n2(1) n3(1) assms(1) by simp
  have "\<exists>r3. run_of run_id s3 = Some r3" using n3(3) r2 by simp
  then obtain s4 where s4: "finding_stage env run_id raws nodes edges ev s3 = Some (s4, Inr findings)"
    and d4: "stage_done run_id ''detect_findings'' ''detect_findings'' (reviewed ''dummy-local'' ''pv_finding_reasoning_v1'') s3 s4"
    using finding_stage_runs [OF f4 _ assms(7)] by blast
  note n4 = stage_done_next [OF d4] and q4 = act_keepsD [OF quiet_stages(7) s4]
  have f5: "fresh_step run_id ''stage_approval'' s4" using n1(1) n2(1) n3(1) n4(1) assms(1) by simp
  have "wf_approvals s4 = wf_approvals s" using q2 q3 q4 o1 by (simp add: outside_same_def)
  then obtain s5 where s5: "approval_stage env run_id p edges s4 = Some (s5, Inr approvals)"
    and d5: "stage_done run_id ''stage_approval'' ''stage_approval'' id s4 s5"
    and o5: "wf_approvals s5 = sv" "wf_graph s5 = wf_graph s4" "wf_vector s5 = wf_vector s4"
    using approval_stage_runs [OF f5] assms(8) by metis
  note n5 = stage_done_next [OF d5]
  have "run_of run_id s5 = Some (reviewed ''dummy-local'' ''pv_finding_reasoning_v1'' (reviewed ''dummy-local''
      ''pv_edge_linking_v1'' (reviewed ''dummy-local'' ''pv_node_extraction_v1'' r)))"
    using n5(3) n4(3) n3(3) r2 by (simp add: option.map_id)
  moreover have "wf_graph s5 = fst (we_stage_nodes env nodes (wf_graph s)) \<and> wf_vector s5 = wf_vector s"
    using q2 q3 q4 o1 o5 by (simp add: outside_same_def)
  moreover have "stage_log run_id s5 = stage_log run_id s @ map (\<lambda>n. (n, SS_Succeeded))
      [''extract_nodes'', ''link_edges'', ''llm_assisted_reasoning'', ''detect_findings'', ''stage_approval'']"
    using n1(2) n2(2) n3(2) n4(2) n5(2) by simp
  ultimately show ?thesis
    using s1 s2 s3 s4 s5 o5(1) assms(3) by (simp add: reviewed_def)
qed

lemma analysis_parts_Inr:
  assumes "analysis_parts_of env fetch = Inr x"
  obtains ev css where "rmap (normalize_raw_artifact (we_host env) (we_parse_iso env) (we_now env ''ingested''))
      (fr_artifacts fetch) = Inr (an_artifacts x)"
    and "evidence_map (we_host env) (zip (fr_artifacts fetch) (an_artifacts x)) = Inr ev"
    and "rmap (chunks_of (we_host env) ev) (zip (fr_artifacts fetch) (an_artifacts x)) = Inr css"
    and "rmap (\<lambda>(raw, artifact). rbind (evidence_for ev raw) (extract_node raw artifact))
      (zip (fr_artifacts fetch) (an_artifacts x)) = Inr (an_nodes x)"
    and "link_edges (we_host env) (fr_artifacts fetch) (an_nodes x) ev = Inr (an_edges x)"
    and "analyze_findings (we_host env) (an_nodes x) (an_edges x) (Some (fr_artifacts fetch)) (Some ev) = Inr (an_findings x)"
    and "an_chunks x = concat css"
  using assms by (auto simp: analysis_parts_of_def Let_def rbind_Inr_iff)

lemma stages_run:
  \<comment> \<open>all stages, from a state in which the run has begun\<close>
  assumes "fetch_all (we_host env) (we_fetch env) \<lparr>sc_project_key = p, sc_scenario = scn, sc_limit = 100\<rparr> (wf_adapter s)
      = Some (a, Inr fetch)"
    and "list_all (no_violations env) (fr_artifacts fetch)" and "analysis_parts_of env fetch = Inr x"
    and "backends_total env" and "\<And>n. fresh_step run_id n s" and "run_of run_id s = Some r" and "rn_prompt_version_ids r = []"
    and "stage_edges (we_host env) (we_now env ''stage_approval'') p run_id (step_id_of run_id ''stage_approval'')
      (an_edges x) (wf_approvals s) = (sv, approvals)"
    and "y = \<lparr>ix_fetch = fetch, ix_artifacts = an_artifacts x, ix_chunks = an_chunks x,
      ix_cursor = sync_cursor_state env run_id p scn fetch\<rparr>"
  shows "\<exists>ev s2 s3 s4 s5 s6 s7 r'. run_ingestion_stages env run_id p scn s = Some (s2, Inr y)
     \<and> evidence_map (we_host env) (zip (fr_artifacts fetch) (an_artifacts x)) = Inr ev
     \<and> extract_stage env run_id y ev s2 = Some (s3, Inr (an_nodes x))
     \<and> link_stage env run_id (fr_artifacts fetch) (an_nodes x) ev s3 = Some (s4, Inr (an_edges x))
     \<and> reason_stage env run_id p (an_nodes x) (an_edges x) s4 = Some (s5, Inr ())
     \<and> finding_stage env run_id (fr_artifacts fetch) (an_nodes x) (an_edges x) ev s5 = Some (s6, Inr (an_findings x))
     \<and> approval_stage env run_id p (an_edges x) s6 = Some (s7, Inr approvals)
     \<and> stage_log run_id s7 = stage_log run_id s @ map (\<lambda>n. (n, SS_Succeeded)) [''source_fetch'', ''normalize'', ''mask_chunk'',
         ''extract_nodes'', ''link_edges'', ''llm_assisted_reasoning'', ''detect_findings'', ''stage_approval'']
     \<and> run_of run_id s7 = Some r' \<and> rn_input_snapshot_ids r' = fromkeys (map sa_artifact_id (an_artifacts x))
     \<and> rn_prompt_version_ids r' = [''pv_node_extraction_v1'', ''pv_edge_linking_v1'', ''pv_finding_reasoning_v1'']
     \<and> wf_graph s7 = fst (we_stage_nodes env (an_nodes x) (wf_graph s)) \<and> wf_approvals s7 = sv
     \<and> wf_vector s7 = fst (we_upsert env (an_chunks x) (wf_vector s))"
proof -
  let ?raws = "fr_artifacts fetch"
  from assms(3) obtain ev css where parts:
    "rmap (normalize_raw_artifact (we_host env) (we_parse_iso env) (we_now env ''ingested'')) ?raws = Inr (an_artifacts x)"
    "evidence_map (we_host env) (zip ?raws (an_artifacts x)) = Inr ev"
    "rmap (chunks_of (we_host env) ev) (zip ?raws (an_artifacts x)) = Inr css"
    "rmap (\<lambda>(raw, artifact). rbind (evidence_for ev raw) (extract_node raw artifact)) (zip ?raws (an_artifacts x)) = Inr (an_nodes x)"
    "link_edges (we_host env) ?raws (an_nodes x) ev = Inr (an_edges x)"
    "analyze_findings (we_host env) (an_nodes x) (an_edges x) (Some ?raws) (Some ev) = Inr (an_findings x)"
    "an_chunks x = concat css" by (rule analysis_parts_Inr)
  have up: "we_upsert env (concat css) (wf_vector s) = (fst (we_upsert env (an_chunks x) (wf_vector s)), Inr ())"
    using assms(4) by (simp add: backends_total_def parts(7) prod_eq_iff)
  have nv: "\<forall>raw\<in>set ?raws. no_violations env raw" using assms(2) by (simp add: list_all_iff)
  from ingestion_runs [OF assms(5) assms(5) assms(5) assms(6,1) parts(1,2) nv parts(3) up]
  obtain s2 where s2: "run_ingestion_stages env run_id p scn s = Some (s2, Inr y)"
    "stage_log run_id s2 = stage_log run_id s @ [(''source_fetch'', SS_Succeeded), (''normalize'', SS_Succeeded), (''mask_chunk'', SS_Succeeded)]"
    "\<forall>n. fresh_step run_id n s2 \<longleftrightarrow> n \<notin> {''source_fetch'', ''normalize'', ''mask_chunk''}"
    "run_of run_id s2 = Some (r\<lparr>rn_input_snapshot_ids := fromkeys (map sa_artifact_id (an_artifacts x))\<rparr>)"
    "wf_vector s2 = fst (we_upsert env (an_chunks x) (wf_vector s))" "wf_graph s2 = wf_graph s" "wf_approvals s2 = wf_approvals s"
    using assms(5) unfolding assms(9) parts(7) by auto
  have f2: "\<forall>n\<in>{''extract_nodes'', ''link_edges'', ''llm_reason_edges'', ''detect_findings'', ''stage_approval''}. fresh_step run_id n s2"
    using s2(3) by simp
  have "stage_edges (we_host env) (we_now env ''stage_approval'') p run_id (step_id_of run_id ''stage_approval'')
      (an_edges x) (wf_approvals s2) = (sv, approvals)" using assms(8) s2(7) by simp
  from analysis_after_ingestion [OF f2 s2(4) _ assms(4), where x = y and ev = ev and raws = ?raws, OF _ _ parts(5,6) this]
    parts(2,4) assms(7) s2
  show ?thesis by (auto simp: assms(9))
qed

lemma run_completes:
  assumes "fetch_all (we_host env) (we_fetch env) \<lparr>sc_project_key = p, sc_scenario = scn, sc_limit = 100\<rparr> (wf_adapter s)
      = Some (a, Inr fetch)"
    and "list_all (no_violations env) (fr_artifacts fetch)" and "analysis_parts_of env fetch = Inr x"
    and "backends_total env" and "fresh_run run_id s"
    and "stage_edges (we_host env) (we_now env ''stage_approval'') p run_id (step_id_of run_id ''stage_approval'')
      (an_edges x) (wf_approvals s) = (sv, approvals)"
  shows "\<exists>s' res. run_analysis env rt run_id p scn by_user src s = Some (s', Inr res)
    \<and> ar_artifacts res = an_artifacts x \<and> ar_chunks res = an_chunks x \<and> ar_nodes res = an_nodes x
    \<and> ar_candidate_edges res = an_edges x \<and> ar_findings res = an_findings x \<and> ar_approvals res = approvals
    \<and> wf_approvals s' = sv \<and> wf_graph s' = fst (we_stage_nodes env (an_nodes x) (wf_graph s))
    \<and> wf_vector s' = fst (we_upsert env (an_chunks x) (wf_vector s))
    \<and> rn_status (ar_run res) = RS_Succeeded
    \<and> rn_prompt_version_ids (ar_run res) = [''pv_node_extraction_v1'', ''pv_edge_linking_v1'', ''pv_finding_reasoning_v1'']
    \<and> rn_input_snapshot_ids (ar_run res) = fromkeys (map sa_artifact_id (an_artifacts x))
    \<and> map (\<lambda>st. (sp_stage_name st, sp_status st)) (ar_steps res) = map (\<lambda>n. (n, SS_Succeeded))
        [''source_fetch'', ''normalize'', ''mask_chunk'', ''extract_nodes'', ''link_edges'',
         ''llm_assisted_reasoning'', ''detect_findings'', ''stage_approval'']"
proof -
  obtain s1 r where s1: "begin_run env run_id rt p by_user src s = Some (s1, Inr r)" "run_of run_id s1 = Some r"
    "rn_prompt_version_ids r = []" "steps_of s1 = steps_of s" "outside_same s s1" "wf_adapter s1 = wf_adapter s"
    using begin_run_runs by blast
  have fresh: "fresh_step run_id n s1" for n
    using fresh_run_step [OF assms(5), of n] s1(4) by (simp add: fresh_step_def)
  have o1: "wf_approvals s1 = wf_approvals s" "wf_graph s1 = wf_graph s" "wf_vector s1 = wf_vector s"
    using s1(5) by (simp_all add: outside_same_def)
  let ?x = "\<lparr>ix_fetch = fetch, ix_artifacts = an_artifacts x, ix_chunks = an_chunks x,
      ix_cursor = sync_cursor_state env run_id p scn fetch\<rparr>"
  obtain ev s2 s3 s4 s5 s6 s7 r' where st: "run_ingestion_stages env run_id p scn s1 = Some (s2, Inr ?x)"
    "evidence_map (we_host env) (zip (fr_artifacts fetch) (an_artifacts x)) = Inr ev"
    "extract_stage env run_id ?x ev s2 = Some (s3, Inr (an_nodes x))"
    "link_stage env run_id (fr_artifacts fetch) (an_nodes x) ev s3 = Some (s4, Inr (an_edges x))"
    "reason_stage env run_id p (an_nodes x) (an_edges x) s4 = Some (s5, Inr ())"
    "finding_stage env run_id (fr_artifacts fetch) (an_nodes x) (an_edges x) ev s5 = Some (s6, Inr (an_findings x))"
    "approval_stage env run_id p (an_edges x) s6 = Some (s7, Inr approvals)"
    "stage_log run_id s7 = stage_log run_id s1 @ map (\<lambda>n. (n, SS_Succeeded)) [''source_fetch'', ''normalize'', ''mask_chunk'',
       ''extract_nodes'', ''link_edges'', ''llm_assisted_reasoning'', ''detect_findings'', ''stage_approval'']"
    and r': "run_of run_id s7 = Some r'" "rn_input_snapshot_ids r' = fromkeys (map sa_artifact_id (an_artifacts x))"
    "rn_prompt_version_ids r' = [''pv_node_extraction_v1'', ''pv_edge_linking_v1'', ''pv_finding_reasoning_v1'']"
    and o7: "wf_graph s7 = fst (we_stage_nodes env (an_nodes x) (wf_graph s))" "wf_approvals s7 = sv"
    "wf_vector s7 = fst (we_upsert env (an_chunks x) (wf_vector s))"
    using stages_run [OF _ assms(2-4) fresh s1(2,3), of p scn a sv approvals ?x] assms(1,6) s1(6) o1 by auto
  obtain s8 r8 where s8: "end_run env run_id RS_Succeeded None None s7 = Some (s8, Inr r8)" "rn_status r8 = RS_Succeeded"
    "rn_prompt_version_ids r8 = rn_prompt_version_ids r'" "rn_input_snapshot_ids r8 = rn_input_snapshot_ids r'"
    "steps_of s8 = steps_of s7" "outside_same s7 s8"
    using end_run_runs [OF r'(1)] by blast
  have all_steps: "stage_log run_id s8 = map (\<lambda>n. (n, SS_Succeeded)) [''source_fetch'', ''normalize'', ''mask_chunk'',
      ''extract_nodes'', ''link_edges'', ''llm_assisted_reasoning'', ''detect_findings'', ''stage_approval'']"
    using log_of_steps [OF s8(5)] st(8) log_of_steps [OF s1(4)] fresh_run_log [OF assms(5)] by simp
  have "on_traces (\<lambda>tr. (tr, Inr (list_steps run_id tr))) s8 = Some (s8, Inr (list_steps run_id (wf_traces s8)))"
    by (simp add: on_traces_def act_on_def)
  then show ?thesis
    using s8(2-4) r'(2,3) o7 s8(6) all_steps
    by (simp add: run_analysis_def act_bind_run s1(1) st(1-7) act_of_def s8(1) act_return_def list_steps_log
        outside_same_def Let_def)
qed


section \<open>Runs that meet a masking violation\<close>

lemma chunks_total:
  assumes "evidence_map h pairs = Inr ev" and "set qs \<subseteq> set pairs"
  shows "\<exists>css. rmap (chunks_of h ev) qs = Inr css"
proof (rule rmap_total)
  fix ra assume "ra \<in> set qs"
  with assms(2) have ra: "ra \<in> set pairs" by blast
  from assms(1) obtain es where es: "rmap (\<lambda>ra. build_artifact_evidence h (sa_artifact_id (snd ra)) (fst ra)) pairs = Inr es"
    and ev: "ev = dict_of (zip (map (\<lambda>ra. ra_external_id (fst ra)) pairs) es)"
    by (auto simp: evidence_map_def rbind_Inr_iff)
  have "dkeys (zip (map (\<lambda>ra. ra_external_id (fst ra)) pairs) es) = map (\<lambda>ra. ra_external_id (fst ra)) pairs"
    using rmap_length [OF es] by simp
  moreover have "set (dkeys (dict_of kvs)) = set (dkeys kvs)" for kvs :: "(string \<times> evidence_span) list" by simp
  ultimately have "set (dkeys ev) = (\<lambda>ra. ra_external_id (fst ra)) ` set pairs" unfolding ev by (metis list.set_map)
  then have "ra_external_id (fst ra) \<in> set (dkeys ev)" using ra by blast
  then obtain e where "dget ev (ra_external_id (fst ra)) = Some e"
    by (cases "dget ev (ra_external_id (fst ra))") (auto simp: dget_None_iff simp del: set_map)
  then show "\<exists>y. chunks_of h ev ra = Inr y"
    by (simp add: chunks_of_def evidence_for_def chunk_artifact_eq)
qed

lemma masking_violation_runs:
  assumes "opened run_id ''mask_chunk'' ''mask_chunk'' s0 s" and "fresh_step run_id ''mask_chunk'' s0"
    and "run_of run_id s = Some r"
  shows "\<exists>s1 ref. masking_violation env run_id a raw vs s
       = Some (s1, Inl (MaskingPolicyViolationError (sa_artifact_id a) vs (Some ref)))
     \<and> (\<exists>r'. run_of run_id s1 = Some r' \<and> rn_status r' = RS_Failed \<and> rn_failure_code r' = Some ''MASKING_POLICY_VIOLATION'')
     \<and> stage_log run_id s1 = stage_log run_id s0 @ [(''mask_chunk'', SS_Failed)]"
proof -
  let ?i = "step_id_of run_id ''mask_chunk''" and ?p = "JObj (violation_payload a raw vs)"
  obtain s1 ref where s1: "save_json env run_id ''masking_policy_violation'' ?p s = Some (s1, Inr ref)"
    and c1: "calm run_id s s1" using save_json_calm by blast
  from assms(1) c1 obtain st where st: "steps_of s1 = steps_of s0 @ [(?i, st)]" "sp_run_id st = run_id"
    "sp_stage_name st = ''mask_chunk''" by (auto simp: opened_def calm_def)
  have get: "dget (tr_steps (wf_traces s1)) ?i = Some st"
    using assms(2) dget_last [of ?i "steps_of s0" st] st(1) by (simp add: steps_of_def fresh_step_def del: set_map)
  let ?e = "MaskingPolicyViolationError (sa_artifact_id a) vs (Some (rf_artifact_ref ref))"
  obtain s2 st2 where s2: "on_traces (fail_step (we_host env) (we_now env ''fail_mask_chunk'') ?i ''MASKING_POLICY_VIOLATION''
      (exc_text ?e) (Some ?p) (Some (rf_artifact_ref ref)) VS_Failed (Some (violation_payload a raw vs))) s1 = Some (s2, Inr st2)"
    and l2: "steps_of s2 = steps_of s0 @ [(?i, st2)]" "sp_run_id st2 = run_id" "sp_stage_name st2 = ''mask_chunk''"
      "sp_status st2 = SS_Failed" "run_of run_id s2 = run_of run_id s1"
    using get st assms(2) dset_last [of ?i "steps_of s0" _ st]
    by (auto simp: on_traces_def act_on_def fail_step_def Let_def steps_of_def run_of_def fresh_step_def simp del: set_map)
  have r2: "run_of run_id s2 = Some r" using l2(5) c1 assms(3) by (simp add: calm_def)
  obtain s3 r3 where s3: "end_run env run_id RS_Failed (Some ''MASKING_POLICY_VIOLATION'') (Some (exc_text ?e)) s2 = Some (s3, Inr r3)"
    "rn_status r3 = RS_Failed" "rn_failure_code r3 = Some ''MASKING_POLICY_VIOLATION''" "run_of run_id s3 = Some r3"
    "steps_of s3 = steps_of s2"
    using end_run_runs [OF r2] by blast
  have "stage_log run_id s3 = stage_log run_id s0 @ [(''mask_chunk'', SS_Failed)]"
    using l2 s3(5) by (simp add: stage_log_def list_steps_def steps_of_def)
  then show ?thesis
    using s3 by (simp add: masking_violation_def Let_def act_bind_run s1 s2 s3(1) act_raise_def)
qed

lemma mask_each_violates:
  assumes "\<forall>ra\<in>set ok. no_violations env (fst ra)" and "rmap (chunks_of (we_host env) ev) ok = Inr css"
    and "mask_and_chunk env run_id ev ra s = Some (s', Inl e)"
  shows "act_each (mask_and_chunk env run_id ev) (ok @ ra # rest) s = Some (s', Inl e)"
  using assms(1,2)
proof (induction ok arbitrary: css)
  case Nil
  then show ?case by (simp add: act_bind_run assms(3))
next
  case (Cons q qs)
  obtain raw a where q: "q = (raw, a)" by fastforce
  with Cons.prems(1) have "find_masking_violations (we_re_search env) (mk_text (mask_text (ra_body_text raw)))
      (jget (ra_metadata raw) ''forbidden_patterns'') = []" by (simp add: no_violations_def)
  then have "mask_and_chunk env run_id ev q = act_of (chunks_of (we_host env) ev q)"
    by (simp add: mask_and_chunk_def q chunks_of_def Let_def)
  with Cons show ?case by (auto simp: rbind_Inr_iff act_bind_run act_of_def)
qed

lemma first_failing:
  assumes "map fst ps = xs" and "\<not> list_all P xs"
  obtains ok x y rest where "ps = ok @ (x, y) # rest" and "\<not> P x" and "\<forall>q\<in>set ok. P (fst q)"
proof -
  have "\<exists>q\<in>set ps. \<not> P (fst q)" using assms by (auto simp: list_all_iff)
  from split_list_first_prop [OF this] obtain ok q rest where
    "ps = ok @ q # rest" "\<not> P (fst q)" "\<forall>y\<in>set ok. \<not> \<not> P (fst y)" by blast
  then show thesis using that [of ok "fst q" "snd q" rest] by simp
qed

lemma reaches_masking:
  \<comment> \<open>the run up to the masking step\<close>
  assumes "fetch_all (we_host env) (we_fetch env) \<lparr>sc_project_key = p, sc_scenario = scn, sc_limit = 100\<rparr> (wf_adapter s)
      = Some (b, Inr fetch)"
    and "rmap (normalize_raw_artifact (we_host env) (we_parse_iso env) (we_now env ''ingested'')) (fr_artifacts fetch)
      = Inr artifacts"
    and "evidence_map (we_host env) (zip (fr_artifacts fetch) artifacts) = Inr ev" and "fresh_run run_id s"
  obtains s1 s2 s3 s4 r x y ref ref3 where "begin_run env run_id rt p by_user src s = Some (s1, Inr r)"
    and "fetch_stage env run_id p scn s1 = Some (s2, Inr (fetch, ref))"
    and "normalize_stage env run_id fetch ref s2 = Some (s3, Inr (artifacts, ev, ref3))"
    and "begin_step env run_id ''mask_chunk'' ''mask_chunk''
        (jstr_of (\<lambda>ra. sa_artifact_id (snd ra)) (zip (fr_artifacts fetch) artifacts)) None s3 = Some (s4, Inr x)"
    and "opened run_id ''mask_chunk'' ''mask_chunk'' s3 s4" and "fresh_step run_id ''mask_chunk'' s3"
    and "run_of run_id s4 = Some y" and "outside_same s s4"
    and "stage_log run_id s3 = [(''source_fetch'', SS_Succeeded), (''normalize'', SS_Succeeded)]"
proof -
  obtain s1 r where s1: "begin_run env run_id rt p by_user src s = Some (s1, Inr r)" "run_of run_id s1 = Some r"
    "steps_of s1 = steps_of s" "outside_same s s1" "wf_adapter s1 = wf_adapter s"
    using begin_run_runs by blast
  have fresh: "fresh_step run_id n s1" for n
    using fresh_run_step [OF assms(4), of n] s1(3) by (simp add: fresh_step_def)
  obtain s2 ref where s2: "fetch_stage env run_id p scn s1 = Some (s2, Inr (fetch, ref))"
    and d2: "stage_done run_id ''source_fetch'' ''source_fetch'' id s1 s2"
    using fetch_stage_runs [OF fresh] assms(1) s1(5) by metis
  note n2 = stage_done_next [OF d2]
  obtain s3 ref3 where s3: "normalize_stage env run_id fetch ref s2 = Some (s3, Inr (artifacts, ev, ref3))"
    and d3: "stage_done run_id ''normalize'' ''normalize'' (\<lambda>r. r\<lparr>rn_input_snapshot_ids := fromkeys (map sa_artifact_id artifacts)\<rparr>) s2 s3"
    using normalize_stage_runs [OF _ _ assms(2,3), of run_id s2 r ref] n2 fresh s1(2) by (auto simp: option.map_id)
  note n3 = stage_done_next [OF d3]
  have f3: "fresh_step run_id ''mask_chunk'' s3" using n2(1) n3(1) fresh by simp
  obtain s4 st where s4: "begin_step env run_id ''mask_chunk'' ''mask_chunk'' (jstr_of (\<lambda>ra. sa_artifact_id (snd ra)) (zip (fr_artifacts fetch) artifacts)) None s3
      = Some (s4, Inr st)" "opened run_id ''mask_chunk'' ''mask_chunk'' s3 s4" "run_of run_id s4 = run_of run_id s3"
    using begin_step_opens [OF f3] by blast
  obtain r4 where "run_of run_id s4 = Some r4" using s4(3) n3(3) n2(3) s1(2) by simp
  moreover have "outside_same s s4"
    using s1(4) act_keepsD [OF quiet_stages(1) s2] act_keepsD [OF quiet_stages(2) s3] act_keepsD [OF quiet_steps(3) s4(1)]
    by (simp add: outside_same_def)
  moreover have "stage_log run_id s3 = [(''source_fetch'', SS_Succeeded), (''normalize'', SS_Succeeded)]"
    using n3(2) n2(2) log_of_steps [OF s1(3)] fresh_run_log [OF assms(4)] by simp
  ultimately show thesis using that s1(1) s2 s3 s4(1,2) f3 by blast
qed

text \<open>
  Property C14. A masking violation stops the run before anything leaves it: when some fetched artifact
  still holds forbidden text after masking, the run raises the policy error with the labels found,
  stands as failed under the policy's code, its last step is the failed masking step, and the graph,
  the vector store and the approvals are as before.
\<close>

theorem masking_violation_contained:
  assumes "fetch_all (we_host env) (we_fetch env) \<lparr>sc_project_key = p, sc_scenario = scn, sc_limit = 100\<rparr> (wf_adapter s)
      = Some (b, Inr fetch)"
    and "rmap (normalize_raw_artifact (we_host env) (we_parse_iso env) (we_now env ''ingested'')) (fr_artifacts fetch)
      = Inr artifacts"
    and "evidence_map (we_host env) (zip (fr_artifacts fetch) artifacts) = Inr ev"
    and "\<not> list_all (no_violations env) (fr_artifacts fetch)" and "fresh_run run_id s"
  shows "\<exists>s' a ls ref. run_analysis env rt run_id p scn by_user src s
       = Some (s', Inl (MaskingPolicyViolationError (sa_artifact_id a) ls (Some ref)))
    \<and> a \<in> set artifacts \<and> ls \<noteq> []
    \<and> wf_graph s' = wf_graph s \<and> wf_vector s' = wf_vector s \<and> wf_approvals s' = wf_approvals s
    \<and> (\<exists>r. run_of run_id s' = Some r \<and> rn_status r = RS_Failed \<and> rn_failure_code r = Some ''MASKING_POLICY_VIOLATION'')
    \<and> stage_log run_id s' = [(''source_fetch'', SS_Succeeded), (''normalize'', SS_Succeeded), (''mask_chunk'', SS_Failed)]"
proof -
  let ?pairs = "zip (fr_artifacts fetch) artifacts"
  have "map fst ?pairs = fr_artifacts fetch" using rmap_length [OF assms(2)] by simp
  then obtain ok raw a rest where sp: "?pairs = ok @ (raw, a) # rest" "\<not> no_violations env raw"
    "\<forall>ra\<in>set ok. no_violations env (fst ra)"
    using assms(4) by (rule first_failing)
  define vs where "vs = find_masking_violations (we_re_search env) (mk_text (mask_text (ra_body_text raw)))
     (jget (ra_metadata raw) ''forbidden_patterns'')"
  have vs: "vs \<noteq> []" using sp(2) unfolding vs_def no_violations_def by simp
  then have body: "mask_and_chunk env run_id ev (raw, a) = masking_violation env run_id a raw vs"
    by (simp add: mask_and_chunk_def Let_def flip: vs_def)
  obtain css where css: "rmap (chunks_of (we_host env) ev) ok = Inr css"
    using chunks_total [OF assms(3), of ok] sp(1) by auto
  obtain s1 s2 s3 s4 r x y ref ref3 where run4: "begin_run env run_id rt p by_user src s = Some (s1, Inr r)"
    "fetch_stage env run_id p scn s1 = Some (s2, Inr (fetch, ref))"
    "normalize_stage env run_id fetch ref s2 = Some (s3, Inr (artifacts, ev, ref3))"
    "begin_step env run_id ''mask_chunk'' ''mask_chunk'' (jstr_of (\<lambda>ra. sa_artifact_id (snd ra)) ?pairs) None s3 = Some (s4, Inr x)"
    and s4: "opened run_id ''mask_chunk'' ''mask_chunk'' s3 s4" "fresh_step run_id ''mask_chunk'' s3" "run_of run_id s4 = Some y"
      "outside_same s s4" "stage_log run_id s3 = [(''source_fetch'', SS_Succeeded), (''normalize'', SS_Succeeded)]"
    by (rule reaches_masking [OF assms(1-3,5)])
  obtain s5 ref5 where s5: "mask_and_chunk env run_id ev (raw, a) s4
      = Some (s5, Inl (MaskingPolicyViolationError (sa_artifact_id a) vs (Some ref5)))"
    "\<exists>r'. run_of run_id s5 = Some r' \<and> rn_status r' = RS_Failed \<and> rn_failure_code r' = Some ''MASKING_POLICY_VIOLATION''"
    "stage_log run_id s5 = stage_log run_id s3 @ [(''mask_chunk'', SS_Failed)]"
    unfolding body using masking_violation_runs [OF s4(1-3)] by blast
  have "act_each (mask_and_chunk env run_id ev) ?pairs s4 = Some (s5, Inl (MaskingPolicyViolationError (sa_artifact_id a) vs (Some ref5)))"
    unfolding sp(1) by (rule mask_each_violates [OF sp(3) css s5(1)])
  then have run: "run_analysis env rt run_id p scn by_user src s
      = Some (s5, Inl (MaskingPolicyViolationError (sa_artifact_id a) vs (Some ref5)))"
    by (simp add: run_analysis_def run_ingestion_stages_def mask_stage_def act_bind_run run4)
  have "outside_same s s5"
    using s4(4) act_keepsD [OF quiet_mask s5(1)] by (simp add: outside_same_def)
  moreover have "a \<in> set artifacts" using sp(1) set_zip_rightD [of raw a] by (metis in_set_conv_decomp)
  ultimately show ?thesis using run vs s4(5) s5(2,3) by (auto simp: outside_same_def)
qed

end
