(* ===== verification/Workflow_Instances.thy ===== *)
theory Workflow_Instances
  imports Completion
begin

text \<open>
  A small project (a design linked to a requirement) and one with a forbidden pattern, at which the
  properties of workflow runs are instantiated.
\<close>

definition demo_env :: "raw_source_artifact list \<Rightarrow> (unit, memory_graph, vector_store) wf_env" where
  "demo_env raws = \<lparr>we_cwd = [''srv''], we_host = demo_host, we_now = (\<lambda>n. 0), we_parse_iso = (\<lambda>s. Inr 0),
     we_re_search = (\<lambda>p t. Some True), we_source_type = Dummy, we_fetch = paged demo_host raws [] False,
     we_stage_nodes = (\<lambda>ns g. (stage_baseline_nodes ns g, Inr ())),
     we_upsert = (\<lambda>cs v. (vector_upsert cs v, Inr ())), we_search = (\<lambda>q p n v. Inr (vector_search q p n v))\<rparr>"

definition demo_state :: "(unit, memory_graph, vector_store) wf_state" where
  "demo_state = \<lparr>wf_adapter = (), wf_traces = empty_traces, wf_store = \<lparr>st_root = ''data'', st_files = []\<rparr>,
     wf_graph = empty_graph, wf_vector = [], wf_approvals = empty_service\<rparr>"

definition demo_fetch :: "raw_source_artifact list \<Rightarrow> source_fetch_result" where
  "demo_fetch raws = complete_fetch demo_host ((page_fetch_result demo_host raws None 100 [] False)\<lparr>fr_page_count := 1\<rparr>)"

definition demo_pair :: "raw_source_artifact list" where
  "demo_pair = [demo_raw ''A-1'' ''design'' [''B-1''], demo_raw ''B-1'' ''shall'' []]"

definition demo_parts :: analysis_parts where
  "demo_parts = (case analysis_parts_of (demo_env demo_pair) (demo_fetch demo_pair) of Inr x \<Rightarrow> x)"

lemma demo_fetched:
  assumes "length raws \<le> 100"
  shows "fetch_all (we_host (demo_env raws)) (we_fetch (demo_env raws))
     \<lparr>sc_project_key = ''P'', sc_scenario = ''s'', sc_limit = 100\<rparr> (wf_adapter demo_state) = Some ((), Inr (demo_fetch raws))"
proof -
  have page: "fr_next_cursor (page_fetch_result demo_host raws None 100 [] False) = None"
    using assms by (subst page_next(1) [OF refl]) (simp add: page_at(2) [of 0])
  have finished: "fetch_pages fetch scope None acc w = Some (w, Inr acc)" for fetch :: "unit fetcher" and scope acc w
    by (subst fetch_pages.simps) simp
  show ?thesis by (simp add: demo_env_def demo_fetch_def fetch_all_def paged_def page finished)
qed

lemma demo_fresh: "fresh_run r demo_state"
  by (simp add: fresh_run_def demo_state_def steps_of_def empty_traces_def)

lemma demo_values:
  "case analysis_parts_of (demo_env demo_pair) (demo_fetch demo_pair) of
     Inl e \<Rightarrow> False
   | Inr x \<Rightarrow> length (an_edges x) = 1 \<and> dvals (vector_upsert (an_chunks x) []) \<noteq> []"
  by code_simp

lemma demo_analysis_parts:
  "analysis_parts_of (demo_env demo_pair) (demo_fetch demo_pair) = Inr demo_parts"
  "length (an_edges demo_parts) = 1" "dvals (vector_upsert (an_chunks demo_parts) []) \<noteq> []"
  using demo_values by (auto simp: demo_parts_def split: sum.splits)

lemma demo_clean: "list_all (no_violations (demo_env demo_pair)) (fr_artifacts (demo_fetch demo_pair))"
  by code_simp

lemma demo_backends: "backends_total (demo_env raws)"
  by (simp add: backends_total_def demo_env_def)

lemma demo_run_completes:
  obtains s' res where "run_analysis (demo_env demo_pair) RT_Analysis ''r1'' ''P'' ''s'' ''u'' TS_Manual demo_state = Some (s', Inr res)"
    and "wf_vector s' = vector_upsert (an_chunks demo_parts) []" and "ar_approvals res \<noteq> []"
proof -
  obtain sv approvals where st: "stage_edges (we_host (demo_env demo_pair)) (we_now (demo_env demo_pair) ''stage_approval'') ''P'' ''r1''
      (step_id_of ''r1'' ''stage_approval'') (an_edges demo_parts) (wf_approvals demo_state) = (sv, approvals)" by fastforce
  then have "length approvals = 1" using stage_edges_approvals(1) demo_analysis_parts(2) by (metis snd_conv)
  moreover have "length demo_pair \<le> 100" by (simp add: demo_pair_def)
  moreover have "fst (we_upsert (demo_env demo_pair) (an_chunks demo_parts) (wf_vector demo_state)) = vector_upsert (an_chunks demo_parts) []"
    by (simp add: demo_env_def demo_state_def)
  ultimately show thesis
    using run_completes [OF demo_fetched demo_clean demo_analysis_parts(1) demo_backends demo_fresh st] that
    by (metis length_0_conv one_neq_zero)
qed


lemma analysis_only_proposes_witness:
  "\<exists>s' res. run_analysis (demo_env demo_pair) RT_Analysis ''r1'' ''P'' ''s'' ''u'' TS_Manual demo_state = Some (s', Inr res)
     \<and> ar_approvals res \<noteq> [] \<and> approved_edges (wf_graph s') = []"
proof -
  obtain s' res where r: "run_analysis (demo_env demo_pair) RT_Analysis ''r1'' ''P'' ''s'' ''u'' TS_Manual demo_state = Some (s', Inr res)"
    "ar_approvals res \<noteq> []" by (rule demo_run_completes)
  have "approval_run demo_schema (we_host (demo_env demo_pair)) [] (wf_approvals demo_state, wf_graph demo_state)"
    unfolding demo_state_def wf_state.simps by (rule run_empty)
  from analysis_only_proposes [OF r(1) _ this]
  have "approved_edges (wf_graph s') = approved_edges (wf_graph demo_state)" by (simp add: demo_env_def)
  with r show ?thesis by (auto simp: demo_state_def empty_graph_def approved_edges_def)
qed

lemma only_masked_text_indexed_witness:
  "\<exists>s' res c. run_analysis (demo_env demo_pair) RT_Analysis ''r1'' ''P'' ''s'' ''u'' TS_Manual demo_state = Some (s', Inr res)
     \<and> c \<in> set (dvals (wf_vector s')) \<and> \<not> rex_search email_rex (ck_text c)"
proof -
  obtain s' res where r: "run_analysis (demo_env demo_pair) RT_Analysis ''r1'' ''P'' ''s'' ''u'' TS_Manual demo_state = Some (s', Inr res)"
    "wf_vector s' = vector_upsert (an_chunks demo_parts) []" by (rule demo_run_completes)
  obtain c where c: "c \<in> set (dvals (wf_vector s'))"
    using demo_analysis_parts(3) hd_in_set unfolding r(2) by blast
  have "c \<notin> set (dvals (wf_vector demo_state))" by (simp add: demo_state_def)
  from only_masked_text_indexed [OF r(1) _ c this] r(1) c show ?thesis by (auto simp: demo_env_def)
qed

definition demo_forbidden :: "raw_source_artifact list" where
  "demo_forbidden = [(demo_raw ''A-1'' ''x'' [])\<lparr>ra_metadata := [(''forbidden_patterns'', JList [JStr ''x''])]\<rparr>]"

lemma masking_violation_contained_witness:
  "\<exists>s' e. run_analysis (demo_env demo_forbidden) RT_Analysis ''r1'' ''P'' ''s'' ''u'' TS_Manual demo_state = Some (s', Inl e)
     \<and> wf_vector s' = []"
proof -
  let ?env = "demo_env demo_forbidden" and ?f = "demo_fetch demo_forbidden"
  obtain artifacts where a: "rmap (normalize_raw_artifact (we_host ?env) (we_parse_iso ?env) (we_now ?env ''ingested'')) (fr_artifacts ?f)
      = Inr artifacts"
  proof -
    have "is_ok (rmap (normalize_raw_artifact (we_host ?env) (we_parse_iso ?env) (we_now ?env ''ingested'')) (fr_artifacts ?f))"
      by code_simp
    then show thesis using that by (auto simp: is_ok_def split: sum.splits)
  qed
  have "list_all (\<lambda>raw. ra_body_text raw \<noteq> []) (fr_artifacts ?f)" by code_simp
  then have "\<exists>e. build_artifact_evidence h i raw = Inr e" if "raw \<in> set (fr_artifacts ?f)" for h i raw
    using build_artifact_evidence_body that unfolding list_all_iff by blast
  then have "\<exists>es. rmap (\<lambda>ra. build_artifact_evidence (we_host ?env) (sa_artifact_id (snd ra)) (fst ra)) (zip (fr_artifacts ?f) artifacts) = Inr es"
    by (intro rmap_total) (metis prod.collapse set_zip_leftD)
  then have "evidence_map (we_host ?env) (zip (fr_artifacts ?f) artifacts) \<noteq> Inl e" for e
    by (auto simp: evidence_map_def)
  then obtain ev where ev: "evidence_map (we_host ?env) (zip (fr_artifacts ?f) artifacts) = Inr ev"
    by (metis obj_sumE)
  have v: "\<not> list_all (no_violations ?env) (fr_artifacts ?f)" by code_simp
  have "length demo_forbidden \<le> 100" by (simp add: demo_forbidden_def)
  from masking_violation_contained [OF demo_fetched [OF this] a ev v demo_fresh [of "''r1''"], where rt = RT_Analysis and by_user = "''u''" and src = TS_Manual]
  obtain s' e where "run_analysis ?env RT_Analysis ''r1'' ''P'' ''s'' ''u'' TS_Manual demo_state = Some (s', Inl e)"
    "wf_vector s' = wf_vector demo_state" by blast
  then show ?thesis by (auto simp: demo_state_def)
qed

end
