(* ===== verification/Stores.thy ===== *)
theory Stores
  imports Debug Samples Artifacts
begin

text \<open>
  \<open>storage/state_store.py\<close>, \<open>storage/sqlite_store.py\<close> and the entity operations of
  \<open>storage/postgres_store.py\<close>. A table is its rows by primary key; \<open>INSERT ... ON CONFLICT DO UPDATE\<close>
  replaces a row in place and keeps its creation time. A JSON column reads back as it was written,
  with the keys of every object sorted (\<open>sort_keys=True\<close> in SQLite; the order of \<open>JSONB\<close> is the server's
  own, and keys of a Python dictionary compare in any order). \<open>ORDER BY\<close> compares texts by code point,
  SQLite's default; a PostgreSQL database in another collation lists the same rows in its own order. The table is polymorphic in what stands in
  the JSON column. Connections, transactions that fail for reasons outside the statement, and the
  column constraints of the migrations beyond the primary keys are not modelled.

  The locale \<open>state_store\<close> is the contract \<open>StateStore\<close> as the runtime uses it.
\<close>

section \<open>The table of serialised entities\<close>

record 'p state_row =
  so_project_key :: "string option"
  so_payload :: 'p
  so_payload_hash :: string
  so_created_at :: time
  so_updated_at :: time

type_synonym 'p state_table = "(string \<times> string, 'p state_row) dict"

definition put_row :: "time \<Rightarrow> string \<Rightarrow> string \<Rightarrow> string option \<Rightarrow> 'p \<Rightarrow> string \<Rightarrow> 'p state_table \<Rightarrow> 'p state_table" where
  "put_row now c i pk payload payload_hash tb =
     dset (c, i) \<lparr>so_project_key = pk, so_payload = payload, so_payload_hash = payload_hash,
       so_created_at = (case dget tb (c, i) of None \<Rightarrow> now | Some r \<Rightarrow> so_created_at r), so_updated_at = now\<rparr> tb"

definition find_row :: "string \<Rightarrow> string \<Rightarrow> 'p state_table \<Rightarrow> 'p option" where
  "find_row c i tb = map_option so_payload (dget tb (c, i))"

definition in_project :: "string option \<Rightarrow> 'p state_row \<Rightarrow> bool" where
  "in_project pk r = (case pk of None \<Rightarrow> True | Some p \<Rightarrow> so_project_key r = Some p)"

definition select_rows :: "string \<Rightarrow> string option \<Rightarrow> 'p state_table \<Rightarrow> (string \<times> 'p) list" where
  "select_rows c pk tb = List.map_filter
     (\<lambda>(k, r). if fst k = c \<and> in_project pk r then Some (snd k, so_payload r) else None) tb"

definition list_rows :: "string \<Rightarrow> string option \<Rightarrow> 'p state_table \<Rightarrow> 'p list" where
  "list_rows c pk tb = map snd (sort_key fst (select_rows c pk tb))"

definition delete_row :: "string \<Rightarrow> string \<Rightarrow> 'p state_table \<Rightarrow> 'p state_table" where
  "delete_row c i tb = dpop (c, i) tb"

definition count_rows :: "'p state_table \<Rightarrow> (string \<times> nat) list" where
  \<comment> \<open>\<open>GROUP BY collection ORDER BY collection\<close>\<close>
  "count_rows tb = map (\<lambda>c. (c, length (filter (\<lambda>kr. fst (fst kr) = c) tb))) (sort (fromkeys (map (fst \<circ> fst) tb)))"

section \<open>SQLite\<close>

text \<open>\<open>json.loads(json.dumps(v, sort_keys=True))\<close> is \<open>sorted_json v\<close>, as for the stage artifacts.\<close>

definition sqlite_upsert :: "host \<Rightarrow> time \<Rightarrow> string \<Rightarrow> string \<Rightarrow> json \<Rightarrow> string option \<Rightarrow> json state_table \<Rightarrow>
    json state_table" where
  "sqlite_upsert h now c i payload pk tb = put_row now c i pk (sorted_json payload) (stable_hash h payload) tb"

definition payload_object :: "json \<Rightarrow> jobj result" where
  "payload_object v = (case v of JObj kvs \<Rightarrow> Inr kvs | _ \<Rightarrow> Inl (PyTypeError ''stored entity payload must be an object''))"

definition sqlite_get :: "string \<Rightarrow> string \<Rightarrow> json state_table \<Rightarrow> jobj option result" where
  "sqlite_get c i tb = (case find_row c i tb of None \<Rightarrow> Inr None | Some v \<Rightarrow> rbind (payload_object v) (\<lambda>d. Inr (Some d)))"

definition sqlite_list :: "string \<Rightarrow> string option \<Rightarrow> json state_table \<Rightarrow> json list" where
  \<comment> \<open>unlike \<open>get\<close>, the rows are not checked to be objects\<close>
  "sqlite_list c pk tb = list_rows c pk tb"

definition sqlite_delete :: "string \<Rightarrow> string \<Rightarrow> json state_table \<Rightarrow> json state_table" where
  "sqlite_delete = delete_row"

definition sqlite_counts :: "json state_table \<Rightarrow> (string \<times> nat) list" where
  "sqlite_counts = count_rows"

section \<open>PostgreSQL\<close>

text \<open>
  Collections with a typed table are written twice, to \<open>state_entities\<close> and to their table, and read from
  the table: by the id column, which comes from the payload. A typed column is a text or a number; an
  id that is no string is refused, and the transaction of the two writes with it.
\<close>

record typed_collection_spec =
  ts_table :: string
  ts_id_column :: string
  ts_columns :: "(string \<times> string) list"

definition pipeline_collections :: "(string, typed_collection_spec) dict" where
  \<comment> \<open>the first half of \<open>TYPED_COLLECTIONS\<close>\<close>
  "pipeline_collections = [
     (''agent_runs'', \<lparr>ts_table = ''agent_runs'', ts_id_column = ''run_id'', ts_columns = [
       (''run_id'', ''run_id''), (''project_key'', ''project_key''), (''run_type'', ''run_type''),
       (''status'', ''status''), (''triggered_by'', ''triggered_by''),
       (''trigger_source'', ''trigger_source''), (''model_profile_id'', ''model_profile_id''),
       (''started_at'', ''started_at''), (''completed_at'', ''completed_at''),
       (''schema_version'', ''schema_version'')]\<rparr>),
     (''agent_step_traces'', \<lparr>ts_table = ''agent_step_traces'', ts_id_column = ''step_id'', ts_columns = [
       (''step_id'', ''step_id''), (''run_id'', ''run_id''), (''stage_name'', ''stage_name''),
       (''status'', ''status''), (''output_ref'', ''output_ref''), (''started_at'', ''started_at''),
       (''completed_at'', ''completed_at''), (''retry_count'', ''retry_count''),
       (''schema_version'', ''schema_version'')]\<rparr>),
     (''source_artifacts'', \<lparr>ts_table = ''source_artifacts'', ts_id_column = ''artifact_id'', ts_columns = [
       (''artifact_id'', ''artifact_id''), (''source_type'', ''source_type''),
       (''external_id'', ''external_id''), (''project_key'', ''project_key''), (''title'', ''title''),
       (''content_hash'', ''content_hash''), (''data_classification'', ''data_classification''),
       (''updated_at'', ''updated_at''), (''ingested_at'', ''ingested_at''),
       (''schema_version'', ''schema_version'')]\<rparr>),
     (''artifact_chunks'', \<lparr>ts_table = ''artifact_chunks'', ts_id_column = ''chunk_id'', ts_columns = [
       (''chunk_id'', ''chunk_id''), (''artifact_id'', ''artifact_id''),
       (''project_key'', ''project_key''), (''chunk_index'', ''index''),
       (''content_hash'', ''content_hash''), (''schema_version'', ''schema_version'')]\<rparr>),
     (''graph_nodes'', \<lparr>ts_table = ''graph_nodes'', ts_id_column = ''node_id'', ts_columns = [
       (''node_id'', ''node_id''), (''node_type'', ''node_type''), (''name'', ''name''),
       (''project_key'', ''project_key''), (''lifecycle_state'', ''lifecycle_state''),
       (''created_by'', ''created_by''), (''confidence_score'', ''confidence_score''),
       (''schema_version'', ''schema_version'')]\<rparr>),
     (''candidate_edges'', \<lparr>ts_table = ''candidate_edges'', ts_id_column = ''edge_id'', ts_columns = [
       (''edge_id'', ''edge_id''), (''source_node_id'', ''source_node_id''),
       (''target_node_id'', ''target_node_id''), (''relation'', ''relation''),
       (''approval_status'', ''approval_status''), (''confidence_score'', ''confidence_score''),
       (''schema_version'', ''schema_version'')]\<rparr>),
     (''graph_edges'', \<lparr>ts_table = ''graph_edges'', ts_id_column = ''edge_id'', ts_columns = [
       (''edge_id'', ''edge_id''), (''source_node_id'', ''source_node_id''),
       (''target_node_id'', ''target_node_id''), (''relation'', ''relation''),
       (''approval_status'', ''approval_status''), (''approved_by'', ''approved_by''),
       (''approved_at'', ''approved_at''), (''schema_version'', ''schema_version'')]\<rparr>),
     (''graph_deltas'', \<lparr>ts_table = ''graph_deltas'', ts_id_column = ''delta_id'', ts_columns = [
       (''delta_id'', ''delta_id''), (''project_key'', ''project_key''),
       (''created_from_run_id'', ''created_from_run_id''),
       (''created_from_step_id'', ''created_from_step_id''), (''schema_version'', ''schema_version'')]\<rparr>),
     (''approval_items'', \<lparr>ts_table = ''approval_items'', ts_id_column = ''approval_id'', ts_columns = [
       (''approval_id'', ''approval_id''), (''project_key'', ''project_key''),
       (''proposal_type'', ''proposal_type''), (''proposal_ref'', ''proposal_ref''),
       (''graph_delta_ref'', ''graph_delta_ref''), (''status'', ''status''),
       (''risk_level'', ''risk_level''), (''owner_role'', ''owner_role''),
       (''created_from_run_id'', ''created_from_run_id''), (''updated_at'', ''updated_at''),
       (''schema_version'', ''schema_version'')]\<rparr>),
     (''findings'', \<lparr>ts_table = ''findings'', ts_id_column = ''finding_id'', ts_columns = [
       (''finding_id'', ''finding_id''), (''finding_type'', ''finding_type''),
       (''severity'', ''severity''), (''detection_method'', ''detection_method''),
       (''approval_status'', ''approval_status''), (''schema_version'', ''schema_version'')]\<rparr>)]"

definition operation_collections :: "(string, typed_collection_spec) dict" where
  \<comment> \<open>the second half\<close>
  "operation_collections = [
     (''feedback_events'', \<lparr>ts_table = ''feedback_events'', ts_id_column = ''feedback_id'', ts_columns = [
       (''feedback_id'', ''feedback_id''), (''target_type'', ''target_type''),
       (''target_id'', ''target_id''), (''action'', ''action''), (''user_id'', ''user_id''),
       (''user_role'', ''user_role''), (''reason_code'', ''reason_code''),
       (''created_at'', ''created_at''), (''schema_version'', ''schema_version'')]\<rparr>),
     (''audit_events'', \<lparr>ts_table = ''audit_events'', ts_id_column = ''audit_id'', ts_columns = [
       (''audit_id'', ''audit_id''), (''action'', ''action''), (''actor_id'', ''actor_id''),
       (''actor_role'', ''actor_role''), (''project_key'', ''project_key''),
       (''target_type'', ''target_type''), (''target_id'', ''target_id''), (''outcome'', ''outcome''),
       (''reason_code'', ''reason_code''), (''created_at'', ''created_at''),
       (''schema_version'', ''schema_version'')]\<rparr>),
     (''idempotency_results'', \<lparr>ts_table = ''idempotency_results'', ts_id_column = ''record_id'', ts_columns = [
       (''record_id'', ''record_id''), (''idempotency_key'', ''idempotency_key''),
       (''command'', ''command''), (''project_key'', ''project_key''), (''request_hash'', ''request_hash'')]\<rparr>),
     (''registry_activations'', \<lparr>ts_table = ''registry_activations'', ts_id_column = ''activation_id'', ts_columns = [
       (''activation_id'', ''activation_id''), (''activation_type'', ''activation_type''),
       (''item_id'', ''item_id''), (''status'', ''status''), (''activated_by'', ''activated_by'')]\<rparr>),
     (''dashboard_preferences'', \<lparr>ts_table = ''dashboard_preferences'', ts_id_column = ''preference_id'', ts_columns = [
       (''preference_id'', ''preference_id''), (''project_key'', ''project_key''),
       (''user_id'', ''user_id''), (''updated_at'', ''updated_at''),
       (''schema_version'', ''schema_version'')]\<rparr>),
     (''dashboard_assignments'', \<lparr>ts_table = ''dashboard_assignments'', ts_id_column = ''assignment_id'', ts_columns = [
       (''assignment_id'', ''assignment_id''), (''project_key'', ''project_key''),
       (''queue_id'', ''queue_id''), (''assigned_to'', ''assigned_to''),
       (''assigned_by'', ''assigned_by''), (''updated_at'', ''updated_at''),
       (''schema_version'', ''schema_version'')]\<rparr>),
     (''schedule_configs'', \<lparr>ts_table = ''schedule_configs'', ts_id_column = ''config_id'', ts_columns = [
       (''config_id'', ''config_id''), (''project_key'', ''project_key''), (''enabled'', ''enabled''),
       (''interval_seconds'', ''interval_seconds''), (''scenario'', ''scenario''),
       (''run_id_prefix'', ''run_id_prefix''), (''lease_name'', ''lease_name''),
       (''lease_ttl_seconds'', ''lease_ttl_seconds''), (''schema_version'', ''schema_version'')]\<rparr>),
     (''source_sync_cursors'', \<lparr>ts_table = ''source_sync_cursors'', ts_id_column = ''cursor_id'', ts_columns = [
       (''cursor_id'', ''cursor_id''), (''source_type'', ''source_type''),
       (''project_key'', ''project_key''), (''scenario'', ''scenario''), (''run_id'', ''run_id''),
       (''stage_name'', ''stage_name''), (''artifact_count'', ''artifact_count''),
       (''page_count'', ''page_count''), (''content_hash'', ''content_hash''),
       (''partial_failure'', ''partial_failure''), (''updated_at'', ''updated_at''),
       (''schema_version'', ''schema_version'')]\<rparr>),
     (''llm_call_traces'', \<lparr>ts_table = ''llm_call_traces'', ts_id_column = ''llm_call_id'', ts_columns = [
       (''llm_call_id'', ''llm_call_id''), (''run_id'', ''run_id''), (''step_id'', ''step_id''),
       (''model_profile_id'', ''model_profile_id''), (''prompt_version_id'', ''prompt_version_id''),
       (''request_hash'', ''request_hash''), (''response_hash'', ''response_hash''),
       (''validation_status'', ''validation_status''), (''retry_count'', ''retry_count''),
       (''latency_ms'', ''latency_ms''), (''schema_version'', ''schema_version'')]\<rparr>),
     (''replay_results'', \<lparr>ts_table = ''replay_results'', ts_id_column = ''replay_run_id'', ts_columns = [
       (''replay_run_id'', ''replay_run_id''), (''source_run_id'', ''source_run_id''),
       (''replay_mode'', ''replay_mode'')]\<rparr>),
     (''improvement_decisions'', \<lparr>ts_table = ''improvement_decisions'', ts_id_column = ''candidate_id'', ts_columns = [
       (''candidate_id'', ''candidate_id''), (''candidate_type'', ''candidate_type''),
       (''status'', ''status''), (''decision_type'', ''decision_type''),
       (''previous_status'', ''previous_status''), (''promotion_status'', ''promotion_status''),
       (''eval_run_id'', ''eval_run_id''), (''reviewed_by'', ''reviewed_by''),
       (''created_at'', ''created_at''), (''schema_version'', ''schema_version'')]\<rparr>)]"

definition typed_collections :: "(string, typed_collection_spec) dict" where
  "typed_collections = pipeline_collections @ operation_collections"

record typed_row =
  ty_columns :: "(string, json) dict"
  ty_payload :: json

record postgres_state =
  pg_entities :: "json state_table"
  pg_typed :: "(string \<times> string, typed_row) dict"

definition empty_postgres :: postgres_state where
  "empty_postgres = \<lparr>pg_entities = [], pg_typed = []\<rparr>"

definition spec_has_payload_key :: "typed_collection_spec \<Rightarrow> string \<Rightarrow> bool" where
  "spec_has_payload_key spec k = list_ex (\<lambda>cp. snd cp = k) (ts_columns spec)"

definition typed_values :: "typed_collection_spec \<Rightarrow> jobj \<Rightarrow> (string, json) dict" where
  "typed_values spec payload = map (\<lambda>cp. (fst cp, jget payload (snd cp))) (ts_columns spec)"

definition upsert_typed_entity :: "string \<Rightarrow> json \<Rightarrow> postgres_state \<Rightarrow> postgres_state result" where
  "upsert_typed_entity c payload db =
     (case payload of
        JObj kvs \<Rightarrow>
          (case dget typed_collections c of
             None \<Rightarrow> Inr db
           | Some spec \<Rightarrow>
               (case jget (typed_values spec kvs) (ts_id_column spec) of
                  JStr i \<Rightarrow> Inr (db\<lparr>pg_typed := dset (ts_table spec, i)
                    \<lparr>ty_columns = typed_values spec kvs, ty_payload = sorted_json payload\<rparr> (pg_typed db)\<rparr>)
                | _ \<Rightarrow> Inl (OtherException ''IntegrityError'')))
      | _ \<Rightarrow> Inr db)"

definition postgres_upsert :: "host \<Rightarrow> time \<Rightarrow> string \<Rightarrow> string \<Rightarrow> json \<Rightarrow> string option \<Rightarrow> postgres_state \<Rightarrow>
    postgres_state \<times> unit result" where
  \<comment> \<open>the connection block commits at its end and rolls back on an exception\<close>
  "postgres_upsert h now c i payload pk db =
     (case upsert_typed_entity c payload
         (db\<lparr>pg_entities := put_row now c i pk (sorted_json payload) (stable_hash h payload) (pg_entities db)\<rparr>) of
        Inl e \<Rightarrow> (db, Inl e)
      | Inr db' \<Rightarrow> (db', Inr ()))"

definition get_typed :: "typed_collection_spec \<Rightarrow> string \<Rightarrow> postgres_state \<Rightarrow> jobj option result" where
  "get_typed spec i db = (case dget (pg_typed db) (ts_table spec, i) of
     None \<Rightarrow> Inr None | Some r \<Rightarrow> rbind (payload_object (ty_payload r)) (\<lambda>d. Inr (Some d)))"

definition postgres_get :: "string \<Rightarrow> string \<Rightarrow> postgres_state \<Rightarrow> jobj option result" where
  "postgres_get c i db =
     (case dget typed_collections c of
        Some spec \<Rightarrow> get_typed spec i db
      | None \<Rightarrow> (case find_row c i (pg_entities db) of
          None \<Rightarrow> Inr None | Some v \<Rightarrow> rbind (payload_object v) (\<lambda>d. Inr (Some d))))"

definition select_typed :: "typed_collection_spec \<Rightarrow> string option \<Rightarrow> postgres_state \<Rightarrow> (string \<times> json) list" where
  "select_typed spec pk db = List.map_filter
     (\<lambda>(k, r). if fst k = ts_table spec
          \<and> (case pk of None \<Rightarrow> True | Some p \<Rightarrow> jget (ty_columns r) ''project_key'' = JStr p)
        then Some (snd k, ty_payload r) else None) (pg_typed db)"

definition list_typed :: "typed_collection_spec \<Rightarrow> string option \<Rightarrow> postgres_state \<Rightarrow> jobj list result" where
  "list_typed spec pk db = rmap payload_object (map snd (sort_key fst (select_typed spec pk db)))"

definition postgres_list :: "string \<Rightarrow> string option \<Rightarrow> postgres_state \<Rightarrow> jobj list result" where
  "postgres_list c pk db =
     (case dget typed_collections c of
        Some spec \<Rightarrow>
          if pk = None \<or> spec_has_payload_key spec ''project_key'' then list_typed spec pk db
          else rmap payload_object (list_rows c pk (pg_entities db))
      | None \<Rightarrow> rmap payload_object (list_rows c pk (pg_entities db)))"

definition postgres_delete :: "string \<Rightarrow> string \<Rightarrow> postgres_state \<Rightarrow> postgres_state" where
  "postgres_delete c i db =
     (let db1 = (case dget typed_collections c of None \<Rightarrow> db
         | Some spec \<Rightarrow> db\<lparr>pg_typed := dpop (ts_table spec, i) (pg_typed db)\<rparr>)
      in db1\<lparr>pg_entities := delete_row c i (pg_entities db1)\<rparr>)"

definition postgres_counts :: "postgres_state \<Rightarrow> (string \<times> nat) list" where
  "postgres_counts db = count_rows (pg_entities db)"


section \<open>The contract\<close>

locale state_store =
  fixes upsert :: "string \<Rightarrow> string \<Rightarrow> string option \<Rightarrow> 'p \<Rightarrow> 's \<Rightarrow> 's"
    and delete :: "string \<Rightarrow> string \<Rightarrow> 's \<Rightarrow> 's"
    and find :: "string \<Rightarrow> string \<Rightarrow> 's \<Rightarrow> 'p option"
    and rows :: "string \<Rightarrow> 's \<Rightarrow> 'p list"
    and ok :: "'s \<Rightarrow> bool"
    and fits :: "string \<Rightarrow> string \<Rightarrow> string option \<Rightarrow> 'p \<Rightarrow> bool"
    and stored :: "'p \<Rightarrow> 'p"
  assumes ok_upsert: "ok s \<Longrightarrow> fits c i pk p \<Longrightarrow> ok (upsert c i pk p s)"
    and ok_delete: "ok s \<Longrightarrow> ok (delete c i s)"
    and find_upsert: "ok s \<Longrightarrow> fits c i pk p \<Longrightarrow>
      find c' i' (upsert c i pk p s) = (if c' = c \<and> i' = i then Some (stored p) else find c' i' s)"
    and find_delete: "ok s \<Longrightarrow> find c' i' (delete c i s) = (if c' = c \<and> i' = i then None else find c' i' s)"
    and rows_find: "ok s \<Longrightarrow> \<exists>ids. sorted ids \<and> distinct ids \<and> set ids = {i. find c i s \<noteq> None}
      \<and> rows c s = map (\<lambda>i. the (find c i s)) ids"
begin

definition put_all :: "string \<Rightarrow> ('a \<Rightarrow> string) \<Rightarrow> ('a \<Rightarrow> string option) \<Rightarrow> ('a \<Rightarrow> 'p) \<Rightarrow> 'a list \<Rightarrow> 's \<Rightarrow> 's" where
  \<comment> \<open>the loops of the runtime: one \<open>upsert\<close> for each of a list of entities\<close>
  "put_all c key pk dump xs s = foldl (\<lambda>s x. upsert c (key x) (pk x) (dump x) s) s xs"

lemma put_all_Cons: "put_all c key pk dump (x # xs) s = put_all c key pk dump xs (upsert c (key x) (pk x) (dump x) s)"
  by (simp add: put_all_def)

lemma put_all_Nil: "put_all c key pk dump [] s = s"
  by (simp add: put_all_def)

lemma ok_put_all: "ok s \<Longrightarrow> (\<And>x. x \<in> set xs \<Longrightarrow> fits c (key x) (pk x) (dump x)) \<Longrightarrow> ok (put_all c key pk dump xs s)"
  by (induction xs arbitrary: s) (simp_all add: put_all_Nil put_all_Cons ok_upsert)

lemma find_put_all_other:
  "ok s \<Longrightarrow> (\<And>x. x \<in> set xs \<Longrightarrow> fits c (key x) (pk x) (dump x)) \<Longrightarrow> c' \<noteq> c \<or> i \<notin> key ` set xs \<Longrightarrow>
     find c' i (put_all c key pk dump xs s) = find c' i s"
  by (induction xs arbitrary: s) (auto simp add: put_all_Nil put_all_Cons ok_upsert find_upsert)

lemma find_put_all:
  \<comment> \<open>entities that agree wherever their keys do\<close>
  assumes "ok s" and "\<And>x. x \<in> set xs \<Longrightarrow> fits c (key x) (pk x) (dump x)"
    and "\<And>x. x \<in> set xs \<Longrightarrow> d (key x) = Some x"
  shows "find c i (put_all c key pk dump xs s) =
    (if i \<in> key ` set xs then map_option (\<lambda>x. stored (dump x)) (d i) else find c i s)"
  using assms
proof (induction xs arbitrary: s)
  case Nil
  then show ?case by (simp add: put_all_Nil)
next
  case (Cons x xs)
  have ok: "ok (upsert c (key x) (pk x) (dump x) s)" using Cons.prems by (simp add: ok_upsert)
  have "find c i (put_all c key pk dump xs (upsert c (key x) (pk x) (dump x) s)) =
    (if i \<in> key ` set xs then map_option (\<lambda>x. stored (dump x)) (d i) else find c i (upsert c (key x) (pk x) (dump x) s))"
    by (rule Cons.IH) (use ok Cons.prems in auto)
  then show ?case
    using Cons.prems by (auto simp: put_all_Cons find_upsert)
qed

end


section \<open>Both stores meet it\<close>

lemma map_filter_fst: "List.map_filter (\<lambda>(k, r). if P k r then Some (f k, g r) else None) xs
    = map (\<lambda>(k, r). (f k, g r)) (filter (\<lambda>(k, r). P k r) xs)"
  by (induction xs) (auto simp: List.map_filter_simps)

lemma select_rows_alt: "select_rows c pk tb =
    map (\<lambda>(k, r). (snd k, so_payload r)) (filter (\<lambda>(k, r). fst k = c \<and> in_project pk r) tb)"
  unfolding select_rows_def by (rule map_filter_fst)

lemma in_select_rows:
  "dict_ok tb \<Longrightarrow> (i, v) \<in> set (select_rows c pk tb) \<longleftrightarrow>
     (\<exists>r. dget tb (c, i) = Some r \<and> in_project pk r \<and> v = so_payload r)"
  by (force simp: select_rows_alt dget_iff)

lemma distinct_fst_part:
  \<comment> \<open>ids are distinct among the keys of one collection\<close>
  assumes "dict_ok tb"
  shows "distinct (map fst (map (\<lambda>(k, r). (snd k, g r)) (filter (\<lambda>(k, r). fst k = c \<and> P r) tb)))"
proof -
  have d: "distinct (map fst (filter (\<lambda>(k, r). fst k = c \<and> P r) tb))"
    using assms by (simp add: dict_ok_def distinct_map_filter)
  have "inj_on snd (set (map fst (filter (\<lambda>(k, r). fst k = c \<and> P r) tb)))"
    by (auto simp: inj_on_def)
  then have d2: "distinct (map snd (map fst (filter (\<lambda>(k, r). fst k = c \<and> P r) tb)))"
    using d by (simp only: distinct_map)
  have "map snd (map fst xs) = map fst (map (\<lambda>(k, r). (snd k, g r)) xs)" for xs
    by (induction xs) auto
  from d2 [unfolded this] show ?thesis .
qed

lemma map_fst_sort: "map fst (sort_key fst xs) = sort (map fst xs)"
  by (rule sym, rule properties_for_sort) simp_all

lemma list_rows_find:
  assumes "dict_ok tb"
  shows "\<exists>ids. sorted ids \<and> distinct ids \<and> set ids = {i. find_row c i tb \<noteq> None}
    \<and> list_rows c None tb = map (\<lambda>i. the (find_row c i tb)) ids"
proof (intro exI conjI)
  let ?sel = "select_rows c None tb"
  let ?ids = "map fst (sort_key fst ?sel)"
  show "sorted ?ids" by simp
  show "distinct ?ids"
    unfolding map_fst_sort distinct_sort unfolding select_rows_alt by (rule distinct_fst_part [OF assms])
  have mem: "(i, v) \<in> set ?sel \<longleftrightarrow> find_row c i tb = Some v" for i v
    using in_select_rows [OF assms] by (force simp: find_row_def in_project_def)
  show "set ?ids = {i. find_row c i tb \<noteq> None}"
    using mem by (force simp: map_fst_sort)
  have "map snd xs = map (\<lambda>i. the (find_row c i tb)) (map fst xs)"
    if "\<forall>iv\<in>set xs. find_row c (fst iv) tb = Some (snd iv)" for xs
    using that by (induction xs) auto
  then show "list_rows c None tb = map (\<lambda>i. the (find_row c i tb)) ?ids"
    using mem by (force simp: list_rows_def)
qed

interpretation table: state_store "\<lambda>c i pk p tb. put_row now c i pk p (hash p) tb" delete_row find_row
    "\<lambda>c. list_rows c None" dict_ok "\<lambda>_ _ _ _. True" "\<lambda>p. p"
proof unfold_locales
  show "\<exists>ids. sorted ids \<and> distinct ids \<and> set ids = {i. find_row c i s \<noteq> None}
      \<and> list_rows c None s = map (\<lambda>i. the (find_row c i s)) ids" if "dict_ok s" for c and s :: "'a state_table"
    using that by (rule list_rows_find)
qed (auto simp: put_row_def delete_row_def find_row_def)


subsection \<open>The two stores answer alike\<close>

definition spec_wf :: "string \<Rightarrow> typed_collection_spec \<Rightarrow> bool" where
  "spec_wf c spec = (ts_table spec = c \<and> (spec_has_payload_key spec ''project_key'' \<longrightarrow>
     dget (ts_columns spec) ''project_key'' = Some ''project_key''))"

lemma typed_collections_wf: "list_all (\<lambda>(c, spec). spec_wf c spec) typed_collections"
  by code_simp

lemma typed_spec_wf: "dget typed_collections c = Some spec \<Longrightarrow> spec_wf c spec"
  using typed_collections_wf by (auto simp: list_all_iff dest!: map_of_SomeD)

lemma jget_typed_values:
  "jget (typed_values spec kvs) col = (case dget (ts_columns spec) col of None \<Rightarrow> JNull | Some k \<Rightarrow> jget kvs k)"
proof -
  have "dget (map (\<lambda>cp. (fst cp, jget kvs (snd cp))) xs) col = map_option (jget kvs) (dget xs col)" for xs
    by (induction xs) auto
  then show ?thesis by (simp add: typed_values_def jget_def [of "map f xs" for f xs] split: option.splits)
qed

datatype store_op = Put time string string jobj "string option" | Delete string string

fun sqlite_step :: "host \<Rightarrow> store_op \<Rightarrow> json state_table \<Rightarrow> json state_table" where
  "sqlite_step h (Put now c i kvs pk) tb = sqlite_upsert h now c i (JObj kvs) pk tb"
| "sqlite_step h (Delete c i) tb = sqlite_delete c i tb"

fun postgres_step :: "host \<Rightarrow> store_op \<Rightarrow> postgres_state \<Rightarrow> postgres_state \<times> unit result" where
  "postgres_step h (Put now c i kvs pk) db = postgres_upsert h now c i (JObj kvs) pk db"
| "postgres_step h (Delete c i) db = (postgres_delete c i db, Inr ())"

fun sqlite_run :: "host \<Rightarrow> store_op list \<Rightarrow> json state_table \<Rightarrow> json state_table" where
  "sqlite_run h [] tb = tb"
| "sqlite_run h (x # xs) tb = sqlite_run h xs (sqlite_step h x tb)"

fun postgres_run :: "host \<Rightarrow> store_op list \<Rightarrow> postgres_state \<Rightarrow> postgres_state \<times> unit result list" where
  "postgres_run h [] db = (db, [])"
| "postgres_run h (x # xs) db = (case postgres_step h x db of (db', r) \<Rightarrow> map_prod id (Cons r) (postgres_run h xs db'))"

definition payload_fits :: "string \<Rightarrow> string \<Rightarrow> string option \<Rightarrow> jobj \<Rightarrow> bool" where
  \<comment> \<open>what a typed table takes from the payload agrees with the arguments beside it\<close>
  "payload_fits c i pk kvs = (case dget typed_collections c of None \<Rightarrow> True
     | Some spec \<Rightarrow> jget (typed_values spec kvs) (ts_id_column spec) = JStr i
         \<and> (spec_has_payload_key spec ''project_key'' \<longrightarrow> jget kvs ''project_key'' = jopt pk))"

fun op_fits :: "store_op \<Rightarrow> bool" where
  "op_fits (Put now c i kvs pk) = payload_fits c i pk kvs"
| "op_fits (Delete c i) = True"

definition row_mirrors :: "typed_collection_spec \<Rightarrow> json state_row option \<Rightarrow> typed_row option \<Rightarrow> bool" where
  "row_mirrors spec r t = (case r of None \<Rightarrow> t = None
     | Some r \<Rightarrow> (\<exists>y. t = Some y \<and> ty_payload y = so_payload r \<and> (\<exists>kvs. so_payload r = JObj kvs)
         \<and> (spec_has_payload_key spec ''project_key'' \<longrightarrow>
             jget (ty_columns y) ''project_key'' = jopt (so_project_key r))))"

definition mirrors :: "json state_table \<Rightarrow> postgres_state \<Rightarrow> bool" where
  "mirrors tb db = (pg_entities db = tb \<and> dict_ok tb \<and> dict_ok (pg_typed db)
     \<and> (\<forall>k r. dget tb k = Some r \<longrightarrow> (\<exists>kvs. so_payload r = JObj kvs))
     \<and> (\<forall>c spec. dget typed_collections c = Some spec \<longrightarrow>
          (\<forall>i. row_mirrors spec (dget tb (c, i)) (dget (pg_typed db) (c, i)))))"

lemma mirrors_empty: "mirrors [] empty_postgres"
  by (simp add: mirrors_def empty_postgres_def row_mirrors_def)

lemma sorted_json_obj: "\<exists>kvs'. sorted_json (JObj kvs) = JObj kvs'"
  by simp

lemma mirrors_put:
  assumes m: "mirrors tb db" and fit: "payload_fits c i pk kvs"
  shows "\<exists>db'. postgres_upsert h now c i (JObj kvs) pk db = (db', Inr ())
    \<and> mirrors (sqlite_upsert h now c i (JObj kvs) pk tb) db'"
proof (cases "dget typed_collections c")
  case None
  with m show ?thesis
    by (auto simp: postgres_upsert_def upsert_typed_entity_def sqlite_upsert_def put_row_def mirrors_def)
next
  case (Some spec)
  from typed_spec_wf [OF Some] have wf: "ts_table spec = c"
    "spec_has_payload_key spec ''project_key'' \<Longrightarrow> dget (ts_columns spec) ''project_key'' = Some ''project_key''"
    by (simp_all add: spec_wf_def)
  from fit Some have fit': "jget (typed_values spec kvs) (ts_id_column spec) = JStr i"
    "spec_has_payload_key spec ''project_key'' \<Longrightarrow> jget kvs ''project_key'' = jopt pk"
    by (simp_all add: payload_fits_def)
  let ?r = "\<lparr>so_project_key = pk, so_payload = sorted_json (JObj kvs), so_payload_hash = stable_hash h (JObj kvs),
       so_created_at = (case dget tb (c, i) of None \<Rightarrow> now | Some r \<Rightarrow> so_created_at r), so_updated_at = now\<rparr>"
  let ?y = "\<lparr>ty_columns = typed_values spec kvs, ty_payload = sorted_json (JObj kvs)\<rparr>"
  let ?db = "db\<lparr>pg_entities := dset (c, i) ?r tb, pg_typed := dset (c, i) ?y (pg_typed db)\<rparr>"
  have run: "postgres_upsert h now c i (JObj kvs) pk db = (?db, Inr ())"
    using m Some wf(1) fit'(1)
    by (simp add: postgres_upsert_def upsert_typed_entity_def put_row_def mirrors_def del: sorted_json.simps)
  have new: "row_mirrors spec (Some ?r) (Some ?y)"
    using wf(2) fit'(2) sorted_json_obj by (auto simp: row_mirrors_def jget_typed_values simp del: sorted_json.simps)
  have "mirrors (dset (c, i) ?r tb) ?db"
    using m new Some sorted_json_obj [of kvs] by (auto simp: mirrors_def simp del: sorted_json.simps)
  with run show ?thesis by (auto simp: sqlite_upsert_def put_row_def simp del: sorted_json.simps)
qed

lemma mirrors_delete:
  assumes m: "mirrors tb db"
  shows "mirrors (sqlite_delete c i tb) (postgres_delete c i db)"
proof (cases "dget typed_collections c")
  case None
  with m show ?thesis
    by (auto simp: mirrors_def sqlite_delete_def delete_row_def postgres_delete_def)
next
  case (Some spec)
  with typed_spec_wf [OF Some] have "postgres_delete c i db =
      db\<lparr>pg_typed := dpop (c, i) (pg_typed db), pg_entities := dpop (c, i) (pg_entities db)\<rparr>"
    by (simp add: postgres_delete_def delete_row_def spec_wf_def)
  moreover have "row_mirrors s None None" for s by (simp add: row_mirrors_def)
  ultimately show ?thesis
    using m by (simp add: mirrors_def sqlite_delete_def delete_row_def)
qed

lemma mirrors_step:
  assumes "mirrors tb db" and "op_fits x"
  shows "\<exists>db'. postgres_step h x db = (db', Inr ()) \<and> mirrors (sqlite_step h x tb) db'"
  using assms mirrors_put mirrors_delete by (cases x) auto

lemma mirrors_run:
  assumes "mirrors tb db" and "\<forall>x\<in>set xs. op_fits x"
  shows "\<exists>db'. postgres_run h xs db = (db', map (\<lambda>_. Inr ()) xs) \<and> mirrors (sqlite_run h xs tb) db'"
  using assms
proof (induction xs arbitrary: tb db)
  case Nil
  then show ?case by simp
next
  case (Cons x xs)
  from mirrors_step [of tb db x h] Cons.prems obtain db1
    where "postgres_step h x db = (db1, Inr ())" and "mirrors (sqlite_step h x tb) db1" by auto
  with Cons.IH [of "sqlite_step h x tb" db1] Cons.prems(2) show ?case by auto
qed

lemma mirrors_get:
  assumes "mirrors tb db"
  shows "postgres_get c i db = sqlite_get c i tb"
proof (cases "dget typed_collections c")
  case None
  with assms show ?thesis by (simp add: postgres_get_def sqlite_get_def mirrors_def)
next
  case (Some spec)
  with assms typed_spec_wf [OF Some] have "row_mirrors spec (dget tb (c, i)) (dget (pg_typed db) (ts_table spec, i))"
    by (simp add: mirrors_def spec_wf_def)
  with Some show ?thesis
    by (auto simp: postgres_get_def get_typed_def sqlite_get_def find_row_def row_mirrors_def split: option.splits)
qed

lemma select_typed_alt: "select_typed spec pk db =
    map (\<lambda>(k, r). (snd k, ty_payload r)) (filter (\<lambda>(k, r). fst k = ts_table spec
      \<and> (case pk of None \<Rightarrow> True | Some p \<Rightarrow> jget (ty_columns r) ''project_key'' = JStr p)) (pg_typed db))"
  unfolding select_typed_def by (rule map_filter_fst)

lemma in_select_typed:
  "dict_ok (pg_typed db) \<Longrightarrow> (i, v) \<in> set (select_typed spec pk db) \<longleftrightarrow>
     (\<exists>y. dget (pg_typed db) (ts_table spec, i) = Some y \<and> v = ty_payload y
        \<and> (case pk of None \<Rightarrow> True | Some p \<Rightarrow> jget (ty_columns y) ''project_key'' = JStr p))"
  by (force simp: select_typed_alt dget_iff)

lemma jopt_JStr: "jopt x = JStr p \<longleftrightarrow> x = Some p"
  by (simp add: jopt_def split: option.splits)

lemma select_typed_rows:
  assumes m: "mirrors tb db" and s: "dget typed_collections c = Some spec"
    and pk: "pk = None \<or> spec_has_payload_key spec ''project_key''"
  shows "sort_key fst (select_typed spec pk db) = sort_key fst (select_rows c pk tb)"
proof (rule sort_key_fst_perm)
  have ok: "dict_ok tb" "dict_ok (pg_typed db)" using m by (simp_all add: mirrors_def)
  have t: "ts_table spec = c" using typed_spec_wf [OF s] by (simp add: spec_wf_def)
  show d: "distinct (map fst (select_typed spec pk db))"
    unfolding select_typed_alt by (rule distinct_fst_part [OF ok(2)])
  have d': "distinct (map fst (select_rows c pk tb))"
    unfolding select_rows_alt by (rule distinct_fst_part [OF ok(1)])
  have "(i, v) \<in> set (select_typed spec pk db) \<longleftrightarrow> (i, v) \<in> set (select_rows c pk tb)" for i v
  proof -
    from m s have "row_mirrors spec (dget tb (c, i)) (dget (pg_typed db) (c, i))" by (simp add: mirrors_def)
    with pk show ?thesis
      unfolding in_select_typed [OF ok(2)] in_select_rows [OF ok(1)] t
      by (auto simp: row_mirrors_def in_project_def jopt_JStr split: option.splits)
  qed
  then have "set (select_typed spec pk db) = set (select_rows c pk tb)" by auto
  with d d' show "mset (select_typed spec pk db) = mset (select_rows c pk tb)"
    by (metis distinct_map set_eq_iff_mset_eq_distinct)
qed

lemma mirrors_list:
  assumes m: "mirrors tb db"
  shows "\<exists>ds. postgres_list c pk db = Inr ds \<and> sqlite_list c pk tb = map JObj ds"
proof -
  have "postgres_list c pk db = rmap payload_object (sqlite_list c pk tb)"
    using m select_typed_rows [OF m]
    by (auto simp: postgres_list_def list_typed_def sqlite_list_def list_rows_def mirrors_def split: option.splits)
  moreover have "\<exists>ds. sqlite_list c pk tb = map JObj ds"
  proof -
    have "dict_ok tb" and "\<forall>k r. dget tb k = Some r \<longrightarrow> (\<exists>kvs. so_payload r = JObj kvs)"
      using m by (simp_all add: mirrors_def)
    then have "\<exists>kvs. v = JObj kvs" if "v \<in> set (sqlite_list c pk tb)" for v
      using that in_select_rows [of tb _ v c pk] by (force simp: sqlite_list_def list_rows_def)
    then show ?thesis by (metis ex_map_conv)
  qed
  moreover have "rmap payload_object (map JObj ds) = Inr ds" for ds
    by (rule rmap_map) (simp add: payload_object_def)
  ultimately show ?thesis by metis
qed

section \<open>Both stores meet the contract\<close>

interpretation sqlite: state_store "\<lambda>c i pk v. sqlite_upsert h now c i v pk" sqlite_delete find_row
    "\<lambda>c. sqlite_list c None" dict_ok "\<lambda>_ _ _ _. True" sorted_json
proof unfold_locales
  show "\<exists>ids. sorted ids \<and> distinct ids \<and> set ids = {i. find_row c i s \<noteq> None}
      \<and> sqlite_list c None s = map (\<lambda>i. the (find_row c i s)) ids" if "dict_ok s" for c s
    using list_rows_find [OF that] by (simp add: sqlite_list_def)
qed (auto simp: sqlite_upsert_def sqlite_delete_def put_row_def delete_row_def find_row_def)

definition postgres_find :: "string \<Rightarrow> string \<Rightarrow> postgres_state \<Rightarrow> json option" where
  "postgres_find c i db = (case postgres_get c i db of Inr (Some d) \<Rightarrow> Some (JObj d) | _ \<Rightarrow> None)"

definition postgres_rows :: "string \<Rightarrow> postgres_state \<Rightarrow> json list" where
  "postgres_rows c db = (case postgres_list c None db of Inr ds \<Rightarrow> map JObj ds | Inl _ \<Rightarrow> [])"

definition postgres_ok :: "postgres_state \<Rightarrow> bool" where
  "postgres_ok db = mirrors (pg_entities db) db"

lemma mirrors_entities: "mirrors tb db \<Longrightarrow> pg_entities db = tb"
  by (simp add: mirrors_def)

lemma postgres_find_row:
  assumes m: "mirrors tb db"
  shows "postgres_find c i db = find_row c i tb"
proof -
  have "\<exists>kvs. v = JObj kvs" if "find_row c i tb = Some v" for v
    using m that by (auto simp: mirrors_def find_row_def)
  then show ?thesis
    by (auto simp: postgres_find_def mirrors_get [OF m] sqlite_get_def payload_object_def
        split: option.splits json.splits)
qed

lemma postgres_rows_list:
  assumes m: "mirrors tb db"
  shows "postgres_rows c db = sqlite_list c None tb"
  using mirrors_list [OF m, of c None] by (auto simp: postgres_rows_def)

interpretation postgres: state_store "\<lambda>c i pk v db. fst (postgres_upsert h now c i v pk db)" postgres_delete
    postgres_find postgres_rows postgres_ok "\<lambda>c i pk v. \<exists>kvs. v = JObj kvs \<and> payload_fits c i pk kvs" sorted_json
proof unfold_locales
  fix db c i pk v
  assume ok: "postgres_ok db"
  then have m: "mirrors (pg_entities db) db" by (simp add: postgres_ok_def)
  then have okt: "dict_ok (pg_entities db)" by (simp add: mirrors_def)
  have del: "mirrors (sqlite_delete c i (pg_entities db)) (postgres_delete c i db)"
    by (rule mirrors_delete [OF m])
  then show "postgres_ok (postgres_delete c i db)"
    using mirrors_entities [OF del] by (simp add: postgres_ok_def)
  show "postgres_find c' i' (postgres_delete c i db) = (if c' = c \<and> i' = i then None else postgres_find c' i' db)"
    for c' i'
    unfolding postgres_find_row [OF del] postgres_find_row [OF m] by (rule sqlite.find_delete [OF okt])
  show "\<exists>ids. sorted ids \<and> distinct ids \<and> set ids = {i. postgres_find c i db \<noteq> None}
      \<and> postgres_rows c db = map (\<lambda>i. the (postgres_find c i db)) ids"
    unfolding postgres_find_row [OF m] postgres_rows_list [OF m] by (rule sqlite.rows_find [OF okt])
  assume "\<exists>kvs. v = JObj kvs \<and> payload_fits c i pk kvs"
  then obtain kvs where v: "v = JObj kvs" "payload_fits c i pk kvs" by blast
  from mirrors_put [OF m v(2), of h now] obtain db' where run: "postgres_upsert h now c i v pk db = (db', Inr ())"
    and m': "mirrors (sqlite_upsert h now c i v pk (pg_entities db)) db'" using v(1) by blast
  show "postgres_ok (fst (postgres_upsert h now c i v pk db))"
    using m' mirrors_entities [OF m'] run by (simp add: postgres_ok_def)
  show "postgres_find c' i' (fst (postgres_upsert h now c i v pk db)) =
      (if c' = c \<and> i' = i then Some (sorted_json v) else postgres_find c' i' db)" for c' i'
    using sqlite.find_upsert [OF okt TrueI] run
    by (simp add: postgres_find_row [OF m'] postgres_find_row [OF m])
qed


section \<open>The hypotheses can hold\<close>

definition demo_run_payload :: "string \<Rightarrow> jobj" where
  "demo_run_payload status = [(''run_id'', JStr ''run_1''), (''project_key'', JStr ''P''), (''status'', JStr status)]"

definition demo_store_ops :: "store_op list" where
  "demo_store_ops = [Put 0 ''agent_runs'' ''run_1'' (demo_run_payload ''running'') (Some ''P''),
     Put 1 ''agent_runs'' ''run_1'' (demo_run_payload ''succeeded'') (Some ''P''),
     Put 2 ''findings'' ''fnd_1'' [(''finding_id'', JStr ''fnd_1'')] (Some ''P''), Delete ''findings'' ''fnd_1'']"

lemma demo_store_ops_fit: "list_all op_fits demo_store_ops"
  by code_simp


end
