(* ===== verification/Migrations.thy ===== *)
theory Migrations
  imports Stores Audit_Trail
begin

text \<open>
  The rest of \<open>storage/postgres_store.py\<close>: the migrations, their rollback and the audit archive table.
  The database the scripts change is a type \<open>'d\<close>, what the server does with a statement an argument; the
  connection block commits where it ends and undoes everything where it is left by an exception, as
  \<open>psycopg\<close> documents. Package resources are their names and texts.
\<close>

section \<open>Scripts\<close>

record postgres_migration =
  mg_version :: string
  mg_name :: string
  mg_sql :: string

definition ends_with :: "string \<Rightarrow> string \<Rightarrow> bool" where
  "ends_with ending s = (length ending \<le> length s \<and> drop (length s - length ending) s = ending)"

definition migration_of :: "string \<times> string \<Rightarrow> postgres_migration" where
  \<comment> \<open>the version is the name up to the first underscore\<close>
  "migration_of r = \<lparr>mg_version = hd (py_split (CHR ''_'') (fst r)), mg_name = fst r, mg_sql = snd r\<rparr>"

definition load_migrations :: "(string \<times> string) list \<Rightarrow> postgres_migration list" where
  "load_migrations resources = map migration_of (filter (\<lambda>r. ends_with ''.sql'' (fst r)) (sort_key fst resources))"

definition load_rollbacks :: "(string \<times> string) list \<Rightarrow> (string, postgres_migration) dict" where
  "load_rollbacks resources = dict_of (map (\<lambda>m. (mg_version m, m)) (load_migrations resources))"

definition split_sql_statements :: "string \<Rightarrow> string list" where
  "split_sql_statements script = filter (\<lambda>s. s \<noteq> []) (map py_strip (py_split (CHR '';'') script))"

section \<open>Applying and rolling back\<close>

record 'd migrated =
  md_data :: 'd
  md_applied :: "(string, string \<times> time) dict"  \<comment> \<open>the table \<open>schema_migrations\<close>\<close>

type_synonym 'd executor = "string \<Rightarrow> 'd \<Rightarrow> 'd result"

fun run_statements :: "'d executor \<Rightarrow> string list \<Rightarrow> 'd \<Rightarrow> 'd result" where
  "run_statements exec [] d = Inr d"
| "run_statements exec (s # ss) d = rbind (exec s d) (run_statements exec ss)"

definition apply_migration :: "'d executor \<Rightarrow> time \<Rightarrow> postgres_migration \<Rightarrow> 'd migrated \<Rightarrow> 'd migrated result" where
  "apply_migration exec now m db =
     (if dhas (md_applied db) (mg_version m) then Inr db
      else rbind (run_statements exec (split_sql_statements (mg_sql m)) (md_data db)) (\<lambda>d.
        Inr (db\<lparr>md_data := d, md_applied := dset (mg_version m) (mg_name m, now) (md_applied db)\<rparr>)))"

fun apply_all :: "'d executor \<Rightarrow> time \<Rightarrow> postgres_migration list \<Rightarrow> 'd migrated \<Rightarrow> 'd migrated result" where
  "apply_all exec now [] db = Inr db"
| "apply_all exec now (m # ms) db = rbind (apply_migration exec now m db) (apply_all exec now ms)"

definition apply_migrations :: "'d executor \<Rightarrow> (string \<times> string) list \<Rightarrow> time \<Rightarrow> 'd migrated \<Rightarrow> 'd migrated \<times> unit result" where
  \<comment> \<open>one transaction over all migrations\<close>
  "apply_migrations exec resources now db =
     (case apply_all exec now (load_migrations resources) db of
        Inl e \<Rightarrow> (db, Inl e)
      | Inr db' \<Rightarrow> (db', Inr ()))"

definition rollback_migration :: "'d executor \<Rightarrow> (string \<times> string) list \<Rightarrow> string \<Rightarrow> 'd migrated \<Rightarrow> 'd migrated \<times> bool result" where
  "rollback_migration exec resources version db =
     (case dget (load_rollbacks resources) version of
        None \<Rightarrow> (db, Inl (ValueError (''rollback migration not found: '' @ version)))
      | Some m \<Rightarrow>
          if \<not> dhas (md_applied db) version then (db, Inr False)
          else (case run_statements exec (split_sql_statements (mg_sql m)) (md_data db) of
              Inl e \<Rightarrow> (db, Inl e)
            | Inr d \<Rightarrow> (db\<lparr>md_data := d, md_applied := dpop version (md_applied db)\<rparr>, Inr True)))"

section \<open>The audit archive table\<close>

record archive_batch =
  bt_archive_ref :: string
  bt_policy :: json
  bt_event_ids :: "string list"
  bt_archived_events :: nat
  bt_created_at :: time
  bt_payload :: json

definition archive_payload :: "time \<Rightarrow> audit_event list \<Rightarrow> audit_retention_policy \<Rightarrow> jobj" where
  "archive_payload now events policy = [
     (''policy'', JObj (retention_policy_dump policy)), (''event_ids'', jstrs (map au_audit_id events)),
     (''events'', JList (map (\<lambda>e. JObj (audit_event_dump e)) events)), (''created_at'', JTime now),
     (''schema_version'', JStr ''v1'')]"

definition write_audit_archive :: "host \<Rightarrow> time \<Rightarrow> (string, archive_batch) dict archive_writer" where
  \<comment> \<open>a batch of the same id keeps the time it was first written at\<close>
  "write_audit_archive h now tb events policy =
     (if events = [] then (tb, Inr None)
      else let payload = archive_payload now events policy;
               archive_id = ''audar_'' @ hash_prefix h 16 (JObj payload);
               archive_ref = ''postgres://audit_archive_batches/'' @ archive_id
           in (dset archive_id \<lparr>bt_archive_ref = archive_ref, bt_policy = JObj (retention_policy_dump policy),
                 bt_event_ids = map au_audit_id events, bt_archived_events = length events,
                 bt_created_at = (case dget tb archive_id of None \<Rightarrow> now | Some b \<Rightarrow> bt_created_at b),
                 bt_payload = JObj payload\<rparr> tb, Inr (Some archive_ref)))"

section \<open>Migrations happen once\<close>

lemma apply_migration_records:
  assumes "apply_migration exec now m db = Inr db'"
  shows "set (dkeys (md_applied db')) = insert (mg_version m) (set (dkeys (md_applied db)))"
proof (cases "dhas (md_applied db) (mg_version m)")
  case True
  with assms have "db' = db" by (simp add: apply_migration_def)
  with True show ?thesis unfolding dhas_def by blast
next
  case False
  with assms obtain d where "db' = db\<lparr>md_data := d, md_applied := dset (mg_version m) (mg_name m, now) (md_applied db)\<rparr>"
    by (auto simp: apply_migration_def rbind_Inr_iff)
  then show ?thesis by simp
qed

lemma apply_all_records:
  "apply_all exec now ms db = Inr db' \<Longrightarrow> set (dkeys (md_applied db')) = mg_version ` set ms \<union> set (dkeys (md_applied db))"
proof (induction ms arbitrary: db)
  case Nil
  then show ?case by simp
next
  case (Cons m ms)
  then obtain db1 where m: "apply_migration exec now m db = Inr db1" and r: "apply_all exec now ms db1 = Inr db'"
    by (auto simp: rbind_Inr_iff)
  show ?case
    unfolding Cons.IH [OF r] apply_migration_records [OF m] by auto
qed

lemma apply_all_done:
  "mg_version ` set ms \<subseteq> set (dkeys (md_applied db)) \<Longrightarrow> apply_all exec now ms db = Inr db"
  by (induction ms) (simp_all add: apply_migration_def dhas_def)

lemma apply_all_total:
  assumes "\<And>s d. \<exists>d'. exec s d = Inr d'"
  shows "\<exists>db'. apply_all exec now ms db = Inr db'"
proof -
  have "\<exists>d'. run_statements exec ss d = Inr d'" for ss d
    using assms by (induction ss arbitrary: d) (fastforce simp: rbind_Inr_iff)+
  then show ?thesis
    by (induction ms arbitrary: db) (fastforce simp: apply_migration_def rbind_Inr_iff)+
qed

text \<open>
  \<open>apply_migrations\<close> applies all package migrations that are not recorded, or none: where it
  raises nothing has changed; where it returns every version is recorded, no recorded one was forgotten,
  and starting the store again, with whatever clock and database server, executes no statement.
\<close>

theorem migrations_once:
  assumes "apply_migrations exec resources now db = (db', r)"
  shows "(\<forall>e. r = Inl e \<longrightarrow> db' = db)
    \<and> (r = Inr () \<longrightarrow> set (dkeys (md_applied db')) = mg_version ` set (load_migrations resources) \<union> set (dkeys (md_applied db))
         \<and> apply_migrations exec' resources now' db' = (db', Inr ()))"
proof (cases "apply_all exec now (load_migrations resources) db")
  case (Inl e)
  with assms have "db' = db" "r = Inl e" by (simp_all add: apply_migrations_def)
  then show ?thesis by simp
next
  case (Inr db1)
  with assms have db': "db' = db1" "r = Inr ()" by (simp_all add: apply_migrations_def)
  note rec = apply_all_records [OF Inr]
  then have "apply_all exec' now' (load_migrations resources) db1 = Inr db1" by (intro apply_all_done) simp
  then have "apply_migrations exec' resources now' db1 = (db1, Inr ())" by (simp add: apply_migrations_def)
  with rec db' show ?thesis by simp
qed

lemma migrations_once_witness:
  "\<exists>db. apply_migrations (\<lambda>s d. Inr (d @ [s])) [(''001_a.sql'', ''A; B'')] 0 \<lparr>md_data = [], md_applied = []\<rparr> = (db, Inr ())
     \<and> apply_migrations (\<lambda>s d. Inl (RuntimeError s)) [(''001_a.sql'', ''A; B'')] 1 db = (db, Inr ())"
proof -
  obtain db r where a: "apply_migrations (\<lambda>s d. Inr (d @ [s])) [(''001_a.sql'', ''A; B'')] 0 \<lparr>md_data = [], md_applied = []\<rparr> = (db, r)"
    by fastforce
  have "\<exists>db'. apply_all (\<lambda>s d. Inr (d @ [s])) 0 (load_migrations [(''001_a.sql'', ''A; B'')]) \<lparr>md_data = [], md_applied = []\<rparr> = Inr db'"
    by (rule apply_all_total) simp
  with a have r: "r = Inr ()" unfolding apply_migrations_def by (metis (no_types, lifting) prod.inject sum.case(2))
  note once = migrations_once [OF a, THEN conjunct2, THEN mp, OF r, of "\<lambda>s d. Inl (RuntimeError s)" 1, THEN conjunct2]
  show ?thesis by (rule exI [of _ db], rule conjI, rule a [unfolded r], rule once)
qed

end
