(* ===== verification/Runtime.thy ===== *)
theory Runtime
  imports Workflow Audit_Trail Scheduler Security Stores
begin

text \<open>
  \<open>api/state.py\<close>: the state of the application between requests, the recording of runs, the mirror in
  the state store and the restart from it.

  The graph is the memory backend and the state store a table of serialised entities, in which \<open>'p\<close> is
  what stands in the JSON column; \<open>'a\<close> is the state of the source adapter, \<open>'v\<close> of the vector backend,
  \<open>'w\<close> of the audit archive. The serialisation of a contract and its validation are Pydantic's: they are
  the two functions of a \<open>codec\<close>. Without a state store every save does nothing. A method that loops over
  a dictionary saves its entries in insertion order.
\<close>

section \<open>State\<close>

datatype entity =
    E_Run agent_run | E_Step agent_step_trace | E_LLM llm_call_trace | E_Artifact source_artifact
  | E_Chunk artifact_chunk | E_Cursor source_sync_cursor_state | E_Node ontology_node | E_Edge traceability_edge
  | E_Finding finding | E_Approval approval_item | E_Delta graph_delta | E_Feedback feedback_event
  | E_Audit audit_event | E_Replay replay_result | E_Command idempotency_record | E_Schedule schedule_config
  | E_Dict jobj

record 'p codec =
  cd_dump :: "entity \<Rightarrow> 'p"
  cd_load :: "string \<Rightarrow> 'p \<Rightarrow> entity result"  \<comment> \<open>the contract is chosen by the collection\<close>
  cd_digest :: "'p \<Rightarrow> string"

record ('a, 'v, 'w, 'p) runtime =
  rt_traces :: trace_repository
  rt_artifacts :: artifact_store
  rt_graph :: memory_graph
  rt_vector :: 'v
  rt_approvals :: approval_service
  rt_audit :: audit_service
  rt_archive :: 'w
  rt_analyses :: "(string, analysis_result) dict"
  rt_ingestions :: "(string, ingestion_result) dict"
  rt_findings :: "(string, finding) dict"
  rt_replays :: "(string, replay_result) dict"
  rt_preferences :: "(string, jobj) dict"
  rt_assignments :: "(string, jobj) dict"
  rt_cursors :: "(string, source_sync_cursor_state) dict"
  rt_commands :: idempotency_results
  rt_activations :: "(string, jobj) dict"
  rt_decisions :: "(string, jobj) dict"
  rt_scheduler :: scheduler
  rt_adapter :: 'a
  rt_store :: "'p state_table option"

record ('a, 'v, 'w, 'p) runtime_env =
  rv_wf :: "('a, memory_graph, 'v) wf_env"
  rv_now :: "string \<Rightarrow> time"
  rv_codec :: "'p codec"
  rv_archive :: "'w archive_writer"

record run_request =
  rq_run_id :: string
  rq_project_key :: string
  rq_scenario :: string
  rq_triggered_by :: string
  rq_trigger_source :: trigger_source

definition new_runtime :: "artifact_store \<Rightarrow> memory_graph \<Rightarrow> 'v \<Rightarrow> audit_retention_policy \<Rightarrow> 'w \<Rightarrow> scheduler \<Rightarrow> 'a \<Rightarrow>
    'p state_table option \<Rightarrow> ('a, 'v, 'w, 'p) runtime" where
  \<comment> \<open>the constructor call in \<open>create\<close>\<close>
  "new_runtime artifacts graph vector policy archive sched adapter st =
     \<lparr>rt_traces = empty_traces, rt_artifacts = artifacts, rt_graph = graph, rt_vector = vector,
      rt_approvals = empty_service, rt_audit = \<lparr>as_events = [], as_policy = policy\<rparr>, rt_archive = archive,
      rt_analyses = [], rt_ingestions = [], rt_findings = [], rt_replays = [], rt_preferences = [],
      rt_assignments = [], rt_cursors = [], rt_commands = [], rt_activations = [], rt_decisions = [],
      rt_scheduler = sched, rt_adapter = adapter, rt_store = st\<rparr>"

section \<open>Saving\<close>

type_synonym 'p saving = "'p state_table \<Rightarrow> 'p state_table"

definition save :: "('a, 'v, 'w, 'p) runtime_env \<Rightarrow> string \<Rightarrow> string \<Rightarrow> string option \<Rightarrow> entity \<Rightarrow> 'p saving" where
  \<comment> \<open>\<open>state_store.upsert\<close>\<close>
  "save env c i pk e tb = put_row (rv_now env ''upsert'') c i pk (cd_dump (rv_codec env) e)
     (cd_digest (rv_codec env) (cd_dump (rv_codec env) e)) tb"

definition save_all :: "('a, 'v, 'w, 'p) runtime_env \<Rightarrow> string \<Rightarrow> ('x \<Rightarrow> string) \<Rightarrow> ('x \<Rightarrow> string option) \<Rightarrow> ('x \<Rightarrow> entity) \<Rightarrow>
    'x list \<Rightarrow> 'p saving" where
  "save_all env c key pk con xs tb = foldl (\<lambda>tb x. save env c (key x) (pk x) (con x) tb) tb xs"

definition in_store :: "'p saving \<Rightarrow> ('a, 'v, 'w, 'p) runtime \<Rightarrow> ('a, 'v, 'w, 'p) runtime" where
  "in_store f rt = rt\<lparr>rt_store := map_option f (rt_store rt)\<rparr>"

definition save_audit_event :: "('a, 'v, 'w, 'p) runtime_env \<Rightarrow> audit_event \<Rightarrow> 'p saving" where
  "save_audit_event env ev = save env ''audit_events'' (au_audit_id ev) (au_project_key ev) (E_Audit ev)"

fun save_edges :: "('a, 'v, 'w, 'p) runtime_env \<Rightarrow> (string, ontology_node) dict \<Rightarrow> traceability_edge list \<Rightarrow> 'p state_table \<Rightarrow>
    'p state_table \<times> unit result" where
  \<comment> \<open>\<open>self.graph.nodes[edge.source_node_id]\<close>\<close>
  "save_edges env nodes [] tb = (tb, Inr ())"
| "save_edges env nodes (e # es) tb =
     (case dget nodes (te_source_node_id e) of
        None \<Rightarrow> (tb, Inl (KeyError (te_source_node_id e)))
      | Some n \<Rightarrow> save_edges env nodes es (save env ''graph_edges'' (te_edge_id e) (Some (on_project_key n)) (E_Edge e) tb))"

definition save_approval_parts :: "('a, 'v, 'w, 'p) runtime_env \<Rightarrow> ('a, 'v, 'w, 'p) runtime \<Rightarrow> 'p saving" where
  \<comment> \<open>the four loops before the edges\<close>
  "save_approval_parts env rt tb =
     save_all env ''audit_events'' au_audit_id au_project_key E_Audit (dvals (as_events (rt_audit rt)))
       (save_all env ''feedback_events'' fb_feedback_id (\<lambda>_. None) E_Feedback (sv_feedback (rt_approvals rt))
         (save_all env ''graph_deltas'' gd_delta_id (\<lambda>d. Some (gd_project_key d)) E_Delta (dvals (sv_deltas (rt_approvals rt)))
           (save_all env ''approval_items'' ap_approval_id (\<lambda>a. Some (ap_project_key a)) E_Approval
             (dvals (sv_items (rt_approvals rt))) tb)))"

definition persist_approval_state :: "('a, 'v, 'w, 'p) runtime_env \<Rightarrow> ('a, 'v, 'w, 'p) runtime \<Rightarrow>
    ('a, 'v, 'w, 'p) runtime \<times> unit result" where
  "persist_approval_state env rt =
     (case rt_store rt of
        None \<Rightarrow> (rt, Inr ())
      | Some tb \<Rightarrow>
          (case save_edges env (gr_nodes (rt_graph rt)) (dvals (gr_edges (rt_graph rt))) (save_approval_parts env rt tb) of
             (tb', r) \<Rightarrow> (rt\<lparr>rt_store := Some tb'\<rparr>, r)))"

definition save_run :: "('a, 'v, 'w, 'p) runtime_env \<Rightarrow> string \<Rightarrow> agent_run \<Rightarrow> agent_step_trace list \<Rightarrow> 'p saving" where
  \<comment> \<open>a run with its steps\<close>
  "save_run env pk run steps tb =
     save_all env ''agent_step_traces'' sp_step_id (\<lambda>_. Some pk) E_Step steps
       (save env ''agent_runs'' (rn_run_id run) (Some pk) (E_Run run) tb)"

definition save_calls :: "('a, 'v, 'w, 'p) runtime_env \<Rightarrow> string \<Rightarrow> string \<Rightarrow> trace_repository \<Rightarrow> 'p saving" where
  "save_calls env pk run_id tr = save_all env ''llm_call_traces'' lt_llm_call_id (\<lambda>_. Some pk) E_LLM
     (filter (\<lambda>t. lt_run_id t = run_id) (dvals (tr_llm_calls tr)))"

definition save_sources :: "('a, 'v, 'w, 'p) runtime_env \<Rightarrow> string \<Rightarrow> source_artifact list \<Rightarrow> artifact_chunk list \<Rightarrow> 'p saving" where
  "save_sources env pk artifacts chunks tb =
     save_all env ''artifact_chunks'' ck_chunk_id (\<lambda>_. Some pk) E_Chunk chunks
       (save_all env ''source_artifacts'' sa_artifact_id (\<lambda>_. Some pk) E_Artifact artifacts tb)"

definition save_cursor :: "('a, 'v, 'w, 'p) runtime_env \<Rightarrow> string \<Rightarrow> source_sync_cursor_state \<Rightarrow> 'p saving" where
  "save_cursor env pk c = save env ''source_sync_cursors'' (cs_cursor_id c) (Some pk) (E_Cursor c)"

definition save_ingestion :: "('a, 'v, 'w, 'p) runtime_env \<Rightarrow> ingestion_result \<Rightarrow> 'p saving" where
  "save_ingestion env r tb =
     (let pk = rn_project_key (ig_run r) in
      save_cursor env pk (ig_source_cursor r)
        (save_sources env pk (ig_artifacts r) (ig_chunks r)
          (save_run env pk (ig_run r) (ig_steps r) tb)))"

definition persist_ingestion_result :: "('a, 'v, 'w, 'p) runtime_env \<Rightarrow> ingestion_result \<Rightarrow> ('a, 'v, 'w, 'p) runtime \<Rightarrow>
    ('a, 'v, 'w, 'p) runtime \<times> unit result" where
  "persist_ingestion_result env r rt = persist_approval_state env (in_store (save_ingestion env r) rt)"

definition save_replay_traces :: "('a, 'v, 'w, 'p) runtime_env \<Rightarrow> trace_repository \<Rightarrow> analysis_result \<Rightarrow> 'p saving" where
  \<comment> \<open>run, steps, model calls, artifacts and chunks\<close>
  "save_replay_traces env tr r tb =
     (let pk = rn_project_key (ar_run r) in
      save_sources env pk (ar_artifacts r) (ar_chunks r)
        (save_calls env pk (rn_run_id (ar_run r)) tr (save_run env pk (ar_run r) (ar_steps r) tb)))"

definition save_analysis :: "('a, 'v, 'w, 'p) runtime_env \<Rightarrow> trace_repository \<Rightarrow> analysis_result \<Rightarrow> 'p saving" where
  "save_analysis env tr r tb =
     (let pk = rn_project_key (ar_run r) in
      save_all env ''findings'' fd_finding_id (\<lambda>_. Some pk) E_Finding (ar_findings r)
        (save_all env ''candidate_edges'' te_edge_id (\<lambda>_. Some pk) E_Edge (ar_candidate_edges r)
          (save_all env ''graph_nodes'' on_node_id (\<lambda>_. Some pk) E_Node (ar_nodes r)
            (save_cursor env pk (ar_source_cursor r) (save_replay_traces env tr r tb)))))"

definition persist_analysis_result :: "('a, 'v, 'w, 'p) runtime_env \<Rightarrow> analysis_result \<Rightarrow> ('a, 'v, 'w, 'p) runtime \<Rightarrow>
    ('a, 'v, 'w, 'p) runtime \<times> unit result" where
  "persist_analysis_result env r rt =
     persist_approval_state env (in_store (save_analysis env (rt_traces rt) r) rt)"

definition persist_runtime_failure :: "('a, 'v, 'w, 'p) runtime_env \<Rightarrow> string \<Rightarrow> string \<Rightarrow> ('a, 'v, 'w, 'p) runtime \<Rightarrow>
    ('a, 'v, 'w, 'p) runtime" where
  "persist_runtime_failure env run_id pk rt =
     in_store (\<lambda>tb.
       save_all env ''audit_events'' au_audit_id au_project_key E_Audit
         (filter (\<lambda>ev. au_target_type ev = ''run'' \<and> au_target_id ev = run_id) (dvals (as_events (rt_audit rt))))
         (save_all env ''agent_step_traces'' sp_step_id (\<lambda>_. Some pk) E_Step (list_steps run_id (rt_traces rt))
           (case dget (tr_runs (rt_traces rt)) run_id of
              None \<Rightarrow> tb
            | Some run \<Rightarrow> save env ''agent_runs'' (rn_run_id run) (Some pk) (E_Run run) tb))) rt"

definition persist_finding :: "('a, 'v, 'w, 'p) runtime_env \<Rightarrow> finding \<Rightarrow> string option \<Rightarrow> ('a, 'v, 'w, 'p) runtime \<Rightarrow>
    ('a, 'v, 'w, 'p) runtime" where
  "persist_finding env f pk rt =
     in_store (save env ''findings'' (fd_finding_id f) pk (E_Finding f))
       (rt\<lparr>rt_findings := dset (fd_finding_id f) f (rt_findings rt),
           rt_analyses := map (\<lambda>(i, a). (i, a\<lparr>ar_findings :=
             map (\<lambda>x. if fd_finding_id x = fd_finding_id f then f else x) (ar_findings a)\<rparr>)) (rt_analyses rt)\<rparr>)"

definition persist_replay_result :: "('a, 'v, 'w, 'p) runtime_env \<Rightarrow> replay_result \<Rightarrow> ('a, 'v, 'w, 'p) runtime \<Rightarrow>
    ('a, 'v, 'w, 'p) runtime" where
  "persist_replay_result env r rt =
     in_store (save env ''replay_results'' (rr_replay_run_id r)
       (map_option rn_project_key (dget (tr_runs (rt_traces rt)) (rr_source_run_id r))) (E_Replay r)) rt"

definition persist_replay_analysis_trace :: "('a, 'v, 'w, 'p) runtime_env \<Rightarrow> analysis_result \<Rightarrow> ('a, 'v, 'w, 'p) runtime \<Rightarrow>
    ('a, 'v, 'w, 'p) runtime" where
  "persist_replay_analysis_trace env r rt = in_store (save_replay_traces env (rt_traces rt) r) rt"

section \<open>Recording single entities\<close>

definition record_command :: "('a, 'v, 'w, 'p) runtime_env \<Rightarrow> idempotency_record \<Rightarrow> ('a, 'v, 'w, 'p) runtime \<Rightarrow>
    ('a, 'v, 'w, 'p) runtime" where
  \<comment> \<open>\<open>record_idempotency_result\<close>\<close>
  "record_command env r rt = in_store (save env ''idempotency_results'' (ir_record_id r) (ir_project_key r) (E_Command r))
     (rt\<lparr>rt_commands := dset (ir_record_id r) r (rt_commands rt)\<rparr>)"

definition record_registry_activation :: "('a, 'v, 'w, 'p) runtime_env \<Rightarrow> string \<Rightarrow> jobj \<Rightarrow> ('a, 'v, 'w, 'p) runtime \<Rightarrow>
    ('a, 'v, 'w, 'p) runtime" where
  "record_registry_activation env i d rt = in_store (save env ''registry_activations'' i None (E_Dict d))
     (rt\<lparr>rt_activations := dset i d (rt_activations rt)\<rparr>)"

definition record_improvement_decision :: "('a, 'v, 'w, 'p) runtime_env \<Rightarrow> string \<Rightarrow> jobj \<Rightarrow> ('a, 'v, 'w, 'p) runtime \<Rightarrow>
    ('a, 'v, 'w, 'p) runtime" where
  "record_improvement_decision env i d rt = in_store (save env ''improvement_decisions'' i None (E_Dict d))
     (rt\<lparr>rt_decisions := dset i d (rt_decisions rt)\<rparr>)"

definition record_dashboard_preference :: "('a, 'v, 'w, 'p) runtime_env \<Rightarrow> string \<Rightarrow> string \<Rightarrow> jobj \<Rightarrow>
    ('a, 'v, 'w, 'p) runtime \<Rightarrow> ('a, 'v, 'w, 'p) runtime" where
  "record_dashboard_preference env i pk d rt = in_store (save env ''dashboard_preferences'' i (Some pk) (E_Dict d))
     (rt\<lparr>rt_preferences := dset i d (rt_preferences rt)\<rparr>)"

definition record_dashboard_assignment :: "('a, 'v, 'w, 'p) runtime_env \<Rightarrow> string \<Rightarrow> string \<Rightarrow> jobj \<Rightarrow>
    ('a, 'v, 'w, 'p) runtime \<Rightarrow> ('a, 'v, 'w, 'p) runtime" where
  "record_dashboard_assignment env i pk d rt = in_store (save env ''dashboard_assignments'' i (Some pk) (E_Dict d))
     (rt\<lparr>rt_assignments := dset i d (rt_assignments rt)\<rparr>)"

definition record_schedule_config :: "('a, 'v, 'w, 'p) runtime_env \<Rightarrow> ('a, 'v, 'w, 'p) runtime \<Rightarrow> ('a, 'v, 'w, 'p) runtime" where
  "record_schedule_config env rt = in_store (save env ''schedule_configs'' ''default''
     (Some (cf_project_key (sd_config (rt_scheduler rt)))) (E_Schedule (sd_config (rt_scheduler rt)))) rt"

definition archive_and_prune_audit :: "('a, 'v, 'w, 'p) runtime_env \<Rightarrow> ('a, 'v, 'w, 'p) runtime \<Rightarrow>
    ('a, 'v, 'w, 'p) runtime \<times> prune_result result" where
  "archive_and_prune_audit env rt =
     (case archive_and_prune (rv_archive env) (rv_now env ''archive_and_prune'') (rt_audit rt) (rt_archive rt) of
        ((au, w), Inl e) \<Rightarrow> (rt\<lparr>rt_audit := au, rt_archive := w\<rparr>, Inl e)
      | ((au, w), Inr r) \<Rightarrow>
          (in_store (\<lambda>tb. foldl (\<lambda>tb i. delete_row ''audit_events'' i tb) tb (pr_pruned_audit_ids r))
             (rt\<lparr>rt_audit := au, rt_archive := w\<rparr>), Inr r))"

section \<open>Runs\<close>

definition trigger_source_str :: "trigger_source \<Rightarrow> string" where
  "trigger_source_str s = (case s of TS_Manual \<Rightarrow> ''manual'' | TS_Schedule \<Rightarrow> ''schedule'' | TS_Api \<Rightarrow> ''api''
     | TS_System \<Rightarrow> ''system'')"

definition run_actor_role :: "trigger_source \<Rightarrow> string" where
  "run_actor_role s = (if s = TS_Schedule \<or> s = TS_System then ''system'' else ''developer'')"

definition audit_now :: "('a, 'v, 'w, 'p) runtime_env \<Rightarrow> string \<Rightarrow> audit_args \<Rightarrow> ('a, 'v, 'w, 'p) runtime \<Rightarrow>
    ('a, 'v, 'w, 'p) runtime \<times> audit_event" where
  \<comment> \<open>\<open>self.audit.record(...)\<close>\<close>
  "audit_now env label a rt = (case audit_record (we_host (rv_wf env)) (rv_now env label) a (rt_audit rt) of
     (au, ev) \<Rightarrow> (rt\<lparr>rt_audit := au\<rparr>, ev))"

definition run_event :: "audit_action \<Rightarrow> string \<Rightarrow> string \<Rightarrow> run_request \<Rightarrow> audit_outcome \<Rightarrow> string option \<Rightarrow> jobj \<Rightarrow> audit_args" where
  \<comment> \<open>an audit entry about a run\<close>
  "run_event action actor role rq outcome reason metadata =
     \<lparr>ag_action = action, ag_actor_id = actor, ag_target_type = ''run'', ag_target_id = rq_run_id rq,
      ag_project_key = Some (rq_project_key rq), ag_actor_role = Some role, ag_outcome = outcome,
      ag_reason_code = reason, ag_metadata = Some metadata\<rparr>"

definition run_metadata :: "run_request \<Rightarrow> string \<Rightarrow> jobj" where
  "run_metadata rq run_type = [(''scenario'', JStr (rq_scenario rq)), (''run_type'', JStr run_type),
     (''trigger_source'', JStr (trigger_source_str (rq_trigger_source rq)))]"

definition record_run_started :: "('a, 'v, 'w, 'p) runtime_env \<Rightarrow> run_request \<Rightarrow> string \<Rightarrow> ('a, 'v, 'w, 'p) runtime \<Rightarrow>
    ('a, 'v, 'w, 'p) runtime" where
  "record_run_started env rq run_type rt =
     (case audit_now env ''run_started'' (run_event AA_Run_Started (rq_triggered_by rq)
         (run_actor_role (rq_trigger_source rq)) rq AO_Succeeded None (run_metadata rq run_type)) rt of
        (rt', ev) \<Rightarrow> in_store (save_audit_event env ev) rt')"

definition exc_type_name :: "py_error \<Rightarrow> string" where
  "exc_type_name e = (case e of KeyError _ \<Rightarrow> ''KeyError'' | ValueError _ \<Rightarrow> ''ValueError''
     | PyTypeError _ \<Rightarrow> ''TypeError'' | ValidationError _ \<Rightarrow> ''ValidationError''
     | HTTPException _ _ \<Rightarrow> ''HTTPException'' | RuntimeError _ \<Rightarrow> ''RuntimeError''
     | ModelPolicyError _ \<Rightarrow> ''ModelPolicyError'' | ModelRegistryError _ \<Rightarrow> ''ModelRegistryError''
     | MaskingPolicyViolationError _ _ _ \<Rightarrow> ''MaskingPolicyViolationError''
     | ArtifactAccessError \<Rightarrow> ''ArtifactAccessError'' | FileNotFoundError \<Rightarrow> ''FileNotFoundError''
     | OtherException n \<Rightarrow> n)"

definition failure_code_of :: "py_error \<Rightarrow> string" where
  \<comment> \<open>\<open>getattr(exc, "failure_code", type(exc).__name__)\<close>\<close>
  "failure_code_of e = (case e of MaskingPolicyViolationError _ _ _ \<Rightarrow> ''MASKING_POLICY_VIOLATION''
     | _ \<Rightarrow> exc_type_name e)"

definition record_run_failed :: "('a, 'v, 'w, 'p) runtime_env \<Rightarrow> run_request \<Rightarrow> string \<Rightarrow> py_error \<Rightarrow>
    ('a, 'v, 'w, 'p) runtime \<Rightarrow> ('a, 'v, 'w, 'p) runtime" where
  "record_run_failed env rq run_type e rt =
     (let run_id = rq_run_id rq;
          rt1 = (if dhas (tr_runs (rt_traces rt)) run_id
            then rt\<lparr>rt_traces := fst (complete_run (rv_now env ''run_failed'') run_id RS_Failed
              (Some (failure_code_of e)) (Some (exc_text e)) (rt_traces rt))\<rparr> else rt)
      in persist_runtime_failure env run_id (rq_project_key rq)
        (fst (audit_now env ''run_failed'' (run_event AA_Run_Completed (rq_triggered_by rq)
           (run_actor_role (rq_trigger_source rq)) rq AO_Failed (Some (failure_code_of e))
           (run_metadata rq run_type @ [(''failure_message'', JStr (exc_text e))])) rt1)))"

definition wf_of :: "('a, 'v, 'w, 'p) runtime \<Rightarrow> ('a, memory_graph, 'v) wf_state" where
  "wf_of rt = \<lparr>wf_adapter = rt_adapter rt, wf_traces = rt_traces rt, wf_store = rt_artifacts rt,
     wf_graph = rt_graph rt, wf_vector = rt_vector rt, wf_approvals = rt_approvals rt\<rparr>"

definition after_wf :: "('a, memory_graph, 'v) wf_state \<Rightarrow> ('a, 'v, 'w, 'p) runtime \<Rightarrow> ('a, 'v, 'w, 'p) runtime" where
  "after_wf s rt = rt\<lparr>rt_adapter := wf_adapter s, rt_traces := wf_traces s, rt_artifacts := wf_store s,
     rt_graph := wf_graph s, rt_vector := wf_vector s, rt_approvals := wf_approvals s\<rparr>"

definition on_workflow :: "('a, memory_graph, 'v, 'r) wf \<Rightarrow> (('a, 'v, 'w, 'p) runtime, 'r) act" where
  \<comment> \<open>a call of the workflow bound to this runtime state\<close>
  "on_workflow m rt = map_option (\<lambda>(s, r). (after_wf s rt, r)) (m (wf_of rt))"

definition act_then :: "('s \<Rightarrow> 's \<times> 'a result) \<Rightarrow> ('s, 'a) act" where
  "act_then f s = Some (f s)"

definition guarded_run :: "('a, 'v, 'w, 'p) runtime_env \<Rightarrow> run_request \<Rightarrow> string \<Rightarrow>
    (('a, 'v, 'w, 'p) runtime, 'r) act \<Rightarrow> (('a, 'v, 'w, 'p) runtime, 'r) act" where
  \<comment> \<open>the start of a run recorded, then the call in its \<open>try ... except Exception\<close>\<close>
  "guarded_run env rq run_type m rt =
     (case m (record_run_started env rq run_type rt) of
        None \<Rightarrow> None
      | Some (rt', Inl e) \<Rightarrow> Some (record_run_failed env rq run_type e rt', Inl e)
      | Some (rt', Inr x) \<Rightarrow> Some (rt', Inr x))"

definition add_analysis :: "('a, 'v, 'w, 'p) runtime_env \<Rightarrow> run_request \<Rightarrow> analysis_result \<Rightarrow>
    ('a, 'v, 'w, 'p) runtime \<Rightarrow> ('a, 'v, 'w, 'p) runtime \<times> analysis_result result" where
  \<comment> \<open>what \<open>run_analysis\<close> does with the result\<close>
  "add_analysis env rq r rt =
     (let rt1 = rt\<lparr>rt_analyses := dset (rq_run_id rq) r (rt_analyses rt),
            rt_cursors := dset (cs_cursor_id (ar_source_cursor r)) (ar_source_cursor r) (rt_cursors rt),
            rt_findings := foldl (\<lambda>d f. dset (fd_finding_id f) f d) (rt_findings rt) (ar_findings r)\<rparr>;
          rt2 = fst (audit_now env ''run_completed'' (run_event AA_Run_Completed ''local'' ''system'' rq AO_Succeeded None
            [(''scenario'', JStr (rq_scenario rq)), (''nodes'', JInt (int (length (ar_nodes r)))),
             (''candidate_edges'', JInt (int (length (ar_candidate_edges r)))),
             (''findings'', JInt (int (length (ar_findings r)))),
             (''approvals'', JInt (int (length (ar_approvals r))))]) rt1)
      in map_prod id (map_sum id (\<lambda>_. r)) (persist_analysis_result env r rt2))"

definition runtime_analysis :: "('a, 'v, 'w, 'p) runtime_env \<Rightarrow> run_request \<Rightarrow>
    (('a, 'v, 'w, 'p) runtime, analysis_result) act" where
  \<comment> \<open>\<open>RuntimeState.run_analysis\<close>\<close>
  "runtime_analysis env rq =
     act_bind (guarded_run env rq ''analysis'' (on_workflow (run_analysis (rv_wf env) RT_Analysis (rq_run_id rq)
        (rq_project_key rq) (rq_scenario rq) (rq_triggered_by rq) (rq_trigger_source rq))))
       (\<lambda>r. act_then (add_analysis env rq r))"

definition add_ingestion :: "('a, 'v, 'w, 'p) runtime_env \<Rightarrow> run_request \<Rightarrow> ingestion_result \<Rightarrow>
    ('a, 'v, 'w, 'p) runtime \<Rightarrow> ('a, 'v, 'w, 'p) runtime \<times> ingestion_result result" where
  "add_ingestion env rq r rt =
     (let rt1 = rt\<lparr>rt_ingestions := dset (rq_run_id rq) r (rt_ingestions rt),
            rt_cursors := dset (cs_cursor_id (ig_source_cursor r)) (ig_source_cursor r) (rt_cursors rt)\<rparr>;
          rt2 = fst (audit_now env ''run_completed'' (run_event AA_Run_Completed ''local'' ''system'' rq AO_Succeeded None
            [(''scenario'', JStr (rq_scenario rq)), (''run_type'', JStr ''ingestion''),
             (''artifacts'', JInt (int (length (ig_artifacts r)))), (''chunks'', JInt (int (length (ig_chunks r))))]) rt1)
      in map_prod id (map_sum id (\<lambda>_. r)) (persist_ingestion_result env r rt2))"

definition runtime_ingestion :: "('a, 'v, 'w, 'p) runtime_env \<Rightarrow> run_request \<Rightarrow>
    (('a, 'v, 'w, 'p) runtime, ingestion_result) act" where
  \<comment> \<open>\<open>RuntimeState.run_ingestion\<close>\<close>
  "runtime_ingestion env rq =
     act_bind (guarded_run env rq ''ingestion'' (on_workflow (ingest (rv_wf env) (rq_run_id rq)
        (rq_project_key rq) (rq_scenario rq) (rq_triggered_by rq) (rq_trigger_source rq))))
       (\<lambda>r. act_then (add_ingestion env rq r))"

section \<open>Restart\<close>

definition entity_rows :: "'p codec \<Rightarrow> string \<Rightarrow> 'p state_table \<Rightarrow> entity list result" where
  \<comment> \<open>\<open>[Model.model_validate(payload) for payload in state_store.list(collection)]\<close>\<close>
  "entity_rows cd c tb = rmap (cd_load cd c) (list_rows c None tb)"

definition pick :: "(entity \<Rightarrow> (string \<times> 'x) option) \<Rightarrow> entity list \<Rightarrow> (string, 'x) dict \<Rightarrow> (string, 'x) dict" where
  \<comment> \<open>\<open>cache[entity.id] = entity\<close> for every entity that has the shape looked for\<close>
  "pick sel es d = foldl (\<lambda>d kv. dset (fst kv) (snd kv) d) d (List.map_filter sel es)"

definition dict_row :: "string \<Rightarrow> entity \<Rightarrow> (string \<times> jobj) option" where
  \<comment> \<open>\<open>isinstance(payload.get(key), str)\<close>\<close>
  "dict_row key e = (case e of E_Dict d \<Rightarrow> (case jget d key of JStr i \<Rightarrow> Some (i, d) | _ \<Rightarrow> None) | _ \<Rightarrow> None)"

definition restore_traces :: "'p codec \<Rightarrow> 'p state_table \<Rightarrow> trace_repository \<Rightarrow> trace_repository result" where
  "restore_traces cd tb tr =
     rbind (entity_rows cd ''agent_runs'' tb) (\<lambda>runs.
     rbind (entity_rows cd ''agent_step_traces'' tb) (\<lambda>steps.
     rbind (entity_rows cd ''llm_call_traces'' tb) (\<lambda>calls.
     Inr \<lparr>tr_runs = pick (\<lambda>e. case e of E_Run r \<Rightarrow> Some (rn_run_id r, r) | _ \<Rightarrow> None) runs (tr_runs tr),
          tr_steps = pick (\<lambda>e. case e of E_Step s \<Rightarrow> Some (sp_step_id s, s) | _ \<Rightarrow> None) steps (tr_steps tr),
          tr_llm_calls = pick (\<lambda>e. case e of E_LLM t \<Rightarrow> Some (lt_llm_call_id t, t) | _ \<Rightarrow> None) calls (tr_llm_calls tr)\<rparr>)))"

definition restore_caches :: "'p codec \<Rightarrow> 'p state_table \<Rightarrow> ('a, 'v, 'w, 'p) runtime \<Rightarrow> ('a, 'v, 'w, 'p) runtime result" where
  \<comment> \<open>from the replays to the schedule\<close>
  "restore_caches cd tb rt =
     rbind (entity_rows cd ''replay_results'' tb) (\<lambda>replays.
     rbind (entity_rows cd ''source_sync_cursors'' tb) (\<lambda>cursors.
     rbind (entity_rows cd ''findings'' tb) (\<lambda>findings.
     rbind (entity_rows cd ''idempotency_results'' tb) (\<lambda>commands.
     rbind (entity_rows cd ''registry_activations'' tb) (\<lambda>activations.
     rbind (entity_rows cd ''improvement_decisions'' tb) (\<lambda>decisions.
     rbind (entity_rows cd ''dashboard_preferences'' tb) (\<lambda>preferences.
     rbind (entity_rows cd ''dashboard_assignments'' tb) (\<lambda>assignments.
     rbind (entity_rows cd ''schedule_configs'' tb) (\<lambda>schedules.
     Inr (rt\<lparr>
       rt_replays := pick (\<lambda>e. case e of E_Replay r \<Rightarrow> Some (rr_replay_run_id r, r) | _ \<Rightarrow> None) replays (rt_replays rt),
       rt_cursors := pick (\<lambda>e. case e of E_Cursor c \<Rightarrow> Some (cs_cursor_id c, c) | _ \<Rightarrow> None) cursors (rt_cursors rt),
       rt_findings := pick (\<lambda>e. case e of E_Finding f \<Rightarrow> Some (fd_finding_id f, f) | _ \<Rightarrow> None) findings (rt_findings rt),
       rt_commands := pick (\<lambda>e. case e of E_Command r \<Rightarrow> Some (ir_record_id r, r) | _ \<Rightarrow> None) commands (rt_commands rt),
       rt_activations := pick (dict_row ''activation_id'') activations (rt_activations rt),
       rt_decisions := pick (dict_row ''candidate_id'') decisions (rt_decisions rt),
       rt_preferences := pick (dict_row ''preference_id'') preferences (rt_preferences rt),
       rt_assignments := pick (dict_row ''assignment_id'') assignments (rt_assignments rt),
       rt_scheduler := (case rev schedules of E_Schedule c # _ \<Rightarrow> (rt_scheduler rt)\<lparr>sd_config := c\<rparr>
         | _ \<Rightarrow> rt_scheduler rt)\<rparr>))))))))))"

definition restore_approvals :: "'p codec \<Rightarrow> 'p state_table \<Rightarrow> approval_service \<Rightarrow> approval_service result" where
  "restore_approvals cd tb sv =
     rbind (entity_rows cd ''approval_items'' tb) (\<lambda>items.
     rbind (entity_rows cd ''graph_deltas'' tb) (\<lambda>deltas.
     rbind (entity_rows cd ''feedback_events'' tb) (\<lambda>feedback.
     Inr \<lparr>sv_items = pick (\<lambda>e. case e of E_Approval a \<Rightarrow> Some (ap_approval_id a, a) | _ \<Rightarrow> None) items (sv_items sv),
          sv_deltas = pick (\<lambda>e. case e of E_Delta d \<Rightarrow> Some (gd_delta_id d, d) | _ \<Rightarrow> None) deltas (sv_deltas sv),
          sv_feedback = List.map_filter (\<lambda>e. case e of E_Feedback f \<Rightarrow> Some f | _ \<Rightarrow> None) feedback\<rparr>)))"

definition restore_graph :: "'p codec \<Rightarrow> 'p state_table \<Rightarrow> memory_graph \<Rightarrow> memory_graph result" where
  "restore_graph cd tb g =
     rbind (entity_rows cd ''graph_nodes'' tb) (\<lambda>nodes.
     rbind (entity_rows cd ''graph_edges'' tb) (\<lambda>edges.
     let g' = stage_baseline_nodes (List.map_filter (\<lambda>e. case e of E_Node n \<Rightarrow> Some n | _ \<Rightarrow> None) nodes) g
     in Inr (g'\<lparr>gr_edges := pick (\<lambda>e. case e of E_Edge x \<Rightarrow> Some (te_edge_id x, x) | _ \<Rightarrow> None) edges (gr_edges g')\<rparr>)))"

definition restore_from_state_store :: "'p codec \<Rightarrow> ('a, 'v, 'w, 'p) runtime \<Rightarrow> ('a, 'v, 'w, 'p) runtime result" where
  "restore_from_state_store cd rt =
     (case rt_store rt of
        None \<Rightarrow> Inr rt
      | Some tb \<Rightarrow>
          rbind (restore_traces cd tb (rt_traces rt)) (\<lambda>tr.
          rbind (restore_caches cd tb rt) (\<lambda>rt1.
          rbind (restore_approvals cd tb (rt_approvals rt)) (\<lambda>sv.
          rbind (entity_rows cd ''audit_events'' tb) (\<lambda>events.
          rbind (restore_graph cd tb (rt_graph rt)) (\<lambda>g.
          Inr (rt1\<lparr>rt_traces := tr, rt_approvals := sv,
            rt_audit := (rt_audit rt1)\<lparr>as_events := pick (\<lambda>e. case e of E_Audit ev \<Rightarrow> Some (au_audit_id ev, ev) | _ \<Rightarrow> None)
              events (as_events (rt_audit rt1))\<rparr>,
            rt_graph := g\<rparr>)))))))"

end
