(* ===== verification/Run_Frames.thy ===== *)
theory Run_Frames
  imports Runs
begin

text \<open>
  What a workflow run writes to the trace repository and the approval service: runs and steps of other
  run ids keep their records, entries of the queue are only added, and a run that raises has not touched
  the queue. These frames carry the durability of the runtime's state.
\<close>

section \<open>Step ids\<close>

definition stage_names :: "string list" where
  "stage_names = [''source_fetch'', ''normalize'', ''mask_chunk'', ''extract_nodes'', ''link_edges'',
     ''llm_reason_edges'', ''detect_findings'', ''stage_approval'']"

lemma stage_names_apart: "list_all (\<lambda>a. list_all (\<lambda>b. \<not> suffix (''_'' @ a) b) stage_names) stage_names"
  by code_simp

lemma step_id_suffix:
  assumes "r @ ''_'' @ a = q @ us @ ''_'' @ b" and "r = q @ vs" and "a \<in> set stage_names" and "b \<in> set stage_names"
  shows "us = vs"
proof -
  have eq: "vs @ ''_'' @ a = us @ ''_'' @ b" using assms(1,2) by simp
  have no: "\<not> suffix (''_'' @ x) y" if "x \<in> set stage_names" "y \<in> set stage_names" for x y
    using stage_names_apart that by (simp add: list_all_iff)
  from eq consider (1) zs where "vs = us @ zs" "zs @ ''_'' @ a = ''_'' @ b" | (2) zs where "us = vs @ zs" "''_'' @ a = zs @ ''_'' @ b"
    by (auto simp: append_eq_append_conv2)
  then show ?thesis
  proof cases
    case 1
    show ?thesis
    proof (cases zs)
      case (Cons c cs)
      with 1(2) have "b = cs @ ''_'' @ a" by simp
      then have "suffix (''_'' @ a) b" by (auto simp: suffix_def)
      with no assms(3,4) show ?thesis by blast
    qed (use 1 in simp)
  next
    case 2
    show ?thesis
    proof (cases zs)
      case (Cons c cs)
      with 2(2) have "a = cs @ ''_'' @ b" by simp
      then have "suffix (''_'' @ b) a" by (auto simp: suffix_def)
      with no assms(3,4) show ?thesis by blast
    qed (use 2 in simp)
  qed
qed

lemma step_id_run:
  assumes "step_id_of r a = step_id_of q b" and "a \<in> set stage_names" and "b \<in> set stage_names"
  shows "r = q"
proof -
  from assms(1) have eq: "r @ ''_'' @ a = q @ ''_'' @ b" by (simp add: step_id_of_def)
  then consider us where "r = q @ us" | us where "q = r @ us" by (auto simp: append_eq_append_conv2)
  then show ?thesis
  proof cases
    case (1 us)
    with step_id_suffix [of r a q "[]" b us] eq assms(2,3) show ?thesis by simp
  next
    case (2 us)
    with step_id_suffix [of q b r "[]" a us] eq assms(2,3) show ?thesis by simp
  qed
qed

definition traces_named :: "trace_repository \<Rightarrow> bool" where
  \<comment> \<open>well-formed, and every step stands under the id its run and stage give\<close>
  "traces_named tr = (traces_wf tr \<and> (\<forall>i st. dget (tr_steps tr) i = Some st \<longrightarrow>
     (\<exists>n\<in>set stage_names. i = step_id_of (sp_run_id st) n)))"

lemma traces_named_run:
  "traces_named tr \<Longrightarrow> n \<in> set stage_names \<Longrightarrow> dget (tr_steps tr) (step_id_of r n) = Some st \<Longrightarrow> sp_run_id st = r"
  unfolding traces_named_def using step_id_run by metis

lemma traces_named_empty: "traces_named empty_traces"
  by (simp add: traces_named_def empty_traces_def traces_wf_def)

section \<open>The frame of a run\<close>

definition run_frame :: "string \<Rightarrow> trace_repository \<Rightarrow> trace_repository \<Rightarrow> bool" where
  "run_frame run_id tr tr' = (traces_named tr \<longrightarrow> traces_named tr'
     \<and> (\<forall>i. i \<noteq> run_id \<longrightarrow> dget (tr_runs tr') i = dget (tr_runs tr) i)
     \<and> (dget (tr_runs tr) run_id \<noteq> None \<longrightarrow> dget (tr_runs tr') run_id \<noteq> None)
     \<and> (\<forall>i. dget (tr_steps tr') i = dget (tr_steps tr) i \<or> (\<exists>st. dget (tr_steps tr') i = Some st \<and> sp_run_id st = run_id)))"

definition in_run :: "string \<Rightarrow> ('a, 'g, 'v) wf_state \<Rightarrow> ('a, 'g, 'v) wf_state \<Rightarrow> bool" where
  "in_run run_id s s' = run_frame run_id (wf_traces s) (wf_traces s')"

lemma run_frame_refl: "run_frame run_id tr tr"
  by (simp add: run_frame_def)

lemma run_frame_trans:
  assumes "run_frame run_id tr tr'" and "run_frame run_id tr' tr''"
  shows "run_frame run_id tr tr''"
  using assms unfolding run_frame_def by metis

interpretation run_framed: framed "in_run run_id" for run_id
  by unfold_locales (auto simp: in_run_def run_frame_refl intro: run_frame_trans)

lemma run_frame_create: "run_frame run_id tr (fst (create_run now run_id rt p b src tr))"
  using traces_wf_step [of tr _ "Op_Create now run_id rt p b src"]
  by (simp add: run_frame_def traces_named_def create_run_def Let_def)

lemma run_frame_run_put:
  assumes "dget (tr_runs tr) run_id = Some r" and "rn_run_id r' = rn_run_id r"
  shows "run_frame run_id tr (tr\<lparr>tr_runs := dset run_id r' (tr_runs tr)\<rparr>)"
  using assms traces_wf_put_run [of tr run_id r'] traces_wf_run [of tr run_id r]
  by (simp add: run_frame_def traces_named_def)

lemma run_frame_runs:
  "run_frame run_id tr (fst (mark_run_running run_id tr))"
  "run_frame run_id tr (fst (complete_run now run_id st c m tr))"
  "run_frame run_id tr (fst (record_model_metadata run_id model prompt tr))"
  "run_frame run_id tr (fst (record_input_snapshots run_id ids tr))"
  by (auto simp: mark_run_running_def complete_run_def record_model_metadata_def record_input_snapshots_def Let_def
      run_frame_refl split: option.splits intro!: run_frame_run_put)

lemma run_frame_steps:
  assumes "n \<in> set stage_names"
  shows "run_frame run_id tr (fst (start_step h now (step_id_of run_id n) run_id stage p ref k tr))"
    and "run_frame run_id tr (fst (finish_step h now (step_id_of run_id n) p oref cref vs vr tr))"
    and "run_frame run_id tr (fst (fail_step h now (step_id_of run_id n) ec em pl oref vs vr tr))"
proof -
  let ?i = "step_id_of run_id n"
  have put: "run_frame run_id tr (tr\<lparr>tr_steps := dset ?i st (tr_steps tr)\<rparr>)"
    if "traces_wf tr \<Longrightarrow> traces_wf (tr\<lparr>tr_steps := dset ?i st (tr_steps tr)\<rparr>)" "traces_named tr \<Longrightarrow> sp_run_id st = run_id" for st
    using that assms by (auto simp: run_frame_def traces_named_def)
  show "run_frame run_id tr (fst (start_step h now ?i run_id stage p ref k tr))"
    using traces_wf_step [of tr h "Op_Start now ?i run_id stage p ref k"]
    by (auto simp: start_step_def Let_def run_frame_refl intro!: put)
  show "run_frame run_id tr (fst (finish_step h now ?i p oref cref vs vr tr))"
    using traces_wf_step [of tr h "Op_Finish now ?i p oref cref vs vr"] traces_named_run [OF _ assms, of tr run_id]
    by (auto simp: finish_step_def Let_def run_frame_refl split: option.splits intro!: put)
  show "run_frame run_id tr (fst (fail_step h now ?i ec em pl oref vs vr tr))"
    using traces_wf_step [of tr h "Op_Fail now ?i ec em pl oref vs vr"] traces_named_run [OF _ assms, of tr run_id]
    by (auto simp: fail_step_def Let_def run_frame_refl split: option.splits intro!: put)
qed

lemma run_frame_call: "run_frame run_id tr (record_llm_call t tr)"
  using traces_wf_step [of tr _ "Op_LLM t"]
  by (simp add: run_frame_def traces_named_def record_llm_call_def)

lemma run_frame_calls: "run_frame run_id tr (fold record_llm_call ts tr)"
  by (induction ts arbitrary: tr) (auto simp: run_frame_refl intro: run_frame_trans run_frame_call)

section \<open>The gateway\<close>

definition only_calls :: "'w gateway_state \<Rightarrow> 'w gateway_state \<Rightarrow> bool" where
  "only_calls st st' = (\<exists>ts. gs_traces st' = map_option (fold record_llm_call ts) (gs_traces st))"

lemma only_calls_refl: "gs_traces st' = gs_traces st \<Longrightarrow> only_calls st st'"
  by (auto simp: only_calls_def option.map_id intro: exI [of _ "[]"])

lemma only_calls_record: "gs_traces st' = gs_traces st \<Longrightarrow> only_calls st (record_trace t st')"
  by (auto simp: only_calls_def record_trace_def intro: exI [of _ "[t]"])

lemma only_calls_trans: "only_calls st st' \<Longrightarrow> only_calls st' st'' \<Longrightarrow> only_calls st st''"
proof -
  assume "only_calls st st'" and "only_calls st' st''"
  then obtain ts us where "gs_traces st' = map_option (fold record_llm_call ts) (gs_traces st)"
    and "gs_traces st'' = map_option (fold record_llm_call us) (gs_traces st')"
    by (auto simp: only_calls_def)
  then have "gs_traces st'' = map_option (fold record_llm_call (ts @ us)) (gs_traces st)"
    by (simp add: option.map_comp comp_def)
  then show ?thesis unfolding only_calls_def by blast
qed

lemma run_attempt_calls: "run_attempt cwd h run_id step_id rm a st = (st', r) \<Longrightarrow> only_calls st st'"
  by (auto simp: run_attempt_def Let_def split: sum.splits prod.splits
      dest!: write_stage_frameD judge_frame intro: only_calls_refl only_calls_record)

lemma gateway_loop_calls: "gateway_loop cwd h run_id step_id rm as e ans st = (st', r) \<Longrightarrow> only_calls st st'"
proof (induction as arbitrary: e ans st)
  case Nil
  then show ?case by (auto intro: only_calls_refl)
next
  case (Cons a as)
  obtain st1 x where a: "run_attempt cwd h run_id step_id rm a st = (st1, x)" by fastforce
  note first = run_attempt_calls [OF a]
  show ?case
  proof (cases x)
    case (Refused e)
    with Cons.prems a first show ?thesis by simp
  next
    case (Failed e)
    with Cons.prems a first show ?thesis by (auto intro: only_calls_trans Cons.IH)
  next
    case (Answered r' p v)
    with Cons.prems a first show ?thesis by (auto split: if_splits intro: only_calls_trans Cons.IH)
  qed
qed

lemma gateway_in_run: "act_keeps (in_run run_id) (call_gateway env c run_id' step_id request schema)"
  unfolding act_keeps_def
proof (intro allI impI)
  fix s s' :: "('a, 'b, 'c) wf_state" and r
  assume "call_gateway env c run_id' step_id request schema s = Some (s', r)"
  then obtain gs x where c: "complete (we_cwd env) (we_host env) c run_id' step_id request (Some schema)
      \<lparr>gs_world = (), gs_traces = Some (wf_traces s), gs_store = Some (wf_store s)\<rparr> = (gs, x)"
    and s': "wf_traces s' = (case gs_traces gs of None \<Rightarrow> wf_traces s | Some tr \<Rightarrow> tr)"
    by (auto simp: call_gateway_def split: prod.splits)
  from c have "only_calls \<lparr>gs_world = (), gs_traces = Some (wf_traces s), gs_store = Some (wf_store s)\<rparr> gs"
    unfolding complete_def by (rule gateway_loop_calls)
  with s' show "in_run run_id s s'" by (auto simp: only_calls_def in_run_def run_frame_calls)
qed

section \<open>Stages stay within the frame\<close>

lemma in_run_on_traces: "(\<And>tr. run_frame run_id tr (fst (m tr))) \<Longrightarrow> act_keeps (in_run run_id) (on_traces m)"
  unfolding on_traces_def by (rule run_framed.keeps_on) (metis fst_conv in_run_def wf_state.select_convs(2) wf_state.surjective wf_state.update_convs(2))

lemma in_run_save: "act_keeps (in_run run_id) (save_json env run_id' name payload)"
  unfolding save_json_def by (rule run_framed.keeps_on) (simp add: in_run_def run_frame_refl)

lemma in_run_parts:
  "act_keeps (in_run run_id) (\<lambda>s. map_option (map_prod (\<lambda>a. s\<lparr>wf_adapter := a\<rparr>) id) (m (wf_adapter s)))"
  "act_keeps (in_run run_id) (act_on wf_vector (\<lambda>p s. s\<lparr>wf_vector := p\<rparr>) mv)"
  "act_keeps (in_run run_id) (act_on wf_graph (\<lambda>p s. s\<lparr>wf_graph := p\<rparr>) mg)"
  "act_keeps (in_run run_id) (act_on wf_approvals (\<lambda>p s. s\<lparr>wf_approvals := p\<rparr>) ma)"
  by (auto simp: act_keeps_def act_outcome in_run_def run_frame_refl)

lemma in_run_steps:
  "act_keeps (in_run run_id) (begin_run env run_id rt p b src)"
  "act_keeps (in_run run_id) (end_run env run_id st c m)"
  "n \<in> set stage_names \<Longrightarrow> act_keeps (in_run run_id) (begin_step env run_id n stage payload ref)"
  "n \<in> set stage_names \<Longrightarrow> act_keeps (in_run run_id) (end_step env run_id n pl oref cref vs vr)"
  "act_keeps (in_run run_id) (on_traces (record_input_snapshots run_id ids))"
  "act_keeps (in_run run_id) (on_traces (record_model_metadata run_id model prompt))"
  by (auto simp: begin_run_def end_run_def begin_step_def end_step_def run_frame_runs run_frame_steps run_frame_create
      fst_map_prod intro!: run_framed.keeps_bind in_run_on_traces)

lemma in_run_listing: "act_keeps (in_run run_id) (on_traces (\<lambda>tr. (tr, r tr)))"
  by (rule in_run_on_traces) (simp add: run_frame_refl)

lemma in_run_violation: "act_keeps (in_run run_id) (masking_violation env run_id artifact raw violations)"
  by (auto simp: masking_violation_def Let_def run_frame_steps stage_names_def
      intro!: run_framed.keeps_rules in_run_save in_run_steps in_run_on_traces)

lemma in_run_mask: "act_keeps (in_run run_id) (mask_and_chunk env run_id evidence ra)"
  by (cases ra) (auto simp: mask_and_chunk_def Let_def intro!: run_framed.keeps_rules in_run_violation)

lemma in_run_review: "act_keeps (in_run run_id) (run_review env run_id step_id prompt fixture cf answer payload failure)"
  by (auto simp: run_review_def intro!: run_framed.keeps_rules gateway_in_run in_run_steps)

lemmas in_run_rules = run_framed.keeps_rules in_run_save in_run_steps in_run_parts in_run_mask in_run_listing

lemma in_run_reviews:
  "act_keeps (in_run run_id) (node_extraction_review env run_id step_id nodes chunks)"
  "act_keeps (in_run run_id) (edge_reasoning_review env run_id step_id nodes edges context)"
  "act_keeps (in_run run_id) (finding_reasoning_review env run_id step_id findings nodes edges)"
  by (auto simp: node_extraction_review_def edge_reasoning_review_def finding_reasoning_review_def intro!: in_run_review)

lemma in_run_stages:
  "act_keeps (in_run run_id) (fetch_stage env run_id p sc)"
  "act_keeps (in_run run_id) (normalize_stage env run_id fetch ref)"
  "act_keeps (in_run run_id) (mask_stage env run_id pairs evidence ref)"
  "act_keeps (in_run run_id) (extract_stage env run_id x evidence)"
  "act_keeps (in_run run_id) (link_stage env run_id raws nodes evidence)"
  "act_keeps (in_run run_id) (reason_stage env run_id p nodes edges)"
  "act_keeps (in_run run_id) (finding_stage env run_id raws nodes edges evidence)"
  "act_keeps (in_run run_id) (approval_stage env run_id p edges)"
  by (auto simp: fetch_stage_def normalize_stage_def mask_stage_def extract_stage_def link_stage_def reason_stage_def
      edge_retrieval_context_def finding_stage_def approval_stage_def Let_def stage_names_def
      intro!: in_run_rules in_run_reviews)

lemma in_run_ingestion: "act_keeps (in_run run_id) (run_ingestion_stages env run_id p sc)"
  by (auto simp: run_ingestion_stages_def intro!: in_run_rules in_run_stages)

lemma in_run_ingest: "act_keeps (in_run run_id) (ingest env run_id p sc b src)"
  by (auto simp: ingest_def intro!: in_run_rules in_run_ingestion)

lemma in_run_analysis: "act_keeps (in_run run_id) (run_analysis env rt run_id p sc b src)"
  by (auto simp: run_analysis_def Let_def intro!: in_run_rules in_run_ingestion in_run_stages)

section \<open>The approval queue\<close>

definition same_queue :: "('a, 'g, 'v) wf_state \<Rightarrow> ('a, 'g, 'v) wf_state \<Rightarrow> bool" where
  "same_queue s s' = (wf_approvals s' = wf_approvals s)"

interpretation waiting: framed same_queue
  by unfold_locales (auto simp: same_queue_def)

lemma waiting_quiet: "act_keeps outside_same m \<Longrightarrow> act_keeps same_queue m"
  by (auto simp: act_keeps_def outside_same_def same_queue_def)

lemma waiting_parts:
  "act_keeps same_queue (act_on wf_vector (\<lambda>p s. s\<lparr>wf_vector := p\<rparr>) mv)"
  "act_keeps same_queue (act_on wf_graph (\<lambda>p s. s\<lparr>wf_graph := p\<rparr>) mg)"
  by (auto simp: act_keeps_def act_outcome same_queue_def)

lemmas waiting_rules = waiting.keeps_rules waiting_parts quiet_steps [THEN waiting_quiet] quiet_stages [THEN waiting_quiet]
  quiet_traces [THEN waiting_quiet] quiet_save [THEN waiting_quiet] quiet_mask [THEN waiting_quiet]

lemma waiting_ingestion: "act_keeps same_queue (run_ingestion_stages env run_id p sc)"
  by (auto simp: run_ingestion_stages_def mask_stage_def Let_def intro!: waiting_rules)

lemma waiting_extract: "act_keeps same_queue (extract_stage env run_id x evidence)"
  by (auto simp: extract_stage_def intro!: waiting_rules)

lemma waiting_ingest: "act_keeps same_queue (ingest env run_id p sc b src)"
  by (auto simp: ingest_def intro!: waiting_rules waiting_ingestion)

lemma on_traces_outcome: "on_traces m s = (case m (wf_traces s) of (tr, r) \<Rightarrow> Some (s\<lparr>wf_traces := tr\<rparr>, r))"
  by (simp add: on_traces_def act_on_def)

lemma approval_stage_returns:
  assumes "approval_stage env run_id p edges s = Some (s', r)"
  shows "\<exists>sv x. r = Inr x \<and> (sv, x) = stage_edges (we_host env) (we_now env ''stage_approval'') p run_id
      (step_id_of run_id ''stage_approval'') edges (wf_approvals s) \<and> wf_approvals s' = sv"
  using assms
  by (auto simp: approval_stage_def begin_step_def end_step_def act_bind_run on_traces_outcome start_step_def finish_step_def
      Let_def act_on_def act_return_def map_prod_def split: prod.splits)

lemma end_run_returns:
  assumes "dget (tr_runs (wf_traces s)) run_id \<noteq> None" and "end_run env run_id st c m s = Some (s', r)"
  shows "\<exists>x. r = Inr x"
  using assms by (auto simp: end_run_def on_traces_outcome complete_run_def Let_def)

lemma begin_run_present:
  "begin_run env run_id rt p b src s = Some (s', r) \<Longrightarrow> dget (tr_runs (wf_traces s')) run_id \<noteq> None"
  by (auto simp: begin_run_def act_bind_run on_traces_outcome create_run_def mark_run_running_def Let_def map_prod_def)

lemma in_run_present:
  assumes "act_keeps (in_run run_id) m" and "m s = Some (s', r)" and "traces_named (wf_traces s)"
    and "dget (tr_runs (wf_traces s)) run_id \<noteq> None"
  shows "traces_named (wf_traces s') \<and> dget (tr_runs (wf_traces s')) run_id \<noteq> None"
  using act_keepsD [OF assms(1,2)] assms(3,4) by (auto simp: in_run_def run_frame_def)

definition analysis_stages :: "('a, 'g, 'v) wf_env \<Rightarrow> string \<Rightarrow> string \<Rightarrow> string \<Rightarrow>
    ('a, 'g, 'v, ingested \<times> ontology_node list \<times> traceability_edge list \<times> finding list) wf" where
  \<comment> \<open>the stages between the start of the run and the staging of approvals\<close>
  "analysis_stages env run_id p sc =
     act_bind (run_ingestion_stages env run_id p sc) (\<lambda>x.
     let raws = fr_artifacts (ix_fetch x) in
     act_bind (act_of (evidence_map (we_host env) (zip raws (ix_artifacts x)))) (\<lambda>evidence.
     act_bind (extract_stage env run_id x evidence) (\<lambda>nodes.
     act_bind (link_stage env run_id raws nodes evidence) (\<lambda>edges.
     act_bind (reason_stage env run_id p nodes edges) (\<lambda>_.
     act_bind (finding_stage env run_id raws nodes edges evidence) (\<lambda>findings.
     act_return (x, nodes, edges, findings)))))))"

definition analysis_end :: "('a, 'g, 'v) wf_env \<Rightarrow> string \<Rightarrow> string \<Rightarrow> ingested \<Rightarrow> ontology_node list \<Rightarrow> traceability_edge list \<Rightarrow>
    finding list \<Rightarrow> ('a, 'g, 'v, analysis_result) wf" where
  "analysis_end env run_id p x nodes edges findings =
     act_bind (approval_stage env run_id p edges) (\<lambda>approvals.
     act_bind (end_run env run_id RS_Succeeded None None) (\<lambda>completed.
     act_bind (on_traces (\<lambda>tr. (tr, Inr (list_steps run_id tr)))) (\<lambda>steps.
     act_return \<lparr>ar_run = completed, ar_steps = steps, ar_artifacts = ix_artifacts x,
       ar_chunks = ix_chunks x, ar_nodes = nodes, ar_candidate_edges = edges, ar_findings = findings,
       ar_approvals = approvals, ar_source_cursor = ix_cursor x\<rparr>)))"

lemma run_analysis_split:
  "run_analysis env rt run_id p sc b src =
     act_bind (begin_run env run_id rt p b src) (\<lambda>_.
     act_bind (analysis_stages env run_id p sc) (\<lambda>(x, nodes, edges, findings). analysis_end env run_id p x nodes edges findings))"
  by (simp add: run_analysis_def analysis_stages_def analysis_end_def act_bind_assoc Let_def)

lemma waiting_analysis: "act_keeps same_queue (analysis_stages env run_id p sc)"
  by (auto simp: analysis_stages_def Let_def intro!: waiting_rules waiting_ingestion waiting_extract)

lemma in_run_analysis_stages: "act_keeps (in_run run_id) (analysis_stages env run_id p sc)"
  by (auto simp: analysis_stages_def Let_def intro!: in_run_rules in_run_ingestion in_run_stages)

lemma analysis_end_returns:
  assumes "analysis_end env run_id p x nodes edges findings s = Some (s', r)" and "traces_named (wf_traces s)"
    and "dget (tr_runs (wf_traces s)) run_id \<noteq> None"
  shows "\<exists>sv approvals res. r = Inr res
    \<and> (sv, approvals) = stage_edges (we_host env) (we_now env ''stage_approval'') p run_id
        (step_id_of run_id ''stage_approval'') edges (wf_approvals s)
    \<and> wf_approvals s' = sv \<and> ar_approvals res = approvals
    \<and> dget (tr_runs (wf_traces s')) run_id = Some (ar_run res) \<and> ar_steps res = list_steps run_id (wf_traces s')"
  using assms(1) unfolding analysis_end_def
proof (cases rule: act_bind_cases)
  case (raised e)
  with approval_stage_returns [OF raised(1)] show ?thesis by auto
next
  case (returned s1 approvals)
  from approval_stage_returns [OF returned(1)] have st: "(wf_approvals s1, approvals) = stage_edges (we_host env)
      (we_now env ''stage_approval'') p run_id (step_id_of run_id ''stage_approval'') edges (wf_approvals s)" by auto
  have "dget (tr_runs (wf_traces s1)) run_id \<noteq> None"
    using in_run_present [OF in_run_stages(8) returned(1) assms(2,3)] by blast
  with returned(2) st show ?thesis
    by (auto simp: act_bind_run end_run_def on_traces_outcome complete_run_def Let_def act_return_def)
qed

lemma run_analysis_outcome:
  \<comment> \<open>a run that raises leaves the queue alone; one that returns names what it left in the repository\<close>
  assumes run: "run_analysis env rt run_id p sc b src s = Some (s', r)" and named: "traces_named (wf_traces s)"
  shows "(\<forall>e. r = Inl e \<longrightarrow> wf_approvals s' = wf_approvals s) \<and> (\<forall>res. r = Inr res \<longrightarrow>
      dget (tr_runs (wf_traces s')) run_id = Some (ar_run res) \<and> ar_steps res = list_steps run_id (wf_traces s')
      \<and> wf_approvals s' = fst (stage_edges (we_host env) (we_now env ''stage_approval'') p run_id
          (step_id_of run_id ''stage_approval'') (ar_candidate_edges res) (wf_approvals s)))"
  using run unfolding run_analysis_split
proof (cases rule: act_bind_cases)
  case (raised e)
  with act_keepsD [OF waiting_quiet [OF quiet_steps(1)] raised(1)] show ?thesis by (auto simp: same_queue_def)
next
  case started: (returned s1 x1)
  have q1: "wf_approvals s1 = wf_approvals s"
    using act_keepsD [OF waiting_quiet [OF quiet_steps(1)] started(1)] by (simp add: same_queue_def)
  have n1: "traces_named (wf_traces s1)"
    using act_keepsD [OF in_run_steps(1) started(1)] named by (auto simp: in_run_def run_frame_def)
  note present = begin_run_present [OF started(1)]
  from started(2) show ?thesis
  proof (cases rule: act_bind_cases)
    case (raised e)
    with act_keepsD [OF waiting_analysis raised(1)] q1 show ?thesis by (auto simp: same_queue_def)
  next
    case stages: (returned s2 y)
    obtain x nodes edges findings where y: "y = (x, nodes, edges, findings)" by (metis prod_cases4)
    note n2 = in_run_present [OF in_run_analysis_stages stages(1) n1 present]
    have q2: "wf_approvals s2 = wf_approvals s"
      using act_keepsD [OF waiting_analysis stages(1)] q1 by (simp add: same_queue_def)
    from stages(2) have fin: "analysis_end env run_id p x nodes edges findings s2 = Some (s', r)" by (simp add: y)
    have edges: "ar_candidate_edges res = edges" if "r = Inr res" for res
      using fin that by (auto simp: analysis_end_def act_outcome)
    from analysis_end_returns [OF fin] n2 q2 edges show ?thesis by (metis fst_conv sum.distinct(1) sum.inject(2))
  qed
qed

lemma ingest_outcome:
  assumes "ingest env run_id p sc b src s = Some (s', r)"
  shows "wf_approvals s' = wf_approvals s \<and> (\<forall>res. r = Inr res \<longrightarrow>
      dget (tr_runs (wf_traces s')) run_id = Some (ig_run res) \<and> ig_steps res = list_steps run_id (wf_traces s'))"
proof -
  have "wf_approvals s' = wf_approvals s"
    using act_keepsD [OF waiting_ingest assms] by (simp add: same_queue_def)
  with assms show ?thesis
    by (auto simp: ingest_def act_outcome end_run_def on_traces_outcome complete_run_def Let_def split: option.splits)
qed

definition queue_ok :: "approval_service \<Rightarrow> bool" where
  "queue_ok sv = (dict_by ap_approval_id (sv_items sv) \<and> dict_by gd_delta_id (sv_deltas sv))"

definition queue_grows :: "approval_service \<Rightarrow> approval_service \<Rightarrow> bool" where
  "queue_grows sv sv' = (queue_ok sv \<longrightarrow> queue_ok sv'
     \<and> fst ` set (sv_items sv) \<subseteq> fst ` set (sv_items sv') \<and> fst ` set (sv_deltas sv) \<subseteq> fst ` set (sv_deltas sv'))"

lemma queue_grows_trans: "queue_grows a b \<Longrightarrow> queue_grows b c \<Longrightarrow> queue_grows a c"
  unfolding queue_grows_def by (meson order_trans)

lemma stage_edges_grows: "queue_grows sv (fst (stage_edges h now p run_id st es sv))"
proof -
  have "queue_grows (fst a) (fst (foldl (\<lambda>a e. stage_edge h now p run_id st e a) a es))" for a
  proof (induction es arbitrary: a)
    case Nil
    then show ?case by (simp add: queue_grows_def)
  next
    case (Cons e es)
    have "queue_grows (fst a) (fst (stage_edge h now p run_id st e a))"
      by (auto simp: queue_grows_def queue_ok_def stage_edge_def Let_def)
    from queue_grows_trans [OF this Cons.IH] show ?case by simp
  qed
  then show ?thesis by (metis fst_conv stage_edges_def)
qed

end
