(* ===== verification/Durability.thy ===== *)
theory Durability
  imports Runtime Run_Frames
begin

text \<open>
  What the state store holds. At the end of every operation of the runtime its rows are the entries of
  the caches, so that a restart recovers them: the invariant, its preservation by each operation, and
  the restart.
\<close>

section \<open>Rows after a save\<close>

lemma dict_ok_put_row [simp]: "dict_ok tb \<Longrightarrow> dict_ok (put_row now c i pk p h tb)"
  by (simp add: put_row_def)

lemma dict_ok_save [simp]: "dict_ok tb \<Longrightarrow> dict_ok (save env c i pk e tb)"
  by (simp add: save_def)

lemma dict_ok_save_all [simp]: "dict_ok tb \<Longrightarrow> dict_ok (save_all env c key pk con xs tb)"
  unfolding save_all_def by (induction xs arbitrary: tb) simp_all

lemma find_save: "find_row c' i' (save env c i pk e tb) =
    (if c' = c \<and> i' = i then Some (cd_dump (rv_codec env) e) else find_row c' i' tb)"
  by (simp add: find_row_def save_def put_row_def)

lemma save_all_put_all: "save_all env c key pk con xs tb =
    state_store.put_all (\<lambda>c i pk p tb. put_row (rv_now env ''upsert'') c i pk p (cd_digest (rv_codec env) p) tb)
      c key pk (\<lambda>x. cd_dump (rv_codec env) (con x)) xs tb"
  by (simp add: save_all_def save_def table.put_all_def)

lemma find_save_all_other:
  "dict_ok tb \<Longrightarrow> c' \<noteq> c \<Longrightarrow> find_row c' i (save_all env c key pk con xs tb) = find_row c' i tb"
  unfolding save_all_put_all by (rule table.find_put_all_other) simp_all

lemma find_save_all:
  assumes "dict_ok tb" and "\<And>x. x \<in> set xs \<Longrightarrow> d (key x) = Some x"
  shows "find_row c i (save_all env c key pk con xs tb) =
    (if i \<in> key ` set xs then map_option (\<lambda>x. cd_dump (rv_codec env) (con x)) (d i) else find_row c i tb)"
  unfolding save_all_put_all by (rule table.find_put_all) (use assms in simp_all)

lemma dict_ok_delete_row [simp]: "dict_ok tb \<Longrightarrow> dict_ok (delete_row c i tb)"
  by (simp add: delete_row_def)

section \<open>Caches and their rows\<close>

definition mirrored :: "'p codec \<Rightarrow> 'p state_table \<Rightarrow> string \<Rightarrow> ('x \<Rightarrow> entity) \<Rightarrow> (string, 'x) dict \<Rightarrow> bool" where
  "mirrored cd tb c con d = (\<forall>i. find_row c i tb = map_option (\<lambda>x. cd_dump cd (con x)) (dget d i))"

lemma mirrored_save:
  "mirrored (rv_codec env) tb c con d \<Longrightarrow>
     mirrored (rv_codec env) (save env c i pk (con x) tb) c con (dset i x d)"
  by (simp add: mirrored_def find_save)

lemma mirrored_save_other [simp]:
  "c' \<noteq> c \<Longrightarrow> mirrored cd (save env c i pk e tb) c' con d = mirrored cd tb c' con d"
  by (simp add: mirrored_def find_save)

lemma mirrored_save_all_other [simp]:
  "dict_ok tb \<Longrightarrow> c' \<noteq> c \<Longrightarrow> mirrored cd (save_all env c key pk con' xs tb) c' con d = mirrored cd tb c' con d"
  by (simp add: mirrored_def find_save_all_other)

lemma mirrored_save_all:
  assumes "mirrored (rv_codec env) tb c con d" and "dict_ok tb"
    and "\<And>x. x \<in> set xs \<Longrightarrow> dget d' (key x) = Some x"
    and "\<And>i. i \<notin> key ` set xs \<Longrightarrow> dget d' i = dget d i"
  shows "mirrored (rv_codec env) (save_all env c key pk con xs tb) c con d'"
  unfolding mirrored_def
proof
  fix i
  have "find_row c i (save_all env c key pk con xs tb) =
      (if i \<in> key ` set xs then map_option (\<lambda>x. cd_dump (rv_codec env) (con x)) (dget d' i) else find_row c i tb)"
    by (rule find_save_all) (use assms(2,3) in auto)
  with assms(1,4) show "find_row c i (save_all env c key pk con xs tb) =
      map_option (\<lambda>x. cd_dump (rv_codec env) (con x)) (dget d' i)"
    by (simp add: mirrored_def)
qed

lemma mirrored_save_vals:
  \<comment> \<open>all entries of a grown dictionary are saved\<close>
  assumes "mirrored (rv_codec env) tb c con d" and "dict_ok tb" and "dict_by key d'"
    and "fst ` set d \<subseteq> fst ` set d'"
  shows "mirrored (rv_codec env) (save_all env c key pk con (dvals d') tb) c con d'"
proof (rule mirrored_save_all [OF assms(1,2)])
  fix x assume "x \<in> set (dvals d')"
  with assms(3) show "dget d' (key x) = Some x" using dict_by_vals by metis
next
  fix i assume i: "i \<notin> key ` set (dvals d')"
  have "dget d' i = None"
  proof (rule ccontr)
    assume "dget d' i \<noteq> None"
    then obtain x where "dget d' i = Some x" by blast
    then have "key x = i" "x \<in> set (dvals d')"
      using assms(3) dict_by_get dget_in_vals by metis+
    with i show False by blast
  qed
  moreover from this have "dget d i = None" using assms(4) by (auto simp: map_of_eq_None_iff)
  ultimately show "dget d' i = dget d i" by simp
qed

lemma mirrored_save_part:
  \<comment> \<open>the entries that changed are among those saved\<close>
  assumes "mirrored (rv_codec env) tb c con d" and "dict_ok tb" and "dict_by key d'"
    and "\<And>i. dget d' i = dget d i \<or> (\<exists>x. dget d' i = Some x \<and> P x)"
  shows "mirrored (rv_codec env) (save_all env c key pk con (filter P (dvals d')) tb) c con d'"
proof (rule mirrored_save_all [OF assms(1,2)])
  fix x assume "x \<in> set (filter P (dvals d'))"
  with assms(3) show "dget d' (key x) = Some x" by (metis dict_by_vals filter_is_subset subsetD)
next
  fix i assume i: "i \<notin> key ` set (filter P (dvals d'))"
  show "dget d' i = dget d i"
  proof (rule ccontr)
    assume "dget d' i \<noteq> dget d i"
    with assms(4) obtain x where "dget d' i = Some x" "P x" by blast
    then have "key x = i" "x \<in> set (filter P (dvals d'))"
      using assms(3) by (auto intro: dict_by_get dget_in_vals simp del: set_map)
    with i show False by blast
  qed
qed

lemma find_delete_all:
  "dict_ok tb \<Longrightarrow> find_row c' i (foldl (\<lambda>tb i. delete_row c i tb) tb ids) =
     (if c' = c \<and> i \<in> set ids then None else find_row c' i tb) \<and> dict_ok (foldl (\<lambda>tb i. delete_row c i tb) tb ids)"
  by (induction ids arbitrary: tb) (auto simp: delete_row_def find_row_def)

section \<open>The invariant\<close>

fun entity_fits :: "string \<Rightarrow> entity \<Rightarrow> bool" where
  \<comment> \<open>the contract by which a collection is read\<close>
  "entity_fits c (E_Run _) = (c = ''agent_runs'')"
| "entity_fits c (E_Step _) = (c = ''agent_step_traces'')"
| "entity_fits c (E_LLM _) = (c = ''llm_call_traces'')"
| "entity_fits c (E_Artifact _) = (c = ''source_artifacts'')"
| "entity_fits c (E_Chunk _) = (c = ''artifact_chunks'')"
| "entity_fits c (E_Cursor _) = (c = ''source_sync_cursors'')"
| "entity_fits c (E_Node _) = (c = ''graph_nodes'')"
| "entity_fits c (E_Edge _) = (c = ''graph_edges'' \<or> c = ''candidate_edges'')"
| "entity_fits c (E_Finding _) = (c = ''findings'')"
| "entity_fits c (E_Approval _) = (c = ''approval_items'')"
| "entity_fits c (E_Delta _) = (c = ''graph_deltas'')"
| "entity_fits c (E_Feedback _) = (c = ''feedback_events'')"
| "entity_fits c (E_Audit _) = (c = ''audit_events'')"
| "entity_fits c (E_Replay _) = (c = ''replay_results'')"
| "entity_fits c (E_Command _) = (c = ''idempotency_results'')"
| "entity_fits c (E_Schedule _) = (c = ''schedule_configs'')"
| "entity_fits c (E_Dict _) = (c \<in> {''registry_activations'', ''improvement_decisions'',
     ''dashboard_preferences'', ''dashboard_assignments''})"

definition rows_typed :: "'p codec \<Rightarrow> 'p state_table \<Rightarrow> bool" where
  \<comment> \<open>every row is a dump of an entity of its collection's contract\<close>
  "rows_typed cd tb = (\<forall>c i p. find_row c i tb = Some p \<longrightarrow> (\<exists>e. entity_fits c e \<and> p = cd_dump cd e))"

lemma rows_typed_save: "rows_typed (rv_codec env) tb \<Longrightarrow> entity_fits c e \<Longrightarrow> rows_typed (rv_codec env) (save env c i pk e tb)"
  by (auto simp: rows_typed_def find_save)

lemma rows_typed_save_all:
  "rows_typed (rv_codec env) tb \<Longrightarrow> (\<And>x. entity_fits c (con x)) \<Longrightarrow> rows_typed (rv_codec env) (save_all env c key pk con xs tb)"
  unfolding save_all_def by (induction xs arbitrary: tb) (simp_all add: rows_typed_save)

definition named_by :: "string \<Rightarrow> (string, jobj) dict \<Rightarrow> bool" where
  \<comment> \<open>dictionaries stored under the id they hold\<close>
  "named_by key d = (dict_ok d \<and> (\<forall>i x. dget d i = Some x \<longrightarrow> jget x key = JStr i))"

definition caches_ok :: "('a, 'v, 'w, 'p) runtime \<Rightarrow> bool" where
  "caches_ok rt = (traces_named (rt_traces rt) \<and> queue_ok (rt_approvals rt) \<and> dict_by au_audit_id (as_events (rt_audit rt))
     \<and> dict_by fd_finding_id (rt_findings rt) \<and> dict_by cs_cursor_id (rt_cursors rt)
     \<and> dict_by ir_record_id (rt_commands rt) \<and> named_by ''activation_id'' (rt_activations rt)
     \<and> named_by ''candidate_id'' (rt_decisions rt) \<and> named_by ''preference_id'' (rt_preferences rt)
     \<and> named_by ''assignment_id'' (rt_assignments rt))"

definition rows_mirror :: "'p codec \<Rightarrow> ('a, 'v, 'w, 'p) runtime \<Rightarrow> 'p state_table \<Rightarrow> bool" where
  "rows_mirror cd rt tb = (dict_ok tb \<and> rows_typed cd tb
     \<and> mirrored cd tb ''agent_runs'' E_Run (tr_runs (rt_traces rt))
     \<and> mirrored cd tb ''agent_step_traces'' E_Step (tr_steps (rt_traces rt))
     \<and> mirrored cd tb ''source_sync_cursors'' E_Cursor (rt_cursors rt)
     \<and> mirrored cd tb ''findings'' E_Finding (rt_findings rt)
     \<and> mirrored cd tb ''idempotency_results'' E_Command (rt_commands rt)
     \<and> mirrored cd tb ''registry_activations'' E_Dict (rt_activations rt)
     \<and> mirrored cd tb ''improvement_decisions'' E_Dict (rt_decisions rt)
     \<and> mirrored cd tb ''dashboard_preferences'' E_Dict (rt_preferences rt)
     \<and> mirrored cd tb ''dashboard_assignments'' E_Dict (rt_assignments rt)
     \<and> mirrored cd tb ''approval_items'' E_Approval (sv_items (rt_approvals rt))
     \<and> mirrored cd tb ''graph_deltas'' E_Delta (sv_deltas (rt_approvals rt))
     \<and> mirrored cd tb ''audit_events'' E_Audit (as_events (rt_audit rt)))"

definition durable :: "'p codec \<Rightarrow> ('a, 'v, 'w, 'p) runtime \<Rightarrow> bool" where
  "durable cd rt = (caches_ok rt \<and> (case rt_store rt of None \<Rightarrow> True | Some tb \<Rightarrow> rows_mirror cd rt tb))"

lemma mirrored_Nil [simp]: "mirrored cd [] c con []"
  by (simp add: mirrored_def find_row_def)

lemma rows_typed_Nil [simp]: "rows_typed cd []"
  by (simp add: rows_typed_def find_row_def)

lemma durable_new: "durable cd (new_runtime artifacts graph vector policy archive sched adapter (Some []))"
  by (simp add: durable_def new_runtime_def caches_ok_def rows_mirror_def traces_named_empty queue_ok_def
      empty_service_def named_by_def) (simp add: empty_traces_def)

section \<open>Single records\<close>

lemma durable_in_store:
  assumes "caches_ok rt'" and "rt_store rt' = rt_store rt" and "durable cd rt"
    and "\<And>tb. rows_mirror cd rt tb \<Longrightarrow> rows_mirror cd rt' (f tb)"
  shows "durable cd (in_store f rt')"
proof -
  have "caches_ok (in_store f rt') = caches_ok rt'" and "rows_mirror cd (in_store f rt') tb = rows_mirror cd rt' tb" for tb
    by (simp_all add: in_store_def caches_ok_def rows_mirror_def)
  with assms show ?thesis by (auto simp: durable_def in_store_def split: option.splits)
qed

lemma durable_caches: "durable cd rt \<Longrightarrow> caches_ok rt"
  by (simp add: durable_def)

lemma named_by_dset: "named_by key d \<Longrightarrow> jget x key = JStr i \<Longrightarrow> named_by key (dset i x d)"
  by (auto simp: named_by_def)

lemma durable_persist_finding:
  assumes "durable (rv_codec env) rt"
  shows "durable (rv_codec env) (persist_finding env f pk rt)"
  unfolding persist_finding_def
  by (rule durable_in_store [OF _ _ assms])
    (use durable_caches [OF assms(1)] assms in \<open>simp_all add: caches_ok_def rows_mirror_def mirrored_save rows_typed_save\<close>)

lemma durable_record_command:
  assumes "durable (rv_codec env) rt"
  shows "durable (rv_codec env) (record_command env r rt)"
  unfolding record_command_def
  by (rule durable_in_store [OF _ _ assms])
    (use durable_caches [OF assms(1)] assms in \<open>simp_all add: caches_ok_def rows_mirror_def mirrored_save rows_typed_save\<close>)

lemma durable_record_activation:
  assumes "durable (rv_codec env) rt" and "jget d ''activation_id'' = JStr i"
  shows "durable (rv_codec env) (record_registry_activation env i d rt)"
  unfolding record_registry_activation_def
  by (rule durable_in_store [OF _ _ assms(1)])
    (use durable_caches [OF assms(1)] assms in \<open>simp_all add: caches_ok_def rows_mirror_def mirrored_save rows_typed_save named_by_dset\<close>)

lemma durable_record_decision:
  assumes "durable (rv_codec env) rt" and "jget d ''candidate_id'' = JStr i"
  shows "durable (rv_codec env) (record_improvement_decision env i d rt)"
  unfolding record_improvement_decision_def
  by (rule durable_in_store [OF _ _ assms(1)])
    (use durable_caches [OF assms(1)] assms in \<open>simp_all add: caches_ok_def rows_mirror_def mirrored_save rows_typed_save named_by_dset\<close>)

lemma durable_record_preference:
  assumes "durable (rv_codec env) rt" and "jget d ''preference_id'' = JStr i"
  shows "durable (rv_codec env) (record_dashboard_preference env i pk d rt)"
  unfolding record_dashboard_preference_def
  by (rule durable_in_store [OF _ _ assms(1)])
    (use durable_caches [OF assms(1)] assms in \<open>simp_all add: caches_ok_def rows_mirror_def mirrored_save rows_typed_save named_by_dset\<close>)

lemma durable_record_assignment:
  assumes "durable (rv_codec env) rt" and "jget d ''assignment_id'' = JStr i"
  shows "durable (rv_codec env) (record_dashboard_assignment env i pk d rt)"
  unfolding record_dashboard_assignment_def
  by (rule durable_in_store [OF _ _ assms(1)])
    (use durable_caches [OF assms(1)] assms in \<open>simp_all add: caches_ok_def rows_mirror_def mirrored_save rows_typed_save named_by_dset\<close>)

lemma durable_record_schedule:
  assumes "durable (rv_codec env) rt"
  shows "durable (rv_codec env) (record_schedule_config env rt)"
  unfolding record_schedule_config_def
  by (rule durable_in_store [OF _ _ assms])
    (use durable_caches [OF assms] in \<open>simp_all add: caches_ok_def rows_mirror_def rows_typed_save\<close>)

section \<open>Audit events\<close>

lemma durable_archive:
  assumes "durable (rv_codec env) rt" and "archive_and_prune_audit env rt = (rt', r)"
  shows "durable (rv_codec env) rt'"
proof -
  obtain au w x where a: "archive_and_prune (rv_archive env) (rv_now env ''archive_and_prune'') (rt_audit rt) (rt_archive rt)
      = ((au, w), x)" by (metis prod.exhaust)
  show ?thesis
  proof (cases x)
    case (Inl e)
    then have "rt_audit rt = au" using a by (auto simp: archive_and_prune_def Let_def split: prod.splits sum.splits)
    with a assms Inl show ?thesis
      by (auto simp: archive_and_prune_audit_def durable_def caches_ok_def rows_mirror_def split: option.splits)
  next
    case (Inr res)
    let ?es = "events_to_archive (rv_now env ''archive_and_prune'') (rt_audit rt)"
    have au: "au = (rt_audit rt)\<lparr>as_events := filter (\<lambda>kv. fst kv \<notin> au_audit_id ` set ?es) (as_events (rt_audit rt))\<rparr>"
      and ids: "pr_pruned_audit_ids res = map au_audit_id ?es"
      using a Inr by (auto simp: archive_and_prune_def Let_def foldl_dpop split: prod.splits sum.splits)
    have rt': "rt' = in_store (\<lambda>tb. foldl (\<lambda>tb i. delete_row ''audit_events'' i tb) tb (map au_audit_id ?es))
        (rt\<lparr>rt_audit := au, rt_archive := w\<rparr>)"
      using assms(2) a Inr ids by (simp add: archive_and_prune_audit_def)
    have ev: "dget (filter (\<lambda>kv. fst kv \<notin> A) d) i = (if i \<in> A then None else dget d i)" for A :: "string set" and d :: "(string, audit_event) dict" and i
      by (induction d) auto
    have kept: "dict_by au_audit_id (filter P (as_events (rt_audit rt)))" for P
      using assms(1) by (auto simp: durable_def caches_ok_def dict_by_def dict_ok_def distinct_map_filter)
    show ?thesis
      unfolding rt' au
    proof (rule durable_in_store [OF _ _ assms(1)])
      show "caches_ok (rt\<lparr>rt_audit := (rt_audit rt)\<lparr>as_events :=
          filter (\<lambda>kv. fst kv \<notin> au_audit_id ` set ?es) (as_events (rt_audit rt))\<rparr>, rt_archive := w\<rparr>)"
        using assms(1) kept by (simp add: durable_def caches_ok_def)
    next
      fix tb assume m: "rows_mirror (rv_codec env) rt tb"
      then have ok: "dict_ok tb" by (simp add: rows_mirror_def)
      note f = find_delete_all [OF ok, where c = "''audit_events''" and ids = "map au_audit_id ?es"]
      from m f show "rows_mirror (rv_codec env) (rt\<lparr>rt_audit := (rt_audit rt)\<lparr>as_events :=
          filter (\<lambda>kv. fst kv \<notin> au_audit_id ` set ?es) (as_events (rt_audit rt))\<rparr>, rt_archive := w\<rparr>)
          (foldl (\<lambda>tb i. delete_row ''audit_events'' i tb) tb (map au_audit_id ?es))"
        by (auto simp: rows_mirror_def rows_typed_def mirrored_def ev split: if_splits)
    qed simp
  qed
qed

section \<open>Runs and their steps\<close>

lemma run_frameD:
  assumes "run_frame run_id tr tr'" and "traces_named tr"
  shows "traces_named tr'" and "i \<noteq> run_id \<Longrightarrow> dget (tr_runs tr') i = dget (tr_runs tr) i"
    and "dget (tr_runs tr) run_id \<noteq> None \<Longrightarrow> dget (tr_runs tr') run_id \<noteq> None"
    and "dget (tr_steps tr') i = dget (tr_steps tr) i \<or> (\<exists>st. dget (tr_steps tr') i = Some st \<and> sp_run_id st = run_id)"
  using assms unfolding run_frame_def by blast+

lemma traces_namedD:
  assumes "traces_named tr"
  shows "dict_by sp_step_id (tr_steps tr)" and "dget (tr_runs tr) i = Some r \<Longrightarrow> rn_run_id r = i"
  using assms traces_wf_run unfolding traces_named_def traces_wf_def by blast+

lemma mirrored_cong: "(\<And>i. dget d' i = dget d i) \<Longrightarrow> mirrored cd tb c con d' = mirrored cd tb c con d"
  by (simp add: mirrored_def)

lemma mirrored_save_fold:
  "mirrored (rv_codec env) tb c con d \<Longrightarrow>
     mirrored (rv_codec env) (save_all env c key pk con xs tb) c con (foldl (\<lambda>d x. dset (key x) x d) d xs)"
  unfolding save_all_def by (induction xs arbitrary: tb d) (simp_all add: mirrored_save)

lemma mirrored_steps:
  assumes "mirrored (rv_codec env) tb ''agent_step_traces'' E_Step (tr_steps tr)" and "dict_ok tb"
    and "run_frame run_id tr tr'" and "traces_named tr"
  shows "mirrored (rv_codec env) (save_all env ''agent_step_traces'' sp_step_id (\<lambda>_. Some pk) E_Step (list_steps run_id tr') tb)
    ''agent_step_traces'' E_Step (tr_steps tr')"
proof -
  note named = run_frameD(1) [OF assms(3,4)]
  show ?thesis
    unfolding list_steps_def
    by (rule mirrored_save_part [OF assms(1,2) traces_namedD(1) [OF named] run_frameD(4) [OF assms(3,4)]])
qed

lemma mirrored_runs:
  assumes m: "mirrored (rv_codec env) tb ''agent_runs'' E_Run (tr_runs tr)"
    and f: "run_frame run_id tr tr'" "traces_named tr"
  shows "mirrored (rv_codec env) (case dget (tr_runs tr') run_id of None \<Rightarrow> tb
       | Some run \<Rightarrow> save env ''agent_runs'' (rn_run_id run) (Some pk) (E_Run run) tb) ''agent_runs'' E_Run (tr_runs tr')"
proof (cases "dget (tr_runs tr') run_id")
  case None
  then have "dget (tr_runs tr') i = dget (tr_runs tr) i" for i
    using run_frameD(2) [OF f, of i] run_frameD(3) [OF f] None by metis
  with None m show ?thesis by (simp add: mirrored_cong [of "tr_runs tr'" "tr_runs tr"])
next
  case (Some run)
  then have "rn_run_id run = run_id"
    by (rule traces_namedD(2) [OF run_frameD(1) [OF f]])
  moreover have "dget (tr_runs tr') i = dget (dset run_id run (tr_runs tr)) i" for i
    using run_frameD(2) [OF f, of i] Some by simp
  ultimately show ?thesis
    using mirrored_save [OF m, of run_id "Some pk" run] Some
    by (simp add: mirrored_cong [of "tr_runs tr'" "dset run_id run (tr_runs tr)"])
qed

lemma mirrored_save_run:
  assumes "mirrored (rv_codec env) tb ''agent_runs'' E_Run (tr_runs tr)"
    and "mirrored (rv_codec env) tb ''agent_step_traces'' E_Step (tr_steps tr)" and "dict_ok tb"
    and "run_frame run_id tr tr'" and "traces_named tr"
    and "dget (tr_runs tr') run_id = Some run"
  shows "mirrored (rv_codec env) (save_run env pk run (list_steps run_id tr') tb) ''agent_runs'' E_Run (tr_runs tr')"
    and "mirrored (rv_codec env) (save_run env pk run (list_steps run_id tr') tb) ''agent_step_traces'' E_Step (tr_steps tr')"
  using mirrored_runs [OF assms(1,4,5), of pk] assms(3,6) mirrored_steps [OF _ _ assms(4,5), of env] assms(2)
  by (simp_all add: save_run_def)

section \<open>The approval queue and the audit trail\<close>

lemma save_edges_keeps:
  assumes "save_edges env nodes es tb = (tb', r)" and "rows_mirror (rv_codec env) rt tb"
  shows "rows_mirror (rv_codec env) rt tb'"
  using assms
proof (induction es arbitrary: tb)
  case Nil
  then show ?case by simp
next
  case (Cons e es)
  show ?case
  proof (cases "dget nodes (te_source_node_id e)")
    case None
    with Cons.prems show ?thesis by simp
  next
    case (Some n)
    have "rows_mirror (rv_codec env) rt (save env ''graph_edges'' (te_edge_id e) (Some (on_project_key n)) (E_Edge e) tb)"
      using Cons.prems(2) by (simp add: rows_mirror_def rows_typed_save)
    with Cons Some show ?thesis by simp
  qed
qed

definition before_queue :: "approval_service \<Rightarrow> audit_service \<Rightarrow> ('a, 'v, 'w, 'p) runtime \<Rightarrow> ('a, 'v, 'w, 'p) runtime" where
  \<comment> \<open>the caches with an earlier queue and audit trail\<close>
  "before_queue sv au rt = rt\<lparr>rt_approvals := sv, rt_audit := au\<rparr>"

lemma save_approval_parts_mirror:
  assumes m: "rows_mirror (rv_codec env) (before_queue sv au rt) tb" and ok: "caches_ok rt"
    and grows: "queue_grows sv (rt_approvals rt)" "queue_ok sv"
      "fst ` set (as_events au) \<subseteq> fst ` set (as_events (rt_audit rt))"
  shows "rows_mirror (rv_codec env) rt (save_approval_parts env rt tb)"
proof -
  have tb: "dict_ok tb" using m by (simp add: rows_mirror_def)
  have keys: "fst ` set (sv_items sv) \<subseteq> fst ` set (sv_items (rt_approvals rt))"
    "fst ` set (sv_deltas sv) \<subseteq> fst ` set (sv_deltas (rt_approvals rt))"
    using grows by (auto simp: queue_grows_def)
  have by_ids: "dict_by ap_approval_id (sv_items (rt_approvals rt))" "dict_by gd_delta_id (sv_deltas (rt_approvals rt))"
    "dict_by au_audit_id (as_events (rt_audit rt))"
    using ok by (simp_all add: caches_ok_def queue_ok_def)
  show ?thesis
    using m tb keys by_ids grows(3)
    by (auto simp: rows_mirror_def before_queue_def save_approval_parts_def rows_typed_save_all
        intro!: mirrored_save_vals)
qed

lemma durable_persist_approval_state:
  assumes "persist_approval_state env rt = (rt', r)" and "caches_ok rt"
    and "\<And>tb. rt_store rt = Some tb \<Longrightarrow> rows_mirror (rv_codec env) (before_queue sv au rt) tb"
    and "queue_grows sv (rt_approvals rt)" "queue_ok sv" "fst ` set (as_events au) \<subseteq> fst ` set (as_events (rt_audit rt))"
  shows "durable (rv_codec env) rt'"
proof (cases "rt_store rt")
  case None
  with assms(1,2) show ?thesis by (simp add: persist_approval_state_def durable_def)
next
  case (Some tb)
  from save_approval_parts_mirror [OF assms(3) [OF Some] assms(2,4,5,6)]
  have "rows_mirror (rv_codec env) rt (save_approval_parts env rt tb)" .
  note saved = save_edges_keeps [OF _ this]
  have "rows_mirror cd (rt\<lparr>rt_store := x\<rparr>) tb' = rows_mirror cd rt tb'" and "caches_ok (rt\<lparr>rt_store := x\<rparr>) = caches_ok rt"
    for cd x tb' by (simp_all add: rows_mirror_def caches_ok_def)
  with assms(1,2) Some saved show ?thesis
    by (auto simp: persist_approval_state_def durable_def split: prod.splits)
qed

lemma audit_now_cases:
  assumes "audit_now env label a rt = (rt', ev)"
  shows "rt' = rt\<lparr>rt_audit := (rt_audit rt)\<lparr>as_events := dset (au_audit_id ev) ev (as_events (rt_audit rt))\<rparr>\<rparr>"
    and "au_target_type ev = ag_target_type a" and "au_target_id ev = ag_target_id a"
  using assms by (auto simp: audit_now_def audit_record_def Let_def)

lemma durable_started:
  assumes "durable (rv_codec env) rt"
  shows "durable (rv_codec env) (record_run_started env rq run_type rt)"
proof -
  obtain rt1 ev where a: "audit_now env ''run_started'' (run_event AA_Run_Started (rq_triggered_by rq)
      (run_actor_role (rq_trigger_source rq)) rq AO_Succeeded None (run_metadata rq run_type)) rt = (rt1, ev)"
    by fastforce
  note rt1 = audit_now_cases(1) [OF a]
  have "durable (rv_codec env) (in_store (save_audit_event env ev) rt1)"
    unfolding save_audit_event_def
    by (rule durable_in_store [OF _ _ assms])
      (use durable_caches [OF assms] in \<open>simp_all add: rt1 caches_ok_def rows_mirror_def mirrored_save rows_typed_save\<close>)
  with a show ?thesis by (simp add: record_run_started_def)
qed

section \<open>Runs that fail\<close>

lemma mirrored_case_save [simp]:
  "c' \<noteq> c \<Longrightarrow> mirrored cd (case x of None \<Rightarrow> tb | Some y \<Rightarrow> save env c (k y) pk (f y) tb) c' con d = mirrored cd tb c' con d"
  by (cases x) simp_all

lemma dict_ok_case_save [simp]: "dict_ok tb \<Longrightarrow> dict_ok (case x of None \<Rightarrow> tb | Some y \<Rightarrow> save env c (k y) pk (f y) tb)"
  by (cases x) simp_all

lemma rows_typed_case_save:
  "rows_typed (rv_codec env) tb \<Longrightarrow> (\<And>y. entity_fits c (f y)) \<Longrightarrow>
     rows_typed (rv_codec env) (case x of None \<Rightarrow> tb | Some y \<Rightarrow> save env c (k y) pk (f y) tb)"
  by (cases x) (simp_all add: rows_typed_save)

lemma rows_mirrorD:
  assumes "rows_mirror cd rt tb"
  shows "dict_ok tb" and "rows_typed cd tb" and "mirrored cd tb ''agent_runs'' E_Run (tr_runs (rt_traces rt))"
    and "mirrored cd tb ''agent_step_traces'' E_Step (tr_steps (rt_traces rt))"
    and "mirrored cd tb ''audit_events'' E_Audit (as_events (rt_audit rt))"
    and "mirrored cd tb ''source_sync_cursors'' E_Cursor (rt_cursors rt)"
    and "mirrored cd tb ''findings'' E_Finding (rt_findings rt)"
  using assms by (simp_all add: rows_mirror_def)

lemma rows_mirror_failure:
  assumes m: "rows_mirror (rv_codec env) rt tb" and f: "run_frame run_id (rt_traces rt) tr'" "traces_named (rt_traces rt)"
    and au: "as_events au = dset (au_audit_id ev) ev (as_events (rt_audit rt))" "dict_by au_audit_id (as_events au)"
    and ev: "au_target_type ev = ''run''" "au_target_id ev = run_id"
    and rt': "rt_traces rt' = tr'" "rt_audit rt' = au" "rt_approvals rt' = rt_approvals rt" "rt_cursors rt' = rt_cursors rt"
      "rt_findings rt' = rt_findings rt" "rt_commands rt' = rt_commands rt" "rt_activations rt' = rt_activations rt"
      "rt_decisions rt' = rt_decisions rt" "rt_preferences rt' = rt_preferences rt" "rt_assignments rt' = rt_assignments rt"
  shows "rows_mirror (rv_codec env) rt'
    (save_all env ''audit_events'' au_audit_id au_project_key E_Audit
       (filter (\<lambda>ev. au_target_type ev = ''run'' \<and> au_target_id ev = run_id) (dvals (as_events au)))
       (save_all env ''agent_step_traces'' sp_step_id (\<lambda>_. Some pk) E_Step (list_steps run_id tr')
         (case dget (tr_runs tr') run_id of None \<Rightarrow> tb
          | Some run \<Rightarrow> save env ''agent_runs'' (rn_run_id run) (Some pk) (E_Run run) tb)))"
    (is "rows_mirror _ _ (save_all _ _ _ _ _ ?evs ?T2)")
proof -
  let ?T1 = "case dget (tr_runs tr') run_id of None \<Rightarrow> tb
          | Some run \<Rightarrow> save env ''agent_runs'' (rn_run_id run) (Some pk) (E_Run run) tb"
  note old = rows_mirrorD [OF m]
  have ok1: "dict_ok ?T1" and ok2: "dict_ok ?T2" using old(1) by simp_all
  have runs: "mirrored (rv_codec env) ?T1 ''agent_runs'' E_Run (tr_runs tr')"
    by (rule mirrored_runs [OF old(3) f])
  have "mirrored (rv_codec env) ?T1 ''agent_step_traces'' E_Step (tr_steps (rt_traces rt))"
    using old(4) by simp
  then have steps: "mirrored (rv_codec env) ?T2 ''agent_step_traces'' E_Step (tr_steps tr')"
    by (rule mirrored_steps [OF _ ok1 f])
  have "mirrored (rv_codec env) ?T2 ''audit_events'' E_Audit (as_events (rt_audit rt))"
    using old(5) ok1 by simp
  moreover have "dget (as_events au) i = dget (as_events (rt_audit rt)) i
      \<or> (\<exists>x. dget (as_events au) i = Some x \<and> au_target_type x = ''run'' \<and> au_target_id x = run_id)" for i
    using ev by (simp add: au(1))
  ultimately have events: "mirrored (rv_codec env) (save_all env ''audit_events'' au_audit_id au_project_key E_Audit ?evs ?T2)
      ''audit_events'' E_Audit (as_events au)"
    by (rule mirrored_save_part [OF _ ok2 au(2)])
  have typed: "rows_typed (rv_codec env) (save_all env ''audit_events'' au_audit_id au_project_key E_Audit ?evs ?T2)"
    by (intro rows_typed_save_all rows_typed_case_save) (simp_all add: old(2))
  show ?thesis
    using m ok1 ok2 runs steps events typed by (simp add: rows_mirror_def rt')
qed

lemma caches_ok_parts:
  "caches_ok rt \<Longrightarrow> traces_named (rt_traces rt)" "caches_ok rt \<Longrightarrow> queue_ok (rt_approvals rt)"
  "caches_ok rt \<Longrightarrow> dict_by au_audit_id (as_events (rt_audit rt))"
  by (simp_all add: caches_ok_def)

lemma durable_failed:
  assumes d: "durable (rv_codec env) rt" and q: "wf_approvals s = rt_approvals rt"
    and f: "run_frame (rq_run_id rq) (rt_traces rt) (wf_traces s)"
  shows "durable (rv_codec env) (record_run_failed env rq run_type e (after_wf s rt))"
proof -
  let ?run = "rq_run_id rq"
  define tr' where "tr' = (if dhas (tr_runs (wf_traces s)) ?run
    then fst (complete_run (rv_now env ''run_failed'') ?run RS_Failed (Some (failure_code_of e)) (Some (exc_text e)) (wf_traces s))
    else wf_traces s)"
  have f': "run_frame ?run (rt_traces rt) tr'"
    using run_frame_trans [OF f run_frame_runs(2)] f by (simp add: tr'_def)
  note ok = durable_caches [OF d]
  note named = caches_ok_parts(1) [OF ok]
  define rt1 where "rt1 = (after_wf s rt)\<lparr>rt_traces := tr'\<rparr>"
  obtain rt2 ev where a: "audit_now env ''run_failed'' (run_event AA_Run_Completed (rq_triggered_by rq)
      (run_actor_role (rq_trigger_source rq)) rq AO_Failed (Some (failure_code_of e))
      (run_metadata rq run_type @ [(''failure_message'', JStr (exc_text e))])) rt1 = (rt2, ev)" by fastforce
  note rt2 = audit_now_cases [OF a]
  have "(if dhas (tr_runs (rt_traces (after_wf s rt))) ?run then (after_wf s rt)\<lparr>rt_traces := fst (complete_run
      (rv_now env ''run_failed'') ?run RS_Failed (Some (failure_code_of e)) (Some (exc_text e)) (rt_traces (after_wf s rt)))\<rparr>
      else after_wf s rt) = rt1"
    by (simp add: rt1_def tr'_def after_wf_def)
  then have "record_run_failed env rq run_type e (after_wf s rt) = persist_runtime_failure env ?run (rq_project_key rq) rt2"
    using a by (simp only: record_run_failed_def Let_def fst_conv)
  moreover have "durable (rv_codec env) (persist_runtime_failure env ?run (rq_project_key rq) rt2)"
    unfolding persist_runtime_failure_def
  proof (rule durable_in_store [OF _ _ d])
    show "caches_ok rt2"
      using ok q run_frameD(1) [OF f' named] by (simp add: rt2(1) rt1_def after_wf_def caches_ok_def dict_by_dset)
    show "rt_store rt2 = rt_store rt" by (simp add: rt2(1) rt1_def after_wf_def)
  next
    fix tb assume m: "rows_mirror (rv_codec env) rt tb"
    have tr: "rt_traces rt2 = tr'" by (simp add: rt2(1) rt1_def)
    show "rows_mirror (rv_codec env) rt2
      (save_all env ''audit_events'' au_audit_id au_project_key E_Audit
         (filter (\<lambda>ev. au_target_type ev = ''run'' \<and> au_target_id ev = ?run) (dvals (as_events (rt_audit rt2))))
         (save_all env ''agent_step_traces'' sp_step_id (\<lambda>_. Some (rq_project_key rq)) E_Step (list_steps ?run (rt_traces rt2))
           (case dget (tr_runs (rt_traces rt2)) ?run of None \<Rightarrow> tb
            | Some run \<Rightarrow> save env ''agent_runs'' (rn_run_id run) (Some (rq_project_key rq)) (E_Run run) tb)))"
      unfolding tr
      by (rule rows_mirror_failure [OF m f' named])
        (use caches_ok_parts(3) [OF ok] rt2(2,3) q in \<open>simp_all add: rt2(1) rt1_def after_wf_def dict_by_dset run_event_def\<close>)
  qed
  ultimately show ?thesis by simp
qed

section \<open>Runs that succeed\<close>

lemma dict_by_fold: "dict_by key d \<Longrightarrow> dict_by key (foldl (\<lambda>d x. dset (key x) x d) d xs)"
  by (induction xs arbitrary: d) auto

lemma mirrored_save_run_other:
  "dict_ok tb \<Longrightarrow> c \<noteq> ''agent_runs'' \<Longrightarrow> c \<noteq> ''agent_step_traces'' \<Longrightarrow>
     mirrored cd (save_run env pk run steps tb) c con d = mirrored cd tb c con d"
  by (simp add: save_run_def)

lemma rows_mirror_run:
  \<comment> \<open>a run with its steps, and its cursor\<close>
  assumes m: "rows_mirror (rv_codec env) rt tb" and f: "run_frame run_id (rt_traces rt) tr'" "traces_named (rt_traces rt)"
    and run: "dget (tr_runs tr') run_id = Some run" "steps = list_steps run_id tr'"
  shows "rows_mirror (rv_codec env) (rt\<lparr>rt_traces := tr'\<rparr>) (save_run env pk run steps tb)"
proof -
  note old = rows_mirrorD [OF m]
  have "dict_ok (save_run env pk run steps tb)" using old(1) by (simp add: save_run_def)
  moreover have "rows_typed (rv_codec env) (save_run env pk run steps tb)"
    unfolding save_run_def by (intro rows_typed_save_all rows_typed_save) (simp_all add: old(2))
  ultimately show ?thesis
    using m old(1) mirrored_save_run [OF old(3,4,1) f run(1), of pk] run(2) by (simp add: rows_mirror_def mirrored_save_run_other)
qed

lemma rows_mirror_sources:
  assumes m: "rows_mirror (rv_codec env) rt tb"
  shows "rows_mirror (rv_codec env) rt (save_sources env pk artifacts chunks tb)"
    and "rows_mirror (rv_codec env) rt (save_calls env pk run_id tr tb)"
    and "rows_mirror (rv_codec env) rt (save_all env ''graph_nodes'' on_node_id (\<lambda>_. Some pk) E_Node nodes tb)"
    and "rows_mirror (rv_codec env) rt (save_all env ''candidate_edges'' te_edge_id (\<lambda>_. Some pk) E_Edge edges tb)"
  using m by (simp_all add: rows_mirror_def save_sources_def save_calls_def rows_typed_save_all)

lemma rows_mirror_cursor:
  assumes m: "rows_mirror (rv_codec env) rt tb"
  shows "rows_mirror (rv_codec env) (rt\<lparr>rt_cursors := dset (cs_cursor_id c) c (rt_cursors rt)\<rparr>) (save_cursor env pk c tb)"
  using m by (simp add: rows_mirror_def save_cursor_def rows_typed_save mirrored_save)

lemma rows_mirror_findings:
  assumes m: "rows_mirror (rv_codec env) rt tb"
  shows "rows_mirror (rv_codec env) (rt\<lparr>rt_findings := foldl (\<lambda>d f. dset (fd_finding_id f) f d) (rt_findings rt) fs\<rparr>)
    (save_all env ''findings'' fd_finding_id (\<lambda>_. Some pk) E_Finding fs tb)"
  using m by (simp add: rows_mirror_def rows_typed_save_all mirrored_save_fold)

lemma rows_mirror_analysis:
  assumes "rows_mirror (rv_codec env) rt tb" and "run_frame run_id (rt_traces rt) tr'" "traces_named (rt_traces rt)"
    and "dget (tr_runs tr') run_id = Some (ar_run r)" "ar_steps r = list_steps run_id tr'"
  shows "rows_mirror (rv_codec env) (rt\<lparr>rt_traces := tr', rt_cursors := dset (cs_cursor_id (ar_source_cursor r)) (ar_source_cursor r) (rt_cursors rt),
      rt_findings := foldl (\<lambda>d f. dset (fd_finding_id f) f d) (rt_findings rt) (ar_findings r)\<rparr>) (save_analysis env tr' r tb)"
proof -
  note run = rows_mirror_run [OF assms]
  note traces = rows_mirror_sources(1) [OF rows_mirror_sources(2) [OF run]]
  note cursor = rows_mirror_cursor [OF traces]
  from rows_mirror_findings [OF rows_mirror_sources(4) [OF rows_mirror_sources(3) [OF cursor]]]
  show ?thesis by (simp add: save_analysis_def save_replay_traces_def Let_def)
qed

lemma rows_mirror_ingestion:
  assumes "rows_mirror (rv_codec env) rt tb" and "run_frame run_id (rt_traces rt) tr'" "traces_named (rt_traces rt)"
    and "dget (tr_runs tr') run_id = Some (ig_run r)" "ig_steps r = list_steps run_id tr'"
  shows "rows_mirror (rv_codec env) (rt\<lparr>rt_traces := tr',
      rt_cursors := dset (cs_cursor_id (ig_source_cursor r)) (ig_source_cursor r) (rt_cursors rt)\<rparr>) (save_ingestion env r tb)"
proof -
  note run = rows_mirror_run [OF assms]
  from rows_mirror_cursor [OF rows_mirror_sources(1) [OF run]]
  show ?thesis by (simp add: save_ingestion_def Let_def)
qed

section \<open>The operations of the runtime\<close>

lemma before_after:
  "rows_mirror cd (rt\<lparr>rt_traces := tr, rt_cursors := cs, rt_findings := fs\<rparr>) tb \<Longrightarrow>
   rt_traces rt' = tr \<Longrightarrow> rt_cursors rt' = cs \<Longrightarrow> rt_findings rt' = fs \<Longrightarrow> rt_commands rt' = rt_commands rt \<Longrightarrow>
   rt_activations rt' = rt_activations rt \<Longrightarrow> rt_decisions rt' = rt_decisions rt \<Longrightarrow>
   rt_preferences rt' = rt_preferences rt \<Longrightarrow> rt_assignments rt' = rt_assignments rt \<Longrightarrow>
   rows_mirror cd (before_queue (rt_approvals rt) (rt_audit rt) rt') tb"
  by (simp add: rows_mirror_def before_queue_def)

lemma durable_rows: "durable cd rt \<Longrightarrow> rt_store rt = Some tb \<Longrightarrow> rows_mirror cd rt tb"
  by (simp add: durable_def)

lemma audit_now_fst: "\<exists>ev. fst (audit_now env label a rt) =
    rt\<lparr>rt_audit := (rt_audit rt)\<lparr>as_events := dset (au_audit_id ev) ev (as_events (rt_audit rt))\<rparr>\<rparr>"
  using audit_now_cases(1) [OF prod.collapse [symmetric, of "audit_now env label a rt"]] by blast

lemma durable_add_analysis:
  assumes d: "durable (rv_codec env) rt" and q: "queue_grows (rt_approvals rt) (wf_approvals s)"
    and f: "run_frame (rq_run_id rq) (rt_traces rt) (wf_traces s)"
    and r: "dget (tr_runs (wf_traces s)) (rq_run_id rq) = Some (ar_run r)" "ar_steps r = list_steps (rq_run_id rq) (wf_traces s)"
    and a: "add_analysis env rq r (after_wf s rt) = (rt', x)"
  shows "durable (rv_codec env) rt'"
proof -
  note ok = durable_caches [OF d]
  define rt1 where "rt1 = (after_wf s rt)\<lparr>rt_analyses := dset (rq_run_id rq) r (rt_analyses (after_wf s rt)),
      rt_cursors := dset (cs_cursor_id (ar_source_cursor r)) (ar_source_cursor r) (rt_cursors (after_wf s rt)),
      rt_findings := foldl (\<lambda>d f. dset (fd_finding_id f) f d) (rt_findings (after_wf s rt)) (ar_findings r)\<rparr>"
  obtain ev where ev: "fst (audit_now env ''run_completed'' (run_event AA_Run_Completed ''local'' ''system'' rq AO_Succeeded None
            [(''scenario'', JStr (rq_scenario rq)), (''nodes'', JInt (int (length (ar_nodes r)))),
             (''candidate_edges'', JInt (int (length (ar_candidate_edges r)))),
             (''findings'', JInt (int (length (ar_findings r)))),
             (''approvals'', JInt (int (length (ar_approvals r))))]) rt1)
      = rt1\<lparr>rt_audit := (rt_audit rt1)\<lparr>as_events := dset (au_audit_id ev) ev (as_events (rt_audit rt1))\<rparr>\<rparr>" (is "_ = ?rt2")
    using audit_now_fst by blast
  have "map_prod id (map_sum id (\<lambda>_. r)) (persist_analysis_result env r ?rt2) = (rt', x)"
    using a unfolding add_analysis_def Let_def rt1_def [symmetric] ev .
  then have run: "fst (persist_analysis_result env r ?rt2) = rt'" by (metis fst_conv fst_map_prod id_apply)
  show ?thesis
  proof (rule durable_persist_approval_state)
    show "persist_approval_state env (in_store (save_analysis env (rt_traces ?rt2) r) ?rt2) = (rt', snd (persist_analysis_result env r ?rt2))"
      using run by (simp add: persist_analysis_result_def prod_eq_iff)
    show "caches_ok (in_store (save_analysis env (rt_traces ?rt2) r) ?rt2)"
      using ok run_frameD(1) [OF f caches_ok_parts(1) [OF ok]] q caches_ok_parts(2) [OF ok]
      by (simp add: in_store_def rt1_def after_wf_def caches_ok_def dict_by_dset dict_by_fold queue_grows_def)
    show "queue_grows (rt_approvals rt) (rt_approvals (in_store (save_analysis env (rt_traces ?rt2) r) ?rt2))"
      using q by (simp add: in_store_def rt1_def after_wf_def)
    show "queue_ok (rt_approvals rt)" by (rule caches_ok_parts(2) [OF ok])
    show "fst ` set (as_events (rt_audit rt)) \<subseteq> fst ` set (as_events (rt_audit (in_store (save_analysis env (rt_traces ?rt2) r) ?rt2)))"
      by (auto simp: in_store_def rt1_def after_wf_def)
  next
    fix tb' assume "rt_store (in_store (save_analysis env (rt_traces ?rt2) r) ?rt2) = Some tb'"
    then obtain tb where tb: "rt_store rt = Some tb" and tb': "tb' = save_analysis env (wf_traces s) r tb"
      by (auto simp: in_store_def rt1_def after_wf_def)
    note m = rows_mirror_analysis [OF durable_rows [OF d tb] f caches_ok_parts(1) [OF ok] r]
    show "rows_mirror (rv_codec env) (before_queue (rt_approvals rt) (rt_audit rt)
        (in_store (save_analysis env (rt_traces ?rt2) r) ?rt2)) tb'"
      unfolding tb' by (rule before_after [OF m]) (simp_all add: in_store_def rt1_def after_wf_def)
  qed
qed

lemma durable_add_ingestion:
  assumes d: "durable (rv_codec env) rt" and q: "wf_approvals s = rt_approvals rt"
    and f: "run_frame (rq_run_id rq) (rt_traces rt) (wf_traces s)"
    and r: "dget (tr_runs (wf_traces s)) (rq_run_id rq) = Some (ig_run r)" "ig_steps r = list_steps (rq_run_id rq) (wf_traces s)"
    and a: "add_ingestion env rq r (after_wf s rt) = (rt', x)"
  shows "durable (rv_codec env) rt'"
proof -
  note ok = durable_caches [OF d]
  define rt1 where "rt1 = (after_wf s rt)\<lparr>rt_ingestions := dset (rq_run_id rq) r (rt_ingestions (after_wf s rt)),
      rt_cursors := dset (cs_cursor_id (ig_source_cursor r)) (ig_source_cursor r) (rt_cursors (after_wf s rt))\<rparr>"
  obtain ev where ev: "fst (audit_now env ''run_completed'' (run_event AA_Run_Completed ''local'' ''system'' rq AO_Succeeded None
            [(''scenario'', JStr (rq_scenario rq)), (''run_type'', JStr ''ingestion''),
             (''artifacts'', JInt (int (length (ig_artifacts r)))), (''chunks'', JInt (int (length (ig_chunks r))))]) rt1)
      = rt1\<lparr>rt_audit := (rt_audit rt1)\<lparr>as_events := dset (au_audit_id ev) ev (as_events (rt_audit rt1))\<rparr>\<rparr>" (is "_ = ?rt2")
    using audit_now_fst by blast
  have "map_prod id (map_sum id (\<lambda>_. r)) (persist_ingestion_result env r ?rt2) = (rt', x)"
    using a unfolding add_ingestion_def Let_def rt1_def [symmetric] ev .
  then have run: "fst (persist_ingestion_result env r ?rt2) = rt'" by (metis fst_conv fst_map_prod id_apply)
  show ?thesis
  proof (rule durable_persist_approval_state)
    show "persist_approval_state env (in_store (save_ingestion env r) ?rt2) = (rt', snd (persist_ingestion_result env r ?rt2))"
      using run by (simp add: persist_ingestion_result_def prod_eq_iff)
    show "caches_ok (in_store (save_ingestion env r) ?rt2)"
      using ok run_frameD(1) [OF f caches_ok_parts(1) [OF ok]] q
      by (simp add: in_store_def rt1_def after_wf_def caches_ok_def dict_by_dset)
    show "queue_grows (rt_approvals rt) (rt_approvals (in_store (save_ingestion env r) ?rt2))"
      using q by (simp add: in_store_def rt1_def after_wf_def queue_grows_def)
    show "queue_ok (rt_approvals rt)" by (rule caches_ok_parts(2) [OF ok])
    show "fst ` set (as_events (rt_audit rt)) \<subseteq> fst ` set (as_events (rt_audit (in_store (save_ingestion env r) ?rt2)))"
      by (auto simp: in_store_def rt1_def after_wf_def)
  next
    fix tb' assume "rt_store (in_store (save_ingestion env r) ?rt2) = Some tb'"
    then obtain tb where tb: "rt_store rt = Some tb" and tb': "tb' = save_ingestion env r tb"
      by (auto simp: in_store_def rt1_def after_wf_def)
    note m = rows_mirror_ingestion [OF durable_rows [OF d tb] f caches_ok_parts(1) [OF ok] r]
    have m': "rows_mirror (rv_codec env) (rt\<lparr>rt_traces := wf_traces s,
        rt_cursors := dset (cs_cursor_id (ig_source_cursor r)) (ig_source_cursor r) (rt_cursors rt), rt_findings := rt_findings rt\<rparr>)
        (save_ingestion env r tb)"
      using m by (simp add: rows_mirror_def)
    show "rows_mirror (rv_codec env) (before_queue (rt_approvals rt) (rt_audit rt)
        (in_store (save_ingestion env r) ?rt2)) tb'"
      unfolding tb' by (rule before_after [OF m']) (simp_all add: in_store_def rt1_def after_wf_def)
  qed
qed

lemma guarded_run_cases:
  assumes "guarded_run env rq run_type (on_workflow m) rt = Some (rt', r)"
  obtains s where "m (wf_of (record_run_started env rq run_type rt)) = Some (s, r)"
    and "rt' = (case r of Inl e \<Rightarrow> record_run_failed env rq run_type e (after_wf s (record_run_started env rq run_type rt))
      | Inr _ \<Rightarrow> after_wf s (record_run_started env rq run_type rt))"
  using assms by (auto simp: guarded_run_def on_workflow_def split: option.splits sum.splits prod.splits)

lemma wf_of_fields: "wf_traces (wf_of rt) = rt_traces rt" "wf_approvals (wf_of rt) = rt_approvals rt"
  by (simp_all add: wf_of_def)

lemma durable_analysis:
  assumes "durable (rv_codec env) rt" and "runtime_analysis env rq rt = Some (rt', r)"
  shows "durable (rv_codec env) rt'"
proof -
  let ?rt0 = "record_run_started env rq ''analysis'' rt"
  let ?m = "run_analysis (rv_wf env) RT_Analysis (rq_run_id rq) (rq_project_key rq) (rq_scenario rq) (rq_triggered_by rq)
    (rq_trigger_source rq)"
  have d: "durable (rv_codec env) ?rt0" by (rule durable_started [OF assms(1)])
  note named = caches_ok_parts(1) [OF durable_caches [OF d]]
  have named': "traces_named (wf_traces (wf_of ?rt0))" using named by (simp add: wf_of_fields)
  have frame: "run_frame (rq_run_id rq) (rt_traces ?rt0) (wf_traces s)" if "?m (wf_of ?rt0) = Some (s, x)" for s x
    using act_keepsD [OF in_run_analysis that] by (simp add: in_run_def wf_of_fields)
  from assms(2) show ?thesis
    unfolding runtime_analysis_def
  proof (cases rule: act_bind_cases)
    case (raised e)
    from raised(1) obtain s where s: "?m (wf_of ?rt0) = Some (s, Inl e)"
      and rt': "rt' = record_run_failed env rq ''analysis'' e (after_wf s ?rt0)"
      by (auto elim: guarded_run_cases)
    have "wf_approvals s = rt_approvals ?rt0"
      using run_analysis_outcome [OF s named'] by (simp add: wf_of_fields)
    then show ?thesis unfolding rt' by (rule durable_failed [OF d _ frame [OF s]])
  next
    case (returned rt1 res)
    from returned(1) obtain s where s: "?m (wf_of ?rt0) = Some (s, Inr res)" and rt1: "rt1 = after_wf s ?rt0"
      by (auto elim: guarded_run_cases)
    note out = run_analysis_outcome [OF s named']
    have "queue_grows (rt_approvals ?rt0) (wf_approvals s)"
      using out stage_edges_grows by (simp add: wf_of_fields)
    then show ?thesis
      using durable_add_analysis [OF d _ frame [OF s], of res] out returned(2) by (simp add: rt1 act_then_def)
  qed
qed

lemma durable_ingestion:
  assumes "durable (rv_codec env) rt" and "runtime_ingestion env rq rt = Some (rt', r)"
  shows "durable (rv_codec env) rt'"
proof -
  let ?rt0 = "record_run_started env rq ''ingestion'' rt"
  let ?m = "ingest (rv_wf env) (rq_run_id rq) (rq_project_key rq) (rq_scenario rq) (rq_triggered_by rq) (rq_trigger_source rq)"
  have d: "durable (rv_codec env) ?rt0" by (rule durable_started [OF assms(1)])
  have frame: "run_frame (rq_run_id rq) (rt_traces ?rt0) (wf_traces s)" if "?m (wf_of ?rt0) = Some (s, x)" for s x
    using act_keepsD [OF in_run_ingest that] by (simp add: in_run_def wf_of_fields)
  from assms(2) show ?thesis
    unfolding runtime_ingestion_def
  proof (cases rule: act_bind_cases)
    case (raised e)
    from raised(1) obtain s where s: "?m (wf_of ?rt0) = Some (s, Inl e)"
      and rt': "rt' = record_run_failed env rq ''ingestion'' e (after_wf s ?rt0)"
      by (auto elim: guarded_run_cases)
    have "wf_approvals s = rt_approvals ?rt0" using ingest_outcome [OF s] by (simp add: wf_of_fields)
    then show ?thesis unfolding rt' by (rule durable_failed [OF d _ frame [OF s]])
  next
    case (returned rt1 res)
    from returned(1) obtain s where s: "?m (wf_of ?rt0) = Some (s, Inr res)" and rt1: "rt1 = after_wf s ?rt0"
      by (auto elim: guarded_run_cases)
    note out = ingest_outcome [OF s]
    show ?thesis
      using durable_add_ingestion [OF d _ frame [OF s], of res] out returned(2) by (simp add: rt1 act_then_def wf_of_fields)
  qed
qed

end
