(* ===== verification/Routes.thy ===== *)
theory Routes
  imports Runtime
begin

text \<open>
  \<open>api/routes/runs.py\<close> and \<open>api/routes/approvals.py\<close>: the handlers on the runtime state. A handler is an
  action: it takes the state and gives the new state with the JSON answer or the exception, which
  FastAPI turns into the status code. Reading and validating the request is the framework's: a handler
  takes the parsed body, and where the source hashes the fields the caller supplied
  (\<open>explicit_model_payload\<close>) these are an argument beside it.
\<close>

section \<open>Dumps of the debug contracts\<close>

definition agent_run_dump :: "agent_run \<Rightarrow> jobj" where
  "agent_run_dump r = [
     (''run_id'', JStr (rn_run_id r)), (''run_type'', JStr (run_type_str (rn_run_type r))),
     (''project_key'', JStr (rn_project_key r)), (''triggered_by'', JStr (rn_triggered_by r)),
     (''trigger_source'', JStr (trigger_source_str (rn_trigger_source r))),
     (''status'', JStr (run_status_str (rn_status r))), (''model_profile_id'', jopt (rn_model_profile_id r)),
     (''prompt_version_ids'', jstrs (rn_prompt_version_ids r)),
     (''input_snapshot_ids'', jstrs (rn_input_snapshot_ids r)), (''started_at'', JTime (rn_started_at r)),
     (''completed_at'', jtime_opt (rn_completed_at r)), (''failure_code'', jopt (rn_failure_code r)),
     (''failure_message'', jopt (rn_failure_message r)), (''schema_version'', JStr ''v1'')]"

definition step_status_str :: "step_status \<Rightarrow> string" where
  "step_status_str s = (case s of SS_Running \<Rightarrow> ''running'' | SS_Succeeded \<Rightarrow> ''succeeded'' | SS_Failed \<Rightarrow> ''failed''
     | SS_Skipped \<Rightarrow> ''skipped'')"

definition validation_status_str :: "validation_status \<Rightarrow> string" where
  "validation_status_str s = (case s of VS_Not_Applicable \<Rightarrow> ''not_applicable'' | VS_Passed \<Rightarrow> ''passed''
     | VS_Failed \<Rightarrow> ''failed'' | VS_Repaired \<Rightarrow> ''repaired'')"

definition step_dump :: "agent_step_trace \<Rightarrow> jobj" where
  "step_dump s = [
     (''step_id'', JStr (sp_step_id s)), (''run_id'', JStr (sp_run_id s)), (''stage_name'', JStr (sp_stage_name s)),
     (''status'', JStr (step_status_str (sp_status s))), (''input_hash'', JStr (sp_input_hash s)),
     (''output_hash'', jopt (sp_output_hash s)), (''output_ref'', jopt (sp_output_ref s)),
     (''retrieval_context_ref'', jopt (sp_retrieval_context_ref s)),
     (''validation_status'', JStr (validation_status_str (sp_validation_status s))),
     (''validation_result'', JObj (sp_validation_result s)), (''started_at'', JTime (sp_started_at s)),
     (''completed_at'', jtime_opt (sp_completed_at s)), (''retry_count'', JInt (sp_retry_count s)),
     (''error_class'', jopt (sp_error_class s)), (''error_message'', jopt (sp_error_message s)),
     (''schema_version'', JStr ''v1'')]"

definition llm_call_dump :: "llm_call_trace \<Rightarrow> jobj" where
  "llm_call_dump t = [
     (''llm_call_id'', JStr (lt_llm_call_id t)), (''run_id'', JStr (lt_run_id t)), (''step_id'', JStr (lt_step_id t)),
     (''model_profile_id'', JStr (lt_model_profile_id t)), (''prompt_version_id'', JStr (lt_prompt_version_id t)),
     (''request_hash'', JStr (lt_request_hash t)), (''response_hash'', jopt (lt_response_hash t)),
     (''masked_payload_ref'', JStr (lt_masked_payload_ref t)), (''raw_response_ref'', jopt (lt_raw_response_ref t)),
     (''parsed_output_ref'', jopt (lt_parsed_output_ref t)), (''input_tokens'', jint_opt (lt_input_tokens t)),
     (''output_tokens'', jint_opt (lt_output_tokens t)),
     (''cost_usd'', (case lt_cost_usd t of None \<Rightarrow> JNull | Some q \<Rightarrow> JFloat q)),
     (''latency_ms'', JInt (lt_latency_ms t)),
     (''validation_status'', JStr (validation_status_str (lt_validation_status t))),
     (''retry_count'', JInt (lt_retry_count t)), (''error_message'', jopt (lt_error_message t)),
     (''schema_version'', JStr ''v1'')]"

definition object_diff_dump :: "object_diff \<Rightarrow> jobj" where
  "object_diff_dump d = [(''added'', jstrs (od_added d)), (''removed'', jstrs (od_removed d)),
     (''changed'', jstrs (od_changed d))]"

definition replay_diff_dump :: "replay_diff_report \<Rightarrow> jobj" where
  "replay_diff_dump r = [
     (''source_run_id'', JStr (rd_source_run_id r)), (''replay_run_id'', JStr (rd_replay_run_id r)),
     (''node_diff'', JObj (object_diff_dump (rd_node_diff r))), (''edge_diff'', JObj (object_diff_dump (rd_edge_diff r))),
     (''finding_diff'', JObj (object_diff_dump (rd_finding_diff r))),
     (''approval_diff'', JObj (object_diff_dump (rd_approval_diff r)))]"

definition replay_dump :: "replay_result \<Rightarrow> jobj" where
  "replay_dump r = [
     (''source_run_id'', JStr (rr_source_run_id r)), (''replay_run_id'', JStr (rr_replay_run_id r)),
     (''replay_mode'', JStr (rr_replay_mode r)),
     (''compared_model_profile_ids'', jstrs (rr_compared_model_profile_ids r)),
     (''compared_prompt_version_ids'', jstrs (rr_compared_prompt_version_ids r)),
     (''diff'', JObj (replay_diff_dump (rr_diff r)))]"

section \<open>The pattern of the routes\<close>

record ('a, 'v, 'w, 'p) route_env =
  ro_env :: "('a, 'v, 'w, 'p) runtime_env"
  ro_auth :: auth_settings
  ro_headers :: headers
  ro_new_id :: "string \<Rightarrow> string"
  ro_schema :: schema
  ro_registry :: "(model_profile list \<times> prompt_version list) result"  \<comment> \<open>the files of the model registry\<close>

type_synonym ('a, 'v, 'w, 'p, 'r) handler = "(('a, 'v, 'w, 'p) runtime, 'r) act"

abbreviation ro_host :: "('a, 'v, 'w, 'p) route_env \<Rightarrow> host" where
  "ro_host R \<equiv> we_host (rv_wf (ro_env R))"

definition act_do :: "('s \<Rightarrow> 's) \<Rightarrow> ('s, unit) act" where
  "act_do f = act_then (\<lambda>s. (f s, Inr ()))"

definition act_read :: "('s \<Rightarrow> 'r result) \<Rightarrow> ('s, 'r) act" where
  "act_read f = act_then (\<lambda>s. (s, f s))"

definition found :: "string \<Rightarrow> 'x option \<Rightarrow> 'x result" where
  "found what x = (case x of None \<Rightarrow> Inl (HTTPException 404 what) | Some x \<Rightarrow> Inr x)"

definition need_project :: "('a, 'v, 'w, 'p) route_env \<Rightarrow> string option \<Rightarrow> string \<Rightarrow> ('a, 'v, 'w, 'p, user_context) handler" where
  "need_project R pk role = act_of (require_project (ro_auth R) (ro_headers R) pk role)"

definition need_role :: "('a, 'v, 'w, 'p) route_env \<Rightarrow> string \<Rightarrow> ('a, 'v, 'w, 'p, user_context) handler" where
  "need_role R role = act_of (require_role (ro_auth R) (ro_headers R) role)"

definition answer_command :: "('a, 'v, 'w, 'p) runtime_env \<Rightarrow> idempotency_context \<Rightarrow> string \<Rightarrow> string option \<Rightarrow> jobj \<Rightarrow>
    ('a, 'v, 'w, 'p) runtime \<Rightarrow> ('a, 'v, 'w, 'p) runtime" where
  \<comment> \<open>\<open>record_idempotency_response\<close> on the runtime\<close>
  "answer_command env ctx name pk response rt =
     (case (ix_key ctx, ix_record_id ctx) of
        (Some key, Some record_id) \<Rightarrow> record_command env
          \<lparr>ir_record_id = record_id, ir_idempotency_key = key, ir_command = name, ir_project_key = pk,
           ir_request_hash = ix_request_hash ctx, ir_response = JObj response\<rparr> rt
      | _ \<Rightarrow> rt)"

definition command :: "('a, 'v, 'w, 'p) route_env \<Rightarrow> string \<Rightarrow> json \<Rightarrow> ('a, 'v, 'w, 'p, jobj \<times> string option) handler \<Rightarrow>
    ('a, 'v, 'w, 'p, jobj) handler" where
  \<comment> \<open>the cached response, or the body, whose response is recorded\<close>
  "command R name payload body =
     act_bind (act_read (\<lambda>rt. prepare_idempotency (ro_host R) (ro_headers R) (rt_commands rt) name payload)) (\<lambda>ctx.
     case ix_cached_response ctx of
       Some response \<Rightarrow> act_return response
     | None \<Rightarrow> act_bind body (\<lambda>(response, pk).
         act_bind (act_do (answer_command (ro_env R) ctx name pk response)) (\<lambda>_. act_return response)))"

definition audited :: "('a, 'v, 'w, 'p) route_env \<Rightarrow> string \<Rightarrow> audit_args \<Rightarrow> ('a, 'v, 'w, 'p, unit) handler" where
  "audited R name a = act_do (\<lambda>rt. fst (audit_now (ro_env R) name a rt))"

definition persisted :: "('a, 'v, 'w, 'p) route_env \<Rightarrow> ('a, 'v, 'w, 'p, unit) handler" where
  "persisted R = act_then (persist_approval_state (ro_env R))"

section \<open>Starting runs\<close>

record run_query =
  \<comment> \<open>\<open>AnalyzeRunRequest\<close> and \<open>IngestRunRequest\<close>\<close>
  rb_project_key :: string
  rb_scenario :: string
  rb_run_id :: "string option"

definition run_query_dump :: "run_query \<Rightarrow> jobj" where
  "run_query_dump q = [(''project_key'', JStr (rb_project_key q)), (''scenario'', JStr (rb_scenario q)),
     (''run_id'', jopt (rb_run_id q))]"

definition api_run :: "('a, 'v, 'w, 'p) route_env \<Rightarrow> string \<Rightarrow> run_query \<Rightarrow> user_context \<Rightarrow> run_request" where
  "api_run R kind q user =
     \<lparr>rq_run_id = opt_str_or (rb_run_id q) (ro_new_id R kind), rq_project_key = rb_project_key q,
      rq_scenario = rb_scenario q, rq_triggered_by = us_user_id user, rq_trigger_source = TS_Api\<rparr>"

definition jlen :: "'x list \<Rightarrow> json" where
  "jlen xs = JInt (int (length xs))"

definition ingestion_response :: "ingestion_result \<Rightarrow> jobj" where
  "ingestion_response r = [(''run'', JObj (agent_run_dump (ig_run r))),
     (''counts'', JObj [(''artifacts'', jlen (ig_artifacts r)), (''chunks'', jlen (ig_chunks r)),
        (''source_warnings'', jlen (ig_source_warnings r))])]"

definition analysis_response :: "analysis_result \<Rightarrow> jobj" where
  "analysis_response r = [(''run'', JObj (agent_run_dump (ar_run r))),
     (''counts'', JObj [(''artifacts'', jlen (ar_artifacts r)), (''chunks'', jlen (ar_chunks r)),
        (''nodes'', jlen (ar_nodes r)), (''candidate_edges'', jlen (ar_candidate_edges r)),
        (''findings'', jlen (ar_findings r)), (''approvals'', jlen (ar_approvals r))])]"

definition post_ingest :: "('a, 'v, 'w, 'p) route_env \<Rightarrow> run_query \<Rightarrow> ('a, 'v, 'w, 'p, jobj) handler" where
  "post_ingest R q =
     act_bind (need_project R (Some (rb_project_key q)) ''developer'') (\<lambda>user.
     command R ''runs.ingest'' (JObj (run_query_dump q))
       (act_bind (runtime_ingestion (ro_env R) (api_run R ''ingest'' q user)) (\<lambda>r.
        act_return (ingestion_response r, Some (rb_project_key q)))))"

definition post_analyze :: "('a, 'v, 'w, 'p) route_env \<Rightarrow> run_query \<Rightarrow> ('a, 'v, 'w, 'p, jobj) handler" where
  "post_analyze R q =
     act_bind (need_project R (Some (rb_project_key q)) ''developer'') (\<lambda>user.
     command R ''runs.analyze'' (JObj (run_query_dump q))
       (act_bind (runtime_analysis (ro_env R) (api_run R ''run'' q user)) (\<lambda>r.
        act_return (analysis_response r, Some (rb_project_key q)))))"

section \<open>Reading runs\<close>

definition sees_project :: "user_context \<Rightarrow> string option \<Rightarrow> bool" where
  \<comment> \<open>the negation of \<open>"*" not in keys and project not in keys\<close>\<close>
  "sees_project user pk = (''*'' \<in> set (us_project_keys user) \<or> pk \<in> Some ` set (us_project_keys user))"

definition list_runs :: "('a, 'v, 'w, 'p) route_env \<Rightarrow> string option \<Rightarrow> ('a, 'v, 'w, 'p, jobj list) handler" where
  "list_runs R pk =
     act_bind (need_role R ''viewer'') (\<lambda>user.
     act_read (\<lambda>rt. Inr (map agent_run_dump
       (filter (\<lambda>r. (pk = None \<or> pk = Some (rn_project_key r)) \<and> sees_project user (Some (rn_project_key r)))
         (sort_key_rev rn_started_at (dvals (tr_runs (rt_traces rt))))))))"

definition run_guard :: "('a, 'v, 'w, 'p) route_env \<Rightarrow> string \<Rightarrow> string \<Rightarrow> ('a, 'v, 'w, 'p, agent_run) handler" where
  \<comment> \<open>the run, or 404, then the check of its project\<close>
  "run_guard R run_id role =
     act_bind (act_read (\<lambda>rt. found ''run not found'' (dget (tr_runs (rt_traces rt)) run_id))) (\<lambda>run.
     act_bind (need_project R (Some (rn_project_key run)) role) (\<lambda>_. act_return run))"

definition get_run :: "('a, 'v, 'w, 'p) route_env \<Rightarrow> string \<Rightarrow> ('a, 'v, 'w, 'p, jobj) handler" where
  "get_run R run_id = act_bind (run_guard R run_id ''viewer'') (\<lambda>run. act_return (agent_run_dump run))"

definition get_steps :: "('a, 'v, 'w, 'p) route_env \<Rightarrow> string \<Rightarrow> ('a, 'v, 'w, 'p, jobj list) handler" where
  "get_steps R run_id = act_bind (run_guard R run_id ''developer'') (\<lambda>_.
     act_read (\<lambda>rt. Inr (map step_dump (list_steps run_id (rt_traces rt)))))"

definition get_llm_calls :: "('a, 'v, 'w, 'p) route_env \<Rightarrow> string \<Rightarrow> ('a, 'v, 'w, 'p, jobj list) handler" where
  "get_llm_calls R run_id = act_bind (run_guard R run_id ''developer'') (\<lambda>_.
     act_read (\<lambda>rt. Inr (map llm_call_dump (filter (\<lambda>t. lt_run_id t = run_id) (dvals (tr_llm_calls (rt_traces rt)))))))"

definition run_artifact_entry :: "agent_step_trace \<Rightarrow> jobj" where
  "run_artifact_entry s = [(''run_id'', JStr (sp_run_id s)), (''step_id'', JStr (sp_step_id s)),
     (''stage_name'', JStr (sp_stage_name s)), (''artifact_ref'', jopt (sp_output_ref s)),
     (''output_hash'', jopt (sp_output_hash s)), (''schema_version'', JStr ''v1'')]"

definition get_run_artifacts :: "('a, 'v, 'w, 'p) route_env \<Rightarrow> string \<Rightarrow> ('a, 'v, 'w, 'p, jobj list) handler" where
  "get_run_artifacts R run_id = act_bind (run_guard R run_id ''developer'') (\<lambda>_.
     act_read (\<lambda>rt. Inr (map run_artifact_entry
       (filter (\<lambda>s. sp_output_ref s \<noteq> None) (list_steps run_id (rt_traces rt))))))"

definition get_graph_delta :: "('a, 'v, 'w, 'p) route_env \<Rightarrow> string \<Rightarrow> ('a, 'v, 'w, 'p, jobj list) handler" where
  "get_graph_delta R run_id = act_bind (run_guard R run_id ''developer'') (\<lambda>_.
     act_read (\<lambda>rt. Inr (map delta_dump
       (filter (\<lambda>d. gd_created_from_run_id d = run_id) (dvals (sv_deltas (rt_approvals rt)))))))"

section \<open>Replays\<close>

record replay_query =
  rp_replay_run_id :: "string option"
  rp_replay_mode :: string
  rp_scenario :: string

definition replay_call :: "('a, 'v, 'w, 'p) runtime_env \<Rightarrow> string \<Rightarrow> run_request \<Rightarrow> string \<Rightarrow> ('a, 'v, 'w, 'p, replay_result) handler" where
  \<comment> \<open>\<open>ReplayService(self.workflow(), self.analyses).replay(...)\<close>\<close>
  "replay_call env source_run_id rq mode rt =
     (case on_workflow (run_analysis (rv_wf env) RT_Replay (rq_run_id rq) (rq_project_key rq) (rq_scenario rq)
          ''replay'' TS_System) rt of
        None \<Rightarrow> None
      | Some (rt', r) \<Rightarrow>
          (case replay (\<lambda>_ _ _ _. (rt', r)) (rt, rt_analyses rt) source_run_id (rq_run_id rq) (rq_project_key rq)
              (rq_scenario rq) mode of
             ((rt'', analyses), res) \<Rightarrow> Some (rt''\<lparr>rt_analyses := analyses\<rparr>, res)))"

definition finish_replay :: "('a, 'v, 'w, 'p) runtime_env \<Rightarrow> string \<Rightarrow> run_request \<Rightarrow> replay_result \<Rightarrow>
    ('a, 'v, 'w, 'p, unit) handler" where
  "finish_replay env source_run_id rq result =
     act_bind (act_do (\<lambda>rt. case audit_now env ''run_completed'' (run_event AA_Run_Completed ''replay'' ''system'' rq AO_Succeeded None
            (run_metadata rq ''replay'' @ [(''source_run_id'', JStr source_run_id),
               (''replay_mode'', JStr (rr_replay_mode result))])) rt of
          (rt1, ev) \<Rightarrow> (in_store (save_audit_event env ev) rt1)\<lparr>rt_replays := dset (rq_run_id rq) result (rt_replays rt1)\<rparr>)) (\<lambda>_.
     act_bind (act_read (\<lambda>rt. case dget (rt_analyses rt) (rq_run_id rq) of
        None \<Rightarrow> Inl (KeyError (rq_run_id rq)) | Some a \<Rightarrow> Inr a)) (\<lambda>a.
     act_bind (act_do (persist_replay_analysis_trace env a)) (\<lambda>_.
     act_do (persist_replay_result env result))))"

definition replay_run :: "('a, 'v, 'w, 'p) route_env \<Rightarrow> string \<Rightarrow> replay_query \<Rightarrow> jobj \<Rightarrow> ('a, 'v, 'w, 'p, jobj) handler" where
  "replay_run R run_id q explicit =
     act_bind (run_guard R run_id ''developer'') (\<lambda>_.
     command R ''runs.replay'' (JObj [(''source_run_id'', JStr run_id), (''replay'', JObj explicit)])
       (act_bind (act_read (\<lambda>rt. found ''run analysis result not available for replay'' (dget (rt_analyses rt) run_id))) (\<lambda>source.
        let rq = \<lparr>rq_run_id = opt_str_or (rp_replay_run_id q) (ro_new_id R ''replay''),
              rq_project_key = rn_project_key (ar_run source), rq_scenario = rp_scenario q,
              rq_triggered_by = ''replay'', rq_trigger_source = TS_System\<rparr> in
        act_bind (guarded_run (ro_env R) rq ''replay'' (replay_call (ro_env R) run_id rq (rp_replay_mode q))) (\<lambda>result.
        act_bind (finish_replay (ro_env R) run_id rq result) (\<lambda>_.
        act_return (replay_dump result, Some (rn_project_key (ar_run source))))))))"

definition get_replay_diff :: "('a, 'v, 'w, 'p) route_env \<Rightarrow> string \<Rightarrow> ('a, 'v, 'w, 'p, jobj) handler" where
  "get_replay_diff R replay_id =
     act_bind (act_read (\<lambda>rt. found ''replay not found'' (dget (rt_replays rt) replay_id))) (\<lambda>r.
     act_bind (act_read (\<lambda>rt. found ''source run not found'' (dget (tr_runs (rt_traces rt)) (rr_source_run_id r)))) (\<lambda>run.
     act_bind (need_project R (Some (rn_project_key run)) ''developer'') (\<lambda>_.
     act_return (replay_dump r))))"

section \<open>Findings\<close>

definition finding_project_key :: "memory_graph \<Rightarrow> finding \<Rightarrow> string option" where
  "finding_project_key g f =
     (case List.map_filter (dget (gr_nodes g)) (fd_affected_node_ids f) of
        n # _ \<Rightarrow> Some (on_project_key n)
      | [] \<Rightarrow>
          (case List.map_filter (\<lambda>i. Option.bind (dget (gr_edges g) i) (\<lambda>e. dget (gr_nodes g) (te_source_node_id e)))
              (fd_affected_edge_ids f) of
             n # _ \<Rightarrow> Some (on_project_key n)
           | [] \<Rightarrow> None))"

definition list_findings :: "('a, 'v, 'w, 'p) route_env \<Rightarrow> ('a, 'v, 'w, 'p, jobj list) handler" where
  "list_findings R =
     act_bind (need_role R ''developer'') (\<lambda>user.
     act_read (\<lambda>rt. Inr (map finding_dump
       (filter (\<lambda>f. sees_project user (finding_project_key (rt_graph rt) f)) (dvals (rt_findings rt))))))"

definition get_finding :: "('a, 'v, 'w, 'p) route_env \<Rightarrow> string \<Rightarrow> ('a, 'v, 'w, 'p, jobj) handler" where
  "get_finding R finding_id =
     act_bind (act_read (\<lambda>rt. rbind (found ''finding not found'' (dget (rt_findings rt) finding_id))
       (\<lambda>f. Inr (f, finding_project_key (rt_graph rt) f)))) (\<lambda>(f, pk).
     act_bind (need_project R pk ''developer'') (\<lambda>_. act_return (finding_dump f)))"

record finding_status_query =
  fq_status :: finding_status
  fq_updated_by :: string
  fq_reason_code :: "string option"
  fq_comment :: "string option"

definition update_finding_status :: "('a, 'v, 'w, 'p) route_env \<Rightarrow> string \<Rightarrow> finding_status_query \<Rightarrow> jobj \<Rightarrow>
    ('a, 'v, 'w, 'p, jobj) handler" where
  "update_finding_status R finding_id q explicit =
     act_bind (act_read (\<lambda>rt. rbind (found ''finding not found'' (dget (rt_findings rt) finding_id))
       (\<lambda>f. Inr (f, finding_project_key (rt_graph rt) f)))) (\<lambda>(f, pk).
     act_bind (need_project R pk ''operator'') (\<lambda>user.
     command R ''findings.status'' (JObj [(''finding_id'', JStr finding_id), (''status'', JObj explicit)])
       (let updated = f\<lparr>fd_approval_status := fq_status q\<rparr> in
        act_bind (act_do (persist_finding (ro_env R) updated pk)) (\<lambda>_.
        act_bind (audited R ''finding_status''
          \<lparr>ag_action = AA_Finding_Status_Changed, ag_actor_id = str_or (fq_updated_by q) (us_user_id user),
           ag_target_type = ''finding'', ag_target_id = finding_id, ag_project_key = pk,
           ag_actor_role = Some (us_role user), ag_outcome = AO_Succeeded, ag_reason_code = fq_reason_code q,
           ag_metadata = Some [(''from_status'', JStr (finding_status_str (fd_approval_status f))),
             (''to_status'', JStr (finding_status_str (fq_status q))), (''comment'', jopt (fq_comment q))]\<rparr>) (\<lambda>_.
        act_bind (persisted R) (\<lambda>_. act_return (finding_dump updated, pk)))))))"

section \<open>The schedule\<close>

definition schedule_config_dump :: "schedule_config \<Rightarrow> jobj" where
  "schedule_config_dump c = [(''enabled'', JBool (cf_enabled c)), (''interval_seconds'', JInt (cf_interval_seconds c)),
     (''project_key'', JStr (cf_project_key c)), (''scenario'', JStr (cf_scenario c)),
     (''run_id_prefix'', JStr (cf_run_id_prefix c)), (''lease_name'', JStr (cf_lease_name c)),
     (''lease_ttl_seconds'', JInt (cf_lease_ttl_seconds c)), (''schema_version'', JStr ''v1'')]"

definition schedule_status_dump :: "schedule_status \<Rightarrow> jobj" where
  "schedule_status_dump s = [(''enabled'', JBool (ss_enabled s)), (''running'', JBool (ss_running s)),
     (''interval_seconds'', JInt (ss_interval_seconds s)), (''project_key'', JStr (ss_project_key s)),
     (''scenario'', JStr (ss_scenario s)), (''last_run_id'', jopt (ss_last_run_id s)),
     (''last_started_at'', jtime_opt (ss_last_started_at s)), (''last_completed_at'', jtime_opt (ss_last_completed_at s)),
     (''last_error'', jopt (ss_last_error s)), (''next_run_at'', jtime_opt (ss_next_run_at s)),
     (''runs_started'', JInt (int (ss_runs_started s))), (''lease_name'', JStr (ss_lease_name s)),
     (''lease_owner_id'', JStr (ss_lease_owner_id s)), (''lease_enabled'', JBool (ss_lease_enabled s)),
     (''lease_skips'', JInt (int (ss_lease_skips s))), (''schema_version'', JStr ''v1'')]"

definition scheduled_run_dump :: "scheduled_run_result \<Rightarrow> jobj" where
  "scheduled_run_dump r = [(''run_id'', JStr (sr_run_id r)), (''started_at'', JTime (sr_started_at r)),
     (''completed_at'', jtime_opt (sr_completed_at r)), (''error'', jopt (sr_error r)), (''schema_version'', JStr ''v1'')]"

definition schedule_project :: "('a, 'v, 'w, 'p) runtime \<Rightarrow> string" where
  "schedule_project rt = cf_project_key (sd_config (rt_scheduler rt))"

definition get_schedule :: "('a, 'v, 'w, 'p) route_env \<Rightarrow> ('a, 'v, 'w, 'p, jobj) handler" where
  "get_schedule R =
     act_bind (act_read (\<lambda>rt. Inr (schedule_project rt))) (\<lambda>pk.
     act_bind (need_project R (Some pk) ''viewer'') (\<lambda>_.
     act_read (\<lambda>rt. Inr (schedule_status_dump (scheduler_status (rt_scheduler rt))))))"

definition schedule_event :: "audit_action \<Rightarrow> user_context \<Rightarrow> string \<Rightarrow> string \<Rightarrow> string \<Rightarrow> jobj \<Rightarrow> audit_args" where
  "schedule_event action user pk target_type target_id metadata =
     \<lparr>ag_action = action, ag_actor_id = us_user_id user, ag_target_type = target_type, ag_target_id = target_id,
      ag_project_key = Some pk, ag_actor_role = Some (us_role user), ag_outcome = AO_Succeeded,
      ag_reason_code = None, ag_metadata = Some metadata\<rparr>"

definition configure_schedule :: "('a, 'v, 'w, 'p) route_env \<Rightarrow> schedule_config \<Rightarrow> ('a, 'v, 'w, 'p, jobj) handler" where
  "configure_schedule R c =
     act_bind (need_project R (Some (cf_project_key c)) ''operator'') (\<lambda>user.
     command R ''schedule.configure'' (JObj (schedule_config_dump c))
       (act_bind (act_do (\<lambda>rt. rt\<lparr>rt_scheduler := scheduler_configure (rv_now (ro_env R) ''configure'') c (rt_scheduler rt)\<rparr>)) (\<lambda>_.
        act_bind (act_read (\<lambda>rt. Inr (scheduler_status (rt_scheduler rt)))) (\<lambda>status.
        act_bind (audited R ''schedule_configured'' (schedule_event AA_Schedule_Configured user (cf_project_key c)
          ''schedule'' ''default'' (schedule_config_dump c))) (\<lambda>_.
        act_bind (act_do (record_schedule_config (ro_env R))) (\<lambda>_.
        act_bind (persisted R) (\<lambda>_.
        act_return (schedule_status_dump status, Some (cf_project_key c)))))))))"

definition scheduled_runner :: "('a, 'v, 'w, 'p) runtime_env \<Rightarrow> string \<Rightarrow> trigger_source \<Rightarrow> string \<Rightarrow> string \<Rightarrow> string \<Rightarrow>
    ('a, 'v, 'w, 'p) runtime option \<Rightarrow> ('a, 'v, 'w, 'p) runtime option \<times> string option" where
  \<comment> \<open>the callback of the scheduler; \<open>None\<close> once a run did not return\<close>
  "scheduled_runner env by src run_id pk sc st =
     (case st of
        None \<Rightarrow> (None, None)
      | Some rt \<Rightarrow>
          (case runtime_analysis env \<lparr>rq_run_id = run_id, rq_project_key = pk, rq_scenario = sc,
               rq_triggered_by = by, rq_trigger_source = src\<rparr> rt of
             None \<Rightarrow> (None, None)
           | Some (rt', Inl e) \<Rightarrow> (Some rt', Some (exc_text e))
           | Some (rt', Inr _) \<Rightarrow> (Some rt', None)))"

definition scheduler_run_now :: "('a, 'v, 'w, 'p) route_env \<Rightarrow> string \<Rightarrow> ('a, 'v, 'w, 'p, scheduled_run_result) handler" where
  \<comment> \<open>\<open>run_now\<close> takes no lease\<close>
  "scheduler_run_now R by rt =
     (case run_now \<lparr>en_acquire = (\<lambda>_ _ _ e. (e, True)), en_release = (\<lambda>_ _ e. e),
          en_runner = scheduled_runner (ro_env R) by TS_Manual, en_new_id = (\<lambda>p e. (e, ro_new_id R p))\<rparr>
          (rv_now (ro_env R) ''run_now_started'') (rv_now (ro_env R) ''run_now_completed'') (rt_scheduler rt) (Some rt) of
        ((sd, None), _) \<Rightarrow> None
      | ((sd, Some rt'), r) \<Rightarrow> Some (rt'\<lparr>rt_scheduler := sd\<rparr>, Inr r))"

definition run_schedule_now :: "('a, 'v, 'w, 'p) route_env \<Rightarrow> ('a, 'v, 'w, 'p, jobj) handler" where
  "run_schedule_now R =
     act_bind (act_read (\<lambda>rt. Inr (schedule_project rt, sd_config (rt_scheduler rt)))) (\<lambda>(pk, c).
     act_bind (need_project R (Some pk) ''operator'') (\<lambda>user.
     command R ''schedule.run_now'' (JObj (schedule_config_dump c))
       (act_bind (scheduler_run_now R (us_user_id user)) (\<lambda>r.
        act_bind (act_read (\<lambda>rt. Inr (schedule_project rt))) (\<lambda>pk'.
        act_bind (audited R ''schedule_run_now'' (schedule_event AA_Schedule_Run_Now user pk' ''run'' (sr_run_id r)
          (scheduled_run_dump r))) (\<lambda>_.
        act_bind (persisted R) (\<lambda>_.
        act_return (scheduled_run_dump r, Some pk'))))))))"

section \<open>Approvals\<close>

definition list_approvals :: "('a, 'v, 'w, 'p) route_env \<Rightarrow> string option \<Rightarrow> ('a, 'v, 'w, 'p, jobj list) handler" where
  "list_approvals R pk =
     act_bind (need_project R pk ''developer'') (\<lambda>_.
     act_read (\<lambda>rt. Inr (map approval_dump
       (filter (\<lambda>a. pk = None \<or> pk = Some (ap_project_key a)) (dvals (sv_items (rt_approvals rt)))))))"

definition runtime_decide :: "('a, 'v, 'w, 'p) route_env \<Rightarrow> approval_decision \<Rightarrow> ('a, 'v, 'w, 'p, approval_item) handler" where
  \<comment> \<open>\<open>runtime.approvals.decide(decision, runtime.graph)\<close>\<close>
  "runtime_decide R d = act_then (\<lambda>rt.
     case decide (apply_delta (ro_schema R)) (ro_schema R) (ro_host R) (rv_now (ro_env R) ''decide'') d (rt_approvals rt) (rt_graph rt) of
       ((sv, g), r) \<Rightarrow> (rt\<lparr>rt_approvals := sv, rt_graph := g\<rparr>, r))"

definition decision_event :: "approval_decision \<Rightarrow> approval_item \<Rightarrow> audit_args" where
  "decision_event d item =
     \<lparr>ag_action = AA_Approval_Decided, ag_actor_id = ad_decided_by d, ag_target_type = ''approval'',
      ag_target_id = ad_approval_id d, ag_project_key = Some (ap_project_key item),
      ag_actor_role = Some (ap_owner_role item),
      ag_outcome = (if ap_status item = IT_Stale then AO_Blocked else AO_Succeeded),
      ag_reason_code = ad_reason_code d,
      ag_metadata = Some [(''decision_action'', JStr (decision_action_str (ad_action d))),
        (''result_status'', JStr (item_status_str (ap_status item))), (''proposal_ref'', JStr (ap_proposal_ref item)),
        (''expected_version'', jint_opt (ad_expected_version d)), (''actual_version'', JInt (ap_version item)),
        (''expected_proposal_hash'', jopt (ad_expected_proposal_hash d))]\<rparr>"

definition decide_approval :: "('a, 'v, 'w, 'p) route_env \<Rightarrow> string \<Rightarrow> approval_decision \<Rightarrow> jobj \<Rightarrow>
    ('a, 'v, 'w, 'p, jobj) handler" where
  "decide_approval R approval_id d explicit =
     act_bind (act_of (if ad_approval_id d \<noteq> approval_id then Inl (HTTPException 400 ''approval_id mismatch'') else Inr ())) (\<lambda>_.
     act_bind (act_read (\<lambda>rt. found ''approval not found'' (dget (sv_items (rt_approvals rt)) approval_id))) (\<lambda>before.
     act_bind (need_project R (Some (ap_project_key before)) ''operator'') (\<lambda>_.
     command R ''approvals.decision'' (JObj [(''approval_id'', JStr approval_id), (''decision'', JObj explicit)])
       (act_bind (runtime_decide R d) (\<lambda>item.
        act_bind (audited R ''approval_decided'' (decision_event d item)) (\<lambda>_.
        act_bind (persisted R) (\<lambda>_.
        act_return (approval_dump item, Some (ap_project_key item)))))))))"

section \<open>Steps of a handler\<close>

lemma act_of_apply: "act_of r s = Some (s, r)"
  by (simp add: act_of_def)

lemma act_read_apply: "act_read f s = Some (s, f s)"
  by (simp add: act_read_def act_then_def)

lemma act_do_apply: "act_do f s = Some (f s, Inr ())"
  by (simp add: act_do_def act_then_def)

lemmas act_apply = act_of_apply act_read_apply act_do_apply act_return_def

end
