(* ===== verification/Improvements.thy ===== *)
theory Improvements
  imports Routes Evals
begin

text \<open>
  \<open>api/routes/feedback.py\<close>: recording feedback, the evaluation routes and the controlled promotion and
  rollback of improvement candidates. The candidates are built anew from the feedback on every request;
  what was decided about one is the dictionary recorded under its id, from which status, evaluation run
  and reviewer are taken without validation, so that these three are JSON values here.
\<close>

section \<open>Feedback and evaluation\<close>

definition feedback_event_args :: "feedback_event \<Rightarrow> audit_args" where
  "feedback_event_args f =
     \<lparr>ag_action = AA_Feedback_Recorded, ag_actor_id = fb_user_id f,
      ag_target_type = feedback_target_str (fb_target_type f), ag_target_id = fb_target_id f,
      ag_project_key = None, ag_actor_role = Some (fb_user_role f), ag_outcome = AO_Succeeded,
      ag_reason_code = map_option reason_str (fb_reason_code f),
      ag_metadata = Some [(''feedback_id'', JStr (fb_feedback_id f)),
        (''action'', JStr (feedback_action_str (fb_action f)))]\<rparr>"

definition post_feedback :: "('a, 'v, 'w, 'p) route_env \<Rightarrow> feedback_event \<Rightarrow> jobj \<Rightarrow> ('a, 'v, 'w, 'p, jobj) handler" where
  \<comment> \<open>\<open>record_feedback\<close>\<close>
  "post_feedback R f explicit =
     act_bind (need_role R ''developer'') (\<lambda>_.
     command R ''feedback.record'' (JObj explicit)
       (act_bind (act_do (\<lambda>rt. rt\<lparr>rt_approvals := (rt_approvals rt)\<lparr>sv_feedback := sv_feedback (rt_approvals rt) @ [f]\<rparr>\<rparr>)) (\<lambda>_.
        act_bind (audited R ''feedback_recorded'' (feedback_event_args f)) (\<lambda>_.
        act_bind (persisted R) (\<lambda>_. act_return (feedback_dump f, None))))))"

definition eval_candidate_dump :: "eval_dataset_candidate \<Rightarrow> jobj" where
  "eval_candidate_dump c = [(''dataset_path'', JStr (ed_dataset_path c)), (''reason_code'', JStr (ed_reason_code c)),
     (''feedback_ids'', jstrs (ed_feedback_ids c)), (''target_ids'', jstrs (ed_target_ids c))]"

definition eval_candidates :: "('a, 'v, 'w, 'p) route_env \<Rightarrow> ('a, 'v, 'w, 'p, jobj list) handler" where
  "eval_candidates R = act_bind (need_role R ''developer'') (\<lambda>_.
     act_read (\<lambda>rt. Inr (map eval_candidate_dump (build_eval_candidates (sv_feedback (rt_approvals rt))))))"

definition current_gate :: "('a, 'v, 'w, 'p) route_env \<Rightarrow> ('a, 'v, 'w, 'p) runtime \<Rightarrow> eval_gate_result" where
  "current_gate R rt = run_local_eval_gate (build_eval_candidates (sv_feedback (rt_approvals rt))) (ro_new_id R ''eval'') None"

definition eval_gate :: "('a, 'v, 'w, 'p) route_env \<Rightarrow> ('a, 'v, 'w, 'p, jobj) handler" where
  "eval_gate R = act_bind (need_role R ''developer'') (\<lambda>_. act_read (\<lambda>rt. Inr (gate_dump (current_gate R rt))))"

definition feedback_summary :: "('a, 'v, 'w, 'p) route_env \<Rightarrow> ('a, 'v, 'w, 'p, (string, int) dict) handler" where
  "feedback_summary R = act_bind (need_role R ''developer'') (\<lambda>_.
     act_read (\<lambda>rt. Inr (feedback_counts_by_reason (sv_feedback (rt_approvals rt)))))"

section \<open>Candidates with their decisions\<close>

record live_candidate =
  lc_base :: improvement_candidate
  lc_status :: json
  lc_eval_run_id :: json
  lc_reviewed_by :: json

definition apply_recorded_decision :: "(string, jobj) dict \<Rightarrow> improvement_candidate \<Rightarrow> live_candidate" where
  "apply_recorded_decision decisions c =
     (let d = (case dget decisions (ic_candidate_id c) of None \<Rightarrow> [] | Some d \<Rightarrow> d) in
      \<lparr>lc_base = c, lc_status = jget_or d ''status'' (JStr (improvement_status_str (ic_status c))),
       lc_eval_run_id = jget_or d ''eval_run_id'' (jopt (ic_eval_run_id c)),
       lc_reviewed_by = jget_or d ''reviewed_by'' (jopt (ic_reviewed_by c))\<rparr>)"

definition live_dump :: "live_candidate \<Rightarrow> jobj" where
  "live_dump c = dset ''reviewed_by'' (lc_reviewed_by c) (dset ''status'' (lc_status c)
     (dset ''eval_run_id'' (lc_eval_run_id c) (improvement_dump (lc_base c))))"

definition current_candidates :: "('a, 'v, 'w, 'p) route_env \<Rightarrow> ('a, 'v, 'w, 'p) runtime \<Rightarrow> improvement_candidate list" where
  "current_candidates R rt = build_improvement_candidates (ro_host R) (sv_feedback (rt_approvals rt)) ''local_active''
     (rv_now (ro_env R) ''candidates'')"

definition improvement_candidates :: "('a, 'v, 'w, 'p) route_env \<Rightarrow> ('a, 'v, 'w, 'p, jobj list) handler" where
  "improvement_candidates R = act_bind (need_role R ''developer'') (\<lambda>_.
     act_read (\<lambda>rt. Inr (map (\<lambda>c. live_dump (apply_recorded_decision (rt_decisions rt) c)) (current_candidates R rt))))"

definition find_candidate :: "string \<Rightarrow> improvement_candidate list \<Rightarrow> improvement_candidate option" where
  "find_candidate candidate_id cs = find (\<lambda>c. ic_candidate_id c = candidate_id) cs"

definition candidate_now :: "('a, 'v, 'w, 'p) route_env \<Rightarrow> string \<Rightarrow> ('a, 'v, 'w, 'p, live_candidate) handler" where
  \<comment> \<open>the candidate with its decision, or 404\<close>
  "candidate_now R candidate_id = act_read (\<lambda>rt.
     rbind (found ''improvement candidate not found'' (find_candidate candidate_id (current_candidates R rt)))
       (\<lambda>c. Inr (apply_recorded_decision (rt_decisions rt) c)))"

section \<open>Promotion\<close>

record activation_query =
  aq_reviewer_approved :: bool
  aq_canary_passed :: bool

definition activation_target_status :: "activation_query \<Rightarrow> improvement_status" where
  "activation_target_status q =
     (if \<not> aq_reviewer_approved q then IS_Review_Ready
      else if \<not> aq_canary_passed q then IS_Canary
      else IS_Active)"

definition status_order :: "(string, nat) dict" where
  "status_order = [(''draft'', 0), (''eval_running'', 1), (''review_ready'', 2), (''approved'', 3), (''canary'', 4),
     (''active'', 5), (''rolled_back'', 6), (''rejected'', 6)]"

definition require_forward_transition :: "json \<Rightarrow> improvement_status \<Rightarrow> unit result" where
  "require_forward_transition current target =
     (case current of
        JStr s \<Rightarrow>
          if s \<in> {''rolled_back'', ''rejected''} then Inl (HTTPException 409 ''improvement candidate is closed'')
          else (case (dget status_order (improvement_status_str target), dget status_order s) of
              (Some t, Some c) \<Rightarrow>
                if t < c then Inl (HTTPException 409 ''improvement promotion cannot move backwards'') else Inr ()
            | _ \<Rightarrow> Inl (KeyError s))
      | JList _ \<Rightarrow> Inl (PyTypeError ''unhashable type'')
      | JObj _ \<Rightarrow> Inl (PyTypeError ''unhashable type'')
      | _ \<Rightarrow> Inl (KeyError ''''))"

definition promotion_status_for :: "activation_query \<Rightarrow> string" where
  "promotion_status_for q =
     (if \<not> aq_reviewer_approved q then ''review_required''
      else if \<not> aq_canary_passed q then ''canary_required'' else ''active'')"

definition activation_decision :: "activation_query \<Rightarrow> user_context \<Rightarrow> eval_gate_result \<Rightarrow> json \<Rightarrow> live_candidate \<Rightarrow> jobj" where
  "activation_decision q user gate previous c =
     dset ''previous_status'' previous
       (dset ''decision_type'' (JStr ''activation'')
         (dset ''eval_gate'' (JObj (gate_dump gate))
           (dset ''promotion_status'' (JStr (promotion_status_for q))
             (live_dump (c\<lparr>lc_eval_run_id := JStr (eg_eval_run_id gate),
                lc_status := JStr (improvement_status_str (activation_target_status q)),
                lc_reviewed_by := (if aq_reviewer_approved q then JStr (us_user_id user) else JNull)\<rparr>)))))"

definition improvement_event :: "audit_action \<Rightarrow> string \<Rightarrow> user_context \<Rightarrow> string \<Rightarrow> string option \<Rightarrow> jobj \<Rightarrow> audit_args" where
  "improvement_event action actor user candidate_id reason metadata =
     \<lparr>ag_action = action, ag_actor_id = actor, ag_target_type = ''improvement_candidate'', ag_target_id = candidate_id,
      ag_project_key = None, ag_actor_role = Some (us_role user), ag_outcome = AO_Succeeded,
      ag_reason_code = reason, ag_metadata = Some metadata\<rparr>"

definition record_decided :: "('a, 'v, 'w, 'p) route_env \<Rightarrow> string \<Rightarrow> jobj \<Rightarrow> string \<Rightarrow> audit_args \<Rightarrow>
    ('a, 'v, 'w, 'p, jobj \<times> string option) handler" where
  \<comment> \<open>the end promotion and rollback have in common\<close>
  "record_decided R candidate_id result label a =
     act_bind (act_do (record_improvement_decision (ro_env R) candidate_id result)) (\<lambda>_.
     act_bind (audited R label a) (\<lambda>_.
     act_bind (persisted R) (\<lambda>_. act_return (result, None))))"

definition previous_status :: "('a, 'v, 'w, 'p) runtime \<Rightarrow> string \<Rightarrow> json" where
  \<comment> \<open>\<open>decisions.get(candidate_id, {}).get("status", "draft")\<close>\<close>
  "previous_status rt candidate_id =
     jget_or (case dget (rt_decisions rt) candidate_id of None \<Rightarrow> [] | Some d \<Rightarrow> d) ''status'' (JStr ''draft'')"

definition activate_improvement :: "('a, 'v, 'w, 'p) route_env \<Rightarrow> string \<Rightarrow> activation_query \<Rightarrow> jobj \<Rightarrow>
    ('a, 'v, 'w, 'p, jobj) handler" where
  "activate_improvement R candidate_id q explicit =
     act_bind (need_role R ''admin'') (\<lambda>user.
     act_bind (candidate_now R candidate_id) (\<lambda>c.
     command R ''improvements.activate'' (JObj [(''candidate_id'', JStr candidate_id), (''promotion'', JObj explicit)])
       (act_bind (act_of (require_forward_transition (lc_status c) (activation_target_status q))) (\<lambda>_.
        act_bind (act_read (\<lambda>rt. let gate = current_gate R rt in
          if eg_status gate \<noteq> Gate_Passed then Inl (HTTPException 409 ''eval gate blocked activation'')
          else Inr (gate, previous_status rt candidate_id))) (\<lambda>(gate, previous).
        record_decided R candidate_id (activation_decision q user gate previous c) ''improvement_activated''
          (improvement_event AA_Improvement_Activated (us_user_id user) user candidate_id None
            [(''candidate_type'', JStr (improvement_type_str (ic_candidate_type (lc_base c)))),
             (''promotion_status'', JStr (promotion_status_for q)), (''eval_run_id'', JStr (eg_eval_run_id gate))]))))))"

section \<open>Rollback\<close>

record rollback_query =
  rk_rolled_back_by :: "string option"
  rk_reason_code :: string
  rk_comment :: "string option"

definition rollback_decision :: "rollback_query \<Rightarrow> string \<Rightarrow> live_candidate \<Rightarrow> jobj" where
  "rollback_decision q actor c =
     dset ''comment'' (jopt (rk_comment q))
       (dset ''reason_code'' (JStr (rk_reason_code q))
         (dset ''rolled_back_by'' (JStr actor)
           (dset ''restored_version_id'' (JStr (ic_before_version_id (lc_base c)))
             (dset ''rollback_status'' (JStr ''rolled_back'')
               (dset ''previous_status'' (lc_status c)
                 (dset ''decision_type'' (JStr ''rollback'')
                   (live_dump (c\<lparr>lc_status := JStr ''rolled_back''\<rparr>))))))))"

definition require_rollbackable :: "json \<Rightarrow> unit result" where
  \<comment> \<open>a list or dictionary cannot be looked up in a set\<close>
  "require_rollbackable current =
     (case current of
        JStr s \<Rightarrow> if s \<in> {''canary'', ''active''} then Inr () else Inl (HTTPException 409 ''improvement is not rollbackable'')
      | JList _ \<Rightarrow> Inl (PyTypeError ''unhashable type'')
      | JObj _ \<Rightarrow> Inl (PyTypeError ''unhashable type'')
      | _ \<Rightarrow> Inl (HTTPException 409 ''improvement is not rollbackable''))"

definition rollback_improvement :: "('a, 'v, 'w, 'p) route_env \<Rightarrow> string \<Rightarrow> rollback_query \<Rightarrow> jobj \<Rightarrow>
    ('a, 'v, 'w, 'p, jobj) handler" where
  "rollback_improvement R candidate_id q explicit =
     act_bind (need_role R ''admin'') (\<lambda>user.
     act_bind (candidate_now R candidate_id) (\<lambda>c.
     command R ''improvements.rollback'' (JObj [(''candidate_id'', JStr candidate_id), (''rollback'', JObj explicit)])
       (act_bind (act_of (require_rollbackable (lc_status c))) (\<lambda>_.
        let actor = opt_str_or (rk_rolled_back_by q) (us_user_id user) in
        record_decided R candidate_id (rollback_decision q actor c) ''improvement_rolled_back''
          (improvement_event AA_Improvement_Rolled_Back actor user candidate_id (Some (rk_reason_code q))
            [(''candidate_type'', JStr (improvement_type_str (ic_candidate_type (lc_base c)))),
             (''previous_status'', lc_status c), (''restored_version_id'', JStr (ic_before_version_id (lc_base c)))])))))"

section \<open>The life of a candidate\<close>

definition promotes :: "json \<Rightarrow> json \<Rightarrow> bool" where
  \<comment> \<open>an open candidate moves forward, or stays, to one of the three statuses a promotion can ask for\<close>
  "promotes a b = (\<exists>s t m n. a = JStr s \<and> b = JStr t \<and> s \<notin> {''rolled_back'', ''rejected''}
     \<and> t \<in> {''review_ready'', ''canary'', ''active''}
     \<and> dget status_order s = Some m \<and> dget status_order t = Some n \<and> m \<le> n)"

definition rolls_back :: "json \<Rightarrow> json \<Rightarrow> bool" where
  "rolls_back a b = (a \<in> {JStr ''canary'', JStr ''active''} \<and> b = JStr ''rolled_back'')"

lemma forward_promotes:
  assumes "require_forward_transition a (activation_target_status q) = Inr ()"
  shows "promotes a (JStr (improvement_status_str (activation_target_status q)))"
  using assms
  by (auto simp: require_forward_transition_def promotes_def activation_target_status_def improvement_status_str_def
      not_less split: json.splits if_splits option.splits)

lemma candidate_status:
  assumes "find_candidate i (current_candidates R rt) = Some c"
  shows "lc_status (apply_recorded_decision (rt_decisions rt) c) = previous_status rt i"
proof -
  from assms have "ic_candidate_id c = i" and "c \<in> set (current_candidates R rt)"
    by (auto simp: find_candidate_def find_Some_iff in_set_conv_nth)
  moreover from this(2) have "ic_status c = IS_Draft"
    unfolding current_candidates_def by (rule candidates_draft)
  ultimately show ?thesis
    by (simp add: apply_recorded_decision_def previous_status_def Let_def improvement_status_str_def split: option.splits)
qed

lemma persist_keeps_decisions: "rt_decisions (fst (persist_approval_state env rt)) = rt_decisions rt"
  by (simp add: persist_approval_state_def split: option.splits prod.splits)

lemma persisted_decisions: "persisted R rt = Some (rt', r) \<Longrightarrow> rt_decisions rt' = rt_decisions rt"
  using persist_keeps_decisions [of "ro_env R" rt] by (simp add: persisted_def act_then_def)

lemma audited_decisions: "audited R l a rt = Some (rt', r) \<Longrightarrow> rt_decisions rt' = rt_decisions rt \<and> r = Inr ()"
  by (auto simp: audited_def act_do_def act_then_def audit_now_def split: prod.splits)

lemma answer_decisions: "rt_decisions (answer_command env ctx name pk response rt) = rt_decisions rt"
  by (simp add: answer_command_def record_command_def in_store_def split: option.splits)

lemma record_decision_decisions:
  "rt_decisions (record_improvement_decision env i d rt) = dset i d (rt_decisions rt)"
  by (simp add: record_improvement_decision_def in_store_def)

lemma command_outcome:
  \<comment> \<open>a command changes nothing, or does what its body does and may record the answer\<close>
  assumes "command R name payload body rt = Some (rt', r)"
  shows "rt' = rt \<or> (\<exists>rt1 x. body rt = Some (rt1, x)
    \<and> (rt' = rt1 \<or> (\<exists>ctx pk d. rt' = answer_command (ro_env R) ctx name pk d rt1)))"
  using assms
  by (auto simp: command_def act_bind_def act_apply split: sum.splits option.splits prod.splits)

lemma decision_recorded:
  assumes "record_decided R i d l a rt = Some (rt', r)"
  shows "rt_decisions rt' = dset i d (rt_decisions rt)"
proof -
  let ?rt1 = "record_improvement_decision (ro_env R) i d rt"
  obtain rt2 where a: "audited R l a ?rt1 = Some (rt2, Inr ())"
    by (simp add: audited_def act_do_apply)
  obtain rt3 x where p: "persisted R rt2 = Some (rt3, x)"
    by (metis act_then_def persisted_def surj_pair)
  have "rt' = rt3"
    using assms by (cases x) (simp_all add: record_decided_def act_bind_run act_apply a p)
  then show ?thesis
    using audited_decisions [OF a] persisted_decisions [OF p] record_decision_decisions by metis
qed

lemma previous_status_dset:
  "rt_decisions rt' = dset i d (rt_decisions rt) \<Longrightarrow> dget d ''status'' = Some v \<Longrightarrow>
     previous_status rt' c = (if c = i then v else previous_status rt c)"
  by (simp add: previous_status_def jget_or_def)

lemma previous_status_cong: "rt_decisions rt' = rt_decisions rt \<Longrightarrow> previous_status rt' c = previous_status rt c"
  by (simp add: previous_status_def)

lemma decision_status:
  "dget (activation_decision q user gate previous c) ''status'' = Some (JStr (improvement_status_str (activation_target_status q)))"
  "dget (rollback_decision k actor c) ''status'' = Some (JStr ''rolled_back'')"
  by (simp_all add: activation_decision_def rollback_decision_def live_dump_def)

lemma activation_effect:
  assumes "activate_improvement R i q explicit rt = Some (rt', r)"
  shows "(\<forall>c. previous_status rt' c = previous_status rt c)
    \<or> ((\<exists>user. require_role (ro_auth R) (ro_headers R) ''admin'' = Inr user) \<and> eg_status (current_gate R rt) = Gate_Passed
       \<and> promotes (previous_status rt i) (JStr (improvement_status_str (activation_target_status q)))
       \<and> (\<forall>c. previous_status rt' c = (if c = i then JStr (improvement_status_str (activation_target_status q))
            else previous_status rt c)))"
proof (cases "require_role (ro_auth R) (ro_headers R) ''admin''")
  case (Inl e)
  with assms have "rt' = rt" by (simp add: activate_improvement_def act_bind_run need_role_def act_apply)
  then show ?thesis by simp
next
  case user: (Inr user)
  show ?thesis
  proof (cases "find_candidate i (current_candidates R rt)")
    case None
    with assms user have "rt' = rt"
      by (simp add: activate_improvement_def act_bind_run need_role_def candidate_now_def found_def act_apply)
    then show ?thesis by simp
  next
    case (Some c)
    let ?c = "apply_recorded_decision (rt_decisions rt) c"
    let ?ok = "require_forward_transition (lc_status ?c) (activation_target_status q)"
    let ?v = "JStr (improvement_status_str (activation_target_status q))"
    obtain body where cmd: "command R ''improvements.activate''
           (JObj [(''candidate_id'', JStr i), (''promotion'', JObj explicit)]) body rt = Some (rt', r)"
      and body: "body = act_bind (act_of ?ok) (\<lambda>_. act_bind (act_read (\<lambda>rt. let gate = current_gate R rt in
          if eg_status gate \<noteq> Gate_Passed then Inl (HTTPException 409 ''eval gate blocked activation'')
          else Inr (gate, previous_status rt i))) (\<lambda>(gate, previous).
          record_decided R i (activation_decision q user gate previous ?c) ''improvement_activated''
          (improvement_event AA_Improvement_Activated (us_user_id user) user i None
            [(''candidate_type'', JStr (improvement_type_str (ic_candidate_type (lc_base ?c)))),
             (''promotion_status'', JStr (promotion_status_for q)), (''eval_run_id'', JStr (eg_eval_run_id gate))])))"
      using assms user Some
      by (simp add: activate_improvement_def act_bind_run need_role_def candidate_now_def found_def act_apply)
    from command_outcome [OF cmd] consider (idle) "rt' = rt"
      | (ran) rt1 x where "body rt = Some (rt1, x)" "rt_decisions rt' = rt_decisions rt1"
      by (metis answer_decisions)
    then show ?thesis
    proof cases
      case idle
      then show ?thesis by simp
    next
      case ran
      show ?thesis
      proof (cases "?ok = Inr () \<and> eg_status (current_gate R rt) = Gate_Passed")
        case False
        with ran(1) have "rt1 = rt"
          by (cases ?ok) (auto simp: body act_bind_run act_apply Let_def)
        then show ?thesis using ran(2) previous_status_cong by metis
      next
        case True
        with ran(1) have "rt_decisions rt1 = dset i (activation_decision q user (current_gate R rt) (previous_status rt i) ?c)
            (rt_decisions rt)"
          by (auto simp: body act_bind_run act_apply Let_def intro: decision_recorded)
        with ran(2) have "\<forall>c. previous_status rt' c = (if c = i then ?v else previous_status rt c)"
          using previous_status_dset decision_status(1) by metis
        moreover have "promotes (previous_status rt i) ?v"
          using True forward_promotes candidate_status [OF Some] by metis
        ultimately show ?thesis using user True by blast
      qed
    qed
  qed
qed

lemma rollbackable: "require_rollbackable s = Inr u \<Longrightarrow> s \<in> {JStr ''canary'', JStr ''active''}"
  by (auto simp: require_rollbackable_def split: json.splits if_splits)

lemma rollback_effect:
  assumes "rollback_improvement R i q explicit rt = Some (rt', r)"
  shows "(\<forall>c. previous_status rt' c = previous_status rt c)
    \<or> ((\<exists>user. require_role (ro_auth R) (ro_headers R) ''admin'' = Inr user)
       \<and> rolls_back (previous_status rt i) (JStr ''rolled_back'')
       \<and> (\<forall>c. previous_status rt' c = (if c = i then JStr ''rolled_back'' else previous_status rt c)))"
proof (cases "require_role (ro_auth R) (ro_headers R) ''admin''")
  case (Inl e)
  with assms have "rt' = rt" by (simp add: rollback_improvement_def act_bind_run need_role_def act_apply)
  then show ?thesis by simp
next
  case user: (Inr user)
  show ?thesis
  proof (cases "find_candidate i (current_candidates R rt)")
    case None
    with assms user have "rt' = rt"
      by (simp add: rollback_improvement_def act_bind_run need_role_def candidate_now_def found_def act_apply)
    then show ?thesis by simp
  next
    case (Some c)
    let ?c = "apply_recorded_decision (rt_decisions rt) c"
    let ?actor = "opt_str_or (rk_rolled_back_by q) (us_user_id user)"
    let ?ok = "require_rollbackable (lc_status ?c)"
    obtain body where cmd: "command R ''improvements.rollback''
           (JObj [(''candidate_id'', JStr i), (''rollback'', JObj explicit)]) body rt = Some (rt', r)"
      and body: "body = act_bind (act_of ?ok) (\<lambda>_.
          record_decided R i (rollback_decision q ?actor ?c) ''improvement_rolled_back''
          (improvement_event AA_Improvement_Rolled_Back ?actor user i (Some (rk_reason_code q))
            [(''candidate_type'', JStr (improvement_type_str (ic_candidate_type (lc_base ?c)))),
             (''previous_status'', lc_status ?c), (''restored_version_id'', JStr (ic_before_version_id (lc_base ?c)))]))"
      using assms user Some
      by (simp add: rollback_improvement_def act_bind_run need_role_def candidate_now_def found_def act_apply Let_def)
    from command_outcome [OF cmd] consider (idle) "rt' = rt"
      | (ran) rt1 x where "body rt = Some (rt1, x)" "rt_decisions rt' = rt_decisions rt1"
      by (metis answer_decisions)
    then show ?thesis
    proof cases
      case idle
      then show ?thesis by simp
    next
      case ran
      show ?thesis
      proof (cases ?ok)
        case (Inl e)
        with ran(1) have "rt1 = rt" unfolding body act_bind_run act_apply Inl by simp
        then show ?thesis using ran(2) previous_status_cong by metis
      next
        case (Inr u)
        then have True: "lc_status ?c \<in> {JStr ''canary'', JStr ''active''}" by (rule rollbackable)
        from ran(1) Inr have "rt_decisions rt1 = dset i (rollback_decision q ?actor ?c) (rt_decisions rt)"
          unfolding body act_bind_run act_apply Inr by (simp add: decision_recorded)
        with ran(2) have d: "rt_decisions rt' = dset i (rollback_decision q ?actor ?c) (rt_decisions rt)" by simp
        have "\<forall>c. previous_status rt' c = (if c = i then JStr ''rolled_back'' else previous_status rt c)"
          using previous_status_dset [OF d decision_status(2)] by blast
        moreover have "rolls_back (previous_status rt i) (JStr ''rolled_back'')"
          using True candidate_status [OF Some] by (simp add: rolls_back_def)
        ultimately show ?thesis using user by blast
      qed
    qed
  qed
qed

text \<open>
  Property C10. A request to activate an improvement changes the status of no candidate, or only that of
  the one it names: then the requester passed the check for the role admin, the evaluation gate passed
  on the feedback of that moment, the candidate was open, and its status moved forward to the one the
  flags of the request ask for.
\<close>

theorem activation_gated:
  assumes "activate_improvement R i q explicit rt = Some (rt', r)" and "previous_status rt' c \<noteq> previous_status rt c"
  shows "c = i \<and> (\<exists>user. require_role (ro_auth R) (ro_headers R) ''admin'' = Inr user)
    \<and> eg_status (run_local_eval_gate (build_eval_candidates (sv_feedback (rt_approvals rt))) (ro_new_id R ''eval'') None) = Gate_Passed
    \<and> promotes (previous_status rt i) (previous_status rt' i)
    \<and> previous_status rt' i = JStr (improvement_status_str (activation_target_status q))"
  using activation_effect [OF assms(1)] assms(2) unfolding current_gate_def by metis

datatype improvement_request = Activate string activation_query jobj | Rollback string rollback_query jobj

fun handle_improvement :: "('a, 'v, 'w, 'p) route_env \<Rightarrow> improvement_request \<Rightarrow> ('a, 'v, 'w, 'p, jobj) handler" where
  "handle_improvement R (Activate i q explicit) = activate_improvement R i q explicit"
| "handle_improvement R (Rollback i q explicit) = rollback_improvement R i q explicit"

inductive improvement_requests :: "('a, 'v, 'w, 'p) runtime \<Rightarrow> ('a, 'v, 'w, 'p) runtime \<Rightarrow> bool" where
  none: "improvement_requests rt rt"
| more: "improvement_requests rt rt1 \<Longrightarrow> handle_improvement R x rt1 = Some (rt2, r) \<Longrightarrow> improvement_requests rt rt2"

definition moves :: "json \<Rightarrow> json \<Rightarrow> bool" where
  "moves a b = (promotes a b \<or> rolls_back a b)"

lemma handle_moves:
  assumes "handle_improvement R x rt = Some (rt', r)"
  shows "previous_status rt' c = previous_status rt c \<or> moves (previous_status rt c) (previous_status rt' c)"
proof (cases x)
  case (Activate i q explicit)
  with assms activation_effect [of R i q explicit rt rt' r] show ?thesis unfolding moves_def by (metis handle_improvement.simps(1))
next
  case (Rollback i q explicit)
  with assms rollback_effect [of R i q explicit rt rt' r] show ?thesis unfolding moves_def by (metis handle_improvement.simps(2))
qed

lemma closed_stays: "moves a b \<Longrightarrow> a \<noteq> JStr ''rolled_back'' \<and> a \<noteq> JStr ''rejected''"
  by (auto simp: moves_def promotes_def rolls_back_def)

text \<open>
  Property C27. Whatever sequence of activations and rollbacks is requested, by whom and with whatever
  outcomes, the status of every candidate moves along promotions (forward, to review_ready, canary or
  active) and rollbacks (from canary or active) only, and one that is rolled back or rejected stays so.
\<close>

theorem improvement_lifecycle:
  assumes "improvement_requests rt rt'"
  shows "moves\<^sup>*\<^sup>* (previous_status rt c) (previous_status rt' c)
    \<and> (previous_status rt c \<in> {JStr ''rolled_back'', JStr ''rejected''} \<longrightarrow> previous_status rt' c = previous_status rt c)"
  using assms
proof induction
  case (none rt)
  then show ?case by simp
next
  case (more rt rt1 R x rt2 r)
  show ?case
  proof (cases "previous_status rt2 c = previous_status rt1 c")
    case True
    with more.IH show ?thesis by simp
  next
    case False
    with handle_moves [OF more.hyps(2), of c] have m: "moves (previous_status rt1 c) (previous_status rt2 c)" by blast
    with more.IH have "moves\<^sup>*\<^sup>* (previous_status rt c) (previous_status rt2 c)"
      by (blast intro: rtranclp.rtrancl_into_rtrancl)
    with more.IH closed_stays [OF m] show ?thesis by auto
  qed
qed

end
