(* ===== verification/Registry.thy ===== *)
theory Registry
  imports Improvements
begin

text \<open>
  \<open>api/routes/admin.py\<close>: the controlled activation of model profiles and prompt versions and its
  rollback. The registry is read from its two files on every request: what they hold, or the error of
  reading them, is \<open>ro_registry\<close>. An activation is a record beside the registry, which stays as it is.
\<close>

section \<open>Contracts\<close>

definition prompt_status_str :: "prompt_status \<Rightarrow> string" where
  "prompt_status_str s = (case s of PS_Draft \<Rightarrow> ''draft'' | PS_Eval_Ready \<Rightarrow> ''eval_ready''
     | PS_Canary \<Rightarrow> ''canary'' | PS_Active \<Rightarrow> ''active'' | PS_Retired \<Rightarrow> ''retired'')"

definition model_profile_dump :: "model_profile \<Rightarrow> jobj" where
  "model_profile_dump p = [
     (''model_profile_id'', JStr (mp_model_profile_id p)), (''provider'', JStr (provider_str (mp_provider p))),
     (''model_name'', JStr (mp_model_name p)), (''endpoint_alias'', JStr (mp_endpoint_alias p)),
     (''allowed_data_classes'', jstrs (mp_allowed_data_classes p)),
     (''supports_json_schema'', JBool (mp_supports_json_schema p)),
     (''supports_tool_calling'', JBool (mp_supports_tool_calling p)),
     (''max_context_tokens'', JInt (mp_max_context_tokens p)),
     (''default_temperature'', JFloat (mp_default_temperature p)),
     (''timeout_seconds'', JInt (mp_timeout_seconds p)), (''is_active'', JBool (mp_is_active p)),
     (''schema_version'', JStr (mp_schema_version p))]"

definition prompt_version_dump :: "prompt_version \<Rightarrow> jobj" where
  "prompt_version_dump p = [
     (''prompt_version_id'', JStr (pv_prompt_version_id p)), (''task_name'', JStr (prompt_task_str (pv_task_name p))),
     (''template'', JStr (pv_template p)), (''schema_version_ref'', JStr (pv_schema_version_ref p)),
     (''retrieval_policy_id'', JStr (pv_retrieval_policy_id p)), (''created_by'', JStr (pv_created_by p)),
     (''created_at'', JTime (pv_created_at p)), (''status'', JStr (prompt_status_str (pv_status p))),
     (''schema_version'', JStr (pv_schema_version p))]"

datatype registry_kind = Model_Profile | Prompt_Version

definition registry_kind_str :: "registry_kind \<Rightarrow> string" where
  "registry_kind_str k = (case k of Model_Profile \<Rightarrow> ''model_profile'' | Prompt_Version \<Rightarrow> ''prompt_version'')"

definition activation_id :: "registry_kind \<Rightarrow> string \<Rightarrow> string" where
  "activation_id k i = registry_kind_str k @ '':'' @ i"

record registry_activation_query =
  ra_activated_by :: string
  ra_eval_passed :: bool
  ra_reviewer_approved :: bool
  ra_canary_passed :: bool
  ra_reason_code :: "string option"
  ra_comment :: "string option"

record registry_rollback_query =
  rl_rolled_back_by :: string
  rl_reason_code :: string
  rl_comment :: "string option"

section \<open>Activation\<close>

definition registry_now :: "('a, 'v, 'w, 'p) route_env \<Rightarrow> (model_registry \<Rightarrow> 'x result) \<Rightarrow> ('a, 'v, 'w, 'p, 'x) handler" where
  \<comment> \<open>\<open>_registry(request)\<close> and a lookup whose \<open>ModelRegistryError\<close> becomes 404\<close>
  "registry_now R look = act_of (rbind (ro_registry R) (\<lambda>(profiles, prompts).
     case look (new_registry profiles prompts) of
       Inl (ModelRegistryError m) \<Rightarrow> Inl (HTTPException 404 m)
     | r \<Rightarrow> r))"

definition missing_gates :: "registry_activation_query \<Rightarrow> string list" where
  "missing_gates q = map fst (filter (\<lambda>g. \<not> snd g) [(''eval_passed'', ra_eval_passed q),
     (''reviewer_approved'', ra_reviewer_approved q), (''canary_passed'', ra_canary_passed q)])"

definition require_activation_gates :: "registry_activation_query \<Rightarrow> unit result" where
  "require_activation_gates q = (if missing_gates q \<noteq> []
     then Inl (HTTPException 409 ''activation gates are not satisfied'') else Inr ())"

definition activation_record :: "registry_kind \<Rightarrow> string \<Rightarrow> string \<Rightarrow> registry_activation_query \<Rightarrow> jobj \<Rightarrow> jobj" where
  "activation_record k i activated_by q item = [
     (''activation_id'', JStr (activation_id k i)), (''activation_type'', JStr (registry_kind_str k)),
     (''item_id'', JStr i), (''status'', JStr ''active''), (''activated_by'', JStr activated_by),
     (''eval_passed'', JBool (ra_eval_passed q)), (''reviewer_approved'', JBool (ra_reviewer_approved q)),
     (''canary_passed'', JBool (ra_canary_passed q)), (''reason_code'', jopt (ra_reason_code q)),
     (''comment'', jopt (ra_comment q)), (''item'', JObj item)]"

definition registry_event :: "audit_action \<Rightarrow> string \<Rightarrow> string \<Rightarrow> registry_kind \<Rightarrow> string \<Rightarrow> string option \<Rightarrow> jobj \<Rightarrow> audit_args" where
  "registry_event action actor role k i reason metadata =
     \<lparr>ag_action = action, ag_actor_id = actor, ag_target_type = registry_kind_str k, ag_target_id = i,
      ag_project_key = None, ag_actor_role = Some role, ag_outcome = AO_Succeeded,
      ag_reason_code = reason, ag_metadata = Some metadata\<rparr>"

definition record_activated :: "('a, 'v, 'w, 'p) route_env \<Rightarrow> string \<Rightarrow> jobj \<Rightarrow> string \<Rightarrow> audit_args \<Rightarrow>
    ('a, 'v, 'w, 'p, jobj \<times> string option) handler" where
  \<comment> \<open>the end the four handlers have in common\<close>
  "record_activated R i d label a =
     act_bind (act_do (record_registry_activation (ro_env R) i d)) (\<lambda>_.
     act_bind (audited R label a) (\<lambda>_.
     act_bind (persisted R) (\<lambda>_. act_return (d, None))))"

definition activate_model_profile :: "('a, 'v, 'w, 'p) route_env \<Rightarrow> string \<Rightarrow> registry_activation_query \<Rightarrow> jobj \<Rightarrow>
    ('a, 'v, 'w, 'p, jobj) handler" where
  "activate_model_profile R i q explicit =
     act_bind (need_role R ''admin'') (\<lambda>user.
     act_bind (registry_now R (\<lambda>g. get_profile g i)) (\<lambda>profile.
     act_bind (act_of (require_activation_gates q)) (\<lambda>_.
     command R ''admin.model_profile.activate''
       (JObj [(''model_profile_id'', JStr i), (''activation'', JObj explicit)])
       (let actor = str_or (ra_activated_by q) (us_user_id user) in
        record_activated R (activation_id Model_Profile i)
          (activation_record Model_Profile i actor q (model_profile_dump profile)) ''model_profile_activated''
          (registry_event AA_Model_Profile_Activated actor (us_role user) Model_Profile i (ra_reason_code q)
            [(''provider'', JStr (provider_str (mp_provider profile))), (''model_name'', JStr (mp_model_name profile)),
             (''endpoint_alias'', JStr (mp_endpoint_alias profile)), (''comment'', jopt (ra_comment q))])))))"

definition activate_prompt_version :: "('a, 'v, 'w, 'p) route_env \<Rightarrow> string \<Rightarrow> registry_activation_query \<Rightarrow> jobj \<Rightarrow>
    ('a, 'v, 'w, 'p, jobj) handler" where
  "activate_prompt_version R i q explicit =
     act_bind (need_role R ''admin'') (\<lambda>user.
     act_bind (registry_now R (\<lambda>g. get_prompt g i)) (\<lambda>prompt.
     act_bind (act_of (if pv_status prompt \<notin> {PS_Active, PS_Canary}
        then Inl (HTTPException 409 ''prompt version must be canary or active before activation'') else Inr ())) (\<lambda>_.
     act_bind (act_of (require_activation_gates q)) (\<lambda>_.
     command R ''admin.prompt_version.activate''
       (JObj [(''prompt_version_id'', JStr i), (''activation'', JObj explicit)])
       (let actor = str_or (ra_activated_by q) (us_user_id user) in
        record_activated R (activation_id Prompt_Version i)
          (dset ''task_name'' (JStr (prompt_task_str (pv_task_name prompt)))
            (activation_record Prompt_Version i actor q (prompt_version_dump prompt))) ''prompt_version_activated''
          (registry_event AA_Prompt_Version_Activated actor (us_role user) Prompt_Version i (ra_reason_code q)
            [(''task_name'', JStr (prompt_task_str (pv_task_name prompt))),
             (''schema_version_ref'', JStr (pv_schema_version_ref prompt)),
             (''retrieval_policy_id'', JStr (pv_retrieval_policy_id prompt)), (''comment'', jopt (ra_comment q))]))))))"

section \<open>Rollback\<close>

definition rolled_back_record :: "registry_kind \<Rightarrow> string \<Rightarrow> string \<Rightarrow> registry_rollback_query \<Rightarrow> jobj \<Rightarrow> jobj \<Rightarrow> jobj" where
  "rolled_back_record k i actor q item current =
     dset ''item'' (JObj item)
       (dset ''restored_item_ref'' (JStr (''registry://'' @ registry_kind_str k @ ''/'' @ i))
         (dset ''rollback_comment'' (jopt (rl_comment q))
           (dset ''rollback_reason_code'' (JStr (rl_reason_code q))
             (dset ''rolled_back_by'' (JStr actor)
               (dset ''rollback_status'' (JStr ''rolled_back'')
                 (dset ''previous_status'' (jget current ''status'')
                   (dset ''status'' (JStr ''rolled_back'') current)))))))"

definition rollbackable_activation :: "string \<Rightarrow> ('a, 'v, 'w, 'p) runtime \<Rightarrow> jobj result" where
  \<comment> \<open>the activation recorded under an id, when it is active\<close>
  "rollbackable_activation i rt =
     rbind (found (''activation record not found: '' @ i) (dget (rt_activations rt) i)) (\<lambda>current.
     if jget current ''status'' \<noteq> JStr ''active''
     then Inl (HTTPException 409 ''registry activation is not rollbackable'') else Inr current)"

definition rollback_registry_activation :: "('a, 'v, 'w, 'p) route_env \<Rightarrow> user_context \<Rightarrow> registry_kind \<Rightarrow> string \<Rightarrow> jobj \<Rightarrow>
    registry_rollback_query \<Rightarrow> jobj \<Rightarrow> string \<Rightarrow> ('a, 'v, 'w, 'p, jobj) handler" where
  "rollback_registry_activation R user k i item q explicit name =
     command R name (JObj [(''item_id'', JStr i), (''rollback'', JObj explicit)])
       (act_bind (act_read (rollbackable_activation (activation_id k i))) (\<lambda>current.
        let actor = str_or (rl_rolled_back_by q) (us_user_id user) in
        record_activated R (activation_id k i) (rolled_back_record k i actor q item current)
          (case k of Model_Profile \<Rightarrow> ''model_profile_rolled_back'' | Prompt_Version \<Rightarrow> ''prompt_version_rolled_back'')
          (registry_event (case k of Model_Profile \<Rightarrow> AA_Model_Profile_Rolled_Back
              | Prompt_Version \<Rightarrow> AA_Prompt_Version_Rolled_Back) actor (us_role user) k i (Some (rl_reason_code q))
            [(''activation_id'', JStr (activation_id k i)), (''previous_status'', jget current ''status''),
             (''comment'', jopt (rl_comment q))])))"

definition rollback_model_profile :: "('a, 'v, 'w, 'p) route_env \<Rightarrow> string \<Rightarrow> registry_rollback_query \<Rightarrow> jobj \<Rightarrow>
    ('a, 'v, 'w, 'p, jobj) handler" where
  "rollback_model_profile R i q explicit =
     act_bind (need_role R ''admin'') (\<lambda>user.
     act_bind (registry_now R (\<lambda>g. get_profile g i)) (\<lambda>profile.
     rollback_registry_activation R user Model_Profile i (model_profile_dump profile) q explicit
       ''admin.model_profile.rollback''))"

definition rollback_prompt_version :: "('a, 'v, 'w, 'p) route_env \<Rightarrow> string \<Rightarrow> registry_rollback_query \<Rightarrow> jobj \<Rightarrow>
    ('a, 'v, 'w, 'p, jobj) handler" where
  "rollback_prompt_version R i q explicit =
     act_bind (need_role R ''admin'') (\<lambda>user.
     act_bind (registry_now R (\<lambda>g. get_prompt g i)) (\<lambda>prompt.
     rollback_registry_activation R user Prompt_Version i (prompt_version_dump prompt) q explicit
       ''admin.prompt_version.rollback''))"

section \<open>What a request can change\<close>

datatype registry_request = Activate_Item registry_kind string registry_activation_query jobj
  | Roll_Back_Item registry_kind string registry_rollback_query jobj

fun handle_registry :: "('a, 'v, 'w, 'p) route_env \<Rightarrow> registry_request \<Rightarrow> ('a, 'v, 'w, 'p, jobj) handler" where
  "handle_registry R (Activate_Item Model_Profile i q explicit) = activate_model_profile R i q explicit"
| "handle_registry R (Activate_Item Prompt_Version i q explicit) = activate_prompt_version R i q explicit"
| "handle_registry R (Roll_Back_Item Model_Profile i q explicit) = rollback_model_profile R i q explicit"
| "handle_registry R (Roll_Back_Item Prompt_Version i q explicit) = rollback_prompt_version R i q explicit"

definition all_gates :: "registry_activation_query \<Rightarrow> bool" where
  "all_gates q = (ra_eval_passed q \<and> ra_reviewer_approved q \<and> ra_canary_passed q)"

definition registry_offers :: "('a, 'v, 'w, 'p) route_env \<Rightarrow> registry_kind \<Rightarrow> string \<Rightarrow> bool" where
  \<comment> \<open>the files hold the item: an active profile, or a prompt version that is active or in canary\<close>
  "registry_offers R k i = (\<exists>profiles prompts. ro_registry R = Inr (profiles, prompts)
     \<and> (case k of
          Model_Profile \<Rightarrow> \<exists>p. dget (mg_profiles (new_registry profiles prompts)) i = Some p \<and> mp_is_active p
        | Prompt_Version \<Rightarrow> \<exists>p. dget (mg_prompts (new_registry profiles prompts)) i = Some p
            \<and> pv_status p \<in> {PS_Active, PS_Canary}))"

definition activation_state :: "('a, 'v, 'w, 'p) runtime \<Rightarrow> string \<Rightarrow> json option" where
  "activation_state rt i = map_option (\<lambda>d. jget d ''status'') (dget (rt_activations rt) i)"

lemma require_gates_ok: "require_activation_gates q = Inr u \<longleftrightarrow> all_gates q"
  by (cases "ra_eval_passed q"; cases "ra_reviewer_approved q"; cases "ra_canary_passed q")
    (simp_all add: require_activation_gates_def missing_gates_def all_gates_def)

lemma persisted_activations: "persisted R rt = Some (rt', r) \<Longrightarrow> rt_activations rt' = rt_activations rt"
  by (auto simp: persisted_def act_then_def persist_approval_state_def split: option.splits prod.splits)

lemma audited_activations: "audited R l a rt = Some (rt', r) \<Longrightarrow> rt_activations rt' = rt_activations rt"
  by (auto simp: audited_def act_do_def act_then_def audit_now_def split: prod.splits)

lemma answer_activations: "rt_activations (answer_command env ctx name pk response rt) = rt_activations rt"
  by (simp add: answer_command_def record_command_def in_store_def split: option.splits)

lemma activation_recorded:
  assumes "record_activated R i d l a rt = Some (rt', r)"
  shows "rt_activations rt' = dset i d (rt_activations rt)"
  using assms unfolding record_activated_def
proof (cases rule: act_bind_cases)
  case (returned rt1 x)
  from returned(1) have 1: "rt_activations rt1 = dset i d (rt_activations rt)"
    by (auto simp: act_apply record_registry_activation_def in_store_def)
  from returned(2) show ?thesis
  proof (cases rule: act_bind_cases)
    case (raised e)
    with 1 audited_activations show ?thesis by metis
  next
    case (returned rt2 y)
    then have 2: "rt_activations rt2 = rt_activations rt1" using audited_activations by metis
    from returned(2) show ?thesis
      by (cases rule: act_bind_cases) (use 1 2 in \<open>auto simp: act_apply dest: persisted_activations\<close>)
  qed
qed (simp add: act_apply)

definition activates :: "(('a, 'v, 'w, 'p) runtime, 'r) act \<Rightarrow> ('a, 'v, 'w, 'p) runtime \<Rightarrow> ((string, jobj) dict \<Rightarrow> bool) \<Rightarrow> bool" where
  \<comment> \<open>the action leaves the activations alone or changes them as described\<close>
  "activates m rt P = (\<forall>rt' r. m rt = Some (rt', r) \<longrightarrow> rt_activations rt' = rt_activations rt \<or> P (rt_activations rt'))"

definition admits :: "('a, 'v, 'w, 'p) route_env \<Rightarrow> bool" where
  "admits R = (\<exists>user. require_role (ro_auth R) (ro_headers R) ''admin'' = Inr user)"

lemma activates_checked:
  "(\<And>x. c = Inr x \<Longrightarrow> activates (f x) rt P) \<Longrightarrow> activates (act_bind (act_of c) f) rt P"
  by (cases c) (simp_all add: activates_def act_bind_run act_apply)

lemma activates_read:
  "(\<And>x. h rt = Inr x \<Longrightarrow> activates (f x) rt P) \<Longrightarrow> activates (act_bind (act_read h) f) rt P"
  by (cases "h rt") (simp_all add: activates_def act_bind_run act_apply)

lemma activates_admin:
  "(\<And>user. admits R \<Longrightarrow> activates (f user) rt P) \<Longrightarrow> activates (act_bind (need_role R ''admin'') f) rt P"
  unfolding need_role_def by (rule activates_checked) (simp add: admits_def)

lemma activates_command:
  assumes "activates body rt P"
  shows "activates (command R name payload body) rt P"
  unfolding activates_def
proof (intro allI impI)
  fix rt' r assume "command R name payload body rt = Some (rt', r)"
  from command_outcome [OF this] show "rt_activations rt' = rt_activations rt \<or> P (rt_activations rt')"
  proof (elim disjE exE conjE)
    fix rt1 x assume "body rt = Some (rt1, x)"
    with assms have *: "rt_activations rt1 = rt_activations rt \<or> P (rt_activations rt1)" by (simp add: activates_def)
    show ?thesis if "rt' = rt1" using * that by simp
    show ?thesis if "rt' = answer_command (ro_env R) ctx name pk d rt1" for ctx pk d
      using * by (simp add: that answer_activations)
  qed simp
qed

lemma activates_record: "P (dset i d (rt_activations rt)) \<Longrightarrow> activates (record_activated R i d l a) rt P"
  unfolding activates_def by (intro allI impI, drule activation_recorded) simp

lemma activates_registry:
  assumes "\<And>profiles prompts x. ro_registry R = Inr (profiles, prompts) \<Longrightarrow> look (new_registry profiles prompts) = Inr x \<Longrightarrow>
    activates (f x) rt P"
  shows "activates (act_bind (registry_now R look) f) rt P"
  unfolding registry_now_def
proof (rule activates_checked)
  fix x
  let ?or_404 = "\<lambda>(profiles, prompts). case look (new_registry profiles prompts) of
     Inl (ModelRegistryError m) \<Rightarrow> Inl (HTTPException 404 m) | r \<Rightarrow> r"
  assume "rbind (ro_registry R) ?or_404 = Inr x"
  then obtain profiles prompts where files: "ro_registry R = Inr (profiles, prompts)" and "?or_404 (profiles, prompts) = Inr x"
    unfolding rbind_Inr_iff by force
  from this(2) have "look (new_registry profiles prompts) = Inr x" by (simp split: sum.splits py_error.splits)
  with files show "activates (f x) rt P" by (rule assms)
qed

lemmas activates_rules = activates_admin activates_checked activates_read activates_command activates_record activates_registry

lemma record_status:
  "jget (activation_record k i actor q item) ''status'' = JStr ''active''"
  "jget (dset ''task_name'' t (activation_record k i actor q item)) ''status'' = JStr ''active''"
  "jget (rolled_back_record k i actor rq item current) ''status'' = JStr ''rolled_back''"
  by (simp_all add: activation_record_def rolled_back_record_def jget_def)

definition now_state :: "(string, jobj) dict \<Rightarrow> string \<Rightarrow> string \<Rightarrow> (string, jobj) dict \<Rightarrow> bool" where
  "now_state before i st d = (\<exists>x. jget x ''status'' = JStr st \<and> d = dset i x before)"

lemma now_stateI: "jget x ''status'' = JStr st \<Longrightarrow> now_state before i st (dset i x before)"
  by (auto simp: now_state_def)

lemma activate_effect:
  "activates (activate_model_profile R i q explicit) rt (\<lambda>d. now_state (rt_activations rt) (activation_id Model_Profile i) ''active'' d
     \<and> admits R \<and> all_gates q \<and> registry_offers R Model_Profile i)"
  "activates (activate_prompt_version R i q explicit) rt (\<lambda>d. now_state (rt_activations rt) (activation_id Prompt_Version i) ''active'' d
     \<and> admits R \<and> all_gates q \<and> registry_offers R Prompt_Version i)"
  unfolding activate_model_profile_def activate_prompt_version_def Let_def
  by (intro activates_rules conjI now_stateI record_status,
      (simp_all add: require_gates_ok registry_offers_def get_profile_def get_prompt_def split: option.splits if_splits))+

definition rolls_activation_back :: "('a, 'v, 'w, 'p) runtime \<Rightarrow> string \<Rightarrow> (string, jobj) dict \<Rightarrow> bool" where
  "rolls_activation_back rt i d = (activation_state rt i = Some (JStr ''active'')
     \<and> now_state (rt_activations rt) i ''rolled_back'' d)"

lemma rollbackable_state: "rollbackable_activation i rt = Inr current \<Longrightarrow> activation_state rt i = Some (JStr ''active'')"
  by (auto simp: rollbackable_activation_def activation_state_def found_def split: option.splits if_splits)

lemma roll_back_effect:
  "activates (rollback_model_profile R i q explicit) rt (\<lambda>d. rolls_activation_back rt (activation_id Model_Profile i) d \<and> admits R)"
  "activates (rollback_prompt_version R i q explicit) rt (\<lambda>d. rolls_activation_back rt (activation_id Prompt_Version i) d \<and> admits R)"
  unfolding rollback_model_profile_def rollback_prompt_version_def rollback_registry_activation_def rolls_activation_back_def Let_def
  by (intro activates_rules conjI now_stateI record_status rollbackable_state, assumption+)+


end
