(* ===== verification/Work_Queue.thy ===== *)
theory Work_Queue
  imports Routes
begin

text \<open>
  The part of \<open>api/routes/dashboard.py\<close> that changes state: the filters a user saves and the assignments
  of work queue items, with their contracts from \<open>dashboard/models.py\<close>. Both are kept as the dictionaries
  they were dumped to; reading one validates it again, which is Pydantic's and an argument of the handlers.
\<close>

section \<open>Contracts\<close>

record filter_preset =
  fp_item_type :: string
  fp_priority :: string
  fp_owner :: string
  fp_search :: string

record work_queue_preferences =
  wp_project_key :: string
  wp_user_id :: string
  wp_saved_filters :: "(string, filter_preset) dict"
  wp_updated_at :: time

record work_queue_assignment =
  wa_project_key :: string
  wa_queue_id :: string
  wa_assigned_to :: "string option"
  wa_assigned_by :: string
  wa_updated_at :: time

definition filter_preset_ok :: "filter_preset \<Rightarrow> bool" where
  "filter_preset_ok f = (length (fp_search f) \<le> 200)"

definition filter_preset_dump :: "filter_preset \<Rightarrow> jobj" where
  "filter_preset_dump f = [(''item_type'', JStr (fp_item_type f)), (''priority'', JStr (fp_priority f)),
     (''owner'', JStr (fp_owner f)), (''search'', JStr (fp_search f))]"

definition preferences_dump :: "work_queue_preferences \<Rightarrow> jobj" where
  "preferences_dump p = [(''schema_version'', JStr ''v1''), (''project_key'', JStr (wp_project_key p)),
     (''user_id'', JStr (wp_user_id p)),
     (''saved_filters'', JObj (map (\<lambda>(k, f). (k, JObj (filter_preset_dump f))) (wp_saved_filters p))),
     (''updated_at'', JTime (wp_updated_at p))]"

definition assignment_dump :: "work_queue_assignment \<Rightarrow> jobj" where
  "assignment_dump a = [(''schema_version'', JStr ''v1''), (''project_key'', JStr (wa_project_key a)),
     (''queue_id'', JStr (wa_queue_id a)), (''assigned_to'', jopt (wa_assigned_to a)),
     (''assigned_by'', JStr (wa_assigned_by a)), (''updated_at'', JTime (wa_updated_at a))]"

definition public_payload :: "string \<Rightarrow> jobj \<Rightarrow> jobj" where
  \<comment> \<open>\<open>_public_preference_payload\<close> and \<open>_public_assignment_payload\<close>\<close>
  "public_payload key d = filter (\<lambda>(k, _). k \<noteq> key) d"

section \<open>Preferences\<close>

definition preference_id :: "string \<Rightarrow> string \<Rightarrow> string" where
  "preference_id pk user_id = ''work_queue_preferences:'' @ pk @ '':'' @ user_id"

definition load_preferences :: "(jobj \<Rightarrow> work_queue_preferences result) \<Rightarrow> ('a, 'v, 'w, 'p) runtime_env \<Rightarrow> string \<Rightarrow> string \<Rightarrow>
    ('a, 'v, 'w, 'p) runtime \<Rightarrow> work_queue_preferences result" where
  "load_preferences valid env pk user_id rt =
     (case dget (rt_preferences rt) (preference_id pk user_id) of
        Some stored \<Rightarrow> valid (public_payload ''preference_id'' stored)
      | None \<Rightarrow> Inr \<lparr>wp_project_key = pk, wp_user_id = user_id, wp_saved_filters = [],
          wp_updated_at = rv_now env ''preferences''\<rparr>)"

definition get_preferences :: "(jobj \<Rightarrow> work_queue_preferences result) \<Rightarrow> ('a, 'v, 'w, 'p) route_env \<Rightarrow> string \<Rightarrow>
    ('a, 'v, 'w, 'p, jobj) handler" where
  "get_preferences valid R pk =
     act_bind (need_project R (Some pk) ''developer'') (\<lambda>user.
     act_read (\<lambda>rt. rbind (load_preferences valid (ro_env R) pk (us_user_id user) rt) (\<lambda>p. Inr (preferences_dump p))))"

definition dashboard_event :: "audit_action \<Rightarrow> user_context \<Rightarrow> string \<Rightarrow> string \<Rightarrow> string \<Rightarrow> jobj \<Rightarrow> audit_args" where
  "dashboard_event action user pk target_type target_id metadata =
     \<lparr>ag_action = action, ag_actor_id = us_user_id user, ag_target_type = target_type, ag_target_id = target_id,
      ag_project_key = Some pk, ag_actor_role = Some (us_role user), ag_outcome = AO_Succeeded,
      ag_reason_code = None, ag_metadata = Some metadata\<rparr>"

definition save_preferences :: "('a, 'v, 'w, 'p) route_env \<Rightarrow> (string, filter_preset) dict \<Rightarrow> string \<Rightarrow>
    ('a, 'v, 'w, 'p, jobj) handler" where
  \<comment> \<open>the event is not saved here\<close>
  "save_preferences R filters pk =
     act_bind (need_project R (Some pk) ''developer'') (\<lambda>user.
     let p = \<lparr>wp_project_key = pk, wp_user_id = us_user_id user, wp_saved_filters = filters,
           wp_updated_at = rv_now (ro_env R) ''preferences''\<rparr>;
         i = preference_id pk (us_user_id user) in
     act_bind (act_do (record_dashboard_preference (ro_env R) i pk ((''preference_id'', JStr i) # preferences_dump p))) (\<lambda>_.
     act_bind (audited R ''preferences'' (dashboard_event AA_Dashboard_Preferences_Saved user pk
       ''dashboard_preferences'' i [(''saved_filter_count'', jlen filters)])) (\<lambda>_.
     act_return (preferences_dump p))))"

section \<open>Assignments\<close>

definition assignment_id :: "string \<Rightarrow> string \<Rightarrow> string" where
  "assignment_id pk queue_id = ''work_queue_assignment:'' @ pk @ '':'' @ queue_id"

definition project_assignments :: "(jobj \<Rightarrow> work_queue_assignment result) \<Rightarrow> string \<Rightarrow> ('a, 'v, 'w, 'p) runtime \<Rightarrow>
    work_queue_assignment list result" where
  "project_assignments valid pk rt =
     rbind (rmap (\<lambda>d. valid (public_payload ''assignment_id'' d))
       (filter (\<lambda>d. jget d ''project_key'' = JStr pk \<and> jget d ''assigned_to'' \<noteq> JNull) (dvals (rt_assignments rt)))) (\<lambda>xs.
     Inr (sort_key wa_queue_id xs))"

definition get_assignments :: "(jobj \<Rightarrow> work_queue_assignment result) \<Rightarrow> ('a, 'v, 'w, 'p) route_env \<Rightarrow> string \<Rightarrow>
    ('a, 'v, 'w, 'p, jobj) handler" where
  "get_assignments valid R pk =
     act_bind (need_project R (Some pk) ''developer'') (\<lambda>_.
     act_read (\<lambda>rt. rbind (project_assignments valid pk rt) (\<lambda>xs. Inr [(''schema_version'', JStr ''v1''),
       (''project_key'', JStr pk), (''assignments'', JList (map (\<lambda>a. JObj (assignment_dump a)) xs))])))"

datatype assignment_action = Assign | Clear

definition assignment_action_str :: "assignment_action \<Rightarrow> string" where
  "assignment_action_str a = (case a of Assign \<Rightarrow> ''assign'' | Clear \<Rightarrow> ''clear'')"

record assignment_query =
  wr_project_key :: string
  wr_action :: assignment_action
  wr_assignee_id :: "string option"

definition assignment_query_dump :: "assignment_query \<Rightarrow> jobj" where
  "assignment_query_dump q = [(''project_key'', JStr (wr_project_key q)),
     (''action'', JStr (assignment_action_str (wr_action q))), (''assignee_id'', jopt (wr_assignee_id q))]"

definition assignment_of :: "('a, 'v, 'w, 'p) runtime_env \<Rightarrow> user_context \<Rightarrow> string \<Rightarrow> assignment_query \<Rightarrow> work_queue_assignment" where
  "assignment_of env user queue_id q =
     \<lparr>wa_project_key = wr_project_key q, wa_queue_id = queue_id,
      wa_assigned_to = (if wr_action q = Assign then Some (opt_str_or (wr_assignee_id q) (us_user_id user)) else None),
      wa_assigned_by = us_user_id user, wa_updated_at = rv_now env ''assignment''\<rparr>"

definition assign_item :: "('a, 'v, 'w, 'p) route_env \<Rightarrow> string \<Rightarrow> assignment_query \<Rightarrow> ('a, 'v, 'w, 'p, jobj) handler" where
  \<comment> \<open>\<open>update_dashboard_work_queue_assignment\<close>; the event is not saved here\<close>
  "assign_item R queue_id q =
     act_bind (need_project R (Some (wr_project_key q)) ''developer'') (\<lambda>user.
     command R ''dashboard.work_queue_assignment''
       (JObj (foldl (\<lambda>d (k, v). dset k v d) [(''queue_id'', JStr queue_id)] (assignment_query_dump q)))
       (let a = assignment_of (ro_env R) user queue_id q;
            i = assignment_id (wr_project_key q) queue_id in
        act_bind (act_do (record_dashboard_assignment (ro_env R) i (wr_project_key q)
          ((''assignment_id'', JStr i) # assignment_dump a))) (\<lambda>_.
        act_bind (audited R ''assignment'' (dashboard_event AA_Work_Queue_Assignment_Updated user (wr_project_key q)
          ''work_queue_item'' queue_id [(''action'', JStr (assignment_action_str (wr_action q))),
            (''assigned_to'', jopt (wa_assigned_to a))])) (\<lambda>_.
        act_return (assignment_dump a, Some (wr_project_key q))))))"

section \<open>Saved filters come back\<close>

lemma public_payload_tagged:
  assumes "key \<notin> set (dkeys d)"
  shows "public_payload key ((key, v) # d) = d"
proof -
  have "public_payload key d = d"
    unfolding public_payload_def by (rule filter_True) (use assms in force)
  then show ?thesis by (simp add: public_payload_def)
qed

lemma audited_preferences: "audited R l a rt = Some (rt', r) \<Longrightarrow> rt_preferences rt' = rt_preferences rt \<and> r = Inr ()"
  by (auto simp: audited_def act_do_def act_then_def audit_now_def split: prod.splits)

lemma preferences_saved:
  assumes "save_preferences R filters pk rt = Some (rt', Inr d)"
  obtains user p where "require_project (ro_auth R) (ro_headers R) (Some pk) ''developer'' = Inr user"
    and "p = \<lparr>wp_project_key = pk, wp_user_id = us_user_id user, wp_saved_filters = filters,
           wp_updated_at = rv_now (ro_env R) ''preferences''\<rparr>"
    and "d = preferences_dump p"
    and "rt_preferences rt' = dset (preference_id pk (us_user_id user))
      ((''preference_id'', JStr (preference_id pk (us_user_id user))) # preferences_dump p) (rt_preferences rt)"
proof (cases "require_project (ro_auth R) (ro_headers R) (Some pk) ''developer''")
  case (Inl e)
  with assms show ?thesis by (simp add: save_preferences_def need_project_def act_bind_run act_apply)
next
  case (Inr user)
  let ?i = "preference_id pk (us_user_id user)"
  let ?p = "\<lparr>wp_project_key = pk, wp_user_id = us_user_id user, wp_saved_filters = filters,
    wp_updated_at = rv_now (ro_env R) ''preferences''\<rparr>"
  let ?rt1 = "record_dashboard_preference (ro_env R) ?i pk ((''preference_id'', JStr ?i) # preferences_dump ?p) rt"
  obtain rt2 r where a: "audited R ''preferences'' (dashboard_event AA_Dashboard_Preferences_Saved user pk
       ''dashboard_preferences'' ?i [(''saved_filter_count'', jlen filters)]) ?rt1 = Some (rt2, r)"
    by (simp add: audited_def act_do_apply)
  with assms Inr have "rt' = rt2" "d = preferences_dump ?p"
    using audited_preferences [OF a]
    by (simp_all add: save_preferences_def need_project_def act_bind_run act_apply Let_def)
  moreover have "rt_preferences rt2 = dset ?i ((''preference_id'', JStr ?i) # preferences_dump ?p) (rt_preferences rt)"
    using audited_preferences [OF a] by (simp add: record_dashboard_preference_def in_store_def)
  ultimately show ?thesis using that Inr by blast
qed

text \<open>
  Property C36. The filters a user saved for a project come back as they were saved: after a save that
  answered, a request for the preferences by the same user answers what the save answered, and changes
  nothing. What is stored under any other id, for another user or another project, stays as it was.
  It is assumed that validating a dumped contract gives the contract back.
\<close>

theorem preferences_round_trip:
  assumes "\<And>p. \<forall>f\<in>set (dvals (wp_saved_filters p)). filter_preset_ok f \<Longrightarrow> valid (preferences_dump p) = Inr p"
    and "\<forall>f\<in>set (dvals filters). filter_preset_ok f"
    and "save_preferences R filters pk rt = Some (rt', Inr d)"
  shows "get_preferences valid R pk rt' = Some (rt', Inr d)
    \<and> jget d ''saved_filters'' = JObj (map (\<lambda>(k, f). (k, JObj (filter_preset_dump f))) filters)
    \<and> (\<forall>user. require_project (ro_auth R) (ro_headers R) (Some pk) ''developer'' = Inr user \<longrightarrow>
        (\<forall>i. i \<noteq> preference_id pk (us_user_id user) \<longrightarrow> dget (rt_preferences rt') i = dget (rt_preferences rt) i))"
proof -
  from assms(3) obtain user p where user: "require_project (ro_auth R) (ro_headers R) (Some pk) ''developer'' = Inr user"
    and p: "p = \<lparr>wp_project_key = pk, wp_user_id = us_user_id user, wp_saved_filters = filters,
           wp_updated_at = rv_now (ro_env R) ''preferences''\<rparr>"
    and d: "d = preferences_dump p"
    and rt': "rt_preferences rt' = dset (preference_id pk (us_user_id user))
      ((''preference_id'', JStr (preference_id pk (us_user_id user))) # preferences_dump p) (rt_preferences rt)"
    by (rule preferences_saved)
  have "valid (preferences_dump p) = Inr p" by (rule assms(1)) (simp add: p assms(2))
  moreover have "public_payload ''preference_id'' ((''preference_id'', v) # preferences_dump p) = preferences_dump p" for v
    by (rule public_payload_tagged) (simp add: preferences_dump_def)
  ultimately have "load_preferences valid (ro_env R) pk (us_user_id user) rt' = Inr p"
    by (simp add: load_preferences_def rt')
  then show ?thesis
    using rt' user
    by (auto simp: get_preferences_def need_project_def act_bind_run act_apply d p preferences_dump_def jget_def)
qed

end
