(* ===== verification/Debug_Routes.thy ===== *)
theory Debug_Routes
  imports Routes
begin

text \<open>
  \<open>api/routes/debug.py\<close> and \<open>api/routes/audit.py\<close>: the debug views of runs, approvals and artifacts, and
  the audit trail with its archiving. A read of an artifact is itself an audited command; the files of
  the store hold JSON values.
\<close>

section \<open>Runs and cursors\<close>

definition list_debug_runs :: "('a, 'v, 'w, 'p) route_env \<Rightarrow> ('a, 'v, 'w, 'p, jobj list) handler" where
  "list_debug_runs R =
     act_bind (need_role R ''developer'') (\<lambda>user.
     act_read (\<lambda>rt. Inr (map agent_run_dump
       (filter (\<lambda>r. sees_project user (Some (rn_project_key r)))
         (sort_key_rev rn_started_at (dvals (tr_runs (rt_traces rt))))))))"

definition cursor_state_dump :: "source_sync_cursor_state \<Rightarrow> jobj" where
  "cursor_state_dump c = [
     (''cursor_id'', JStr (cs_cursor_id c)), (''source_type'', JStr (source_type_str (cs_source_type c))),
     (''project_key'', JStr (cs_project_key c)), (''scenario'', JStr (cs_scenario c)), (''run_id'', JStr (cs_run_id c)),
     (''stage_name'', JStr (cs_stage_name c)), (''initial_cursor'', cursor_opt_json (cs_initial_cursor c)),
     (''completed_cursor'', cursor_opt_json (cs_completed_cursor c)), (''next_cursor'', cursor_opt_json (cs_next_cursor c)),
     (''artifact_count'', JInt (cs_artifact_count c)), (''page_count'', JInt (cs_page_count c)),
     (''content_hash'', JStr (cs_content_hash c)), (''source_warnings'', jstrs (cs_source_warnings c)),
     (''partial_failure'', JBool (cs_partial_failure c)), (''updated_at'', JTime (cs_updated_at c)),
     (''schema_version'', JStr (cs_schema_version c))]"

definition list_source_sync_cursors :: "('a, 'v, 'w, 'p) route_env \<Rightarrow> string option \<Rightarrow> ('a, 'v, 'w, 'p, jobj list) handler" where
  "list_source_sync_cursors R pk =
     act_bind (need_role R ''developer'') (\<lambda>user.
     act_read (\<lambda>rt. Inr (map cursor_state_dump
       (filter (\<lambda>c. (pk = None \<or> pk = Some (cs_project_key c)) \<and> sees_project user (Some (cs_project_key c)))
         (sort_key_rev cs_updated_at (dvals (rt_cursors rt)))))))"

definition run_llm_calls :: "string \<Rightarrow> ('a, 'v, 'w, 'p) runtime \<Rightarrow> llm_call_trace list" where
  "run_llm_calls run_id rt = filter (\<lambda>t. lt_run_id t = run_id) (dvals (tr_llm_calls (rt_traces rt)))"

definition run_deltas :: "string \<Rightarrow> ('a, 'v, 'w, 'p) runtime \<Rightarrow> graph_delta list" where
  "run_deltas run_id rt = filter (\<lambda>d. gd_created_from_run_id d = run_id) (dvals (sv_deltas (rt_approvals rt)))"

definition jobjs :: "('x \<Rightarrow> jobj) \<Rightarrow> 'x list \<Rightarrow> json" where
  "jobjs dump xs = JList (map (\<lambda>x. JObj (dump x)) xs)"

definition run_summary_json :: "string \<Rightarrow> agent_run \<Rightarrow> ('a, 'v, 'w, 'p) runtime \<Rightarrow> jobj" where
  "run_summary_json i run rt =
     (let steps = list_steps i (rt_traces rt); refs = List.map_filter sp_output_ref steps
      in [(''run'', JObj (agent_run_dump run)), (''steps'', jobjs step_dump steps),
        (''llm_calls'', jobjs llm_call_dump (run_llm_calls i rt)), (''graph_deltas'', jobjs delta_dump (run_deltas i rt)),
        (''artifact_refs'', jstrs refs),
        (''counts'', JObj [(''steps'', jlen steps), (''llm_calls'', jlen (run_llm_calls i rt)),
           (''graph_deltas'', jlen (run_deltas i rt)), (''artifact_refs'', jlen refs)])])"

definition debug_guard :: "('a, 'v, 'w, 'p) route_env \<Rightarrow> string \<Rightarrow> ('a, 'v, 'w, 'p, agent_run) handler" where
  \<comment> \<open>the role first, then the run or 404, then its project\<close>
  "debug_guard R run_id = act_bind (need_role R ''developer'') (\<lambda>_. run_guard R run_id ''developer'')"

definition debug_run_summary :: "('a, 'v, 'w, 'p) route_env \<Rightarrow> string \<Rightarrow> ('a, 'v, 'w, 'p, jobj) handler" where
  "debug_run_summary R run_id = act_bind (debug_guard R run_id) (\<lambda>run. act_read (\<lambda>rt. Inr (run_summary_json run_id run rt)))"

section \<open>The diff view\<close>

definition read_optional_artifact :: "string list \<Rightarrow> ('a, 'v, 'w, 'p) runtime \<Rightarrow> string option \<Rightarrow> json result" where
  \<comment> \<open>a reference that is missing or refused is null\<close>
  "read_optional_artifact cwd rt artifact_ref = (case artifact_ref of
       None \<Rightarrow> Inr JNull
     | Some i \<Rightarrow> (case read_json cwd (rt_artifacts rt) i of
           Inl ArtifactAccessError \<Rightarrow> Inr JNull
         | Inl FileNotFoundError \<Rightarrow> Inr JNull
         | r \<Rightarrow> r))"

definition payload_side :: "string list \<Rightarrow> ('a, 'v, 'w, 'p) runtime \<Rightarrow> string \<Rightarrow> string option \<Rightarrow> json result" where
  "payload_side cwd rt label artifact_ref = rbind (read_optional_artifact cwd rt artifact_ref) (\<lambda>payload.
     Inr (JObj [(''label'', JStr label), (''artifact_ref'', jopt artifact_ref), (''payload'', payload)]))"

definition llm_payload_pair :: "string list \<Rightarrow> ('a, 'v, 'w, 'p) runtime \<Rightarrow> llm_call_trace \<Rightarrow> json result" where
  "llm_payload_pair cwd rt t =
     rbind (payload_side cwd rt ''masked_payload'' (Some (lt_masked_payload_ref t))) (\<lambda>l.
     rbind (payload_side cwd rt ''raw_response'' (lt_raw_response_ref t)) (\<lambda>r.
     rbind (payload_side cwd rt ''parsed_output'' (lt_parsed_output_ref t)) (\<lambda>parsed.
     Inr (JObj [(''llm_call_id'', JStr (lt_llm_call_id t)), (''model_profile_id'', JStr (lt_model_profile_id t)),
       (''prompt_version_id'', JStr (lt_prompt_version_id t)),
       (''validation_status'', JStr (validation_status_str (lt_validation_status t))),
       (''left'', l), (''right'', r), (''parsed'', parsed)]))))"

definition run_approved_edges :: "memory_graph \<Rightarrow> string \<Rightarrow> traceability_edge list" where
  "run_approved_edges g pk =
     filter (\<lambda>e. map_option on_project_key (dget (gr_nodes g) (te_source_node_id e)) = Some pk) (dvals (gr_edges g))"

definition delta_preview :: "traceability_edge list \<Rightarrow> graph_delta \<Rightarrow> json" where
  "delta_preview edges d = JObj [(''delta_id'', JStr (gd_delta_id d)),
     (''left'', JObj [(''label'', JStr ''approved_graph_edges''), (''count'', jlen edges), (''edges'', jobjs edge_dump edges)]),
     (''right'', JObj [(''label'', JStr ''proposed_delta_operations''), (''count'', jlen (gd_operations d)),
        (''operations'', jobjs delta_operation_dump (gd_operations d))])]"

definition debug_run_diff_view :: "('a, 'v, 'w, 'p) route_env \<Rightarrow> string \<Rightarrow> ('a, 'v, 'w, 'p, jobj) handler" where
  "debug_run_diff_view R run_id =
     act_bind (debug_guard R run_id) (\<lambda>run.
     act_read (\<lambda>rt.
       let calls = run_llm_calls run_id rt; deltas = run_deltas run_id rt;
           edges = run_approved_edges (rt_graph rt) (rn_project_key run)
       in rbind (rmap (llm_payload_pair (we_cwd (rv_wf (ro_env R))) rt) calls) (\<lambda>pairs.
          Inr [(''run_id'', JStr run_id), (''llm_payload_pairs'', JList pairs),
            (''graph_delta_previews'', JList (map (delta_preview edges) deltas)),
            (''counts'', JObj [(''llm_payload_pairs'', jlen calls), (''graph_delta_previews'', jlen deltas)])])))"

section \<open>The lineage of an approval\<close>

definition or_null :: "('x \<Rightarrow> jobj) \<Rightarrow> 'x option \<Rightarrow> json" where
  "or_null dump x = (case x of None \<Rightarrow> JNull | Some x \<Rightarrow> JObj (dump x))"

definition lineage_json :: "string \<Rightarrow> approval_item \<Rightarrow> agent_run option \<Rightarrow> ('a, 'v, 'w, 'p) runtime \<Rightarrow> jobj" where
  "lineage_json approval_id approval run rt =
     (let step = dget (tr_steps (rt_traces rt)) (ap_created_from_step_id approval);
          delta = Option.bind (ap_graph_delta_ref approval) (dget (sv_deltas (rt_approvals rt)));
          feedback = filter (\<lambda>f. fb_target_id f = ap_proposal_ref approval) (sv_feedback (rt_approvals rt));
          events = filter (\<lambda>e. au_target_type e = ''approval'' \<and> au_target_id e = approval_id) (dvals (as_events (rt_audit rt)))
      in [(''approval'', JObj (approval_dump approval)), (''run'', or_null agent_run_dump run),
        (''step'', or_null step_dump step), (''graph_delta'', or_null delta_dump delta),
        (''feedback'', jobjs feedback_dump feedback), (''audit_events'', jobjs audit_event_dump events),
        (''counts'', JObj [(''feedback'', jlen feedback), (''audit_events'', jlen events),
          (''graph_delta_operations'', (case delta of None \<Rightarrow> JInt 0 | Some d \<Rightarrow> jlen (gd_operations d)))])])"

definition debug_approval_lineage :: "('a, 'v, 'w, 'p) route_env \<Rightarrow> string \<Rightarrow> ('a, 'v, 'w, 'p, jobj) handler" where
  \<comment> \<open>without a run no project is checked\<close>
  "debug_approval_lineage R approval_id =
     act_bind (need_role R ''developer'') (\<lambda>user.
     act_bind (act_read (\<lambda>rt. rbind (found ''approval not found'' (dget (sv_items (rt_approvals rt)) approval_id)) (\<lambda>a.
       Inr (a, dget (tr_runs (rt_traces rt)) (ap_created_from_run_id a))))) (\<lambda>(approval, run).
     act_bind (case run of None \<Rightarrow> act_return user | Some r \<Rightarrow> need_project R (Some (rn_project_key r)) ''developer'') (\<lambda>_.
     act_read (\<lambda>rt. Inr (lineage_json approval_id approval run rt)))))"

section \<open>Reading an artifact\<close>

definition project_key_from_ref :: "string \<Rightarrow> ('a, 'v, 'w, 'p) runtime \<Rightarrow> string option" where
  \<comment> \<open>the project of the first step with that output whose run is known\<close>
  "project_key_from_ref artifact_ref rt =
     (case List.map_filter (\<lambda>s. if sp_output_ref s \<noteq> Some artifact_ref then None
         else map_option rn_project_key (dget (tr_runs (rt_traces rt)) (sp_run_id s))) (dvals (tr_steps (rt_traces rt))) of
        [] \<Rightarrow> None | pk # _ \<Rightarrow> Some pk)"

definition artifact_read_event :: "string \<Rightarrow> string option \<Rightarrow> audit_outcome \<Rightarrow> string option \<Rightarrow> audit_args" where
  "artifact_read_event artifact_ref pk outcome reason =
     \<lparr>ag_action = AA_Debug_Artifact_Read, ag_actor_id = ''local_debugger'', ag_target_type = ''debug_artifact'',
      ag_target_id = artifact_ref, ag_project_key = pk, ag_actor_role = Some ''developer'', ag_outcome = outcome,
      ag_reason_code = reason, ag_metadata = Some [(''artifact_ref'', JStr artifact_ref)]\<rparr>"

definition noted :: "('a, 'v, 'w, 'p) route_env \<Rightarrow> audit_args \<Rightarrow> ('a, 'v, 'w, 'p, 'r) handler \<Rightarrow> ('a, 'v, 'w, 'p, 'r) handler" where
  \<comment> \<open>the event of the read, saved, and then the answer\<close>
  "noted R a answer = act_bind (audited R ''debug_artifact_read'' a) (\<lambda>_. act_bind (persisted R) (\<lambda>_. answer))"

definition answer_artifact :: "('a, 'v, 'w, 'p) route_env \<Rightarrow> string \<Rightarrow> string option \<Rightarrow> json result \<Rightarrow>
    ('a, 'v, 'w, 'p, json) handler" where
  \<comment> \<open>what is made of \<open>read_json\<close>\<close>
  "answer_artifact R artifact_ref pk r =
     (case r of
       Inl ArtifactAccessError \<Rightarrow>
         noted R (artifact_read_event artifact_ref None AO_Blocked (Some ''artifact_ref_outside_store''))
           (act_of (Inl (HTTPException 403 ''artifact ref outside store'')))
     | Inl FileNotFoundError \<Rightarrow> act_of (Inl (HTTPException 404 ''artifact not found''))
     | Inl e \<Rightarrow> act_of (Inl e)
     | Inr artifact \<Rightarrow> noted R (artifact_read_event artifact_ref pk AO_Succeeded None) (act_return artifact))"

definition read_debug_artifact :: "('a, 'v, 'w, 'p) route_env \<Rightarrow> string \<Rightarrow> ('a, 'v, 'w, 'p, json) handler" where
  "read_debug_artifact R artifact_ref =
     act_bind (need_role R ''developer'') (\<lambda>_.
     act_bind (act_read (\<lambda>rt. Inr (project_key_from_ref artifact_ref rt))) (\<lambda>pk.
     act_bind (need_project R pk ''developer'') (\<lambda>_.
     act_bind (act_read (\<lambda>rt. Inr (read_json (we_cwd (rv_wf (ro_env R))) (rt_artifacts rt) artifact_ref)))
       (answer_artifact R artifact_ref pk))))"

section \<open>The audit trail\<close>

definition list_audit_events :: "('a, 'v, 'w, 'p) route_env \<Rightarrow> string option \<Rightarrow> audit_action option \<Rightarrow> int \<Rightarrow>
    ('a, 'v, 'w, 'p, jobj list) handler" where
  "list_audit_events R pk action limit =
     act_bind (need_role R ''operator'') (\<lambda>_.
     act_bind (need_project R pk ''operator'') (\<lambda>_.
     act_read (\<lambda>rt. Inr (map audit_event_dump (list_events pk action (min (max limit 1) 500) (rt_audit rt))))))"

definition audit_retention_report :: "('a, 'v, 'w, 'p) route_env \<Rightarrow> ('a, 'v, 'w, 'p, jobj) handler" where
  "audit_retention_report R = act_bind (need_role R ''operator'') (\<lambda>_.
     act_read (\<lambda>rt. Inr (retention_report (rv_now (ro_env R) ''retention_report'') (rt_audit rt))))"

definition prune_result_dump :: "prune_result \<Rightarrow> jobj" where
  "prune_result_dump r = [(''archive_ref'', jopt (pr_archive_ref r)), (''archived_events'', JInt (int (pr_archived_events r))),
     (''pruned_events'', JInt (int (pr_pruned_events r))), (''pruned_audit_ids'', jstrs (pr_pruned_audit_ids r)),
     (''remaining_events'', JInt (int (pr_remaining_events r))), (''schema_version'', JStr ''v1'')]"

definition archive_prune_event :: "user_context \<Rightarrow> jobj \<Rightarrow> audit_args" where
  "archive_prune_event user result =
     \<lparr>ag_action = AA_Archive_Pruned, ag_actor_id = us_user_id user, ag_target_type = ''audit_retention'',
      ag_target_id = ''default'', ag_project_key = None, ag_actor_role = Some (us_role user), ag_outcome = AO_Succeeded,
      ag_reason_code = None, ag_metadata = Some result\<rparr>"

definition archive_and_prune_audit_events :: "('a, 'v, 'w, 'p) route_env \<Rightarrow> ('a, 'v, 'w, 'p, jobj) handler" where
  "archive_and_prune_audit_events R =
     act_bind (need_role R ''admin'') (\<lambda>user.
     act_bind (act_read (\<lambda>rt. Inr (as_policy (rt_audit rt)))) (\<lambda>policy.
     command R ''audit.archive_prune'' (JObj (retention_policy_dump policy))
       (act_bind (act_then (archive_and_prune_audit (ro_env R))) (\<lambda>r. let result = prune_result_dump r in
        act_bind (audited R ''audit_archive_pruned'' (archive_prune_event user result)) (\<lambda>_.
        act_bind (persisted R) (\<lambda>_. act_return (result, None)))))))"

section \<open>What a read of an artifact leaves behind\<close>

lemma act_of_first: "act_bind (act_of r) f s = (case r of Inl e \<Rightarrow> Some (s, Inl e) | Inr x \<Rightarrow> f x s)"
  by (cases r) (simp_all add: act_bind_run act_apply)

lemma act_read_first: "act_bind (act_read g) f s = (case g s of Inl e \<Rightarrow> Some (s, Inl e) | Inr x \<Rightarrow> f x s)"
  by (cases "g s") (simp_all add: act_bind_run act_apply)

lemma persisted_keeps: "persisted R rt = Some (rt', r) \<Longrightarrow> rt_audit rt' = rt_audit rt \<and> rt_artifacts rt' = rt_artifacts rt"
  by (auto simp: persisted_def act_then_def persist_approval_state_def split: option.splits prod.splits)

definition event_of :: "audit_args \<Rightarrow> audit_event \<Rightarrow> bool" where
  "event_of a e = (au_action e = ag_action a \<and> au_actor_id e = ag_actor_id a \<and> au_target_type e = ag_target_type a
     \<and> au_target_id e = ag_target_id a \<and> au_project_key e = ag_project_key a \<and> au_outcome e = ag_outcome a
     \<and> au_reason_code e = ag_reason_code a)"

definition on_record :: "('a, 'v, 'w, 'p) runtime \<Rightarrow> audit_args \<Rightarrow> bool" where
  "on_record rt a = (\<exists>e. dget (as_events (rt_audit rt)) (au_audit_id e) = Some e \<and> event_of a e)"

lemma audited_on_record:
  "audited R l a rt = Some (rt', r) \<Longrightarrow> r = Inr () \<and> on_record rt' a \<and> rt_artifacts rt' = rt_artifacts rt"
  by (auto simp: audited_def act_do_def act_then_def audit_now_def audit_record_def Let_def on_record_def event_of_def
      intro!: exI [of _ "snd (audit_now (ro_env R) l a rt)"])

lemma noted_on_record:
  assumes "noted R a answer rt = Some (rt', r)" and "\<And>s. answer s = Some (s, x)"
  shows "on_record rt' a \<and> rt_artifacts rt' = rt_artifacts rt" and "r = x \<or> (\<exists>e. r = Inl e)"
proof -
  from assms(1) have "(on_record rt' a \<and> rt_artifacts rt' = rt_artifacts rt) \<and> (r = x \<or> (\<exists>e. r = Inl e))"
    unfolding noted_def
  proof (cases rule: act_bind_cases)
    case (raised e)
    from audited_on_record [OF raised(1)] show ?thesis by simp
  next
    case (returned rt1 y)
    note saved = audited_on_record [OF returned(1)]
    from returned(2) show ?thesis
      by (cases rule: act_bind_cases) (use saved assms(2) in \<open>auto simp: on_record_def dest!: persisted_keeps\<close>)
  qed
  then show "on_record rt' a \<and> rt_artifacts rt' = rt_artifacts rt" "r = x \<or> (\<exists>e. r = Inl e)" by blast+
qed

definition stored_in :: "('a, 'v, 'w, 'p) route_env \<Rightarrow> ('a, 'v, 'w, 'p) runtime \<Rightarrow> string \<Rightarrow> json \<Rightarrow> bool" where
  \<comment> \<open>the file at a reference, below the root of the artifact store\<close>
  "stored_in R rt i v =
     (let cwd = we_cwd (rv_wf (ro_env R)); st = rt_artifacts rt in
      prefix (resolve cwd (parse_path (st_root st))) (resolve cwd (parse_path i))
      \<and> dget (st_files st) (resolve cwd (parse_path i)) = Some v)"

lemma read_json_stored: "read_json (we_cwd (rv_wf (ro_env R))) (rt_artifacts rt) i = Inr v \<longleftrightarrow> stored_in R rt i v"
  by (auto simp: read_json_def resolve_ref_def stored_in_def Let_def split: option.splits)

lemma read_json_errors:
  "read_json cwd st i = Inl e \<Longrightarrow> e = FileNotFoundError \<or>
     e = ArtifactAccessError \<and> \<not> prefix (resolve cwd (parse_path (st_root st))) (resolve cwd (parse_path i))"
  by (auto simp: read_json_def resolve_ref_def Let_def split: option.splits if_splits)

lemma read_debug_artifact_steps:
  "read_debug_artifact R i rt =
     (case require_role (ro_auth R) (ro_headers R) ''developer'' of Inl e \<Rightarrow> Some (rt, Inl e)
      | Inr _ \<Rightarrow> (case require_project (ro_auth R) (ro_headers R) (project_key_from_ref i rt) ''developer'' of Inl e \<Rightarrow> Some (rt, Inl e)
      | Inr _ \<Rightarrow> answer_artifact R i (project_key_from_ref i rt) (read_json (we_cwd (rv_wf (ro_env R))) (rt_artifacts rt) i) rt))"
  unfolding read_debug_artifact_def need_role_def need_project_def
  by (simp add: act_of_first act_read_first split: sum.splits)


text \<open>
  A reference that no step lists as its output (the payloads and responses of the model calls, the masked
  texts of another project) is read without any check of a project.
\<close>

lemma unlisted_artifact_open:
  assumes "\<And>s. s \<in> set (dvals (tr_steps (rt_traces rt))) \<Longrightarrow> sp_output_ref s \<noteq> Some i"
    and "require_role (ro_auth R) (ro_headers R) ''developer'' = Inr user"
    and "stored_in R rt i v" and "rt_store rt = None"
  shows "\<exists>rt'. read_debug_artifact R i rt = Some (rt', Inr v)"
proof -
  have pk: "project_key_from_ref i rt = None"
    using assms(1) unfolding project_key_from_ref_def
    by (auto simp: map_filter_def filter_empty_conv split: list.splits)
  have saved: "persisted R s = Some (s, Inr ())" if "rt_store s = None" for s
    using that by (simp add: persisted_def act_then_def persist_approval_state_def)
  obtain rt1 where a: "audited R ''debug_artifact_read'' (artifact_read_event i None AO_Succeeded None) rt = Some (rt1, Inr ())"
    and "rt_store rt1 = rt_store rt"
    by (auto simp: audited_def act_do_def act_then_def audit_now_def audit_record_def Let_def)
  with saved assms(4) have p: "persisted R rt1 = Some (rt1, Inr ())" by simp
  have "read_json (we_cwd (rv_wf (ro_env R))) (rt_artifacts rt) i = Inr v" using assms(3) by (simp add: read_json_stored)
  with assms(2) pk a p show ?thesis
    by (simp add: read_debug_artifact_steps answer_artifact_def require_project_def noted_def act_bind_run act_return_def)
qed

end
