(* ===== verification/Serving.thy ===== *)
theory Serving
  imports Durability Registry Work_Queue Debug_Routes
begin

text \<open>
  The requests the application serves, in any order and with restarts between them: the state store
  keeps up with the caches through every handler, and a restart gives the caches back.
\<close>

section \<open>Before and after an action\<close>

definition leads :: "('s \<Rightarrow> bool) \<Rightarrow> ('s, 'r) act \<Rightarrow> ('r result \<Rightarrow> 's \<Rightarrow> bool) \<Rightarrow> bool" where
  "leads P m Q = (\<forall>s s' r. P s \<longrightarrow> m s = Some (s', r) \<longrightarrow> Q r s')"

lemma leadsI: "(\<And>s s' r. P s \<Longrightarrow> m s = Some (s', r) \<Longrightarrow> Q r s') \<Longrightarrow> leads P m Q"
  by (simp add: leads_def)

lemma leadsD: "leads P m Q \<Longrightarrow> P s \<Longrightarrow> m s = Some (s', r) \<Longrightarrow> Q r s'"
  by (simp add: leads_def)

lemma leads_bind:
  assumes "leads P m (\<lambda>r s. case r of Inl e \<Rightarrow> Q (Inl e) s | Inr x \<Rightarrow> P' x s)" and "\<And>x. leads (P' x) (f x) Q"
  shows "leads P (act_bind m f) Q"
proof (rule leadsI)
  fix s s' r assume "P s" and "act_bind m f s = Some (s', r)"
  from this(2) show "Q r s'"
  proof (cases rule: act_bind_cases)
    case (raised e)
    with leadsD [OF assms(1) \<open>P s\<close> raised(1)] show ?thesis by simp
  next
    case (returned s1 x)
    from leadsD [OF assms(1) \<open>P s\<close> returned(1)] leadsD [OF assms(2) _ returned(2)] show ?thesis by simp
  qed
qed

text \<open>Handlers that keep a predicate whatever happens.\<close>

abbreviation keeps :: "('s \<Rightarrow> bool) \<Rightarrow> ('s, 'r) act \<Rightarrow> bool" where
  "keeps P m \<equiv> leads P m (\<lambda>_. P)"

lemma leads_keeps_bind:
  assumes "leads P m (\<lambda>_. P')" and "\<And>e s. P' s \<Longrightarrow> Q s" and "\<And>x. leads P' (f x) (\<lambda>_. Q)"
  shows "leads P (act_bind m f) (\<lambda>_. Q)"
proof (rule leads_bind [where P' = "\<lambda>_. P'"])
  show "leads P m (\<lambda>r s. case r of Inl e \<Rightarrow> Q s | Inr x \<Rightarrow> P' s)"
  proof (rule leadsI)
    fix s s' r assume "P s" and "m s = Some (s', r)"
    with leadsD [OF assms(1)] assms(2) show "case r of Inl e \<Rightarrow> Q s' | Inr x \<Rightarrow> P' s'" by (cases r) auto
  qed
qed (rule assms(3))

lemma keeps_then: "keeps P m \<Longrightarrow> (\<And>x. keeps P (f x)) \<Longrightarrow> keeps P (act_bind m f)"
  by (rule leads_keeps_bind)

lemma keeps_pure: "keeps P (act_of r)" "keeps P (act_read f)" "keeps P (act_return x)"
  by (simp_all add: leads_def act_apply)

lemma leads_do: "(\<And>s. P s \<Longrightarrow> Q (f s)) \<Longrightarrow> leads P (act_do f) (\<lambda>_. Q)"
  by (simp add: leads_def act_apply)

lemma keeps_need: "keeps P (need_project R pk role)" "keeps P (need_role R role)" "keeps P (run_guard R i role)"
  unfolding need_project_def need_role_def run_guard_def by (intro keeps_pure keeps_then)+

lemma keeps_prod: "(\<And>a b. keeps P (f a b)) \<Longrightarrow> keeps P (case x of (a, b) \<Rightarrow> f a b)"
  by (cases x) simp

lemma keeps_option: "keeps P m \<Longrightarrow> (\<And>a. keeps P (f a)) \<Longrightarrow> keeps P (case x of None \<Rightarrow> m | Some a \<Rightarrow> f a)"
  by (cases x) simp_all

lemmas keep_rules = keeps_then keeps_pure keeps_need keeps_prod keeps_option

section \<open>States with changes not yet saved\<close>

definition behind :: "'p codec \<Rightarrow> approval_service \<Rightarrow> audit_service \<Rightarrow> ('a, 'v, 'w, 'p) runtime \<Rightarrow> bool" where
  \<comment> \<open>the rows show an earlier queue and audit trail\<close>
  "behind cd sv au rt = (caches_ok rt \<and> queue_grows sv (rt_approvals rt) \<and> queue_ok sv
     \<and> fst ` set (as_events au) \<subseteq> fst ` set (as_events (rt_audit rt))
     \<and> (\<forall>tb. rt_store rt = Some tb \<longrightarrow> rows_mirror cd (before_queue sv au rt) tb))"

definition pending :: "'p codec \<Rightarrow> ('a, 'v, 'w, 'p) runtime \<Rightarrow> bool" where
  "pending cd rt = (\<exists>sv au. behind cd sv au rt)"

lemma before_queue_same: "before_queue (rt_approvals rt) (rt_audit rt) rt = rt"
  by (simp add: before_queue_def)

lemma queue_grows_refl: "queue_grows sv sv"
  by (simp add: queue_grows_def)

lemma durable_pending:
  assumes "durable cd rt"
  shows "pending cd rt"
proof -
  have "behind cd (rt_approvals rt) (rt_audit rt) rt"
    using durable_caches [OF assms] caches_ok_parts(2) [OF durable_caches [OF assms]] durable_rows [OF assms]
    unfolding behind_def before_queue_same by (simp add: queue_grows_refl)
  then show ?thesis unfolding pending_def by blast
qed

lemma pending_persisted:
  assumes "rv_codec (ro_env R) = cd"
  shows "leads (pending cd) (persisted R) (\<lambda>_. durable cd)"
proof (rule leadsI)
  fix rt rt' r assume "pending cd rt" and run: "persisted R rt = Some (rt', r)"
  then obtain sv au where b: "behind cd sv au rt" by (auto simp: pending_def)
  from run have "persist_approval_state (ro_env R) rt = (rt', r)" by (simp add: persisted_def act_then_def)
  from durable_persist_approval_state [OF this] b show "durable cd rt'"
    unfolding behind_def assms by blast
qed

lemma pending_change:
  \<comment> \<open>a change that shows in the queue, the audit trail and the uncached parts only\<close>
  assumes "pending cd rt" and "caches_ok rt'" and "queue_grows (rt_approvals rt) (rt_approvals rt')"
    and "fst ` set (as_events (rt_audit rt)) \<subseteq> fst ` set (as_events (rt_audit rt'))"
    and "\<And>sv au tb'. rt_store rt' = Some tb' \<Longrightarrow> \<exists>tb. rt_store rt = Some tb
      \<and> (rows_mirror cd (before_queue sv au rt) tb \<longrightarrow> rows_mirror cd (before_queue sv au rt') tb')"
  shows "pending cd rt'"
proof -
  from assms(1) obtain sv au where b: "caches_ok rt" "queue_grows sv (rt_approvals rt)" "queue_ok sv"
    "fst ` set (as_events au) \<subseteq> fst ` set (as_events (rt_audit rt))"
    "\<forall>tb. rt_store rt = Some tb \<longrightarrow> rows_mirror cd (before_queue sv au rt) tb"
    by (auto simp: pending_def behind_def)
  have "\<forall>tb'. rt_store rt' = Some tb' \<longrightarrow> rows_mirror cd (before_queue sv au rt') tb'"
    using assms(5) b(5) by metis
  with b(3) assms(2) queue_grows_trans [OF b(2) assms(3)] order_trans [OF b(4) assms(4)]
  have "behind cd sv au rt'" unfolding behind_def by simp
  then show ?thesis unfolding pending_def by blast
qed

lemma pending_caches: "pending cd rt \<Longrightarrow> caches_ok rt"
  by (auto simp: pending_def behind_def)

lemma pending_queue:
  assumes "pending cd rt" and "queue_grows (rt_approvals rt) sv"
  shows "pending cd (rt\<lparr>rt_approvals := sv, rt_graph := g\<rparr>)"
proof (rule pending_change [OF assms(1)])
  show "caches_ok (rt\<lparr>rt_approvals := sv, rt_graph := g\<rparr>)"
    using pending_caches [OF assms(1)] assms(2) by (simp add: caches_ok_def queue_grows_def)
qed (use assms(2) in \<open>simp_all add: rows_mirror_def before_queue_def\<close>)

lemma pending_audited: "leads (pending cd) (audited R label a) (\<lambda>_. pending cd)"
  unfolding audited_def
proof (rule leads_do)
  fix rt :: "('a, 'b, 'c, 'd) runtime" assume p: "pending cd rt"
  obtain ev where ev: "fst (audit_now (ro_env R) label a rt) =
      rt\<lparr>rt_audit := (rt_audit rt)\<lparr>as_events := dset (au_audit_id ev) ev (as_events (rt_audit rt))\<rparr>\<rparr>" (is "_ = ?rt")
    using audit_now_fst by blast
  have "pending cd ?rt"
  proof (rule pending_change [OF p])
    show "caches_ok ?rt" using pending_caches [OF p] by (simp add: caches_ok_def dict_by_dset)
    show "fst ` set (as_events (rt_audit rt)) \<subseteq> fst ` set (as_events (rt_audit ?rt))" by auto
  qed (simp_all add: rows_mirror_def before_queue_def queue_grows_refl)
  with ev show "pending cd (fst (audit_now (ro_env R) label a rt))" by simp
qed

lemma pending_scheduler:
  assumes "pending cd rt"
  shows "pending cd (rt\<lparr>rt_scheduler := sd\<rparr>)"
  by (rule pending_change [OF assms]) (use pending_caches [OF assms] in
    \<open>simp_all add: caches_ok_def rows_mirror_def before_queue_def queue_grows_refl\<close>)

lemma pending_schedule:
  assumes "pending (rv_codec env) rt"
  shows "pending (rv_codec env) (record_schedule_config env rt)"
proof (rule pending_change [OF assms])
  show "caches_ok (record_schedule_config env rt)"
    using pending_caches [OF assms] by (simp add: caches_ok_def record_schedule_config_def in_store_def)
  fix sv au tb' assume "rt_store (record_schedule_config env rt) = Some tb'"
  then obtain tb where "rt_store rt = Some tb"
    and tb': "tb' = save env ''schedule_configs'' ''default''
       (Some (cf_project_key (sd_config (rt_scheduler rt)))) (E_Schedule (sd_config (rt_scheduler rt))) tb"
    by (auto simp: record_schedule_config_def in_store_def)
  moreover have "rows_mirror (rv_codec env) (before_queue sv au rt) tb
      \<longrightarrow> rows_mirror (rv_codec env) (before_queue sv au (record_schedule_config env rt)) tb'"
    unfolding tb' by (simp add: rows_mirror_def before_queue_def record_schedule_config_def in_store_def rows_typed_save)
  ultimately show "\<exists>tb. rt_store rt = Some tb \<and> (rows_mirror (rv_codec env) (before_queue sv au rt) tb
      \<longrightarrow> rows_mirror (rv_codec env) (before_queue sv au (record_schedule_config env rt)) tb')" by blast
qed (simp_all add: record_schedule_config_def in_store_def queue_grows_refl)

lemma leads_persisted:
  \<comment> \<open>the end of a handler that saves the queue\<close>
  assumes "rv_codec (ro_env R) = cd"
  shows "leads (pending cd) (act_bind (persisted R) (\<lambda>_. act_return x)) (\<lambda>_. durable cd)"
  by (rule leads_keeps_bind [OF pending_persisted [OF assms]]) (simp_all add: keeps_pure)

section \<open>The handlers\<close>

lemma keeps_answer:
  "rv_codec env = cd \<Longrightarrow> durable cd rt \<Longrightarrow> durable cd (answer_command env ctx name pk response rt)"
  unfolding answer_command_def by (auto intro: durable_record_command split: option.splits)

lemma keeps_command:
  assumes "rv_codec (ro_env R) = cd" and "keeps (durable cd) body"
  shows "keeps (durable cd) (command R name payload body)"
  unfolding command_def
  by (intro keep_rules assms(2) leads_do keeps_answer assms(1))

lemma leads_durable: "leads (pending cd) m (\<lambda>_. durable cd) \<Longrightarrow> keeps (durable cd) m"
  unfolding leads_def using durable_pending by blast

lemma leads_pending_do: "(\<And>rt. pending cd rt \<Longrightarrow> pending cd (f rt)) \<Longrightarrow>
   (\<And>x. leads (pending cd) (g x) (\<lambda>_. durable cd)) \<Longrightarrow> leads (pending cd) (act_bind (act_do f) g) (\<lambda>_. durable cd)"
  by (auto simp: leads_def act_bind_run act_apply)

lemma leads_pending_audited: "(\<And>x. leads (pending cd) (g x) (\<lambda>_. durable cd)) \<Longrightarrow>
   leads (pending cd) (act_bind (audited R l a) g) (\<lambda>_. durable cd)"
  unfolding audited_def
  by (rule leads_pending_do) (use pending_audited [of cd R l a] in \<open>auto simp: audited_def leads_def act_apply\<close>)

lemma leads_pending_read: "(\<And>x. leads (pending cd) (g (f x)) (\<lambda>_. durable cd)) \<Longrightarrow>
   leads (pending cd) (act_bind (act_read (\<lambda>rt. Inr (f rt))) g) (\<lambda>_. durable cd)"
  by (auto simp: leads_def act_bind_run act_apply)

lemma keeps_runs:
  assumes "rv_codec env = cd"
  shows "keeps (durable cd) (runtime_ingestion env rq)" and "keeps (durable cd) (runtime_analysis env rq)"
  unfolding assms [symmetric] by (rule leadsI, erule (1) durable_ingestion durable_analysis)+

lemma keeps_post_ingest: "rv_codec (ro_env R) = cd \<Longrightarrow> keeps (durable cd) (post_ingest R q)"
  unfolding post_ingest_def by (intro keep_rules keeps_command keeps_runs)

lemma keeps_post_analyze: "rv_codec (ro_env R) = cd \<Longrightarrow> keeps (durable cd) (post_analyze R q)"
  unfolding post_analyze_def by (intro keep_rules keeps_command keeps_runs)

lemma keeps_finding_status:
  assumes "rv_codec (ro_env R) = cd"
  shows "keeps (durable cd) (update_finding_status R i q explicit)"
proof -
  have "leads (durable cd) (act_do (persist_finding (ro_env R) f pk)) (\<lambda>_. durable cd)" for f pk
    by (rule leads_do) (use assms durable_persist_finding in blast)
  then show ?thesis
    unfolding update_finding_status_def Let_def
    by (intro keep_rules keeps_command [OF assms] leads_durable [OF leads_pending_audited] leads_persisted [OF assms])
qed

lemma keeps_configure_schedule:
  assumes "rv_codec (ro_env R) = cd"
  shows "keeps (durable cd) (configure_schedule R c)"
  unfolding configure_schedule_def
  by (intro keep_rules keeps_command [OF assms] leads_durable leads_pending_do leads_pending_read leads_pending_audited leads_persisted [OF assms]
      pending_scheduler pending_schedule [where env = "ro_env R", unfolded assms])

lemma keeps_feedback:
  assumes "rv_codec (ro_env R) = cd"
  shows "keeps (durable cd) (post_feedback R f explicit)"
proof -
  have "pending cd (rt\<lparr>rt_approvals := (rt_approvals rt)\<lparr>sv_feedback := fs rt\<rparr>\<rparr>)" if "pending cd rt" for rt fs
    using pending_queue [OF that, of "(rt_approvals rt)\<lparr>sv_feedback := fs rt\<rparr>" "rt_graph rt"]
    by (simp add: queue_grows_def queue_ok_def)
  then show ?thesis
    unfolding post_feedback_def
    by (intro keep_rules keeps_command [OF assms] leads_durable leads_pending_do leads_pending_audited leads_persisted [OF assms])
qed

lemma keeps_record_decided:
  assumes "rv_codec (ro_env R) = cd" and "jget d ''candidate_id'' = JStr i"
  shows "keeps (durable cd) (record_decided R i d l a)"
proof -
  have "leads (durable cd) (act_do (record_improvement_decision (ro_env R) i d)) (\<lambda>_. durable cd)"
    by (rule leads_do) (use assms durable_record_decision in blast)
  then show ?thesis
    unfolding record_decided_def
    by (intro keep_rules leads_durable [OF leads_pending_audited] leads_persisted [OF assms(1)])
qed

lemma keeps_candidate_now:
  assumes "\<And>c. ic_candidate_id (lc_base c) = i \<Longrightarrow> keeps P (f c)"
  shows "keeps P (act_bind (candidate_now R i) f)"
  unfolding candidate_now_def
proof (rule leads_bind [where P' = "\<lambda>c s. P s \<and> ic_candidate_id (lc_base c) = i"])
  show "leads (\<lambda>c. P c \<and> ic_candidate_id (lc_base x) = i) (f x) (\<lambda>_. P)" for x
    using assms unfolding leads_def by blast
  show "leads P (act_read (\<lambda>rt. rbind (found ''improvement candidate not found'' (find_candidate i (current_candidates R rt)))
      (\<lambda>c. Inr (apply_recorded_decision (rt_decisions rt) c))))
     (\<lambda>r s. case r of Inl e \<Rightarrow> P s | Inr x \<Rightarrow> P s \<and> ic_candidate_id (lc_base x) = i)"
    by (auto simp: leads_def act_apply found_def find_candidate_def find_Some_iff apply_recorded_decision_def
        split: option.splits sum.splits)
qed

lemma decision_names_candidate:
  "ic_candidate_id (lc_base c) = i \<Longrightarrow> jget (activation_decision q user gate previous c) ''candidate_id'' = JStr i"
  "ic_candidate_id (lc_base c) = i \<Longrightarrow> jget (rollback_decision k actor c) ''candidate_id'' = JStr i"
  by (simp_all add: activation_decision_def rollback_decision_def live_dump_def improvement_dump_def jget_def jget_or_def)

lemma keeps_activate:
  assumes "rv_codec (ro_env R) = cd"
  shows "keeps (durable cd) (activate_improvement R i q explicit)"
  unfolding activate_improvement_def
  by (intro keeps_then keeps_need keeps_candidate_now keeps_command [OF assms] keeps_pure keeps_prod
      keeps_record_decided [OF assms] decision_names_candidate)

lemma keeps_rollback:
  assumes "rv_codec (ro_env R) = cd"
  shows "keeps (durable cd) (rollback_improvement R i q explicit)"
  unfolding rollback_improvement_def Let_def
  by (intro keeps_then keeps_need keeps_candidate_now keeps_command [OF assms] keeps_pure keeps_prod
      keeps_record_decided [OF assms] decision_names_candidate)

lemma keeps_record_activated:
  assumes "rv_codec (ro_env R) = cd" and "jget d ''activation_id'' = JStr i"
  shows "keeps (durable cd) (record_activated R i d l a)"
proof -
  have "leads (durable cd) (act_do (record_registry_activation (ro_env R) i d)) (\<lambda>_. durable cd)"
    by (rule leads_do) (use assms durable_record_activation in blast)
  then show ?thesis
    unfolding record_activated_def
    by (intro keep_rules leads_durable [OF leads_pending_audited] leads_persisted [OF assms(1)])
qed

lemma records_name_activation:
  "jget (activation_record k i actor q item) ''activation_id'' = JStr (activation_id k i)"
  "jget (dset ''task_name'' t (activation_record k i actor q item)) ''activation_id'' = JStr (activation_id k i)"
  "jget (rolled_back_record k i actor rq item current) ''activation_id'' = jget current ''activation_id''"
  by (simp_all add: activation_record_def rolled_back_record_def jget_def)

lemma keeps_registry_now: "(\<And>x. keeps P (f x)) \<Longrightarrow> keeps P (act_bind (registry_now R look) f)"
  unfolding registry_now_def by (intro keep_rules)

lemma keeps_roll_back:
  assumes "rv_codec (ro_env R) = cd"
  shows "keeps (durable cd) (rollback_registry_activation R user k i item q explicit name)"
proof -
  let ?P = "\<lambda>current rt. durable cd rt \<and> jget current ''activation_id'' = JStr (activation_id k i)"
  have read: "leads (durable cd) (act_read (rollbackable_activation (activation_id k i)))
     (\<lambda>r s. case r of Inl e \<Rightarrow> durable cd s | Inr x \<Rightarrow> ?P x s)"
    by (auto simp: leads_def act_apply rollbackable_activation_def found_def durable_def caches_ok_def named_by_def
        split: option.splits sum.splits if_splits)
  have written: "leads (?P current) (record_activated R (activation_id k i) (rolled_back_record k i actor q item current) l a) (\<lambda>_. durable cd)"
    for current actor l a
    using keeps_record_activated [OF assms, of "rolled_back_record k i actor q item current" "activation_id k i" l a]
    unfolding leads_def records_name_activation by blast
  show ?thesis
    unfolding rollback_registry_activation_def Let_def
    by (intro keeps_command [OF assms] leads_bind [OF read] written)
qed

lemma keeps_registry:
  assumes "rv_codec (ro_env R) = cd"
  shows "keeps (durable cd) (handle_registry R x)"
proof -
  have "keeps (durable cd) (activate_model_profile R i q e)" "keeps (durable cd) (activate_prompt_version R i q e)"
    "keeps (durable cd) (rollback_model_profile R i rq e)" "keeps (durable cd) (rollback_prompt_version R i rq e)" for i q rq e
    unfolding activate_model_profile_def activate_prompt_version_def rollback_model_profile_def rollback_prompt_version_def Let_def
    by (intro keep_rules keeps_registry_now keeps_roll_back [OF assms] keeps_command [OF assms]
        keeps_record_activated [OF assms] records_name_activation)+
  then show ?thesis by (cases "(R, x)" rule: handle_registry.cases) simp_all
qed

lemma pending_command:
  assumes "pending (rv_codec env) rt"
  shows "pending (rv_codec env) (record_command env c rt)"
proof (rule pending_change [OF assms])
  show "caches_ok (record_command env c rt)"
    using pending_caches [OF assms] by (simp add: caches_ok_def record_command_def in_store_def)
  fix sv au tb' assume "rt_store (record_command env c rt) = Some tb'"
  then obtain tb where "rt_store rt = Some tb"
    and tb': "tb' = save env ''idempotency_results'' (ir_record_id c) (ir_project_key c) (E_Command c) tb"
    by (auto simp: record_command_def in_store_def)
  moreover have "rows_mirror (rv_codec env) (before_queue sv au rt) tb
      \<longrightarrow> rows_mirror (rv_codec env) (before_queue sv au (record_command env c rt)) tb'"
    unfolding tb' by (simp add: rows_mirror_def before_queue_def record_command_def in_store_def rows_typed_save mirrored_save)
  ultimately show "\<exists>tb. rt_store rt = Some tb \<and> (rows_mirror (rv_codec env) (before_queue sv au rt) tb
      \<longrightarrow> rows_mirror (rv_codec env) (before_queue sv au (record_command env c rt)) tb')" by blast
qed (simp_all add: record_command_def in_store_def queue_grows_refl)

lemma pending_answer: "rv_codec env = cd \<Longrightarrow> pending cd rt \<Longrightarrow> pending cd (answer_command env ctx name pk response rt)"
  unfolding answer_command_def by (auto intro: pending_command split: option.splits)

text \<open>The two writes of the dashboard leave their audit event unsaved.\<close>

lemma audited_unsaved: "leads (durable cd) (act_bind (audited R l a) (\<lambda>_. act_return x)) (\<lambda>_. pending cd)"
proof (rule leads_keeps_bind)
  show "leads (durable cd) (audited R l a) (\<lambda>_. pending cd)"
    by (rule leadsI, rule leadsD [OF pending_audited]) (erule durable_pending)
qed (assumption, rule keeps_pure)

lemma save_preferences_pending:
  assumes "rv_codec (ro_env R) = cd"
  shows "leads (durable cd) (save_preferences R filters pk) (\<lambda>_. pending cd)"
proof -
  have recorded: "leads (durable cd) (act_do (record_dashboard_preference (ro_env R) i pk ((''preference_id'', JStr i) # d))) (\<lambda>_. durable cd)" for i d
    by (rule leads_do) (use assms durable_record_preference in \<open>force simp: jget_def\<close>)
  show ?thesis
    unfolding save_preferences_def Let_def
    by (rule leads_keeps_bind [OF keeps_need(1)], erule durable_pending)
      (rule leads_keeps_bind [OF recorded], erule durable_pending, rule audited_unsaved)
qed

lemma assign_item_pending:
  assumes "rv_codec (ro_env R) = cd"
  shows "leads (durable cd) (assign_item R i q) (\<lambda>_. pending cd)"
proof -
  have recorded: "leads (durable cd) (act_do (record_dashboard_assignment (ro_env R) j pk ((''assignment_id'', JStr j) # d))) (\<lambda>_. durable cd)" for j pk d
    by (rule leads_do) (use assms durable_record_assignment in \<open>force simp: jget_def\<close>)
  have body: "leads (durable cd) (act_bind (act_do (record_dashboard_assignment (ro_env R) j pk ((''assignment_id'', JStr j) # d)))
      (\<lambda>_. act_bind (audited R l a) (\<lambda>_. act_return x))) (\<lambda>_. pending cd)" for j pk d l a and x :: "jobj \<times> string option"
    by (rule leads_keeps_bind [OF recorded], erule durable_pending, rule audited_unsaved)
  have answered: "leads (pending cd) (case x of (response, pk) \<Rightarrow>
         act_bind (act_do (answer_command (ro_env R) ctx name pk response)) (\<lambda>_. act_return response)) (\<lambda>_. pending cd)" for x ctx name
    by (intro keep_rules leads_do pending_answer [OF assms])
  have cmd: "leads (durable cd) (command R name payload b) (\<lambda>_. pending cd)"
    if "leads (durable cd) b (\<lambda>_. pending cd)" for name payload b
    unfolding command_def
  proof (rule leads_keeps_bind [OF keeps_pure(2)], erule durable_pending)
    fix ctx
    show "leads (durable cd) (case ix_cached_response ctx of None \<Rightarrow> act_bind b (\<lambda>(response, pk).
         act_bind (act_do (answer_command (ro_env R) ctx name pk response)) (\<lambda>_. act_return response))
       | Some response \<Rightarrow> act_return response) (\<lambda>_. pending cd)"
    proof (cases "ix_cached_response ctx")
      case None
      then show ?thesis by (simp only: option.case) (rule leads_keeps_bind [OF that _ answered], assumption)
    next
      case (Some response)
      then show ?thesis using durable_pending by (auto simp: leads_def act_apply)
    qed
  qed
  show ?thesis
    unfolding assign_item_def Let_def
    by (rule leads_keeps_bind [OF keeps_need(1)], erule durable_pending) (rule cmd [OF body])
qed

lemma keeps_run_now:
  assumes "rv_codec (ro_env R) = cd"
  shows "leads (durable cd) (scheduler_run_now R by_user) (\<lambda>_. pending cd)"
proof (rule leadsI)
  fix rt rt' r assume d: "durable cd rt" and run: "scheduler_run_now R by_user rt = Some (rt', r)"
  define rq where "rq = \<lparr>rq_run_id = ro_new_id R (cf_run_id_prefix (sd_config (rt_scheduler rt))),
    rq_project_key = cf_project_key (sd_config (rt_scheduler rt)), rq_scenario = cf_scenario (sd_config (rt_scheduler rt)),
    rq_triggered_by = by_user, rq_trigger_source = TS_Manual\<rparr>"
  note defs = scheduler_run_now_def run_now_def run_now_with_def performed_run_def scheduled_runner_def Let_def
  show "pending cd rt'"
  proof (cases "runtime_analysis (ro_env R) rq rt")
    case None
    with run show ?thesis by (simp add: defs rq_def)
  next
    case (Some ran)
    obtain rt1 x where ran: "ran = (rt1, x)" by fastforce
    from leadsD [OF keeps_runs(2) [OF assms] d Some [unfolded ran]] have "durable cd rt1" .
    moreover obtain sd where "rt' = rt1\<lparr>rt_scheduler := sd\<rparr>"
      using run Some unfolding ran rq_def by (cases x) (auto simp: defs)
    ultimately show ?thesis by (simp add: pending_scheduler durable_pending)
  qed
qed

lemma keeps_run_schedule_now:
  assumes "rv_codec (ro_env R) = cd"
  shows "keeps (durable cd) (run_schedule_now R)"
proof -
  have body: "keeps (durable cd) (act_bind (scheduler_run_now R u) g)" if "\<And>r. leads (pending cd) (g r) (\<lambda>_. durable cd)" for u g
  proof (rule leads_bind [where P' = "\<lambda>_. pending cd", OF _ that])
    show "leads (durable cd) (scheduler_run_now R u) (\<lambda>r s. case r of Inl e \<Rightarrow> durable cd s | Inr x \<Rightarrow> pending cd s)"
      using keeps_run_now [OF assms, of u] unfolding leads_def
      by (auto simp: scheduler_run_now_def split: option.splits prod.splits)
  qed
  show ?thesis
    unfolding run_schedule_now_def
    by (intro keep_rules keeps_command [OF assms] body leads_pending_read leads_pending_audited leads_persisted [OF assms])
qed

lemma commit_decision_grows:
  assumes "queue_ok s"
  shows "queue_grows s (fst (fst (commit_decision ap sc item d s g)))"
  using assms
  by (auto simp: queue_grows_def queue_ok_def commit_decision_def Let_def dict_by_dset
      split: option.splits prod.splits sum.splits)

lemma decide_grows: "queue_grows s (fst (fst (decide ap sc h now d s g)))"
proof (cases "queue_ok s")
  case False
  then show ?thesis by (simp add: queue_grows_def)
next
  case ok: True
  have item: "queue_grows s (s'\<lparr>sv_items := dset k x (sv_items s')\<rparr>)" if "queue_grows s s'" "ap_approval_id x = k" for s' x k
    using that ok by (auto simp: queue_grows_def queue_ok_def dict_by_dset)
  have feedback: "queue_grows s (s'\<lparr>sv_feedback := fs\<rparr>)" if "queue_grows s s'" for s' fs
    using that ok by (simp add: queue_grows_def queue_ok_def)
  obtain s1 g1 r where c: "commit_decision ap sc (the (dget (sv_items s) (ad_approval_id d))) d s g = ((s1, g1), r)"
    by (metis prod.exhaust)
  have "queue_grows s s1" using commit_decision_grows [OF ok, of ap sc _ d g] c by (metis fst_conv)
  with c show ?thesis
    unfolding decide_def
    by (auto simp: Let_def queue_grows_refl intro!: item feedback split: option.splits sum.splits)
qed

text \<open>Handlers after whose success a predicate holds.\<close>

abbreviation ends_in :: "('s \<Rightarrow> bool) \<Rightarrow> ('s, 'r) act \<Rightarrow> ('s \<Rightarrow> bool) \<Rightarrow> bool" where
  "ends_in P m Q \<equiv> leads P m (\<lambda>r s. case r of Inl _ \<Rightarrow> True | Inr _ \<Rightarrow> Q s)"

lemma ends_in_bind: "ends_in P m P' \<Longrightarrow> (\<And>x. ends_in P' (f x) Q) \<Longrightarrow> ends_in P (act_bind m f) Q"
  by (rule leads_bind [where P' = "\<lambda>_. P'"]) (simp_all only: sum.case)

lemma ends_in_weaken: "leads P m (\<lambda>_. Q) \<Longrightarrow> ends_in P m Q"
  by (auto simp: leads_def split: sum.splits)

lemma ends_in_command:
  assumes "rv_codec (ro_env R) = cd" and "ends_in (durable cd) body (durable cd)"
  shows "ends_in (durable cd) (command R name payload body) (durable cd)"
proof -
  have "ends_in (durable cd) (case c of None \<Rightarrow> act_bind body (\<lambda>(response, pk).
         act_bind (act_do (answer_command (ro_env R) ctx name pk response)) (\<lambda>_. act_return response))
       | Some response \<Rightarrow> act_return response) (durable cd)" for c ctx
  proof (cases c)
    case None
    have "keeps (durable cd) (case x of (response, pk) \<Rightarrow>
         act_bind (act_do (answer_command (ro_env R) ctx name pk response)) (\<lambda>_. act_return response))" for x
      by (intro keep_rules leads_do keeps_answer assms(1))
    with None show ?thesis by (simp only: option.case) (rule ends_in_bind [OF assms(2) ends_in_weaken])
  next
    case (Some response)
    then show ?thesis by (simp only: option.case) (rule ends_in_weaken [OF keeps_pure(3)])
  qed
  then show ?thesis
    unfolding command_def by (intro ends_in_bind [OF ends_in_weaken [OF keeps_pure(2)]])
qed

lemma pending_decide: "ends_in (durable cd) (runtime_decide R d) (pending cd)"
proof (rule leadsI)
  fix rt rt' r assume dur: "durable cd rt" and run: "runtime_decide R d rt = Some (rt', r)"
  define dec where "dec = decide (apply_delta (ro_schema R)) (ro_schema R) (ro_host R) (rv_now (ro_env R) ''decide'') d
    (rt_approvals rt) (rt_graph rt)"
  have rt': "rt' = rt\<lparr>rt_approvals := fst (fst dec), rt_graph := snd (fst dec)\<rparr>"
    using run by (simp add: runtime_decide_def act_then_def dec_def split: prod.splits)
  have "pending cd rt'"
    unfolding rt' by (rule pending_queue [OF durable_pending [OF dur]]) (simp add: dec_def decide_grows)
  then show "case r of Inl _ \<Rightarrow> True | Inr _ \<Rightarrow> pending cd rt'" by (cases r) simp_all
qed

lemma decide_durable:
  assumes "rv_codec (ro_env R) = cd"
  shows "ends_in (durable cd) (decide_approval R i d explicit) (durable cd)"
proof -
  have "ends_in (durable cd) (act_bind (runtime_decide R d) (\<lambda>item.
        act_bind (audited R ''approval_decided'' (decision_event d item)) (\<lambda>_.
        act_bind (persisted R) (\<lambda>_.
        act_return (approval_dump item, Some (ap_project_key item)))))) (durable cd)"
    by (intro ends_in_bind [OF pending_decide] ends_in_weaken leads_pending_audited leads_persisted [OF assms])
  note body = ends_in_command [OF assms this]
  show ?thesis
    unfolding decide_approval_def
    by (intro ends_in_bind [OF ends_in_weaken [OF keeps_pure(1)]] ends_in_bind [OF ends_in_weaken [OF keeps_pure(2)]]
        ends_in_bind [OF ends_in_weaken [OF keeps_need(1)]] body)
qed

lemma keeps_noted:
  assumes "rv_codec (ro_env R) = cd" and "keeps (durable cd) answer"
  shows "keeps (durable cd) (noted R a answer)"
  unfolding noted_def
  by (intro leads_durable leads_pending_audited leads_keeps_bind [OF pending_persisted [OF assms(1)]] assms(2))

lemma keeps_answer_artifact:
  assumes "rv_codec (ro_env R) = cd"
  shows "keeps (durable cd) (answer_artifact R i pk r)"
  unfolding answer_artifact_def
  by (cases r) (auto split: py_error.split intro!: keeps_noted [OF assms] keeps_pure)

lemma keeps_read_artifact:
  assumes "rv_codec (ro_env R) = cd"
  shows "keeps (durable cd) (read_debug_artifact R i)"
  unfolding read_debug_artifact_def by (intro keep_rules keeps_answer_artifact [OF assms])

lemma keeps_archive_prune:
  assumes "rv_codec (ro_env R) = cd"
  shows "keeps (durable cd) (archive_and_prune_audit_events R)"
proof -
  have pruned: "keeps (durable cd) (act_then (archive_and_prune_audit (ro_env R)))"
    unfolding leads_def act_then_def using assms durable_archive by fastforce
  have saved: "keeps (durable cd) (act_bind (audited R l a) (\<lambda>_. act_bind (persisted R) (\<lambda>_. act_return x)))"
    for l a and x :: "jobj \<times> string option"
    by (intro leads_durable leads_pending_audited leads_persisted [OF assms])
  show ?thesis
    unfolding archive_and_prune_audit_events_def Let_def
    by (intro keeps_then [OF keeps_need(2)] keeps_then [OF keeps_pure(2)] keeps_command [OF assms] keeps_then [OF pruned] saved)
qed

section \<open>Serving\<close>

datatype request =
    Ingest run_query | Analyze run_query | Set_Finding_Status string finding_status_query jobj
  | Configure_Schedule schedule_config | Run_Schedule | Decide string approval_decision jobj
  | Post_Feedback feedback_event jobj | Activate_Candidate string activation_query jobj
  | Rollback_Candidate string rollback_query jobj | Change_Registry registry_request
  | Save_Filters "(string, filter_preset) dict" string | Assign_Queue_Item string assignment_query
  | Read_Artifact string | Archive_Audit

text \<open>The answer to a read of an artifact, any JSON value, is put into an object here.\<close>

fun serve :: "('a, 'v, 'w, 'p) route_env \<Rightarrow> request \<Rightarrow> ('a, 'v, 'w, 'p, jobj) handler" where
  "serve R (Ingest q) = post_ingest R q"
| "serve R (Analyze q) = post_analyze R q"
| "serve R (Set_Finding_Status i q explicit) = update_finding_status R i q explicit"
| "serve R (Configure_Schedule c) = configure_schedule R c"
| "serve R Run_Schedule = run_schedule_now R"
| "serve R (Decide i d explicit) = decide_approval R i d explicit"
| "serve R (Post_Feedback f explicit) = post_feedback R f explicit"
| "serve R (Activate_Candidate i q explicit) = activate_improvement R i q explicit"
| "serve R (Rollback_Candidate i q explicit) = rollback_improvement R i q explicit"
| "serve R (Change_Registry x) = handle_registry R x"
| "serve R (Save_Filters filters pk) = save_preferences R filters pk"
| "serve R (Assign_Queue_Item i q) = assign_item R i q"
| "serve R (Read_Artifact i) = act_bind (read_debug_artifact R i) (\<lambda>v. act_return [(''artifact'', v)])"
| "serve R Archive_Audit = archive_and_prune_audit_events R"

definition saves_all :: "request \<Rightarrow> jobj result \<Rightarrow> bool" where
  \<comment> \<open>all but a decision that raises, which may have changed the queue without saving it, and the two writes
     of the dashboard, which leave their audit event to the next save\<close>
  "saves_all q r = (case q of Decide _ _ _ \<Rightarrow> (\<exists>x. r = Inr x) | Save_Filters _ _ \<Rightarrow> False
     | Assign_Queue_Item _ _ \<Rightarrow> False | _ \<Rightarrow> True)"

definition dashboard_write :: "request \<Rightarrow> bool" where
  "dashboard_write q = (case q of Save_Filters _ _ \<Rightarrow> True | Assign_Queue_Item _ _ \<Rightarrow> True | _ \<Rightarrow> False)"

lemma dashboard_write_saved:
  \<comment> \<open>a write of the dashboard and the next save\<close>
  assumes "rv_codec (ro_env R) = cd" and "durable cd rt" and "dashboard_write q" and "serve R q rt = Some (rt1, r)"
    and "rv_codec env = cd" and "persist_approval_state env rt1 = (rt', p)"
  shows "durable cd rt'"
proof -
  have "pending cd rt1"
    using assms(3,4) leadsD [OF save_preferences_pending [OF assms(1)] assms(2)] leadsD [OF assign_item_pending [OF assms(1)] assms(2)]
    by (cases q) (simp_all add: dashboard_write_def)
  then obtain sv au where "behind cd sv au rt1" by (auto simp: pending_def)
  with durable_persist_approval_state [OF assms(6)] assms(5) show ?thesis unfolding behind_def by blast
qed

lemma serve_durable:
  assumes "rv_codec (ro_env R) = cd" and "durable cd rt" and "serve R q rt = Some (rt', r)" and "saves_all q r"
  shows "durable cd rt'"
proof -
  have "keeps (durable cd) (serve R q)" if "\<And>i d e. q \<noteq> Decide i d e"
    using that assms(4)
    by (cases q) (simp_all add: saves_all_def keeps_registry keeps_post_ingest keeps_post_analyze keeps_finding_status keeps_configure_schedule
        keeps_run_schedule_now keeps_feedback keeps_activate keeps_rollback keeps_archive_prune assms(1),
        (blast intro: keeps_then keeps_read_artifact assms(1) keeps_pure)+)
  moreover have "durable cd rt'" if "q = Decide i d e" for i d e
  proof (cases r)
    case (Inl x)
    with assms(4) that show ?thesis by (simp add: saves_all_def)
  next
    case (Inr x)
    with leadsD [OF decide_durable [OF assms(1)] assms(2)] assms(3) that show ?thesis by fastforce
  qed
  ultimately show ?thesis using leadsD assms(2,3) by metis
qed

end
