(* ===== verification/Restart.thy ===== *)
theory Restart
  imports Serving
begin

text \<open>
  Restarts: \<open>restore_from_state_store\<close> on the rows a runtime has left behind gives its caches back, entry
  by entry, and the requests, jobs and restarts of an application in any order keep the invariant this
  rests on.
\<close>

section \<open>Rows read back\<close>

definition codec_faithful :: "'p codec \<Rightarrow> bool" where
  \<comment> \<open>\<open>model_validate\<close> on what \<open>model_dump\<close> wrote gives the entity back\<close>
  "codec_faithful cd = (\<forall>c e. entity_fits c e \<longrightarrow> cd_load cd c (cd_dump cd e) = Inr e)"

lemma codec_faithfulD: "codec_faithful cd \<Longrightarrow> entity_fits c e \<Longrightarrow> cd_load cd c (cd_dump cd e) = Inr e"
  by (simp add: codec_faithful_def)

lemma entity_rows_mirrored:
  assumes "codec_faithful cd" and "dict_ok tb" and "mirrored cd tb c con d" and fits: "\<And>x. entity_fits c (con x)"
  shows "\<exists>xs. entity_rows cd c tb = Inr (map con xs) \<and> set xs = {x. \<exists>i. dget d i = Some x}"
proof -
  from list_rows_find [OF assms(2), of c] obtain ids where ids: "set ids = {i. find_row c i tb \<noteq> None}"
    and rows: "list_rows c None tb = map (\<lambda>i. the (find_row c i tb)) ids" by blast
  have found: "find_row c i tb = map_option (\<lambda>x. cd_dump cd (con x)) (dget d i)" for i
    using assms(3) by (simp add: mirrored_def)
  let ?xs = "map (\<lambda>i. the (dget d i)) ids"
  have keys: "set ids = {i. dget d i \<noteq> None}" by (simp add: ids found)
  have "the (find_row c i tb) = cd_dump cd (con (the (dget d i)))" if "i \<in> set ids" for i
    using that keys by (auto simp: found simp del: dget_None_iff)
  then have "list_rows c None tb = map (cd_dump cd) (map con ?xs)" by (simp add: rows)
  then have "entity_rows cd c tb = Inr (map con ?xs)"
    unfolding entity_rows_def
    using rmap_map [of "map con ?xs" "cd_load cd c" "cd_dump cd"] codec_faithfulD [OF assms(1) fits] by fastforce
  moreover have "set ?xs = {x. \<exists>i. dget d i = Some x}"
    unfolding set_map keys by force
  ultimately show ?thesis by blast
qed

lemma entity_rows_typed:
  assumes "codec_faithful cd" and "dict_ok tb" and "rows_typed cd tb"
  shows "\<exists>es. entity_rows cd c tb = Inr es \<and> (\<forall>e\<in>set es. entity_fits c e)"
proof -
  have typed: "\<exists>e. entity_fits c e \<and> cd_load cd c p = Inr e" if p: "p \<in> set (list_rows c None tb)" for p
  proof -
    from p list_rows_find [OF assms(2), of c] obtain i where "find_row c i tb = Some p" by auto
    with assms(3) obtain e where "entity_fits c e" "p = cd_dump cd e" unfolding rows_typed_def by blast
    with codec_faithfulD [OF assms(1)] show ?thesis by blast
  qed
  then obtain es where es: "rmap (cd_load cd c) (list_rows c None tb) = Inr es"
    using rmap_total [of "list_rows c None tb" "cd_load cd c"] by blast
  moreover have "entity_fits c e" if "e \<in> set es" for e
    using rmap_ok [OF es that] typed by fastforce
  ultimately show ?thesis unfolding entity_rows_def by blast
qed

lemma dget_foldl_exact:
  assumes "\<And>i x. (i, x) \<in> set kvs \<longleftrightarrow> dget d i = Some x"
  shows "dget (foldl (\<lambda>d kv. dset (fst kv) (snd kv) d) [] kvs) i = dget d i"
proof -
  have "dget (rev kvs) i = dget d i"
  proof (cases "dget (rev kvs) i")
    case None
    then have "\<forall>x. (i, x) \<notin> set kvs" by (force simp: map_of_eq_None_iff)
    with assms None show ?thesis by (metis not_Some_eq)
  next
    case (Some x)
    then have "(i, x) \<in> set kvs" by (metis map_of_SomeD set_rev)
    with assms Some show ?thesis by metis
  qed
  then show ?thesis by (simp only: foldl_dset_get) (simp split: option.splits)
qed

lemma set_map_filter: "set (List.map_filter f xs) = {y. \<exists>x\<in>set xs. f x = Some y}"
  by (induction xs) (auto simp: List.map_filter_simps split: option.splits)

lemma recovered:
  assumes "codec_faithful cd" and "dict_ok tb" and "mirrored cd tb c con d" and "\<And>x. entity_fits c (con x)"
    and sel: "\<And>i x. dget d i = Some x \<Longrightarrow> sel (con x) = Some (i, x)"
  shows "\<exists>es. entity_rows cd c tb = Inr es \<and> (\<forall>i. dget (pick sel es []) i = dget d i)"
proof -
  from entity_rows_mirrored [OF assms(1-4)] obtain xs where es: "entity_rows cd c tb = Inr (map con xs)"
    and xs: "set xs = {x. \<exists>i. dget d i = Some x}" by blast
  have "(i, x) \<in> set (List.map_filter sel (map con xs)) \<longleftrightarrow> dget d i = Some x" for i x
    using sel unfolding set_map_filter set_map xs by fastforce
  then have "dget (pick sel (map con xs) []) i = dget d i" for i
    unfolding pick_def by (rule dget_foldl_exact)
  with es show ?thesis by blast
qed

lemma dict_ok_pick: "dict_ok d \<Longrightarrow> dict_ok (pick sel es d)"
  unfolding pick_def by (rule foldl_dset_ok)

lemma dict_by_pick:
  assumes "\<And>e k x. sel e = Some (k, x) \<Longrightarrow> key x = k" and "dict_by key d"
  shows "dict_by key (pick sel es d)"
proof -
  have "dict_by key (foldl (\<lambda>d kv. dset (fst kv) (snd kv) d) d kvs)" if "\<forall>kv\<in>set kvs. key (snd kv) = fst kv" for kvs
    using that assms(2) by (induction kvs arbitrary: d) auto
  moreover have "\<forall>kv\<in>set (List.map_filter sel es). key (snd kv) = fst kv"
    using assms(1) unfolding set_map_filter by fastforce
  ultimately show ?thesis unfolding pick_def by blast
qed

section \<open>The parts of a restart\<close>

definition same_entries :: "(string, 'x) dict \<Rightarrow> (string, 'x) dict \<Rightarrow> bool" where
  "same_entries d d' = (\<forall>i. dget d i = dget d' i)"

definition recovers :: "('a, 'v, 'w, 'p) runtime \<Rightarrow> ('b, 'x, 'y, 'p) runtime \<Rightarrow> bool" where
  \<comment> \<open>the second has the entries the first had\<close>
  "recovers rt rt' = (same_entries (tr_runs (rt_traces rt')) (tr_runs (rt_traces rt))
     \<and> same_entries (tr_steps (rt_traces rt')) (tr_steps (rt_traces rt))
     \<and> same_entries (rt_cursors rt') (rt_cursors rt)
     \<and> same_entries (rt_findings rt') (rt_findings rt)
     \<and> same_entries (rt_commands rt') (rt_commands rt)
     \<and> same_entries (rt_activations rt') (rt_activations rt)
     \<and> same_entries (rt_decisions rt') (rt_decisions rt)
     \<and> same_entries (rt_preferences rt') (rt_preferences rt)
     \<and> same_entries (rt_assignments rt') (rt_assignments rt)
     \<and> same_entries (sv_items (rt_approvals rt')) (sv_items (rt_approvals rt))
     \<and> same_entries (sv_deltas (rt_approvals rt')) (sv_deltas (rt_approvals rt))
     \<and> same_entries (as_events (rt_audit rt')) (as_events (rt_audit rt)))"

lemma recovered_by:
  assumes "codec_faithful cd" and "dict_ok tb" and "mirrored cd tb c con d" and "\<And>x. entity_fits c (con x)"
    and "\<And>x. sel (con x) = Some (key x, x)" and "dict_by key d" and "\<And>e k x. sel e = Some (k, x) \<Longrightarrow> key x = k"
  shows "\<exists>es. entity_rows cd c tb = Inr es \<and> same_entries (pick sel es []) d \<and> dict_by key (pick sel es [])"
proof -
  have "\<exists>es. entity_rows cd c tb = Inr es \<and> (\<forall>i. dget (pick sel es []) i = dget d i)"
  proof (rule recovered [OF assms(1-4)])
    show "sel (con x) = Some (i, x)" if "dget d i = Some x" for i x
      using dict_by_get [OF assms(6) that] assms(5) by simp
  qed
  moreover have "dict_by key (pick sel es [])" for es
    by (rule dict_by_pick [OF _ dict_by_Nil]) (rule assms(7))
  ultimately show ?thesis unfolding same_entries_def by blast
qed

lemma dict_row_names: "dict_row key e = Some (i, d) \<Longrightarrow> jget d key = JStr i"
  by (auto simp: dict_row_def split: entity.splits json.splits)

lemma recovered_named:
  assumes "codec_faithful cd" and "dict_ok tb" and "mirrored cd tb c E_Dict d" and "\<And>x. entity_fits c (E_Dict x)"
    and "named_by key d"
  shows "\<exists>es. entity_rows cd c tb = Inr es \<and> same_entries (pick (dict_row key) es []) d
    \<and> named_by key (pick (dict_row key) es [])"
proof -
  have "\<exists>es. entity_rows cd c tb = Inr es \<and> (\<forall>i. dget (pick (dict_row key) es []) i = dget d i)"
  proof (rule recovered [OF assms(1-4)])
    show "dict_row key (E_Dict x) = Some (i, x)" if "dget d i = Some x" for i x
      using assms(5) that by (simp add: named_by_def dict_row_def)
  qed
  then obtain es where es: "entity_rows cd c tb = Inr es"
    and same: "\<forall>i. dget (pick (dict_row key) es []) i = dget d i" by blast
  have "named_by key (pick (dict_row key) es [])"
    using assms(5) dict_ok_pick [of "[]" "dict_row key" es] same unfolding named_by_def by simp
  with es same show ?thesis unfolding same_entries_def by blast
qed

abbreviation "sel_run \<equiv> (\<lambda>e. case e of E_Run r \<Rightarrow> Some (rn_run_id r, r) | _ \<Rightarrow> None)"
abbreviation "sel_step \<equiv> (\<lambda>e. case e of E_Step s \<Rightarrow> Some (sp_step_id s, s) | _ \<Rightarrow> None)"
abbreviation "sel_call \<equiv> (\<lambda>e. case e of E_LLM t \<Rightarrow> Some (lt_llm_call_id t, t) | _ \<Rightarrow> None)"
abbreviation "sel_cursor \<equiv> (\<lambda>e. case e of E_Cursor c \<Rightarrow> Some (cs_cursor_id c, c) | _ \<Rightarrow> None)"
abbreviation "sel_finding \<equiv> (\<lambda>e. case e of E_Finding f \<Rightarrow> Some (fd_finding_id f, f) | _ \<Rightarrow> None)"
abbreviation "sel_command \<equiv> (\<lambda>e. case e of E_Command r \<Rightarrow> Some (ir_record_id r, r) | _ \<Rightarrow> None)"
abbreviation "sel_item \<equiv> (\<lambda>e. case e of E_Approval a \<Rightarrow> Some (ap_approval_id a, a) | _ \<Rightarrow> None)"
abbreviation "sel_delta \<equiv> (\<lambda>e. case e of E_Delta d \<Rightarrow> Some (gd_delta_id d, d) | _ \<Rightarrow> None)"
abbreviation "sel_event \<equiv> (\<lambda>e. case e of E_Audit ev \<Rightarrow> Some (au_audit_id ev, ev) | _ \<Rightarrow> None)"

lemma sel_run_name: "sel_run e = Some (k, r) \<Longrightarrow> rn_run_id r = k"
  by (cases e) simp_all

lemma sel_step_name: "sel_step e = Some (k, s) \<Longrightarrow> sp_step_id s = k"
  by (cases e) simp_all

lemma sel_call_name: "sel_call e = Some (k, t) \<Longrightarrow> lt_llm_call_id t = k"
  by (cases e) simp_all

lemma sel_cursor_name: "sel_cursor e = Some (k, c) \<Longrightarrow> cs_cursor_id c = k"
  by (cases e) simp_all

lemma sel_finding_name: "sel_finding e = Some (k, f) \<Longrightarrow> fd_finding_id f = k"
  by (cases e) simp_all

lemma sel_command_name: "sel_command e = Some (k, x) \<Longrightarrow> ir_record_id x = k"
  by (cases e) simp_all

lemma sel_item_name: "sel_item e = Some (k, a) \<Longrightarrow> ap_approval_id a = k"
  by (cases e) simp_all

lemma sel_delta_name: "sel_delta e = Some (k, d) \<Longrightarrow> gd_delta_id d = k"
  by (cases e) simp_all

lemma sel_event_name: "sel_event e = Some (k, v) \<Longrightarrow> au_audit_id v = k"
  by (cases e) simp_all

lemma traces_named_same:
  assumes "traces_named tr" and "same_entries (tr_steps tr') (tr_steps tr)"
    and "dict_by rn_run_id (tr_runs tr')" "dict_by sp_step_id (tr_steps tr')" "dict_by lt_llm_call_id (tr_llm_calls tr')"
  shows "traces_named tr'"
proof -
  have steps: "dget (tr_steps tr') i = dget (tr_steps tr) i" for i
    using assms(2) by (simp add: same_entries_def)
  have old: "dict_by sp_step_id (tr_steps tr)" "\<forall>s\<in>set (dvals (tr_steps tr)). step_wf s"
    using assms(1) unfolding traces_named_def traces_wf_def by blast+
  have "step_wf s" if "s \<in> set (dvals (tr_steps tr'))" for s
    using that dict_by_vals [OF assms(4)] dict_by_vals [OF old(1)] old(2) by (simp only: steps)
  with assms(1,3-5) show ?thesis
    by (simp only: traces_named_def traces_wf_def steps) blast
qed

lemma restore_traces_ok:
  assumes cf: "codec_faithful cd" and m: "rows_mirror cd rt tb" and ok: "caches_ok rt"
  shows "\<exists>tr. restore_traces cd tb empty_traces = Inr tr \<and> traces_named tr
    \<and> same_entries (tr_runs tr) (tr_runs (rt_traces rt)) \<and> same_entries (tr_steps tr) (tr_steps (rt_traces rt))"
proof -
  note rows = rows_mirrorD [OF m]
  note tr = caches_ok_parts(1) [OF ok]
  have by_id: "dict_by rn_run_id (tr_runs (rt_traces rt))" "dict_by sp_step_id (tr_steps (rt_traces rt))"
    using tr by (simp_all add: traces_named_def traces_wf_def)
  have "\<exists>es. entity_rows cd ''agent_runs'' tb = Inr es \<and> same_entries (pick sel_run es []) (tr_runs (rt_traces rt))
      \<and> dict_by rn_run_id (pick sel_run es [])"
    by (rule recovered_by [OF cf rows(1,3) _ _ by_id(1)]) (simp, simp, erule sel_run_name)
  then obtain runs where runs: "entity_rows cd ''agent_runs'' tb = Inr runs"
    "same_entries (pick sel_run runs []) (tr_runs (rt_traces rt))" "dict_by rn_run_id (pick sel_run runs [])" by blast
  have "\<exists>es. entity_rows cd ''agent_step_traces'' tb = Inr es \<and> same_entries (pick sel_step es []) (tr_steps (rt_traces rt))
      \<and> dict_by sp_step_id (pick sel_step es [])"
    by (rule recovered_by [OF cf rows(1,4) _ _ by_id(2)]) (simp, simp, erule sel_step_name)
  then obtain steps where steps: "entity_rows cd ''agent_step_traces'' tb = Inr steps"
    "same_entries (pick sel_step steps []) (tr_steps (rt_traces rt))" "dict_by sp_step_id (pick sel_step steps [])" by blast
  obtain calls where calls: "entity_rows cd ''llm_call_traces'' tb = Inr calls"
    using entity_rows_typed [OF cf rows(1,2)] by blast
  have "dict_by lt_llm_call_id (pick sel_call calls [])"
    by (rule dict_by_pick) (erule sel_call_name, simp)
  with runs(3) steps(2,3) have "traces_named \<lparr>tr_runs = pick sel_run runs [], tr_steps = pick sel_step steps [],
      tr_llm_calls = pick sel_call calls []\<rparr>"
    by (intro traces_named_same [OF tr]) simp_all
  then show ?thesis
    using runs(1,2) steps(1,2) calls by (simp add: restore_traces_def empty_traces_def)
qed

lemma caches_okD:
  assumes "caches_ok rt"
  shows "dict_by fd_finding_id (rt_findings rt)" and "dict_by cs_cursor_id (rt_cursors rt)"
    and "dict_by ir_record_id (rt_commands rt)" and "named_by ''activation_id'' (rt_activations rt)"
    and "named_by ''candidate_id'' (rt_decisions rt)" and "named_by ''preference_id'' (rt_preferences rt)"
    and "named_by ''assignment_id'' (rt_assignments rt)"
  using assms by (simp_all only: caches_ok_def)

lemma rows_mirror_cachesD:
  assumes "rows_mirror cd rt tb"
  shows "mirrored cd tb ''idempotency_results'' E_Command (rt_commands rt)"
    and "mirrored cd tb ''registry_activations'' E_Dict (rt_activations rt)"
    and "mirrored cd tb ''improvement_decisions'' E_Dict (rt_decisions rt)"
    and "mirrored cd tb ''dashboard_preferences'' E_Dict (rt_preferences rt)"
    and "mirrored cd tb ''dashboard_assignments'' E_Dict (rt_assignments rt)"
    and "mirrored cd tb ''approval_items'' E_Approval (sv_items (rt_approvals rt))"
    and "mirrored cd tb ''graph_deltas'' E_Delta (sv_deltas (rt_approvals rt))"
  using assms by (simp_all only: rows_mirror_def)

lemma recovered_records:
  assumes cf: "codec_faithful cd" and m: "rows_mirror cd rt tb" and ok: "caches_ok rt"
  shows "\<exists>es. entity_rows cd ''source_sync_cursors'' tb = Inr es \<and> same_entries (pick sel_cursor es []) (rt_cursors rt)
      \<and> dict_by cs_cursor_id (pick sel_cursor es [])"
    and "\<exists>es. entity_rows cd ''findings'' tb = Inr es \<and> same_entries (pick sel_finding es []) (rt_findings rt)
      \<and> dict_by fd_finding_id (pick sel_finding es [])"
    and "\<exists>es. entity_rows cd ''idempotency_results'' tb = Inr es \<and> same_entries (pick sel_command es []) (rt_commands rt)
      \<and> dict_by ir_record_id (pick sel_command es [])"
    and "\<exists>es. entity_rows cd ''approval_items'' tb = Inr es \<and> same_entries (pick sel_item es []) (sv_items (rt_approvals rt))
      \<and> dict_by ap_approval_id (pick sel_item es [])"
    and "\<exists>es. entity_rows cd ''graph_deltas'' tb = Inr es \<and> same_entries (pick sel_delta es []) (sv_deltas (rt_approvals rt))
      \<and> dict_by gd_delta_id (pick sel_delta es [])"
    and "\<exists>es. entity_rows cd ''audit_events'' tb = Inr es \<and> same_entries (pick sel_event es []) (as_events (rt_audit rt))
      \<and> dict_by au_audit_id (pick sel_event es [])"
proof -
  note rows = rows_mirrorD [OF m] and more = rows_mirror_cachesD [OF m]
  have queue: "dict_by ap_approval_id (sv_items (rt_approvals rt))" "dict_by gd_delta_id (sv_deltas (rt_approvals rt))"
    using caches_ok_parts(2) [OF ok] by (simp_all only: queue_ok_def)
  show "\<exists>es. entity_rows cd ''source_sync_cursors'' tb = Inr es \<and> same_entries (pick sel_cursor es []) (rt_cursors rt)
      \<and> dict_by cs_cursor_id (pick sel_cursor es [])"
    by (rule recovered_by [OF cf rows(1,6) _ _ caches_okD(2) [OF ok]]) (simp, simp, erule sel_cursor_name)
  show "\<exists>es. entity_rows cd ''findings'' tb = Inr es \<and> same_entries (pick sel_finding es []) (rt_findings rt)
      \<and> dict_by fd_finding_id (pick sel_finding es [])"
    by (rule recovered_by [OF cf rows(1,7) _ _ caches_okD(1) [OF ok]]) (simp, simp, erule sel_finding_name)
  show "\<exists>es. entity_rows cd ''idempotency_results'' tb = Inr es \<and> same_entries (pick sel_command es []) (rt_commands rt)
      \<and> dict_by ir_record_id (pick sel_command es [])"
    by (rule recovered_by [OF cf rows(1) more(1) _ _ caches_okD(3) [OF ok]]) (simp, simp, erule sel_command_name)
  show "\<exists>es. entity_rows cd ''approval_items'' tb = Inr es \<and> same_entries (pick sel_item es []) (sv_items (rt_approvals rt))
      \<and> dict_by ap_approval_id (pick sel_item es [])"
    by (rule recovered_by [OF cf rows(1) more(6) _ _ queue(1)]) (simp, simp, erule sel_item_name)
  show "\<exists>es. entity_rows cd ''graph_deltas'' tb = Inr es \<and> same_entries (pick sel_delta es []) (sv_deltas (rt_approvals rt))
      \<and> dict_by gd_delta_id (pick sel_delta es [])"
    by (rule recovered_by [OF cf rows(1) more(7) _ _ queue(2)]) (simp, simp, erule sel_delta_name)
  show "\<exists>es. entity_rows cd ''audit_events'' tb = Inr es \<and> same_entries (pick sel_event es []) (as_events (rt_audit rt))
      \<and> dict_by au_audit_id (pick sel_event es [])"
    by (rule recovered_by [OF cf rows(1,5) _ _ caches_ok_parts(3) [OF ok]]) (simp, simp, erule sel_event_name)
qed

lemma recovered_dicts:
  assumes cf: "codec_faithful cd" and m: "rows_mirror cd rt tb" and ok: "caches_ok rt"
  shows "\<exists>es. entity_rows cd ''registry_activations'' tb = Inr es
      \<and> same_entries (pick (dict_row ''activation_id'') es []) (rt_activations rt)
      \<and> named_by ''activation_id'' (pick (dict_row ''activation_id'') es [])"
    and "\<exists>es. entity_rows cd ''improvement_decisions'' tb = Inr es
      \<and> same_entries (pick (dict_row ''candidate_id'') es []) (rt_decisions rt)
      \<and> named_by ''candidate_id'' (pick (dict_row ''candidate_id'') es [])"
    and "\<exists>es. entity_rows cd ''dashboard_preferences'' tb = Inr es
      \<and> same_entries (pick (dict_row ''preference_id'') es []) (rt_preferences rt)
      \<and> named_by ''preference_id'' (pick (dict_row ''preference_id'') es [])"
    and "\<exists>es. entity_rows cd ''dashboard_assignments'' tb = Inr es
      \<and> same_entries (pick (dict_row ''assignment_id'') es []) (rt_assignments rt)
      \<and> named_by ''assignment_id'' (pick (dict_row ''assignment_id'') es [])"
  using recovered_named [OF cf rows_mirrorD(1) [OF m] rows_mirror_cachesD(2) [OF m] _ caches_okD(4) [OF ok]]
    recovered_named [OF cf rows_mirrorD(1) [OF m] rows_mirror_cachesD(3) [OF m] _ caches_okD(5) [OF ok]]
    recovered_named [OF cf rows_mirrorD(1) [OF m] rows_mirror_cachesD(4) [OF m] _ caches_okD(6) [OF ok]]
    recovered_named [OF cf rows_mirrorD(1) [OF m] rows_mirror_cachesD(5) [OF m] _ caches_okD(7) [OF ok]]
  by (simp_all only: entity_fits.simps insert_iff simp_thms)

section \<open>The restart\<close>

text \<open>A runtime as the constructor leaves it, over any backends.\<close>

definition fresh_caches :: "('a, 'v, 'w, 'p) runtime \<Rightarrow> bool" where
  "fresh_caches rt = (rt_traces rt = empty_traces \<and> rt_approvals rt = empty_service \<and> as_events (rt_audit rt) = []
     \<and> rt_cursors rt = [] \<and> rt_findings rt = [] \<and> rt_commands rt = [] \<and> rt_activations rt = []
     \<and> rt_decisions rt = [] \<and> rt_preferences rt = [] \<and> rt_assignments rt = [])"

lemma fresh_new: "fresh_caches (new_runtime artifacts graph vector policy archive sched adapter st)"
  by (simp add: fresh_caches_def new_runtime_def)

lemma restore_caches_ok:
  assumes cf: "codec_faithful cd" and m: "rows_mirror cd rt tb" and ok: "caches_ok rt" and f: "fresh_caches rt0"
  shows "\<exists>rt1. restore_caches cd tb rt0 = Inr rt1 \<and> rt_approvals rt1 = empty_service \<and> as_events (rt_audit rt1) = []
    \<and> rt_store rt1 = rt_store rt0
    \<and> same_entries (rt_cursors rt1) (rt_cursors rt) \<and> dict_by cs_cursor_id (rt_cursors rt1)
    \<and> same_entries (rt_findings rt1) (rt_findings rt) \<and> dict_by fd_finding_id (rt_findings rt1)
    \<and> same_entries (rt_commands rt1) (rt_commands rt) \<and> dict_by ir_record_id (rt_commands rt1)
    \<and> same_entries (rt_activations rt1) (rt_activations rt) \<and> named_by ''activation_id'' (rt_activations rt1)
    \<and> same_entries (rt_decisions rt1) (rt_decisions rt) \<and> named_by ''candidate_id'' (rt_decisions rt1)
    \<and> same_entries (rt_preferences rt1) (rt_preferences rt) \<and> named_by ''preference_id'' (rt_preferences rt1)
    \<and> same_entries (rt_assignments rt1) (rt_assignments rt) \<and> named_by ''assignment_id'' (rt_assignments rt1)"
proof -
  note typed = entity_rows_typed [OF cf rows_mirrorD(1,2) [OF m]]
  obtain replays where 1: "entity_rows cd ''replay_results'' tb = Inr replays" using typed by blast
  obtain schedules where 2: "entity_rows cd ''schedule_configs'' tb = Inr schedules" using typed by blast
  from recovered_records(1) [OF cf m ok] obtain cursors where 3: "entity_rows cd ''source_sync_cursors'' tb = Inr cursors"
    "same_entries (pick sel_cursor cursors []) (rt_cursors rt)" "dict_by cs_cursor_id (pick sel_cursor cursors [])" by blast
  from recovered_records(2) [OF cf m ok] obtain findings where 4: "entity_rows cd ''findings'' tb = Inr findings"
    "same_entries (pick sel_finding findings []) (rt_findings rt)" "dict_by fd_finding_id (pick sel_finding findings [])" by blast
  from recovered_records(3) [OF cf m ok] obtain commands where 5: "entity_rows cd ''idempotency_results'' tb = Inr commands"
    "same_entries (pick sel_command commands []) (rt_commands rt)" "dict_by ir_record_id (pick sel_command commands [])" by blast
  from recovered_dicts(1) [OF cf m ok] obtain as where 6: "entity_rows cd ''registry_activations'' tb = Inr as"
    "same_entries (pick (dict_row ''activation_id'') as []) (rt_activations rt)"
    "named_by ''activation_id'' (pick (dict_row ''activation_id'') as [])" by blast
  from recovered_dicts(2) [OF cf m ok] obtain ds where 7: "entity_rows cd ''improvement_decisions'' tb = Inr ds"
    "same_entries (pick (dict_row ''candidate_id'') ds []) (rt_decisions rt)"
    "named_by ''candidate_id'' (pick (dict_row ''candidate_id'') ds [])" by blast
  from recovered_dicts(3) [OF cf m ok] obtain ps where 8: "entity_rows cd ''dashboard_preferences'' tb = Inr ps"
    "same_entries (pick (dict_row ''preference_id'') ps []) (rt_preferences rt)"
    "named_by ''preference_id'' (pick (dict_row ''preference_id'') ps [])" by blast
  from recovered_dicts(4) [OF cf m ok] obtain gs where 9: "entity_rows cd ''dashboard_assignments'' tb = Inr gs"
    "same_entries (pick (dict_row ''assignment_id'') gs []) (rt_assignments rt)"
    "named_by ''assignment_id'' (pick (dict_row ''assignment_id'') gs [])" by blast
  have f': "rt_cursors rt0 = []" "rt_findings rt0 = []" "rt_commands rt0 = []" "rt_activations rt0 = []"
    "rt_decisions rt0 = []" "rt_preferences rt0 = []" "rt_assignments rt0 = []" "rt_approvals rt0 = empty_service"
    "as_events (rt_audit rt0) = []"
    using f by (simp_all only: fresh_caches_def)
  show ?thesis
    unfolding restore_caches_def 1 2 3(1) 4(1) 5(1) 6(1) 7(1) 8(1) 9(1) rbind_simps f'
    using 3 4 5 6 7 8 9 f' by simp
qed

lemma restore_ok:
  assumes cf: "codec_faithful cd" and m: "rows_mirror cd rt tb" and ok: "caches_ok rt"
    and f: "fresh_caches rt0" "rt_store rt0 = Some tb"
  shows "\<exists>rt'. restore_from_state_store cd rt0 = Inr rt' \<and> recovers rt rt' \<and> caches_ok rt' \<and> rt_store rt' = Some tb"
proof -
  from restore_traces_ok [OF cf m ok] obtain tr where tr: "restore_traces cd tb empty_traces = Inr tr" "traces_named tr"
    "same_entries (tr_runs tr) (tr_runs (rt_traces rt))" "same_entries (tr_steps tr) (tr_steps (rt_traces rt))" by blast
  from restore_caches_ok [OF cf m ok f(1)] obtain rt1 where rt1: "restore_caches cd tb rt0 = Inr rt1"
    "rt_approvals rt1 = empty_service" "as_events (rt_audit rt1) = []" "rt_store rt1 = rt_store rt0"
    "same_entries (rt_cursors rt1) (rt_cursors rt)" "dict_by cs_cursor_id (rt_cursors rt1)"
    "same_entries (rt_findings rt1) (rt_findings rt)" "dict_by fd_finding_id (rt_findings rt1)"
    "same_entries (rt_commands rt1) (rt_commands rt)" "dict_by ir_record_id (rt_commands rt1)"
    "same_entries (rt_activations rt1) (rt_activations rt)" "named_by ''activation_id'' (rt_activations rt1)"
    "same_entries (rt_decisions rt1) (rt_decisions rt)" "named_by ''candidate_id'' (rt_decisions rt1)"
    "same_entries (rt_preferences rt1) (rt_preferences rt)" "named_by ''preference_id'' (rt_preferences rt1)"
    "same_entries (rt_assignments rt1) (rt_assignments rt)" "named_by ''assignment_id'' (rt_assignments rt1)" by blast
  note typed = entity_rows_typed [OF cf rows_mirrorD(1,2) [OF m]]
  from recovered_records(4) [OF cf m ok] obtain items where items: "entity_rows cd ''approval_items'' tb = Inr items"
    "same_entries (pick sel_item items []) (sv_items (rt_approvals rt))" "dict_by ap_approval_id (pick sel_item items [])" by blast
  from recovered_records(5) [OF cf m ok] obtain deltas where deltas: "entity_rows cd ''graph_deltas'' tb = Inr deltas"
    "same_entries (pick sel_delta deltas []) (sv_deltas (rt_approvals rt))" "dict_by gd_delta_id (pick sel_delta deltas [])" by blast
  from recovered_records(6) [OF cf m ok] obtain events where events: "entity_rows cd ''audit_events'' tb = Inr events"
    "same_entries (pick sel_event events []) (as_events (rt_audit rt))" "dict_by au_audit_id (pick sel_event events [])" by blast
  obtain feedback where feedback: "entity_rows cd ''feedback_events'' tb = Inr feedback" using typed by blast
  obtain nodes where nodes: "entity_rows cd ''graph_nodes'' tb = Inr nodes" using typed by blast
  obtain edges where edges: "entity_rows cd ''graph_edges'' tb = Inr edges" using typed by blast
  obtain sv where sv: "restore_approvals cd tb empty_service = Inr sv" "sv_items sv = pick sel_item items []"
    "sv_deltas sv = pick sel_delta deltas []"
    unfolding restore_approvals_def items(1) deltas(1) feedback rbind_simps by (simp add: empty_service_def)
  obtain g where g: "restore_graph cd tb (rt_graph rt0) = Inr g"
    unfolding restore_graph_def nodes edges rbind_simps Let_def by blast
  have f0: "rt_traces rt0 = empty_traces" "rt_approvals rt0 = empty_service" using f(1) by (simp_all only: fresh_caches_def)
  let ?rt' = "rt1\<lparr>rt_traces := tr, rt_approvals := sv,
      rt_audit := (rt_audit rt1)\<lparr>as_events := pick sel_event events []\<rparr>, rt_graph := g\<rparr>"
  have "restore_from_state_store cd rt0 = Inr ?rt'"
    unfolding restore_from_state_store_def f(2) option.case f0 tr(1) rt1(1) sv(1) events(1) g rbind_simps rt1(3) ..
  moreover have "recovers rt ?rt'"
    using tr(3,4) rt1 items(2) deltas(2) events(2) sv(2,3) by (simp add: recovers_def)
  moreover have "caches_ok ?rt'"
    using tr(2) rt1 items(3) deltas(3) events(3) sv(2,3) by (simp add: caches_ok_def queue_ok_def)
  moreover have "rt_store ?rt' = Some tb" using rt1(4) f(2) by simp
  ultimately show ?thesis by blast
qed

lemma mirrored_same: "mirrored cd tb c con d \<Longrightarrow> same_entries d' d \<Longrightarrow> mirrored cd tb c con d'"
  by (simp add: same_entries_def mirrored_def)

lemma recovered_durable:
  assumes "rows_mirror cd rt tb" and "recovers rt rt'" and "caches_ok rt'" and "rt_store rt' = Some tb"
  shows "durable cd rt'"
proof -
  have "rows_mirror cd rt' tb"
    using assms(1,2) unfolding rows_mirror_def recovers_def by (blast intro: mirrored_same)
  with assms(3,4) show ?thesis by (simp add: durable_def)
qed

section \<open>An application and its restarts\<close>

inductive served :: "'p codec \<Rightarrow> ('a, 'v, 'w, 'p) runtime \<Rightarrow> bool" for cd where
  first_start: "served cd (new_runtime artifacts graph vector policy archive sched adapter (Some []))"
| request: "served cd rt \<Longrightarrow> rv_codec (ro_env R) = cd \<Longrightarrow> serve R q rt = Some (rt', r) \<Longrightarrow> saves_all q r \<Longrightarrow> served cd rt'"
| job: "served cd rt \<Longrightarrow> rv_codec env = cd \<Longrightarrow> runtime_analysis env rq rt = Some (rt', a) \<Longrightarrow> served cd rt'"
| prune: "served cd rt \<Longrightarrow> rv_codec env = cd \<Longrightarrow> archive_and_prune_audit env rt = (rt', p) \<Longrightarrow> served cd rt'"
| dashboard: "served cd rt \<Longrightarrow> rv_codec (ro_env R) = cd \<Longrightarrow> dashboard_write q \<Longrightarrow> serve R q rt = Some (rt1, r) \<Longrightarrow>
    rv_codec env = cd \<Longrightarrow> persist_approval_state env rt1 = (rt', p) \<Longrightarrow> served cd rt'"
| restart: "served cd rt \<Longrightarrow> fresh_caches rt0 \<Longrightarrow> rt_store rt0 = rt_store rt \<Longrightarrow>
    restore_from_state_store cd rt0 = Inr rt' \<Longrightarrow> served cd rt'"

lemma fresh_caches_ok: "fresh_caches rt \<Longrightarrow> caches_ok rt"
  by (simp add: fresh_caches_def caches_ok_def queue_ok_def empty_service_def traces_named_empty named_by_def)

lemma restart_durable:
  assumes cf: "codec_faithful cd" and d: "durable cd rt" and f: "fresh_caches rt0" "rt_store rt0 = rt_store rt"
    and r: "restore_from_state_store cd rt0 = Inr rt'"
  shows "durable cd rt'"
proof (cases "rt_store rt")
  case None
  with f(2) r have "rt' = rt0" by (simp add: restore_from_state_store_def)
  with fresh_caches_ok [OF f(1)] f(2) None show ?thesis by (simp add: durable_def)
next
  case (Some tb)
  note m = durable_rows [OF d Some]
  from restore_ok [OF cf m durable_caches [OF d] f(1)] f(2) Some r
  have "recovers rt rt'" "caches_ok rt'" "rt_store rt' = Some tb" by auto
  with m show ?thesis by (rule recovered_durable)
qed

lemma served_durable:
  assumes "served cd rt" and "codec_faithful cd"
  shows "durable cd rt"
  using assms(1)
proof induction
  case first_start
  show ?case by (rule durable_new)
next
  case (request rt R q rt' r)
  then show ?case by (blast intro: serve_durable)
next
  case (job rt env rq rt' a)
  then show ?case using durable_analysis by blast
next
  case (prune rt env rt' p)
  then show ?case using durable_archive by blast
next
  case (dashboard rt R q rt1 r env rt' p)
  then show ?case using dashboard_write_saved by blast
next
  case (restart rt rt0 rt')
  then show ?case using restart_durable [OF assms(2)] by blast
qed


end
