(* ===== verification/Requests.thy ===== *)
theory Requests
  imports Restart
begin

text \<open>
  What holds of every request: nothing changes without the authorisation it asks for, a run that fails
  is recorded as failed, and a request that is sent again under its idempotency key is answered from
  the record, in the same process or after a restart.
\<close>

section \<open>Authorisation\<close>

definition allowed :: "('a, 'v, 'w, 'p) route_env \<Rightarrow> string option \<Rightarrow> string \<Rightarrow> bool" where
  "allowed R pk role = is_ok (require_project (ro_auth R) (ro_headers R) pk role)"

definition permitted :: "('a, 'v, 'w, 'p) route_env \<Rightarrow> ('a, 'v, 'w, 'p) runtime \<Rightarrow> request \<Rightarrow> bool" where
  \<comment> \<open>the role a request asks for, and the project it asks for it in\<close>
  "permitted R rt q =
     (case q of
        Ingest x \<Rightarrow> allowed R (Some (rb_project_key x)) ''developer''
      | Analyze x \<Rightarrow> allowed R (Some (rb_project_key x)) ''developer''
      | Set_Finding_Status i _ _ \<Rightarrow> (case dget (rt_findings rt) i of None \<Rightarrow> False
          | Some f \<Rightarrow> allowed R (finding_project_key (rt_graph rt) f) ''operator'')
      | Configure_Schedule c \<Rightarrow> allowed R (Some (cf_project_key c)) ''operator''
      | Run_Schedule \<Rightarrow> allowed R (Some (schedule_project rt)) ''operator''
      | Decide i d _ \<Rightarrow> ad_approval_id d = i \<and> (case dget (sv_items (rt_approvals rt)) i of None \<Rightarrow> False
          | Some a \<Rightarrow> allowed R (Some (ap_project_key a)) ''operator'')
      | Post_Feedback _ _ \<Rightarrow> is_ok (require_role (ro_auth R) (ro_headers R) ''developer'')
      | Activate_Candidate _ _ _ \<Rightarrow> is_ok (require_role (ro_auth R) (ro_headers R) ''admin'')
      | Rollback_Candidate _ _ _ \<Rightarrow> is_ok (require_role (ro_auth R) (ro_headers R) ''admin'')
      | Change_Registry _ \<Rightarrow> is_ok (require_role (ro_auth R) (ro_headers R) ''admin'')
      | Save_Filters _ pk \<Rightarrow> allowed R (Some pk) ''developer''
      | Assign_Queue_Item _ x \<Rightarrow> allowed R (Some (wr_project_key x)) ''developer''
      | Read_Artifact i \<Rightarrow> allowed R (project_key_from_ref i rt) ''developer''
      | Archive_Audit \<Rightarrow> is_ok (require_role (ro_auth R) (ro_headers R) ''admin''))"

lemma need_project_denied: "\<not> allowed R pk role \<Longrightarrow> \<exists>e. act_bind (need_project R pk role) f s = Some (s, Inl e)"
  by (cases "require_project (ro_auth R) (ro_headers R) pk role")
    (simp_all add: allowed_def is_ok_def need_project_def act_bind_run act_apply)

lemma need_role_denied: "\<not> is_ok (require_role (ro_auth R) (ro_headers R) role) \<Longrightarrow>
   \<exists>e. act_bind (need_role R role) f s = Some (s, Inl e)"
  by (cases "require_role (ro_auth R) (ro_headers R) role")
    (simp_all add: is_ok_def need_role_def act_bind_run act_apply)

lemma read_first: "act_bind (act_read g) f s = (case g s of Inl e \<Rightarrow> Some (s, Inl e) | Inr x \<Rightarrow> f x s)"
  by (cases "g s") (simp_all add: act_bind_run act_apply)

lemma pure_first: "act_bind (act_of r) f s = (case r of Inl e \<Rightarrow> Some (s, Inl e) | Inr x \<Rightarrow> f x s)"
  by (cases r) (simp_all add: act_bind_run act_apply)


section \<open>Runs that fail\<close>

definition failure_event :: "run_request \<Rightarrow> py_error \<Rightarrow> audit_event \<Rightarrow> bool" where
  "failure_event rq e ev = (au_action ev = AA_Run_Completed \<and> au_outcome ev = AO_Failed \<and> au_target_type ev = ''run''
     \<and> au_target_id ev = rq_run_id rq \<and> au_project_key ev = Some (rq_project_key rq)
     \<and> au_reason_code ev = Some (failure_code_of e))"

lemma run_failed_facts:
  assumes "dget (tr_runs (rt_traces rt)) (rq_run_id rq) = Some run"
  shows "dget (tr_runs (rt_traces (record_run_failed env rq kind e rt))) (rq_run_id rq) =
      Some (run\<lparr>rn_status := RS_Failed, rn_completed_at := Some (rv_now env ''run_failed''),
        rn_failure_code := Some (failure_code_of e), rn_failure_message := Some (exc_text e)\<rparr>)"
    and "rt_approvals (record_run_failed env rq kind e rt) = rt_approvals rt"
    and "\<exists>ev. dget (as_events (rt_audit (record_run_failed env rq kind e rt))) (au_audit_id ev) = Some ev \<and> failure_event rq e ev"
  using assms
  by (auto simp: record_run_failed_def Let_def persist_runtime_failure_def in_store_def audit_now_def audit_record_def
      complete_run_def dhas_dget run_event_def failure_event_def)

lemma save_edges_raises:
  "save_edges env nodes es tb = (tb', Inl e) \<Longrightarrow> \<exists>x\<in>set es. dget nodes (te_source_node_id x) = None"
  by (induction es arbitrary: tb) (auto split: option.splits)

lemma in_run_analysis_end: "act_keeps (in_run run_id) (analysis_end env run_id p x nodes edges findings)"
  by (auto simp: analysis_end_def intro!: in_run_rules in_run_stages in_run_steps)

lemma run_analysis_present:
  assumes "run_analysis env rt run_id p sc b src s = Some (s', r)" and "traces_named (wf_traces s)"
  shows "dget (tr_runs (wf_traces s')) run_id \<noteq> None"
  using assms(1) unfolding run_analysis_split
proof (cases rule: act_bind_cases)
  case (raised e)
  from begin_run_present [OF raised(1)] show ?thesis .
next
  case (returned s1 x)
  have "traces_named (wf_traces s1)"
    using act_keepsD [OF in_run_steps(1) returned(1)] assms(2) by (auto simp: in_run_def run_frame_def)
  have rest: "act_keeps (in_run run_id) (act_bind (analysis_stages env run_id p sc)
      (\<lambda>(x, nodes, edges, findings). analysis_end env run_id p x nodes edges findings))"
    by (auto intro!: in_run_rules in_run_analysis_stages in_run_analysis_end)
  from in_run_present [OF rest, of s1 s' r] returned(2) \<open>traces_named (wf_traces s1)\<close> begin_run_present [OF returned(1)]
  show ?thesis by blast
qed


section \<open>Requests sent again\<close>

definition remembered :: "('a, 'v, 'w, 'p) route_env \<Rightarrow> idempotency_results \<Rightarrow> string \<Rightarrow> json \<Rightarrow> jobj \<Rightarrow> bool" where
  "remembered R results name payload d = (\<exists>k r. idempotency_key (ro_headers R) = Some k
     \<and> dget results (idempotency_record_id name k) = Some r
     \<and> ir_request_hash r = stable_hash (ro_host R) payload \<and> ir_response r = JObj d)"

lemma remembered_answers: "remembered R (rt_commands rt) name payload d \<Longrightarrow> command R name payload body rt = Some (rt, Inr d)"
  by (auto simp: remembered_def command_def read_first prepare_idempotency_def Let_def act_apply)

lemma command_remembers:
  assumes "command R name payload body rt = Some (rt', Inr d)" and "idempotency_key (ro_headers R) = Some k"
  shows "remembered R (rt_commands rt') name payload d"
proof (cases "dget (rt_commands rt) (idempotency_record_id name k)")
  case None
  with assms show ?thesis
    by (auto simp: command_def read_first prepare_idempotency_def Let_def act_bind_def act_apply remembered_def
        answer_command_def record_command_def in_store_def split: option.splits sum.splits prod.splits)
next
  case (Some x)
  with assms show ?thesis
    by (auto simp: command_def read_first prepare_idempotency_def Let_def act_apply remembered_def
        split: if_splits json.splits)
qed

lemma remembered_same: "ro_headers R' = ro_headers R \<Longrightarrow> ro_host R' = ro_host R \<Longrightarrow> same_entries results' results \<Longrightarrow>
   remembered R results name payload d \<Longrightarrow> remembered R' results' name payload d"
  by (simp add: remembered_def same_entries_def)

definition retriable :: "request \<Rightarrow> bool" where
  \<comment> \<open>what the request names is not looked up before the record of its key\<close>
  "retriable q = (case q of Ingest _ \<Rightarrow> True | Analyze _ \<Rightarrow> True | Configure_Schedule _ \<Rightarrow> True
     | Post_Feedback _ _ \<Rightarrow> True | _ \<Rightarrow> False)"

definition command_of :: "request \<Rightarrow> string \<times> json" where
  \<comment> \<open>the name and payload under which a retriable request is recorded\<close>
  "command_of q = (case q of
       Ingest x \<Rightarrow> (''runs.ingest'', JObj (run_query_dump x))
     | Analyze x \<Rightarrow> (''runs.analyze'', JObj (run_query_dump x))
     | Configure_Schedule c \<Rightarrow> (''schedule.configure'', JObj (schedule_config_dump c))
     | Post_Feedback _ e \<Rightarrow> (''feedback.record'', JObj e)
     | _ \<Rightarrow> ([], JNull))"

lemma serve_command:
  \<comment> \<open>a retriable request that answers is the command of its name\<close>
  assumes "retriable q" and "serve R q rt = Some (rt', Inr d)"
  shows "\<exists>body. command R (fst (command_of q)) (snd (command_of q)) body rt = Some (rt', Inr d)"
  using assms
  by (auto simp: retriable_def command_of_def post_ingest_def post_analyze_def configure_schedule_def post_feedback_def
      need_project_def need_role_def pure_first split: request.splits sum.splits)

lemma serve_remembered:
  assumes "retriable q" and "permitted R rt q" and "remembered R (rt_commands rt) (fst (command_of q)) (snd (command_of q)) d"
  shows "serve R q rt = Some (rt, Inr d)"
  using assms
  by (auto simp: retriable_def command_of_def permitted_def allowed_def is_ok_def post_ingest_def post_analyze_def
      configure_schedule_def post_feedback_def need_project_def need_role_def pure_first
      split: request.splits sum.splits intro!: remembered_answers)

lemma serve_permitted:
  assumes "retriable q" and "serve R q rt = Some (rt', Inr d)"
  shows "permitted R rt q"
  using assms
  by (auto simp: retriable_def permitted_def allowed_def is_ok_def post_ingest_def post_analyze_def
      configure_schedule_def post_feedback_def need_project_def need_role_def pure_first
      split: request.splits sum.splits)

lemma permitted_same: "retriable q \<Longrightarrow> ro_headers R' = ro_headers R \<Longrightarrow> ro_auth R' = ro_auth R \<Longrightarrow>
   permitted R' rt' q = permitted R rt q"
  by (auto simp: retriable_def permitted_def allowed_def split: request.splits)


section \<open>The state store\<close>


end
