(* ===== verification/Route_Instances.thy ===== *)
theory Route_Instances
  imports Requests Workflow_Instances
begin

text \<open>
  An application without a model gateway that has served one request, at which the properties of
  requests and restarts are instantiated.
\<close>

type_synonym app = "(unit, vector_store, unit, entity) runtime"

definition plain_codec :: "entity codec" where
  "plain_codec = \<lparr>cd_dump = id, cd_load = (\<lambda>_ e. Inr e), cd_digest = (\<lambda>_. [])\<rparr>"

lemma plain_codec_faithful: "codec_faithful plain_codec"
  by (simp add: codec_faithful_def plain_codec_def)

definition app_env :: "(unit, vector_store, unit, entity) runtime_env" where
  \<comment> \<open>the source answers every fetch with an error\<close>
  "app_env = \<lparr>rv_wf = (Workflow_Instances.demo_env [])\<lparr>we_fetch := (\<lambda>_ _ a. (a, Inl (RuntimeError ''down'')))\<rparr>,
     rv_now = (\<lambda>_. 0), rv_codec = plain_codec, rv_archive = (\<lambda>w _ _. (w, Inr None))\<rparr>"

definition app_routes :: "(unit, vector_store, unit, entity) route_env" where
  "app_routes = \<lparr>ro_env = app_env, ro_auth = demo_auth ''local'', ro_headers = demo_headers,
     ro_new_id = (\<lambda>p. p @ ''_1''), ro_schema = demo_schema,
     ro_registry = Inr ([], [])\<rparr>"

definition app_start :: "entity state_table \<Rightarrow> app" where
  "app_start tb = new_runtime \<lparr>st_root = ''data'', st_files = []\<rparr> empty_graph [] default_retention_policy ()
     (new_scheduler None False None ''w'') () (Some tb)"

definition app_rq :: run_request where
  "app_rq = \<lparr>rq_run_id = ''r1'', rq_project_key = ''P'', rq_scenario = ''s'', rq_triggered_by = ''u'',
     rq_trigger_source = TS_Manual\<rparr>"

lemma run_analysis_fetch_fails:
  assumes "fetch_all (we_host env) (we_fetch env) \<lparr>sc_project_key = p, sc_scenario = sc, sc_limit = 100\<rparr> (wf_adapter s) = Some (a, Inl e)"
  shows "\<exists>s'. run_analysis env rt run_id p sc b src s = Some (s', Inl e) \<and> wf_graph s' = wf_graph s"
  using assms
  by (simp add: run_analysis_def run_ingestion_stages_def fetch_stage_def begin_run_def begin_step_def act_bind_run
      on_traces_outcome create_run_def mark_run_running_def start_step_def Let_def map_prod_def)

lemma app_fails:
  obtains rt e where "runtime_analysis app_env app_rq (app_start []) = Some (rt, Inl e)" and "gr_edges (rt_graph rt) = []"
proof -
  let ?rt0 = "record_run_started app_env app_rq ''analysis'' (app_start [])"
  have "fetch_all (we_host (rv_wf app_env)) (we_fetch (rv_wf app_env)) \<lparr>sc_project_key = rq_project_key app_rq,
      sc_scenario = rq_scenario app_rq, sc_limit = 100\<rparr> (wf_adapter (wf_of ?rt0)) = Some ((), Inl (RuntimeError ''down''))"
    by (simp add: fetch_all_def app_env_def)
  from run_analysis_fetch_fails [OF this] obtain s where s: "run_analysis (rv_wf app_env) RT_Analysis (rq_run_id app_rq)
      (rq_project_key app_rq) (rq_scenario app_rq) (rq_triggered_by app_rq) (rq_trigger_source app_rq) (wf_of ?rt0) = Some (s, Inl (RuntimeError ''down''))"
    and g: "wf_graph s = wf_graph (wf_of ?rt0)" by blast
  then have "runtime_analysis app_env app_rq (app_start []) =
      Some (record_run_failed app_env app_rq ''analysis'' (RuntimeError ''down'') (after_wf s ?rt0), Inl (RuntimeError ''down''))"
    by (simp add: runtime_analysis_def act_bind_run guarded_run_def on_workflow_def)
  moreover have "rt_graph (record_run_failed env rq k e rt) = rt_graph rt" "rt_graph (record_run_started env rq k rt) = rt_graph rt"
    for env rq k e and rt :: app
    by (simp_all add: record_run_failed_def record_run_started_def persist_runtime_failure_def in_store_def audit_now_def Let_def
        split: prod.splits)
  moreover have "gr_edges (rt_graph (app_start [])) = []" by (simp add: app_start_def new_runtime_def empty_graph_def)
  ultimately show thesis using that g by (simp add: after_wf_def wf_of_def)
qed

lemma app_key: "idempotency_key (ro_headers app_routes) = Some ''i1''"
  by (simp add: app_routes_def demo_key)

lemma app_developer: "require_role (ro_auth app_routes) (ro_headers app_routes) ''developer'' =
    Inr \<lparr>us_user_id = ''local'', us_role = ''operator'', us_project_keys = [''P'']\<rparr>"
  by (simp add: app_routes_def demo_headers_def require_role_def current_user_def demo_auth_def Let_def
      opt_str_or_def str_or_def demo_keys role_level_def role_order_def)

lemma persist_no_edges:
  assumes "gr_edges (rt_graph rt) = []" and "rt_store rt \<noteq> None"
  shows "\<exists>tb. persist_approval_state env rt = (rt\<lparr>rt_store := Some tb\<rparr>, Inr ())"
proof -
  obtain tb where "rt_store rt = Some tb" using assms(2) by blast
  then show ?thesis
    unfolding persist_approval_state_def assms(1)
    by (intro exI [of _ "save_approval_parts env rt tb"]) simp
qed

lemma app_feedback:
  \<comment> \<open>one feedback event recorded\<close>
  assumes "rt_commands rt = []" and "gr_edges (rt_graph rt) = []" and "rt_store rt \<noteq> None"
  shows "\<exists>rt' d. serve app_routes (Post_Feedback f e) rt = Some (rt', Inr d)
    \<and> sv_feedback (rt_approvals rt') = sv_feedback (rt_approvals rt) @ [f]
    \<and> (\<exists>tb i p. rt_store rt' = Some tb \<and> find_row ''idempotency_results'' i tb = Some p)"
proof -
  let ?rt1 = "rt\<lparr>rt_approvals := (rt_approvals rt)\<lparr>sv_feedback := sv_feedback (rt_approvals rt) @ [f]\<rparr>\<rparr>"
  obtain ev where a: "fst (audit_now (ro_env app_routes) ''feedback_recorded'' (feedback_event_args f) ?rt1) =
      ?rt1\<lparr>rt_audit := (rt_audit ?rt1)\<lparr>as_events := dset (au_audit_id ev) ev (as_events (rt_audit ?rt1))\<rparr>\<rparr>" (is "_ = ?rt2")
    using audit_now_fst by blast
  have "gr_edges (rt_graph ?rt2) = []" using assms(2) by simp
  moreover have "rt_store ?rt2 \<noteq> None" using assms(3) by simp
  ultimately obtain tb where "persist_approval_state (ro_env app_routes) ?rt2 = (?rt2\<lparr>rt_store := Some tb\<rparr>, Inr ())"
    using persist_no_edges by blast
  then show ?thesis
    by (auto simp: post_feedback_def need_role_def pure_first app_developer command_def read_first prepare_idempotency_def app_key
        assms(1) Let_def act_bind_run act_apply audited_def a persisted_def act_then_def answer_command_def record_command_def
        in_store_def find_save)
qed

lemma app_answers:
  obtains rt d tb i p where "serve app_routes (Post_Feedback (demo_feedback Duplicate) []) (app_start []) = Some (rt, Inr d)"
    and "sv_feedback (rt_approvals rt) = [demo_feedback Duplicate]" and "rt_store rt = Some tb"
    and "find_row ''idempotency_results'' i tb = Some p"
  using app_feedback [of "app_start []" "demo_feedback Duplicate" "[]"]
  by (auto simp: app_start_def new_runtime_def empty_graph_def empty_service_def)

lemma app_codec: "rv_codec (ro_env app_routes) = plain_codec" "rv_codec app_env = plain_codec"
  by (simp_all add: app_routes_def app_env_def)

lemma app_served: "served plain_codec (app_start [])"
  unfolding app_start_def by (rule served.first_start)

lemma app_fresh: "fresh_caches (app_start tb)" "rt_store (app_start tb) = Some tb"
  by (simp_all add: app_start_def fresh_new) (simp add: new_runtime_def)

lemma app_one_request:
  obtains rt :: app and tb i p where "served plain_codec rt" and "sv_feedback (rt_approvals rt) = [demo_feedback Duplicate]"
    and "rt_store rt = Some tb" and "find_row ''idempotency_results'' i tb = Some p"
proof -
  from app_answers obtain rt d tb i p where r: "serve app_routes (Post_Feedback (demo_feedback Duplicate) []) (app_start []) = Some (rt, Inr d)"
    and "sv_feedback (rt_approvals rt) = [demo_feedback Duplicate]" "rt_store rt = Some tb"
      "find_row ''idempotency_results'' i tb = Some p" .
  moreover have "served plain_codec rt"
    by (rule served.request [OF app_served app_codec(1) r]) (simp add: saves_all_def)
  ultimately show thesis using that by blast
qed






section \<open>A candidate activated\<close>

definition app_admin :: "(unit, vector_store, unit, entity) route_env" where
  "app_admin = app_routes\<lparr>ro_headers := []\<rparr>"

definition app_fed :: app where
  "app_fed = (app_start [])\<lparr>rt_approvals := empty_service\<lparr>sv_feedback := [demo_feedback Duplicate, demo_feedback Duplicate]\<rparr>\<rparr>"

definition app_promotion :: activation_query where
  "app_promotion = \<lparr>aq_reviewer_approved = True, aq_canary_passed = True\<rparr>"

lemma app_candidate: "find_candidate ''imp_abc'' (current_candidates app_admin app_fed) \<noteq> None"
  by code_simp

lemma app_gate: "eg_status (current_gate app_admin app_fed) = Gate_Passed"
  by code_simp

lemma app_is_admin: "\<exists>u. require_role (ro_auth app_admin) (ro_headers app_admin) ''admin'' = Inr u"
  by (simp add: app_admin_def app_routes_def require_role_def current_user_def demo_auth_def Let_def
      opt_str_or_def str_or_def role_level_def role_order_def)

lemma app_draft: "previous_status app_fed c = JStr ''draft''"
  by (simp add: previous_status_def app_fed_def app_start_def new_runtime_def jget_or_def)

lemma record_decided_returns: "\<exists>rt' r. record_decided R i d l a rt = Some (rt', r)"
proof -
  obtain rt2 where a: "audited R l a (record_improvement_decision (ro_env R) i d rt) = Some (rt2, Inr ())"
    by (simp add: audited_def act_do_apply)
  obtain rt3 x where p: "persisted R rt2 = Some (rt3, x)" by (metis act_then_def persisted_def surj_pair)
  show ?thesis by (cases x) (simp_all add: record_decided_def act_bind_run act_apply a p)
qed

lemma command_without_key:
  assumes "idempotency_key (ro_headers R) = None" and "body rt = Some (rt1, r)"
  shows "\<exists>r'. command R name payload body rt = Some (rt1, r')"
  using assms
  by (cases r) (auto simp: command_def read_first prepare_idempotency_def Let_def act_bind_run act_apply answer_command_def)

lemma app_activation:
  "\<exists>rt r. activate_improvement app_admin ''imp_abc'' app_promotion [] app_fed = Some (rt, r)
     \<and> previous_status rt ''imp_abc'' = JStr ''active''"
proof -
  obtain u where u: "require_role (ro_auth app_admin) (ro_headers app_admin) ''admin'' = Inr u" using app_is_admin by blast
  obtain c where c: "find_candidate ''imp_abc'' (current_candidates app_admin app_fed) = Some c" using app_candidate by blast
  let ?c = "apply_recorded_decision (rt_decisions app_fed) c"
  have st: "lc_status ?c = JStr ''draft''" by (simp add: candidate_status [OF c] app_draft)
  then have ok: "require_forward_transition (lc_status ?c) (activation_target_status app_promotion) = Inr ()"
    by (simp add: require_forward_transition_def activation_target_status_def app_promotion_def status_order_def improvement_status_str_def)
  let ?d = "activation_decision app_promotion u (current_gate app_admin app_fed) (previous_status app_fed ''imp_abc'') ?c"
  let ?a = "improvement_event AA_Improvement_Activated (us_user_id u) u ''imp_abc'' None
        [(''candidate_type'', JStr (improvement_type_str (ic_candidate_type (lc_base ?c)))),
         (''promotion_status'', JStr (promotion_status_for app_promotion)), (''eval_run_id'', JStr (eg_eval_run_id (current_gate app_admin app_fed)))]"
  obtain rt r where rec: "record_decided app_admin ''imp_abc'' ?d ''improvement_activated'' ?a app_fed = Some (rt, r)"
    using record_decided_returns by blast
  have key: "idempotency_key (ro_headers app_admin) = None" by (simp add: app_admin_def idempotency_key_def)
  have "\<exists>r'. activate_improvement app_admin ''imp_abc'' app_promotion [] app_fed = Some (rt, r')"
    unfolding activate_improvement_def need_role_def u pure_first sum.case candidate_now_def read_first c found_def option.case rbind_simps
    by (rule command_without_key [OF key]) (simp add: pure_first ok read_first app_gate Let_def rec)
  moreover have "previous_status rt ''imp_abc'' = JStr ''active''"
    using previous_status_dset [OF decision_recorded [OF rec] decision_status(1)]
    by (simp add: activation_target_status_def app_promotion_def improvement_status_str_def)
  ultimately show ?thesis by blast
qed

lemma activation_gated_witness:
  "\<exists>rt r. activate_improvement app_admin ''imp_abc'' app_promotion [] app_fed = Some (rt, r)
     \<and> promotes (JStr ''draft'') (JStr ''active'')"
proof -
  obtain rt r where r: "activate_improvement app_admin ''imp_abc'' app_promotion [] app_fed = Some (rt, r)"
    and s: "previous_status rt ''imp_abc'' = JStr ''active''" using app_activation by blast
  have "previous_status rt ''imp_abc'' \<noteq> previous_status app_fed ''imp_abc''" by (simp add: s app_draft)
  from activation_gated [OF r this] r s app_draft show ?thesis by auto
qed

lemma improvement_lifecycle_witness:
  "\<exists>rt. improvement_requests app_fed rt \<and> moves\<^sup>*\<^sup>* (JStr ''draft'') (previous_status rt ''imp_abc'')
     \<and> previous_status rt ''imp_abc'' = JStr ''active''"
proof -
  obtain rt r where r: "activate_improvement app_admin ''imp_abc'' app_promotion [] app_fed = Some (rt, r)"
    and s: "previous_status rt ''imp_abc'' = JStr ''active''" using app_activation by blast
  have "improvement_requests app_fed rt"
    by (rule improvement_requests.more [OF improvement_requests.none, of app_admin "Activate ''imp_abc'' app_promotion []" _ _ r])
      (simp add: r)
  from this improvement_lifecycle [OF this, of "''imp_abc''"] s app_draft show ?thesis by auto
qed

end
