(* ===== verification/Graph_Routes.thy ===== *)
theory Graph_Routes
  imports Routes Projection
begin

text \<open>
  \<open>api/routes/graph.py\<close>: the handlers that show the graph. The projection and the chain are answered as
  the records of \<open>Projection\<close> and \<open>Chain\<close>; their \<open>model_dump\<close> is Pydantic's. A pending edge is read from
  the payload of the graph delta of a pending approval item, through the schema of the routes.
\<close>

section \<open>Pending edges\<close>

definition waiting_delta :: "string \<Rightarrow> approval_item \<Rightarrow> string option" where
  \<comment> \<open>the delta a pending item of the project refers to\<close>
  "waiting_delta pk a = (if ap_project_key a = pk \<and> ap_status a = IT_Pending \<and> opt_str_or (ap_graph_delta_ref a) [] \<noteq> []
     then ap_graph_delta_ref a else None)"

definition approval_by_delta :: "approval_service \<Rightarrow> string \<Rightarrow> (string, string) dict" where
  "approval_by_delta sv pk = dict_of (List.map_filter (\<lambda>a. map_option (\<lambda>i. (i, ap_approval_id a)) (waiting_delta pk a))
     (dvals (sv_items sv)))"

definition pending_payload :: "jobj \<Rightarrow> jobj" where
  "pending_payload p = dset ''approved_at'' JNull (dset ''approved_by'' JNull (dset ''approval_status'' (JStr ''pending'') p))"

definition delta_pending_edges :: "schema \<Rightarrow> graph_delta \<Rightarrow> traceability_edge list result" where
  "delta_pending_edges sc d = rmap (\<lambda>p. val_edge sc (pending_payload (go_payload p)))
     (filter (\<lambda>p. go_operation p = Create_Edge) (gd_operations d))"

definition waiting_deltas :: "approval_service \<Rightarrow> string \<Rightarrow> (graph_delta \<times> string) list" where
  \<comment> \<open>with the approval id each is filed under\<close>
  "waiting_deltas sv pk = List.map_filter (\<lambda>d. if gd_project_key d \<noteq> pk then None
     else map_option (Pair d) (dget (approval_by_delta sv pk) (gd_delta_id d))) (dvals (sv_deltas sv))"

definition edges_with_approval :: "schema \<Rightarrow> approval_service \<Rightarrow> string \<Rightarrow> (traceability_edge \<times> string) list result" where
  "edges_with_approval sc sv pk = rbind (rmap (\<lambda>(d, a). rbind (delta_pending_edges sc d) (\<lambda>es. Inr (map (\<lambda>e. (e, a)) es)))
     (waiting_deltas sv pk)) (\<lambda>xss. Inr (concat xss))"

definition pending_edges :: "schema \<Rightarrow> approval_service \<Rightarrow> string \<Rightarrow> (traceability_edge list \<times> (string, string) dict) result" where
  "pending_edges sc sv pk = rbind (edges_with_approval sc sv pk) (\<lambda>xs.
     Inr (map fst xs, dict_of (map (\<lambda>(e, a). (te_edge_id e, a)) xs)))"

section \<open>Handlers\<close>

definition edge_project_key :: "memory_graph \<Rightarrow> traceability_edge \<Rightarrow> string option" where
  "edge_project_key g e = map_option on_project_key (dget (gr_nodes g) (te_source_node_id e))"

definition project_nodes :: "memory_graph \<Rightarrow> string \<Rightarrow> ontology_node list" where
  "project_nodes g pk = filter (\<lambda>n. on_project_key n = pk) (dvals (gr_nodes g))"

definition project_edges :: "memory_graph \<Rightarrow> string \<Rightarrow> traceability_edge list" where
  \<comment> \<open>counted by \<open>_approved_edge_count\<close>\<close>
  "project_edges g pk = filter (\<lambda>e. edge_project_key g e = Some pk) (dvals (gr_edges g))"

definition project_keys :: "('a, 'v, 'w, 'p) runtime \<Rightarrow> string list" where
  \<comment> \<open>sorted\<close>
  "project_keys rt = sort (remdups (schedule_project rt # map on_project_key (dvals (gr_nodes (rt_graph rt)))
     @ map rn_project_key (dvals (tr_runs (rt_traces rt)))))"

definition project_entry :: "('a, 'v, 'w, 'p) runtime \<Rightarrow> string \<Rightarrow> jobj" where
  "project_entry rt pk = [(''project_key'', JStr pk),
     (''run_count'', jlen (filter (\<lambda>r. rn_project_key r = pk) (dvals (tr_runs (rt_traces rt))))),
     (''node_count'', jlen (project_nodes (rt_graph rt) pk)),
     (''approved_edge_count'', jlen (project_edges (rt_graph rt) pk))]"

definition list_projects :: "('a, 'v, 'w, 'p) route_env \<Rightarrow> ('a, 'v, 'w, 'p, jobj list) handler" where
  "list_projects R =
     act_bind (need_role R ''viewer'') (\<lambda>user.
     act_read (\<lambda>rt. Inr (map (project_entry rt) (filter (\<lambda>pk. sees_project user (Some pk)) (project_keys rt)))))"

definition list_graph_nodes :: "('a, 'v, 'w, 'p) route_env \<Rightarrow> string \<Rightarrow> int \<Rightarrow> ('a, 'v, 'w, 'p, jobj list) handler" where
  "list_graph_nodes R pk limit =
     act_bind (need_project R (Some pk) ''viewer'') (\<lambda>_.
     act_read (\<lambda>rt. Inr (map node_dump (take (nat (clamp 1 1000 limit))
       (sort_key on_node_id (project_nodes (rt_graph rt) pk))))))"

definition graph_edge_rows :: "schema \<Rightarrow> ('a, 'v, 'w, 'p) runtime \<Rightarrow> string \<Rightarrow> bool \<Rightarrow> (traceability_edge \<times> jobj) list result" where
  "graph_edge_rows sc rt pk include_pending =
     (let approved = map (\<lambda>e. (e, edge_dump e)) (project_edges (rt_graph rt) pk) in
      if include_pending
      then rbind (pending_edges sc (rt_approvals rt) pk) (\<lambda>(pending, approvals). Inr (approved
        @ map (\<lambda>e. (e, dset ''approval_id'' (jopt (dget approvals (te_edge_id e))) (edge_dump e))) pending))
      else Inr approved)"

definition list_graph_edges :: "('a, 'v, 'w, 'p) route_env \<Rightarrow> string \<Rightarrow> bool \<Rightarrow> int \<Rightarrow> ('a, 'v, 'w, 'p, jobj list) handler" where
  "list_graph_edges R pk include_pending limit =
     act_bind (need_project R (Some pk) ''viewer'') (\<lambda>_.
     act_read (\<lambda>rt. rbind (graph_edge_rows (ro_schema R) rt pk include_pending) (\<lambda>rows.
       Inr (take (nat (clamp 1 1000 limit)) (map snd (sort_key (\<lambda>row. te_edge_id (fst row)) rows))))))"

definition get_subgraph :: "('a, 'v, 'w, 'p) route_env \<Rightarrow> string \<Rightarrow> ('a, 'v, 'w, 'p, jobj) handler" where
  "get_subgraph R pk =
     act_bind (need_project R (Some pk) ''viewer'') (\<lambda>_. act_read (\<lambda>rt. Inr (subgraph (rt_graph rt) pk)))"

definition connected_edges :: "memory_graph \<Rightarrow> traceability_edge list" where
  \<comment> \<open>the approved edges both of whose nodes the graph has\<close>
  "connected_edges g = filter (\<lambda>e. edge_nodes_exist e (gr_nodes g)) (dvals (gr_edges g))"

definition analysis_findings :: "('a, 'v, 'w, 'p) runtime \<Rightarrow> string \<Rightarrow> finding list" where
  "analysis_findings rt pk = concat (map ar_findings (filter (\<lambda>a. rn_project_key (ar_run a) = pk) (dvals (rt_analyses rt))))"

record projection_query =
  pq_mode :: view_mode
  pq_center_node_id :: "string option"
  pq_hops :: int
  pq_limit_nodes :: int
  pq_search_query :: "string option"
  pq_edge_filter :: edge_filter

definition get_projection :: "('a, 'v, 'w, 'p) route_env \<Rightarrow> string \<Rightarrow> projection_query \<Rightarrow>
    ('a, 'v, 'w, 'p, graph_projection) handler" where
  \<comment> \<open>\<open>graph_projection\<close>\<close>
  "get_projection R pk q =
     act_bind (need_project R (Some pk) ''viewer'') (\<lambda>_.
     act_read (\<lambda>rt. rbind (pending_edges (ro_schema R) (rt_approvals rt) pk) (\<lambda>(pending, approvals).
       Inr (build_graph_projection (project_nodes (rt_graph rt) pk) (connected_edges (rt_graph rt)) pending
         (analysis_findings rt pk) (pq_mode q) (pq_center_node_id q) (pq_hops q) (pq_limit_nodes q)
         (pq_search_query q) (pq_edge_filter q) (Some approvals)))))"

record chain_query =
  cq_direction :: chain_direction
  cq_depth :: int
  cq_include_pending :: bool
  cq_limit_nodes :: int

definition get_chain :: "('a, 'v, 'w, 'p) route_env \<Rightarrow> string \<Rightarrow> string \<Rightarrow> chain_query \<Rightarrow>
    ('a, 'v, 'w, 'p, traceability_chain) handler" where
  \<comment> \<open>\<open>traceability_chain\<close>\<close>
  "get_chain R i pk q =
     act_bind (need_project R (Some pk) ''viewer'') (\<lambda>_.
     act_read (\<lambda>rt.
       if i \<notin> set (map on_node_id (project_nodes (rt_graph rt) pk)) then Inl (HTTPException 404 ''node not found'')
       else rbind (pending_edges (ro_schema R) (rt_approvals rt) pk) (\<lambda>(pending, approvals).
         Inr (build_traceability_chain pk i (project_nodes (rt_graph rt) pk) (connected_edges (rt_graph rt)) pending
           (Some approvals) (cq_direction q) (cq_depth q) (cq_include_pending q) (cq_limit_nodes q)))))"

section \<open>What the answers show\<close>

lemma approval_by_delta_Some:
  "(\<exists>i. dget (approval_by_delta sv pk) k = Some i) \<longleftrightarrow> (\<exists>a\<in>set (dvals (sv_items sv)). waiting_delta pk a = Some k)"
proof -
  have "(\<exists>i. dget (approval_by_delta sv pk) k = Some i) \<longleftrightarrow> k \<in> fst ` set (approval_by_delta sv pk)"
    using dget_None_iff [of "approval_by_delta sv pk" k] by (cases "dget (approval_by_delta sv pk) k") auto
  also have "\<dots> \<longleftrightarrow> (\<exists>a\<in>set (dvals (sv_items sv)). waiting_delta pk a = Some k)"
    unfolding approval_by_delta_def set_dkeys_dict_of by (force simp: in_map_filter image_iff)
  finally show ?thesis .
qed

definition waits :: "schema \<Rightarrow> approval_service \<Rightarrow> string \<Rightarrow> traceability_edge \<Rightarrow> bool" where
  \<comment> \<open>the edge an item that is pending in the project proposes\<close>
  "waits sc sv pk e = (\<exists>a\<in>set (dvals (sv_items sv)). \<exists>d\<in>set (dvals (sv_deltas sv)). \<exists>p\<in>set (gd_operations d).
     ap_status a = IT_Pending \<and> ap_project_key a = pk \<and> ap_graph_delta_ref a = Some (gd_delta_id d) \<and> gd_delta_id d \<noteq> []
     \<and> gd_project_key d = pk \<and> go_operation p = Create_Edge \<and> val_edge sc (pending_payload (go_payload p)) = Inr e)"

lemma waiting_delta_iff: "waiting_delta pk a = Some k \<longleftrightarrow>
    ap_project_key a = pk \<and> ap_status a = IT_Pending \<and> ap_graph_delta_ref a = Some k \<and> k \<noteq> []"
  by (auto simp: waiting_delta_def opt_str_or_def str_or_def split: option.splits)

lemma in_waiting_deltas: "(d, i) \<in> set (waiting_deltas sv pk) \<longleftrightarrow>
    d \<in> set (dvals (sv_deltas sv)) \<and> gd_project_key d = pk \<and> dget (approval_by_delta sv pk) (gd_delta_id d) = Some i"
  by (auto simp: waiting_deltas_def in_map_filter split: if_splits)

lemma in_edges_with_approval:
  assumes "edges_with_approval sc sv pk = Inr xs"
  shows "(e, i) \<in> set xs \<longleftrightarrow> (\<exists>d p. (d, i) \<in> set (waiting_deltas sv pk) \<and> p \<in> set (gd_operations d)
    \<and> go_operation p = Create_Edge \<and> val_edge sc (pending_payload (go_payload p)) = Inr e)"
proof -
  from assms obtain xss where xss: "rmap (\<lambda>(d, a). rbind (delta_pending_edges sc d) (\<lambda>es. Inr (map (\<lambda>e. (e, a)) es)))
      (waiting_deltas sv pk) = Inr xss" and xs: "xs = concat xss"
    by (auto simp: edges_with_approval_def rbind_Inr_iff)
  have "(e, i) \<in> set xs \<longleftrightarrow> (\<exists>ys. ys \<in> set xss \<and> (e, i) \<in> set ys)" by (auto simp: xs)
  also have "\<dots> \<longleftrightarrow> (\<exists>d es. (d, i) \<in> set (waiting_deltas sv pk) \<and> delta_pending_edges sc d = Inr es \<and> e \<in> set es)"
  proof
    assume "\<exists>ys. ys \<in> set xss \<and> (e, i) \<in> set ys"
    then show "\<exists>d es. (d, i) \<in> set (waiting_deltas sv pk) \<and> delta_pending_edges sc d = Inr es \<and> e \<in> set es"
      by (auto simp: rmap_set [OF xss] rbind_Inr_iff) blast
  next
    assume "\<exists>d es. (d, i) \<in> set (waiting_deltas sv pk) \<and> delta_pending_edges sc d = Inr es \<and> e \<in> set es"
    then obtain d es where "(d, i) \<in> set (waiting_deltas sv pk)" "delta_pending_edges sc d = Inr es" "e \<in> set es" by blast
    then have "map (\<lambda>e. (e, i)) es \<in> set xss \<and> (e, i) \<in> set (map (\<lambda>e. (e, i)) es)"
      unfolding rmap_set [OF xss] by (force simp: rbind_Inr_iff)
    then show "\<exists>ys. ys \<in> set xss \<and> (e, i) \<in> set ys" by blast
  qed
  also have "\<dots> \<longleftrightarrow> (\<exists>d p. (d, i) \<in> set (waiting_deltas sv pk) \<and> p \<in> set (gd_operations d)
      \<and> go_operation p = Create_Edge \<and> val_edge sc (pending_payload (go_payload p)) = Inr e)"
    (is "?l \<longleftrightarrow> ?r")
  proof
    assume ?l
    then show ?r unfolding delta_pending_edges_def by (force simp: rmap_set)
  next
    assume ?r
    then obtain d p where d: "(d, i) \<in> set (waiting_deltas sv pk)" and p: "p \<in> set (gd_operations d)" "go_operation p = Create_Edge"
      "val_edge sc (pending_payload (go_payload p)) = Inr e" by blast
    from rmap_each [OF xss d] obtain es where es: "delta_pending_edges sc d = Inr es" by (auto simp: rbind_Inr_iff)
    then have "e \<in> set es" using p unfolding delta_pending_edges_def by (force simp: rmap_set)
    with d es show ?l by blast
  qed
  finally show ?thesis .
qed

lemma in_pending_edges:
  assumes "pending_edges sc sv pk = Inr (es, approvals)"
  shows "e \<in> set es \<longleftrightarrow> waits sc sv pk e"
proof -
  from assms obtain xs where xs: "edges_with_approval sc sv pk = Inr xs" "es = map fst xs"
    by (auto simp: pending_edges_def rbind_Inr_iff)
  have "e \<in> set es \<longleftrightarrow> (\<exists>d p i. (d, i) \<in> set (waiting_deltas sv pk) \<and> p \<in> set (gd_operations d)
      \<and> go_operation p = Create_Edge \<and> val_edge sc (pending_payload (go_payload p)) = Inr e)"
  proof -
    have "e \<in> set es \<longleftrightarrow> (\<exists>i. (e, i) \<in> set xs)" unfolding xs(2) by force
    then show ?thesis unfolding in_edges_with_approval [OF xs(1)] by blast
  qed
  also have "\<dots> \<longleftrightarrow> waits sc sv pk e" (is "?l \<longleftrightarrow> _")
  proof
    assume ?l
    then obtain d p i where dp: "d \<in> set (dvals (sv_deltas sv))" "gd_project_key d = pk" "p \<in> set (gd_operations d)"
      "go_operation p = Create_Edge" "val_edge sc (pending_payload (go_payload p)) = Inr e"
      and "dget (approval_by_delta sv pk) (gd_delta_id d) = Some i" unfolding in_waiting_deltas by blast
    then obtain a where "a \<in> set (dvals (sv_items sv))" "waiting_delta pk a = Some (gd_delta_id d)"
      using approval_by_delta_Some by blast
    with dp show "waits sc sv pk e" unfolding waits_def waiting_delta_iff by blast
  next
    assume "waits sc sv pk e"
    then obtain a d p where dp: "d \<in> set (dvals (sv_deltas sv))" "gd_project_key d = pk" "p \<in> set (gd_operations d)"
      "go_operation p = Create_Edge" "val_edge sc (pending_payload (go_payload p)) = Inr e"
      and "a \<in> set (dvals (sv_items sv))" "waiting_delta pk a = Some (gd_delta_id d)"
      unfolding waits_def waiting_delta_iff by blast
    then obtain i where "dget (approval_by_delta sv pk) (gd_delta_id d) = Some i" using approval_by_delta_Some by blast
    with dp show ?l unfolding in_waiting_deltas by blast
  qed
  finally show ?thesis .
qed

lemma in_project_nodes: "n \<in> set (project_nodes g pk) \<longleftrightarrow> n \<in> set (dvals (gr_nodes g)) \<and> on_project_key n = pk"
  by (simp add: project_nodes_def)

lemma chain_node_view_fields: "cn_node_id (chain_node_view x k c) = on_node_id x" "cn_project_key (chain_node_view x k c) = on_project_key x"
  by (simp_all add: chain_node_view_def)

lemma chain_shows:
  assumes "c = build_traceability_chain pk center nodes approved pending approvals direction depth incl limit"
  shows "n \<in> set (tc_nodes c) \<Longrightarrow> \<exists>x\<in>set nodes. on_project_key x = pk \<and> n = chain_node_view x (cn_depth n) center"
    and "e \<in> set (tc_edges c) \<Longrightarrow> {ce_source_node_id e, ce_target_node_id e} \<subseteq> on_node_id ` {x\<in>set nodes. on_project_key x = pk}"
proof -
  have m: "\<exists>x\<in>set nodes. on_project_key x = pk \<and> on_node_id x = v \<and> n = x" if "dget (chain_node_map pk nodes) v = Some n" for v n
    using that by (auto simp: chain_node_map_def dget_dict_of dest!: map_of_SomeD)
  then have k: "v \<in> on_node_id ` {x\<in>set nodes. on_project_key x = pk}" if "dhas (chain_node_map pk nodes) v" for v
    using that by (auto simp: dhas_dget)
  show "n \<in> set (tc_nodes c) \<Longrightarrow> \<exists>x\<in>set nodes. on_project_key x = pk \<and> n = chain_node_view x (cn_depth n) center"
    using m by (fastforce simp: assms build_traceability_chain_def Let_def in_map_filter chain_node_view_def split: option.splits)
  show "{ce_source_node_id e, ce_target_node_id e} \<subseteq> on_node_id ` {x\<in>set nodes. on_project_key x = pk}" if "e \<in> set (tc_edges c)"
  proof -
    from that obtain e0 status where "edge_in_project e0 (chain_node_map pk nodes)"
      and "ce_source_node_id e = te_source_node_id e0" "ce_target_node_id e = te_target_node_id e0"
      by (auto simp: assms build_traceability_chain_def Let_def chain_records_def chain_edge_view_def split: if_splits)
    with k show ?thesis by (simp add: edge_in_project_def)
  qed
qed

lemma chain_pending:
  assumes "e \<in> set (tc_edges (build_traceability_chain pk center nodes approved pending approvals direction depth incl limit))"
    and "ce_view_status e = View_Pending"
  shows "ce_edge_id e \<in> te_edge_id ` set pending"
  using assms by (auto simp: build_traceability_chain_def Let_def chain_records_def chain_edge_view_def split: if_splits)

definition node_in :: "('a, 'v, 'w, 'p) runtime \<Rightarrow> string \<Rightarrow> string \<Rightarrow> bool" where
  \<comment> \<open>the id of a node of the project\<close>
  "node_in rt pk i = (i \<in> on_node_id ` set (project_nodes (rt_graph rt) pk))"

definition proposed :: "('a, 'v, 'w, 'p) route_env \<Rightarrow> ('a, 'v, 'w, 'p) runtime \<Rightarrow> string \<Rightarrow> string \<Rightarrow> bool" where
  "proposed R rt pk i = (\<exists>e. waits (ro_schema R) (rt_approvals rt) pk e \<and> te_edge_id e = i)"

lemma answered_read:
  assumes "act_bind (need_project R (Some pk) role) (\<lambda>_. act_read h) rt = Some (rt', Inr x)"
  shows "rt' = rt" and "h rt = Inr x" and "\<exists>user. require_project (ro_auth R) (ro_headers R) (Some pk) role = Inr user"
  using assms by (cases "require_project (ro_auth R) (ro_headers R) (Some pk) role";
      simp add: need_project_def act_bind_run act_apply)+

text \<open>
  Property C25. The graph as it is shown for a project is that project's: the nodes of the projection and
  of the chain are nodes of the project, every edge they show joins two of them, and an edge shown as
  pending is one that a pending approval item of the project proposes, whatever mode, search, filter,
  direction and bounds are asked for; only a requester who may see the project gets an answer, and
  nothing changes. The subgraph, in contrast, has every approved edge of every project.
\<close>

theorem graph_shown_by_project:
  assumes "get_projection R pk pq rt = Some (rt1, Inr g)" and "get_chain R i pk cq rt = Some (rt2, Inr c)"
    and "get_subgraph R pk rt = Some (rt3, Inr d)"
  shows "rt1 = rt \<and> rt2 = rt \<and> rt3 = rt
    \<and> (\<exists>user. require_project (ro_auth R) (ro_headers R) (Some pk) ''viewer'' = Inr user)
    \<and> (\<forall>v\<in>set (gp_nodes g). gv_node v \<in> set (project_nodes (rt_graph rt) pk))
    \<and> (\<forall>v\<in>set (gp_edges g). node_in rt pk (te_source_node_id (ge_edge v)) \<and> node_in rt pk (te_target_node_id (ge_edge v))
         \<and> (ge_view_status v = View_Pending \<longrightarrow> proposed R rt pk (te_edge_id (ge_edge v))))
    \<and> (\<forall>n\<in>set (tc_nodes c). node_in rt pk (cn_node_id n) \<and> cn_project_key n = pk)
    \<and> (\<forall>e\<in>set (tc_edges c). node_in rt pk (ce_source_node_id e) \<and> node_in rt pk (ce_target_node_id e)
         \<and> (ce_view_status e = View_Pending \<longrightarrow> proposed R rt pk (ce_edge_id e)))
    \<and> jget d ''edges'' = JList (map (\<lambda>e. JObj (edge_dump e)) (dvals (gr_edges (rt_graph rt))))"
proof -
  let ?nodes = "project_nodes (rt_graph rt) pk"
  from answered_read(2) [OF assms(1) [unfolded get_projection_def]] obtain ps ap
    where g: "g = build_graph_projection ?nodes (connected_edges (rt_graph rt)) ps (analysis_findings rt pk) (pq_mode pq)
        (pq_center_node_id pq) (pq_hops pq) (pq_limit_nodes pq) (pq_search_query pq) (pq_edge_filter pq) (Some ap)"
      and ps: "pending_edges (ro_schema R) (rt_approvals rt) pk = Inr (ps, ap)"
    by (auto simp: rbind_Inr_iff)
  from answered_read(2) [OF assms(2) [unfolded get_chain_def]] ps
  have c: "c = build_traceability_chain pk i ?nodes (connected_edges (rt_graph rt)) ps (Some ap)
      (cq_direction cq) (cq_depth cq) (cq_include_pending cq) (cq_limit_nodes cq)"
    by (auto simp: rbind_Inr_iff split: if_splits)
  have d: "d = subgraph (rt_graph rt) pk"
    using answered_read(2) [OF assms(3) [unfolded get_subgraph_def]] by simp
  note same = answered_read(1,3) [OF assms(1) [unfolded get_projection_def]]
    answered_read(1) [OF assms(2) [unfolded get_chain_def]] answered_read(1) [OF assms(3) [unfolded get_subgraph_def]]
  have p: "proposed R rt pk (te_edge_id e)" if "e \<in> set ps" for e
    using that in_pending_edges [OF ps] by (auto simp: proposed_def)
  note gs = projection_shows [OF g] and cs = chain_shows [OF c]
  have "node_in rt pk (te_source_node_id (ge_edge v)) \<and> node_in rt pk (te_target_node_id (ge_edge v))
         \<and> (ge_view_status v = View_Pending \<longrightarrow> proposed R rt pk (te_edge_id (ge_edge v)))" if "v \<in> set (gp_edges g)" for v
  proof (intro conjI impI)
    have ids: "on_node_id ` gv_node ` set (gp_nodes g) \<subseteq> on_node_id ` set ?nodes" by (rule image_mono [OF gs(1)])
    show "node_in rt pk (te_source_node_id (ge_edge v))" "node_in rt pk (te_target_node_id (ge_edge v))"
      using gs(2) [OF that] ids unfolding node_in_def by (simp_all add: subsetD)
    assume "ge_view_status v = View_Pending"
    from gs(3) [OF that this] obtain e where "e \<in> set ps" "te_edge_id (ge_edge v) = te_edge_id e" by (rule imageE)
    with p [of e] show "proposed R rt pk (te_edge_id (ge_edge v))" by simp
  qed
  moreover have "node_in rt pk (cn_node_id n) \<and> cn_project_key n = pk" if "n \<in> set (tc_nodes c)" for n
  proof -
    from cs(1) [OF that] obtain x where x: "x \<in> set ?nodes" "on_project_key x = pk" "n = chain_node_view x (cn_depth n) i" by blast
    then have "cn_node_id n = on_node_id x \<and> cn_project_key n = pk" by (metis chain_node_view_fields)
    with x(1) show ?thesis by (simp add: node_in_def)
  qed
  moreover have "node_in rt pk (ce_source_node_id e) \<and> node_in rt pk (ce_target_node_id e)
         \<and> (ce_view_status e = View_Pending \<longrightarrow> proposed R rt pk (ce_edge_id e))" if "e \<in> set (tc_edges c)" for e
  proof (intro conjI impI)
    show "node_in rt pk (ce_source_node_id e)" "node_in rt pk (ce_target_node_id e)"
      using cs(2) [OF that] unfolding node_in_def by auto
    assume "ce_view_status e = View_Pending"
    from chain_pending [OF that [unfolded c] this] obtain e0 where "e0 \<in> set ps" "ce_edge_id e = te_edge_id e0" by (rule imageE)
    with p [of e0] show "proposed R rt pk (ce_edge_id e)" by simp
  qed
  moreover have "jget d ''edges'' = JList (map (\<lambda>e. JObj (edge_dump e)) (dvals (gr_edges (rt_graph rt))))"
    by (simp add: d subgraph_def jget_def)
  ultimately show ?thesis using same gs(1) by blast
qed

end
