(* ===== verification/Listings.thy ===== *)
theory Listings
  imports Prelude
begin

text \<open>
  The listings the read models answer: everything there is, ranked by a key and cut at a limit. What a
  reader relies on is stated once for any such listing; the two ways the source ranks are its instances.
\<close>

locale ranked =
  fixes listing :: "'x list \<Rightarrow> 'x list"
    and cap :: nat
    and before :: "'x \<Rightarrow> 'x \<Rightarrow> bool"
  assumes ranked: "\<exists>ys. mset ys = mset xs \<and> sorted_wrt before ys \<and> listing xs = take cap ys"
begin

lemma shown_subset: "set (listing xs) \<subseteq> set xs"
proof -
  obtain ys where "mset ys = mset xs" and "listing xs = take cap ys" using ranked by blast
  then show ?thesis by (metis set_mset_mset set_take_subset)
qed

lemma shown_length: "length (listing xs) \<le> cap"
  using ranked [of xs] by auto

lemma shown_sorted: "sorted_wrt before (listing xs)"
  using ranked [of xs] by (auto simp: sorted_wrt_take)

lemma shown_all:
  assumes "length xs \<le> cap"
  shows "set (listing xs) = set xs"
proof -
  obtain ys where "mset ys = mset xs" and "listing xs = take cap ys" using ranked by blast
  with assms show ?thesis by (metis mset_eq_length set_mset_mset take_all)
qed

lemma left_out_after:
  assumes "x \<in># mset xs - mset (listing xs)" and "y \<in> set (listing xs)"
  shows "before y x"
proof -
  obtain ys where ys: "mset ys = mset xs" "sorted_wrt before ys" "listing xs = take cap ys" using ranked by blast
  have "mset xs = mset (take cap ys) + mset (drop cap ys)" by (metis append_take_drop_id mset_append ys(1))
  with assms(1) ys(3) have "x \<in> set (drop cap ys)" by simp
  moreover have "sorted_wrt before (take cap ys @ drop cap ys)" using ys(2) by simp
  ultimately show ?thesis using assms(2) unfolding ys(3) sorted_wrt_append by blast
qed

end

definition first_by :: "('x \<Rightarrow> 'k::linorder) \<Rightarrow> nat \<Rightarrow> 'x list \<Rightarrow> 'x list" where
  \<comment> \<open>\<open>sorted(xs, key=key)[:cap]\<close>\<close>
  "first_by key cap xs = take cap (sort_key key xs)"

definition last_by :: "('x \<Rightarrow> 'k::linorder) \<Rightarrow> nat \<Rightarrow> 'x list \<Rightarrow> 'x list" where
  \<comment> \<open>\<open>sorted(xs, key=key, reverse=True)[:cap]\<close>\<close>
  "last_by key cap xs = take cap (sort_key_rev key xs)"

interpretation first: ranked "first_by key cap" cap "\<lambda>x y. key x \<le> key y"
  for key :: "'x \<Rightarrow> 'k::linorder" and cap :: nat
proof unfold_locales
  fix xs :: "'x list"
  have "sorted (map key (sort_key key xs))" by simp
  then show "\<exists>ys. mset ys = mset xs \<and> sorted_wrt (\<lambda>x y. key x \<le> key y) ys \<and> first_by key cap xs = take cap ys"
    by (intro exI [of _ "sort_key key xs"]) (simp add: first_by_def sorted_wrt_map)
qed

interpretation last: ranked "last_by key cap" cap "\<lambda>x y. key y \<le> key x"
  for key :: "'x \<Rightarrow> 'k::linorder" and cap :: nat
proof unfold_locales
  fix xs :: "'x list"
  show "\<exists>ys. mset ys = mset xs \<and> sorted_wrt (\<lambda>x y. key y \<le> key x) ys \<and> last_by key cap xs = take cap ys"
    by (intro exI [of _ "sort_key_rev key xs"]) (simp add: last_by_def sorted_sort_key_rev)
qed

end
