(* ===== verification/Dashboard.thy ===== *)
theory Dashboard
  imports Graph_Routes Improvements Listings
begin

text \<open>
  The read models of \<open>dashboard/service.py\<close>, with their contracts from \<open>dashboard/models.py\<close>, and the
  handlers of \<open>api/routes/dashboard.py\<close> that answer them. The answers are the records before their
  \<open>model_dump\<close>. Pending edges are validated by the schema of the routes, which may raise.
\<close>

section \<open>Contracts\<close>

datatype dashboard_health = Healthy | Attention_Required | Blocked | Health_Unknown
datatype freshness = Fresh | Stale | Warning | Failed | Disabled | Unknown
datatype queue_item_type = QI_Finding | QI_Approval | QI_Source_Warning | QI_Failed_Run | QI_Eval_Gate
datatype queue_priority = QP_Critical | QP_High | QP_Medium | QP_Low | QP_Info

record dashboard_last_run =
  lr_run_id :: string
  lr_run_type :: string
  lr_status :: string
  lr_completed_at :: "time option"
  lr_failure_code :: "string option"
  lr_failure_message :: "string option"

record dashboard_counts =
  dc_total_nodes :: nat
  dc_approved_edges :: nat
  dc_pending_edges :: nat
  dc_orphan_nodes :: nat
  dc_open_findings :: nat
  dc_critical_findings :: nat
  dc_high_findings :: nat
  dc_pending_approvals :: nat
  dc_feedback_events :: nat
  dc_failed_runs :: nat
  dc_source_warnings :: nat

record dashboard_eval_gate =
  dg_status :: string
  dg_reason :: "string option"
  dg_eval_run_id :: string

record dashboard_schedule =
  ds_enabled :: bool
  ds_running :: bool
  ds_last_run_id :: "string option"
  ds_next_run_at :: "time option"
  ds_last_error :: "string option"

record dashboard_summary =
  sm_project_key :: string
  sm_generated_at :: time
  sm_traceability_health :: dashboard_health
  sm_last_run :: "dashboard_last_run option"
  sm_counts :: dashboard_counts
  sm_source_freshness :: "(source_type, freshness) dict"
  sm_eval_gate :: dashboard_eval_gate
  sm_schedule :: dashboard_schedule

record work_queue_item =
  wq_queue_id :: string
  wq_item_type :: queue_item_type
  wq_priority :: queue_priority
  wq_status :: string
  wq_title :: string
  wq_summary :: string
  wq_project_key :: string
  wq_source_type :: "source_type option"
  wq_owner_role :: "string option"
  wq_related_run_id :: "string option"
  wq_related_node_ids :: "string list"
  wq_related_edge_ids :: "string list"
  wq_related_approval_id :: "string option"
  wq_related_finding_id :: "string option"
  wq_evidence_refs :: "string list"
  wq_actions :: "string list"
  wq_created_at :: "time option"

record work_queue_counts =
  wc_open :: nat
  wc_critical :: nat
  wc_high :: nat
  wc_approval :: nat
  wc_finding :: nat
  wc_source_warning :: nat
  wc_failed_run :: nat
  wc_eval_gate :: nat

record work_queue_response =
  wk_project_key :: string
  wk_items :: "work_queue_item list"
  wk_counts :: work_queue_counts

record source_health_item =
  sh_source_type :: source_type
  sh_status :: freshness
  sh_mode :: "source_type option"
  sh_last_run_id :: "string option"
  sh_cursor_id :: "string option"
  sh_artifact_count :: int
  sh_warning_count :: nat
  sh_last_success_at :: "time option"
  sh_source_warnings :: "string list"

record run_health_response =
  rh_project_key :: string
  rh_latest_run :: "dashboard_last_run option"
  rh_total_runs :: nat
  rh_failed_runs :: nat
  rh_recent_runs :: "dashboard_last_run list"

record risk_summary_response =
  rs_project_key :: string
  rs_counts :: dashboard_counts
  rs_risk_by_severity :: "(string, nat) dict"
  rs_top_findings :: "work_queue_item list"

record activity_item =
  ac_activity_id :: string
  ac_action :: string
  ac_outcome :: string
  ac_actor_id :: string
  ac_target_type :: string
  ac_target_id :: string
  ac_created_at :: time
  ac_summary :: string

section \<open>What the read models are built from\<close>

type_synonym ('a, 'v, 'w, 'p) rt = "('a, 'v, 'w, 'p) runtime"

definition project_runs :: "('a, 'v, 'w, 'p) rt \<Rightarrow> string \<Rightarrow> agent_run list" where
  "project_runs rt pk = filter (\<lambda>r. rn_project_key r = pk) (dvals (tr_runs (rt_traces rt)))"

definition latest_run :: "('a, 'v, 'w, 'p) rt \<Rightarrow> string \<Rightarrow> agent_run option" where
  "latest_run rt pk = (case project_runs rt pk of [] \<Rightarrow> None | r # rs \<Rightarrow> Some (max_by rn_started_at r rs))"

definition run_summary :: "agent_run \<Rightarrow> dashboard_last_run" where
  "run_summary r = \<lparr>lr_run_id = rn_run_id r, lr_run_type = run_type_str (rn_run_type r),
     lr_status = run_status_str (rn_status r), lr_completed_at = rn_completed_at r,
     lr_failure_code = rn_failure_code r, lr_failure_message = rn_failure_message r\<rparr>"

definition finding_project :: "memory_graph \<Rightarrow> finding \<Rightarrow> string option" where
  \<comment> \<open>\<open>_finding_project_key\<close>: of the first of its nodes the graph has, else of the first of its edges\<close>
  "finding_project g f =
     (case List.map_filter (dget (gr_nodes g)) (fd_affected_node_ids f) of
        n # _ \<Rightarrow> Some (on_project_key n)
      | [] \<Rightarrow> (case List.map_filter (dget (gr_edges g)) (fd_affected_edge_ids f) of
          e # _ \<Rightarrow> edge_project_key g e
        | [] \<Rightarrow> None))"

definition project_cursors :: "('a, 'v, 'w, 'p) rt \<Rightarrow> string \<Rightarrow> source_sync_cursor_state list" where
  "project_cursors rt pk = filter (\<lambda>c. cs_project_key c = pk) (dvals (rt_cursors rt))"

definition project_analyses :: "('a, 'v, 'w, 'p) rt \<Rightarrow> string \<Rightarrow> (string \<times> analysis_result) list" where
  "project_analyses rt pk = filter (\<lambda>(_, a). rn_project_key (ar_run a) = pk) (rt_analyses rt)"

definition project_findings :: "('a, 'v, 'w, 'p) rt \<Rightarrow> string \<Rightarrow> finding list" where
  "project_findings rt pk =
     (let found = map (\<lambda>f. (fd_finding_id f, (case dget (rt_findings rt) (fd_finding_id f) of None \<Rightarrow> f | Some g \<Rightarrow> g)))
            (concat (map (\<lambda>(_, a). ar_findings a) (project_analyses rt pk)));
          own = map (\<lambda>f. (fd_finding_id f, f))
            (filter (\<lambda>f. finding_project (rt_graph rt) f = Some pk) (dvals (rt_findings rt)))
      in dvals (dict_of (found @ own)))"

definition waiting_refs :: "approval_service \<Rightarrow> string \<Rightarrow> string set" where
  "waiting_refs sv pk = set (List.map_filter (waiting_delta pk) (dvals (sv_items sv)))"

definition dashboard_pending_edges :: "schema \<Rightarrow> approval_service \<Rightarrow> string \<Rightarrow> traceability_edge list result" where
  "dashboard_pending_edges sc sv pk =
     rbind (rmap (delta_pending_edges sc) (filter (\<lambda>d. gd_project_key d = pk \<and> gd_delta_id d \<in> waiting_refs sv pk)
       (dvals (sv_deltas sv)))) (\<lambda>xss. Inr (concat xss))"

definition cursor_warnings :: "source_sync_cursor_state \<Rightarrow> nat" where
  "cursor_warnings c = length (cs_source_warnings c) + (if cs_partial_failure c then 1 else 0)"

definition pending_approvals :: "('a, 'v, 'w, 'p) rt \<Rightarrow> string \<Rightarrow> approval_item list" where
  "pending_approvals rt pk = filter (\<lambda>a. ap_project_key a = pk \<and> ap_status a = IT_Pending) (dvals (sv_items (rt_approvals rt)))"

definition dashboard_counts_of :: "schema \<Rightarrow> ('a, 'v, 'w, 'p) rt \<Rightarrow> string \<Rightarrow> dashboard_counts result" where
  \<comment> \<open>\<open>_counts\<close>; the feedback is that of every project\<close>
  "dashboard_counts_of sc rt pk =
     rbind (dashboard_pending_edges sc (rt_approvals rt) pk) (\<lambda>pending.
     let findings = project_findings rt pk;
         open_findings = filter (\<lambda>f. fd_approval_status f = FS_Open) findings;
         counts = gp_counts (build_graph_projection (project_nodes (rt_graph rt) pk) (project_edges (rt_graph rt) pk)
           pending findings Overview None 1 120 None EF_All None)
     in Inr \<lparr>dc_total_nodes = pc_total_nodes counts, dc_approved_edges = pc_approved_edges counts,
          dc_pending_edges = pc_pending_edges counts, dc_orphan_nodes = pc_orphan_nodes counts,
          dc_open_findings = length open_findings,
          dc_critical_findings = length (filter (\<lambda>f. fd_severity f = Critical) open_findings),
          dc_high_findings = length (filter (\<lambda>f. fd_severity f = High) open_findings),
          dc_pending_approvals = length (pending_approvals rt pk),
          dc_feedback_events = length (sv_feedback (rt_approvals rt)),
          dc_failed_runs = length (filter (\<lambda>r. rn_status r = RS_Failed) (project_runs rt pk)),
          dc_source_warnings = sum_list (map cursor_warnings (project_cursors rt pk))\<rparr>)"

section \<open>Source health\<close>

definition known_source_types :: "source_type list" where
  "known_source_types = [Jira, Confluence, Decision_Archive, Email, Dummy]"

definition cursor_status :: "source_sync_cursor_state \<Rightarrow> freshness" where
  "cursor_status c = (if cs_partial_failure c then Failed else if cs_source_warnings c \<noteq> [] then Warning else Fresh)"

definition source_health_item_of :: "source_type \<Rightarrow> source_sync_cursor_state option \<Rightarrow> source_health_item" where
  "source_health_item_of st cursor =
     (case cursor of
        None \<Rightarrow> \<lparr>sh_source_type = st, sh_status = (if st = Email then Disabled else Unknown), sh_mode = None,
          sh_last_run_id = None, sh_cursor_id = None, sh_artifact_count = 0, sh_warning_count = 0,
          sh_last_success_at = None, sh_source_warnings = []\<rparr>
      | Some c \<Rightarrow> \<lparr>sh_source_type = cs_source_type c, sh_status = cursor_status c, sh_mode = Some (cs_source_type c),
          sh_last_run_id = Some (cs_run_id c), sh_cursor_id = Some (cs_cursor_id c),
          sh_artifact_count = cs_artifact_count c, sh_warning_count = length (cs_source_warnings c),
          sh_last_success_at = (if cursor_status c = Fresh then Some (cs_updated_at c) else None),
          sh_source_warnings = cs_source_warnings c\<rparr>)"

definition cursor_by_source :: "('a, 'v, 'w, 'p) rt \<Rightarrow> string \<Rightarrow> (source_type, source_sync_cursor_state) dict" where
  "cursor_by_source rt pk = dict_of (map (\<lambda>c. (cs_source_type c, c)) (sort_key cs_updated_at (project_cursors rt pk)))"

definition source_health :: "('a, 'v, 'w, 'p) rt \<Rightarrow> string \<Rightarrow> source_health_item list" where
  "source_health rt pk =
     (let by_source = cursor_by_source rt pk;
          sources = map (\<lambda>(st, c). source_health_item_of st (Some c)) (sort_key (\<lambda>(st, _). source_type_str st) by_source)
            @ map (\<lambda>st. source_health_item_of st None)
                (filter (\<lambda>st. \<not> dhas by_source st \<and> st \<noteq> Email) known_source_types)
      in if sources = [] then [source_health_item_of Dummy None] else sources)"

section \<open>The work queue\<close>

definition severity_priority :: "severity \<Rightarrow> queue_priority" where
  \<comment> \<open>\<open>_SEVERITY_PRIORITY\<close> and \<open>_RISK_PRIORITY\<close>\<close>
  "severity_priority s = (case s of Critical \<Rightarrow> QP_Critical | High \<Rightarrow> QP_High | Medium \<Rightarrow> QP_Medium | Low \<Rightarrow> QP_Low)"

definition priority_rank :: "queue_priority \<Rightarrow> nat" where
  "priority_rank p = (case p of QP_Critical \<Rightarrow> 0 | QP_High \<Rightarrow> 1 | QP_Medium \<Rightarrow> 2 | QP_Low \<Rightarrow> 3 | QP_Info \<Rightarrow> 4)"

definition item_type_rank :: "queue_item_type \<Rightarrow> nat" where
  "item_type_rank t = (case t of QI_Failed_Run \<Rightarrow> 0 | QI_Finding \<Rightarrow> 1 | QI_Source_Warning \<Rightarrow> 2 | QI_Approval \<Rightarrow> 3
     | QI_Eval_Gate \<Rightarrow> 4)"

definition blank_item :: "string \<Rightarrow> queue_item_type \<Rightarrow> queue_priority \<Rightarrow> string \<Rightarrow> string \<Rightarrow> string \<Rightarrow> string \<Rightarrow> work_queue_item" where
  \<comment> \<open>the required fields; the rest has its default\<close>
  "blank_item i t p st title summary pk =
     \<lparr>wq_queue_id = i, wq_item_type = t, wq_priority = p, wq_status = st, wq_title = title, wq_summary = summary,
      wq_project_key = pk, wq_source_type = None, wq_owner_role = None, wq_related_run_id = None,
      wq_related_node_ids = [], wq_related_edge_ids = [], wq_related_approval_id = None,
      wq_related_finding_id = None, wq_evidence_refs = [], wq_actions = [], wq_created_at = None\<rparr>"

definition source_type_for_finding :: "('a, 'v, 'w, 'p) rt \<Rightarrow> finding \<Rightarrow> source_type option" where
  \<comment> \<open>of the first artifact, by evidence, then analysis, that has the evidence's id\<close>
  "source_type_for_finding rt f =
     (case concat (map (\<lambda>ev. filter (\<lambda>a. sa_artifact_id a = ev_artifact_id ev)
         (concat (map ar_artifacts (dvals (rt_analyses rt))))) (fd_evidence f)) of
        [] \<Rightarrow> None | a # _ \<Rightarrow> Some (sa_source_type a))"

definition owner_for_finding :: "finding \<Rightarrow> string" where
  "owner_for_finding f = (if fd_severity f \<in> {Critical, High} then ''System Architect'' else ''Reviewer'')"

definition run_id_for_finding :: "('a, 'v, 'w, 'p) rt \<Rightarrow> string \<Rightarrow> finding \<Rightarrow> string option" where
  "run_id_for_finding rt pk f = map_option fst
     (find (\<lambda>(_, a). list_ex (\<lambda>x. fd_finding_id x = fd_finding_id f) (ar_findings a)) (project_analyses rt pk))"

definition finding_item :: "('a, 'v, 'w, 'p) rt \<Rightarrow> string \<Rightarrow> finding \<Rightarrow> work_queue_item" where
  "finding_item rt pk f =
     (blank_item (''wq_finding_'' @ fd_finding_id f) QI_Finding (severity_priority (fd_severity f))
        (finding_status_str (fd_approval_status f)) (finding_type_str (fd_finding_type f)) (fd_description f) pk)
      \<lparr>wq_source_type := source_type_for_finding rt f, wq_owner_role := Some (owner_for_finding f),
       wq_related_run_id := run_id_for_finding rt pk f, wq_related_node_ids := fd_affected_node_ids f,
       wq_related_edge_ids := fd_affected_edge_ids f, wq_related_finding_id := Some (fd_finding_id f),
       wq_evidence_refs := map (\<lambda>ev. ''artifact:'' @ ev_artifact_id ev) (fd_evidence f),
       wq_actions := [''inspect'', ''acknowledge'', ''resolve'', ''dismiss'', ''open_graph'', ''open_debug'']\<rparr>"

definition approval_work_item :: "string \<Rightarrow> approval_item \<Rightarrow> work_queue_item" where
  "approval_work_item pk a =
     (blank_item (''wq_approval_'' @ ap_approval_id a) QI_Approval (severity_priority (ap_risk_level a))
        (if ap_status a = IT_Pending then ''open'' else item_status_str (ap_status a))
        (proposal_type_str (ap_proposal_type a) @ '' proposal requires review'')
        (proposal_type_str (ap_proposal_type a) @ '' '' @ ap_proposal_ref a @ '' from '' @ ap_created_from_run_id a
           @ '' is '' @ item_status_str (ap_status a) @ ''.'') pk)
      \<lparr>wq_owner_role := Some (ap_owner_role a), wq_related_run_id := Some (ap_created_from_run_id a),
       wq_related_approval_id := Some (ap_approval_id a),
       wq_evidence_refs := (if opt_str_or (ap_graph_delta_ref a) [] \<noteq> []
         then [''graph-delta:'' @ opt_str_or (ap_graph_delta_ref a) []] else []),
       wq_actions := [''inspect'', ''approve'', ''reject'', ''modify'', ''hold'', ''open_graph'', ''open_debug''],
       wq_created_at := Some (ap_created_at a)\<rparr>"

definition failed_run_item :: "string \<Rightarrow> agent_run \<Rightarrow> work_queue_item" where
  "failed_run_item pk r =
     (blank_item (''wq_failed_run_'' @ rn_run_id r) QI_Failed_Run QP_Critical ''open''
        (run_type_str (rn_run_type r) @ '' run failed'')
        (opt_str_or (rn_failure_message r) (opt_str_or (rn_failure_code r) ''Run failed.'')) pk)
      \<lparr>wq_related_run_id := Some (rn_run_id r), wq_actions := [''open_debug'', ''replay'', ''rerun''],
       wq_created_at := Some (case rn_completed_at r of Some t \<Rightarrow> t | None \<Rightarrow> rn_started_at r)\<rparr>"

definition source_warning_items :: "string \<Rightarrow> source_sync_cursor_state \<Rightarrow> work_queue_item list" where
  "source_warning_items pk c =
     map (\<lambda>(i, w).
       (blank_item (''wq_source_'' @ cs_cursor_id c @ ''_'' @ str_nat i) QI_Source_Warning
          (if cs_partial_failure c then QP_High else QP_Medium) ''open''
          (source_type_str (cs_source_type c) @ '' source warning'') w pk)
        \<lparr>wq_source_type := Some (cs_source_type c), wq_related_run_id := Some (cs_run_id c),
         wq_evidence_refs := [''source-cursor:'' @ cs_cursor_id c],
         wq_actions := [''inspect_source'', ''rerun_ingestion'', ''open_debug''],
         wq_created_at := Some (cs_updated_at c)\<rparr>)
       (enumerate 0 (cs_source_warnings c @ (if cs_partial_failure c then [''partial source fetch failure''] else [])))"

definition eval_gate_of :: "('a, 'v, 'w, 'p) route_env \<Rightarrow> ('a, 'v, 'w, 'p) rt \<Rightarrow> dashboard_eval_gate" where
  "eval_gate_of R rt =
     (let gate = current_gate R rt in
      \<lparr>dg_status = gate_status_str (eg_status gate),
       dg_reason = (if eg_blockers gate \<noteq> [] then Some (py_join '', '' (take 2 (eg_blockers gate))) else None),
       dg_eval_run_id = eg_eval_run_id gate\<rparr>)"

definition eval_gate_items :: "('a, 'v, 'w, 'p) route_env \<Rightarrow> ('a, 'v, 'w, 'p) rt \<Rightarrow> string \<Rightarrow> work_queue_item list" where
  "eval_gate_items R rt pk =
     (let gate = eval_gate_of R rt in
      if dg_status gate = ''passed'' then []
      else [(blank_item (''wq_eval_gate_'' @ str_or (dg_eval_run_id gate) ''current'') QI_Eval_Gate
          (if dg_status gate = ''warning'' then QP_Medium else QP_High) ''open'' (''Eval gate '' @ dg_status gate)
          (opt_str_or (dg_reason gate) ''Eval gate is not passed.'') pk)
        \<lparr>wq_actions := [''open_eval'', ''inspect_feedback'']\<rparr>])"

definition finding_items :: "('a, 'v, 'w, 'p) rt \<Rightarrow> string \<Rightarrow> work_queue_item list" where
  "finding_items rt pk = map (finding_item rt pk) (project_findings rt pk)"

definition queue_items :: "('a, 'v, 'w, 'p) route_env \<Rightarrow> ('a, 'v, 'w, 'p) rt \<Rightarrow> string \<Rightarrow> work_queue_item list" where
  \<comment> \<open>before the filter\<close>
  "queue_items R rt pk =
     finding_items rt pk
     @ map (approval_work_item pk) (filter (\<lambda>a. ap_project_key a = pk) (dvals (sv_items (rt_approvals rt))))
     @ map (failed_run_item pk) (filter (\<lambda>r. rn_status r = RS_Failed) (project_runs rt pk))
     @ concat (map (source_warning_items pk) (project_cursors rt pk))
     @ eval_gate_items R rt pk"

definition datetime_min :: time where
  \<comment> \<open>the first of January of the year 1, in microseconds from that of 1970\<close>
  "datetime_min = - 62135596800000000"

definition queue_key :: "work_queue_item \<Rightarrow> nat \<times> nat \<times> time \<times> string" where
  "queue_key w = (priority_rank (wq_priority w), item_type_rank (wq_item_type w),
     (case wq_created_at w of Some t \<Rightarrow> t | None \<Rightarrow> datetime_min), wq_queue_id w)"

definition count_items :: "(work_queue_item \<Rightarrow> bool) \<Rightarrow> work_queue_item list \<Rightarrow> nat" where
  "count_items P xs = length (filter P xs)"

definition work_queue_counts_of :: "work_queue_item list \<Rightarrow> work_queue_counts" where
  "work_queue_counts_of xs =
     \<lparr>wc_open = count_items (\<lambda>w. wq_status w = ''open'') xs,
      wc_critical = count_items (\<lambda>w. wq_priority w = QP_Critical) xs,
      wc_high = count_items (\<lambda>w. wq_priority w = QP_High) xs,
      wc_approval = count_items (\<lambda>w. wq_item_type w = QI_Approval) xs,
      wc_finding = count_items (\<lambda>w. wq_item_type w = QI_Finding) xs,
      wc_source_warning = count_items (\<lambda>w. wq_item_type w = QI_Source_Warning) xs,
      wc_failed_run = count_items (\<lambda>w. wq_item_type w = QI_Failed_Run) xs,
      wc_eval_gate = count_items (\<lambda>w. wq_item_type w = QI_Eval_Gate) xs\<rparr>"

definition work_queue :: "('a, 'v, 'w, 'p) route_env \<Rightarrow> ('a, 'v, 'w, 'p) rt \<Rightarrow> string \<Rightarrow> string \<Rightarrow> int \<Rightarrow> work_queue_response" where
  "work_queue R rt pk status limit =
     (let items = (if status = ''all'' then queue_items R rt pk
            else filter (\<lambda>w. wq_status w = status) (queue_items R rt pk))
      in \<lparr>wk_project_key = pk, wk_items = first_by queue_key (nat (clamp 1 200 limit)) items,
          wk_counts = work_queue_counts_of items\<rparr>)"

section \<open>Run health, risk, activity and the summary\<close>

definition run_health :: "('a, 'v, 'w, 'p) rt \<Rightarrow> string \<Rightarrow> int \<Rightarrow> run_health_response" where
  "run_health rt pk limit =
     \<lparr>rh_project_key = pk, rh_latest_run = map_option run_summary (latest_run rt pk),
      rh_total_runs = length (project_runs rt pk),
      rh_failed_runs = length (filter (\<lambda>r. rn_status r = RS_Failed) (project_runs rt pk)),
      rh_recent_runs = map run_summary (last_by rn_started_at (nat (clamp 1 50 limit)) (project_runs rt pk))\<rparr>"

definition severity_counts :: "finding list \<Rightarrow> (string, nat) dict" where
  "severity_counts fs = map (\<lambda>s. (severity_str s, length (filter (\<lambda>f. fd_severity f = s) fs))) [Critical, High, Medium, Low]"

definition risk_summary :: "schema \<Rightarrow> ('a, 'v, 'w, 'p) rt \<Rightarrow> string \<Rightarrow> int \<Rightarrow> risk_summary_response result" where
  "risk_summary sc rt pk limit =
     rbind (dashboard_counts_of sc rt pk) (\<lambda>counts. Inr
       \<lparr>rs_project_key = pk, rs_counts = counts, rs_risk_by_severity = severity_counts (project_findings rt pk),
        rs_top_findings = take (nat (clamp 1 50 limit)) (filter (\<lambda>w. wq_status w = ''open'') (finding_items rt pk))\<rparr>)"

definition activity_of :: "audit_event \<Rightarrow> activity_item" where
  "activity_of ev = \<lparr>ac_activity_id = au_audit_id ev, ac_action = audit_action_str (au_action ev),
     ac_outcome = audit_outcome_str (au_outcome ev), ac_actor_id = au_actor_id ev, ac_target_type = au_target_type ev,
     ac_target_id = au_target_id ev, ac_created_at = au_created_at ev,
     ac_summary = audit_action_str (au_action ev) @ '' '' @ audit_outcome_str (au_outcome ev) @ '' for ''
       @ au_target_type ev @ '':'' @ au_target_id ev\<rparr>"

definition recent_activity :: "('a, 'v, 'w, 'p) rt \<Rightarrow> string \<Rightarrow> int \<Rightarrow> activity_item list" where
  "recent_activity rt pk limit = map activity_of (last_by au_created_at (nat (clamp 1 100 limit))
     (filter (\<lambda>ev. au_project_key ev \<in> {Some pk, None}) (dvals (as_events (rt_audit rt)))))"

definition derive_health :: "dashboard_counts \<Rightarrow> agent_run option \<Rightarrow> (source_type, freshness) dict \<Rightarrow> dashboard_eval_gate \<Rightarrow>
    dashboard_health" where
  "derive_health counts latest source_freshness gate =
     (case latest of
        None \<Rightarrow> Health_Unknown
      | Some r \<Rightarrow>
          if rn_status r = RS_Failed \<or> 0 < dc_critical_findings counts then Blocked
          else if 0 < dc_high_findings counts \<or> 0 < dc_pending_approvals counts then Attention_Required
          else if list_ex (\<lambda>st. st \<in> {Failed, Stale, Warning}) (dvals source_freshness) then Attention_Required
          else if dg_status gate \<noteq> ''passed'' then Attention_Required
          else Healthy)"

definition dashboard_summary_of :: "('a, 'v, 'w, 'p) route_env \<Rightarrow> ('a, 'v, 'w, 'p) rt \<Rightarrow> string \<Rightarrow> dashboard_summary result" where
  \<comment> \<open>\<open>summary\<close>\<close>
  "dashboard_summary_of R rt pk =
     rbind (dashboard_counts_of (ro_schema R) rt pk) (\<lambda>counts.
     let gate = eval_gate_of R rt;
         source_freshness = dict_of (map (\<lambda>s. (sh_source_type s, sh_status s)) (source_health rt pk));
         schedule = scheduler_status (rt_scheduler rt)
     in Inr \<lparr>sm_project_key = pk, sm_generated_at = rv_now (ro_env R) ''summary'',
          sm_traceability_health = derive_health counts (latest_run rt pk) source_freshness gate,
          sm_last_run = map_option run_summary (latest_run rt pk), sm_counts = counts,
          sm_source_freshness = source_freshness, sm_eval_gate = gate,
          sm_schedule = \<lparr>ds_enabled = ss_enabled schedule, ds_running = ss_running schedule,
            ds_last_run_id = ss_last_run_id schedule, ds_next_run_at = ss_next_run_at schedule,
            ds_last_error = ss_last_error schedule\<rparr>\<rparr>)"

section \<open>Handlers\<close>

definition get_dashboard_summary :: "('a, 'v, 'w, 'p) route_env \<Rightarrow> string \<Rightarrow> ('a, 'v, 'w, 'p, dashboard_summary) handler" where
  "get_dashboard_summary R pk = act_bind (need_project R (Some pk) ''viewer'') (\<lambda>_. act_read (\<lambda>rt. dashboard_summary_of R rt pk))"

definition get_work_queue :: "('a, 'v, 'w, 'p) route_env \<Rightarrow> string \<Rightarrow> string \<Rightarrow> int \<Rightarrow> ('a, 'v, 'w, 'p, work_queue_response) handler" where
  "get_work_queue R pk status limit = act_bind (need_project R (Some pk) ''developer'') (\<lambda>_.
     act_read (\<lambda>rt. Inr (work_queue R rt pk status limit)))"

definition get_source_health :: "('a, 'v, 'w, 'p) route_env \<Rightarrow> string \<Rightarrow> ('a, 'v, 'w, 'p, source_health_item list) handler" where
  "get_source_health R pk = act_bind (need_project R (Some pk) ''developer'') (\<lambda>_. act_read (\<lambda>rt. Inr (source_health rt pk)))"

definition get_run_health :: "('a, 'v, 'w, 'p) route_env \<Rightarrow> string \<Rightarrow> int \<Rightarrow> ('a, 'v, 'w, 'p, run_health_response) handler" where
  "get_run_health R pk limit = act_bind (need_project R (Some pk) ''viewer'') (\<lambda>_. act_read (\<lambda>rt. Inr (run_health rt pk limit)))"

definition get_risk_summary :: "('a, 'v, 'w, 'p) route_env \<Rightarrow> string \<Rightarrow> int \<Rightarrow> ('a, 'v, 'w, 'p, risk_summary_response) handler" where
  "get_risk_summary R pk limit = act_bind (need_project R (Some pk) ''viewer'') (\<lambda>_.
     act_read (\<lambda>rt. risk_summary (ro_schema R) rt pk limit))"

definition get_recent_activity :: "('a, 'v, 'w, 'p) route_env \<Rightarrow> string \<Rightarrow> int \<Rightarrow> ('a, 'v, 'w, 'p, activity_item list) handler" where
  "get_recent_activity R pk limit = act_bind (need_project R (Some pk) ''operator'') (\<lambda>_.
     act_read (\<lambda>rt. Inr (recent_activity rt pk limit)))"

section \<open>The pending edges of both read models\<close>

lemma in_waiting_refs: "k \<in> waiting_refs sv pk \<longleftrightarrow> (\<exists>i. dget (approval_by_delta sv pk) k = Some i)"
  unfolding approval_by_delta_Some by (auto simp: waiting_refs_def in_map_filter)

lemma rmap_rbind_map:
  "rmap (\<lambda>(d, a). rbind (f d) (\<lambda>es. Inr (map (\<lambda>e. (e, a)) es))) ds = Inr xss \<Longrightarrow>
     rmap f (map fst ds) = Inr (map (map fst) xss)"
  "rmap (\<lambda>(d, a). rbind (f d) (\<lambda>es. Inr (map (\<lambda>e. (e, a)) es))) ds = Inl x \<Longrightarrow> rmap f (map fst ds) = Inl x"
  by (induction ds arbitrary: xss) (auto simp: rbind_Inr_iff comp_def rbind_def split: sum.splits prod.splits)

lemma waiting_deltas_fst: "map fst (waiting_deltas sv pk) =
    filter (\<lambda>d. gd_project_key d = pk \<and> gd_delta_id d \<in> waiting_refs sv pk) (dvals (sv_deltas sv))"
proof -
  have "map fst (List.map_filter (\<lambda>d. if gd_project_key d \<noteq> pk then None
      else map_option (Pair d) (dget (approval_by_delta sv pk) (gd_delta_id d))) ds) =
    filter (\<lambda>d. gd_project_key d = pk \<and> gd_delta_id d \<in> waiting_refs sv pk) ds" for ds
    by (induction ds) (auto simp: List.map_filter_def in_waiting_refs split: option.splits)
  then show ?thesis by (simp add: waiting_deltas_def)
qed


section \<open>The work queue is ranked\<close>

lemma item_open:
  "fd_approval_status f = FS_Open \<Longrightarrow> wq_status (finding_item rt pk f) = ''open''"
  "ap_status a = IT_Pending \<Longrightarrow> wq_status (approval_work_item pk a) = ''open''"
  "wq_status (failed_run_item pk r) = ''open''"
  by (simp_all add: finding_item_def approval_work_item_def failed_run_item_def blank_item_def finding_status_str_def)

text \<open>
  Property C22. The work queue is ranked: the items are in order of priority, kind, age and id, at most
  200 of them; an item left out comes after every item shown; the counts are those of all items asked
  for, shown or not; and where the limit admits them all, every open finding, pending approval and
  failed run of the project has its item.
\<close>

theorem work_queue_ranked:
  assumes "q = work_queue R rt pk ''open'' limit"
    and "items = filter (\<lambda>w. wq_status w = ''open'') (queue_items R rt pk)"
  shows "length (wk_items q) \<le> 200 \<and> sorted_wrt (\<lambda>x y. queue_key x \<le> queue_key y) (wk_items q)
    \<and> (\<forall>x\<in>#mset items - mset (wk_items q). \<forall>y\<in>set (wk_items q). queue_key y \<le> queue_key x)
    \<and> wc_open (wk_counts q) = length items
    \<and> (int (length items) \<le> max 1 (min limit 200) \<longrightarrow>
        set (wk_items q) = set items
        \<and> (\<forall>f\<in>set (project_findings rt pk). fd_approval_status f = FS_Open \<longrightarrow> finding_item rt pk f \<in> set (wk_items q))
        \<and> (\<forall>a\<in>set (pending_approvals rt pk). approval_work_item pk a \<in> set (wk_items q))
        \<and> (\<forall>r\<in>set (project_runs rt pk). rn_status r = RS_Failed \<longrightarrow> failed_run_item pk r \<in> set (wk_items q)))"
proof -
  let ?cap = "nat (clamp 1 200 limit)"
  have q: "wk_items q = first_by queue_key ?cap items" "wc_open (wk_counts q) = length items"
    by (simp_all add: assms work_queue_def Let_def work_queue_counts_of_def count_items_def)
  have cap: "?cap \<le> 200" using clamp_nat [of 1 200 limit] by simp
  have fits: "length items \<le> ?cap" if "int (length items) \<le> max 1 (min limit 200)"
    using that by (auto simp: clamp_def)
  have open_items: "finding_item rt pk f \<in> set items" if "f \<in> set (project_findings rt pk)" "fd_approval_status f = FS_Open" for f
    using that by (simp add: assms(2) queue_items_def finding_items_def item_open)
  have approvals: "approval_work_item pk a \<in> set items" if "a \<in> set (pending_approvals rt pk)" for a
    using that by (simp add: assms(2) queue_items_def pending_approvals_def item_open)
  have runs: "failed_run_item pk r \<in> set items" if "r \<in> set (project_runs rt pk)" "rn_status r = RS_Failed" for r
    using that by (simp add: assms(2) queue_items_def item_open)
  have all_shown: "set (wk_items q) = set items \<and> (\<forall>f\<in>set (project_findings rt pk). fd_approval_status f = FS_Open \<longrightarrow> finding_item rt pk f \<in> set (wk_items q))
        \<and> (\<forall>a\<in>set (pending_approvals rt pk). approval_work_item pk a \<in> set (wk_items q))
        \<and> (\<forall>r\<in>set (project_runs rt pk). rn_status r = RS_Failed \<longrightarrow> failed_run_item pk r \<in> set (wk_items q))"
    if "int (length items) \<le> max 1 (min limit 200)"
    using first.shown_all [OF fits [OF that], of queue_key] open_items approvals runs unfolding q by blast
  have "length (wk_items q) \<le> 200" unfolding q using first.shown_length cap by (rule order_trans)
  moreover have "sorted_wrt (\<lambda>x y. queue_key x \<le> queue_key y) (wk_items q)" unfolding q by (rule first.shown_sorted)
  moreover have "\<forall>x\<in>#mset items - mset (wk_items q). \<forall>y\<in>set (wk_items q). queue_key y \<le> queue_key x"
    unfolding q by (intro ballI) (rule first.left_out_after)
  ultimately show ?thesis using q(2) all_shown by blast
qed

section \<open>The health of a project\<close>

lemma dget_latest:
  "sorted (map g xs) \<Longrightarrow> dget (rev (map (\<lambda>c. (k c, c)) xs)) s = Some c \<Longrightarrow>
     c \<in> set xs \<and> k c = s \<and> (\<forall>x\<in>set xs. k x = s \<longrightarrow> g x \<le> g c)"
proof (induction xs rule: rev_induct)
  case (snoc x xs)
  then show ?case
    by (cases "k x = s") (auto simp: sorted_append)
qed simp

lemma cursor_by_source_latest:
  assumes "dget (cursor_by_source rt pk) st = Some c"
  shows "c \<in> set (project_cursors rt pk) \<and> cs_source_type c = st
    \<and> (\<forall>x\<in>set (project_cursors rt pk). cs_source_type x = st \<longrightarrow> cs_updated_at x \<le> cs_updated_at c)"
  using dget_latest [of cs_updated_at "sort_key cs_updated_at (project_cursors rt pk)" cs_source_type st c] assms
  by (simp add: cursor_by_source_def dget_dict_of)

lemma cursor_by_source_has: "dhas (cursor_by_source rt pk) st \<longleftrightarrow> (\<exists>c\<in>set (project_cursors rt pk). cs_source_type c = st)"
  by (auto simp: dhas_def cursor_by_source_def image_image)

lemma sort_key_Nil: "sort_key f xs = [] \<longleftrightarrow> xs = []"
  by (metis length_0_conv length_sort)

lemma source_health_list:
  "source_health rt pk = map (\<lambda>(st, c). source_health_item_of st (Some c)) (sort_key (\<lambda>(st, _). source_type_str st) (cursor_by_source rt pk))
     @ map (\<lambda>st. source_health_item_of st None) (filter (\<lambda>st. \<not> dhas (cursor_by_source rt pk) st \<and> st \<noteq> Email) known_source_types)"
proof -
  let ?by = "cursor_by_source rt pk"
  have "?by \<noteq> [] \<or> filter (\<lambda>st. \<not> dhas ?by st \<and> st \<noteq> Email) known_source_types \<noteq> []"
    by (cases ?by) (simp_all add: dhas_def known_source_types_def)
  then have "map (\<lambda>(st, c). source_health_item_of st (Some c)) (sort_key (\<lambda>(st, _). source_type_str st) ?by)
     @ map (\<lambda>st. source_health_item_of st None) (filter (\<lambda>st. \<not> dhas ?by st \<and> st \<noteq> Email) known_source_types) \<noteq> []"
    unfolding append_is_Nil_conv map_is_Nil_conv sort_key_Nil by blast
  then show ?thesis unfolding source_health_def Let_def by (rule if_not_P)
qed

definition health_entries :: "('a, 'v, 'w, 'p) rt \<Rightarrow> string \<Rightarrow> (source_type, freshness) dict" where
  "health_entries rt pk = map (\<lambda>(st, c). (st, cursor_status c)) (sort_key (\<lambda>(st, _). source_type_str st) (cursor_by_source rt pk))
     @ map (\<lambda>st. (st, Unknown)) (filter (\<lambda>st. \<not> dhas (cursor_by_source rt pk) st \<and> st \<noteq> Email) known_source_types)"

lemma health_entries:
  "map (\<lambda>s. (sh_source_type s, sh_status s)) (source_health rt pk) = health_entries rt pk"
proof -
  have "(sh_source_type (source_health_item_of st (Some c)), sh_status (source_health_item_of st (Some c))) = (st, cursor_status c)"
    if "(st, c) \<in> set (cursor_by_source rt pk)" for st c
    using that cursor_by_source_latest [of rt pk st c]
    by (simp add: source_health_item_of_def dget_iff cursor_by_source_def)
  moreover have "(sh_source_type (source_health_item_of st None), sh_status (source_health_item_of st None)) = (st, Unknown)"
    if "st \<noteq> Email" for st
    using that by (simp add: source_health_item_of_def)
  ultimately show ?thesis
    unfolding source_health_list health_entries_def by auto
qed

lemma health_entries_distinct: "distinct (dkeys (health_entries rt pk))"
proof -
  let ?by = "cursor_by_source rt pk"
  have known: "map fst (map (\<lambda>(st, c). (st, cursor_status c)) xs) = map fst xs" for xs :: "(source_type \<times> source_sync_cursor_state) list"
    by (induction xs) auto
  have "mset (map fst (sort_key (\<lambda>(st, _). source_type_str st) ?by)) = mset (map fst ?by)" by simp
  moreover have "distinct (map fst ?by)" using dict_ok_dict_of unfolding cursor_by_source_def dict_ok_def by blast
  ultimately have "distinct (map fst (sort_key (\<lambda>(st, _). source_type_str st) ?by))" by (metis mset_eq_imp_distinct_iff)
  then show ?thesis
    unfolding health_entries_def map_append known
    by (auto simp: dhas_def known_source_types_def)
qed

lemma source_health_statuses:
  "list_ex (\<lambda>st. st \<in> {Failed, Stale, Warning}) (dvals (dict_of (map (\<lambda>s. (sh_source_type s, sh_status s)) (source_health rt pk))))
    \<longleftrightarrow> (\<exists>st c. dget (cursor_by_source rt pk) st = Some c \<and> cursor_status c \<noteq> Fresh)"
proof -
  have status: "cursor_status c \<in> {Failed, Stale, Warning} \<longleftrightarrow> cursor_status c \<noteq> Fresh" for c
    by (simp add: cursor_status_def)
  have "dvals (health_entries rt pk) = map (\<lambda>(st, c). cursor_status c)
      (sort_key (\<lambda>(st, _). source_type_str st) (cursor_by_source rt pk))
      @ map (\<lambda>_. Unknown) (filter (\<lambda>st. \<not> dhas (cursor_by_source rt pk) st \<and> st \<noteq> Email) known_source_types)"
    unfolding health_entries_def map_append by (simp add: comp_def split_def)
  then have known: "s \<in> set (dvals (health_entries rt pk)) \<longleftrightarrow> (\<exists>(st, c)\<in>set (cursor_by_source rt pk). cursor_status c = s)"
    if "s \<noteq> Unknown" for s
    using that by (force simp: image_iff split_def)
  have "list_ex (\<lambda>st. st \<in> {Failed, Stale, Warning}) (dvals (dict_of (health_entries rt pk)))
    \<longleftrightarrow> (\<exists>s\<in>{Failed, Stale, Warning}. s \<in> set (dvals (health_entries rt pk)))"
    unfolding list_ex_iff dict_of_distinct [OF health_entries_distinct] by blast
  also have "\<dots> \<longleftrightarrow> (\<exists>s\<in>{Failed, Stale, Warning}. \<exists>(st, c)\<in>set (cursor_by_source rt pk). cursor_status c = s)"
    by (rule bex_cong [OF HOL.refl], rule known) auto
  also have "\<dots> \<longleftrightarrow> (\<exists>(st, c)\<in>set (cursor_by_source rt pk). cursor_status c \<in> {Failed, Stale, Warning})"
    by auto
  also have "\<dots> \<longleftrightarrow> (\<exists>st c. dget (cursor_by_source rt pk) st = Some c \<and> cursor_status c \<noteq> Fresh)"
    unfolding status using dget_iff [of "cursor_by_source rt pk"] by (auto simp: cursor_by_source_def)
  finally show ?thesis unfolding health_entries .
qed

lemma latest_run_facts:
  "(latest_run rt pk = None \<longleftrightarrow> project_runs rt pk = [])
    \<and> (\<forall>r. latest_run rt pk = Some r \<longrightarrow> r \<in> set (project_runs rt pk) \<and> (\<forall>x\<in>set (project_runs rt pk). rn_started_at x \<le> rn_started_at r))"
  using max_by_in [of rn_started_at] max_by_ge [of _ _ rn_started_at] max_by_ge_best [of rn_started_at]
  by (auto simp: latest_run_def split: list.splits) blast+

lemma gate_passed: "dg_status (eval_gate_of R rt) = ''passed'' \<longleftrightarrow> eg_status (current_gate R rt) = Gate_Passed"
  by (cases "eg_status (current_gate R rt)") (simp_all add: eval_gate_of_def Let_def gate_status_str_def)

definition open_of :: "('a, 'v, 'w, 'p) rt \<Rightarrow> string \<Rightarrow> severity \<Rightarrow> bool" where
  "open_of rt pk s = (\<exists>f\<in>set (project_findings rt pk). fd_approval_status f = FS_Open \<and> fd_severity f = s)"

lemma counts_open:
  assumes "dashboard_counts_of sc rt pk = Inr counts"
  shows "0 < dc_critical_findings counts \<longleftrightarrow> open_of rt pk Critical" and "0 < dc_high_findings counts \<longleftrightarrow> open_of rt pk High"
    and "0 < dc_pending_approvals counts \<longleftrightarrow> pending_approvals rt pk \<noteq> []"
  using assms by (auto simp: dashboard_counts_of_def rbind_Inr_iff Let_def open_of_def filter_empty_conv)


end
