(* ===== verification/Read_Instances.thy ===== *)
theory Read_Instances
  imports Route_Instances Dashboard
begin

text \<open>
  Applications at which the properties of the registry, the graph routes, the saved filters, the debug
  routes and the dashboard are instantiated.
\<close>

section \<open>A rollback\<close>

definition demo_profile :: model_profile where
  "demo_profile = \<lparr>mp_model_profile_id = ''m1'', mp_provider = MP_Dummy, mp_model_name = ''m'', mp_endpoint_alias = ''e'',
     mp_allowed_data_classes = [], mp_supports_json_schema = True, mp_supports_tool_calling = False,
     mp_max_context_tokens = 100, mp_default_temperature = 0, mp_timeout_seconds = 5, mp_is_active = True,
     mp_schema_version = ''v1''\<rparr>"

definition app_registry :: "(unit, vector_store, unit, entity) route_env" where
  "app_registry = app_admin\<lparr>ro_registry := Inr ([demo_profile], [])\<rparr>"

definition app_activated :: app where
  "app_activated = (app_start [])\<lparr>rt_activations := [(''model_profile:m1'', [(''activation_id'', JStr ''model_profile:m1''),
     (''status'', JStr ''active'')])]\<rparr>"

definition app_rollback :: registry_rollback_query where
  "app_rollback = \<lparr>rl_rolled_back_by = [], rl_reason_code = ''bad'', rl_comment = None\<rparr>"

lemma record_activated_returns: "\<exists>rt' r. record_activated R i d l a rt = Some (rt', r)"
proof -
  obtain rt2 where a: "audited R l a (record_registry_activation (ro_env R) i d rt) = Some (rt2, Inr ())"
    by (simp add: audited_def act_do_apply)
  obtain rt3 x where p: "persisted R rt2 = Some (rt3, x)" by (metis act_then_def persisted_def surj_pair)
  show ?thesis by (cases x) (simp_all add: record_activated_def act_bind_run act_apply a p)
qed

lemma app_registry_admin: "\<exists>u. require_role (ro_auth app_registry) (ro_headers app_registry) ''admin'' = Inr u"
  using app_is_admin by (simp add: app_registry_def)

lemma app_registry_profile: "registry_now app_registry (\<lambda>g. get_profile g ''m1'') = act_of (Inr demo_profile)"
  by (simp add: registry_now_def app_registry_def new_registry_def get_profile_def dget_dict_of demo_profile_def)

lemma app_rolled_back:
  "\<exists>rt r. handle_registry app_registry (Roll_Back_Item Model_Profile ''m1'' app_rollback []) app_activated = Some (rt, r)
     \<and> activation_state rt ''model_profile:m1'' = Some (JStr ''rolled_back'')"
proof -
  obtain u where u: "require_role (ro_auth app_registry) (ro_headers app_registry) ''admin'' = Inr u" using app_registry_admin by blast
  have key: "idempotency_key (ro_headers app_registry) = None" by (simp add: app_registry_def app_admin_def idempotency_key_def)
  let ?i = "activation_id Model_Profile ''m1''"
  have i: "?i = ''model_profile:m1''" by (simp add: activation_id_def registry_kind_str_def)
  obtain current where current: "rollbackable_activation ?i app_activated = Inr current"
    by (simp add: rollbackable_activation_def i app_activated_def found_def jget_def)
  let ?d = "rolled_back_record Model_Profile ''m1'' (us_user_id u) app_rollback (model_profile_dump demo_profile) current"
  let ?a = "registry_event AA_Model_Profile_Rolled_Back (us_user_id u) (us_role u) Model_Profile ''m1'' (Some ''bad'')
     [(''activation_id'', JStr ?i), (''previous_status'', jget current ''status''), (''comment'', jopt None)]"
  obtain rt r where rec: "record_activated app_registry ?i ?d ''model_profile_rolled_back'' ?a app_activated = Some (rt, r)"
    using record_activated_returns by blast
  have "\<exists>r'. handle_registry app_registry (Roll_Back_Item Model_Profile ''m1'' app_rollback []) app_activated = Some (rt, r')"
    unfolding handle_registry.simps rollback_model_profile_def need_role_def u app_registry_profile pure_first
      rollback_registry_activation_def sum.case
    by (rule command_without_key [OF key])
      (use rec in \<open>simp add: read_first current Let_def app_rollback_def str_or_def\<close>)
  moreover have "activation_state rt ''model_profile:m1'' = Some (JStr ''rolled_back'')"
    using activation_recorded [OF rec] record_status(3) by (simp add: activation_state_def i)
  ultimately show ?thesis by blast
qed


section \<open>A graph that is shown\<close>

definition app_graph :: app where
  "app_graph = (app_start [])\<lparr>rt_graph := empty_graph\<lparr>gr_nodes := [(''n1'', demo_node ''n1'' Requirement)]\<rparr>\<rparr>"

definition app_projection :: projection_query where
  "app_projection = \<lparr>pq_mode = Overview, pq_center_node_id = None, pq_hops = 1, pq_limit_nodes = 120,
     pq_search_query = None, pq_edge_filter = EF_All\<rparr>"

definition app_chain :: chain_query where
  "app_chain = \<lparr>cq_direction = Both, cq_depth = 3, cq_include_pending = True, cq_limit_nodes = 200\<rparr>"

lemma app_may_see: "\<exists>u. require_project (ro_auth app_admin) (ro_headers app_admin) (Some ''P'') ''viewer'' = Inr u"
  by (simp add: app_admin_def app_routes_def require_project_def require_role_def current_user_def demo_auth_def Let_def
      opt_str_or_def str_or_def role_level_def role_order_def parse_project_keys_def parse_header_values_def)

lemma app_no_pending: "pending_edges (ro_schema app_admin) (rt_approvals app_graph) ''P'' = Inr ([], [])"
  by code_simp

lemma app_graph_node: "''n1'' \<in> set (map on_node_id (project_nodes (rt_graph app_graph) ''P''))"
  by code_simp

lemma graph_shown_by_project_witness:
  "\<exists>g c d. get_projection app_admin ''P'' app_projection app_graph = Some (app_graph, Inr g)
     \<and> get_chain app_admin ''n1'' ''P'' app_chain app_graph = Some (app_graph, Inr c)
     \<and> get_subgraph app_admin ''P'' app_graph = Some (app_graph, Inr d)
     \<and> (\<forall>v\<in>set (gp_nodes g). gv_node v \<in> set (project_nodes (rt_graph app_graph) ''P''))"
proof -
  obtain u where u: "require_project (ro_auth app_admin) (ro_headers app_admin) (Some ''P'') ''viewer'' = Inr u"
    using app_may_see by blast
  obtain g where g: "get_projection app_admin ''P'' app_projection app_graph = Some (app_graph, Inr g)"
    by (simp add: get_projection_def need_project_def u act_bind_run act_apply app_no_pending)
  obtain c where c: "get_chain app_admin ''n1'' ''P'' app_chain app_graph = Some (app_graph, Inr c)"
    using app_graph_node by (simp add: get_chain_def need_project_def u act_bind_run act_apply app_no_pending)
  obtain d where d: "get_subgraph app_admin ''P'' app_graph = Some (app_graph, Inr d)"
    by (simp add: get_subgraph_def need_project_def u act_bind_run act_apply)
  from graph_shown_by_project [OF g c d] g c d show ?thesis by blast
qed

section \<open>Filters saved\<close>

definition app_filters :: "(string, filter_preset) dict" where
  "app_filters = [(''mine'', \<lparr>fp_item_type = ''all'', fp_priority = ''all'', fp_owner = ''me'', fp_search = []\<rparr>)]"

definition str_of_json :: "json \<Rightarrow> string" where
  "str_of_json v = (case v of JStr s \<Rightarrow> s | _ \<Rightarrow> [])"

definition preset_of_json :: "json \<Rightarrow> filter_preset" where
  "preset_of_json v = (case v of
       JObj d \<Rightarrow> \<lparr>fp_item_type = str_of_json (jget d ''item_type''), fp_priority = str_of_json (jget d ''priority''),
         fp_owner = str_of_json (jget d ''owner''), fp_search = str_of_json (jget d ''search'')\<rparr>
     | _ \<Rightarrow> \<lparr>fp_item_type = [], fp_priority = [], fp_owner = [], fp_search = []\<rparr>)"

definition reads_preferences :: "jobj \<Rightarrow> work_queue_preferences result" where
  \<comment> \<open>a validator that reads what the contract is dumped to\<close>
  "reads_preferences d = Inr \<lparr>wp_project_key = str_of_json (jget d ''project_key''), wp_user_id = str_of_json (jget d ''user_id''),
     wp_saved_filters = (case jget d ''saved_filters'' of JObj fs \<Rightarrow> map (\<lambda>(k, f). (k, preset_of_json f)) fs | _ \<Rightarrow> []),
     wp_updated_at = (case jget d ''updated_at'' of JTime t \<Rightarrow> t | _ \<Rightarrow> 0)\<rparr>"

lemma preset_of_dump: "preset_of_json (JObj (filter_preset_dump f)) = f"
  by (simp add: preset_of_json_def filter_preset_dump_def jget_def str_of_json_def)

lemma presets_of_dumps: "map (\<lambda>(k, f). (k, preset_of_json f)) (map (\<lambda>(k, f). (k, JObj (filter_preset_dump f))) fs) = fs"
  by (induction fs) (auto simp: preset_of_dump)

lemma reads_preferences_dump: "reads_preferences (preferences_dump p) = Inr p"
proof -
  have "jget (preferences_dump p) ''project_key'' = JStr (wp_project_key p)" "jget (preferences_dump p) ''user_id'' = JStr (wp_user_id p)"
    "jget (preferences_dump p) ''saved_filters'' = JObj (map (\<lambda>(k, f). (k, JObj (filter_preset_dump f))) (wp_saved_filters p))"
    "jget (preferences_dump p) ''updated_at'' = JTime (wp_updated_at p)"
    by (simp_all add: preferences_dump_def jget_def)
  then show ?thesis by (simp only: reads_preferences_def str_of_json_def json.case presets_of_dumps) simp
qed

lemma app_is_developer: "\<exists>u. require_project (ro_auth app_admin) (ro_headers app_admin) (Some ''P'') ''developer'' = Inr u"
  by (simp add: app_admin_def app_routes_def require_project_def require_role_def current_user_def demo_auth_def Let_def
      opt_str_or_def str_or_def role_level_def role_order_def parse_project_keys_def parse_header_values_def)

lemma preferences_round_trip_witness:
  "\<exists>rt d. save_preferences app_admin app_filters ''P'' (app_start []) = Some (rt, Inr d)
     \<and> get_preferences reads_preferences app_admin ''P'' rt = Some (rt, Inr d)"
proof -
  obtain u where u: "require_project (ro_auth app_admin) (ro_headers app_admin) (Some ''P'') ''developer'' = Inr u"
    using app_is_developer by blast
  have saved: "\<exists>rt' d. save_preferences app_admin app_filters ''P'' rt = Some (rt', Inr d)" for rt
    by (simp add: save_preferences_def need_project_def u act_bind_run act_apply Let_def audited_def)
  then obtain rt d where s: "save_preferences app_admin app_filters ''P'' (app_start []) = Some (rt, Inr d)" by blast
  have "\<forall>f\<in>set (dvals app_filters). filter_preset_ok f" by (simp add: app_filters_def filter_preset_ok_def)
  from preferences_round_trip [where valid = reads_preferences, OF reads_preferences_dump this s] s show ?thesis by blast
qed

section \<open>An artifact read\<close>

definition app_artifact :: app where
  "app_artifact = (app_start [])\<lparr>rt_store := None,
     rt_artifacts := \<lparr>st_root = ''data'', st_files = [(resolve (we_cwd (rv_wf app_env)) (parse_path ''data/p.json''), JInt 1)]\<rparr>\<rparr>"

lemma app_artifact_stored: "stored_in app_admin app_artifact ''data/p.json'' (JInt 1)"
  by code_simp


section \<open>A project with a failed run and a critical finding\<close>

definition app_run :: "string \<Rightarrow> run_status \<Rightarrow> time \<Rightarrow> agent_run" where
  "app_run i st t = \<lparr>rn_run_id = i, rn_run_type = RT_Analysis, rn_project_key = ''P'', rn_triggered_by = ''u'',
     rn_trigger_source = TS_Manual, rn_status = st, rn_model_profile_id = None, rn_prompt_version_ids = [],
     rn_input_snapshot_ids = [], rn_started_at = t, rn_completed_at = None, rn_failure_code = None,
     rn_failure_message = None\<rparr>"

definition app_finding :: finding where
  "app_finding = \<lparr>fd_finding_id = ''f1'', fd_finding_type = Conflict, fd_severity = Critical, fd_affected_node_ids = [''n1''],
     fd_affected_edge_ids = [], fd_description = ''d'', fd_suggested_action = ''a'', fd_evidence = [],
     fd_detection_method = By_Rule, fd_approval_status = FS_Open, fd_rule_id = None, fd_schema_version = ''v1''\<rparr>"

definition app_watched :: app where
  "app_watched = app_graph\<lparr>rt_traces := empty_traces\<lparr>tr_runs := [(''r0'', app_run ''r0'' RS_Failed 0),
       (''r1'', app_run ''r1'' RS_Succeeded 1)]\<rparr>,
     rt_findings := [(''f1'', app_finding)]\<rparr>"

lemma app_watched_findings: "project_findings app_watched ''P'' = [app_finding]"
  by code_simp

lemma app_watched_runs: "project_runs app_watched ''P'' = [app_run ''r0'' RS_Failed 0, app_run ''r1'' RS_Succeeded 1]"
  by code_simp

lemma app_watched_counts: "\<exists>counts. dashboard_counts_of (ro_schema app_admin) app_watched ''P'' = Inr counts"
proof -
  have "dashboard_pending_edges (ro_schema app_admin) (rt_approvals app_watched) ''P'' = Inr []" by code_simp
  then show ?thesis by (simp add: dashboard_counts_of_def Let_def)
qed

lemma app_watched_latest: "latest_run app_watched ''P'' = Some (app_run ''r1'' RS_Succeeded 1)"
  by code_simp


lemma work_queue_ranked_witness:
  "app_finding \<in> set (project_findings app_watched ''P'')
   \<and> finding_item app_watched ''P'' app_finding \<in> set (wk_items (work_queue app_admin app_watched ''P'' ''open'' 50))
   \<and> failed_run_item ''P'' (app_run ''r0'' RS_Failed 0) \<in> set (wk_items (work_queue app_admin app_watched ''P'' ''open'' 50))"
proof -
  have "length (filter (\<lambda>w. wq_status w = ''open'') (queue_items app_admin app_watched ''P'')) \<le> 50" by code_simp
  then have "int (length (filter (\<lambda>w. wq_status w = ''open'') (queue_items app_admin app_watched ''P''))) \<le> max 1 (min 50 200)"
    by simp
  with work_queue_ranked [OF HOL.refl HOL.refl, of app_admin app_watched "''P''" 50]
  have "(\<forall>f\<in>set (project_findings app_watched ''P''). fd_approval_status f = FS_Open \<longrightarrow>
        finding_item app_watched ''P'' f \<in> set (wk_items (work_queue app_admin app_watched ''P'' ''open'' 50)))
    \<and> (\<forall>r\<in>set (project_runs app_watched ''P''). rn_status r = RS_Failed \<longrightarrow>
        failed_run_item ''P'' r \<in> set (wk_items (work_queue app_admin app_watched ''P'' ''open'' 50)))" by blast
  moreover have "fd_approval_status app_finding = FS_Open" "rn_status (app_run ''r0'' RS_Failed 0) = RS_Failed"
    by (simp_all add: app_finding_def app_run_def)
  ultimately show ?thesis unfolding app_watched_findings app_watched_runs by simp
qed

end
