(* ===== verification/Jira.thy ===== *)
theory Jira
  imports Export Chain
begin

text \<open>
  \<open>adapters/jira_rest.py\<close>: one page of JIRA issues, with the values of the JSON response taken as Python
  takes them. The transport is an argument, as it is of the adapter: it is given the payload and the
  number of calls made before. The transport over \<open>urllib\<close> is input and output and not modelled; it
  answers an object or raises. Of the exceptions an issue may raise, the adapter catches \<open>KeyError\<close>,
  \<open>TypeError\<close> and \<open>ValueError\<close>, of which Pydantic's \<open>ValidationError\<close> is one; \<open>AttributeError\<close> it does not.
\<close>

section \<open>Python values\<close>

definition attribute_error :: "'a result" where
  "attribute_error = Inl (OtherException ''AttributeError'')"

definition py_item :: "json \<Rightarrow> string \<Rightarrow> json result" where
  \<comment> \<open>\<open>v[k]\<close>\<close>
  "py_item v k = (case v of JObj d \<Rightarrow> (case dget d k of None \<Rightarrow> Inl (KeyError k) | Some x \<Rightarrow> Inr x)
     | _ \<Rightarrow> Inl (PyTypeError ''not subscriptable by a string''))"

definition py_get_or :: "json \<Rightarrow> string \<Rightarrow> json \<Rightarrow> json result" where
  \<comment> \<open>\<open>v.get(k, default)\<close>\<close>
  "py_get_or v k dflt = (case v of JObj d \<Rightarrow> Inr (jget_or d k dflt) | _ \<Rightarrow> attribute_error)"

definition py_get :: "json \<Rightarrow> string \<Rightarrow> json result" where
  "py_get v k = py_get_or v k JNull"

definition py_iter :: "json \<Rightarrow> json list result" where
  \<comment> \<open>what \<open>for x in v\<close> goes through\<close>
  "py_iter v = (case v of JList xs \<Rightarrow> Inr xs | JStr s \<Rightarrow> Inr (map (\<lambda>c. JStr [c]) s)
     | JObj d \<Rightarrow> Inr (map (\<lambda>kv. JStr (fst kv)) d) | _ \<Rightarrow> Inl (PyTypeError ''not iterable''))"

definition dict_of_json :: "json \<Rightarrow> jobj option" where
  \<comment> \<open>\<open>isinstance(v, dict)\<close>\<close>
  "dict_of_json v = (case v of JObj d \<Rightarrow> Some d | _ \<Rightarrow> None)"

definition py_or :: "json \<Rightarrow> json \<Rightarrow> json" where
  "py_or a b = (if truthy a then a else b)"

definition int_of_text :: "string \<Rightarrow> int result" where
  \<comment> \<open>\<open>int(s)\<close>: spaces around, a sign, digits with single underscores between them\<close>
  "int_of_text s =
     (let t = py_strip s;
          neg = (t \<noteq> [] \<and> hd t = CHR ''-'');
          u = (if t \<noteq> [] \<and> hd t \<in> {CHR ''-'', CHR ''+''} then tl t else t);
          ps = py_split (CHR ''_'') u
      in if [] \<in> set ps then Inl (ValueError ''invalid literal for int()'')
         else rbind (py_int (concat ps)) (\<lambda>i. Inr (if neg then - i else i)))"

definition int_of_json :: "json \<Rightarrow> int result" where
  \<comment> \<open>\<open>int(v)\<close> of a JSON value\<close>
  "int_of_json v = (case v of JInt i \<Rightarrow> Inr i | JBool b \<Rightarrow> Inr (if b then 1 else 0)
     | JFloat r \<Rightarrow> Inr (if 0 \<le> r then \<lfloor>r\<rfloor> else \<lceil>r\<rceil>) | JStr s \<Rightarrow> int_of_text s
     | _ \<Rightarrow> Inl (PyTypeError ''int() argument''))"

section \<open>The parts of an issue\<close>

fun extract_text :: "json \<Rightarrow> string" where
  "extract_text (JStr s) = s"
| "extract_text (JList xs) = py_join [CHR 0x0A] (filter (\<lambda>p. p \<noteq> []) (map extract_text xs))"
| "extract_text (JObj d) =
     (let contents = map (\<lambda>kv. (fst kv, case snd kv of JList xs \<Rightarrow> Some (map extract_text xs) | _ \<Rightarrow> None)) d
      in py_join [CHR 0x0A]
        ((case jget d ''text'' of JStr s \<Rightarrow> [s] | _ \<Rightarrow> [])
         @ (case dget contents ''content'' of Some (Some ps) \<Rightarrow> filter (\<lambda>p. p \<noteq> []) ps | _ \<Rightarrow> [])))"
| "extract_text _ = []"

definition nested_name :: "host \<Rightarrow> json \<Rightarrow> json" where
  "nested_name h v = (case v of JObj d \<Rightarrow> if jget d ''name'' \<noteq> JNull then JStr (py_str h (jget d ''name'')) else JNull
     | _ \<Rightarrow> JNull)"

definition jira_account_id :: "host \<Rightarrow> json \<Rightarrow> string option" where
  "jira_account_id h v = (case v of
       JObj d \<Rightarrow> (let a = py_or (jget d ''accountId'') (jget d ''name'') in if a \<noteq> JNull then Some (py_str h a) else None)
     | _ \<Rightarrow> None)"

definition linked_keys :: "host \<Rightarrow> json \<Rightarrow> string list" where
  "linked_keys h link = (case link of
       JObj l \<Rightarrow> List.map_filter (\<lambda>side. case jget l side of
           JObj d \<Rightarrow> map_option (py_str h) (dget d ''key'') | _ \<Rightarrow> None) [''outwardIssue'', ''inwardIssue'']
     | _ \<Rightarrow> [])"

definition issue_links :: "host \<Rightarrow> json \<Rightarrow> string list result" where
  "issue_links h fs =
     rbind (py_get_or fs ''issuelinks'' (JList [])) (\<lambda>v.
     rbind (py_iter v) (\<lambda>links.
     Inr (fromkeys (concat (map (linked_keys h) links)))))"

definition comment_ref :: "host \<Rightarrow> json \<Rightarrow> json option" where
  "comment_ref h comment = (case comment of
       JObj c \<Rightarrow> if jget c ''id'' = JNull then None
         else Some (JObj [(''comment_id'', JStr (py_str h (jget c ''id''))),
           (''author_id'', jopt (jira_account_id h (jget c ''author''))), (''created'', jget c ''created''),
           (''updated'', jget c ''updated''), (''body_preview'', JStr (take 240 (extract_text (jget c ''body''))))])
     | _ \<Rightarrow> None)"

definition comment_refs :: "host \<Rightarrow> json \<Rightarrow> json list result" where
  "comment_refs h fs =
     rbind (py_get_or fs ''comment'' (JObj [])) (\<lambda>container.
     rbind (py_iter (case container of JObj c \<Rightarrow> jget_or c ''comments'' (JList []) | _ \<Rightarrow> JList [])) (\<lambda>comments.
     Inr (List.map_filter (comment_ref h) comments)))"

definition history_item :: "host \<Rightarrow> json \<Rightarrow> json option" where
  "history_item h item = (case item of
       JObj i \<Rightarrow> if jget i ''field'' = JNull then None
         else Some (JObj [(''field'', JStr (py_str h (jget i ''field''))), (''from'', jget i ''from''),
           (''from_string'', jget i ''fromString''), (''to'', jget i ''to''), (''to_string'', jget i ''toString'')])
     | _ \<Rightarrow> None)"

definition history_items :: "host \<Rightarrow> jobj \<Rightarrow> json list" where
  "history_items h history = (case jget_or history ''items'' (JList []) of
       JList items \<Rightarrow> List.map_filter (history_item h) items | _ \<Rightarrow> [])"

definition history_ref :: "host \<Rightarrow> json \<Rightarrow> json option" where
  "history_ref h history = (case history of
       JObj d \<Rightarrow> if jget d ''id'' = JNull then None
         else Some (JObj [(''history_id'', JStr (py_str h (jget d ''id''))),
           (''author_id'', jopt (jira_account_id h (jget d ''author''))), (''created'', jget d ''created''),
           (''items'', JList (history_items h d))])
     | _ \<Rightarrow> None)"

definition history_refs :: "host \<Rightarrow> json \<Rightarrow> json list result" where
  "history_refs h issue =
     rbind (py_get_or issue ''changelog'' (JObj [])) (\<lambda>changelog.
     rbind (py_iter (case changelog of JObj c \<Rightarrow> jget_or c ''histories'' (JList []) | _ \<Rightarrow> JList [])) (\<lambda>histories.
     Inr (List.map_filter (history_ref h) histories)))"

section \<open>An issue as an artifact\<close>

definition named_list :: "host \<Rightarrow> json \<Rightarrow> string \<Rightarrow> json result" where
  \<comment> \<open>\<open>[_nested_name(x) for x in fields.get(key, [])]\<close>\<close>
  "named_list h fs key = rbind (py_get_or fs key (JList [])) (\<lambda>v. rbind (py_iter v) (\<lambda>xs.
     Inr (JList (map (nested_name h) xs))))"

definition jira_metadata :: "host \<Rightarrow> json \<Rightarrow> json list \<Rightarrow> json list \<Rightarrow> jobj result" where
  "jira_metadata h fs comments history =
     rbind (py_get fs ''issuetype'') (\<lambda>issue_type.
     rbind (py_get fs ''status'') (\<lambda>status.
     rbind (py_get fs ''priority'') (\<lambda>priority.
     rbind (named_list h fs ''components'') (\<lambda>components.
     rbind (named_list h fs ''fixVersions'') (\<lambda>versions.
     Inr [(''jira_issue_type'', nested_name h issue_type), (''jira_status'', nested_name h status),
       (''jira_priority'', nested_name h priority), (''components'', components), (''fix_versions'', versions),
       (''comment_count'', JInt (int (length comments))), (''comment_refs'', JList comments),
       (''history_count'', JInt (int (length history))), (''history_refs'', JList history)])))))"

definition key_of_json :: "host \<Rightarrow> json \<Rightarrow> string option" where
  \<comment> \<open>\<open>str(v["key"]) if isinstance(v, dict) and "key" in v\<close>\<close>
  "key_of_json h v = Option.bind (dict_of_json v) (\<lambda>d. map_option (py_str h) (dget d ''key''))"

definition issue_to_artifact :: "host \<Rightarrow> string \<Rightarrow> string \<Rightarrow> json \<Rightarrow> raw_source_artifact result" where
  "issue_to_artifact h base_url project_key issue =
     rbind (py_item issue ''fields'') (\<lambda>fs.
     rbind (py_item issue ''key'') (\<lambda>key_value. let key = py_str h key_value in
     rbind (py_get fs ''description'') (\<lambda>description.
     rbind (rbind (py_get_or fs ''labels'' (JList [])) py_iter) (\<lambda>labels.
     rbind (issue_links h fs) (\<lambda>links.
     rbind (comment_refs h fs) (\<lambda>comments.
     rbind (history_refs h issue) (\<lambda>history.
     rbind (jira_metadata h fs comments history) (\<lambda>metadata.
     rbind (py_get fs ''parent'') (\<lambda>parent.
     rbind (py_get_or fs ''subtasks'' (JList [])) (\<lambda>subtasks.
     rbind (py_get fs ''summary'') (\<lambda>summary.
     rbind (py_get fs ''reporter'') (\<lambda>reporter.
     rbind (py_item fs ''created'') (\<lambda>created.
     rbind (py_item fs ''updated'') (\<lambda>updated.
     rbind (py_iter subtasks) (\<lambda>children.
     let title = py_str h (py_or summary (JStr key)) in
     Inr \<lparr>ra_external_id = key, ra_source_type = Jira, ra_source_url = base_url @ ''/browse/'' @ key,
       ra_project_key = project_key, ra_title = title, ra_body_text = str_or (extract_text description) title,
       ra_author_id = jira_account_id h reporter, ra_created_at = py_str h created, ra_updated_at = py_str h updated,
       ra_labels = map (py_str h) labels, ra_links = links, ra_parent_id = key_of_json h parent,
       ra_child_ids = List.map_filter (key_of_json h) children, ra_metadata = metadata,
       ra_access_scope = [project_key], ra_data_classification = Public_Internal\<rparr>)))))))))))))))"

section \<open>A page of issues\<close>

record jira_config =
  jc_base_url :: string
  jc_jql :: "string option"
  jc_max_retries :: int

definition jira_fields :: "string list" where
  "jira_fields = [''summary'', ''description'', ''issuetype'', ''status'', ''priority'', ''labels'', ''components'',
     ''fixVersions'', ''reporter'', ''assignee'', ''created'', ''updated'', ''issuelinks'', ''comment'', ''parent'', ''subtasks'']"

definition cursor_offset :: "sync_cursor option \<Rightarrow> int" where
  "cursor_offset c = (case c of None \<Rightarrow> 0 | Some c \<Rightarrow> cu_offset c)"

definition jira_payload :: "jira_config \<Rightarrow> source_scope \<Rightarrow> int \<Rightarrow> jobj" where
  "jira_payload cfg scope offset = [
     (''jql'', JStr (opt_str_or (jc_jql cfg) (''project = '' @ sc_project_key scope @ '' ORDER BY updated ASC''))),
     (''startAt'', JInt offset), (''maxResults'', JInt (sc_limit scope)), (''fields'', jstrs jira_fields),
     (''expand'', jstrs [''changelog''])]"

definition skipped_as :: "py_error \<Rightarrow> string option" where
  \<comment> \<open>the class name of an exception the loop catches\<close>
  "skipped_as e = (case e of KeyError _ \<Rightarrow> Some ''KeyError'' | PyTypeError _ \<Rightarrow> Some ''TypeError''
     | ValueError _ \<Rightarrow> Some ''ValueError'' | ValidationError _ \<Rightarrow> Some ''ValidationError'' | _ \<Rightarrow> None)"

fun convert_items :: "(json \<Rightarrow> raw_source_artifact result) \<Rightarrow> (json \<Rightarrow> string \<Rightarrow> string) \<Rightarrow> json list \<Rightarrow>
    (raw_source_artifact list \<times> string list) result" where
  \<comment> \<open>the loop over the items of a page: an artifact or a warning for each\<close>
  "convert_items conv warn [] = Inr ([], [])"
| "convert_items conv warn (x # xs) =
     (case conv x of
        Inr a \<Rightarrow> rbind (convert_items conv warn xs) (\<lambda>(as, ws). Inr (a # as, ws))
      | Inl e \<Rightarrow> (case skipped_as e of
            None \<Rightarrow> Inl e
          | Some name \<Rightarrow> rbind (convert_items conv warn xs) (\<lambda>(as, ws). Inr (as, warn x name # ws))))"

definition skip_warning :: "host \<Rightarrow> json \<Rightarrow> string \<Rightarrow> string" where
  "skip_warning h issue name = ''jira_issue_skipped:''
     @ py_str h (case issue of JObj d \<Rightarrow> jget_or d ''key'' (JStr ''unknown'') | _ \<Rightarrow> JStr ''unknown'') @ '':'' @ name"

definition failed_page :: "string list \<Rightarrow> source_fetch_result" where
  "failed_page ws = \<lparr>fr_artifacts = [], fr_next_cursor = None, fr_initial_cursor = None, fr_completed_cursor = None,
     fr_page_count = 1, fr_source_warnings = ws, fr_partial_failure = True\<rparr>"

definition jira_page :: "host \<Rightarrow> jira_config \<Rightarrow> source_scope \<Rightarrow> int \<Rightarrow> jobj \<Rightarrow> string list \<Rightarrow> source_fetch_result result" where
  \<comment> \<open>what is made of a response\<close>
  "jira_page h cfg scope offset response request_warnings =
     (case jget_or response ''issues'' (JList []) of
        JList issues \<Rightarrow>
          rbind (convert_items (issue_to_artifact h (jc_base_url cfg) (sc_project_key scope)) (skip_warning h) issues) (\<lambda>(artifacts, skipped).
          rbind (int_of_json (jget_or response ''total'' (JInt (offset + int (length issues))))) (\<lambda>total.
          let next_offset = offset + int (length issues); warnings = request_warnings @ skipped in
          Inr \<lparr>fr_artifacts = artifacts,
            fr_next_cursor = (if next_offset < total
              then Some \<lparr>cu_offset = next_offset, cu_content_hash = Some (raws_hash h artifacts)\<rparr> else None),
            fr_initial_cursor = None, fr_completed_cursor = None, fr_page_count = 1,
            fr_source_warnings = warnings, fr_partial_failure = (warnings \<noteq> [])\<rparr>))
      | _ \<Rightarrow> Inr (failed_page (request_warnings @ [''jira_response_issues_not_list''])))"

type_synonym transport = "jobj \<Rightarrow> nat \<Rightarrow> jobj request_outcome"

definition jira_fetch :: "host \<Rightarrow> jira_config \<Rightarrow> transport \<Rightarrow> source_scope \<Rightarrow> sync_cursor option \<Rightarrow> source_fetch_result result" where
  \<comment> \<open>\<open>fetch_incremental\<close>\<close>
  "jira_fetch h cfg transport scope cursor =
     (let offset = cursor_offset cursor in
      rbind (request_with_retry ''jira'' (jc_max_retries cfg) True (transport (jira_payload cfg scope offset))) (\<lambda>r.
      case rr_response r of
        None \<Rightarrow> Inr (failed_page (rr_warnings r))
      | Some response \<Rightarrow> jira_page h cfg scope offset response (rr_warnings r)))"

definition jira_source :: "host \<Rightarrow> jira_config \<Rightarrow> transport \<Rightarrow> 'w fetcher" where
  \<comment> \<open>the adapter as the workflow uses it\<close>
  "jira_source h cfg transport scope cursor w = (w, jira_fetch h cfg transport scope cursor)"

definition new_jira :: "string \<Rightarrow> string \<Rightarrow> bool \<Rightarrow> string option \<Rightarrow> int \<Rightarrow> jira_config result" where
  \<comment> \<open>\<open>__init__\<close>: the base url, the token, whether a transport is given, the query and the retries\<close>
  "new_jira base_url token has_transport jql max_retries =
     (if base_url = [] then Inl (ValueError ''jira base_url is required'')
      else if token = [] \<and> \<not> has_transport then Inl (ValueError ''jira token is required when transport is not provided'')
      else Inr \<lparr>jc_base_url = rev (dropWhile (\<lambda>c. c = CHR ''/'') (rev base_url)), jc_jql = jql,
        jc_max_retries = max_retries\<rparr>)"

section \<open>Every issue is accounted for\<close>

lemma convert_items_outcome:
  assumes "convert_items conv warn xs = Inr (as, ws)"
  shows "as = List.map_filter (\<lambda>x. case conv x of Inr a \<Rightarrow> Some a | Inl _ \<Rightarrow> None) xs"
    and "ws = List.map_filter (\<lambda>x. case conv x of Inr _ \<Rightarrow> None | Inl e \<Rightarrow> map_option (warn x) (skipped_as e)) xs"
    and "length as + length ws = length xs"
  using assms
  by (induction xs arbitrary: as ws)
    (auto simp: List.map_filter_def rbind_Inr_iff split: sum.splits option.splits)

lemma artifact_of_project:
  "issue_to_artifact h base pk issue = Inr a \<Longrightarrow> ra_project_key a = pk \<and> ra_source_type a = Jira \<and> ra_access_scope a = [pk]"
  unfolding issue_to_artifact_def Let_def rbind_Inr_iff by (elim exE conjE) auto

text \<open>
  A page of a JIRA response loses nothing silently: every issue of it becomes an artifact, of
  the project and source asked for, or a warning; the fetch counts as partial exactly when there is a
  warning; and the next cursor stands right behind the issues of this page, and only if the response
  says that there are more.
\<close>

theorem jira_page_accounts:
  assumes "jira_page h cfg scope offset response ws = Inr r" and "jget_or response ''issues'' (JList []) = JList issues"
  shows "length (fr_artifacts r) + length (fr_source_warnings r) = length ws + length issues
    \<and> (fr_partial_failure r \<longleftrightarrow> fr_source_warnings r \<noteq> [])
    \<and> (\<forall>a\<in>set (fr_artifacts r). ra_project_key a = sc_project_key scope \<and> ra_source_type a = Jira
         \<and> (\<exists>issue\<in>set issues. issue_to_artifact h (jc_base_url cfg) (sc_project_key scope) issue = Inr a))
    \<and> (\<forall>c. fr_next_cursor r = Some c \<longrightarrow> cu_offset c = offset + int (length issues)
         \<and> (\<exists>total. int_of_json (jget response ''total'') = Inr total \<and> cu_offset c < total))"
proof -
  let ?conv = "issue_to_artifact h (jc_base_url cfg) (sc_project_key scope)"
  let ?total = "int_of_json (jget_or response ''total'' (JInt (offset + int (length issues))))"
  from assms obtain as sk total where c: "convert_items ?conv (skip_warning h) issues = Inr (as, sk)" and t: "?total = Inr total"
    and r: "fr_artifacts r = as" "fr_source_warnings r = ws @ sk" "fr_partial_failure r = (ws @ sk \<noteq> [])"
      "fr_next_cursor r = (if offset + int (length issues) < total
         then Some \<lparr>cu_offset = offset + int (length issues), cu_content_hash = Some (raws_hash h as)\<rparr> else None)"
    by (auto simp: jira_page_def rbind_Inr_iff Let_def)
  note out = convert_items_outcome [OF c]
  have conv: "\<exists>issue\<in>set issues. ?conv issue = Inr a" if "a \<in> set as" for a
  proof -
    from that obtain issue where i: "issue \<in> set issues" "(case ?conv issue of Inr a \<Rightarrow> Some a | Inl _ \<Rightarrow> None) = Some a"
      unfolding out(1) in_map_filter by blast
    then have "?conv issue = Inr a" by (cases "?conv issue") simp_all
    with i(1) show ?thesis by blast
  qed
  have total: "int_of_json (jget response ''total'') = Inr total" if "offset + int (length issues) < total"
    using that t by (cases "dget response ''total''") (auto simp: jget_def jget_or_def int_of_json_def)
  have "\<forall>a\<in>set as. ra_project_key a = sc_project_key scope \<and> ra_source_type a = Jira \<and> (\<exists>issue\<in>set issues. ?conv issue = Inr a)"
    using conv artifact_of_project by blast
  moreover have "\<forall>c. fr_next_cursor r = Some c \<longrightarrow> cu_offset c = offset + int (length issues)
      \<and> (\<exists>total. int_of_json (jget response ''total'') = Inr total \<and> cu_offset c < total)"
    unfolding r(4) using total by auto
  moreover have "length as + length (ws @ sk) = length ws + length issues" using out(3) by simp
  ultimately show ?thesis unfolding r(1-3) by blast
qed

lemma issue_fields_null:
  \<comment> \<open>the error of an issue whose fields are null is not caught: the whole fetch raises\<close>
  assumes "dget d ''fields'' = Some JNull" and "dget d ''key'' = Some k"
  shows "jira_page h cfg scope offset [(''issues'', JList (JObj d # issues))] ws = Inl (OtherException ''AttributeError'')"
  using assms by (simp add: jira_page_def issue_to_artifact_def py_item_def py_get_def py_get_or_def attribute_error_def
      skipped_as_def jget_or_def Let_def)

section \<open>Paging\<close>

definition json_int :: "json \<Rightarrow> int" where
  "json_int v = (case v of JInt i \<Rightarrow> i | _ \<Rightarrow> 0)"

definition paging_server :: "json list \<Rightarrow> transport" where
  \<comment> \<open>a server that answers every search with the part of a fixed list it asks for, and the length of the list\<close>
  "paging_server issues payload k = Response
     [(''issues'', JList (py_slice (json_int (jget payload ''startAt''))
        (json_int (jget payload ''startAt'') + json_int (jget payload ''maxResults'')) issues)),
      (''total'', JInt (int (length issues)))]"

lemma py_slice_map: "py_slice a b (map f xs) = map f (py_slice a b xs)"
  by (simp add: py_slice_def slice_def Let_def take_map drop_map)

lemma set_py_slice: "set (py_slice a b xs) \<subseteq> set xs"
  unfolding py_slice_def Let_def by (rule set_slice)

lemma rmap_as_map: "rmap g xs = Inr ys \<Longrightarrow> (\<And>x. x \<in> set xs \<Longrightarrow> g x = Inr (f x)) \<Longrightarrow> ys = map f xs"
  by (induction xs arbitrary: ys) (auto simp: rbind_Inr_iff)

lemma rmap_function:
  assumes "rmap g xs = Inr ys"
  obtains f where "ys = map f xs" and "\<And>x. x \<in> set xs \<Longrightarrow> g x = Inr (f x)"
proof -
  define f where "f = (\<lambda>x. case g x of Inr a \<Rightarrow> a | Inl _ \<Rightarrow> undefined)"
  have g: "g x = Inr (f x)" if "x \<in> set xs" for x
    using rmap_each [OF assms that] by (auto simp: f_def)
  from that [OF rmap_as_map [OF assms g] g] show thesis .
qed

lemma convert_items_all:
  "(\<And>x. x \<in> set xs \<Longrightarrow> conv x = Inr (f x)) \<Longrightarrow> convert_items conv warn xs = Inr (map f xs, [])"
  by (induction xs) auto

text \<open>Two sources that agree wherever their cursors lead are collected alike.\<close>

definition agree :: "(sync_cursor option \<Rightarrow> bool) \<Rightarrow> source_scope \<Rightarrow> 'w fetcher \<Rightarrow> 'w fetcher \<Rightarrow> bool" where
  "agree visited scope f g = (\<forall>c w. visited c \<longrightarrow> f scope c w = g scope c w
     \<and> (\<forall>w' page. f scope c w = (w', Inr page) \<longrightarrow> visited (fr_next_cursor page)))"

lemma agree_sym: "agree visited scope f g \<Longrightarrow> agree visited scope g f"
  by (auto simp: agree_def)

lemma fetch_pages_agree:
  assumes "fetch_pages f scope cursor acc w = Some y" and "agree visited scope f g" and "visited cursor"
  shows "fetch_pages g scope cursor acc w = Some y"
proof -
  have "agree visited scope f g \<and> visited cursor \<longrightarrow> fetch_pages g scope cursor acc w = Some y"
  proof (rule fetch_pages.raw_induct [where P = "\<lambda>f s cursor acc w y. agree visited s f g \<and> visited cursor \<longrightarrow> fetch_pages g s cursor acc w = Some y",
      OF _ assms(1)])
    fix fp f s cursor acc w y
    assume "\<And>f s cursor acc w y. fp f s cursor acc w = Some y \<Longrightarrow>
        agree visited s f g \<and> visited cursor \<longrightarrow> fetch_pages g s cursor acc w = Some y"
      and "(case cursor of None \<Rightarrow> Some (w, Inr acc)
        | Some c \<Rightarrow> (case f s (Some c) w of (w', r) \<Rightarrow> (case r of Inl e \<Rightarrow> Some (w', Inl e)
            | Inr page \<Rightarrow> fp f s (fr_next_cursor page) (add_page page acc) w'))) = Some y"
    note IH = this(1) and run = this(2)
    show "agree visited s f g \<and> visited cursor \<longrightarrow> fetch_pages g s cursor acc w = Some y"
    proof
      assume same: "agree visited s f g \<and> visited cursor"
      show "fetch_pages g s cursor acc w = Some y"
      proof (cases cursor)
        case None
        with run show ?thesis by (simp add: fetch_pages.simps)
      next
        case (Some c)
        obtain w' r where fw: "f s (Some c) w = (w', r)" by fastforce
        with same Some have gw: "g s (Some c) w = (w', r)" unfolding agree_def by metis
        show ?thesis
        proof (cases r)
          case (Inl e)
          with run Some fw gw show ?thesis by (subst fetch_pages.simps) auto
        next
          case (Inr page)
          with run Some fw have "fp f s (fr_next_cursor page) (add_page page acc) w' = Some y" by simp
          moreover have "visited (fr_next_cursor page)" using same Some fw Inr unfolding agree_def by metis
          ultimately have "fetch_pages g s (fr_next_cursor page) (add_page page acc) w' = Some y" using IH same by blast
          with Some gw Inr show ?thesis by (subst fetch_pages.simps) simp
        qed
      qed
    qed
  qed
  with assms(2,3) show ?thesis by blast
qed

lemma fetch_all_agree:
  assumes "agree visited scope f g" and "visited None"
  shows "fetch_all h f scope w = fetch_all h g scope w"
proof -
  have same: "fetch_pages f scope cursor acc w = fetch_pages g scope cursor acc w" if "visited cursor" for cursor acc w
    using fetch_pages_agree [OF _ assms(1) that] fetch_pages_agree [OF _ agree_sym [OF assms(1)] that]
    by (metis not_Some_eq)
  obtain w' r where f: "f scope None w = (w', r)" by fastforce
  then have g: "g scope None w = (w', r)" and next_ok: "\<And>page. r = Inr page \<Longrightarrow> visited (fr_next_cursor page)"
    using assms unfolding agree_def by metis+
  show ?thesis
  proof (cases r)
    case (Inr page)
    from same [OF next_ok [OF Inr]] show ?thesis unfolding fetch_all_def f g Inr by simp
  qed (simp add: fetch_all_def f g)
qed

text \<open>
  Property C31. Over a server that answers each search with the part of its issues asked for and their
  total, and whose issues all convert, the adapter is a paged source of the artifacts: each fetch is a
  page of them with the cursor to the next, whatever the page size and cursor, and collecting the pages
  is collecting those of that source.
\<close>

theorem jira_refines_pages:
  assumes "rmap (issue_to_artifact h (jc_base_url cfg) (sc_project_key scope)) issues = Inr xs"
  shows "jira_source h cfg (paging_server issues) scope cursor w = paged h xs [] False scope cursor w
    \<and> fetch_all h (jira_source h cfg (paging_server issues)) scope w = fetch_all h (paged h xs [] False) scope w"
proof -
  let ?conv = "issue_to_artifact h (jc_base_url cfg) (sc_project_key scope)"
  obtain f where xs: "xs = map f issues" and conv: "\<And>x. x \<in> set issues \<Longrightarrow> ?conv x = Inr (f x)"
    using rmap_function [OF assms] by metis
  have one: "jira_source h cfg (paging_server issues) scope c v = paged h xs [] False scope c v" for c and v :: 'a
  proof -
    let ?page = "py_slice (cursor_offset c) (cursor_offset c + sc_limit scope) issues"
    let ?response = "[(''issues'', JList ?page), (''total'', JInt (int (length issues)))]"
    have "convert_items ?conv (skip_warning h) ?page = Inr (map f ?page, [])"
      using conv set_py_slice [of _ _ issues] by (intro convert_items_all) blast
    then have "jira_page h cfg scope (cursor_offset c) ?response [] = Inr (page_fetch_result h xs c (sc_limit scope) [] False)"
      by (simp add: jira_page_def jget_or_def int_of_json_def page_fetch_result_def xs py_slice_map cursor_offset_def Let_def)
    moreover have "request_with_retry ''jira'' m True (paging_server issues (jira_payload cfg scope (cursor_offset c)))
        = Inr \<lparr>rr_response = Some ?response, rr_warnings = [], rr_calls = 1, rr_delays = []\<rparr>" for m
      by (simp add: request_with_retry_def retry_loop.simps paging_server_def jira_payload_def jget_def json_int_def)
    ultimately show ?thesis by (simp add: jira_source_def jira_fetch_def paged_def)
  qed
  then have "agree (\<lambda>_. True) scope (jira_source h cfg (paging_server issues) :: 'a fetcher) (paged h xs [] False)"
    by (simp add: agree_def)
  from one fetch_all_agree [OF this] show ?thesis by blast
qed

definition stuck_at :: "('w fetcher) \<Rightarrow> source_scope \<Rightarrow> sync_cursor \<Rightarrow> bool" where
  "stuck_at f scope c = (\<forall>w. \<exists>page. f scope (Some c) w = (w, Inr page) \<and> fr_next_cursor page = Some c)"

lemma stuck_never_returns: "stuck_at f scope c \<Longrightarrow> fetch_pages f scope (Some c) acc w = None"
proof (rule ccontr)
  assume "stuck_at f scope c" and "fetch_pages f scope (Some c) acc w \<noteq> None"
  then obtain y where y: "fetch_pages f scope (Some c) acc w = Some y" by blast
  have "Some c = Some c \<longrightarrow> \<not> stuck_at f scope c"
  proof (rule fetch_pages.raw_induct [where P = "\<lambda>f s cursor acc w y. cursor = Some c \<longrightarrow> \<not> stuck_at f s c", OF _ y])
    fix fp and f :: "'a fetcher" and s cursor acc w y
    assume step: "\<And>f s cursor acc w y. fp f s cursor acc w = Some y \<Longrightarrow> cursor = Some c \<longrightarrow> \<not> stuck_at f s c"
      and run: "(case cursor of None \<Rightarrow> Some (w, Inr acc)
        | Some c \<Rightarrow> (case f s (Some c) w of (w', r) \<Rightarrow> (case r of Inl e \<Rightarrow> Some (w', Inl e)
            | Inr page \<Rightarrow> fp f s (fr_next_cursor page) (add_page page acc) w'))) = Some y"
    show "cursor = Some c \<longrightarrow> \<not> stuck_at f s c"
    proof (intro impI notI)
      assume "cursor = Some c" and stuck: "stuck_at f s c"
      then obtain page where "f s (Some c) w = (w, Inr page)" "fr_next_cursor page = Some c" unfolding stuck_at_def by blast
      with run \<open>cursor = Some c\<close> have "fp f s (Some c) (add_page page acc) w = Some y" by simp
      from step [OF this] stuck show False by blast
    qed
  qed
  with \<open>stuck_at f scope c\<close> show False by blast
qed

text \<open>
  Against a server that announces issues and answers an empty page, as one does that counts
  issues the user may not see, collecting the pages never returns: the next cursor is the same again.
\<close>

theorem jira_empty_page_stalls:
  assumes "0 < n" and "\<And>payload k. transport payload k = Response [(''issues'', JList []), (''total'', JInt n)]"
  shows "fetch_all h (jira_source h cfg transport) scope w = None"
proof -
  let ?next = "\<lparr>cu_offset = 0, cu_content_hash = Some (raws_hash h [])\<rparr>"
  have page: "\<exists>page. jira_source h cfg transport scope c v = (v, Inr page) \<and> fr_next_cursor page = Some ?next"
    if "cursor_offset c = 0" for c and v :: 'a
    using assms(1) that
    by (simp add: jira_source_def jira_fetch_def request_with_retry_def retry_loop.simps assms(2) jira_page_def jget_or_def
        int_of_json_def Let_def)
  obtain first where first: "jira_source h cfg transport scope None w = (w, Inr first)" "fr_next_cursor first = Some ?next"
    using page [of None w] by (auto simp: cursor_offset_def)
  have "stuck_at (jira_source h cfg transport :: 'a fetcher) scope ?next"
    unfolding stuck_at_def using page [of "Some ?next"] by (auto simp: cursor_offset_def)
  then have "fetch_pages (jira_source h cfg transport) scope (Some ?next) acc v = None" for acc and v :: 'a
    by (rule stuck_never_returns)
  then show ?thesis by (simp add: fetch_all_def first)
qed

end
