(* ===== verification/PyText.thy ===== *)
theory PyText
  imports PyString
begin

text \<open>
  Methods of \<open>str\<close> on whole texts: splitting into words and lines, replacement, partition; and
  \<open>sorted\<close> of a set of strings.
\<close>

fun py_words :: "string \<Rightarrow> string \<Rightarrow> string list" where
  \<comment> \<open>\<open>split()\<close> behind a word read so far\<close>
  "py_words w [] = (if w = [] then [] else [w])"
| "py_words w (c # s) = (if is_space_char c then (if w = [] then [] else [w]) @ py_words [] s else py_words (w @ [c]) s)"

function py_replace :: "string \<Rightarrow> string \<Rightarrow> string \<Rightarrow> string" where
  \<comment> \<open>\<open>s.replace(old, new)\<close> for a non-empty \<open>old\<close>\<close>
  "py_replace old new [] = []"
| "py_replace old new (c # s) =
     (if old \<noteq> [] \<and> prefix old (c # s) then new @ py_replace old new (drop (length old) (c # s))
      else c # py_replace old new s)"
  by pat_completeness auto
termination
  by (relation "measure (\<lambda>(old, new, s). length s)") auto

fun py_splitlines :: "string \<Rightarrow> string list" where
  \<comment> \<open>on a text that was read with universal newlines\<close>
  "py_splitlines [] = []"
| "py_splitlines (c # s) = (if cp c \<in> {10, 11, 12, 13, 28, 29, 30, 133} then [] # py_splitlines s
     else case py_splitlines s of [] \<Rightarrow> [[c]] | w # ws \<Rightarrow> (c # w) # ws)"

definition py_partition :: "char \<Rightarrow> string \<Rightarrow> (string \<times> string) option" where
  \<comment> \<open>\<open>partition\<close> at the first separator, \<open>None\<close> where there is none\<close>
  "py_partition d s = (if d \<in> set s then Some (takeWhile (\<lambda>c. c \<noteq> d) s, tl (dropWhile (\<lambda>c. c \<noteq> d) s)) else None)"

definition py_rstrip :: "string \<Rightarrow> string" where
  "py_rstrip s = rev (dropWhile is_space_char (rev s))"

definition py_strip_of :: "char \<Rightarrow> string \<Rightarrow> string" where
  "py_strip_of d s = rev (dropWhile (\<lambda>c. c = d) (rev (dropWhile (\<lambda>c. c = d) s)))"

definition sorted_set :: "string list \<Rightarrow> string list" where
  "sorted_set xs = sort (remdups xs)"

definition sorted_counts :: "string list \<Rightarrow> (string \<times> nat) list" where
  \<comment> \<open>\<open>dict(sorted(Counter(xs).items()))\<close>\<close>
  "sorted_counts xs = map (\<lambda>k. (k, count_list xs k)) (sorted_set xs)"

lemma set_sorted_set [simp]: "set (sorted_set xs) = set xs"
  by (simp add: sorted_set_def)

lemma sorted_set_sorted [simp]: "sorted (sorted_set xs)" "distinct (sorted_set xs)"
  by (simp_all add: sorted_set_def)

lemma sorted_set_cong: "set xs = set ys \<Longrightarrow> sorted_set xs = sorted_set ys"
  by (rule sorted_distinct_set_unique) simp_all

lemma sorted_set_Nil_iff [simp]: "sorted_set xs = [] \<longleftrightarrow> xs = []"
  by (metis set_empty set_sorted_set)

lemma sorted_counts_sum: "sum_list (map snd (sorted_counts xs)) = length xs"
proof -
  have "sum_list (map (count_list xs) (sorted_set xs)) = sum (count_list xs) (set xs)"
    by (simp add: sum_list_distinct_conv_sum_set)
  also have "\<dots> = length xs" by (simp add: sum_count_set)
  finally show ?thesis by (simp add: sorted_counts_def comp_def)
qed

lemma sorted_counts_fst [simp]: "map fst (sorted_counts xs) = sorted_set xs"
  by (simp add: sorted_counts_def comp_def)

end
