(* ===== verification/Confluence.thy ===== *)
theory Confluence
  imports Jira Masking PyText
begin

text \<open>
  \<open>adapters/confluence_rest.py\<close>: one page of Confluence content. The regular expressions over the
  storage format run on the engine of the masking component, with the lazy group and the back reference
  to the level of a heading written out. The table of named characters behind \<open>html.unescape\<close> is not
  repeated: that function is an argument. The transport is given the fields of the query before they are
  encoded into the url.
\<close>

section \<open>Text of the storage format\<close>

definition lit :: "char \<Rightarrow> rex" where
  "lit c = Lit (\<lambda>x. x = c)"

definition word_ic :: "string \<Rightarrow> rex" where
  \<comment> \<open>a word under \<open>IGNORECASE\<close>\<close>
  "word_ic = rex_word lower_char"

definition is_level :: "char \<Rightarrow> bool" where
  "is_level c = (CHR ''1'' \<le> c \<and> c \<le> CHR ''6'')"

definition block_end_rex :: rex where
  \<comment> \<open>\<open></(p|div|li|h[1-6]|tr|td|th)>\<close>\<close>
  "block_end_rex = Cat (word_ic ''</'') (Cat
     (Alt (word_ic ''p'') (Alt (word_ic ''div'') (Alt (word_ic ''li'') (Alt (Cat (word_ic ''h'') (Lit is_level))
       (Alt (word_ic ''tr'') (Alt (word_ic ''td'') (word_ic ''th'')))))))
     (lit (CHR ''>'')))"

definition tag_rex :: rex where
  \<comment> \<open>\<open><[^>]+>\<close>\<close>
  "tag_rex = Cat (lit (CHR ''<'')) (Cat (Many1 (\<lambda>c. c \<noteq> CHR ''>'')) (lit (CHR ''>'')))"

definition strip_tags :: "string \<Rightarrow> string" where
  "strip_tags value =
     (let t = py_replace ''<br/>'' [CHR 0x0A] (py_replace ''<br />'' [CHR 0x0A] value);
          t = fst (subn block_end_rex (\<lambda>_. '' '') t)
      in fst (subn tag_rex (\<lambda>_. []) t))"

definition html_to_text :: "(string \<Rightarrow> string) \<Rightarrow> string \<Rightarrow> string" where
  "html_to_text unescape value = py_join '' '' (py_words [] (unescape (strip_tags value)))"

section \<open>Elements\<close>

fun lazy_until :: "rex \<Rightarrow> string \<Rightarrow> (string \<times> string) option" where
  \<comment> \<open>\<open>(.*?)r\<close> with \<open>DOTALL\<close>: the text before the first match and the text behind it\<close>
  "lazy_until r [] = (case matches r [] of rest # _ \<Rightarrow> Some ([], rest) | [] \<Rightarrow> None)"
| "lazy_until r (c # s) = (case matches r (c # s) of
      rest # _ \<Rightarrow> Some ([], rest)
    | [] \<Rightarrow> map_option (\<lambda>(inner, rest). (c # inner, rest)) (lazy_until r s))"

definition tag_tail :: "string \<Rightarrow> string option" where
  \<comment> \<open>\<open>[^>]*>\<close>\<close>
  "tag_tail s = (case dropWhile (\<lambda>c. c \<noteq> CHR ''>'') s of [] \<Rightarrow> None | _ # body \<Rightarrow> Some body)"

definition element_at :: "rex \<Rightarrow> rex \<Rightarrow> string \<Rightarrow> (string \<times> string) option" where
  \<comment> \<open>an opening tag, the text inside and the closing tag; no opening pattern matches in two ways\<close>
  "element_at opening closing s = (case matches opening s of
       [] \<Rightarrow> None
     | rest # _ \<Rightarrow> Option.bind (tag_tail rest) (lazy_until closing))"

definition heading_at :: "string \<Rightarrow> ((nat \<times> string) \<times> string) option" where
  \<comment> \<open>\<open><h([1-6])[^>]*>(.*?)</h\1>\<close>\<close>
  "heading_at s = (case matches (word_ic ''<h'') s of
       (d # t) # _ \<Rightarrow> if is_level d
         then map_option (\<lambda>(inner, rest). ((cp d - 48, inner), rest))
           (Option.bind (tag_tail t) (lazy_until (Cat (word_ic ''</h'') (Cat (lit d) (lit (CHR ''>''))))))
         else None
     | _ \<Rightarrow> None)"

function find_all :: "(string \<Rightarrow> ('x \<times> string) option) \<Rightarrow> string \<Rightarrow> 'x list" where
  \<comment> \<open>\<open>finditer\<close> for a pattern that matches no empty text\<close>
  "find_all at_start [] = []"
| "find_all at_start (c # s) = (case at_start (c # s) of
      None \<Rightarrow> find_all at_start s
    | Some (x, rest) \<Rightarrow> if length rest \<le> length s then x # find_all at_start rest else find_all at_start s)"
  by pat_completeness auto
termination
  by (relation "measure (\<lambda>(at_start, s). length s)") auto

section \<open>Sections\<close>

definition heading_step :: "string option list \<times> string list \<Rightarrow> nat \<times> string \<Rightarrow> string option list \<times> string list" where
  "heading_step st h = (case (st, h) of ((headings, paths), (level, heading)) \<Rightarrow>
     if heading = [] then (headings, paths)
     else let hs = headings[level - 1 := Some heading];
              hs = take level hs @ replicate (length hs - level) None
          in (hs, paths @ [py_join '' > '' (filter (\<lambda>t. t \<noteq> []) (List.map_filter id hs))]))"

definition page_headings :: "(string \<Rightarrow> string) \<Rightarrow> string \<Rightarrow> (nat \<times> string) list" where
  "page_headings unescape value = map (\<lambda>(level, inner). (level, html_to_text unescape inner)) (find_all heading_at value)"

definition extract_section_paths :: "(string \<Rightarrow> string) \<Rightarrow> string \<Rightarrow> string list" where
  "extract_section_paths unescape value = snd (foldl heading_step (replicate 6 None, []) (page_headings unescape value))"

definition section_at_end :: "string list \<Rightarrow> string option" where
  "section_at_end paths = (if paths = [] then None else Some (last paths))"

section \<open>Tables\<close>

definition table_at :: "string \<Rightarrow> (string \<times> string) option" where
  "table_at = element_at (word_ic ''<table'') (word_ic ''</table>'')"

definition row_at :: "string \<Rightarrow> (string \<times> string) option" where
  "row_at = element_at (word_ic ''<tr'') (word_ic ''</tr>'')"

definition cell_at :: "string \<Rightarrow> (string \<times> string) option" where
  "cell_at = element_at (Cat (word_ic ''<t'') (Alt (word_ic ''d'') (word_ic ''h'')))
     (Cat (word_ic ''</t'') (Cat (Alt (word_ic ''d'') (word_ic ''h'')) (lit (CHR ''>''))))"

definition table_cell :: "string option \<Rightarrow> nat \<Rightarrow> nat \<Rightarrow> nat \<Rightarrow> string \<Rightarrow> json option" where
  "table_cell section_path t r c cell_text = (if cell_text = [] then None
     else Some (JObj [(''table_index'', JInt (int t)), (''row_index'', JInt (int r)), (''column_index'', JInt (int c)),
       (''section_path'', jopt section_path), (''text_preview'', JStr (take 120 cell_text))]))"

definition extract_table_cells :: "(string \<Rightarrow> string) \<Rightarrow> string option \<Rightarrow> string \<Rightarrow> json list" where
  "extract_table_cells unescape section_path value =
     concat (map (\<lambda>(t, table). concat (map (\<lambda>(r, row).
         List.map_filter (\<lambda>(c, cell). table_cell section_path t r c (html_to_text unescape cell))
           (enumerate 0 (find_all cell_at row)))
       (enumerate 0 (find_all row_at table))))
     (enumerate 0 (find_all table_at value)))"

section \<open>Keys of JIRA issues\<close>

definition is_word_char :: "char \<Rightarrow> bool" where
  \<comment> \<open>\<open>\w\<close>: alphanumeric in the sense of \<open>isalnum\<close>, or the underscore\<close>
  "is_word_char c = (is_alnum c \<or> c = CHR ''_'' \<or> cp c \<in> {170, 178, 179, 181, 185, 186, 188, 189, 190}
     \<or> (192 \<le> cp c \<and> cp c \<noteq> 215 \<and> cp c \<noteq> 247))"

definition is_upper :: "char \<Rightarrow> bool" where
  "is_upper c = (65 \<le> cp c \<and> cp c \<le> 90)"

definition is_upnum :: "char \<Rightarrow> bool" where
  "is_upnum c = (is_upper c \<or> is_ascii_digit c)"

definition key_part_rex :: rex where
  "key_part_rex = Cat (lit (CHR ''-'')) (Many1 is_upnum)"

definition key_number_rex :: rex where
  "key_number_rex = Cat (lit (CHR ''-'')) (Many1 is_ascii_digit)"

definition word_end :: "string \<Rightarrow> bool" where
  \<comment> \<open>\<open>\b\<close> behind a word character\<close>
  "word_end s = (case s of [] \<Rightarrow> True | c # _ \<Rightarrow> \<not> is_word_char c)"

function key_tails :: "string \<Rightarrow> string list" where
  \<comment> \<open>\<open>(?:-[A-Z0-9]+)*-\d+\b\<close>: the texts behind its matches, in the order they are tried\<close>
  "key_tails s = concat (map key_tails (filter (\<lambda>r. length r < length s) (matches key_part_rex s)))
     @ filter word_end (matches key_number_rex s)"
  by pat_completeness auto
termination
  by (relation "measure length") auto

definition key_matches :: "string \<Rightarrow> string list" where
  \<comment> \<open>\<open>[A-Z][A-Z0-9]+(?:-[A-Z0-9]+)*-\d+\b\<close>\<close>
  "key_matches s = concat (map key_tails (matches (Cat (Lit is_upper) (Many1 is_upnum)) s))"

function find_keys :: "bool \<Rightarrow> string \<Rightarrow> string list" where
  \<comment> \<open>\<open>findall\<close>; the flag says whether a word character stands before\<close>
  "find_keys w [] = []"
| "find_keys w (c # s) = (case (if w then [] else key_matches (c # s)) of
      [] \<Rightarrow> find_keys (is_word_char c) s
    | rest # _ \<Rightarrow> if length rest \<le> length s
        then take (Suc (length s) - length rest) (c # s) # find_keys True rest else find_keys (is_word_char c) s)"
  by pat_completeness auto
termination
  by (relation "measure (\<lambda>(w, s). length s)") (auto split: if_splits)

definition extract_jira_keys :: "string \<Rightarrow> string list" where
  "extract_jira_keys s = fromkeys (find_keys False s)"

section \<open>A page as an artifact\<close>

definition py_path :: "json \<Rightarrow> string list \<Rightarrow> json result" where
  \<comment> \<open>\<open>v.get(k, {}).get(k', {})...\<close>\<close>
  "py_path v ks = foldl (\<lambda>r k. rbind r (\<lambda>x. py_get_or x k (JObj []))) (Inr v) ks"

definition int_number :: "json \<Rightarrow> int option" where
  "int_number v = (case v of JInt i \<Rightarrow> Some i | _ \<Rightarrow> None)"

definition version_in :: "json \<Rightarrow> string \<Rightarrow> int option result" where
  "version_in page name = rbind (rbind (py_path page [name]) (\<lambda>v. py_get v ''previousVersion'')) (\<lambda>previous.
     Inr (case previous of JObj d \<Rightarrow> int_number (jget d ''number'') | _ \<Rightarrow> None))"

definition previous_version_number :: "json \<Rightarrow> int option result" where
  "previous_version_number page = rbind (version_in page ''history'') (\<lambda>i. case i of
       Some n \<Rightarrow> Inr (Some n) | None \<Rightarrow> version_in page ''version'')"

definition confluence_account_id :: "host \<Rightarrow> json \<Rightarrow> string option" where
  "confluence_account_id h v = (case v of
       JObj d \<Rightarrow> (let a = py_or (py_or (jget d ''accountId'') (jget d ''username'')) (jget d ''displayName'')
          in if a \<noteq> JNull then Some (py_str h a) else None)
     | _ \<Rightarrow> None)"

definition truthy_entries :: "host \<Rightarrow> string \<Rightarrow> json list \<Rightarrow> string list" where
  \<comment> \<open>\<open>[str(x.get(k)) for x in xs if isinstance(x, dict) and x.get(k)]\<close>\<close>
  "truthy_entries h k xs = List.map_filter (\<lambda>x. case x of
       JObj d \<Rightarrow> if truthy (jget d k) then Some (py_str h (jget d k)) else None | _ \<Rightarrow> None) xs"

definition page_metadata :: "json \<Rightarrow> json \<Rightarrow> int option \<Rightarrow> string list \<Rightarrow> string list \<Rightarrow> json list \<Rightarrow> jobj" where
  "page_metadata space_key number previous ancestors paths cells =
     [(''space_key'', space_key), (''version_number'', number)]
     @ (case previous of None \<Rightarrow> [] | Some n \<Rightarrow> [(''previous_version_number'', JInt n)])
     @ [(''ancestor_ids'', jstrs ancestors), (''section_paths'', jstrs paths), (''table_cells'', JList cells)]"

definition page_to_artifact :: "host \<Rightarrow> (string \<Rightarrow> string) \<Rightarrow> string \<Rightarrow> string \<Rightarrow> json \<Rightarrow> raw_source_artifact result" where
  "page_to_artifact h unescape base_url project_key page =
     rbind (py_item page ''id'') (\<lambda>id_value. let page_id = py_str h id_value in
     rbind (py_path page [''version'']) (\<lambda>version.
     rbind (py_path page [''history'']) (\<lambda>history.
     rbind (previous_version_number page) (\<lambda>previous.
     rbind (rbind (py_path page [''body'', ''storage'']) (\<lambda>s. py_get_or s ''value'' (JStr []))) (\<lambda>storage.
     let storage_html = py_str h storage; body_text = html_to_text unescape storage_html;
         paths = extract_section_paths unescape storage_html;
         cells = extract_table_cells unescape (section_at_end paths) storage_html in
     rbind (rbind (rbind (py_path page [''metadata'', ''labels'']) (\<lambda>l. py_get_or l ''results'' (JList []))) py_iter) (\<lambda>labels.
     rbind (rbind (py_get_or page ''ancestors'' (JList [])) py_iter) (\<lambda>ancestor_values.
     let ancestors = truthy_entries h ''id'' ancestor_values in
     rbind (py_get page ''title'') (\<lambda>title_value. let title = py_str h (py_or title_value (JStr page_id)) in
     rbind (py_get history ''createdBy'') (\<lambda>created_by.
     rbind (py_get history ''createdDate'') (\<lambda>created_date.
     rbind (if truthy created_date then Inr created_date else py_item version ''when'') (\<lambda>created.
     rbind (py_item version ''when'') (\<lambda>updated.
     rbind (rbind (py_path page [''space'']) (\<lambda>s. py_get s ''key'')) (\<lambda>space_key.
     rbind (py_get version ''number'') (\<lambda>number.
     Inr \<lparr>ra_external_id = page_id, ra_source_type = Confluence, ra_source_url = base_url @ ''/wiki/pages/'' @ page_id,
       ra_project_key = project_key, ra_title = title, ra_body_text = str_or body_text title,
       ra_author_id = confluence_account_id h created_by, ra_created_at = py_str h created, ra_updated_at = py_str h updated,
       ra_labels = truthy_entries h ''name'' labels, ra_links = extract_jira_keys body_text,
       ra_parent_id = (if ancestors = [] then None else Some (last ancestors)), ra_child_ids = [],
       ra_metadata = page_metadata space_key number previous ancestors paths cells,
       ra_access_scope = [project_key, py_str h (py_or space_key (JStr []))], ra_data_classification = Public_Internal\<rparr>))))))))))))))"

section \<open>Fetching\<close>

record confluence_config =
  cc_base_url :: string
  cc_space_key :: string
  cc_cql :: "string option"
  cc_max_retries :: int

definition new_confluence :: "string \<Rightarrow> string \<Rightarrow> string \<Rightarrow> bool \<Rightarrow> string option \<Rightarrow> int \<Rightarrow> confluence_config result" where
  "new_confluence base_url token space_key has_transport cql max_retries =
     (if base_url = [] then Inl (ValueError ''confluence base_url is required'')
      else if space_key = [] then Inl (ValueError ''confluence space_key is required'')
      else if token = [] \<and> \<not> has_transport
      then Inl (ValueError ''confluence token is required when transport is not provided'')
      else Inr \<lparr>cc_base_url = rev (dropWhile (\<lambda>c. c = CHR ''/'') (rev base_url)), cc_space_key = space_key,
        cc_cql = cql, cc_max_retries = max_retries\<rparr>)"

definition confluence_query :: "confluence_config \<Rightarrow> source_scope \<Rightarrow> int \<Rightarrow> jobj" where
  "confluence_query cfg scope offset = [
     (''cql'', JStr (opt_str_or (cc_cql cfg)
        (''space = '' @ [CHR 0x22] @ cc_space_key cfg @ [CHR 0x22] @ '' and type = page order by lastmodified asc''))),
     (''start'', JInt offset), (''limit'', JInt (sc_limit scope)),
     (''expand'', JStr ''body.storage,version,history,ancestors,metadata.labels'')]"

definition page_skip_warning :: "host \<Rightarrow> json \<Rightarrow> string \<Rightarrow> string" where
  "page_skip_warning h page name = ''confluence_page_skipped:''
     @ py_str h (case page of JObj d \<Rightarrow> jget_or d ''id'' (JStr ''unknown'') | _ \<Rightarrow> JStr ''unknown'') @ '':'' @ name"

definition confluence_page :: "host \<Rightarrow> (string \<Rightarrow> string) \<Rightarrow> confluence_config \<Rightarrow> source_scope \<Rightarrow> int \<Rightarrow> jobj \<Rightarrow> string list \<Rightarrow>
    source_fetch_result result" where
  \<comment> \<open>what is made of a response\<close>
  "confluence_page h unescape cfg scope offset response request_warnings =
     (case jget_or response ''results'' (JList []) of
        JList results \<Rightarrow>
          rbind (convert_items (page_to_artifact h unescape (cc_base_url cfg) (sc_project_key scope)) (page_skip_warning h) results)
            (\<lambda>(artifacts, skipped).
          rbind (int_of_json (jget_or response ''size'' (JInt (int (length results))))) (\<lambda>size.
          rbind (int_of_json (jget_or response ''totalSize'' (JInt (offset + size)))) (\<lambda>total.
          let next_offset = offset + size; warnings = request_warnings @ skipped in
          if next_offset < total \<and> next_offset < 0 then bad ''greater_than_equal'' else
          Inr \<lparr>fr_artifacts = artifacts,
            fr_next_cursor = (if next_offset < total
              then Some \<lparr>cu_offset = next_offset, cu_content_hash = Some (raws_hash h artifacts)\<rparr> else None),
            fr_initial_cursor = None, fr_completed_cursor = None, fr_page_count = 1,
            fr_source_warnings = warnings, fr_partial_failure = (warnings \<noteq> [])\<rparr>)))
      | _ \<Rightarrow> Inr (failed_page (request_warnings @ [''confluence_response_results_not_list''])))"

definition confluence_fetch :: "host \<Rightarrow> (string \<Rightarrow> string) \<Rightarrow> confluence_config \<Rightarrow> transport \<Rightarrow> source_scope \<Rightarrow> sync_cursor option \<Rightarrow>
    source_fetch_result result" where
  \<comment> \<open>\<open>fetch_incremental\<close>\<close>
  "confluence_fetch h unescape cfg transport scope cursor =
     (let offset = cursor_offset cursor in
      rbind (request_with_retry ''confluence'' (cc_max_retries cfg) True (transport (confluence_query cfg scope offset))) (\<lambda>r.
      case rr_response r of
        None \<Rightarrow> Inr (failed_page (rr_warnings r))
      | Some response \<Rightarrow> confluence_page h unescape cfg scope offset response (rr_warnings r)))"

definition confluence_source :: "host \<Rightarrow> (string \<Rightarrow> string) \<Rightarrow> confluence_config \<Rightarrow> transport \<Rightarrow> 'w fetcher" where
  "confluence_source h unescape cfg transport scope cursor w = (w, confluence_fetch h unescape cfg transport scope cursor)"

section \<open>Plain text\<close>

lemma py_words_plain:
  assumes "\<not> list_ex is_space_char w" and "x \<in> set (py_words w s)"
  shows "x \<noteq> [] \<and> \<not> list_ex is_space_char x"
  using assms
proof (induction s arbitrary: w)
  case (Cons c s)
  show ?case
  proof (cases "is_space_char c")
    case True
    with Cons.prems Cons.IH [of "[]"] show ?thesis by (auto split: if_splits)
  next
    case False
    with Cons.prems Cons.IH [of "w @ [c]"] show ?thesis by auto
  qed
qed (auto split: if_splits)

lemma tag_lang: "lang tag_rex = {w. \<exists>u. u \<noteq> [] \<and> CHR ''>'' \<notin> set u \<and> w = CHR ''<'' # u @ [CHR ''>'']}"
  by (auto simp: tag_rex_def lit_def list_all_iff)

lemma tag_ahead_free: "ahead_free tag_rex"
  by (simp add: tag_rex_def lit_def)

lemma tag_matches: "matches tag_rex (CHR ''<'' # s) = [] \<longleftrightarrow> s = [] \<or> hd s = CHR ''>'' \<or> CHR ''>'' \<notin> set s"
proof -
  have "matches tag_rex (CHR ''<'' # s) \<noteq> [] \<longleftrightarrow> (\<exists>u. u \<noteq> [] \<and> CHR ''>'' \<notin> set u \<and> prefix (u @ [CHR ''>'']) s)"
    unfolding matches_ne_lang [OF tag_ahead_free] tag_lang by auto
  also have "\<dots> \<longleftrightarrow> s \<noteq> [] \<and> hd s \<noteq> CHR ''>'' \<and> CHR ''>'' \<in> set s"
  proof
    assume "\<exists>u. u \<noteq> [] \<and> CHR ''>'' \<notin> set u \<and> prefix (u @ [CHR ''>'']) s"
    then obtain u v where "u \<noteq> []" "CHR ''>'' \<notin> set u" "s = u @ CHR ''>'' # v" by (auto simp: prefix_def)
    then show "s \<noteq> [] \<and> hd s \<noteq> CHR ''>'' \<and> CHR ''>'' \<in> set s" by (cases u) auto
  next
    assume s: "s \<noteq> [] \<and> hd s \<noteq> CHR ''>'' \<and> CHR ''>'' \<in> set s"
    then obtain u v where uv: "s = u @ CHR ''>'' # v" "CHR ''>'' \<notin> set u" by (meson split_list_first)
    with s have "u \<noteq> []" by auto
    with uv show "\<exists>u. u \<noteq> [] \<and> CHR ''>'' \<notin> set u \<and> prefix (u @ [CHR ''>'']) s" by (auto simp: prefix_def)
  qed
  finally show ?thesis by auto
qed

lemma tag_matches_other: "c \<noteq> CHR ''<'' \<Longrightarrow> matches tag_rex (c # s) = []"
  using matches_ne_lang [OF tag_ahead_free, of "c # s"] unfolding tag_lang by auto

lemma subn_set:
  assumes "ahead_free r"
  shows "set (fst (subn r (\<lambda>_. []) s)) \<subseteq> set s"
proof (induction s rule: length_induct)
  case (1 s)
  show ?case
  proof (cases s)
    case (Cons c u)
    with 1 have kept: "set (fst (subn r (\<lambda>_. []) u)) \<subseteq> set u" by simp
    have dropped: "set (fst (subn r (\<lambda>_. []) rest)) \<subseteq> set (c # u)" if "rest \<in> set (matches r (c # u))" "length rest \<le> length u" for rest
    proof -
      from that(1) obtain w where "c # u = w @ rest" using matches_lang [OF assms] by blast
      then have "set rest \<subseteq> set (c # u)" by auto
      moreover have "set (fst (subn r (\<lambda>_. []) rest)) \<subseteq> set rest" using 1 that(2) Cons by simp
      ultimately show ?thesis by blast
    qed
    show ?thesis
    proof (cases "matches r (c # u)")
      case Nil
      with kept Cons show ?thesis by (auto split: prod.splits)
    next
      case (Cons rest more)
      with kept dropped [of rest] \<open>s = c # u\<close> show ?thesis by (auto split: prod.splits)
    qed
  qed simp
qed

fun tag_free :: "string \<Rightarrow> bool" where
  "tag_free [] = True"
| "tag_free (c # v) = ((c = CHR ''<'' \<longrightarrow> v = [] \<or> hd v = CHR ''>'' \<or> CHR ''>'' \<notin> set v) \<and> tag_free v)"

lemma tag_free_clean:
  assumes "tag_free t"
  shows "clean tag_rex t"
proof -
  have "v = [] \<or> hd v = CHR ''>'' \<or> CHR ''>'' \<notin> set v" if "t = a @ CHR ''<'' # v" for a v
    using that assms by (induction a arbitrary: t) auto
  moreover have "\<exists>a b. t = a @ CHR ''<'' # u @ CHR ''>'' # b" if "sublist (CHR ''<'' # u @ [CHR ''>'']) t" for u
    using that by (auto simp: sublist_def)
  ultimately show ?thesis
    unfolding clean_def tag_lang by (auto simp: Cons_eq_append_conv hd_append split: if_splits) (metis hd_append2 in_set_conv_decomp
        list.set_sel(1) append_is_Nil_conv list.distinct(1))
qed

lemma stripped_tag_free: "tag_free (fst (subn tag_rex (\<lambda>_. []) s))"
proof (induction s rule: length_induct)
  case (1 s)
  let ?strip = "\<lambda>s. fst (subn tag_rex (\<lambda>_. []) s)"
  show ?case
  proof (cases s)
    case (Cons c u)
    have short: "tag_free (?strip rest)" if "length rest \<le> length u" for rest
      using 1 that Cons by simp
    have kept: "tag_free (c # ?strip u)" if none: "matches tag_rex (c # u) = []"
    proof (cases "c = CHR ''<''")
      case True
      with none have "u = [] \<or> hd u = CHR ''>'' \<or> CHR ''>'' \<notin> set u" by (simp add: tag_matches)
      then have "?strip u = [] \<or> hd (?strip u) = CHR ''>'' \<or> CHR ''>'' \<notin> set (?strip u)"
      proof (elim disjE)
        assume "hd u = CHR ''>''"
        then show ?thesis by (cases u) (simp_all add: tag_matches_other split: prod.splits)
      qed (use subn_set [OF tag_ahead_free, of u] in auto)
      with short [of u] show ?thesis by simp
    next
      case False
      with short [of u] show ?thesis by simp
    qed
    show ?thesis
    proof (cases "matches tag_rex (c # u)")
      case Nil
      with kept Cons show ?thesis by (auto split: prod.splits)
    next
      case (Cons rest more)
      have "length rest \<le> length u"
        using matches_lang [OF tag_ahead_free, of rest "c # u"] Cons
        unfolding tag_lang by (auto simp: Cons_eq_append_conv)
      with short [of rest] Cons \<open>s = c # u\<close> show ?thesis by (auto split: prod.splits)
    qed
  qed simp
qed

text \<open>
  The text taken from a page is plain: before the character references are resolved no
  markup is left, that is, no less-than sign with text and a greater-than sign behind it, whatever the
  page holds; and the result is words without white space, joined by single blanks.
\<close>

theorem html_text_plain:
  "clean tag_rex (strip_tags value)
   \<and> (\<exists>ws. html_to_text unescape value = py_join '' '' ws \<and> (\<forall>w\<in>set ws. w \<noteq> [] \<and> \<not> list_ex is_space_char w))"
proof
  show "clean tag_rex (strip_tags value)"
    unfolding strip_tags_def Let_def by (rule tag_free_clean [OF stripped_tag_free])
  show "\<exists>ws. html_to_text unescape value = py_join '' '' ws \<and> (\<forall>w\<in>set ws. w \<noteq> [] \<and> \<not> list_ex is_space_char w)"
    using py_words_plain [of "[]" _ "unescape (strip_tags value)"] unfolding html_to_text_def by auto
qed

section \<open>Sections and their paths\<close>

fun open_headings :: "(nat \<times> string) list \<Rightarrow> (nat \<times> string) list" where
  \<comment> \<open>the headings with only deeper ones behind them\<close>
  "open_headings [] = []"
| "open_headings (h # hs) = (if \<forall>x\<in>set hs. fst h < fst x then [h] else []) @ open_headings hs"

lemma open_headings_snoc: "open_headings (hs @ [h]) = filter (\<lambda>x. fst x < fst h) (open_headings hs) @ [h]"
  by (induction hs) auto

definition marked :: "nat \<Rightarrow> string option list \<Rightarrow> (nat \<times> string) list" where
  \<comment> \<open>the headings set, with their levels\<close>
  "marked k hs = List.map_filter (\<lambda>(i, x). map_option (Pair i) x) (enumerate k hs)"

lemma marked_simps [simp]:
  "marked k [] = []"
  "marked k (None # hs) = marked (Suc k) hs"
  "marked k (Some x # hs) = (k, x) # marked (Suc k) hs"
  by (simp_all add: marked_def List.map_filter_def)

lemma marked_append: "marked k (xs @ ys) = marked k xs @ marked (k + length xs) ys"
proof (induction xs arbitrary: k)
  case (Cons x xs)
  then show ?case by (cases x) simp_all
qed simp

lemma marked_None: "marked k (replicate n None) = []"
  by (induction n arbitrary: k) simp_all

lemma marked_levels: "x \<in> set (marked k hs) \<Longrightarrow> k \<le> fst x \<and> fst x < k + length hs"
proof (induction hs arbitrary: k)
  case (Cons h hs)
  then show ?case by (cases h) (fastforce dest: Cons.IH)+
qed simp

lemma marked_take:
  assumes "n \<le> length hs"
  shows "filter (\<lambda>x. fst x < k + n) (marked k hs) = marked k (take n hs)"
proof -
  have all: "fst x < k + n" if "x \<in> set (marked k (take n hs))" for x
    using marked_levels [OF that] assms by simp
  have none: "k + n \<le> fst x" if "x \<in> set (marked (k + n) (drop n hs))" for x
    using marked_levels [OF that] by simp
  have "marked k hs = marked k (take n hs) @ marked (k + n) (drop n hs)"
    using marked_append [of k "take n hs" "drop n hs"] assms by simp
  then show ?thesis
    using all none by (auto simp: filter_id_conv filter_empty_conv not_less)
qed

lemma marked_texts: "map snd (marked k hs) = List.map_filter id hs"
proof (induction hs arbitrary: k)
  case (Cons h hs)
  then show ?case by (cases h) (simp_all add: List.map_filter_def)
qed (simp add: List.map_filter_def)

definition heading_path :: "(nat \<times> string) list \<Rightarrow> string" where
  "heading_path hs = py_join '' > '' (map snd (open_headings hs))"

definition spoken :: "(nat \<times> string) list \<Rightarrow> (nat \<times> string) list" where
  "spoken hs = filter (\<lambda>(_, x). x \<noteq> []) hs"

definition leveled :: "(nat \<times> string) list \<Rightarrow> bool" where
  "leveled hs = (\<forall>(l, _)\<in>set hs. 1 \<le> l \<and> l \<le> 6)"

lemma heading_step_open:
  assumes "1 \<le> l" "l \<le> 6" and "x \<noteq> []" and "length hs = 6" and "marked 1 hs = open_headings seen"
    and "\<forall>y\<in>set seen. snd y \<noteq> []"
  shows "\<exists>hs'. heading_step (hs, paths) (l, x) = (hs', paths @ [heading_path (seen @ [(l, x)])])
     \<and> length hs' = 6 \<and> marked 1 hs' = open_headings (seen @ [(l, x)])"
proof -
  define hs' where "hs' = take l (hs[l - 1 := Some x]) @ replicate (length hs - l) None"
  have "take l (hs[l - 1 := Some x]) = take (l - 1) hs @ [Some x]"
    using assms(1,2,4) take_Suc_conv_app_nth [of "l - 1" "hs[l - 1 := Some x]"] by (simp add: take_update_cancel)
  then have m: "marked 1 hs' = open_headings (seen @ [(l, x)])"
    using assms(1,2,4) marked_take [of "l - 1" hs 1] assms(5)
    by (simp add: hs'_def marked_append marked_None open_headings_snoc min_def)
  have "set (open_headings ys) \<subseteq> set ys" for ys :: "(nat \<times> string) list" by (induction ys) auto
  then have "\<forall>y\<in>set (open_headings (seen @ [(l, x)])). snd y \<noteq> []" using assms(3,6) by fastforce
  then have "filter (\<lambda>t. t \<noteq> []) (List.map_filter id hs') = map snd (open_headings (seen @ [(l, x)]))"
    unfolding marked_texts [of 1, symmetric] m by (auto simp: filter_id_conv)
  moreover have "length hs' = 6" using assms(2,4) by (simp add: hs'_def)
  moreover have "heading_step (hs, paths) (l, x) = (hs', paths @ [py_join '' > '' (filter (\<lambda>t. t \<noteq> []) (List.map_filter id hs'))])"
    using assms(3,4) by (simp add: heading_step_def hs'_def Let_def)
  ultimately show ?thesis using m by (simp add: heading_path_def)
qed

lemma headings_fold:
  assumes "leveled hs"
  shows "\<exists>m. foldl heading_step (replicate 6 None, []) hs
      = (m, map (\<lambda>n. heading_path (take (Suc n) (spoken hs))) [0..<length (spoken hs)])
    \<and> length m = 6 \<and> marked 1 m = open_headings (spoken hs)"
  using assms
proof (induction hs rule: rev_induct)
  case Nil
  have "marked 1 (replicate 6 None) = []" by (rule marked_None)
  then show ?case by (simp add: spoken_def)
next
  case (snoc h hs)
  obtain l x where h: "h = (l, x)" by fastforce
  from snoc obtain m where m: "foldl heading_step (replicate 6 None, []) hs
      = (m, map (\<lambda>n. heading_path (take (Suc n) (spoken hs))) [0..<length (spoken hs)])"
    "length m = 6" "marked 1 m = open_headings (spoken hs)"
    by (auto simp: leveled_def)
  show ?case
  proof (cases "x = []")
    case True
    then have "spoken (hs @ [h]) = spoken hs" using h by (simp add: spoken_def)
    moreover have "heading_step (m, ps) h = (m, ps)" for ps using True h by (simp add: heading_step_def)
    ultimately show ?thesis using m by simp
  next
    case False
    have lv: "1 \<le> l" "l \<le> 6" using snoc.prems h by (auto simp: leveled_def)
    have said: "\<forall>y\<in>set (spoken hs). snd y \<noteq> []" by (auto simp: spoken_def)
    have new: "spoken (hs @ [h]) = spoken hs @ [(l, x)]" using False h by (simp add: spoken_def)
    let ?paths = "\<lambda>hs. map (\<lambda>n. heading_path (take (Suc n) hs)) [0..<length hs]"
    from heading_step_open [OF lv False m(2,3) said] obtain m' where
      m': "heading_step (m, ?paths (spoken hs)) (l, x) = (m', ?paths (spoken hs) @ [heading_path (spoken hs @ [(l, x)])])"
      "length m' = 6" "marked 1 m' = open_headings (spoken hs @ [(l, x)])" by blast
    have "?paths (spoken hs @ [(l, x)]) = ?paths (spoken hs) @ [heading_path (spoken hs @ [(l, x)])]" by simp
    with m' m(1) h show ?thesis unfolding new by simp
  qed
qed

lemma heading_level: "heading_at s = Some ((l, x), rest) \<Longrightarrow> 1 \<le> l \<and> l \<le> 6"
  by (auto simp: heading_at_def is_level_def cp_def less_eq_char_def split: list.splits if_splits)

lemma find_all_in: "x \<in> set (find_all f s) \<Longrightarrow> \<exists>t rest. f t = Some (x, rest)"
proof (induction f s rule: find_all.induct)
  case (2 f c s)
  show ?case
  proof (cases "f (c # s)")
    case None
    with 2 show ?thesis by simp
  next
    case (Some yr)
    obtain y rest where yr: "yr = (y, rest)" by fastforce
    show ?thesis
    proof (cases "length rest \<le> length s \<and> x \<noteq> y")
      case True
      with 2(2) [OF Some yr [symmetric]] 2(4) Some yr show ?thesis by simp
    next
      case False
      with 2(3) [OF Some yr [symmetric]] 2(4) Some yr show ?thesis by (cases "length rest \<le> length s") auto
    qed
  qed
qed simp

text \<open>
  Property C32. The section paths of a page are those of its outline: there is one for each heading that
  has a text, in the order of the page, and it joins the texts of the headings that are open there,
  which are those up to this one with only deeper headings behind them.
\<close>

theorem section_paths_outline:
  "extract_section_paths unescape value =
     (let hs = filter (\<lambda>(_, x). x \<noteq> []) (page_headings unescape value)
      in map (\<lambda>n. py_join '' > '' (map snd (open_headings (take (Suc n) hs)))) [0..<length hs])"
proof -
  have "leveled (page_headings unescape value)"
    by (auto simp: leveled_def page_headings_def dest!: find_all_in heading_level)
  from headings_fold [OF this] show ?thesis
    by (auto simp: extract_section_paths_def Let_def spoken_def heading_path_def)
qed

section \<open>Keys found\<close>

definition key_shape :: "string \<Rightarrow> bool" where
  \<comment> \<open>an upper case letter and more letters or digits, parts of them behind dashes, a dash and a number\<close>
  "key_shape k = (\<exists>w ps d. k = w @ concat (map ((#) (CHR ''-'')) (ps @ [d]))
     \<and> 2 \<le> length w \<and> is_upper (hd w) \<and> (\<forall>p\<in>set (w # ps). p \<noteq> [] \<and> list_all is_upnum p)
     \<and> d \<noteq> [] \<and> list_all is_ascii_digit d)"

definition key_tail_shape :: "string \<Rightarrow> bool" where
  "key_tail_shape t = (\<exists>ps d. t = concat (map ((#) (CHR ''-'')) (ps @ [d]))
     \<and> (\<forall>p\<in>set ps. p \<noteq> [] \<and> list_all is_upnum p) \<and> d \<noteq> [] \<and> list_all is_ascii_digit d)"

lemma dashed:
  assumes "rest \<in> set (matches (Cat (lit c) (Many1 P)) s)"
  shows "\<exists>w. w \<noteq> [] \<and> list_all P w \<and> s = c # w @ rest"
  using matches_lang [of "Cat (lit c) (Many1 P)" rest s] assms by (auto simp: lit_def)

declare key_tails.simps [simp del]

lemma key_tails_shape: "rest \<in> set (key_tails s) \<Longrightarrow> word_end rest \<and> (\<exists>t. s = t @ rest \<and> key_tail_shape t)"
proof (induction s rule: key_tails.induct)
  case (1 s)
  from 1(2) consider (part) r where "r \<in> set (matches key_part_rex s)" "length r < length s" "rest \<in> set (key_tails r)"
    | (number) "rest \<in> set (matches key_number_rex s)" "word_end rest"
    unfolding key_tails.simps [of s] by auto
  then show ?case
  proof cases
    case part
    with 1(1) [of r] obtain ps d where r: "r = concat (map ((#) (CHR ''-'')) (ps @ [d])) @ rest" "word_end rest"
      "\<forall>p\<in>set ps. p \<noteq> [] \<and> list_all is_upnum p" "d \<noteq> []" "list_all is_ascii_digit d"
      by (auto simp: key_tail_shape_def)
    from part(1) dashed obtain w where w: "w \<noteq> []" "list_all is_upnum w" "s = CHR ''-'' # w @ r"
      unfolding key_part_rex_def by blast
    let ?t = "concat (map ((#) (CHR ''-'')) ((w # ps) @ [d]))"
    have "s = ?t @ rest" using w(3) r(1) by simp
    moreover have "key_tail_shape ?t" unfolding key_tail_shape_def using r(3-5) w(1,2) by (intro exI [of _ "w # ps"] exI [of _ d]) simp
    ultimately show ?thesis using r(2) by blast
  next
    case number
    from number(1) dashed obtain d where d: "d \<noteq> []" "list_all is_ascii_digit d" "s = CHR ''-'' # d @ rest"
      unfolding key_number_rex_def by blast
    have "key_tail_shape (CHR ''-'' # d)" unfolding key_tail_shape_def using d(1,2) by (intro exI [of _ "[]"] exI [of _ d]) simp
    with d(3) number(2) show ?thesis by (intro conjI exI [of _ "CHR ''-'' # d"]) simp_all
  qed
qed

lemma key_matches_shape:
  assumes "rest \<in> set (key_matches s)"
  shows "word_end rest \<and> (\<exists>k. s = k @ rest \<and> key_shape k)"
proof -
  from assms obtain r where r: "r \<in> set (matches (Cat (Lit is_upper) (Many1 is_upnum)) s)" "rest \<in> set (key_tails r)"
    by (auto simp: key_matches_def simp del: matches.simps)
  from key_tails_shape [OF r(2)] obtain t where t: "r = t @ rest" "key_tail_shape t" and "word_end rest" by blast
  have "ahead_free (Cat (Lit is_upper) (Many1 is_upnum))" by simp
  from r(1) [unfolded matches_lang [OF this]] obtain c v where c: "is_upper c" "v \<noteq> []" "list_all is_upnum v" "s = c # v @ r"
    by auto
  from t(2) obtain ps d where ps: "t = concat (map ((#) (CHR ''-'')) (ps @ [d]))"
    "\<forall>p\<in>set ps. p \<noteq> [] \<and> list_all is_upnum p" "d \<noteq> []" "list_all is_ascii_digit d"
    unfolding key_tail_shape_def by blast
  have "key_shape ((c # v) @ t)"
    unfolding key_shape_def
  proof (intro exI conjI)
    show "(c # v) @ t = (c # v) @ concat (map ((#) (CHR ''-'')) (ps @ [d]))" using ps(1) by simp
    show "2 \<le> length (c # v)" using c(2) by (cases v) simp_all
    show "is_upper (hd (c # v))" using c(1) by simp
    show "\<forall>p\<in>set ((c # v) # ps). p \<noteq> [] \<and> list_all is_upnum p" using c(1,3) ps(2) by (simp add: is_upnum_def)
  qed (rule ps)+
  with c(4) t(1) \<open>word_end rest\<close> show ?thesis by (intro conjI exI [of _ "(c # v) @ t"]) simp_all
qed

definition stands_alone :: "bool \<Rightarrow> string \<Rightarrow> string \<Rightarrow> bool" where
  \<comment> \<open>a key of the text with no word character around it\<close>
  "stands_alone w s k = (\<exists>a b. s = a @ k @ b \<and> word_end b \<and> (if a = [] then \<not> w else \<not> is_word_char (last a)))"

lemma stands_alone_Cons:
  assumes "stands_alone (is_word_char c) s k"
  shows "stands_alone w (c # s) k"
proof -
  from assms obtain a b where "s = a @ k @ b" "word_end b" "if a = [] then \<not> is_word_char c else \<not> is_word_char (last a)"
    unfolding stands_alone_def by blast
  then show ?thesis unfolding stands_alone_def by (intro exI [of _ "c # a"] exI [of _ b]) (auto split: if_splits)
qed

lemma stands_alone_behind:
  assumes "stands_alone True rest k"
  shows "stands_alone w (u @ rest) k"
proof -
  from assms obtain a b where "rest = a @ k @ b" "word_end b" "a \<noteq> []" "\<not> is_word_char (last a)"
    unfolding stands_alone_def by (auto split: if_splits)
  then show ?thesis unfolding stands_alone_def by (intro exI [of _ "u @ a"] exI [of _ b]) simp
qed

lemma find_keys_sound: "k \<in> set (find_keys w s) \<Longrightarrow> key_shape k \<and> stands_alone w s k"
proof (induction w s rule: find_keys.induct)
  case (2 w c s)
  let ?ms = "if w then [] else key_matches (c # s)"
  have later: "key_shape k \<and> stands_alone w (c # s) k" if "key_shape k \<and> stands_alone (is_word_char c) s k"
    using that stands_alone_Cons by blast
  show ?case
  proof (cases ?ms)
    case Nil
    with 2 later show ?thesis by simp
  next
    case (Cons rest more)
    then have nw: "\<not> w" and rest: "rest \<in> set (key_matches (c # s))" by (auto split: if_splits)
    from key_matches_shape [OF rest] obtain k' where k': "c # s = k' @ rest" "key_shape k'" "word_end rest" by blast
    show ?thesis
    proof (cases "length rest \<le> length s")
      case False
      with Cons 2 later show ?thesis by simp
    next
      case True
      have cut: "take (Suc (length s) - length rest) (c # s) = k'"
      proof -
        have "length (c # s) = length k' + length rest" using k'(1) by (metis length_append)
        then have "Suc (length s) - length rest = length k'" by simp
        then show ?thesis unfolding k'(1) by simp
      qed
      have "stands_alone w (c # s) k'"
        unfolding stands_alone_def using k' nw by (intro exI [of _ "[]"] exI [of _ rest]) simp
      moreover have "k = k' \<or> k \<in> set (find_keys True rest)" using 2(4) Cons True unfolding find_keys.simps Cons by (simp add: cut)
      moreover have "key_shape k \<and> stands_alone w (c # s) k" if "k \<in> set (find_keys True rest)"
        using 2(2) [OF Cons True that] stands_alone_behind [of rest k w k'] k'(1) by simp
      ultimately show ?thesis using k'(2) by blast
    qed
  qed
qed simp

text \<open>
  Property C38. What a page is linked to are keys of issues that stand in its text: each has the shape of a
  key, occurs with no letter, digit or underscore before or behind it, and is listed once.
\<close>

theorem page_links_are_keys:
  "distinct (extract_jira_keys s)
   \<and> (\<forall>k\<in>set (extract_jira_keys s). key_shape k
      \<and> (\<exists>a b. s = a @ k @ b \<and> word_end b \<and> (a = [] \<or> \<not> is_word_char (last a))))"
proof
  show "distinct (extract_jira_keys s)" by (simp add: extract_jira_keys_def distinct_fromkeys)
  have "key_shape k \<and> stands_alone False s k" if "k \<in> set (extract_jira_keys s)" for k
    using that find_keys_sound [of k False s] by (simp add: extract_jira_keys_def set_fromkeys)
  then show "\<forall>k\<in>set (extract_jira_keys s). key_shape k
      \<and> (\<exists>a b. s = a @ k @ b \<and> word_end b \<and> (a = [] \<or> \<not> is_word_char (last a)))"
    unfolding stands_alone_def by fastforce
qed

section \<open>Paging\<close>

definition content_server :: "json list \<Rightarrow> transport" where
  \<comment> \<open>a server that answers every search with the part of a fixed list it asks for, its size and that of the list\<close>
  "content_server pages query k =
     (let part = py_slice (json_int (jget query ''start'')) (json_int (jget query ''start'') + json_int (jget query ''limit'')) pages
      in Response [(''results'', JList part), (''size'', JInt (int (length part))), (''totalSize'', JInt (int (length pages)))])"

definition plain_cursor :: "sync_cursor option \<Rightarrow> bool" where
  \<comment> \<open>an offset is not negative, as the contract of a cursor demands\<close>
  "plain_cursor c = (0 \<le> cursor_offset c)"

text \<open>
  Over a server that answers each search with the part of its pages asked for, its size and
  their total, and whose pages all convert, the adapter is a paged source of the artifacts: each fetch
  from an offset that is not negative is a page of them with the cursor to the next, and collecting the
  pages is collecting those of that source.
\<close>

theorem confluence_refines_pages:
  assumes "rmap (page_to_artifact h unescape (cc_base_url cfg) (sc_project_key scope)) pages = Inr xs"
    and "0 \<le> cursor_offset cursor"
  shows "confluence_source h unescape cfg (content_server pages) scope cursor w = paged h xs [] False scope cursor w
    \<and> fetch_all h (confluence_source h unescape cfg (content_server pages)) scope w = fetch_all h (paged h xs [] False) scope w"
proof -
  let ?conv = "page_to_artifact h unescape (cc_base_url cfg) (sc_project_key scope)"
  obtain f where xs: "xs = map f pages" and conv: "\<And>x. x \<in> set pages \<Longrightarrow> ?conv x = Inr (f x)"
    using rmap_function [OF assms(1)] by metis
  have one: "confluence_source h unescape cfg (content_server pages) scope c v = paged h xs [] False scope c v"
    if c: "plain_cursor c" for c and v :: 'a
  proof -
    let ?page = "py_slice (cursor_offset c) (cursor_offset c + sc_limit scope) pages"
    let ?response = "[(''results'', JList ?page), (''size'', JInt (int (length ?page))), (''totalSize'', JInt (int (length pages)))]"
    have all: "convert_items ?conv (page_skip_warning h) ?page = Inr (map f ?page, [])"
      using conv set_py_slice [of _ _ pages] by (intro convert_items_all) blast
    have "confluence_page h unescape cfg scope (cursor_offset c) ?response [] = Inr (page_fetch_result h xs c (sc_limit scope) [] False)"
      using c by (simp add: confluence_page_def jget_or_def int_of_json_def page_fetch_result_def xs py_slice_map cursor_offset_def
          Let_def plain_cursor_def all [unfolded cursor_offset_def])
    moreover have "request_with_retry ''confluence'' m True (content_server pages (confluence_query cfg scope (cursor_offset c)))
        = Inr \<lparr>rr_response = Some ?response, rr_warnings = [], rr_calls = 1, rr_delays = []\<rparr>" for m
      by (simp add: request_with_retry_def retry_loop.simps content_server_def confluence_query_def jget_def json_int_def Let_def)
    ultimately show ?thesis by (simp add: confluence_source_def confluence_fetch_def paged_def)
  qed
  have "agree plain_cursor scope (confluence_source h unescape cfg (content_server pages) :: 'a fetcher) (paged h xs [] False)"
    unfolding agree_def
  proof (intro allI impI conjI)
    fix c and v w' :: 'a and page
    assume c: "plain_cursor c" and "confluence_source h unescape cfg (content_server pages) scope c v = (w', Inr page)"
    then have "page = page_fetch_result h xs c (sc_limit scope) [] False" using one [OF c, of v] by (simp add: paged_def)
    with c show "plain_cursor (fr_next_cursor page)"
      by (auto simp: plain_cursor_def page_fetch_result_def cursor_offset_def Let_def split: option.splits)
  qed (rule one)
  from fetch_all_agree [OF this] one [of cursor w] assms(2) show ?thesis
    by (auto simp: plain_cursor_def cursor_offset_def)
qed

end
