(* ===== verification/Jira_Instances.thy ===== *)
theory Jira_Instances
  imports Jira Samples
begin

text \<open>
  A small JIRA page, one issue of which converts and one of which does not, at which the properties of
  the adapter are instantiated.
\<close>

definition demo_issue :: json where
  "demo_issue = JObj [(''key'', JStr ''P-1''), (''fields'', JObj [(''created'', JStr ''t1''), (''updated'', JStr ''t2'')])]"

definition demo_jira :: jira_config where
  "demo_jira = \<lparr>jc_base_url = ''u'', jc_jql = None, jc_max_retries = 1\<rparr>"

definition demo_scope :: source_scope where
  "demo_scope = \<lparr>sc_project_key = ''P'', sc_scenario = ''s'', sc_limit = 2\<rparr>"

definition demo_page :: jobj where
  "demo_page = [(''issues'', JList [demo_issue, JNull]), (''total'', JInt 5)]"

lemma demo_issue_converts: "\<exists>a. issue_to_artifact demo_host ''u'' ''P'' demo_issue = Inr a"
  by (simp add: issue_to_artifact_def demo_issue_def py_item_def py_get_def py_get_or_def py_iter_def jget_or_def Let_def
      issue_links_def comment_refs_def history_refs_def jira_metadata_def named_list_def)

lemma demo_page_outcome:
  "\<exists>r. jira_page demo_host demo_jira demo_scope 0 demo_page [''w''] = Inr r
     \<and> length (fr_artifacts r) = 1 \<and> length (fr_source_warnings r) = 2"
proof -
  obtain a where a: "issue_to_artifact demo_host ''u'' ''P'' demo_issue = Inr a" using demo_issue_converts by blast
  have bad: "issue_to_artifact demo_host ''u'' ''P'' JNull = Inl (PyTypeError ''not subscriptable by a string'')"
    by (simp add: issue_to_artifact_def py_item_def)
  show ?thesis
    by (simp add: jira_page_def demo_page_def jget_or_def demo_jira_def demo_scope_def a bad skipped_as_def int_of_json_def)
qed

lemma jira_page_accounts_witness:
  "\<exists>r. jira_page demo_host demo_jira demo_scope 0 demo_page [''w''] = Inr r
     \<and> length (fr_artifacts r) = 1 \<and> length (fr_source_warnings r) = 2 \<and> fr_partial_failure r"
proof -
  obtain r where r: "jira_page demo_host demo_jira demo_scope 0 demo_page [''w''] = Inr r"
    "length (fr_artifacts r) = 1" "length (fr_source_warnings r) = 2" using demo_page_outcome by blast
  have "jget_or demo_page ''issues'' (JList []) = JList [demo_issue, JNull]" by (simp add: demo_page_def jget_or_def)
  from jira_page_accounts [OF r(1) this] r show ?thesis by auto
qed

lemma jira_refines_pages_witness:
  "\<exists>a. issue_to_artifact demo_host ''u'' ''P'' demo_issue = Inr a
     \<and> fetch_all demo_host (jira_source demo_host demo_jira (paging_server [demo_issue, demo_issue, demo_issue])) demo_scope ()
       = fetch_all demo_host (paged demo_host [a, a, a] [] False) demo_scope ()"
proof -
  obtain a where a: "issue_to_artifact demo_host ''u'' ''P'' demo_issue = Inr a" using demo_issue_converts by blast
  then have "rmap (issue_to_artifact demo_host (jc_base_url demo_jira) (sc_project_key demo_scope)) [demo_issue, demo_issue, demo_issue]
      = Inr [a, a, a]"
    by (simp add: demo_jira_def demo_scope_def)
  from jira_refines_pages [OF this, of None "()"] a show ?thesis by blast
qed

lemma jira_empty_page_stalls_witness:
  "fetch_all demo_host (jira_source demo_host demo_jira (\<lambda>_ _. Response [(''issues'', JList []), (''total'', JInt 3)])) demo_scope () = None"
  by (rule jira_empty_page_stalls [of 3]) simp_all

end
