(* ===== verification/Confluence_Instances.thy ===== *)
theory Confluence_Instances
  imports Confluence Jira_Instances
begin

text \<open>
  A small page of Confluence and a text with one key in it, at which the properties of the adapter are
  instantiated.
\<close>

definition demo_content :: json where
  "demo_content = JObj [(''id'', JStr ''7''), (''title'', JStr ''T''), (''version'', JObj [(''when'', JStr ''t1'')])]"

definition demo_confluence :: confluence_config where
  "demo_confluence = \<lparr>cc_base_url = ''u'', cc_space_key = ''S'', cc_cql = None, cc_max_retries = 1\<rparr>"

lemma demo_content_converts: "\<exists>a. page_to_artifact demo_host (\<lambda>s. s) ''u'' ''P'' demo_content = Inr a"
  by (simp add: page_to_artifact_def demo_content_def py_item_def py_get_def py_get_or_def py_path_def py_iter_def jget_or_def jget_def
      Let_def previous_version_number_def version_in_def)

lemma confluence_refines_pages_witness:
  "\<exists>a. page_to_artifact demo_host (\<lambda>s. s) ''u'' ''P'' demo_content = Inr a
     \<and> fetch_all demo_host (confluence_source demo_host (\<lambda>s. s) demo_confluence (content_server [demo_content, demo_content, demo_content]))
         demo_scope ()
       = fetch_all demo_host (paged demo_host [a, a, a] [] False) demo_scope ()"
proof -
  obtain a where a: "page_to_artifact demo_host (\<lambda>s. s) ''u'' ''P'' demo_content = Inr a" using demo_content_converts by blast
  then have r: "rmap (page_to_artifact demo_host (\<lambda>s. s) (cc_base_url demo_confluence) (sc_project_key demo_scope))
      [demo_content, demo_content, demo_content] = Inr [a, a, a]"
    by (simp add: demo_confluence_def demo_scope_def)
  have "0 \<le> cursor_offset None" by (simp add: cursor_offset_def)
  from confluence_refines_pages [OF r this, of "()"] a show ?thesis by blast
qed

lemma demo_content_keys: "extract_jira_keys ''see AB-12, xAB-3'' = [''AB-12'']"
  by code_simp

lemma page_links_are_keys_witness: "key_shape ''AB-12''"
proof -
  have "''AB-12'' \<in> set (extract_jira_keys ''see AB-12, xAB-3'')" unfolding demo_content_keys by simp
  with page_links_are_keys [of "''see AB-12, xAB-3''"] show ?thesis by blast
qed

end
