(* ===== verification/Readiness.thy ===== *)
theory Readiness
  imports Graph PyText
begin

text \<open>
  \<open>ops/rehearsal/check_production_readiness.py\<close>: the gate in front of a production release. Environment
  variables settle some checks, the local gate commands one, and reviewed evidence from a file the checks
  that only a person can pass. The file is taken as the JSON value it holds; running a command and
  \<open>datetime.fromisoformat\<close> are arguments.
\<close>

section \<open>Checks and evidence\<close>

datatype check_status = CS_Passed | CS_Warning | CS_Failed | CS_Manual_Required

fun check_status_str :: "check_status \<Rightarrow> string" where
  "check_status_str CS_Passed = ''passed''"
| "check_status_str CS_Warning = ''warning''"
| "check_status_str CS_Failed = ''failed''"
| "check_status_str CS_Manual_Required = ''manual_required''"

record readiness_check =
  rc_check_id :: string
  rc_status :: check_status
  rc_summary :: string
  rc_evidence :: "string list"
  rc_next_action :: "string option"

record manual_evidence =
  me_check_id :: string
  me_status :: check_status
  me_summary :: string
  me_evidence :: "string list"

record gate_result =
  gr_command :: string
  gr_returncode :: int
  gr_output_tail :: string

type_synonym environment = "(string, string) dict"

type_synonym gate_executor = "string list \<Rightarrow> int \<times> string"  \<comment> \<open>the return code of a command and what it prints\<close>

definition traceable_prefixes :: "string list" where
  "traceable_prefixes = [
     ''artifact:'', ''approval:'', ''backup:'', ''ci:'', ''github-actions:'', ''grafana:'', ''load:'',
     ''prometheus:'', ''restore:'', ''run:'', ''staging-ci:'']"

definition local_gate_commands :: "string list list" where
  "local_gate_commands = [
     [''uv'', ''run'', ''ruff'', ''check'', ''.''], [''uv'', ''run'', ''mypy'', ''src''],
     [''uv'', ''run'', ''pytest''], [''uv'', ''run'', ''python'', ''ops/security/rehearse_masking_policy.py''],
     [''uv'', ''run'', ''python'', ''ops/security/check_release_blockers.py''],
     [''uv'', ''run'', ''python'', ''ops/source/validate_source_boundaries.py''],
     [''uv'', ''run'', ''python'', ''ops/integration/run_backend_integration.py''],
     [''uv'', ''run'', ''python'', ''ops/source/smoke_source_adapters.py''],
     [''uv'', ''run'', ''python'', ''ops/source/rehearse_skill_export_sources.py''],
     [''uv'', ''run'', ''python'', ''ops/model_gateway/smoke_model_gateway.py''],
     [''uv'', ''run'', ''python'', ''ops/helm/validate_chart.py''],
     [''uv'', ''run'', ''python'', ''ops/observability/validate_observability_assets.py''],
     [''uv'', ''run'', ''python'', ''ops/rehearsal/validate_postgres_migration_rollbacks.py''],
     [''uv'', ''run'', ''python'', ''ops/rehearsal/validate_postgres_typed_mirrors.py''],
     [''uv'', ''run'', ''python'', ''ops/rehearsal/validate_evidence_example.py''],
     [''uv'', ''run'', ''python'', ''ops/rehearsal/build_staging_evidence_plan.py'', ''--format'', ''markdown''],
     [''uv'', ''run'', ''python'', ''ops/rehearsal/build_staging_evidence_plan.py'', ''--env-file'', ''ops/rehearsal/staging.env.example'', ''--format'', ''markdown''],
     [''uv'', ''run'', ''python'', ''ops/rehearsal/build_staging_evidence_plan.py'', ''--env-file'', ''ops/rehearsal/staging.env.example'', ''--evidence-file'', ''ops/rehearsal/production_readiness_evidence.example.json'', ''--format'', ''markdown''],
     [''uv'', ''run'', ''python'', ''ops/rehearsal/validate_release_scope_artifacts.py''],
     [''uv'', ''run'', ''python'', ''ops/rehearsal/check_goal_completion.py'', ''--allow-incomplete''],
     [''uv'', ''run'', ''python'', ''ops/rehearsal/check_goal_completion.py'', ''--allow-incomplete'', ''--env-file'', ''ops/rehearsal/staging.env.example''],
     [''uv'', ''run'', ''python'', ''ops/rehearsal/build_handoff_bundle.py'', ''--allow-incomplete'', ''--env-file'', ''.env.example'', ''--output-dir'', ''.local_artifacts/handoff-bundle''],
     [''uv'', ''run'', ''python'', ''ops/rehearsal/validate_handoff_bundle.py'', ''.local_artifacts/handoff-bundle''],
     [''uv'', ''run'', ''python'', ''ops/rehearsal/build_handoff_bundle.py'', ''--allow-incomplete'', ''--env-file'', ''ops/rehearsal/staging.env.example'', ''--output-dir'', ''.local_artifacts/staging-handoff-bundle''],
     [''uv'', ''run'', ''python'', ''ops/rehearsal/validate_handoff_bundle.py'', ''.local_artifacts/staging-handoff-bundle''],
     [''uv'', ''run'', ''python'', ''ops/rehearsal/build_handoff_bundle.py'', ''--allow-incomplete'', ''--env-file'', ''ops/rehearsal/staging.env.example'', ''--evidence-file'', ''ops/rehearsal/production_readiness_evidence.example.json'', ''--output-dir'', ''.local_artifacts/staging-handoff-bundle-reviewed''],
     [''uv'', ''run'', ''python'', ''ops/rehearsal/validate_handoff_bundle.py'', ''.local_artifacts/staging-handoff-bundle-reviewed''],
     [''uv'', ''run'', ''python'', ''ops/rehearsal/validate_ci_gate_coverage.py''],
     [''uv'', ''run'', ''python'', ''ops/ui/smoke_operator_ui.py''],
     [''uv'', ''run'', ''python'', ''ops/rehearsal/run_full_stack_rehearsal.py''],
     [''uv'', ''run'', ''python'', ''ops/evals/run_feedback_eval_rehearsal.py'']]"

section \<open>The environment\<close>

definition strip_env_quotes :: "string \<Rightarrow> string" where
  "strip_env_quotes value = (if 2 \<le> length value \<and> hd value = last value \<and> hd value \<in> {CHR 0x27, CHR 0x22}
     then butlast (tl value) else value)"

definition env_line :: "string \<Rightarrow> nat \<Rightarrow> string \<Rightarrow> environment \<Rightarrow> environment result" where
  "env_line path line_number line merged =
     (let stripped = py_strip line in
      if stripped = [] \<or> prefix ''#'' stripped then Inr merged
      else let stripped = (if prefix ''export '' stripped then py_strip (py_removeprefix ''export '' stripped) else stripped) in
      if CHR ''='' \<notin> set stripped then Inl (ValueError (path @ '':'' @ str_nat line_number @ '' must be KEY=VALUE''))
      else let key = py_strip (takeWhile (\<lambda>c. c \<noteq> CHR ''='') stripped);
               value = tl (dropWhile (\<lambda>c. c \<noteq> CHR ''='') stripped) in
      if key = [] \<or> list_ex is_space_char key then Inl (ValueError (path @ '':'' @ str_nat line_number @ '' has an invalid env key''))
      else Inr (dset key (strip_env_quotes (py_strip value)) merged))"

fun env_lines :: "string \<Rightarrow> nat \<Rightarrow> string list \<Rightarrow> environment \<Rightarrow> environment result" where
  "env_lines path n [] merged = Inr merged"
| "env_lines path n (line # lines) merged = rbind (env_line path n line merged) (env_lines path (Suc n) lines)"

definition load_env_file :: "string \<Rightarrow> string \<Rightarrow> environment \<Rightarrow> environment result" where
  "load_env_file path content base_env = env_lines path 1 (py_splitlines content) base_env"

definition env_get :: "environment \<Rightarrow> string \<Rightarrow> string" where
  "env_get env key = (case dget env key of None \<Rightarrow> [] | Some v \<Rightarrow> v)"

definition missing_keys :: "environment \<Rightarrow> string list \<Rightarrow> string list" where
  "missing_keys env required = filter (\<lambda>key. env_get env key = []) required"

definition presence_evidence :: "environment \<Rightarrow> string \<Rightarrow> string" where
  "presence_evidence env key = key @ (if env_get env key = [] then ''=<unset>'' else ''=<set>'')"

section \<open>Environment checks\<close>

definition expect_mode :: "environment \<Rightarrow> string \<Rightarrow> string \<Rightarrow> string \<Rightarrow> string list \<Rightarrow> string \<Rightarrow> readiness_check" where
  "expect_mode env check_id mode_key expected_mode required next_action =
     (let actual_mode = env_get env mode_key; missing = missing_keys env required;
          presence = map (presence_evidence env) required in
      if actual_mode = expected_mode \<and> missing = []
      then \<lparr>rc_check_id = check_id, rc_status = CS_Passed,
        rc_summary = mode_key @ '' is configured for '' @ expected_mode @ ''.'',
        rc_evidence = (mode_key @ ''='' @ actual_mode) # presence, rc_next_action = None\<rparr>
      else \<lparr>rc_check_id = check_id, rc_status = CS_Failed,
        rc_summary = mode_key @ '' must be '' @ expected_mode @ ''; missing keys: ''
          @ str_or (py_join '', '' missing) ''none'' @ ''.'',
        rc_evidence = (mode_key @ ''='' @ str_or actual_mode ''<unset>'') # presence, rc_next_action = Some next_action\<rparr>)"

definition expect_keys :: "environment \<Rightarrow> string \<Rightarrow> string list \<Rightarrow> string \<Rightarrow> readiness_check" where
  "expect_keys env check_id required next_action =
     (let missing = missing_keys env required in
      \<lparr>rc_check_id = check_id, rc_status = (if missing = [] then CS_Passed else CS_Failed),
       rc_summary = (if missing = [] then ''Required environment keys are present.''
         else ''Missing keys: '' @ py_join '', '' missing @ ''.''),
       rc_evidence = map (presence_evidence env) required,
       rc_next_action = (if missing = [] then None else Some next_action)\<rparr>)"

definition environment_checks :: "environment \<Rightarrow> readiness_check list" where
  "environment_checks env = [
     expect_mode env ''postgres_state_store'' ''STATE_STORE'' ''postgres'' [''POSTGRES_DSN'']
       ''Set STATE_STORE=postgres and POSTGRES_DSN to the company/staging database.'',
     expect_mode env ''neo4j_graph_backend'' ''GRAPH_BACKEND'' ''neo4j'' [''NEO4J_URI'', ''NEO4J_USERNAME'', ''NEO4J_PASSWORD'']
       ''Set GRAPH_BACKEND=neo4j and Neo4j connection variables.'',
     expect_mode env ''qdrant_vector_backend'' ''VECTOR_BACKEND'' ''qdrant'' [''QDRANT_URL'', ''QDRANT_COLLECTION'']
       ''Set VECTOR_BACKEND=qdrant and Qdrant connection variables.'',
     expect_mode env ''model_gateway_profile'' ''MODEL_GATEWAY_MODE'' ''http_json'' [''MODEL_GATEWAY_ENDPOINT_URL'']
       ''Configure a non-dummy model gateway profile and endpoint.'',
     expect_mode env ''trusted_proxy_auth'' ''AUTH_MODE'' ''trusted_proxy'' [''TRUSTED_PROXY_SECRET'', ''TRUSTED_GROUP_ROLE_MAP'']
       ''Run behind the company SSO/OIDC reverse proxy in trusted_proxy mode.'',
     expect_keys env ''artifact_storage'' [''ARTIFACT_ROOT''] ''Set ARTIFACT_ROOT to a backed-up server path.'',
     expect_mode env ''opentelemetry_export'' ''OTEL_ENABLED'' ''true'' [''OTEL_EXPORTER_OTLP_ENDPOINT'']
       ''Set OTEL_ENABLED=true and OTEL_EXPORTER_OTLP_ENDPOINT to the company-approved collector.'']"

section \<open>Company rehearsals\<close>

definition external_rehearsal_check :: "environment \<Rightarrow> string \<Rightarrow> string list \<Rightarrow> string \<Rightarrow> readiness_check" where
  "external_rehearsal_check env check_id ks next_action =
     \<lparr>rc_check_id = check_id, rc_status = CS_Manual_Required,
      rc_summary = (if \<exists>key\<in>set ks. env_get env key \<noteq> []
        then ''Endpoint configuration exists, but a real rehearsal result is still required.''
        else ''No company/staging endpoint configuration was found.''),
      rc_evidence = map (presence_evidence env) ks, rc_next_action = Some next_action\<rparr>"

definition deployment_target :: "environment \<Rightarrow> string" where
  "deployment_target env = py_lower (env_get env ''DEPLOYMENT_TARGET'')"

definition kubernetes_selected :: "environment \<Rightarrow> bool" where
  "kubernetes_selected env = (deployment_target env = ''kubernetes''
     \<or> py_lower (env_get env ''KUBERNETES_DEPLOYMENT'') \<in> {''1'', ''true'', ''yes''})"

definition kubernetes_helm_rehearsal_check :: "environment \<Rightarrow> readiness_check" where
  "kubernetes_helm_rehearsal_check env =
     (if \<not> kubernetes_selected env
      then \<lparr>rc_check_id = ''kubernetes_helm_rehearsal'', rc_status = CS_Passed,
        rc_summary = ''Kubernetes deployment is not selected; Ubuntu runbook remains primary.'',
        rc_evidence = [''DEPLOYMENT_TARGET='' @ str_or (deployment_target env) ''<unset>'',
          presence_evidence env ''KUBERNETES_DEPLOYMENT''], rc_next_action = None\<rparr>
      else \<lparr>rc_check_id = ''kubernetes_helm_rehearsal'', rc_status = CS_Manual_Required,
        rc_summary = ''Kubernetes deployment is selected, but Helm lint/template evidence is required.'',
        rc_evidence = [''DEPLOYMENT_TARGET='' @ str_or (deployment_target env) ''<unset>'',
          presence_evidence env ''KUBERNETES_DEPLOYMENT'', presence_evidence env ''HELM_RELEASE_EVIDENCE''],
        rc_next_action = Some ''Run helm lint and helm template against company values, then attach the reviewed output reference as manual evidence.''\<rparr>)"

definition email_policy_check :: "environment \<Rightarrow> readiness_check" where
  "email_policy_check env =
     \<lparr>rc_check_id = ''company_email_policy_rehearsal'', rc_status = CS_Manual_Required,
      rc_summary = ''Email ingestion remains policy-gated and must be validated with approved exported decision artifacts or a limited mailbox scope.'',
      rc_evidence = [presence_evidence env ''RUNE_EMAIL_EXPORT_PATH'',
        ''AI write-back to Email is intentionally out of scope for the first production release.''],
      rc_next_action = Some ''Run ops/source/rehearse_decision_email_export.py against an approved decision archive or restricted Email export path.''\<rparr>"

definition backup_restore_load_check :: "environment \<Rightarrow> readiness_check" where
  "backup_restore_load_check env =
     \<lparr>rc_check_id = ''backup_restore_load_rehearsal'', rc_status = CS_Manual_Required,
      rc_summary = ''Backup/restore/load rehearsals require company/staging infrastructure and operator approval.'',
      rc_evidence = [presence_evidence env ''BACKUP_ROOT'',
        ''Run docs/runbooks/BACKUP_RESTORE.md and ops/load/smoke_load.py in staging.''],
      rc_next_action = Some ''Complete backup, restore, and load rehearsals against company/staging services, then run ops/backup/verify_backup_set.py on the backup set.''\<rparr>"

definition company_rehearsal_checks :: "environment \<Rightarrow> readiness_check list" where
  "company_rehearsal_checks env = [
     external_rehearsal_check env ''company_postgres_rehearsal'' [''POSTGRES_TEST_DSN'', ''POSTGRES_DSN'']
       ''Run PostgreSQL integration or full-stack rehearsal against company/staging PostgreSQL.'',
     external_rehearsal_check env ''company_neo4j_rehearsal'' [''NEO4J_TEST_URI'', ''NEO4J_URI'']
       ''Run Neo4j integration or full-stack rehearsal against company/staging Neo4j.'',
     external_rehearsal_check env ''company_qdrant_rehearsal'' [''QDRANT_TEST_URL'', ''QDRANT_URL'']
       ''Run Qdrant integration or full-stack rehearsal against company/staging Qdrant.'',
     external_rehearsal_check env ''company_model_gateway_rehearsal'' [''MODEL_GATEWAY_ENDPOINT_URL'']
       ''Run ops/model_gateway/rehearse_model_gateway.py against the company-approved model provider sandbox.'',
     external_rehearsal_check env ''company_jira_sandbox_rehearsal'' [''RUNE_JIRA_MCP_URL'', ''JIRA_BASE_URL'']
       ''Run the JIRA source skill and ops/source/rehearse_company_sources.py --source jira against a sandbox project.'',
     external_rehearsal_check env ''company_confluence_sandbox_rehearsal'' [''RUNE_CONFLUENCE_MCP_URL'', ''CONFLUENCE_BASE_URL'']
       ''Run the Confluence source skill and ops/source/rehearse_company_sources.py --source confluence against a sandbox space.'',
     email_policy_check env,
     backup_restore_load_check env,
     external_rehearsal_check env ''observability_dashboard_rehearsal'' [''PROMETHEUS_BASE_URL'', ''GRAFANA_DASHBOARD_UID'']
       ''Import ops/observability/grafana-dashboard.json, load ops/observability/rune-agent-alerts.yml, and verify the staging Prometheus target scrapes /api/v1/metrics.'',
     external_rehearsal_check env ''trusted_proxy_rbac_rehearsal'' [''RUNE_API_BASE_URL'', ''TRUSTED_PROXY_SECRET'']
       ''Run ops/security/rehearse_trusted_proxy_auth.py against the company/staging trusted proxy boundary.'',
     kubernetes_helm_rehearsal_check env]"

section \<open>Local gates\<close>

definition run_gate_command :: "gate_executor \<Rightarrow> string list \<Rightarrow> gate_result" where
  "run_gate_command exec command = (case exec command of (returncode, stdout) \<Rightarrow>
     \<lparr>gr_command = py_join '' '' command, gr_returncode = returncode,
      gr_output_tail = drop (length stdout - 4000) stdout\<rparr>)"

definition docker_unavailable_failure :: "gate_result \<Rightarrow> bool" where
  "docker_unavailable_failure r =
     ((py_in ''ops/integration/run_backend_integration.py'' (gr_command r)
       \<or> py_in ''ops/rehearsal/run_full_stack_rehearsal.py'' (gr_command r))
      \<and> list_ex (\<lambda>marker. py_in marker (py_lower (gr_output_tail r)))
          [''failed to connect to the docker api'', ''cannot connect to the docker daemon'',
           ''dockerdesktoplinuxengine'', ''is the docker daemon running''])"

definition local_gate_summary :: "gate_result list \<Rightarrow> readiness_check" where
  "local_gate_summary results =
     (let failures = filter (\<lambda>r. gr_returncode r \<noteq> 0) results;
          docker = filter docker_unavailable_failure failures in
      if failures = []
      then \<lparr>rc_check_id = ''local_regression_gates'', rc_status = CS_Passed,
        rc_summary = ''All local regression and rehearsal gates passed.'', rc_evidence = map gr_command results,
        rc_next_action = None\<rparr>
      else if length docker = length failures
      then \<lparr>rc_check_id = ''local_regression_gates'', rc_status = CS_Manual_Required,
        rc_summary = ''Docker-backed local gates could not run because Docker is unavailable; non-Docker local gates passed.'',
        rc_evidence = map (\<lambda>r. gr_command r @ '' -> ''
          @ (if r \<in> set docker then ''docker_unavailable'' else str_int (gr_returncode r))) results,
        rc_next_action = Some ''Start Docker Desktop with the Linux engine, or run these Docker-backed gates on an Ubuntu/Docker host before release.''\<rparr>
      else \<lparr>rc_check_id = ''local_regression_gates'', rc_status = CS_Failed,
        rc_summary = str_nat (length failures) @ '' local gate command(s) failed.'',
        rc_evidence = map (\<lambda>r. gr_command r @ '' -> '' @ str_int (gr_returncode r)) results,
        rc_next_action = Some ''Fix failed local gates before release.''\<rparr>)"

definition gates_not_run :: readiness_check where
  "gates_not_run =
     \<lparr>rc_check_id = ''local_regression_gates'', rc_status = CS_Manual_Required,
      rc_summary = ''Local regression and rehearsal gates were not executed by this check.'',
      rc_evidence = [''Use --run-local-gates to execute the local gate command list.''],
      rc_next_action = Some ''Run the checker with --run-local-gates before a release decision.''\<rparr>"

section \<open>Reviewed evidence\<close>

definition contains_todo :: "string list \<Rightarrow> bool" where
  "contains_todo values = list_ex (py_in ''TODO:'') values"

definition checks_at :: "nat \<Rightarrow> string" where
  "checks_at i = ''checks['' @ str_nat i @ '']''"

definition json_text :: "json \<Rightarrow> string option" where
  "json_text v = (case v of JStr s \<Rightarrow> Some s | _ \<Rightarrow> None)"

definition evidence_status :: "json \<Rightarrow> check_status option result" where
  \<comment> \<open>a test for membership in a set, which hashes the value\<close>
  "evidence_status v = (case v of
       JStr s \<Rightarrow> Inr (if s = ''passed'' then Some CS_Passed else if s = ''warning'' then Some CS_Warning
         else if s = ''failed'' then Some CS_Failed else None)
     | JList _ \<Rightarrow> Inl (PyTypeError ''unhashable type'') | JObj _ \<Rightarrow> Inl (PyTypeError ''unhashable type'')
     | _ \<Rightarrow> Inr None)"

definition evidence_body :: "nat \<Rightarrow> string \<Rightarrow> check_status \<Rightarrow> jobj \<Rightarrow> manual_evidence result" where
  "evidence_body i check_id status d = (case jget d ''summary'' of
       JStr summary \<Rightarrow>
         if summary = [] then Inl (ValueError (checks_at i @ ''.summary must be a non-empty string'')) else
         (case jget d ''evidence'' of
            JList entries \<Rightarrow> (case those (map json_text entries) of
                None \<Rightarrow> Inl (ValueError (checks_at i @ ''.evidence must be a string array''))
              | Some evidence \<Rightarrow>
                  if status = CS_Passed \<and> contains_todo (summary # evidence)
                  then Inl (ValueError (checks_at i @ '' cannot be passed while summary or evidence contains TODO''))
                  else Inr \<lparr>me_check_id = check_id, me_status = status, me_summary = summary, me_evidence = evidence\<rparr>)
          | _ \<Rightarrow> Inl (ValueError (checks_at i @ ''.evidence must be a string array'')))
     | _ \<Rightarrow> Inl (ValueError (checks_at i @ ''.summary must be a non-empty string'')))"

definition evidence_record :: "nat \<Rightarrow> string list \<Rightarrow> json \<Rightarrow> manual_evidence result" where
  "evidence_record i seen item = (case item of
       JObj d \<Rightarrow> (case jget d ''check_id'' of
           JStr check_id \<Rightarrow>
             if check_id = [] then Inl (ValueError (checks_at i @ ''.check_id must be a non-empty string''))
             else if check_id \<in> set seen then Inl (ValueError (checks_at i @ ''.check_id duplicates '' @ check_id))
             else rbind (evidence_status (jget d ''status'')) (\<lambda>status. case status of
                 None \<Rightarrow> Inl (ValueError (checks_at i @ ''.status must be passed, warning, or failed''))
               | Some s \<Rightarrow> evidence_body i check_id s d)
         | _ \<Rightarrow> Inl (ValueError (checks_at i @ ''.check_id must be a non-empty string'')))
     | _ \<Rightarrow> Inl (ValueError (checks_at i @ '' must be an object'')))"

fun evidence_records :: "nat \<Rightarrow> string list \<Rightarrow> json list \<Rightarrow> manual_evidence list result" where
  "evidence_records i seen [] = Inr []"
| "evidence_records i seen (item # items) = rbind (evidence_record i seen item) (\<lambda>r.
     rbind (evidence_records (Suc i) (me_check_id r # seen) items) (\<lambda>rs. Inr (r # rs)))"

definition traceable_reference :: "string \<Rightarrow> bool" where
  "traceable_reference value = list_ex (\<lambda>p. prefix p (py_lower (py_strip value))) traceable_prefixes"

definition reviewed_record :: "manual_evidence \<Rightarrow> unit result" where
  "reviewed_record r =
     (if me_evidence r = [] \<or> list_ex (\<lambda>entry. py_strip entry = []) (me_evidence r)
      then Inl (ValueError (me_check_id r @ '' passed manual evidence must include non-empty evidence''))
      else if \<not> list_ex traceable_reference (me_evidence r)
      then Inl (ValueError (me_check_id r @ '' passed manual evidence must include at least one traceable evidence reference''))
      else Inr ())"

definition reviewed_field :: "jobj \<Rightarrow> string \<Rightarrow> string result" where
  "reviewed_field payload name = (case jget payload name of
       JStr value \<Rightarrow>
         if py_strip value = []
         then Inl (ValueError (name @ '' must be a non-empty string when passed manual evidence is present''))
         else if contains_todo [value]
         then Inl (ValueError (name @ '' cannot contain TODO when passed manual evidence is present''))
         else Inr value
     | _ \<Rightarrow> Inl (ValueError (name @ '' must be a non-empty string when passed manual evidence is present'')))"

type_synonym iso_parser = "string \<Rightarrow> int option option"
  \<comment> \<open>\<open>None\<close> where \<open>fromisoformat\<close> raises, else the offset from UTC, if there is one\<close>

definition reviewed_at_utc :: "iso_parser \<Rightarrow> string \<Rightarrow> unit result" where
  "reviewed_at_utc fromiso value =
     (if fromiso (concat (map (\<lambda>c. if c = CHR ''Z'' then ''+00:00'' else [c]) value)) = Some (Some 0) then Inr ()
      else Inl (ValueError ''reviewed_at must be an ISO-8601 UTC timestamp''))"

definition validate_review_metadata :: "iso_parser \<Rightarrow> jobj \<Rightarrow> manual_evidence list \<Rightarrow> unit result" where
  "validate_review_metadata fromiso payload records =
     (let passed_records = filter (\<lambda>r. me_status r = CS_Passed) records in
      if passed_records = [] then Inr ()
      else if jget payload ''schema_version'' \<noteq> JStr ''v1''
      then Inl (ValueError ''schema_version must be v1 when passed manual evidence is present'')
      else rbind (rmap reviewed_record passed_records) (\<lambda>_.
        rbind (reviewed_field payload ''reviewed_by'') (\<lambda>_.
        rbind (reviewed_field payload ''reviewed_at'') (reviewed_at_utc fromiso))))"

definition load_manual_evidence :: "iso_parser \<Rightarrow> json \<Rightarrow> manual_evidence list result" where
  "load_manual_evidence fromiso payload = (case payload of
       JObj d \<Rightarrow> (case jget d ''checks'' of
           JList checks \<Rightarrow> rbind (evidence_records 0 [] checks) (\<lambda>records.
             rbind (validate_review_metadata fromiso d records) (\<lambda>_. Inr records))
         | _ \<Rightarrow> Inl (ValueError ''manual evidence file must contain a checks array''))
     | _ \<Rightarrow> Inl (ValueError ''manual evidence file must contain a JSON object''))"

definition with_evidence :: "readiness_check \<Rightarrow> manual_evidence \<Rightarrow> readiness_check" where
  "with_evidence check e =
     (if rc_status check \<noteq> CS_Manual_Required
      then check\<lparr>rc_summary := rc_summary check @ '' Manual evidence was ignored because this is not a manual gate.'',
        rc_evidence := rc_evidence check @ [''manual_evidence_ignored:not_manual_gate'']\<rparr>
      else check\<lparr>rc_status := me_status e, rc_summary := me_summary e, rc_evidence := rc_evidence check @ me_evidence e,
        rc_next_action := if me_status e = CS_Passed then None else rc_next_action check\<rparr>)"

definition unknown_evidence :: "manual_evidence \<Rightarrow> readiness_check" where
  "unknown_evidence e = \<lparr>rc_check_id = ''unknown_manual_evidence:'' @ me_check_id e, rc_status = CS_Warning,
     rc_summary = ''Manual evidence references an unknown readiness check id.'', rc_evidence = me_evidence e,
     rc_next_action = Some ''Remove or rename the unknown evidence check id.''\<rparr>"

definition apply_manual_evidence :: "readiness_check list \<Rightarrow> manual_evidence list \<Rightarrow> readiness_check list" where
  "apply_manual_evidence checks manual_evidence =
     (let by_check = dict_of (map (\<lambda>e. (me_check_id e, e)) manual_evidence) in
      map (\<lambda>check. case dget by_check (rc_check_id check) of None \<Rightarrow> check | Some e \<Rightarrow> with_evidence check e) checks
      @ map unknown_evidence (filter (\<lambda>e. me_check_id e \<notin> rc_check_id ` set checks) manual_evidence))"

section \<open>The report\<close>

record check_counts =
  cn_passed :: nat
  cn_warning :: nat
  cn_failed :: nat
  cn_manual_required :: nat

record readiness_report =
  rp_passed :: bool
  rp_summary :: check_counts
  rp_checks :: "readiness_check list"
  rp_local_gate_commands :: "string list"
  rp_local_gate_results :: "gate_result list"
  rp_manual_evidence_count :: nat

definition checks_with :: "check_status \<Rightarrow> readiness_check list \<Rightarrow> nat" where
  "checks_with s checks = length (filter (\<lambda>c. rc_status c = s) checks)"

definition summarize_checks :: "readiness_check list \<Rightarrow> check_counts" where
  "summarize_checks checks = \<lparr>cn_passed = checks_with CS_Passed checks, cn_warning = checks_with CS_Warning checks,
     cn_failed = checks_with CS_Failed checks, cn_manual_required = checks_with CS_Manual_Required checks\<rparr>"

definition local_gate_check :: "gate_executor option \<Rightarrow> readiness_check" where
  "local_gate_check gates = (case gates of None \<Rightarrow> gates_not_run
     | Some exec \<Rightarrow> local_gate_summary (map (run_gate_command exec) local_gate_commands))"

definition gate_checks :: "environment \<Rightarrow> gate_executor option \<Rightarrow> readiness_check list" where
  "gate_checks env gates = environment_checks env @ company_rehearsal_checks env @ [local_gate_check gates]"

definition build_readiness_report :: "environment \<Rightarrow> gate_executor option \<Rightarrow> manual_evidence list \<Rightarrow> readiness_report" where
  \<comment> \<open>\<open>None\<close> for the gates: they are not run\<close>
  "build_readiness_report env gates manual_evidence =
     (let checks = apply_manual_evidence (gate_checks env gates) manual_evidence; summary = summarize_checks checks in
      \<lparr>rp_passed = (cn_failed summary = 0 \<and> cn_manual_required summary = 0 \<and> cn_warning summary = 0),
       rp_summary = summary, rp_checks = checks, rp_local_gate_commands = map (py_join '' '') local_gate_commands,
       rp_local_gate_results = (case gates of None \<Rightarrow> [] | Some exec \<Rightarrow> map (run_gate_command exec) local_gate_commands),
       rp_manual_evidence_count = length manual_evidence\<rparr>)"

definition template_check :: "readiness_check \<Rightarrow> json" where
  "template_check check = JObj [(''check_id'', JStr (rc_check_id check)), (''status'', JStr ''failed''),
     (''summary'', JStr (''TODO: replace after completing and reviewing this gate. Required action: ''
        @ opt_str_or (rc_next_action check) (rc_summary check))),
     (''evidence'', jstrs [''TODO: attach reviewed CI run id, artifact reference, or approval record''])]"

definition manual_evidence_template :: "readiness_report \<Rightarrow> jobj" where
  "manual_evidence_template report = [(''schema_version'', JStr ''v1''),
     (''reviewed_by'', JStr ''TODO: release owner email or approval record''),
     (''reviewed_at'', JStr ''TODO: ISO-8601 UTC timestamp''),
     (''checks'', JList (map template_check (filter (\<lambda>c. rc_status c = CS_Manual_Required) (rp_checks report))))]"

definition build_manual_evidence_template :: "environment \<Rightarrow> jobj" where
  "build_manual_evidence_template env = manual_evidence_template (build_readiness_report env None [])"

definition readiness_main :: "iso_parser \<Rightarrow> environment \<Rightarrow> gate_executor option \<Rightarrow> json option \<Rightarrow> int result" where
  \<comment> \<open>the exit code of \<open>main\<close>, from the evidence file on\<close>
  "readiness_main fromiso env gates evidence_file =
     rbind (case evidence_file of None \<Rightarrow> Inr [] | Some payload \<Rightarrow> load_manual_evidence fromiso payload) (\<lambda>manual_evidence.
     Inr (if rp_passed (build_readiness_report env gates manual_evidence) then 0 else 1))"

section \<open>The report as a JSON value\<close>

definition check_json :: "readiness_check \<Rightarrow> json" where
  "check_json c = JObj [(''check_id'', JStr (rc_check_id c)), (''status'', JStr (check_status_str (rc_status c))),
     (''summary'', JStr (rc_summary c)), (''evidence'', jstrs (rc_evidence c)), (''next_action'', jopt (rc_next_action c))]"

definition counts_json :: "check_counts \<Rightarrow> json" where
  "counts_json n = JObj [(''passed'', JInt (int (cn_passed n))), (''warning'', JInt (int (cn_warning n))),
     (''failed'', JInt (int (cn_failed n))), (''manual_required'', JInt (int (cn_manual_required n)))]"

definition gate_result_json :: "gate_result \<Rightarrow> json" where
  "gate_result_json r = JObj [(''command'', JStr (gr_command r)), (''returncode'', JInt (gr_returncode r)),
     (''output_tail'', JStr (gr_output_tail r))]"

definition readiness_json :: "readiness_report \<Rightarrow> jobj" where
  "readiness_json r = [(''passed'', JBool (rp_passed r)), (''summary'', counts_json (rp_summary r)),
     (''checks'', JList (map check_json (rp_checks r))), (''local_gate_commands'', jstrs (rp_local_gate_commands r)),
     (''local_gate_results'', JList (map gate_result_json (rp_local_gate_results r))),
     (''manual_evidence_count'', JInt (int (rp_manual_evidence_count r))), (''schema_version'', JStr ''v1'')]"

section \<open>Values of the environment\<close>

definition shown_keys :: "string list" where
  "shown_keys = [''STATE_STORE'', ''GRAPH_BACKEND'', ''VECTOR_BACKEND'', ''MODEL_GATEWAY_MODE'', ''AUTH_MODE'', ''OTEL_ENABLED'',
     ''DEPLOYMENT_TARGET'', ''KUBERNETES_DEPLOYMENT'']"

definition hide_values :: "environment \<Rightarrow> environment" where
  \<comment> \<open>every value but those of the modes replaced, unless it is empty\<close>
  "hide_values env = map (\<lambda>(k, v). (k, if k \<in> set shown_keys \<or> v = [] then v else ''hidden'')) env"

lemma env_get_hidden:
  "env_get (hide_values env) k = (if k \<in> set shown_keys \<or> env_get env k = [] then env_get env k else ''hidden'')"
  by (induction env) (auto simp: env_get_def hide_values_def)

lemma env_get_hidden_empty [simp]: "env_get (hide_values env) k = [] \<longleftrightarrow> env_get env k = []"
  by (simp add: env_get_hidden)

lemma env_get_shown: "k \<in> set shown_keys \<Longrightarrow> env_get (hide_values env) k = env_get env k"
  by (simp add: env_get_hidden)

lemma hidden_presence [simp]:
  "missing_keys (hide_values env) ks = missing_keys env ks" "presence_evidence (hide_values env) = presence_evidence env"
  by (simp_all add: missing_keys_def presence_evidence_def fun_eq_iff)

lemma expect_mode_hidden:
  "k \<in> set shown_keys \<Longrightarrow> expect_mode (hide_values env) i k m ks a = expect_mode env i k m ks a"
  by (simp add: expect_mode_def env_get_shown)

lemma rehearsal_hidden:
  "external_rehearsal_check (hide_values env) i ks a = external_rehearsal_check env i ks a"
  "expect_keys (hide_values env) i ks a = expect_keys env i ks a"
  by (simp_all add: external_rehearsal_check_def expect_keys_def)

lemma kubernetes_hidden:
  "kubernetes_selected (hide_values env) = kubernetes_selected env" "deployment_target (hide_values env) = deployment_target env"
  by (simp_all add: kubernetes_selected_def deployment_target_def env_get_shown shown_keys_def)

lemma environment_checks_hidden: "environment_checks (hide_values env) = environment_checks env"
  unfolding environment_checks_def by (simp add: expect_mode_hidden rehearsal_hidden shown_keys_def)

lemma company_checks_hidden: "company_rehearsal_checks (hide_values env) = company_rehearsal_checks env"
  unfolding company_rehearsal_checks_def
  by (simp add: rehearsal_hidden kubernetes_helm_rehearsal_check_def kubernetes_hidden email_policy_check_def backup_restore_load_check_def)

text \<open>
  Property C40. A readiness report shows no secret: it stays the same when the value of every environment variable
  is hidden, but for the eight that select a mode; of the others only whether they are set is shown.
\<close>

theorem readiness_hides_values:
  "build_readiness_report (hide_values env) gates evidence = build_readiness_report env gates evidence"
  by (simp add: build_readiness_report_def gate_checks_def environment_checks_hidden company_checks_hidden)

section \<open>What a passed report means\<close>

lemma report_passed_iff: "rp_passed (build_readiness_report env gates evidence)
    \<longleftrightarrow> (\<forall>c\<in>set (apply_manual_evidence (gate_checks env gates) evidence). rc_status c = CS_Passed)"
proof -
  have "checks_with s cs = 0 \<longleftrightarrow> (\<forall>c\<in>set cs. rc_status c \<noteq> s)" for s cs
    by (simp add: checks_with_def filter_empty_conv)
  moreover have "s = CS_Passed \<longleftrightarrow> s \<noteq> CS_Failed \<and> s \<noteq> CS_Manual_Required \<and> s \<noteq> CS_Warning" for s by (cases s) simp_all
  ultimately show ?thesis by (auto simp: build_readiness_report_def summarize_checks_def Let_def)
qed

definition passed_evidence :: "manual_evidence list \<Rightarrow> string \<Rightarrow> bool" where
  "passed_evidence evidence i = (\<exists>e\<in>set evidence. me_check_id e = i \<and> me_status e = CS_Passed)"

lemma apply_manual_passed_iff:
  assumes "distinct (map me_check_id evidence)"
  shows "(\<forall>c\<in>set (apply_manual_evidence checks evidence). rc_status c = CS_Passed)
    \<longleftrightarrow> (\<forall>c\<in>set checks. rc_status c = CS_Passed \<or> rc_status c = CS_Manual_Required \<and> passed_evidence evidence (rc_check_id c))
      \<and> me_check_id ` set evidence \<subseteq> rc_check_id ` set checks"
proof -
  let ?pairs = "map (\<lambda>e. (me_check_id e, e)) evidence"
  from assms have inj: "inj_on me_check_id (set evidence)" by (simp add: distinct_map)
  have ok: "distinct (map fst (rev ?pairs))" using assms by (simp add: comp_def rev_map [symmetric])
  have got: "dget (dict_of ?pairs) i = Some e \<longleftrightarrow> e \<in> set evidence \<and> me_check_id e = i" for i e
    unfolding dget_dict_of map_of_eq_Some_iff [OF ok] by auto
  have one: "rc_status (case dget (dict_of ?pairs) (rc_check_id c) of None \<Rightarrow> c | Some e \<Rightarrow> with_evidence c e) = CS_Passed
    \<longleftrightarrow> rc_status c = CS_Passed \<or> rc_status c = CS_Manual_Required \<and> passed_evidence evidence (rc_check_id c)" for c
  proof (cases "dget (dict_of ?pairs) (rc_check_id c)")
    case None
    with got [of "rc_check_id c"] have "\<not> (e \<in> set evidence \<and> me_check_id e = rc_check_id c)" for e by simp
    then have "\<not> passed_evidence evidence (rc_check_id c)" unfolding passed_evidence_def by blast
    with None show ?thesis by simp
  next
    case (Some e)
    then have e: "e \<in> set evidence" "me_check_id e = rc_check_id c" using got [of "rc_check_id c" e] by simp_all
    have "x = e" if "x \<in> set evidence" "me_check_id x = rc_check_id c" for x
      using inj that e by (simp add: inj_on_def)
    then have "passed_evidence evidence (rc_check_id c) \<longleftrightarrow> me_status e = CS_Passed"
      unfolding passed_evidence_def using e by blast
    with Some show ?thesis by (simp add: with_evidence_def)
  qed
  have "filter (\<lambda>e. me_check_id e \<notin> rc_check_id ` set checks) evidence = [] \<longleftrightarrow> me_check_id ` set evidence \<subseteq> rc_check_id ` set checks"
    by (auto simp: filter_empty_conv)
  moreover have "(\<forall>e\<in>set (filter P evidence). False) \<longleftrightarrow> filter P evidence = []" for P :: "manual_evidence \<Rightarrow> bool"
    by (auto simp: filter_empty_conv)
  ultimately show ?thesis
    by (simp add: apply_manual_evidence_def Let_def ball_Un one unknown_evidence_def) blast
qed

lemma dict_of_map:
  fixes f :: "'c \<Rightarrow> 'k" and g :: "'c \<Rightarrow> 'v"
  shows "(\<exists>x. dget (dict_of (map (\<lambda>c. (f c, g c)) cs)) i = Some x) \<longleftrightarrow> i \<in> f ` set cs"
    and "dget (dict_of (map (\<lambda>c. (f c, g c)) cs)) i = Some x \<Longrightarrow> \<exists>c\<in>set cs. f c = i \<and> g c = x"
proof -
  have "(\<exists>x. dget d i = Some x) \<longleftrightarrow> i \<in> fst ` set d" for d :: "('k, 'v) dict"
    using map_of_eq_None_iff [of d i] by (cases "dget d i") auto
  then show "(\<exists>x. dget (dict_of (map (\<lambda>c. (f c, g c)) cs)) i = Some x) \<longleftrightarrow> i \<in> f ` set cs"
    by (simp add: image_image)
  assume "dget (dict_of (map (\<lambda>c. (f c, g c)) cs)) i = Some x"
  then show "\<exists>c\<in>set cs. f c = i \<and> g c = x" unfolding dget_dict_of by (auto dest!: map_of_SomeD)
qed

lemma applied_ids: "rc_check_id ` set checks \<subseteq> rc_check_id ` set (apply_manual_evidence checks evidence)"
proof -
  have "rc_check_id (case m of None \<Rightarrow> c | Some e \<Rightarrow> with_evidence c e) = rc_check_id c" for m c
    by (cases m) (simp_all add: with_evidence_def)
  then show ?thesis unfolding apply_manual_evidence_def Let_def by (auto simp: image_Un image_image)
qed

definition mode_table :: "(string \<times> string \<times> string list) list" where
  "mode_table = [(''STATE_STORE'', ''postgres'', [''POSTGRES_DSN'']),
     (''GRAPH_BACKEND'', ''neo4j'', [''NEO4J_URI'', ''NEO4J_USERNAME'', ''NEO4J_PASSWORD'']),
     (''VECTOR_BACKEND'', ''qdrant'', [''QDRANT_URL'', ''QDRANT_COLLECTION'']),
     (''MODEL_GATEWAY_MODE'', ''http_json'', [''MODEL_GATEWAY_ENDPOINT_URL'']),
     (''AUTH_MODE'', ''trusted_proxy'', [''TRUSTED_PROXY_SECRET'', ''TRUSTED_GROUP_ROLE_MAP'']),
     (''OTEL_ENABLED'', ''true'', [''OTEL_EXPORTER_OTLP_ENDPOINT''])]"

definition configured :: "environment \<Rightarrow> bool" where
  "configured env \<longleftrightarrow> (\<forall>(key, mode, required)\<in>set mode_table. env_get env key = mode \<and> missing_keys env required = [])
     \<and> env_get env ''ARTIFACT_ROOT'' \<noteq> []"

definition failed_gates :: "gate_executor \<Rightarrow> gate_result list" where
  "failed_gates exec = filter (\<lambda>r. gr_returncode r \<noteq> 0) (map (run_gate_command exec) local_gate_commands)"

definition local_gates_manual :: "gate_executor option \<Rightarrow> bool" where
  \<comment> \<open>the commands were not run, or those that failed found no Docker\<close>
  "local_gates_manual gates = (case gates of None \<Rightarrow> True
     | Some exec \<Rightarrow> failed_gates exec \<noteq> [] \<and> list_all docker_unavailable_failure (failed_gates exec))"

definition local_gates_passed :: "gate_executor option \<Rightarrow> bool" where
  "local_gates_passed gates = (case gates of None \<Rightarrow> False | Some exec \<Rightarrow> failed_gates exec = [])"

definition company_gates :: "string list" where
  "company_gates = [''company_postgres_rehearsal'', ''company_neo4j_rehearsal'', ''company_qdrant_rehearsal'',
     ''company_model_gateway_rehearsal'', ''company_jira_sandbox_rehearsal'', ''company_confluence_sandbox_rehearsal'',
     ''company_email_policy_rehearsal'', ''backup_restore_load_rehearsal'', ''observability_dashboard_rehearsal'',
     ''trusted_proxy_rbac_rehearsal'']"

definition manual_gates :: "environment \<Rightarrow> gate_executor option \<Rightarrow> string list" where
  "manual_gates env gates = company_gates @ (if kubernetes_selected env then [''kubernetes_helm_rehearsal''] else [])
     @ (if local_gates_manual gates then [''local_regression_gates''] else [])"

definition known_gates :: "string list" where
  "known_gates = [''postgres_state_store'', ''neo4j_graph_backend'', ''qdrant_vector_backend'', ''model_gateway_profile'',
     ''trusted_proxy_auth'', ''artifact_storage'', ''opentelemetry_export''] @ company_gates
     @ [''kubernetes_helm_rehearsal'', ''local_regression_gates'']"

lemma expect_mode_fields [simp]:
  "rc_check_id (expect_mode env i k m ks a) = i"
  "rc_status (expect_mode env i k m ks a) = (if env_get env k = m \<and> missing_keys env ks = [] then CS_Passed else CS_Failed)"
  by (simp_all add: expect_mode_def Let_def)

lemma expect_keys_fields [simp]:
  "rc_check_id (expect_keys env i ks a) = i"
  "rc_status (expect_keys env i ks a) = (if missing_keys env ks = [] then CS_Passed else CS_Failed)"
  by (simp_all add: expect_keys_def Let_def)

lemma rehearsal_fields [simp]:
  "rc_check_id (external_rehearsal_check env i ks a) = i" "rc_status (external_rehearsal_check env i ks a) = CS_Manual_Required"
  "rc_check_id (email_policy_check env) = ''company_email_policy_rehearsal''" "rc_status (email_policy_check env) = CS_Manual_Required"
  "rc_check_id (backup_restore_load_check env) = ''backup_restore_load_rehearsal''"
  "rc_status (backup_restore_load_check env) = CS_Manual_Required"
  "rc_check_id (kubernetes_helm_rehearsal_check env) = ''kubernetes_helm_rehearsal''"
  "rc_status (kubernetes_helm_rehearsal_check env) = (if kubernetes_selected env then CS_Manual_Required else CS_Passed)"
  by (simp_all add: external_rehearsal_check_def email_policy_check_def backup_restore_load_check_def kubernetes_helm_rehearsal_check_def)

lemma local_gate_summary_status: "rc_status (local_gate_summary rs) = (let fs = filter (\<lambda>r. gr_returncode r \<noteq> 0) rs in
    if fs = [] then CS_Passed else if list_all docker_unavailable_failure fs then CS_Manual_Required else CS_Failed)"
proof -
  have "length (filter P xs) = length xs \<longleftrightarrow> list_all P xs" for P and xs :: "gate_result list"
    by (metis filter_True length_filter_less list_all_iff nat_less_le)
  then show ?thesis unfolding local_gate_summary_def Let_def by (simp del: filter_filter)
qed

lemma local_gate_fields [simp]:
  "rc_check_id (local_gate_check gates) = ''local_regression_gates''"
  "rc_status (local_gate_check gates) = (if local_gates_passed gates then CS_Passed
     else if local_gates_manual gates then CS_Manual_Required else CS_Failed)"
proof -
  show "rc_check_id (local_gate_check gates) = ''local_regression_gates''"
    by (simp add: local_gate_check_def gates_not_run_def local_gate_summary_def Let_def split: option.splits)
  show "rc_status (local_gate_check gates) = (if local_gates_passed gates then CS_Passed
     else if local_gates_manual gates then CS_Manual_Required else CS_Failed)"
    by (cases gates) (simp_all add: local_gate_check_def gates_not_run_def local_gate_summary_status local_gates_passed_def
        local_gates_manual_def failed_gates_def Let_def del: filter_empty_conv)
qed

lemma known_gate_checks: "map rc_check_id (gate_checks env gates) = known_gates"
  by (simp add: gate_checks_def environment_checks_def company_rehearsal_checks_def known_gates_def company_gates_def)

lemma settled:
  "rc_status (expect_mode env i k m ks a) = CS_Passed \<or> rc_status (expect_mode env i k m ks a) = CS_Manual_Required \<and> Q
    \<longleftrightarrow> env_get env k = m \<and> missing_keys env ks = []"
  "rc_status (expect_keys env i ks a) = CS_Passed \<or> rc_status (expect_keys env i ks a) = CS_Manual_Required \<and> Q \<longleftrightarrow> missing_keys env ks = []"
  by simp_all

lemma environment_checks_pass:
  "(\<forall>c\<in>set (environment_checks env). rc_status c = CS_Passed \<or> rc_status c = CS_Manual_Required \<and> P (rc_check_id c)) \<longleftrightarrow> configured env"
proof -
  have "missing_keys env [k] = [] \<longleftrightarrow> env_get env k \<noteq> []" for k by (simp add: missing_keys_def)
  then show ?thesis
    unfolding environment_checks_def configured_def mode_table_def list.set ball_simps settled prod.case by blast
qed

lemma company_checks_pass:
  "(\<forall>c\<in>set (company_rehearsal_checks env). rc_status c = CS_Passed \<or> rc_status c = CS_Manual_Required \<and> P (rc_check_id c))
    \<longleftrightarrow> (\<forall>g\<in>set company_gates. P g) \<and> (kubernetes_selected env \<longrightarrow> P ''kubernetes_helm_rehearsal'')"
  by (simp add: company_rehearsal_checks_def company_gates_def)

text \<open>
  A report passes exactly when the environment is configured, the local gates passed or are left to a person, each
  gate that is left to a person has passed evidence, and no evidence names an unknown gate.
\<close>

lemma report_passed_exact:
  assumes "distinct (map me_check_id evidence)"
  shows "rp_passed (build_readiness_report env gates evidence)
    \<longleftrightarrow> configured env \<and> (local_gates_passed gates \<or> local_gates_manual gates)
      \<and> (\<forall>g\<in>set (manual_gates env gates). passed_evidence evidence g) \<and> me_check_id ` set evidence \<subseteq> set known_gates"
proof -
  have exclusive: "\<not> (local_gates_passed gates \<and> local_gates_manual gates)"
    by (simp add: local_gates_passed_def local_gates_manual_def split: option.splits)
  have ids: "rc_check_id ` set (gate_checks env gates) = set known_gates"
    unfolding known_gate_checks [of env gates, symmetric] by simp
  show ?thesis
    unfolding report_passed_iff apply_manual_passed_iff [OF assms] ids
    using exclusive
    by (simp add: gate_checks_def ball_Un environment_checks_pass company_checks_pass manual_gates_def) blast
qed

lemma report_checks: "rp_checks (build_readiness_report env gates evidence) = apply_manual_evidence (gate_checks env gates) evidence"
  by (simp add: build_readiness_report_def Let_def)

lemma report_has_gates: "set known_gates \<subseteq> rc_check_id ` set (rp_checks (build_readiness_report env gates evidence))"
  using applied_ids [of "gate_checks env gates" evidence]
  unfolding report_checks known_gate_checks [of env gates, symmetric] by simp

section \<open>What a passed release rests on\<close>

definition stated :: "jobj \<Rightarrow> manual_evidence \<Rightarrow> bool" where
  "stated d r \<longleftrightarrow> jget d ''check_id'' = JStr (me_check_id r) \<and> jget d ''status'' = JStr (check_status_str (me_status r))
     \<and> jget d ''summary'' = JStr (me_summary r) \<and> jget d ''evidence'' = jstrs (me_evidence r)
     \<and> (me_status r = CS_Passed \<longrightarrow> \<not> contains_todo (me_summary r # me_evidence r))"

lemma those_texts: "those (map json_text vs) = Some es \<Longrightarrow> vs = map JStr es"
proof (induction vs arbitrary: es)
  case (Cons v vs)
  then obtain e es' where "json_text v = Some e" "those (map json_text vs) = Some es'" "es = e # es'"
    by (auto split: option.splits)
  moreover from this(1) have "v = JStr e" by (cases v) (simp_all add: json_text_def)
  ultimately show ?case using Cons.IH by simp
qed simp

lemma evidence_status_str: "evidence_status v = Inr (Some s) \<Longrightarrow> v = JStr (check_status_str s)"
  by (cases v) (auto simp: evidence_status_def split: if_splits)

lemma evidence_body_stated:
  assumes "evidence_body i c s d = Inr r" and "jget d ''check_id'' = JStr c" and "jget d ''status'' = JStr (check_status_str s)"
  shows "stated d r \<and> me_check_id r = c"
  using assms by (auto simp: evidence_body_def stated_def jstrs_def dest!: those_texts split: json.splits if_splits option.splits)

lemma evidence_record_stated:
  assumes "evidence_record i seen item = Inr r"
  shows "\<exists>d. item = JObj d \<and> stated d r \<and> me_check_id r \<notin> set seen"
proof -
  from assms obtain d c where d: "item = JObj d" "jget d ''check_id'' = JStr c" and new: "c \<notin> set seen"
    and st: "rbind (evidence_status (jget d ''status'')) (\<lambda>status. case status of
                 None \<Rightarrow> Inl (ValueError (checks_at i @ ''.status must be passed, warning, or failed''))
               | Some s \<Rightarrow> evidence_body i c s d) = Inr r"
    by (auto simp: evidence_record_def split: json.splits if_splits)
  from st obtain s where "evidence_status (jget d ''status'') = Inr (Some s)" "evidence_body i c s d = Inr r"
    by (cases "evidence_status (jget d ''status'')") (auto simp: rbind_def split: option.splits)
  with evidence_body_stated [of i c s d r] evidence_status_str d new show ?thesis by blast
qed

lemma evidence_records_stated:
  assumes "evidence_records i seen items = Inr rs"
  shows "distinct (map me_check_id rs) \<and> me_check_id ` set rs \<inter> set seen = {} \<and> (\<forall>r\<in>set rs. \<exists>d. JObj d \<in> set items \<and> stated d r)"
  using assms
proof (induction items arbitrary: i seen rs)
  case (Cons item items)
  then obtain r rs' where r: "evidence_record i seen item = Inr r" "rs = r # rs'"
    and rs': "evidence_records (Suc i) (me_check_id r # seen) items = Inr rs'"
    by (auto simp: rbind_def split: sum.splits)
  from Cons.IH [OF rs'] evidence_record_stated [OF r(1)] r(2) show ?case by auto
qed simp

definition gate_reviewed :: "iso_parser \<Rightarrow> json option \<Rightarrow> string \<Rightarrow> bool" where
  \<comment> \<open>the evidence file holds a passed record of the gate, traceable and signed off\<close>
  "gate_reviewed fromiso source gate \<longleftrightarrow> (\<exists>payload checks c evidence reviewer reviewed_at.
     source = Some (JObj payload) \<and> jget payload ''schema_version'' = JStr ''v1'' \<and> jget payload ''checks'' = JList checks
     \<and> JObj c \<in> set checks \<and> jget c ''check_id'' = JStr gate \<and> jget c ''status'' = JStr ''passed''
     \<and> jget c ''evidence'' = jstrs evidence \<and> \<not> contains_todo evidence \<and> (\<exists>e\<in>set evidence. traceable_reference e)
     \<and> jget payload ''reviewed_by'' = JStr reviewer \<and> py_strip reviewer \<noteq> [] \<and> \<not> contains_todo [reviewer]
     \<and> jget payload ''reviewed_at'' = JStr reviewed_at \<and> reviewed_at_utc fromiso reviewed_at = Inr ())"

lemma reviewed_field_value:
  "reviewed_field d k = Inr v \<Longrightarrow> jget d k = JStr v \<and> py_strip v \<noteq> [] \<and> \<not> contains_todo [v]"
  by (auto simp: reviewed_field_def split: json.splits if_splits)

lemma loaded_reviewed:
  assumes load: "load_manual_evidence fromiso payload = Inr records" and r: "r \<in> set records" "me_status r = CS_Passed"
  shows "gate_reviewed fromiso (Some payload) (me_check_id r)"
proof -
  from load obtain d checks where d: "payload = JObj d" "jget d ''checks'' = JList checks"
    and records: "evidence_records 0 [] checks = Inr records" and meta: "validate_review_metadata fromiso d records = Inr ()"
    by (auto simp: load_manual_evidence_def rbind_def split: json.splits sum.splits)
  from evidence_records_stated [OF records] r(1) obtain c where c: "JObj c \<in> set checks" "stated c r" by blast
  have "r \<in> set (filter (\<lambda>r. me_status r = CS_Passed) records)" using r by simp
  then have some: "filter (\<lambda>r. me_status r = CS_Passed) records \<noteq> []" by (metis empty_iff list.set(1))
  from meta some obtain us v w where version: "jget d ''schema_version'' = JStr ''v1''"
    and us: "rmap reviewed_record (filter (\<lambda>r. me_status r = CS_Passed) records) = Inr us"
    and v: "reviewed_field d ''reviewed_by'' = Inr v" and w: "reviewed_field d ''reviewed_at'' = Inr w" "reviewed_at_utc fromiso w = Inr ()"
    unfolding validate_review_metadata_def Let_def rbind_def by (auto split: if_splits sum.splits simp del: rmap.simps)
  from rmap_each [OF us \<open>r \<in> set (filter _ records)\<close>] have "\<exists>e\<in>set (me_evidence r). traceable_reference e"
    by (auto simp: reviewed_record_def list_ex_iff split: if_splits)
  moreover have "\<not> contains_todo (me_evidence r)" using c(2) r(2) by (simp add: stated_def contains_todo_def)
  ultimately show ?thesis
    unfolding gate_reviewed_def
    using d c r(2) version reviewed_field_value [OF v] reviewed_field_value [OF w(1)] w(2)
    by (intro exI [of _ d] exI [of _ checks] exI [of _ c] exI [of _ "me_evidence r"] exI [of _ v] exI [of _ w])
      (simp add: stated_def)
qed

lemma loaded_distinct: "load_manual_evidence fromiso payload = Inr records \<Longrightarrow> distinct (map me_check_id records)"
  using evidence_records_stated by (auto simp: load_manual_evidence_def rbind_def split: json.splits sum.splits)

text \<open>
  Property C28. When the checker exits with success, the environment selects the six production modes and sets every variable they
  need and the artifact root, each local gate command that was run returned zero or found no Docker, and every gate that is left to a
  person (the ten company rehearsals, Helm where Kubernetes is selected, and the local gates where they were not run or found no
  Docker) has a passed record in the evidence file, free of placeholders, with a traceable reference, a named reviewer and
  a review time in UTC.
\<close>

theorem release_gate_sound:
  assumes "readiness_main fromiso env gates source = Inr 0"
  shows "configured env
    \<and> (\<forall>exec. gates = Some exec \<longrightarrow> list_all docker_unavailable_failure (failed_gates exec))
    \<and> (\<forall>g\<in>set (manual_gates env gates). gate_reviewed fromiso source g)"
proof -
  from assms obtain records where records: "(case source of None \<Rightarrow> Inr [] | Some payload \<Rightarrow> load_manual_evidence fromiso payload) = Inr records"
    and passed: "rp_passed (build_readiness_report env gates records)"
    by (auto simp: readiness_main_def rbind_def split: sum.splits if_splits)
  have "distinct (map me_check_id records)" using records loaded_distinct by (cases source) auto
  from passed [unfolded report_passed_exact [OF this]] have ready: "configured env" "local_gates_passed gates \<or> local_gates_manual gates"
    "\<forall>g\<in>set (manual_gates env gates). passed_evidence records g" by simp_all
  have "gate_reviewed fromiso source g" if "passed_evidence records g" for g
    using that records loaded_reviewed by (cases source) (auto simp: passed_evidence_def)
  moreover have "list_all docker_unavailable_failure (failed_gates exec)" if "gates = Some exec" for exec
    using ready(2) that by (auto simp: local_gates_passed_def local_gates_manual_def)
  ultimately show ?thesis using ready(1,3) by blast
qed

end
