(* ===== verification/Release_Scope.thy ===== *)
theory Release_Scope
  imports Graph PyText
begin

text \<open>
  \<open>ops/rehearsal/validate_release_scope_artifacts.py\<close>: whether every item of the first release has its
  artifacts, commands and audit marker, and stands in the production plan. The table of items and the two
  headings of the plan hold Korean text, which the strings of the model do not reach: they are part of the
  release tree, the argument that also tells which files exist and what the two documents say.
\<close>

datatype scope_status = Local_Complete | Company_Evidence_Required

fun scope_status_str :: "scope_status \<Rightarrow> string" where
  "scope_status_str Local_Complete = ''local_complete''"
| "scope_status_str Company_Evidence_Required = ''company_evidence_required''"

record release_scope_item =
  si_item_id :: string
  si_requirement :: string
  si_status :: scope_status
  si_evidence_paths :: "string list"
  si_verification_commands :: "string list"
  si_audit_markers :: "string list"
  si_notes :: string

record release_tree =
  rl_exists :: "string \<Rightarrow> bool"
  rl_items :: "release_scope_item list"
  rl_audit_text :: string
  rl_plan_text :: string
  rl_required_mark :: string
  rl_excluded_mark :: string
  rl_objective :: string

record scope_entry =
  se_item :: release_scope_item
  se_verification_artifact_paths :: "string list"
  se_artifact_paths :: "string list"
  se_audit_covered :: bool
  se_missing_paths :: "string list"

definition verification_artifact_paths :: "string list \<Rightarrow> string list" where
  "verification_artifact_paths commands = sorted_set (filter (\<lambda>token.
       list_ex (\<lambda>p. prefix p token) [''.claude/'', ''config/'', ''docs/'', ''ops/'', ''src/'', ''tests/''] \<or> suffix ''.py'' token)
     (concat (map (py_words []) commands)))"

definition render_item :: "release_tree \<Rightarrow> release_scope_item \<Rightarrow> scope_entry" where
  "render_item tree item =
     (let verification = verification_artifact_paths (si_verification_commands item);
          artifact_paths = sorted_set (si_evidence_paths item @ verification) in
      \<lparr>se_item = item, se_verification_artifact_paths = verification, se_artifact_paths = artifact_paths,
       se_audit_covered = list_all (\<lambda>marker. py_in marker (rl_audit_text tree)) (si_audit_markers item),
       se_missing_paths = filter (\<lambda>path. \<not> rl_exists tree path) artifact_paths\<rparr>)"

definition entry_failures :: "scope_entry \<Rightarrow> string list" where
  "entry_failures e =
     (let i = si_item_id (se_item e) in
      map (\<lambda>path. i @ '':missing_path:'' @ path) (se_missing_paths e)
      @ (if si_verification_commands (se_item e) = [] then [i @ '':missing_verification_command''] else [])
      @ (if si_notes (se_item e) = [] then [i @ '':missing_notes''] else [])
      @ (if \<not> se_audit_covered e then [i @ '':missing_completion_audit_marker''] else []))"

fun plan_bullets :: "string \<Rightarrow> (string \<Rightarrow> bool) \<Rightarrow> bool \<Rightarrow> string list \<Rightarrow> string list" where
  \<comment> \<open>the bullets behind a heading; the flag says whether it has been read\<close>
  "plan_bullets heading stop inside [] = []"
| "plan_bullets heading stop inside (line # lines) =
     (let stripped = py_strip line in
      if stripped = heading then plan_bullets heading stop True lines
      else if inside \<and> stop stripped then []
      else if inside \<and> prefix ''- '' stripped
      then py_strip (py_removeprefix ''- '' stripped) # plan_bullets heading stop inside lines
      else plan_bullets heading stop inside lines)"

definition load_first_release_requirements :: "release_tree \<Rightarrow> string list" where
  "load_first_release_requirements tree =
     plan_bullets (rl_required_mark tree) (\<lambda>s. s = rl_excluded_mark tree) False (py_splitlines (rl_plan_text tree))"

definition load_first_release_exclusions :: "release_tree \<Rightarrow> string list" where
  "load_first_release_exclusions tree =
     plan_bullets (rl_excluded_mark tree) (prefix ''## '') False (py_splitlines (rl_plan_text tree))"

record scope_report =
  sp_passed :: bool
  sp_release_ready :: bool
  sp_status_counts :: "(string \<times> nat) list"
  sp_plan_requirements :: "string list"
  sp_first_release_exclusions :: "string list"
  sp_items :: "scope_entry list"
  sp_failures :: "string list"

definition sp_missing_artifacts :: "scope_report \<Rightarrow> nat" where
  "sp_missing_artifacts r = sum_list (map (\<lambda>e. length (se_missing_paths e)) (sp_items r))"

definition sp_audit_coverage_missing :: "scope_report \<Rightarrow> nat" where
  "sp_audit_coverage_missing r = length (filter (\<lambda>e. \<not> se_audit_covered e) (sp_items r))"

definition build_release_scope_report :: "release_tree \<Rightarrow> scope_report" where
  "build_release_scope_report tree =
     (let entries = map (render_item tree) (rl_items tree);
          plan_requirements = load_first_release_requirements tree;
          failures = concat (map entry_failures entries)
            @ (if map (si_requirement \<circ> se_item) entries \<noteq> plan_requirements
               then [''first_release_scope:plan_verifier_requirement_mismatch''] else []) in
      \<lparr>sp_passed = (failures = []),
       sp_release_ready = (failures = [] \<and> list_all (\<lambda>e. si_status (se_item e) = Local_Complete) entries),
       sp_status_counts = sorted_counts (map (scope_status_str \<circ> si_status \<circ> se_item) entries),
       sp_plan_requirements = plan_requirements, sp_first_release_exclusions = load_first_release_exclusions tree,
       sp_items = entries, sp_failures = failures\<rparr>)"

lemma release_scope_entries:
  assumes "sp_passed (build_release_scope_report tree)" and "e \<in> set (sp_items (build_release_scope_report tree))"
  shows "se_missing_paths e = [] \<and> se_audit_covered e"
proof -
  from assms have "entry_failures e = []" by (auto simp: build_release_scope_report_def Let_def)
  then show ?thesis by (auto simp: entry_failures_def Let_def split: if_splits)
qed

end
