(* ===== verification/Goal_Completion.thy ===== *)
theory Goal_Completion
  imports Readiness Release_Scope
begin

text \<open>
  \<open>ops/rehearsal/check_goal_completion.py\<close> with the commands of \<open>final_validation_commands.py\<close>: the audit of the
  release goal, over the report on the release scope and the readiness report. It lists what blocks the goal
  and the artifacts behind each criterion.
\<close>

section \<open>Blockers\<close>

record blocker =
  bl_blocker_id :: string
  bl_status :: string
  bl_summary :: string
  bl_next_action :: string

definition readiness_dependencies :: "(string, string list) dict" where
  "readiness_dependencies = [
     (''jira_incremental_sync'', [''company_jira_sandbox_rehearsal'']),
     (''model_gateway_prompt_registry'', [''model_gateway_profile'', ''company_model_gateway_rehearsal'']),
     (''llm_assisted_suggestions'', [''company_model_gateway_rehearsal'']),
     (''sso_rbac_basic'', [''trusted_proxy_auth'', ''trusted_proxy_rbac_rehearsal''])]"

definition dependencies_of :: "string \<Rightarrow> string list" where
  "dependencies_of item_id = (case dget readiness_dependencies item_id of None \<Rightarrow> [] | Some ds \<Rightarrow> ds)"

definition status_by_id :: "readiness_check list \<Rightarrow> string \<Rightarrow> check_status option" where
  "status_by_id checks i = dget (dict_of (map (\<lambda>c. (rc_check_id c, rc_status c)) checks)) i"

definition unresolved_dependencies :: "readiness_check list \<Rightarrow> scope_entry \<Rightarrow> string list" where
  "unresolved_dependencies checks e =
     filter (\<lambda>d. status_by_id checks d \<noteq> Some CS_Passed) (dependencies_of (si_item_id (se_item e)))"

definition company_blockers :: "readiness_check list \<Rightarrow> scope_entry \<Rightarrow> blocker list" where
  "company_blockers checks e =
     (let item = se_item e; dependencies = dependencies_of (si_item_id item) in
      if si_status item \<noteq> Local_Complete \<and> (unresolved_dependencies checks e \<noteq> [] \<or> dependencies = [])
      then [\<lparr>bl_blocker_id = ''release_scope:'' @ si_item_id item, bl_status = scope_status_str (si_status item),
        bl_summary = si_notes item @ '' Required readiness checks: '' @ str_or (py_join '', '' dependencies) ''<unmapped>'' @ ''.'',
        bl_next_action = ''Collect company/staging evidence for this first-release item.''\<rparr>]
      else [])"

definition local_scope_blockers :: "scope_entry \<Rightarrow> blocker list" where
  "local_scope_blockers e =
     (let i = ''release_scope:'' @ si_item_id (se_item e) in
      map (\<lambda>path. \<lparr>bl_blocker_id = i @ '':missing_path'', bl_status = ''failed'', bl_summary = path,
        bl_next_action = ''Restore the missing release-scope artifact.''\<rparr>) (se_missing_paths e)
      @ (if \<not> se_audit_covered e
         then [\<lparr>bl_blocker_id = i @ '':audit_coverage'', bl_status = ''failed'', bl_summary = ''Completion audit marker is missing.'',
           bl_next_action = ''Update completion audit coverage for this item.''\<rparr>]
         else []))"

definition release_scope_blockers :: "scope_report \<Rightarrow> readiness_check list \<Rightarrow> blocker list" where
  "release_scope_blockers scope checks =
     concat (map (\<lambda>e. company_blockers checks e @ local_scope_blockers e) (sp_items scope))"

definition readiness_blocker :: "readiness_check \<Rightarrow> blocker" where
  "readiness_blocker c = \<lparr>bl_blocker_id = ''production_readiness:'' @ rc_check_id c, bl_status = check_status_str (rc_status c),
     bl_summary = rc_summary c, bl_next_action = opt_str_or (rc_next_action c) ''Review the production readiness gate.''\<rparr>"

definition production_readiness_blockers :: "readiness_report \<Rightarrow> blocker list" where
  "production_readiness_blockers r = map readiness_blocker (filter (\<lambda>c. rc_status c \<noteq> CS_Passed) (rp_checks r))"

section \<open>The checklist\<close>

definition final_validation_commands :: "string list" where
  "final_validation_commands = [
     ''uv run python ops/rehearsal/check_production_readiness.py --run-local-gates --env-file <staging.env> --evidence-file <reviewed-evidence.json>'',
     ''uv run python ops/rehearsal/check_goal_completion.py --env-file <staging.env> --evidence-file <reviewed-evidence.json> --run-local-gates'',
     ''uv run python ops/rehearsal/build_handoff_bundle.py --env-file <staging.env> --evidence-file <reviewed-evidence.json> --run-local-gates --output-dir <handoff-bundle-dir>'',
     ''uv run python ops/rehearsal/validate_handoff_bundle.py <handoff-bundle-dir>'',
     ''uv run python ops/rehearsal/assert_local_handoff_complete.py <handoff-bundle-dir>'']"

record checklist_item =
  cl_criterion_id :: string
  cl_requirement :: string
  cl_status :: string
  cl_artifacts :: "string list"
  cl_commands :: "string list"
  cl_details :: jobj  \<comment> \<open>the entries only some criteria have\<close>
  cl_gaps :: "string list"
  cl_missing_artifacts :: "string list"

definition local_regression_gate_artifacts :: "string list" where
  "local_regression_gate_artifacts = sorted_set ([''.github/workflows/ci.yml'', ''ops/rehearsal/check_production_readiness.py'']
     @ filter (suffix ''.py'') (concat local_gate_commands))"

definition company_readiness_artifacts :: "string list" where
  "company_readiness_artifacts = [''.env.example'', ''ops/rehearsal/production_readiness_evidence.example.json'',
     ''ops/rehearsal/build_staging_evidence_plan.py'', ''ops/rehearsal/check_production_readiness.py'',
     ''ops/rehearsal/check_goal_completion.py'', ''ops/rehearsal/build_handoff_bundle.py'',
     ''ops/rehearsal/final_validation_commands.py'', ''ops/rehearsal/validate_handoff_bundle.py'',
     ''ops/rehearsal/assert_local_handoff_complete.py'', ''README.md'', ''README_ubuntu.md'',
     ''docs/implementation/09_LOCAL_HANDOFF_COMPLETION.md'']"

definition scope_item_json :: "scope_entry \<Rightarrow> json" where
  "scope_item_json e = JObj [(''item_id'', JStr (si_item_id (se_item e))), (''requirement'', JStr (si_requirement (se_item e))),
     (''status'', JStr (scope_status_str (si_status (se_item e)))), (''audit_covered'', JBool (se_audit_covered e)),
     (''missing_paths'', jstrs (se_missing_paths e)), (''evidence_paths'', jstrs (si_evidence_paths (se_item e))),
     (''verification_artifact_paths'', jstrs (se_verification_artifact_paths e)), (''artifact_paths'', jstrs (se_artifact_paths e)),
     (''verification_commands'', jstrs (si_verification_commands (se_item e)))]"

definition open_check_json :: "readiness_check \<Rightarrow> json" where
  "open_check_json c = JObj [(''check_id'', JStr (rc_check_id c)), (''status'', JStr (check_status_str (rc_status c))),
     (''summary'', JStr (rc_summary c)), (''next_action'', jopt (rc_next_action c))]"

definition gap_ids :: "(string \<Rightarrow> bool) \<Rightarrow> blocker list \<Rightarrow> string list" where
  \<comment> \<open>the sorted set of the ids of some blockers\<close>
  "gap_ids P blockers = filter P (sorted_set (map bl_blocker_id blockers))"

definition pass_or :: "string \<Rightarrow> bool \<Rightarrow> string" where
  "pass_or other b = (if b then ''passed'' else other)"

definition plan_criterion :: "scope_report \<Rightarrow> checklist_item" where
  "plan_criterion scope = \<lparr>cl_criterion_id = ''production_plan_source_of_truth'',
     cl_requirement = ''Use PRODUCTION_EXECUTION_PLAN.md as the source of truth.'',
     cl_status = pass_or ''failed'' (sp_plan_requirements scope \<noteq> []), cl_artifacts = [''PRODUCTION_EXECUTION_PLAN.md''],
     cl_commands = [''uv run python ops/rehearsal/validate_release_scope_artifacts.py''],
     cl_details = [(''evidence'', jstrs [''plan_requirement_count='' @ str_nat (length (sp_plan_requirements scope)),
       ''release-scope verifier parses first-release required-scope bullets''])],
     cl_gaps = (if sp_plan_requirements scope \<noteq> [] then [] else [''plan_requirements_missing'']), cl_missing_artifacts = []\<rparr>"

definition artifacts_criterion :: "scope_report \<Rightarrow> blocker list \<Rightarrow> checklist_item" where
  "artifacts_criterion scope blockers = \<lparr>cl_criterion_id = ''first_release_scope_artifacts'',
     cl_requirement = ''Map every first-release scope item to concrete artifacts and commands.'',
     cl_status = pass_or ''failed'' (sp_passed scope), cl_artifacts = sorted_set (concat (map se_artifact_paths (sp_items scope))),
     cl_commands = sorted_set (concat (map (si_verification_commands \<circ> se_item) (sp_items scope))),
     cl_details = [(''scope_items'', JList (map scope_item_json (sp_items scope))),
       (''first_release_exclusions'', jstrs (sp_first_release_exclusions scope))],
     cl_gaps = gap_ids (prefix ''release_scope:'') blockers, cl_missing_artifacts = []\<rparr>"

definition coverage_criterion :: "scope_report \<Rightarrow> blocker list \<Rightarrow> checklist_item" where
  "coverage_criterion scope blockers = \<lparr>cl_criterion_id = ''completion_audit_coverage'',
     cl_requirement = ''Cover every first-release item in the completion audit.'',
     cl_status = pass_or ''failed'' (sp_audit_coverage_missing scope = 0),
     cl_artifacts = [''docs/implementation/08_CURRENT_STATE_AND_COMPLETION_AUDIT.md''],
     cl_commands = [''uv run python ops/rehearsal/validate_release_scope_artifacts.py''],
     cl_details = [(''evidence'', jstrs [''audit_coverage_missing='' @ str_nat (sp_audit_coverage_missing scope),
       ''item_count='' @ str_nat (length (sp_items scope))])],
     cl_gaps = gap_ids (suffix '':audit_coverage'') blockers, cl_missing_artifacts = []\<rparr>"

definition regression_criterion :: "readiness_report \<Rightarrow> readiness_check \<Rightarrow> checklist_item" where
  "regression_criterion readiness gate = \<lparr>cl_criterion_id = ''local_regression_gates'',
     cl_requirement = ''Run deterministic local regression and release gates.'', cl_status = check_status_str (rc_status gate),
     cl_artifacts = local_regression_gate_artifacts, cl_commands = rp_local_gate_commands readiness,
     cl_details = [(''evidence'', jstrs (rc_evidence gate))],
     cl_gaps = (if rc_status gate = CS_Passed then [] else [''production_readiness:local_regression_gates'']),
     cl_missing_artifacts = []\<rparr>"

definition staging_criterion :: "readiness_report \<Rightarrow> blocker list \<Rightarrow> checklist_item" where
  "staging_criterion readiness blockers = \<lparr>cl_criterion_id = ''company_staging_readiness'',
     cl_requirement = ''Pass company/staging environment and reviewed manual-evidence gates.'',
     cl_status = pass_or ''blocked'' (rp_passed readiness), cl_artifacts = company_readiness_artifacts,
     cl_commands = ''uv run python ops/rehearsal/build_staging_evidence_plan.py --format markdown'' # final_validation_commands,
     cl_details = [(''checks'', JList (map open_check_json
         (filter (\<lambda>c. prefix ''company_'' (rc_check_id c) \<or> rc_status c \<noteq> CS_Passed) (rp_checks readiness)))),
       (''evidence'', jstrs [''manual_evidence_count='' @ str_nat (rp_manual_evidence_count readiness),
         ''failed='' @ str_nat (cn_failed (rp_summary readiness)),
         ''manual_required='' @ str_nat (cn_manual_required (rp_summary readiness)),
         ''warning='' @ str_nat (cn_warning (rp_summary readiness))])],
     cl_gaps = gap_ids (prefix ''production_readiness:'') blockers, cl_missing_artifacts = []\<rparr>"

definition ci_criterion :: checklist_item where
  "ci_criterion = \<lparr>cl_criterion_id = ''ci_release_gates'',
     cl_requirement = ''Keep deterministic release gates covered in GitHub Actions.'', cl_status = ''passed'',
     cl_artifacts = [''.github/workflows/ci.yml'', ''ops/rehearsal/validate_ci_gate_coverage.py''],
     cl_commands = [''uv run python ops/rehearsal/validate_ci_gate_coverage.py''],
     cl_details = [(''evidence'', jstrs [''CI workflow runs deterministic local release gates'',
       ''Docker-backed and company/staging gates remain explicitly documented omissions''])],
     cl_gaps = [], cl_missing_artifacts = []\<rparr>"

definition prompt_to_artifact_checklist :: "scope_report \<Rightarrow> readiness_report \<Rightarrow> blocker list \<Rightarrow> checklist_item list result" where
  "prompt_to_artifact_checklist scope readiness blockers =
     (case dget (dict_of (map (\<lambda>c. (rc_check_id c, c)) (rp_checks readiness))) ''local_regression_gates'' of
        None \<Rightarrow> Inl (KeyError ''local_regression_gates'')
      | Some gate \<Rightarrow> Inr [plan_criterion scope, artifacts_criterion scope blockers, coverage_criterion scope blockers,
          regression_criterion readiness gate, staging_criterion readiness blockers, ci_criterion])"

definition missing_artifact_id :: "checklist_item \<Rightarrow> string \<Rightarrow> string" where
  "missing_artifact_id item path = ''prompt_to_artifact:'' @ cl_criterion_id item @ '':missing_artifact:'' @ path"

definition with_artifact_existence :: "release_tree \<Rightarrow> checklist_item \<Rightarrow> checklist_item" where
  "with_artifact_existence tree item =
     (let missing = sort (filter (\<lambda>path. \<not> rl_exists tree path) (cl_artifacts item)) in
      item\<lparr>cl_missing_artifacts := missing, cl_gaps := cl_gaps item @ map (missing_artifact_id item) missing\<rparr>)"

definition prompt_to_artifact_blockers :: "checklist_item list \<Rightarrow> blocker list" where
  "prompt_to_artifact_blockers checklist = concat (map (\<lambda>item. map (\<lambda>path.
       \<lparr>bl_blocker_id = missing_artifact_id item path, bl_status = ''failed'',
        bl_summary = ''Prompt-to-artifact checklist path is missing: '' @ path,
        bl_next_action = ''Restore the missing artifact or update the checklist.''\<rparr>) (cl_missing_artifacts item)) checklist)"

section \<open>The audit\<close>

record goal_report =
  gl_scope :: scope_report
  gl_readiness :: readiness_report
  gl_scope_goal_ready :: bool
  gl_checklist :: "checklist_item list"
  gl_remaining_blockers :: "blocker list"
  gl_goal_complete :: bool

definition goal_completion_audit :: "release_tree \<Rightarrow> scope_report \<Rightarrow> readiness_report \<Rightarrow> goal_report result" where
  "goal_completion_audit tree scope readiness =
     (let scope_blockers = release_scope_blockers scope (rp_checks readiness);
          blockers = scope_blockers @ production_readiness_blockers readiness;
          scope_goal_ready = (sp_passed scope \<and> scope_blockers = []) in
      rbind (prompt_to_artifact_checklist scope readiness blockers) (\<lambda>checklist.
      let checklist = map (with_artifact_existence tree) checklist;
          remaining = blockers @ prompt_to_artifact_blockers checklist in
      Inr \<lparr>gl_scope = scope, gl_readiness = readiness, gl_scope_goal_ready = scope_goal_ready, gl_checklist = checklist,
        gl_remaining_blockers = remaining,
        gl_goal_complete = (scope_goal_ready \<and> rp_passed readiness \<and> remaining = [])\<rparr>))"

definition build_goal_completion_audit :: "release_tree \<Rightarrow> environment \<Rightarrow> gate_executor option \<Rightarrow> manual_evidence list \<Rightarrow>
    goal_report result" where
  "build_goal_completion_audit tree env gates manual_evidence =
     goal_completion_audit tree (build_release_scope_report tree) (build_readiness_report env gates manual_evidence)"

definition requires_company_or_staging_evidence :: "blocker \<Rightarrow> bool" where
  "requires_company_or_staging_evidence b =
     (bl_status b = ''company_evidence_required''
      \<or> prefix ''production_readiness:'' (bl_blocker_id b) \<and> bl_blocker_id b \<noteq> ''production_readiness:local_regression_gates'')"

definition local_action_blockers :: "blocker list \<Rightarrow> string list" where
  "local_action_blockers blockers = map bl_blocker_id (filter (\<lambda>b. \<not> requires_company_or_staging_evidence b) blockers)"

definition company_or_staging_count :: "blocker list \<Rightarrow> nat" where
  "company_or_staging_count blockers = length (filter requires_company_or_staging_evidence blockers)"

section \<open>The audit as a JSON value\<close>

definition jnat :: "nat \<Rightarrow> json" where
  "jnat n = JInt (int n)"

definition jcounts :: "(string \<times> nat) list \<Rightarrow> json" where
  "jcounts cs = JObj (map (\<lambda>(k, n). (k, jnat n)) cs)"

definition blocker_summary :: "blocker list \<Rightarrow> json" where
  "blocker_summary blockers = JObj [
     (''company_or_staging_evidence_required'', jnat (company_or_staging_count blockers)),
     (''local_action_required'', jnat (length (local_action_blockers blockers))),
     (''by_status'', jcounts (sorted_counts (map bl_status blockers))),
     (''local_action_blockers'', jstrs (sort (local_action_blockers blockers)))]"

definition blocker_json :: "blocker \<Rightarrow> json" where
  "blocker_json b = JObj [(''blocker_id'', JStr (bl_blocker_id b)), (''status'', JStr (bl_status b)),
     (''summary'', JStr (bl_summary b)), (''next_action'', JStr (bl_next_action b))]"

definition checklist_json :: "checklist_item \<Rightarrow> json" where
  "checklist_json i = JObj ([(''criterion_id'', JStr (cl_criterion_id i)), (''requirement'', JStr (cl_requirement i)),
     (''status'', JStr (cl_status i)), (''artifacts'', jstrs (cl_artifacts i)), (''commands'', jstrs (cl_commands i))]
     @ cl_details i @ [(''gaps'', jstrs (cl_gaps i)), (''missing_artifacts'', jstrs (cl_missing_artifacts i))])"

definition success_criteria :: "json list" where
  "success_criteria = map (\<lambda>(i, d). JObj [(''criterion_id'', JStr i), (''description'', JStr d)]) [
     (''production_plan_source_of_truth'', ''PRODUCTION_EXECUTION_PLAN.md is the source of truth.''),
     (''first_release_scope_artifacts'', ''Every first-release scope item has artifacts and verification commands.''),
     (''completion_audit_coverage'', ''Every first-release item is covered in the completion audit.''),
     (''local_regression_gates'', ''Deterministic local regression and release gates pass.''),
     (''company_staging_readiness'', ''Company/staging environment and manual evidence gates pass.''),
     (''ci_release_gates'', ''GitHub Actions release gates include the deterministic checks.'')]"

definition goal_summary :: "goal_report \<Rightarrow> json" where
  "goal_summary g = JObj [(''success_criteria_count'', jnat (length success_criteria)),
     (''prompt_to_artifact_checklist_count'', jnat (length (gl_checklist g))),
     (''prompt_to_artifact_missing_count'', jnat (sum_list (map (\<lambda>i. length (cl_missing_artifacts i)) (gl_checklist g)))),
     (''remaining_blocker_count'', jnat (length (gl_remaining_blockers g))),
     (''release_scope_passed'', JBool (sp_passed (gl_scope g))), (''release_scope_ready'', JBool (sp_release_ready (gl_scope g))),
     (''release_scope_goal_ready'', JBool (gl_scope_goal_ready g)),
     (''production_readiness_passed'', JBool (rp_passed (gl_readiness g)))]"

definition scope_json :: "goal_report \<Rightarrow> json" where
  "scope_json g = (let scope = gl_scope g in JObj [(''passed'', JBool (sp_passed scope)),
     (''release_ready'', JBool (sp_release_ready scope)), (''goal_ready'', JBool (gl_scope_goal_ready g)),
     (''summary'', JObj [(''item_count'', jnat (length (sp_items scope))), (''missing_artifacts'', jnat (sp_missing_artifacts scope)),
        (''audit_coverage_missing'', jnat (sp_audit_coverage_missing scope)), (''status_counts'', jcounts (sp_status_counts scope))]),
     (''first_release_exclusions'', jstrs (sp_first_release_exclusions scope))])"

definition goal_json :: "release_tree \<Rightarrow> goal_report \<Rightarrow> jobj" where
  "goal_json tree g = [(''schema_version'', JStr ''v1''), (''objective'', JStr (rl_objective tree)),
     (''goal_complete'', JBool (gl_goal_complete g)), (''summary'', goal_summary g),
     (''blocker_summary'', blocker_summary (gl_remaining_blockers g)), (''success_criteria'', JList success_criteria),
     (''prompt_to_artifact_checklist'', JList (map checklist_json (gl_checklist g))), (''release_scope'', scope_json g),
     (''production_readiness'', JObj [(''passed'', JBool (rp_passed (gl_readiness g))), (''summary'', counts_json (rp_summary (gl_readiness g))),
        (''manual_evidence_count'', jnat (rp_manual_evidence_count (gl_readiness g)))]),
     (''remaining_blockers'', JList (map blocker_json (gl_remaining_blockers g)))]"

section \<open>When the goal is complete\<close>

lemma known_gate_status:
  assumes "rp_passed (build_readiness_report env gates evidence)" and "i \<in> set known_gates"
  shows "status_by_id (rp_checks (build_readiness_report env gates evidence)) i = Some CS_Passed"
proof -
  let ?checks = "rp_checks (build_readiness_report env gates evidence)"
  from assms(2) report_has_gates have "i \<in> rc_check_id ` set ?checks" by blast
  with dict_of_map(1) [of rc_check_id rc_status ?checks i] obtain s where s: "status_by_id ?checks i = Some s"
    unfolding status_by_id_def by blast
  with dict_of_map(2) [of rc_check_id rc_status ?checks i s] obtain c where "c \<in> set ?checks" "rc_status c = s"
    unfolding status_by_id_def by blast
  with assms(1) have "s = CS_Passed" unfolding report_passed_iff report_checks by blast
  with s show ?thesis by simp
qed

lemma dependencies_known: "set (dependencies_of i) \<subseteq> set known_gates"
proof -
  have "list_all (\<lambda>(_, ds). list_all (\<lambda>d. d \<in> set known_gates) ds) readiness_dependencies" by code_simp
  then show ?thesis
    by (cases "dget readiness_dependencies i") (force simp: dependencies_of_def list_all_iff dest: map_of_SomeD)+
qed

lemma ready_scope_blockers:
  assumes "rp_passed (build_readiness_report env gates evidence)" and "sp_passed (build_release_scope_report tree)"
  shows "release_scope_blockers (build_release_scope_report tree) (rp_checks (build_readiness_report env gates evidence)) = []
    \<longleftrightarrow> (\<forall>item\<in>set (rl_items tree). si_status item = Local_Complete \<or> dependencies_of (si_item_id item) \<noteq> [])"
proof -
  let ?checks = "rp_checks (build_readiness_report env gates evidence)"
  have "unresolved_dependencies ?checks e = []" for e
    using known_gate_status [OF assms(1)] dependencies_known by (auto simp: unresolved_dependencies_def filter_empty_conv)
  then have company: "company_blockers ?checks e = [] \<longleftrightarrow> si_status (se_item e) = Local_Complete \<or> dependencies_of (si_item_id (se_item e)) \<noteq> []" for e
    by (simp add: company_blockers_def Let_def)
  have locally: "local_scope_blockers e = []" if "e \<in> set (sp_items (build_release_scope_report tree))" for e
    using release_scope_entries [OF assms(2) that] by (simp add: local_scope_blockers_def Let_def)
  have items: "set (sp_items (build_release_scope_report tree)) = render_item tree ` set (rl_items tree)"
    by (simp add: build_release_scope_report_def Let_def)
  have "release_scope_blockers (build_release_scope_report tree) ?checks = []
      \<longleftrightarrow> (\<forall>e\<in>set (sp_items (build_release_scope_report tree)). company_blockers ?checks e = [])"
    using locally by (auto simp: release_scope_blockers_def)
  also have "\<dots> \<longleftrightarrow> (\<forall>item\<in>set (rl_items tree). si_status item = Local_Complete \<or> dependencies_of (si_item_id item) \<noteq> [])"
    unfolding company items by (simp add: render_item_def Let_def)
  finally show ?thesis .
qed

definition goal_artifacts :: "string set" where
  \<comment> \<open>what the criteria name, besides the artifacts of the items\<close>
  "goal_artifacts = {''PRODUCTION_EXECUTION_PLAN.md'', ''docs/implementation/08_CURRENT_STATE_AND_COMPLETION_AUDIT.md'',
     ''.github/workflows/ci.yml'', ''ops/rehearsal/validate_ci_gate_coverage.py''}
     \<union> set local_regression_gate_artifacts \<union> set company_readiness_artifacts"

lemma local_gate_found: "\<exists>gate. dget (dict_of (map (\<lambda>c. (rc_check_id c, c)) (rp_checks (build_readiness_report env gates evidence))))
    ''local_regression_gates'' = Some gate"
proof -
  have "''local_regression_gates'' \<in> set known_gates" by (simp add: known_gates_def)
  with report_has_gates show ?thesis unfolding dict_of_map(1) [of rc_check_id "\<lambda>c. c"] by blast
qed

lemma missing_blockers_Nil: "prompt_to_artifact_blockers (map (with_artifact_existence tree) items) = []
    \<longleftrightarrow> (\<forall>i\<in>set items. \<forall>a\<in>set (cl_artifacts i). rl_exists tree a)"
proof -
  have "sort xs = [] \<longleftrightarrow> xs = []" for xs :: "string list" by (metis length_0_conv length_sort)
  then show ?thesis
    by (auto simp: prompt_to_artifact_blockers_def with_artifact_existence_def Let_def filter_empty_conv)
qed


lemma blockers_split: "company_or_staging_count bs + length (local_action_blockers bs) = length bs"
  using sum_length_filter_compl [of requires_company_or_staging_evidence bs]
  by (simp add: company_or_staging_count_def local_action_blockers_def)

end
