(* ===== verification/Staging_Plan.thy ===== *)
theory Staging_Plan
  imports Goal_Completion
begin

text \<open>
  \<open>ops/rehearsal/build_staging_evidence_plan.py\<close>: what is left to collect before a release, gate by gate, as a
  value and as a Markdown text. The time of generation is an argument.
\<close>

record gate_guidance =
  gg_required_env :: "string list"
  gg_commands :: "string list"
  gg_required_evidence :: "string list"
  gg_docs :: "string list"

definition gate_guidances :: "(string, gate_guidance) dict" where
  "gate_guidances = [
     (''postgres_state_store'', \<lparr>gg_required_env = [''STATE_STORE=postgres'', ''POSTGRES_DSN''],
        gg_commands = [''uv run python ops/rehearsal/check_production_readiness.py''],
        gg_required_evidence = [''masked readiness report showing postgres_state_store passed''],
        gg_docs = [''README_ubuntu.md#production-readiness'']\<rparr>),
     (''neo4j_graph_backend'', \<lparr>gg_required_env = [''GRAPH_BACKEND=neo4j'', ''NEO4J_URI'', ''NEO4J_USERNAME'', ''NEO4J_PASSWORD''],
        gg_commands = [''uv run python ops/rehearsal/check_production_readiness.py''],
        gg_required_evidence = [''masked readiness report showing neo4j_graph_backend passed''],
        gg_docs = [''README_ubuntu.md#production-readiness'']\<rparr>),
     (''qdrant_vector_backend'', \<lparr>gg_required_env = [''VECTOR_BACKEND=qdrant'', ''QDRANT_URL'', ''QDRANT_COLLECTION''],
        gg_commands = [''uv run python ops/rehearsal/check_production_readiness.py''],
        gg_required_evidence = [''masked readiness report showing qdrant_vector_backend passed''],
        gg_docs = [''README_ubuntu.md#production-readiness'']\<rparr>),
     (''model_gateway_profile'', \<lparr>gg_required_env = [''MODEL_GATEWAY_MODE=http_json'', ''MODEL_GATEWAY_ENDPOINT_URL''],
        gg_commands = [''uv run python ops/model_gateway/rehearse_model_gateway.py''],
        gg_required_evidence = [''masked model gateway rehearsal JSON''],
        gg_docs = [''docs/runbooks/MODEL_POLICY.md'']\<rparr>),
     (''trusted_proxy_auth'', \<lparr>gg_required_env = [''AUTH_MODE=trusted_proxy'', ''TRUSTED_PROXY_SECRET'', ''TRUSTED_GROUP_ROLE_MAP''],
        gg_commands = [''uv run python ops/security/rehearse_trusted_proxy_auth.py''],
        gg_required_evidence = [''masked trusted-proxy rehearsal JSON''],
        gg_docs = [''docs/security/RBAC_MATRIX.md'', ''README_ubuntu.md#production-readiness'']\<rparr>),
     (''artifact_storage'', \<lparr>gg_required_env = [''ARTIFACT_ROOT''],
        gg_commands = [''uv run python ops/rehearsal/check_production_readiness.py''],
        gg_required_evidence = [''masked readiness report showing artifact_storage passed''],
        gg_docs = [''README_ubuntu.md#production-readiness'', ''docs/runbooks/BACKUP_RESTORE.md'']\<rparr>),
     (''opentelemetry_export'', \<lparr>gg_required_env = [''OTEL_ENABLED=true'', ''OTEL_EXPORTER_OTLP_ENDPOINT''],
        gg_commands = [''uv run python ops/observability/validate_observability_assets.py'', ''uv run python ops/rehearsal/check_production_readiness.py''],
        gg_required_evidence = [''collector endpoint proof'', ''masked readiness report''],
        gg_docs = [''README_ubuntu.md#production-readiness'']\<rparr>),
     (''company_postgres_rehearsal'', \<lparr>gg_required_env = [''POSTGRES_TEST_DSN or POSTGRES_DSN''],
        gg_commands = [''uv run pytest tests/integration/test_postgres_state_store.py'', ''uv run python ops/rehearsal/run_full_stack_rehearsal.py''],
        gg_required_evidence = [''reviewed staging PostgreSQL test run id or JSON artifact''],
        gg_docs = [''docs/runbooks/BACKUP_RESTORE.md'']\<rparr>),
     (''company_neo4j_rehearsal'', \<lparr>gg_required_env = [''NEO4J_TEST_URI or NEO4J_URI'', ''NEO4J_USERNAME'', ''NEO4J_PASSWORD''],
        gg_commands = [''uv run pytest tests/integration/test_neo4j_graph_backend.py'', ''uv run python ops/rehearsal/run_full_stack_rehearsal.py''],
        gg_required_evidence = [''reviewed staging Neo4j test run id or JSON artifact''],
        gg_docs = [''README_ubuntu.md#production-readiness'', ''docs/runbooks/BACKUP_RESTORE.md'']\<rparr>),
     (''company_qdrant_rehearsal'', \<lparr>gg_required_env = [''QDRANT_TEST_URL or QDRANT_URL'', ''QDRANT_COLLECTION''],
        gg_commands = [''uv run pytest tests/integration/test_qdrant_vector_backend.py'', ''uv run python ops/rehearsal/run_full_stack_rehearsal.py''],
        gg_required_evidence = [''reviewed staging Qdrant test run id or JSON artifact''],
        gg_docs = [''README_ubuntu.md#production-readiness'', ''docs/runbooks/BACKUP_RESTORE.md'']\<rparr>),
     (''company_model_gateway_rehearsal'', \<lparr>gg_required_env = [''MODEL_GATEWAY_ENDPOINT_URL'', ''MODEL_GATEWAY_API_KEY if required''],
        gg_commands = [''uv run python ops/model_gateway/rehearse_model_gateway.py''],
        gg_required_evidence = [''masked model gateway rehearsal JSON''],
        gg_docs = [''docs/runbooks/MODEL_POLICY.md'']\<rparr>),
     (''company_jira_sandbox_rehearsal'', \<lparr>gg_required_env = [''JIRA_BASE_URL'', ''JIRA_TOKEN or JIRA_API_TOKEN'', ''JIRA_PROJECT_KEY''],
        gg_commands = [''uv run python ops/source/rehearse_company_sources.py --source jira''],
        gg_required_evidence = [''masked JIRA rehearsal JSON with artifact shape summaries''],
        gg_docs = [''docs/implementation/06_CLAUDE_CODE_SKILLS_AND_MCP_DESIGN.md'']\<rparr>),
     (''company_confluence_sandbox_rehearsal'', \<lparr>gg_required_env = [''CONFLUENCE_BASE_URL'', ''CONFLUENCE_TOKEN or CONFLUENCE_API_TOKEN'', ''CONFLUENCE_SPACE_KEY''],
        gg_commands = [''uv run python ops/source/rehearse_company_sources.py --source confluence''],
        gg_required_evidence = [''masked Confluence rehearsal JSON with section/table evidence''],
        gg_docs = [''docs/implementation/06_CLAUDE_CODE_SKILLS_AND_MCP_DESIGN.md'']\<rparr>),
     (''company_email_policy_rehearsal'', \<lparr>gg_required_env = [''RUNE_EMAIL_EXPORT_PATH''],
        gg_commands = [''uv run python ops/source/rehearse_decision_email_export.py''],
        gg_required_evidence = [''approved decision/email export rehearsal JSON''],
        gg_docs = [''docs/security/DATA_POLICY.md'', ''docs/implementation/06_CLAUDE_CODE_SKILLS_AND_MCP_DESIGN.md'']\<rparr>),
     (''backup_restore_load_rehearsal'', \<lparr>gg_required_env = [''BACKUP_ROOT'', ''RUNE_API_BASE_URL for load smoke''],
        gg_commands = [''uv run python ops/backup/verify_backup_set.py --backup-root <BACKUP_ROOT>'', ''uv run python ops/load/smoke_load.py --base-url <RUNE_API_BASE_URL>''],
        gg_required_evidence = [''backup verification JSON'', ''restore log reference'', ''load smoke JSON''],
        gg_docs = [''docs/runbooks/BACKUP_RESTORE.md'']\<rparr>),
     (''observability_dashboard_rehearsal'', \<lparr>gg_required_env = [''PROMETHEUS_BASE_URL'', ''GRAFANA_DASHBOARD_UID''],
        gg_commands = [''uv run python ops/observability/validate_observability_assets.py''],
        gg_required_evidence = [''Prometheus scrape proof'', ''Grafana dashboard import proof''],
        gg_docs = [''README_ubuntu.md#production-readiness'']\<rparr>),
     (''trusted_proxy_rbac_rehearsal'', \<lparr>gg_required_env = [''RUNE_API_BASE_URL'', ''TRUSTED_PROXY_SECRET''],
        gg_commands = [''uv run python ops/security/rehearse_trusted_proxy_auth.py''],
        gg_required_evidence = [''masked trusted-proxy RBAC rehearsal JSON''],
        gg_docs = [''docs/security/RBAC_MATRIX.md'']\<rparr>),
     (''kubernetes_helm_rehearsal'', \<lparr>gg_required_env = [''DEPLOYMENT_TARGET=kubernetes'', ''KUBERNETES_DEPLOYMENT=true''],
        gg_commands = [''helm lint ops/helm/rune-agent'', ''helm template rune-agent ops/helm/rune-agent -f <company-values.yaml>''],
        gg_required_evidence = [''reviewed helm lint/template output reference''],
        gg_docs = [''ops/helm/README.md'']\<rparr>),
     (''local_regression_gates'', \<lparr>gg_required_env = [],
        gg_commands = [''uv run python ops/rehearsal/check_production_readiness.py --run-local-gates''],
        gg_required_evidence = [''local gate report showing local_regression_gates passed''],
        gg_docs = [''README_ubuntu.md#production-readiness'']\<rparr>)]"

definition guidance_for :: "string \<Rightarrow> gate_guidance" where
  "guidance_for check_id = (case dget gate_guidances check_id of Some g \<Rightarrow> g
     | None \<Rightarrow> \<lparr>gg_required_env = [], gg_commands = [],
         gg_required_evidence = [''reviewed evidence for this readiness check''], gg_docs = []\<rparr>)"

definition mask_entry :: "string \<Rightarrow> string" where
  "mask_entry value = (case py_partition (CHR ''='') value of
       Some (key, rest) \<Rightarrow> if rest \<notin> {''<unset>'', ''<set>''} then key @ ''=<set>'' else value
     | None \<Rightarrow> value)"

definition missing_env_key :: "string \<Rightarrow> string option" where
  "missing_env_key value = (case py_partition (CHR ''='') value of
       Some (key, rest) \<Rightarrow> if rest = ''<unset>'' \<and> key \<noteq> [] then Some key else None
     | None \<Rightarrow> None)"

definition missing_env_from_evidence :: "string list \<Rightarrow> string list" where
  "missing_env_from_evidence values = sorted_set (List.map_filter missing_env_key values)"

record gate_plan =
  gp_check_id :: string
  gp_status :: check_status
  gp_summary :: string
  gp_next_action :: "string option"
  gp_current_evidence :: "string list"
  gp_missing_env :: "string list"
  gp_guidance :: gate_guidance

definition gate_plan_of :: "readiness_check \<Rightarrow> gate_plan" where
  "gate_plan_of c = \<lparr>gp_check_id = rc_check_id c, gp_status = rc_status c, gp_summary = rc_summary c,
     gp_next_action = rc_next_action c, gp_current_evidence = map mask_entry (rc_evidence c),
     gp_missing_env = missing_env_from_evidence (rc_evidence c), gp_guidance = guidance_for (rc_check_id c)\<rparr>"

record staging_plan =
  pl_generated_at :: string
  pl_missing_env :: "string list"
  pl_summary :: check_counts
  pl_gates :: "gate_plan list"

definition build_staging_evidence_plan :: "string \<Rightarrow> environment \<Rightarrow> gate_executor option \<Rightarrow> manual_evidence list \<Rightarrow> staging_plan" where
  "build_staging_evidence_plan now env gates manual_evidence =
     (let report = build_readiness_report env gates manual_evidence;
          plans = map gate_plan_of (filter (\<lambda>c. rc_status c \<noteq> CS_Passed) (rp_checks report)) in
      \<lparr>pl_generated_at = now, pl_missing_env = sorted_set (concat (map gp_missing_env plans)),
       pl_summary = rp_summary report, pl_gates = plans\<rparr>)"

section \<open>Markdown\<close>

definition code_quoted :: "string \<Rightarrow> string" where
  "code_quoted s = CHR 0x60 # s @ [CHR 0x60]"

definition inline_list :: "string list \<Rightarrow> string" where
  "inline_list values = (if values = [] then code_quoted ''none'' else py_join '', '' (map code_quoted values))"

definition gate_lines :: "gate_plan \<Rightarrow> string list" where
  "gate_lines g = [''## '' @ gp_check_id g, [],
       ''- Status: '' @ code_quoted (check_status_str (gp_status g)),
       ''- Summary: '' @ gp_summary g,
       ''- Next action: '' @ opt_str_or (gp_next_action g) ''review the gate summary'',
       ''- Missing env: '' @ inline_list (gp_missing_env g),
       ''- Required env: '' @ inline_list (gg_required_env (gp_guidance g)), ''- Commands:'']
     @ map (\<lambda>command. ''  - '' @ code_quoted command) (gg_commands (gp_guidance g))
     @ [''- Required evidence: '' @ inline_list (gg_required_evidence (gp_guidance g)),
        ''- Docs: '' @ inline_list (gg_docs (gp_guidance g)), []]"

definition head_lines :: "host \<Rightarrow> staging_plan \<Rightarrow> string list" where
  "head_lines h plan = [''# Staging Evidence Collection Plan'', [],
       ''- Generated at: '' @ code_quoted (pl_generated_at plan),
       ''- Unresolved gates: '' @ code_quoted (str_nat (length (pl_gates plan))),
       ''- Missing env total: '' @ code_quoted (str_nat (length (pl_missing_env plan))),
       ''- Summary: '' @ code_quoted (dumps_sorted h (counts_json (pl_summary plan))), [],
       ''## Final Validation'', [], ''After collecting reviewed evidence, run:'', []]
     @ map (\<lambda>command. ''- '' @ code_quoted command) final_validation_commands @ [[]]"

definition render_markdown :: "host \<Rightarrow> staging_plan \<Rightarrow> string" where
  "render_markdown h plan = py_rstrip (py_join [CHR 0x0A] (head_lines h plan @ concat (map gate_lines (pl_gates plan))))"

section \<open>What the plan shows\<close>

lemma partition_split: "py_partition d s = Some (k, r) \<longleftrightarrow> d \<notin> set k \<and> s = k @ d # r"
proof
  assume "py_partition d s = Some (k, r)"
  then have d: "d \<in> set s" "k = takeWhile (\<lambda>c. c \<noteq> d) s" "r = tl (dropWhile (\<lambda>c. c \<noteq> d) s)"
    by (simp_all add: py_partition_def split: if_splits)
  have "dropWhile (\<lambda>c. c \<noteq> d) s \<noteq> []" using d(1) by (auto simp: dropWhile_eq_Nil_conv)
  then have "dropWhile (\<lambda>c. c \<noteq> d) s = d # r" using hd_dropWhile [of "\<lambda>c. c \<noteq> d" s] d(3) by (cases "dropWhile (\<lambda>c. c \<noteq> d) s") auto
  then have "s = k @ d # r" using takeWhile_dropWhile_id [of "\<lambda>c. c \<noteq> d" s] d(2) by simp
  moreover have "d \<notin> set k" using d(2) by (metis set_takeWhileD)
  ultimately show "d \<notin> set k \<and> s = k @ d # r" by simp
next
  assume "d \<notin> set k \<and> s = k @ d # r"
  then have "takeWhile (\<lambda>c. c \<noteq> d) s = k" "dropWhile (\<lambda>c. c \<noteq> d) s = d # r" "d \<in> set s"
    by (auto simp: takeWhile_append dropWhile_append)
  then show "py_partition d s = Some (k, r)" by (simp add: py_partition_def)
qed

lemma masked_entry: "CHR ''='' \<notin> set (mask_entry s) \<or> suffix ''=<set>'' (mask_entry s) \<or> suffix ''=<unset>'' (mask_entry s)"
proof (cases "py_partition (CHR ''='') s")
  case None
  then show ?thesis by (simp add: mask_entry_def py_partition_def split: if_splits)
next
  case (Some kr)
  obtain k r where kr: "kr = (k, r)" by fastforce
  with Some have s: "s = k @ CHR ''='' # r" using partition_split by blast
  show ?thesis
  proof (cases "r \<in> {''<unset>'', ''<set>''}")
    case True
    then have "suffix ''=<unset>'' s \<or> suffix ''=<set>'' s" using s by (auto simp: suffix_def)
    with True Some kr show ?thesis by (auto simp: mask_entry_def)
  next
    case False
    with Some kr show ?thesis by (simp add: mask_entry_def suffix_def)
  qed
qed

text \<open>
  The plan shows of an environment variable only whether it is set, whatever value the evidence of a check named.
\<close>

lemma plan_hides_values:
  assumes "g \<in> set (pl_gates (build_staging_evidence_plan now env gates evidence))" and "e \<in> set (gp_current_evidence g)"
  shows "CHR ''='' \<notin> set e \<or> suffix ''=<set>'' e \<or> suffix ''=<unset>'' e"
proof -
  from assms obtain s where "e = mask_entry s"
    by (auto simp: build_staging_evidence_plan_def gate_plan_of_def Let_def)
  then show ?thesis using masked_entry by simp
qed

end
