(* ===== verification/Json_Text.thy ===== *)
theory Json_Text
  imports JsonHash
begin

text \<open>
  The texts of JSON files: \<open>json.dumps(v, indent=2, sort_keys=True)\<close> and \<open>json.loads\<close>, as the release scripts
  use them, and that the second reads what the first writes. Reading a float is an argument; the constants
  \<open>NaN\<close> and \<open>Infinity\<close> and escapes of code points above 255 have no value in the model, and the limit on the
  digits of an integer is left out.
\<close>

section \<open>Writing\<close>

definition newline_at :: "nat \<Rightarrow> string" where
  "newline_at n = CHR 0x0A # replicate (2 * n) (CHR '' '')"

definition bracketed :: "char \<Rightarrow> char \<Rightarrow> nat \<Rightarrow> string list \<Rightarrow> string" where
  "bracketed opening closing n entries = (if entries = [] then [opening, closing]
     else opening # newline_at (Suc n) @ py_join (CHR '','' # newline_at (Suc n)) entries @ newline_at n @ [closing])"

fun dumps_pretty :: "host \<Rightarrow> nat \<Rightarrow> json \<Rightarrow> string" where
  \<comment> \<open>at a depth\<close>
  "dumps_pretty h n JNull = ''null''"
| "dumps_pretty h n (JBool b) = (if b then ''true'' else ''false'')"
| "dumps_pretty h n (JInt i) = str_int i"
| "dumps_pretty h n (JFloat r) = float_repr h r"
| "dumps_pretty h n (JStr s) = ascii_string s"
| "dumps_pretty h n (JTime t) = ascii_string (dump_time h t)"
| "dumps_pretty h n (JList xs) = bracketed (CHR ''['') (CHR '']'') n (map (dumps_pretty h (Suc n)) xs)"
| "dumps_pretty h n (JObj kvs) = bracketed (CHR ''{'') (CHR ''}'') n
     (map (\<lambda>kt. ascii_string (fst kt) @ '': '' @ snd kt)
       (sort_key fst (map (\<lambda>kv. (fst kv, dumps_pretty h (Suc n) (snd kv))) kvs)))"

section \<open>Reading\<close>

definition is_json_space :: "char \<Rightarrow> bool" where
  "is_json_space c = (cp c \<in> {9, 10, 13, 32})"

definition skip_space :: "string \<Rightarrow> string" where
  "skip_space s = dropWhile is_json_space s"

definition hex_value :: "char \<Rightarrow> nat option" where
  "hex_value c = (let n = cp c in if 48 \<le> n \<and> n \<le> 57 then Some (n - 48) else if 97 \<le> n \<and> n \<le> 102 then Some (n - 87)
     else if 65 \<le> n \<and> n \<le> 70 then Some (n - 55) else None)"

definition hex4 :: "string \<Rightarrow> (char \<times> string) option" where
  \<comment> \<open>four hexadecimal digits of a character of the model\<close>
  "hex4 s = (case map hex_value (take 4 s) of
       [Some 0, Some 0, Some a, Some b] \<Rightarrow> Some (char_of (16 * a + b), drop 4 s) | _ \<Rightarrow> None)"

definition simple_escape :: "char \<Rightarrow> char option" where
  "simple_escape c = (let n = cp c in if n \<in> {34, 92, 47} then Some c else if n = 98 then Some (CHR 0x08)
     else if n = 102 then Some (CHR 0x0C) else if n = 110 then Some (CHR 0x0A) else if n = 114 then Some (CHR 0x0D)
     else if n = 116 then Some (CHR 0x09) else None)"

definition char_read :: "string \<Rightarrow> (char \<times> string) option" where
  \<comment> \<open>one character inside a string\<close>
  "char_read s = (case s of [] \<Rightarrow> None | c # t \<Rightarrow>
     if c = CHR 0x5C then (case t of [] \<Rightarrow> None | e # u \<Rightarrow>
       if e = CHR ''u'' then hex4 u else map_option (\<lambda>x. (x, u)) (simple_escape e))
     else if cp c < 32 then None else Some (c, t))"

function read_chars :: "string \<Rightarrow> (string \<times> string) option" where
  \<comment> \<open>up to the closing quote\<close>
  "read_chars s = (if s \<noteq> [] \<and> hd s = CHR 0x22 then Some ([], tl s)
     else case char_read s of None \<Rightarrow> None
       | Some (x, t) \<Rightarrow> if length t < length s then map_option (\<lambda>(xs, r). (x # xs, r)) (read_chars t) else None)"
  by pat_completeness auto
termination
  by (relation "measure length") auto

declare read_chars.simps [simp del]

definition int_digits :: "string \<Rightarrow> string" where
  "int_digits s = (if prefix ''0'' s then ''0'' else takeWhile is_ascii_digit s)"

definition fraction_of :: "string \<Rightarrow> string" where
  "fraction_of s = (if prefix ''.'' s \<and> takeWhile is_ascii_digit (tl s) \<noteq> [] then ''.'' @ takeWhile is_ascii_digit (tl s) else [])"

definition exponent_of :: "string \<Rightarrow> string" where
  "exponent_of s = (if prefix ''e'' s \<or> prefix ''E'' s
     then let sign = (if prefix ''+'' (tl s) \<or> prefix ''-'' (tl s) then take 1 (tl s) else []);
              digits = takeWhile is_ascii_digit (drop (length sign) (tl s))
          in if digits = [] then [] else take 1 s @ sign @ digits
     else [])"

definition read_number :: "(string \<Rightarrow> rat) \<Rightarrow> string \<Rightarrow> (json \<times> string) option" where
  "read_number read_float s =
     (let sign = (if prefix ''-'' s then ''-'' else []); digits = int_digits (drop (length sign) s);
          u = drop (length sign + length digits) s; fraction = fraction_of u;
          tail = fraction @ exponent_of (drop (length fraction) u)
      in if digits = [] then None
         else if tail = [] then Some (JInt ((if sign = [] then 1 else - 1) * int (nat_of_digits digits)), u)
         else Some (JFloat (read_float (sign @ digits @ tail)), drop (length tail) u))"

definition read_constant :: "string \<Rightarrow> (json \<times> string) option" where
  "read_constant s = (if prefix ''null'' s then Some (JNull, drop 4 s) else if prefix ''true'' s then Some (JBool True, drop 4 s)
     else if prefix ''false'' s then Some (JBool False, drop 5 s) else None)"

lemma length_skip: "length (skip_space s) \<le> length s"
  by (simp add: skip_space_def length_dropWhile_le)

lemma skip_shorter:
  assumes "length u < n"
  shows "length (skip_space u) \<le> n" "Suc (2 * length (skip_space u)) \<le> 2 * n"
  using length_skip [of u] assms by linarith+

function (sequential) read_value :: "(string \<Rightarrow> rat) \<Rightarrow> string \<Rightarrow> (json \<times> string) option"
  and read_items :: "(string \<Rightarrow> rat) \<Rightarrow> string \<Rightarrow> (json list \<times> string) option"
  and read_members :: "(string \<Rightarrow> rat) \<Rightarrow> string \<Rightarrow> ((string \<times> json) list \<times> string) option" where
  "read_value f [] = None"
| "read_value f (c # t) =
     (if c = CHR 0x22 then map_option (\<lambda>(x, r). (JStr x, r)) (read_chars t)
      else if c = CHR ''['' then (if prefix '']'' (skip_space t) then Some (JList [], tl (skip_space t))
        else map_option (\<lambda>(xs, r). (JList xs, r)) (read_items f (skip_space t)))
      else if c = CHR ''{'' then (if prefix ''}'' (skip_space t) then Some (JObj [], tl (skip_space t))
        else map_option (\<lambda>(kvs, r). (JObj (dict_of kvs), r)) (read_members f (skip_space t)))
      else case read_constant (c # t) of Some x \<Rightarrow> Some x | None \<Rightarrow> read_number f (c # t))"
| "read_items f s = (case read_value f s of None \<Rightarrow> None | Some (x, r) \<Rightarrow> (case skip_space r of
       [] \<Rightarrow> None
     | d # u \<Rightarrow> if d = CHR '']'' then Some ([x], u)
         else if d = CHR '','' \<and> length u < length s then map_option (\<lambda>(xs, r). (x # xs, r)) (read_items f (skip_space u))
         else None))"
| "read_members f s = (if \<not> prefix [CHR 0x22] s then None else case read_chars (tl s) of None \<Rightarrow> None | Some (k, r) \<Rightarrow>
     (case skip_space r of
       [] \<Rightarrow> None
     | d # u \<Rightarrow> if d \<noteq> CHR '':'' \<or> length s \<le> length u then None
         else case read_value f (skip_space u) of None \<Rightarrow> None | Some (x, r) \<Rightarrow> (case skip_space r of
             [] \<Rightarrow> None
           | e # v \<Rightarrow> if e = CHR ''}'' then Some ([(k, x)], v)
               else if e = CHR '','' \<and> length v < length s
               then map_option (\<lambda>(kvs, r). ((k, x) # kvs, r)) (read_members f (skip_space v)) else None)))"
  by pat_completeness auto
termination
proof (relation "measure (case_sum (\<lambda>(f, s). 2 * length s) (case_sum (\<lambda>(f, s). 2 * length s + 1) (\<lambda>(f, s). 2 * length s + 1)))",
    goal_cases)
qed (use length_skip in \<open>auto simp: le_imp_less_Suc less_Suc_eq_le not_le intro: le_less_trans skip_shorter\<close>)

declare read_items.simps [simp del] read_members.simps [simp del]

definition loads :: "(string \<Rightarrow> rat) \<Rightarrow> string \<Rightarrow> json option" where
  "loads f s = (case read_value f (skip_space s) of None \<Rightarrow> None
     | Some (v, r) \<Rightarrow> if skip_space r = [] then Some v else None)"

section \<open>Reading what was written\<close>

lemma hex_value_char: "d < 16 \<Longrightarrow> hex_value (hex_char d) = Some d"
  by (auto simp: hex_value_def hex_char_def cp_def Let_def)

lemma hex4_code:
  assumes "cp c < 256"
  shows "hex4 (CHR ''0'' # CHR ''0'' # hex_char (cp c div 16) # hex_char (cp c mod 16) # t) = Some (c, t)"
proof -
  have "cp c div 16 < 16" using assms by (simp add: less_mult_imp_div_less)
  moreover have "hex_value (CHR ''0'') = Some 0" by (simp add: hex_value_def cp_def)
  ultimately show ?thesis by (simp add: hex4_def hex_value_char cp_def)
qed

lemma cp_bound: "cp c < 256"
  by (simp add: cp_def)

lemma cp_code: "cp c = cp d \<Longrightarrow> c = d"
  by (simp add: cp_def)

lemma special_codes:
  assumes "cp c \<in> {8, 9, 10, 12, 13, 34, 92}"
  shows "c \<in> {CHR 0x08, CHR 0x09, CHR 0x0A, CHR 0x0C, CHR 0x0D, CHR 0x22, CHR 0x5C}"
proof -
  have "{8, 9, 10, 12, 13, 34, 92} = cp ` {CHR 0x08, CHR 0x09, CHR 0x0A, CHR 0x0C, CHR 0x0D, CHR 0x22, CHR 0x5C}"
    by (simp add: cp_def)
  moreover have "inj cp" by (intro injI cp_code)
  ultimately show ?thesis using assms by (simp only: inj_image_mem_iff)
qed

lemma read_escaped: "char_read (ascii_char c @ t) = Some (c, t) \<and> ascii_char c \<noteq> [] \<and> hd (ascii_char c) \<noteq> CHR 0x22"
proof -
  consider (low) "cp c \<in> {8, 9, 10, 12, 13, 34, 92}" | (code) "cp c \<notin> {8, 9, 10, 12, 13, 34, 92}" "cp c < 32 \<or> 126 < cp c"
    | (plain) "cp c \<notin> {8, 9, 10, 12, 13, 34, 92}" "32 \<le> cp c" "cp c \<le> 126" by fastforce
  then show ?thesis
  proof cases
    case low
    from special_codes [OF this] show ?thesis
      by (elim insertE emptyE) (simp_all add: ascii_char_def esc_char_def char_read_def simple_escape_def cp_def Let_def)
  next
    case code
    then have "ascii_char c = [CHR 0x5C, CHR ''u'', CHR ''0'', CHR ''0'', hex_char (cp c div 16), hex_char (cp c mod 16)]"
      by (auto simp: ascii_char_def esc_char_def Let_def)
    then show ?thesis by (simp add: char_read_def hex4_code [OF cp_bound])
  next
    case plain
    then have "ascii_char c = [c]" by (auto simp: ascii_char_def esc_char_def Let_def)
    moreover have "c \<noteq> CHR 0x22" "c \<noteq> CHR 0x5C" using plain(1) by (auto simp: cp_def)
    ultimately show ?thesis using plain by (simp add: char_read_def)
  qed
qed

lemma read_chars_written: "read_chars (concat (map ascii_char s) @ CHR 0x22 # rest) = Some (s, rest)"
proof (induction s)
  case Nil
  show ?case by (subst read_chars.simps) simp
next
  case (Cons c s)
  let ?t = "concat (map ascii_char s) @ CHR 0x22 # rest"
  from read_escaped [of c ?t] have c: "char_read (ascii_char c @ ?t) = Some (c, ?t)" "ascii_char c \<noteq> []" "hd (ascii_char c) \<noteq> CHR 0x22"
    by simp_all
  then have "hd (ascii_char c @ ?t) \<noteq> CHR 0x22" "length ?t < length (ascii_char c @ ?t)" by simp_all
  with c(1) Cons show ?case by (subst read_chars.simps) simp
qed

definition after_value :: "string \<Rightarrow> bool" where
  "after_value rest = (rest = [] \<or> hd rest \<in> {CHR '','', CHR 0x0A})"

lemma digits10_head: "0 < n \<Longrightarrow> hd (digits10 n) \<noteq> CHR ''0''"
proof (induction n rule: digits10.induct)
  case (1 n)
  show ?case
  proof (cases "n < 10")
    case True
    with 1(2) cp_digit_char [of n] show ?thesis by (subst digits10.simps) (auto simp: cp_def)
  next
    case False
    with 1 have "hd (digits10 (n div 10)) \<noteq> CHR ''0''" by simp
    with False digits10_ne show ?thesis by (subst digits10.simps) simp
  qed
qed

lemma after_value_stops:
  assumes "after_value rest"
  shows "takeWhile is_ascii_digit rest = []" "fraction_of rest = []" "exponent_of rest = []"
  using assms by (cases rest; auto simp: after_value_def is_ascii_digit_def cp_def fraction_of_def exponent_of_def)+

lemma zero_digits:
  assumes "prefix ''0'' (digits10 n @ rest)"
  shows "digits10 n = ''0''"
proof -
  have "hd (digits10 n) = CHR ''0''" using assms digits10_ne [of n] by (cases "digits10 n") auto
  then have "n = 0" using digits10_head by blast
  moreover have "digit_char 0 = CHR ''0''" using cp_digit_char [of 0] by (intro cp_code) (simp add: cp_def)
  ultimately show ?thesis by (subst digits10.simps) simp
qed

lemma int_digits_written: "after_value rest \<Longrightarrow> int_digits (digits10 n @ rest) = digits10 n"
  using zero_digits [of n rest] digits10_ascii [of n] after_value_stops(1) [of rest]
  by (auto simp: int_digits_def takeWhile_append2 list_all_iff)

lemma no_sign: "\<not> prefix ''-'' (digits10 n @ rest)"
proof
  assume "prefix ''-'' (digits10 n @ rest)"
  then have "hd (digits10 n) = CHR ''-''" using digits10_ne [of n] by (cases "digits10 n") auto
  with digits10_ascii [of n] digits10_ne [of n] show False by (cases "digits10 n") (simp_all add: is_ascii_digit_def cp_def)
qed

lemma read_signed:
  assumes "after_value rest" and "sign = (if i < 0 then ''-'' else [])"
  shows "read_number f (sign @ digits10 n @ rest) = Some (JInt ((if sign = [] then 1 else - 1) * int n), rest)"
proof -
  have "(if prefix ''-'' (sign @ digits10 n @ rest) then ''-'' else []) = sign" using assms(2) no_sign by simp
  then show ?thesis
    using int_digits_written [OF assms(1), of n] after_value_stops [OF assms(1)] digits10_ne [of n]
    by (simp add: read_number_def nat_of_digits10)
qed

lemma read_number_written: "after_value rest \<Longrightarrow> read_number f (str_int i @ rest) = Some (JInt i, rest)"
  using read_signed [of rest _ i f "nat (abs i)"] by (auto simp: str_int_def)

fun plain_json :: "json \<Rightarrow> bool" where
  \<comment> \<open>without floats and times, each object a dictionary\<close>
  "plain_json (JList xs) = (\<forall>x\<in>set xs. plain_json x)"
| "plain_json (JObj kvs) = (distinct (map fst kvs) \<and> (\<forall>kv\<in>set kvs. plain_json (snd kv)))"
| "plain_json (JFloat r) = False"
| "plain_json (JTime t) = False"
| "plain_json v = True"

fun sorted_keys :: "json \<Rightarrow> json" where
  "sorted_keys (JList xs) = JList (map sorted_keys xs)"
| "sorted_keys (JObj kvs) = JObj (sort_key fst (map (\<lambda>kv. (fst kv, sorted_keys (snd kv))) kvs))"
| "sorted_keys v = v"

definition starts_value :: "string \<Rightarrow> bool" where
  "starts_value s = (s \<noteq> [] \<and> \<not> is_json_space (hd s) \<and> hd s \<notin> {CHR '']'', CHR ''}''})"

lemma skip_value: "starts_value s \<Longrightarrow> skip_space (s @ t) = s @ t"
  by (cases s) (simp_all add: starts_value_def skip_space_def)

lemma skip_newline: "skip_space (newline_at n @ s) = skip_space s"
proof -
  have "dropWhile is_json_space (replicate k (CHR '' '') @ s) = dropWhile is_json_space s" for k
    by (induction k) (simp_all add: is_json_space_def cp_def)
  then show ?thesis by (simp add: skip_space_def newline_at_def is_json_space_def cp_def)
qed

lemma skip_mark: "c \<in> {CHR '','', CHR '':'', CHR '']'', CHR ''}''} \<Longrightarrow> skip_space (c # s) = c # s"
  by (auto simp: skip_space_def is_json_space_def cp_def)

lemma after_newline: "after_value (newline_at n @ s)"
  by (simp add: after_value_def newline_at_def)

lemma read_items_written:
  assumes "\<And>x rest. x \<in> set xs \<Longrightarrow> after_value rest \<Longrightarrow> read_value f (g x @ rest) = Some (k x, rest)"
    and "\<And>x. x \<in> set xs \<Longrightarrow> starts_value (g x)" and "xs \<noteq> []"
  shows "read_items f (py_join (CHR '','' # newline_at m) (map g xs) @ newline_at n @ CHR '']'' # rest) = Some (map k xs, rest)"
  using assms
proof (induction xs)
  case (Cons x xs)
  show ?case
  proof (cases xs)
    case Nil
    have "read_value f (g x @ newline_at n @ CHR '']'' # rest) = Some (k x, newline_at n @ CHR '']'' # rest)"
      using Cons.prems(1) after_newline by simp
    then show ?thesis using Nil by (subst read_items.simps) (simp add: skip_newline skip_mark)
  next
    case (Cons y ys)
    let ?later = "py_join (CHR '','' # newline_at m) (map g xs) @ newline_at n @ CHR '']'' # rest"
    have split: "py_join (CHR '','' # newline_at m) (map g (x # xs)) @ newline_at n @ CHR '']'' # rest
        = g x @ CHR '','' # newline_at m @ ?later"
      using Cons by (simp add: py_join_Cons)
    have x: "read_value f (g x @ CHR '','' # newline_at m @ ?later) = Some (k x, CHR '','' # newline_at m @ ?later)"
      using Cons.prems(1) by (simp add: after_value_def)
    have "starts_value (g y)" using Cons.prems(2) Cons by simp
    moreover obtain s where "?later = g y @ s" using Cons by (cases ys) simp_all
    ultimately have "skip_space (newline_at m @ ?later) = ?later" by (simp add: skip_newline skip_value)
    moreover have "read_items f ?later = Some (map k xs, rest)" using Cons.IH Cons.prems Cons by simp
    ultimately show ?thesis unfolding split by (subst read_items.simps) (simp add: x skip_mark)
  qed
qed simp

lemma read_members_written:
  assumes "\<And>x rest. x \<in> set kvs \<Longrightarrow> after_value rest \<Longrightarrow> read_value f (g (snd x) @ rest) = Some (k (snd x), rest)"
    and "\<And>x. x \<in> set kvs \<Longrightarrow> starts_value (g (snd x))" and "kvs \<noteq> []"
  shows "read_members f (py_join (CHR '','' # newline_at m) (map (\<lambda>x. ascii_string (fst x) @ '': '' @ g (snd x)) kvs)
      @ newline_at n @ CHR ''}'' # rest) = Some (map (\<lambda>x. (fst x, k (snd x))) kvs, rest)"
  using assms
proof (induction kvs)
  case (Cons x kvs)
  let ?entry = "\<lambda>x. ascii_string (fst x) @ '': '' @ g (snd x)"
  have key: "read_chars (tl (?entry x @ s)) = Some (fst x, '': '' @ g (snd x) @ s)"
    "prefix [CHR 0x22] (?entry x @ s)" for s
    using read_chars_written [of "fst x" "'': '' @ g (snd x) @ s"] by (simp_all add: ascii_string_def)
  have long: "0 < length (ascii_string (fst x))" by (simp add: ascii_string_def)
  have colon: "skip_space ('': '' @ s) = '': '' @ s" "skip_space ('' '' @ g (snd x) @ s) = g (snd x) @ s" for s
    using skip_value [of "g (snd x)" s] Cons.prems(2) by (simp_all add: skip_space_def is_json_space_def cp_def)
  show ?case
  proof (cases kvs)
    case Nil
    have "read_value f (g (snd x) @ newline_at n @ CHR ''}'' # rest) = Some (k (snd x), newline_at n @ CHR ''}'' # rest)"
      using Cons.prems(1) after_newline by simp
    then show ?thesis
      using Nil key [of "newline_at n @ CHR ''}'' # rest"] long colon by (subst read_members.simps) (simp add: skip_newline skip_mark)
  next
    case (Cons y ys)
    let ?later = "py_join (CHR '','' # newline_at m) (map ?entry kvs) @ newline_at n @ CHR ''}'' # rest"
    let ?rest = "CHR '','' # newline_at m @ ?later"
    have split: "py_join (CHR '','' # newline_at m) (map ?entry (x # kvs)) @ newline_at n @ CHR ''}'' # rest = ?entry x @ ?rest"
      using Cons by (simp add: py_join_Cons)
    have x: "read_value f (g (snd x) @ ?rest) = Some (k (snd x), ?rest)"
      using Cons.prems(1) by (simp add: after_value_def)
    have "starts_value (?entry y)" by (simp add: starts_value_def ascii_string_def is_json_space_def cp_def)
    moreover obtain s where "?later = ?entry y @ s" using Cons by (cases ys) simp_all
    ultimately have "skip_space (newline_at m @ ?later) = ?later" using skip_value [of "?entry y" s] by (simp add: skip_newline)
    moreover have "read_members f ?later = Some (map (\<lambda>x. (fst x, k (snd x))) kvs, rest)" using Cons.IH Cons.prems Cons by simp
    ultimately show ?thesis
      unfolding split using key [of ?rest] long x colon by (subst read_members.simps) (simp add: skip_mark)
  qed
qed simp

lemma dumps_starts: "plain_json j \<Longrightarrow> starts_value (dumps_pretty h n j)"
proof (cases j)
  case (JInt i)
  have "starts_value (digits10 k)" for k
    using digits10_ascii [of k] digits10_ne [of k]
    by (cases "digits10 k") (auto simp: starts_value_def is_ascii_digit_def is_json_space_def cp_def)
  then show ?thesis using JInt by (auto simp: str_int_def starts_value_def is_json_space_def cp_def)
qed (auto simp: starts_value_def is_json_space_def cp_def ascii_string_def bracketed_def)

lemma sort_key_map:
  fixes kvs :: "('k::linorder \<times> 'v) list"
  shows "sort_key fst (map (\<lambda>kv. (fst kv, g (snd kv))) kvs) = map (\<lambda>kv. (fst kv, g (snd kv))) (sort_key fst kvs)"
proof -
  have "insort_key fst (fst x, g (snd x)) (map (\<lambda>kv. (fst kv, g (snd kv))) ys)
      = map (\<lambda>kv. (fst kv, g (snd kv))) (insort_key fst x ys)" for x and ys :: "('k \<times> 'v) list"
    by (induction ys) auto
  then show ?thesis by (induction kvs) (simp_all add: sort_key_def)
qed

lemma int_text: "\<exists>c s. str_int i = c # s \<and> (c = CHR ''-'' \<or> is_ascii_digit c)"
  using digits10_ascii [of "nat i"] digits10_ne [of "nat i"] by (cases "digits10 (nat i)") (auto simp: str_int_def)

lemma read_value_written:
  "plain_json j \<Longrightarrow> after_value rest \<Longrightarrow> read_value f (dumps_pretty h n j @ rest) = Some (sorted_keys j, rest)"
proof (induction j arbitrary: n rest)
  case (JInt i)
  from int_text obtain c s where c: "str_int i = c # s" and start: "c = CHR ''-'' \<or> is_ascii_digit c" by blast
  have "c \<noteq> CHR 0x22" "c \<noteq> CHR ''[''" "c \<noteq> CHR ''{''" "c \<notin> {CHR ''n'', CHR ''t'', CHR ''f''}"
    using start by (auto simp: is_ascii_digit_def cp_def)
  moreover from this(4) have "read_constant (c # s @ rest) = None" by (auto simp: read_constant_def)
  ultimately show ?case using read_number_written [OF JInt(2), of f i] by (simp add: c)
next
  case (JStr s)
  have "read_value f (CHR 0x22 # concat (map ascii_char s) @ CHR 0x22 # rest) = Some (JStr s, rest)"
    using read_chars_written by simp
  then show ?case by (simp add: ascii_string_def)
next
  case (JList xs)
  show ?case
  proof (cases "xs = []")
    case True
    then show ?thesis by (simp add: bracketed_def skip_mark)
  next
    case False
    let ?text = "py_join (CHR '','' # newline_at (Suc n)) (map (dumps_pretty h (Suc n)) xs) @ newline_at n @ CHR '']'' # rest"
    have items: "read_items f ?text = Some (map sorted_keys xs, rest)"
      using JList False by (intro read_items_written) (auto intro: dumps_starts)
    obtain x xs' where xs: "xs = x # xs'" using False by (cases xs) auto
    then have x: "starts_value (dumps_pretty h (Suc n) x)" using JList.prems(1) by (auto intro: dumps_starts)
    obtain s where s: "?text = dumps_pretty h (Suc n) x @ s" using xs by (cases xs') simp_all
    have "skip_space (newline_at (Suc n) @ ?text) = ?text" unfolding skip_newline s by (rule skip_value [OF x])
    moreover have "\<not> prefix '']'' ?text" unfolding s using x by (cases "dumps_pretty h (Suc n) x") (auto simp: starts_value_def)
    moreover have "dumps_pretty h n (JList xs) @ rest = CHR ''['' # newline_at (Suc n) @ ?text" using False by (simp add: bracketed_def)
    ultimately show ?thesis using items by (simp del: dumps_pretty.simps)
  qed
next
  case (JObj kvs)
  let ?kvs = "sort_key fst kvs"
  have sorted: "sort_key fst (map (\<lambda>kv. (fst kv, dumps_pretty h (Suc n) (snd kv))) kvs) = map (\<lambda>kv. (fst kv, dumps_pretty h (Suc n) (snd kv))) ?kvs"
    "sort_key fst (map (\<lambda>kv. (fst kv, sorted_keys (snd kv))) kvs) = map (\<lambda>kv. (fst kv, sorted_keys (snd kv))) ?kvs"
    by (rule sort_key_map)+
  show ?case
  proof (cases "kvs = []")
    case True
    then show ?thesis by (simp add: bracketed_def skip_mark)
  next
    case False
    let ?entry = "\<lambda>x. ascii_string (fst x) @ '': '' @ dumps_pretty h (Suc n) (snd x)"
    let ?text = "py_join (CHR '','' # newline_at (Suc n)) (map ?entry ?kvs) @ newline_at n @ CHR ''}'' # rest"
    have some: "?kvs \<noteq> []" using False by (metis length_0_conv length_sort)
    have "read_value f (dumps_pretty h (Suc n) (snd x) @ rest') = Some (sorted_keys (snd x), rest')"
      if "x \<in> set ?kvs" "after_value rest'" for x rest'
    proof (rule JObj.IH)
      show "x \<in> set kvs" using that by simp
      then show "plain_json (snd x)" using JObj.prems(1) by simp
      show "snd x \<in> Basic_BNFs.snds x" by (cases x) simp
    qed (rule that)
    moreover have "starts_value (dumps_pretty h (Suc n) (snd x))" if "x \<in> set ?kvs" for x
      using that JObj.prems(1) by (auto intro: dumps_starts)
    ultimately have members: "read_members f ?text = Some (map (\<lambda>x. (fst x, sorted_keys (snd x))) ?kvs, rest)"
      using some by (intro read_members_written)
    obtain x kvs' where xs: "?kvs = x # kvs'" using some by (cases ?kvs) auto
    have x: "starts_value (?entry x)" by (simp add: starts_value_def ascii_string_def is_json_space_def cp_def)
    obtain s where s: "?text = ?entry x @ s" unfolding xs by (cases kvs') simp_all
    have "skip_space (newline_at (Suc n) @ ?text) = ?text" unfolding skip_newline s by (rule skip_value [OF x])
    moreover have "\<not> prefix ''}'' ?text" unfolding s by (simp add: ascii_string_def)
    moreover have "dumps_pretty h n (JObj kvs) @ rest = CHR ''{'' # newline_at (Suc n) @ ?text"
      using some by (simp add: bracketed_def sorted comp_def)
    moreover have "distinct (map fst (map (\<lambda>x. (fst x, sorted_keys (snd x))) ?kvs))"
    proof -
      have "mset (map fst ?kvs) = mset (map fst kvs)" by simp
      then have "distinct (map fst ?kvs)" using JObj.prems(1) mset_eq_imp_distinct_iff by fastforce
      then show ?thesis by (simp add: comp_def)
    qed
    ultimately show ?thesis using members by (simp add: dict_of_distinct sorted del: dumps_pretty.simps)
  qed
qed (simp_all add: read_constant_def)


end
