(* ===== verification/Release_Instances.thy ===== *)
theory Release_Instances
  imports Staging_Plan Json_Text Samples
begin

text \<open>
  A configured environment with reviewed evidence for every company gate, at which the properties of the
  release gates are instantiated.
\<close>

definition demo_environment :: environment where
  "demo_environment = [(''STATE_STORE'', ''postgres''), (''POSTGRES_DSN'', ''x''), (''GRAPH_BACKEND'', ''neo4j''), (''NEO4J_URI'', ''x''),
     (''NEO4J_USERNAME'', ''x''), (''NEO4J_PASSWORD'', ''x''), (''VECTOR_BACKEND'', ''qdrant''), (''QDRANT_URL'', ''x''),
     (''QDRANT_COLLECTION'', ''x''), (''MODEL_GATEWAY_MODE'', ''http_json''), (''MODEL_GATEWAY_ENDPOINT_URL'', ''x''),
     (''AUTH_MODE'', ''trusted_proxy''), (''TRUSTED_PROXY_SECRET'', ''x''), (''TRUSTED_GROUP_ROLE_MAP'', ''x''),
     (''OTEL_ENABLED'', ''true''), (''OTEL_EXPORTER_OTLP_ENDPOINT'', ''x''), (''ARTIFACT_ROOT'', ''x'')]"

definition demo_review_item :: "string \<Rightarrow> json" where
  "demo_review_item g = JObj [(''check_id'', JStr g), (''status'', JStr ''passed''), (''summary'', JStr ''s''), (''evidence'', jstrs [''run:1''])]"

definition demo_record :: "string \<Rightarrow> manual_evidence" where
  "demo_record g = \<lparr>me_check_id = g, me_status = CS_Passed, me_summary = ''s'', me_evidence = [''run:1'']\<rparr>"

definition demo_review :: jobj where
  "demo_review = [(''schema_version'', JStr ''v1''), (''reviewed_by'', JStr ''o''), (''reviewed_at'', JStr ''t''),
     (''checks'', JList (map demo_review_item (company_gates @ [''local_regression_gates''])))]"

lemma demo_text [simp]: "\<not> contains_todo [''s'', ''run:1'']" "\<not> contains_todo [''o'']" "\<not> contains_todo [''t'']"
  "py_strip ''o'' \<noteq> []" "py_strip ''t'' \<noteq> []" "py_strip ''run:1'' \<noteq> []" "traceable_reference ''run:1''"
  by code_simp+

lemma demo_item_record: "g \<noteq> [] \<Longrightarrow> g \<notin> set seen \<Longrightarrow> evidence_record i seen (demo_review_item g) = Inr (demo_record g)"
  by (simp add: evidence_record_def demo_review_item_def jget_def evidence_status_def rbind_def evidence_body_def jstrs_def json_text_def
      demo_record_def)

lemma demo_items: "distinct gs \<Longrightarrow> [] \<notin> set gs \<Longrightarrow> set gs \<inter> set seen = {}
    \<Longrightarrow> evidence_records i seen (map demo_review_item gs) = Inr (map demo_record gs)"
proof (induction gs arbitrary: i seen)
  case (Cons g gs)
  then have "evidence_record i seen (demo_review_item g) = Inr (demo_record g)" by (intro demo_item_record) auto
  moreover have "evidence_records (Suc i) (g # seen) (map demo_review_item gs) = Inr (map demo_record gs)" using Cons by auto
  moreover have "me_check_id (demo_record g) = g" by (simp add: demo_record_def)
  ultimately show ?case by (simp add: rbind_def)
qed simp

lemma demo_reviewed: "rmap reviewed_record (map demo_record gs) = Inr (map (\<lambda>_. ()) gs)"
  by (induction gs) (simp_all add: reviewed_record_def demo_record_def rbind_def)

lemma demo_gates: "distinct (company_gates @ [''local_regression_gates''])" "[] \<notin> set (company_gates @ [''local_regression_gates''])"
  by (simp_all add: company_gates_def)

lemma demo_review_fields:
  "jget demo_review ''schema_version'' = JStr ''v1''" "reviewed_field demo_review ''reviewed_by'' = Inr ''o''"
  "reviewed_field demo_review ''reviewed_at'' = Inr ''t''"
  "jget demo_review ''checks'' = JList (map demo_review_item (company_gates @ [''local_regression_gates'']))"
  by (simp_all add: demo_review_def jget_def reviewed_field_def)

lemma demo_loaded: "load_manual_evidence (\<lambda>_. Some (Some 0)) (JObj demo_review)
    = Inr (map demo_record (company_gates @ [''local_regression_gates'']))"
proof -
  let ?gs = "company_gates @ [''local_regression_gates'']"
  have all: "filter (\<lambda>r. me_status r = CS_Passed) (map demo_record gs) = map demo_record gs" for gs
    by (simp add: filter_id_conv demo_record_def)
  have "evidence_records 0 [] (map demo_review_item ?gs) = Inr (map demo_record ?gs)" using demo_gates by (intro demo_items) simp_all
  moreover have "validate_review_metadata (\<lambda>_. Some (Some 0)) demo_review (map demo_record ?gs) = Inr ()"
    unfolding validate_review_metadata_def Let_def all demo_reviewed demo_review_fields by (simp add: rbind_def reviewed_at_utc_def)
  ultimately show ?thesis
    unfolding load_manual_evidence_def json.case demo_review_fields by (simp add: rbind_def del: map_append)
qed

lemma demo_configured: "configured demo_environment" "\<not> kubernetes_selected demo_environment"
  by code_simp+

lemma demo_released: "readiness_main (\<lambda>_. Some (Some 0)) demo_environment None (Some (JObj demo_review)) = Inr 0"
proof -
  let ?records = "map demo_record (company_gates @ [''local_regression_gates''])"
  have ids: "map me_check_id ?records = company_gates @ [''local_regression_gates'']"
    by (simp add: demo_record_def comp_def)
  have "passed_evidence ?records g" if "g \<in> set (company_gates @ [''local_regression_gates''])" for g
    using that by (auto simp: passed_evidence_def demo_record_def)
  moreover have "manual_gates demo_environment None = company_gates @ [''local_regression_gates'']"
    using demo_configured by (simp add: manual_gates_def local_gates_manual_def)
  moreover have "me_check_id ` set ?records \<subseteq> set known_gates"
    by (auto simp: known_gates_def demo_record_def)
  ultimately have "rp_passed (build_readiness_report demo_environment None ?records)"
    using report_passed_exact [of ?records demo_environment None] ids demo_gates demo_configured
    by (simp add: local_gates_manual_def del: map_append)
  then show ?thesis by (simp add: readiness_main_def demo_loaded rbind_def del: map_append)
qed

lemma release_gate_sound_witness:
  "configured demo_environment \<and> gate_reviewed (\<lambda>_. Some (Some 0)) (Some (JObj demo_review)) ''company_postgres_rehearsal''"
proof -
  have "''company_postgres_rehearsal'' \<in> set (manual_gates demo_environment None)" by (simp add: manual_gates_def company_gates_def)
  with release_gate_sound [OF demo_released] show ?thesis by blast
qed

definition demo_tree :: release_tree where
  "demo_tree = \<lparr>rl_exists = (\<lambda>_. True), rl_items = [], rl_audit_text = [], rl_plan_text = [], rl_required_mark = ''in'',
     rl_excluded_mark = ''out'', rl_objective = ''release''\<rparr>"



end
